(* ===== verification/Prelude.thy ===== *)
theory Prelude
  imports Main "HOL-Library.Word" "HOL-Library.Char_ord" "HOL-Library.List_Lexorder"
begin

text \<open>
  Shared vocabulary of the development: machine-integer types, fixed buffers and their block
  copies, big-endian pairs, bytewise exclusive-or, strings as byte strings, and the ordered
  association list that stands for a C++ \<open>std::map\<close>. Component theories add their own facts to
  the collections \<open>wf_rules\<close> (well-formedness preservation) and \<open>buffer_simps\<close>.
\<close>

unbundle bit_operations_syntax

type_synonym u8 = "8 word"
type_synonym u16 = "16 word"
type_synonym u32 = "32 word"
type_synonym bytes = "u8 list"

text \<open>A node address is three bytes (\<open>NODE_ID_SIZE\<close>); the length is part of well-formedness.\<close>

type_synonym node_id = "u8 list"

named_theorems wf_rules \<open>well-formedness is preserved\<close>
named_theorems buffer_simps \<open>block copies and slices of buffers\<close>

section \<open>Generic facts on words\<close>

lemma unat_u8_less [simp]: "unat (b :: u8) < 256"
  by (rule order_less_le_trans [OF unsigned_less]) simp

lemma u8_to_u16_zero [simp]: "(ucast (b :: u8) :: u16) = 0 \<longleftrightarrow> b = 0"
proof
  assume "(ucast b :: u16) = 0"
  then have "ucast (ucast b :: u16) = (0 :: u8)" by simp
  moreover have "ucast (ucast b :: u16) = b"
    by (rule bit_word_eqI) (simp add: bit_simps)
  ultimately show "b = 0" by simp
qed simp

lemma bit_drop_1: "bit (drop_bit 1 (w :: 'a::len word)) n = bit w (Suc n)"
  by (simp only: bit_drop_bit_eq comp_apply plus_1_eq_Suc)

section \<open>Generic facts on lists\<close>

lemma nth_list_16:
  "length xs = 16 \<Longrightarrow>
   xs = [xs ! 0, xs ! 1, xs ! 2, xs ! 3, xs ! 4, xs ! 5, xs ! 6, xs ! 7,
         xs ! 8, xs ! 9, xs ! 10, xs ! 11, xs ! 12, xs ! 13, xs ! 14, xs ! 15]"
  by (rule nth_equalityI) (auto simp: nth_Cons' less_Suc_eq numeral_eq_Suc)

lemma nth_list_3: "length xs = 3 \<Longrightarrow> xs = [xs ! 0, xs ! 1, xs ! 2]"
  by (rule nth_equalityI) (auto simp: nth_Cons' less_Suc_eq numeral_eq_Suc)

lemma length_3E:
  assumes "length xs = 3"
  obtains a b c where "xs = [a, b, c]"
  using nth_list_3 [OF assms] that by blast

section \<open>Buffers\<close>

text \<open>
  \<open>blit buf off src\<close> is \<open>memcpy(&buf[off], src, length src)\<close> on a buffer that is long enough.
\<close>

definition blit :: "'a list \<Rightarrow> nat \<Rightarrow> 'a list \<Rightarrow> 'a list" where
  "blit buf off src = take off buf @ src @ drop (off + length src) buf"

definition sub_bytes :: "nat \<Rightarrow> nat \<Rightarrow> 'a list \<Rightarrow> 'a list" where
  "sub_bytes off n buf = take n (drop off buf)"

lemma length_blit [simp]:
  "off + length src \<le> length buf \<Longrightarrow> length (blit buf off src) = length buf"
  by (simp add: blit_def)

lemma blit_Nil [simp, buffer_simps]: "blit buf off [] = buf"
  by (simp add: blit_def)

lemma sub_bytes_blit [simp, buffer_simps]:
  "off \<le> length buf \<Longrightarrow> sub_bytes off (length src) (blit buf off src) = src"
  by (simp add: blit_def sub_bytes_def)

lemma take_blit_0 [simp, buffer_simps]: "take (length src) (blit buf 0 src) = src"
  by (simp add: blit_def)

lemma length_sub_bytes [simp]: "off + n \<le> length buf \<Longrightarrow> length (sub_bytes off n buf) = n"
  by (simp add: sub_bytes_def)

section \<open>Text\<close>

text \<open>Strings are lists of bytes as characters; multi-byte UTF-8 characters are spelt out.\<close>

definition nl :: string where
  "nl = [CHR 0x0A]"

definition text_line :: "string \<Rightarrow> string" where
  "text_line s = s @ nl"

definition quoted :: "string \<Rightarrow> string" where
  "quoted s = CHR 0x22 # s @ [CHR 0x22]"

definition em_dash :: string where
  "em_dash = [CHR 0xE2, CHR 0x80, CHR 0x94]"

text \<open>\<open>std::to_string\<close> and the \<open>%u\<close> of \<open>snprintf\<close>.\<close>

fun dec_string :: "nat \<Rightarrow> string" where
  "dec_string n = (if n < 10 then [char_of (48 + n)] else dec_string (n div 10) @ [char_of (48 + n mod 10)])"

declare dec_string.simps [simp del]

section \<open>Big-endian byte pairs\<close>

definition be16 :: "u8 \<Rightarrow> u8 \<Rightarrow> u16" where
  "be16 msb lsb = push_bit 8 (ucast msb) OR ucast lsb"

definition hi8 :: "u16 \<Rightarrow> u8" where
  "hi8 w = ucast (drop_bit 8 w)"

definition lo8 :: "u16 \<Rightarrow> u8" where
  "lo8 w = ucast w"

lemma be16_hi_lo [simp]: "be16 (hi8 w) (lo8 w) = w"
  by (rule bit_word_eqI) (auto simp: be16_def hi8_def lo8_def bit_simps)

lemma hi8_be16 [simp]: "hi8 (be16 a b) = a"
  by (rule bit_word_eqI) (auto simp: be16_def hi8_def bit_simps dest: bit_imp_le_length)

lemma lo8_be16 [simp]: "lo8 (be16 a b) = b"
  by (rule bit_word_eqI) (auto simp: be16_def lo8_def bit_simps)

section \<open>Big-endian words\<close>

definition be32 :: "u32 \<Rightarrow> bytes" where
  "be32 w = [ucast (drop_bit 24 w), ucast (drop_bit 16 w), ucast (drop_bit 8 w), ucast w]"

definition read32 :: "bytes \<Rightarrow> u32" where
  "read32 d = push_bit 24 (ucast (d ! 0)) OR push_bit 16 (ucast (d ! 1)) OR push_bit 8 (ucast (d ! 2)) OR ucast (d ! 3)"

lemma read32_be32 [simp]: "read32 (be32 w @ ps) = w"
proof (rule bit_word_eqI)
  fix n :: nat
  assume n: "n < LENGTH(32)"
  have m: "n - 24 < 8" "n - 24 < 32" "n - 16 < 32" "n - 8 < 32" using n by auto
  have e: "n < 24 \<or> 24 + (n - 24) = n" "n < 16 \<or> 16 + (n - 16) = n" "n < 8 \<or> 8 + (n - 8) = n" by auto
  have s: "bit w m \<Longrightarrow> m < 32" for m using bit_imp_le_length [of w m] by simp
  show "bit (read32 (be32 w @ ps)) n = bit w n"
    using n m e s by (cases "n < 8"; cases "n < 16"; cases "n < 24") (auto simp: read32_def be32_def bit_simps)
qed

lemma length_be32 [simp]: "length (be32 w) = 4"
  by (simp add: be32_def)

section \<open>Bytewise exclusive-or\<close>

definition xor_bytes :: "bytes \<Rightarrow> bytes \<Rightarrow> bytes" where
  "xor_bytes xs ys = map2 (\<lambda>a b. a XOR b) xs ys"

lemma length_xor_bytes [simp]: "length (xor_bytes xs ys) = min (length xs) (length ys)"
  by (simp add: xor_bytes_def)

lemma nth_xor_bytes [simp]:
  "i < length xs \<Longrightarrow> i < length ys \<Longrightarrow> xor_bytes xs ys ! i = xs ! i XOR ys ! i"
  by (simp add: xor_bytes_def)

lemma word_xor_cancel [simp]: "(a XOR b) XOR b = (a :: 'a::len word)"
  by (simp add: xor.assoc)

lemma xor_bytes_cancel [simp]:
  "length xs = length ys \<Longrightarrow> xor_bytes (xor_bytes xs ys) ys = xs"
  by (rule nth_equalityI) auto

lemma word_xor_eq_zero_iff [simp]: "(a XOR b = 0) = (a = (b :: 'a::len word))"
proof
  assume "a XOR b = 0"
  then have "(a XOR b) XOR b = 0 XOR b" by simp
  then show "a = b" by simp
qed simp

lemma word_or_eq_zero_iff: "(a OR b = 0) = (a = 0 \<and> b = (0 :: 'a::len word))"
  by (auto simp: bit_eq_iff bit_simps)

section \<open>Ordered maps\<close>

text \<open>
  \<open>std::map\<close> keeps its keys sorted and iterates in key order. Here it is an association list with
  strictly increasing keys; strings compare bytewise, as \<open>std::string\<close> does.
\<close>

type_synonym ('k, 'v) omap = "('k \<times> 'v) list"

fun om_put :: "'k::linorder \<Rightarrow> 'v \<Rightarrow> ('k, 'v) omap \<Rightarrow> ('k, 'v) omap" where
  "om_put k v [] = [(k, v)]"
| "om_put k v ((a, b) # m) =
     (if k < a then (k, v) # (a, b) # m
      else if k = a then (k, v) # m
      else (a, b) # om_put k v m)"

definition om_get :: "('k, 'v) omap \<Rightarrow> 'k \<Rightarrow> 'v option" where
  "om_get m k = map_of m k"

definition om_wf :: "('k::linorder, 'v) omap \<Rightarrow> bool" where
  "om_wf m \<longleftrightarrow> sorted_wrt (<) (map fst m)"

text \<open>\<open>m[k]\<close> default-inserts the key; an update through \<open>find\<close> leaves an absent key absent.\<close>

definition om_touch :: "'v \<Rightarrow> 'k::linorder \<Rightarrow> ('v \<Rightarrow> 'v) \<Rightarrow> ('k, 'v) omap \<Rightarrow> ('k, 'v) omap" where
  "om_touch dflt k f m = om_put k (f (case om_get m k of None \<Rightarrow> dflt | Some v \<Rightarrow> v)) m"

definition om_adjust :: "'k::linorder \<Rightarrow> ('v \<Rightarrow> 'v) \<Rightarrow> ('k, 'v) omap \<Rightarrow> ('k, 'v) omap" where
  "om_adjust k f m = (case om_get m k of None \<Rightarrow> m | Some v \<Rightarrow> om_put k (f v) m)"

lemma om_get_Nil [simp]: "om_get [] k = None"
  by (simp add: om_get_def)

lemma om_get_put: "om_get (om_put k v m) = (om_get m)(k \<mapsto> v)"
  by (induction k v m rule: om_put.induct) (auto simp: om_get_def fun_eq_iff)

lemma om_get_put_same [simp]: "om_get (om_put k v m) k = Some v"
  by (simp add: om_get_put)

lemma om_get_put_other [simp]: "k' \<noteq> k \<Longrightarrow> om_get (om_put k v m) k' = om_get m k'"
  by (simp add: om_get_put)

lemma fst_set_om_put: "fst ` set (om_put k v m) = insert k (fst ` set m)"
  by (induction k v m rule: om_put.induct) auto

lemma om_wf_Nil [simp]: "om_wf []"
  by (simp add: om_wf_def)

lemma om_wf_put [simp, wf_rules]: "om_wf m \<Longrightarrow> om_wf (om_put k v m)"
proof (induction k v m rule: om_put.induct)
  case (2 k v a b m)
  then have tail: "om_wf m" and low: "\<forall>x \<in> fst ` set m. a < x"
    by (auto simp: om_wf_def)
  consider "k < a" | "k = a" | "a < k" by (meson linorder_neqE)
  then show ?case
  proof cases
    case 3
    with 2 tail have "om_wf (om_put k v m)" by auto
    moreover have "\<forall>x \<in> fst ` set (om_put k v m). a < x"
      using low 3 by (auto simp: fst_set_om_put)
    ultimately show ?thesis using 3 by (auto simp: om_wf_def)
  qed (use 2 low in \<open>fastforce simp: om_wf_def\<close>)+
qed (simp add: om_wf_def)

lemma om_get_Some_in: "om_get m k = Some v \<Longrightarrow> (k, v) \<in> set m"
  by (simp add: om_get_def map_of_SomeD)

lemma om_wf_distinct: "om_wf m \<Longrightarrow> distinct (map fst m)"
  unfolding om_wf_def using strict_sorted_iff by blast

lemma om_get_in_wf: "om_wf m \<Longrightarrow> (k, v) \<in> set m \<Longrightarrow> om_get m k = Some v"
  by (simp add: om_get_def om_wf_distinct)

lemma om_get_touch:
  "om_get (om_touch dflt k f m) k' =
     (if k' = k then Some (f (case om_get m k of None \<Rightarrow> dflt | Some v \<Rightarrow> v)) else om_get m k')"
  by (simp add: om_touch_def)

lemma om_get_adjust:
  "om_get (om_adjust k f m) k' = (if k' = k then map_option f (om_get m k) else om_get m k')"
  by (simp add: om_adjust_def split: option.split)

lemma om_wf_touch [simp, wf_rules]: "om_wf m \<Longrightarrow> om_wf (om_touch dflt k f m)"
  by (simp add: om_touch_def)

lemma om_wf_adjust [simp, wf_rules]: "om_wf m \<Longrightarrow> om_wf (om_adjust k f m)"
  by (simp add: om_adjust_def split: option.split)

section \<open>State machines\<close>

text \<open>
  The contract between a component and its caller: the component has an initial state and a step per
  call, and promises an invariant that every step keeps. Then it holds after any sequence of calls,
  in particular between any two calls of an interleaving of callers.
\<close>

inductive reachable :: "'s \<Rightarrow> ('a \<Rightarrow> 's \<Rightarrow> 's) \<Rightarrow> 's \<Rightarrow> bool" for init step where
  reachable_init: "reachable init step init"
| reachable_step: "reachable init step s \<Longrightarrow> reachable init step (step a s)"

locale machine =
  fixes init :: 's and step :: "'a \<Rightarrow> 's \<Rightarrow> 's" and inv :: "'s \<Rightarrow> bool"
  assumes inv_init: "inv init"
    and inv_step: "inv s \<Longrightarrow> inv (step a s)"
begin

lemma inv_reachable: "reachable init step s \<Longrightarrow> inv s"
  by (induction rule: reachable.induct) (simp_all add: inv_init inv_step)

lemma inv_run: "inv s \<Longrightarrow> inv (fold step as s)"
  by (induction as arbitrary: s) (simp_all add: inv_step)

lemma inv_history: "inv (fold step as init)"
  by (rule inv_run [OF inv_init])

end

lemma reachable_fold: "reachable init step (fold step as init)"
  by (induction as rule: rev_induct) (auto intro: reachable.intros)

end
