(* ===== verification/Constants.thy ===== *)
theory Constants
  imports Prelude
begin

text \<open>
  The protocol's named constants, with the names and widths the headers give them, and the
  diagnostic tables of \<open>proto_constants.cpp\<close>. A constant is an abbreviation, so the simplifier
  sees its value. Sizes, offsets, shift counts and retry counts are natural numbers, everything
  that goes on the wire is a word of its declared width. A C++ \<open>switch\<close> over byte values is
  \<open>switch_on\<close> over the list of its cases, with the \<open>default\<close> branch as second argument.
\<close>

fun switch_on :: "('a \<times> 'b) list \<Rightarrow> 'b \<Rightarrow> 'a \<Rightarrow> 'b" where
  "switch_on [] d x = d"
| "switch_on ((a, b) # cases) d x = (if x = a then b else switch_on cases d x)"

lemma switch_on_cases: "switch_on cs d x = d \<or> (x, switch_on cs d x) \<in> set cs"
  by (induction cs d x rule: switch_on.induct) auto

lemma switch_on_hit:
  "distinct (map fst cs) \<Longrightarrow> (x, b) \<in> set cs \<Longrightarrow> switch_on cs d x = b"
  by (induction cs d x rule: switch_on.induct) force+

lemma switch_on_miss: "x \<notin> fst ` set cs \<Longrightarrow> switch_on cs d x = d"
  by (induction cs d x rule: switch_on.induct) auto

section \<open>Sizes (proto\_sizes.h)\<close>

abbreviation (input) NODE_ID_SIZE :: nat where
  "NODE_ID_SIZE \<equiv> 3"

abbreviation (input) NODE_ID_STRING_SIZE :: nat where
  "NODE_ID_STRING_SIZE \<equiv> (NODE_ID_SIZE * 2) + 1"

abbreviation (input) HMAC_SIZE :: nat where
  "HMAC_SIZE \<equiv> 6"

abbreviation (input) AES_KEY_SIZE :: nat where
  "AES_KEY_SIZE \<equiv> 16"

abbreviation (input) AES_BLOCK_SIZE :: nat where
  "AES_BLOCK_SIZE \<equiv> 16"

abbreviation (input) IV_SIZE :: nat where
  "IV_SIZE \<equiv> 16"

abbreviation (input) IV_PADDING :: u8 where
  "IV_PADDING \<equiv> 0x55"

abbreviation (input) BITS_PER_BYTE :: nat where
  "BITS_PER_BYTE \<equiv> 8"

abbreviation (input) FRAME_MIN_SIZE :: nat where
  "FRAME_MIN_SIZE \<equiv> 9"

abbreviation (input) FRAME_MAX_DECLARED_SIZE :: nat where
  "FRAME_MAX_DECLARED_SIZE \<equiv> 32"

abbreviation (input) FRAME_MAX_SIZE :: nat where
  "FRAME_MAX_SIZE \<equiv> FRAME_MAX_DECLARED_SIZE"

abbreviation (input) FRAME_MAX_DATA_SIZE :: nat where
  "FRAME_MAX_DATA_SIZE \<equiv> 23"

abbreviation (input) FRAME_CMD_OFFSET :: nat where
  "FRAME_CMD_OFFSET \<equiv> 8"

abbreviation (input) FRAME_CRC_SIZE :: nat where
  "FRAME_CRC_SIZE \<equiv> 2"

abbreviation (input) FRAME_MAX_TRAILER_SIZE :: nat where
  "FRAME_MAX_TRAILER_SIZE \<equiv> HMAC_SIZE"

abbreviation (input) FRAME_MAX_WIRE_SIZE :: nat where
  "FRAME_MAX_WIRE_SIZE \<equiv> FRAME_MAX_DECLARED_SIZE + FRAME_MAX_TRAILER_SIZE + FRAME_CRC_SIZE"

section \<open>Control bytes (proto\_frame.h)\<close>

abbreviation (input) CTRL0_END :: u8 where
  "CTRL0_END \<equiv> 0x80"

abbreviation (input) CTRL0_START :: u8 where
  "CTRL0_START \<equiv> 0x40"

abbreviation (input) CTRL0_PROTOCOL_1W :: u8 where
  "CTRL0_PROTOCOL_1W \<equiv> 0x20"

abbreviation (input) CTRL0_LENGTH_MASK :: u8 where
  "CTRL0_LENGTH_MASK \<equiv> 0x1F"

abbreviation (input) CTRL1_VERSION_MASK :: u8 where
  "CTRL1_VERSION_MASK \<equiv> 0x03"

abbreviation (input) CTRL1_PRIORITY :: u8 where
  "CTRL1_PRIORITY \<equiv> 0x04"

abbreviation (input) CTRL1_ACK :: u8 where
  "CTRL1_ACK \<equiv> 0x10"

abbreviation (input) CTRL1_LOW_POWER :: u8 where
  "CTRL1_LOW_POWER \<equiv> 0x20"

abbreviation (input) CTRL1_ROUTED :: u8 where
  "CTRL1_ROUTED \<equiv> 0x40"

abbreviation (input) CTRL1_BEACON :: u8 where
  "CTRL1_BEACON \<equiv> 0x80"

section \<open>Device model constants (proto\_device\_model.h)\<close>

abbreviation (input) STATUS_POS_MAX :: u16 where
  "STATUS_POS_MAX \<equiv> 0xC800"

abbreviation (input) STATUS_POS_TOLERANCE_RAW :: u16 where
  "STATUS_POS_TOLERANCE_RAW \<equiv> 100"

abbreviation (input) DEVICE_METADATA_SIZE :: nat where
  "DEVICE_METADATA_SIZE \<equiv> 2"

abbreviation (input) DEVICE_TYPE_LOW_BITS_SHIFT :: nat where
  "DEVICE_TYPE_LOW_BITS_SHIFT \<equiv> 2"

abbreviation (input) DEVICE_TYPE_HIGH_BITS_SHIFT :: nat where
  "DEVICE_TYPE_HIGH_BITS_SHIFT \<equiv> 6"

abbreviation (input) DEVICE_SUBTYPE_MASK :: u8 where
  "DEVICE_SUBTYPE_MASK \<equiv> 0x3F"

abbreviation (input) DEVICE_NAME_BUFFER_SIZE :: nat where
  "DEVICE_NAME_BUFFER_SIZE \<equiv> 32"

section \<open>Codec constants (proto\_codecs.h)\<close>

abbreviation (input) DEVICE_NAME_WRITE_CHAR_LIMIT :: nat where
  "DEVICE_NAME_WRITE_CHAR_LIMIT \<equiv> 15"

abbreviation (input) DEVICE_NAME_WRITE_PAYLOAD_SIZE :: nat where
  "DEVICE_NAME_WRITE_PAYLOAD_SIZE \<equiv> DEVICE_NAME_WRITE_CHAR_LIMIT + 1"

abbreviation (input) LATIN1_CODEPOINT_MAX :: u16 where
  "LATIN1_CODEPOINT_MAX \<equiv> 0x00FF"

abbreviation (input) ADDRESS_SUFFIX_MASK :: u8 where
  "ADDRESS_SUFFIX_MASK \<equiv> 0x3F"

abbreviation (input) ADDRESS_SUFFIX_BROADCAST :: u8 where
  "ADDRESS_SUFFIX_BROADCAST \<equiv> 0x3F"

abbreviation (input) ADDRESS_SUFFIX_DISCOVERY :: u8 where
  "ADDRESS_SUFFIX_DISCOVERY \<equiv> 0x3B"

section \<open>Protocol constants (proto\_constants.h)\<close>

abbreviation (input) CMD_EXECUTE :: u8 where
  "CMD_EXECUTE \<equiv> 0x00"

abbreviation (input) CMD_ACTIVATE_MODE :: u8 where
  "CMD_ACTIVATE_MODE \<equiv> 0x01"

abbreviation (input) CMD_PRIVATE :: u8 where
  "CMD_PRIVATE \<equiv> 0x03"

abbreviation (input) CMD_PRIVATE_RESP :: u8 where
  "CMD_PRIVATE_RESP \<equiv> 0x04"

abbreviation (input) CMD_PRIVATE2 :: u8 where
  "CMD_PRIVATE2 \<equiv> 0x0C"

abbreviation (input) CMD_PRIVATE2_RESP :: u8 where
  "CMD_PRIVATE2_RESP \<equiv> 0x0D"

abbreviation (input) CMD_SET_SENSOR :: u8 where
  "CMD_SET_SENSOR \<equiv> 0x19"

abbreviation (input) CMD_SET_SENSOR_ACK :: u8 where
  "CMD_SET_SENSOR_ACK \<equiv> 0x1A"

abbreviation (input) CMD_IDENTIFY :: u8 where
  "CMD_IDENTIFY \<equiv> 0x1E"

abbreviation (input) CMD_WRITE_PRIVATE :: u8 where
  "CMD_WRITE_PRIVATE \<equiv> 0x20"

abbreviation (input) CMD_WRITE_PRIVATE_ACK :: u8 where
  "CMD_WRITE_PRIVATE_ACK \<equiv> 0x21"

abbreviation (input) CMD_DISCOVER_REQ :: u8 where
  "CMD_DISCOVER_REQ \<equiv> 0x28"

abbreviation (input) CMD_DISCOVER_RESP :: u8 where
  "CMD_DISCOVER_RESP \<equiv> 0x29"

abbreviation (input) CMD_DISCOVER_SPE_REQ :: u8 where
  "CMD_DISCOVER_SPE_REQ \<equiv> 0x2A"

abbreviation (input) CMD_DISCOVER_SPE_RESP :: u8 where
  "CMD_DISCOVER_SPE_RESP \<equiv> 0x2B"

abbreviation (input) CMD_DISCOVER_CONFIRM :: u8 where
  "CMD_DISCOVER_CONFIRM \<equiv> 0x2C"

abbreviation (input) CMD_DISCOVER_CONFIRM_ACK :: u8 where
  "CMD_DISCOVER_CONFIRM_ACK \<equiv> 0x2D"

abbreviation (input) CMD_DISCOVER_ALT_REQ :: u8 where
  "CMD_DISCOVER_ALT_REQ \<equiv> 0x2E"

abbreviation (input) CMD_DISCOVER_ALT_RESP :: u8 where
  "CMD_DISCOVER_ALT_RESP \<equiv> 0x2F"

abbreviation (input) CMD_ONEWAY_ADD_CONTROLLER :: u8 where
  "CMD_ONEWAY_ADD_CONTROLLER \<equiv> 0x30"

abbreviation (input) CMD_ONEWAY_REMOVE :: u8 where
  "CMD_ONEWAY_REMOVE \<equiv> 0x39"

abbreviation (input) CMD_KEY_INIT :: u8 where
  "CMD_KEY_INIT \<equiv> 0x31"

abbreviation (input) CMD_KEY_TRANSFER :: u8 where
  "CMD_KEY_TRANSFER \<equiv> 0x32"

abbreviation (input) CMD_KEY_CONFIRM :: u8 where
  "CMD_KEY_CONFIRM \<equiv> 0x33"

abbreviation (input) CMD_ADDRESS_REQ :: u8 where
  "CMD_ADDRESS_REQ \<equiv> 0x36"

abbreviation (input) CMD_ADDRESS_RESP :: u8 where
  "CMD_ADDRESS_RESP \<equiv> 0x37"

abbreviation (input) CMD_LAUNCH_KEY_TRANSFER :: u8 where
  "CMD_LAUNCH_KEY_TRANSFER \<equiv> 0x38"

abbreviation (input) CMD_CHALLENGE_REQ :: u8 where
  "CMD_CHALLENGE_REQ \<equiv> 0x3C"

abbreviation (input) CMD_CHALLENGE_RESP :: u8 where
  "CMD_CHALLENGE_RESP \<equiv> 0x3D"

abbreviation (input) CMD_UNKNOWN4A_REQ :: u8 where
  "CMD_UNKNOWN4A_REQ \<equiv> 0x4A"

abbreviation (input) CMD_UNKNOWN4A_RESP :: u8 where
  "CMD_UNKNOWN4A_RESP \<equiv> 0x4B"

abbreviation (input) CMD_GET_NAME :: u8 where
  "CMD_GET_NAME \<equiv> 0x50"

abbreviation (input) CMD_GET_NAME_RESP :: u8 where
  "CMD_GET_NAME_RESP \<equiv> 0x51"

abbreviation (input) CMD_SET_NAME :: u8 where
  "CMD_SET_NAME \<equiv> 0x52"

abbreviation (input) CMD_SET_NAME_RESP :: u8 where
  "CMD_SET_NAME_RESP \<equiv> 0x53"

abbreviation (input) CMD_GET_INFO1 :: u8 where
  "CMD_GET_INFO1 \<equiv> 0x54"

abbreviation (input) CMD_GET_INFO1_RESP :: u8 where
  "CMD_GET_INFO1_RESP \<equiv> 0x55"

abbreviation (input) CMD_GET_INFO2 :: u8 where
  "CMD_GET_INFO2 \<equiv> 0x56"

abbreviation (input) CMD_GET_INFO2_RESP :: u8 where
  "CMD_GET_INFO2_RESP \<equiv> 0x57"

abbreviation (input) CMD_GET_GENERAL_INFO3 :: u8 where
  "CMD_GET_GENERAL_INFO3 \<equiv> 0x58"

abbreviation (input) CMD_GET_GENERAL_INFO3_RESP :: u8 where
  "CMD_GET_GENERAL_INFO3_RESP \<equiv> 0x59"

abbreviation (input) CMD_SET_CONFIG1 :: u8 where
  "CMD_SET_CONFIG1 \<equiv> 0x6F"

abbreviation (input) CMD_SET_CONFIG1_RESP :: u8 where
  "CMD_SET_CONFIG1_RESP \<equiv> 0x70"

abbreviation (input) CMD_STATUS_UPDATE :: u8 where
  "CMD_STATUS_UPDATE \<equiv> 0x71"

abbreviation (input) CMD_STATUS_UPDATE_RESP :: u8 where
  "CMD_STATUS_UPDATE_RESP \<equiv> 0x72"

abbreviation (input) CMD_SEND_RAW_MESSAGE :: u8 where
  "CMD_SEND_RAW_MESSAGE \<equiv> 0xF0"

abbreviation (input) CMD_READ_GROUPS :: u8 where
  "CMD_READ_GROUPS \<equiv> 0xF1"

abbreviation (input) CMD_REBOOT :: u8 where
  "CMD_REBOOT \<equiv> 0xF2"

abbreviation (input) CMD_SERVICE_STATUS_ACK :: u8 where
  "CMD_SERVICE_STATUS_ACK \<equiv> 0xF3"

abbreviation (input) CMD_ERROR_RESP :: u8 where
  "CMD_ERROR_RESP \<equiv> 0xFE"

abbreviation (input) RESULT_UNKNOWN_STATUS_REPLY :: u8 where
  "RESULT_UNKNOWN_STATUS_REPLY \<equiv> 0x00"

abbreviation (input) RESULT_COMMAND_COMPLETED_OK :: u8 where
  "RESULT_COMMAND_COMPLETED_OK \<equiv> 0x01"

abbreviation (input) RESULT_NO_CONTACT :: u8 where
  "RESULT_NO_CONTACT \<equiv> 0x02"

abbreviation (input) RESULT_MANUALLY_OPERATED :: u8 where
  "RESULT_MANUALLY_OPERATED \<equiv> 0x03"

abbreviation (input) RESULT_BLOCKED :: u8 where
  "RESULT_BLOCKED \<equiv> 0x04"

abbreviation (input) RESULT_WRONG_SYSTEMKEY :: u8 where
  "RESULT_WRONG_SYSTEMKEY \<equiv> 0x05"

abbreviation (input) RESULT_PRIORITY_LEVEL_LOCKED :: u8 where
  "RESULT_PRIORITY_LEVEL_LOCKED \<equiv> 0x06"

abbreviation (input) RESULT_REACHED_WRONG_POSITION :: u8 where
  "RESULT_REACHED_WRONG_POSITION \<equiv> 0x07"

abbreviation (input) RESULT_ERROR_DURING_EXECUTION :: u8 where
  "RESULT_ERROR_DURING_EXECUTION \<equiv> 0x08"

abbreviation (input) RESULT_NO_EXECUTION :: u8 where
  "RESULT_NO_EXECUTION \<equiv> 0x09"

abbreviation (input) RESULT_CALIBRATING :: u8 where
  "RESULT_CALIBRATING \<equiv> 0x0A"

abbreviation (input) RESULT_POWER_CONSUMPTION_TOO_HIGH :: u8 where
  "RESULT_POWER_CONSUMPTION_TOO_HIGH \<equiv> 0x0B"

abbreviation (input) RESULT_POWER_CONSUMPTION_TOO_LOW :: u8 where
  "RESULT_POWER_CONSUMPTION_TOO_LOW \<equiv> 0x0C"

abbreviation (input) RESULT_LOCK_POSITION_OPEN :: u8 where
  "RESULT_LOCK_POSITION_OPEN \<equiv> 0x0D"

abbreviation (input) RESULT_MOTION_TIME_TOO_LONG :: u8 where
  "RESULT_MOTION_TIME_TOO_LONG \<equiv> 0x0E"

abbreviation (input) RESULT_THERMAL_PROTECTION :: u8 where
  "RESULT_THERMAL_PROTECTION \<equiv> 0x0F"

abbreviation (input) RESULT_PRODUCT_NOT_OPERATIONAL :: u8 where
  "RESULT_PRODUCT_NOT_OPERATIONAL \<equiv> 0x10"

abbreviation (input) RESULT_FILTER_MAINTENANCE_NEEDED :: u8 where
  "RESULT_FILTER_MAINTENANCE_NEEDED \<equiv> 0x11"

abbreviation (input) RESULT_BATTERY_LEVEL :: u8 where
  "RESULT_BATTERY_LEVEL \<equiv> 0x12"

abbreviation (input) RESULT_TARGET_MODIFIED :: u8 where
  "RESULT_TARGET_MODIFIED \<equiv> 0x13"

abbreviation (input) RESULT_MODE_NOT_IMPLEMENTED :: u8 where
  "RESULT_MODE_NOT_IMPLEMENTED \<equiv> 0x14"

abbreviation (input) RESULT_COMMAND_INCOMPATIBLE_TO_MOVEMENT :: u8 where
  "RESULT_COMMAND_INCOMPATIBLE_TO_MOVEMENT \<equiv> 0x15"

abbreviation (input) RESULT_USER_ACTION :: u8 where
  "RESULT_USER_ACTION \<equiv> 0x16"

abbreviation (input) RESULT_DEAD_BOLT_ERROR :: u8 where
  "RESULT_DEAD_BOLT_ERROR \<equiv> 0x17"

abbreviation (input) RESULT_AUTOMATIC_CYCLE_ENGAGED :: u8 where
  "RESULT_AUTOMATIC_CYCLE_ENGAGED \<equiv> 0x18"

abbreviation (input) RESULT_WRONG_LOAD_CONNECTED :: u8 where
  "RESULT_WRONG_LOAD_CONNECTED \<equiv> 0x19"

abbreviation (input) RESULT_COLOUR_NOT_REACHABLE :: u8 where
  "RESULT_COLOUR_NOT_REACHABLE \<equiv> 0x1A"

abbreviation (input) RESULT_TARGET_NOT_REACHABLE :: u8 where
  "RESULT_TARGET_NOT_REACHABLE \<equiv> 0x1B"

abbreviation (input) RESULT_BAD_INDEX_RECEIVED :: u8 where
  "RESULT_BAD_INDEX_RECEIVED \<equiv> 0x1C"

abbreviation (input) RESULT_COMMAND_OVERRULED :: u8 where
  "RESULT_COMMAND_OVERRULED \<equiv> 0x1D"

abbreviation (input) RESULT_NODE_WAITING_FOR_POWER :: u8 where
  "RESULT_NODE_WAITING_FOR_POWER \<equiv> 0x1E"

abbreviation (input) RESULT_NODE_LOCKED :: u8 where
  "RESULT_NODE_LOCKED \<equiv> 0x20"

abbreviation (input) RESULT_WRONG_POSITION :: u8 where
  "RESULT_WRONG_POSITION \<equiv> 0x21"

abbreviation (input) RESULT_LIMITS_NOT_SET :: u8 where
  "RESULT_LIMITS_NOT_SET \<equiv> 0x22"

abbreviation (input) RESULT_IP_NOT_SET :: u8 where
  "RESULT_IP_NOT_SET \<equiv> 0x23"

abbreviation (input) RESULT_OUT_OF_RANGE :: u8 where
  "RESULT_OUT_OF_RANGE \<equiv> 0x24"

abbreviation (input) RESULT_PRIORITY_LOCKED_NON_EXEC :: u8 where
  "RESULT_PRIORITY_LOCKED_NON_EXEC \<equiv> 0x38"

abbreviation (input) RESULT_INVALID_FUNCTION_INDEX :: u8 where
  "RESULT_INVALID_FUNCTION_INDEX \<equiv> 0x58"

abbreviation (input) RESULT_INFORMATION_CODE :: u8 where
  "RESULT_INFORMATION_CODE \<equiv> 0xDF"

abbreviation (input) RESULT_PARAMETER_LIMITED :: u8 where
  "RESULT_PARAMETER_LIMITED \<equiv> 0xE0"

abbreviation (input) RESULT_LIMITATION_BY_LOCAL_USER :: u8 where
  "RESULT_LIMITATION_BY_LOCAL_USER \<equiv> 0xE1"

abbreviation (input) RESULT_LIMITATION_BY_USER :: u8 where
  "RESULT_LIMITATION_BY_USER \<equiv> 0xE2"

abbreviation (input) RESULT_LIMITATION_BY_RAIN :: u8 where
  "RESULT_LIMITATION_BY_RAIN \<equiv> 0xE3"

abbreviation (input) RESULT_LIMITATION_BY_TIMER :: u8 where
  "RESULT_LIMITATION_BY_TIMER \<equiv> 0xE4"

abbreviation (input) RESULT_LIMITATION_BY_SCD :: u8 where
  "RESULT_LIMITATION_BY_SCD \<equiv> 0xE5"

abbreviation (input) RESULT_LIMITATION_BY_UPS :: u8 where
  "RESULT_LIMITATION_BY_UPS \<equiv> 0xE6"

abbreviation (input) RESULT_LIMITATION_BY_UNKNOWN_DEVICE :: u8 where
  "RESULT_LIMITATION_BY_UNKNOWN_DEVICE \<equiv> 0xE7"

abbreviation (input) RESULT_LIMITATION_BY_SAAC :: u8 where
  "RESULT_LIMITATION_BY_SAAC \<equiv> 0xEA"

abbreviation (input) RESULT_LIMITATION_BY_WIND :: u8 where
  "RESULT_LIMITATION_BY_WIND \<equiv> 0xEB"

abbreviation (input) RESULT_LIMITATION_BY_MYSELF :: u8 where
  "RESULT_LIMITATION_BY_MYSELF \<equiv> 0xEC"

abbreviation (input) RESULT_LIMITATION_BY_AUTOMATIC_CYCLE :: u8 where
  "RESULT_LIMITATION_BY_AUTOMATIC_CYCLE \<equiv> 0xED"

abbreviation (input) RESULT_LIMITATION_BY_EMERGENCY :: u8 where
  "RESULT_LIMITATION_BY_EMERGENCY \<equiv> 0xEE"

abbreviation (input) POS_STOP :: u8 where
  "POS_STOP \<equiv> 0xD2"

abbreviation (input) POS_UNKNOWN :: u8 where
  "POS_UNKNOWN \<equiv> 0xD4"

abbreviation (input) POS_FAVORITE :: u8 where
  "POS_FAVORITE \<equiv> 0xD8"

abbreviation (input) POS_SECURED_TARGET :: u8 where
  "POS_SECURED_TARGET \<equiv> 0xD1"

abbreviation (input) POS_DEFAULT :: u8 where
  "POS_DEFAULT \<equiv> 0xD3"

abbreviation (input) POS_FORCE_OPEN :: u8 where
  "POS_FORCE_OPEN \<equiv> 0x64"

abbreviation (input) POS_VENT_MODIFIER :: u8 where
  "POS_VENT_MODIFIER \<equiv> 0x03"

abbreviation (input) POSITION_WIRE_SCALE :: u8 where
  "POSITION_WIRE_SCALE \<equiv> 2"

abbreviation (input) POSITION_WIRE_MAX :: u8 where
  "POSITION_WIRE_MAX \<equiv> 200"

abbreviation (input) STATUS_STOPPED :: u8 where
  "STATUS_STOPPED \<equiv> 0x01"

abbreviation (input) STATUS_EXPECTED :: u8 where
  "STATUS_EXPECTED \<equiv> 0x80"

abbreviation (input) STATUS_TILT_SELECTOR :: u8 where
  "STATUS_TILT_SELECTOR \<equiv> 0x20"

abbreviation (input) PRIVATE_GET_POSITION_STATUS :: u8 where
  "PRIVATE_GET_POSITION_STATUS \<equiv> 0x03"

abbreviation (input) CRC_POLYNOMIAL_REVERSED :: u16 where
  "CRC_POLYNOMIAL_REVERSED \<equiv> 0x8408"

abbreviation (input) CRC_LSB_MASK :: u16 where
  "CRC_LSB_MASK \<equiv> 0x0001"

abbreviation (input) MANUFACTURER_ID_MAX :: u8 where
  "MANUFACTURER_ID_MAX \<equiv> 12"

abbreviation (input) MANUFACTURER_VELUX :: u8 where
  "MANUFACTURER_VELUX \<equiv> 1"

abbreviation (input) MANUFACTURER_SOMFY :: u8 where
  "MANUFACTURER_SOMFY \<equiv> 2"

abbreviation (input) MANUFACTURER_HONEYWELL :: u8 where
  "MANUFACTURER_HONEYWELL \<equiv> 3"

abbreviation (input) MANUFACTURER_HORMANN :: u8 where
  "MANUFACTURER_HORMANN \<equiv> 4"

abbreviation (input) MANUFACTURER_ASSA_ABLOY :: u8 where
  "MANUFACTURER_ASSA_ABLOY \<equiv> 5"

abbreviation (input) MANUFACTURER_NIKO :: u8 where
  "MANUFACTURER_NIKO \<equiv> 6"

abbreviation (input) MANUFACTURER_WINDOW_MASTER :: u8 where
  "MANUFACTURER_WINDOW_MASTER \<equiv> 7"

abbreviation (input) MANUFACTURER_RENSON :: u8 where
  "MANUFACTURER_RENSON \<equiv> 8"

abbreviation (input) MANUFACTURER_CIAT :: u8 where
  "MANUFACTURER_CIAT \<equiv> 9"

abbreviation (input) MANUFACTURER_SECUYOU :: u8 where
  "MANUFACTURER_SECUYOU \<equiv> 10"

abbreviation (input) MANUFACTURER_OVERKIZ :: u8 where
  "MANUFACTURER_OVERKIZ \<equiv> 11"

abbreviation (input) MANUFACTURER_ATLANTIC_GROUP :: u8 where
  "MANUFACTURER_ATLANTIC_GROUP \<equiv> 12"

abbreviation (input) ORIGINATOR_LOCAL_USER :: u8 where
  "ORIGINATOR_LOCAL_USER \<equiv> 0x00"

abbreviation (input) ORIGINATOR_USER_REMOTE :: u8 where
  "ORIGINATOR_USER_REMOTE \<equiv> 0x01"

abbreviation (input) ORIGINATOR_RAIN_SENSOR :: u8 where
  "ORIGINATOR_RAIN_SENSOR \<equiv> 0x02"

abbreviation (input) ORIGINATOR_TIMER :: u8 where
  "ORIGINATOR_TIMER \<equiv> 0x03"

abbreviation (input) ORIGINATOR_SECURITY :: u8 where
  "ORIGINATOR_SECURITY \<equiv> 0x04"

abbreviation (input) ORIGINATOR_UPS :: u8 where
  "ORIGINATOR_UPS \<equiv> 0x05"

abbreviation (input) ORIGINATOR_SMART_CONTROLLER :: u8 where
  "ORIGINATOR_SMART_CONTROLLER \<equiv> 0x06"

abbreviation (input) ORIGINATOR_LIFESTYLE :: u8 where
  "ORIGINATOR_LIFESTYLE \<equiv> 0x07"

abbreviation (input) ORIGINATOR_SAAC :: u8 where
  "ORIGINATOR_SAAC \<equiv> 0x08"

abbreviation (input) ORIGINATOR_WIND_SENSOR :: u8 where
  "ORIGINATOR_WIND_SENSOR \<equiv> 0x09"

abbreviation (input) ORIGINATOR_LOAD_SHEDDING :: u8 where
  "ORIGINATOR_LOAD_SHEDDING \<equiv> 0x0B"

abbreviation (input) ORIGINATOR_LOCAL_LIGHT :: u8 where
  "ORIGINATOR_LOCAL_LIGHT \<equiv> 0x0C"

abbreviation (input) ORIGINATOR_ENVIRONMENT :: u8 where
  "ORIGINATOR_ENVIRONMENT \<equiv> 0x0D"

abbreviation (input) ORIGINATOR_MYSELF :: u8 where
  "ORIGINATOR_MYSELF \<equiv> 0x10"

abbreviation (input) ORIGINATOR_AUTOMATIC_CYCLE :: u8 where
  "ORIGINATOR_AUTOMATIC_CYCLE \<equiv> 0xFE"

abbreviation (input) ORIGINATOR_EMERGENCY :: u8 where
  "ORIGINATOR_EMERGENCY \<equiv> 0xFF"

abbreviation (input) ACEI_VALID_BIT :: u8 where
  "ACEI_VALID_BIT \<equiv> 0x01"

abbreviation (input) ACEI_EXTENDED_MASK :: u8 where
  "ACEI_EXTENDED_MASK \<equiv> 0x06"

abbreviation (input) ACEI_EXTENDED_SHIFT :: nat where
  "ACEI_EXTENDED_SHIFT \<equiv> 1"

abbreviation (input) ACEI_SERVICE_MASK :: u8 where
  "ACEI_SERVICE_MASK \<equiv> 0x18"

abbreviation (input) ACEI_SERVICE_SHIFT :: nat where
  "ACEI_SERVICE_SHIFT \<equiv> 3"

abbreviation (input) ACEI_LEVEL_MASK :: u8 where
  "ACEI_LEVEL_MASK \<equiv> 0xE0"

abbreviation (input) ACEI_LEVEL_SHIFT :: nat where
  "ACEI_LEVEL_SHIFT \<equiv> 5"

abbreviation (input) ACEI_LEVEL_PROTECTION_HUMAN :: u8 where
  "ACEI_LEVEL_PROTECTION_HUMAN \<equiv> 0"

abbreviation (input) ACEI_LEVEL_PROTECTION_SENSOR :: u8 where
  "ACEI_LEVEL_PROTECTION_SENSOR \<equiv> 1"

abbreviation (input) ACEI_LEVEL_USER_HIGH :: u8 where
  "ACEI_LEVEL_USER_HIGH \<equiv> 2"

abbreviation (input) ACEI_LEVEL_USER_DEFAULT :: u8 where
  "ACEI_LEVEL_USER_DEFAULT \<equiv> 3"

abbreviation (input) ACEI_LEVEL_COMFORT_1 :: u8 where
  "ACEI_LEVEL_COMFORT_1 \<equiv> 4"

abbreviation (input) ACEI_LEVEL_COMFORT_2 :: u8 where
  "ACEI_LEVEL_COMFORT_2 \<equiv> 5"

abbreviation (input) ACEI_LEVEL_AUTO_SAAC :: u8 where
  "ACEI_LEVEL_AUTO_SAAC \<equiv> 6"

abbreviation (input) ACEI_LEVEL_AUTO_DEFAULT :: u8 where
  "ACEI_LEVEL_AUTO_DEFAULT \<equiv> 7"

abbreviation (input) ONEWAY_EXECUTE_ACEI :: u8 where
  "ONEWAY_EXECUTE_ACEI \<equiv> push_bit ACEI_LEVEL_SHIFT ACEI_LEVEL_USER_HIGH OR push_bit ACEI_EXTENDED_SHIFT 1 OR ACEI_VALID_BIT"

abbreviation (input) ONEWAY_EXECUTE_ACEI_VELUX :: u8 where
  "ONEWAY_EXECUTE_ACEI_VELUX \<equiv> push_bit ACEI_LEVEL_SHIFT ACEI_LEVEL_USER_DEFAULT OR ACEI_VALID_BIT"

abbreviation (input) DISCOVERY_RESP_BACKBONE_OFFSET :: nat where
  "DISCOVERY_RESP_BACKBONE_OFFSET \<equiv> 2"

abbreviation (input) DISCOVERY_RESP_MANUFACTURER_OFFSET :: nat where
  "DISCOVERY_RESP_MANUFACTURER_OFFSET \<equiv> 5"

abbreviation (input) DISCOVERY_RESP_FLAGS_OFFSET :: nat where
  "DISCOVERY_RESP_FLAGS_OFFSET \<equiv> 6"

abbreviation (input) DISCOVERY_RESP_TIMESTAMP_OFFSET :: nat where
  "DISCOVERY_RESP_TIMESTAMP_OFFSET \<equiv> 7"

abbreviation (input) DISCOVERY_RESP_FULL_SIZE :: nat where
  "DISCOVERY_RESP_FULL_SIZE \<equiv> 9"

abbreviation (input) DISCOVERY_FLAGS_ATT_MASK :: u8 where
  "DISCOVERY_FLAGS_ATT_MASK \<equiv> 0xC0"

abbreviation (input) DISCOVERY_FLAGS_ATT_SHIFT :: nat where
  "DISCOVERY_FLAGS_ATT_SHIFT \<equiv> 6"

abbreviation (input) DISCOVERY_FLAGS_SYNC_CTRL_GRP :: u8 where
  "DISCOVERY_FLAGS_SYNC_CTRL_GRP \<equiv> 0x20"

abbreviation (input) DISCOVERY_FLAGS_RF_SUPPORT :: u8 where
  "DISCOVERY_FLAGS_RF_SUPPORT \<equiv> 0x08"

abbreviation (input) DISCOVERY_FLAGS_POWER_SAVE_MASK :: u8 where
  "DISCOVERY_FLAGS_POWER_SAVE_MASK \<equiv> 0x03"

abbreviation (input) ATT_CLASS_5S :: u8 where
  "ATT_CLASS_5S \<equiv> 0"

abbreviation (input) ATT_CLASS_10S :: u8 where
  "ATT_CLASS_10S \<equiv> 1"

abbreviation (input) ATT_CLASS_20S :: u8 where
  "ATT_CLASS_20S \<equiv> 2"

abbreviation (input) ATT_CLASS_40S :: u8 where
  "ATT_CLASS_40S \<equiv> 3"

abbreviation (input) POWER_SAVE_ALWAYS_ALIVE :: u8 where
  "POWER_SAVE_ALWAYS_ALIVE \<equiv> 0"

abbreviation (input) POWER_SAVE_LOW_POWER :: u8 where
  "POWER_SAVE_LOW_POWER \<equiv> 1"

section \<open>Channels, retries and timing (proto\_timing.h)\<close>

abbreviation (input) FREQ_CH1 :: u32 where
  "FREQ_CH1 \<equiv> 868250000"

abbreviation (input) FREQ_CH2 :: u32 where
  "FREQ_CH2 \<equiv> 868950000"

abbreviation (input) FREQ_CH3 :: u32 where
  "FREQ_CH3 \<equiv> 869850000"

abbreviation (input) LONG_PREAMBLE :: u16 where
  "LONG_PREAMBLE \<equiv> 1024"

abbreviation (input) SHORT_PREAMBLE :: u16 where
  "SHORT_PREAMBLE \<equiv> 8"

abbreviation (input) COLD_BROADCAST_REPLY_PREAMBLE :: u16 where
  "COLD_BROADCAST_REPLY_PREAMBLE \<equiv> 80"

abbreviation (input) NORMAL_START_PREAMBLE :: u16 where
  "NORMAL_START_PREAMBLE \<equiv> 32"

abbreviation (input) PREAMBLE_LINGER_DWELL_MS :: u32 where
  "PREAMBLE_LINGER_DWELL_MS \<equiv> 15"

abbreviation (input) EXCHANGE_RETRY_COUNT :: nat where
  "EXCHANGE_RETRY_COUNT \<equiv> 3"

abbreviation (input) SCHEDULED_POLL_MAX_TRIES :: nat where
  "SCHEDULED_POLL_MAX_TRIES \<equiv> 1"

abbreviation (input) EXCHANGE_TOTAL_BUDGET_MS :: u16 where
  "EXCHANGE_TOTAL_BUDGET_MS \<equiv> 2500"

abbreviation (input) ONEWAY_BURST_REPEATS :: nat where
  "ONEWAY_BURST_REPEATS \<equiv> 4"

abbreviation (input) ONEWAY_BURST_INTERVAL_MS :: u32 where
  "ONEWAY_BURST_INTERVAL_MS \<equiv> 40"

abbreviation (input) LBT_MAX_RETRIES :: nat where
  "LBT_MAX_RETRIES \<equiv> 5"

abbreviation (input) LBT_RETRY_DELAY_MS :: u8 where
  "LBT_RETRY_DELAY_MS \<equiv> 5"

abbreviation (input) PAIRING_DISCOVERY_WAIT_MS :: u16 where
  "PAIRING_DISCOVERY_WAIT_MS \<equiv> 2000"

abbreviation (input) PAIRING_DISCOVERY_INITIAL_DWELL_MS :: u16 where
  "PAIRING_DISCOVERY_INITIAL_DWELL_MS \<equiv> 300"

abbreviation (input) PAIRING_KEY_EXCHANGE_RETRIES :: nat where
  "PAIRING_KEY_EXCHANGE_RETRIES \<equiv> 3"

abbreviation (input) TRANSFER_KEY :: bytes where
  "TRANSFER_KEY \<equiv> [0x34, 0xC3, 0x46, 0x6E, 0xD8, 0x8F, 0x4E, 0x8E, 0x16, 0xAA, 0x47, 0x39, 0x49, 0x88, 0x43, 0x73]"

abbreviation (input) BROADCAST_DISCOVER :: bytes where
  "BROADCAST_DISCOVER \<equiv> [0x00, 0x00, 0x3B]"

abbreviation (input) BROADCAST_DISCOVER_ALT :: bytes where
  "BROADCAST_DISCOVER_ALT \<equiv> [0x00, 0x00, 0x3F]"

abbreviation (input) RESPONSE_WAIT_MS :: u32 where
  "RESPONSE_WAIT_MS \<equiv> 500"

abbreviation (input) RESPONSE_START_WAIT_MS :: u32 where
  "RESPONSE_START_WAIT_MS \<equiv> 400"

section \<open>Diagnostic tables (proto\_constants.cpp)\<close>

definition command_name :: "u8 \<Rightarrow> string" where
  "command_name code = switch_on [
     (CMD_EXECUTE, ''EXECUTE''),
     (CMD_ACTIVATE_MODE, ''ACTIVATE_MODE''),
     (CMD_PRIVATE, ''PRIVATE''),
     (CMD_PRIVATE_RESP, ''PRIVATE_RESP''),
     (CMD_PRIVATE2, ''PRIVATE2''),
     (CMD_PRIVATE2_RESP, ''PRIVATE2_RESP''),
     (CMD_SET_SENSOR, ''SET_SENSOR''),
     (CMD_SET_SENSOR_ACK, ''SET_SENSOR_ACK''),
     (CMD_IDENTIFY, ''IDENTIFY''),
     (CMD_WRITE_PRIVATE, ''WRITE_PRIVATE''),
     (CMD_WRITE_PRIVATE_ACK, ''WRITE_PRIVATE_ACK''),
     (CMD_DISCOVER_REQ, ''DISCOVER_REQ''),
     (CMD_DISCOVER_RESP, ''DISCOVER_RESP''),
     (CMD_DISCOVER_SPE_REQ, ''DISCOVER_SPE_REQ''),
     (CMD_DISCOVER_SPE_RESP, ''DISCOVER_SPE_RESP''),
     (CMD_DISCOVER_CONFIRM, ''DISCOVER_CONFIRM''),
     (CMD_DISCOVER_CONFIRM_ACK, ''DISCOVER_CONFIRM_ACK''),
     (CMD_DISCOVER_ALT_REQ, ''DISCOVER_ALT_REQ''),
     (CMD_DISCOVER_ALT_RESP, ''DISCOVER_ALT_RESP''),
     (CMD_ONEWAY_ADD_CONTROLLER, ''ONEWAY_ADD_CONTROLLER''),
     (CMD_ONEWAY_REMOVE, ''ONEWAY_REMOVE''),
     (CMD_KEY_INIT, ''KEY_INIT''),
     (CMD_KEY_TRANSFER, ''KEY_TRANSFER''),
     (CMD_KEY_CONFIRM, ''KEY_CONFIRM''),
     (CMD_ADDRESS_REQ, ''ADDRESS_REQ''),
     (CMD_ADDRESS_RESP, ''ADDRESS_RESP''),
     (CMD_LAUNCH_KEY_TRANSFER, ''LAUNCH_KEY_TRANSFER''),
     (CMD_UNKNOWN4A_REQ, ''UNKNOWN4A_REQ''),
     (CMD_UNKNOWN4A_RESP, ''UNKNOWN4A_RESP''),
     (CMD_CHALLENGE_REQ, ''CHALLENGE_REQ''),
     (CMD_CHALLENGE_RESP, ''CHALLENGE_RESP''),
     (CMD_GET_NAME, ''GET_NAME''),
     (CMD_GET_NAME_RESP, ''GET_NAME_RESP''),
     (CMD_SET_NAME, ''SET_NAME''),
     (CMD_SET_NAME_RESP, ''SET_NAME_RESP''),
     (CMD_GET_INFO1, ''GET_INFO1''),
     (CMD_GET_INFO1_RESP, ''GET_INFO1_RESP''),
     (CMD_GET_INFO2, ''GET_INFO2''),
     (CMD_GET_INFO2_RESP, ''GET_INFO2_RESP''),
     (CMD_GET_GENERAL_INFO3, ''GET_GENERAL_INFO3''),
     (CMD_GET_GENERAL_INFO3_RESP, ''GET_GENERAL_INFO3_RESP''),
     (CMD_SET_CONFIG1, ''SET_CONFIG1''),
     (CMD_SET_CONFIG1_RESP, ''SET_CONFIG1_RESP''),
     (CMD_STATUS_UPDATE, ''STATUS_UPDATE''),
     (CMD_STATUS_UPDATE_RESP, ''STATUS_UPDATE_RESP''),
     (CMD_SEND_RAW_MESSAGE, ''SEND_RAW_MESSAGE''),
     (CMD_READ_GROUPS, ''READ_GROUPS''),
     (CMD_REBOOT, ''REBOOT''),
     (CMD_SERVICE_STATUS_ACK, ''SERVICE_STATUS_ACK''),
     (CMD_ERROR_RESP, ''ERROR_RESP'')] ''UNKNOWN_CMD'' code"

definition att_class_name :: "u8 \<Rightarrow> string" where
  "att_class_name code = switch_on [
     (ATT_CLASS_5S, ''5s''),
     (ATT_CLASS_10S, ''10s''),
     (ATT_CLASS_20S, ''20s''),
     (ATT_CLASS_40S, ''40s'')] ''unknown'' code"

definition power_save_mode_name :: "u8 \<Rightarrow> string" where
  "power_save_mode_name code = switch_on [
     (POWER_SAVE_ALWAYS_ALIVE, ''always_alive''),
     (POWER_SAVE_LOW_POWER, ''low_power'')] ''unknown'' code"

definition originator_name :: "u8 \<Rightarrow> string" where
  "originator_name code = switch_on [
     (ORIGINATOR_LOCAL_USER, ''local_user''),
     (ORIGINATOR_USER_REMOTE, ''user_remote''),
     (ORIGINATOR_RAIN_SENSOR, ''rain_sensor''),
     (ORIGINATOR_TIMER, ''timer''),
     (ORIGINATOR_SECURITY, ''security''),
     (ORIGINATOR_UPS, ''ups''),
     (ORIGINATOR_SMART_CONTROLLER, ''smart_controller''),
     (ORIGINATOR_LIFESTYLE, ''lifestyle''),
     (ORIGINATOR_SAAC, ''saac''),
     (ORIGINATOR_WIND_SENSOR, ''wind_sensor''),
     (ORIGINATOR_LOAD_SHEDDING, ''load_shedding''),
     (ORIGINATOR_LOCAL_LIGHT, ''local_light''),
     (ORIGINATOR_ENVIRONMENT, ''environment''),
     (ORIGINATOR_MYSELF, ''myself''),
     (ORIGINATOR_AUTOMATIC_CYCLE, ''automatic_cycle''),
     (ORIGINATOR_EMERGENCY, ''emergency'')] ''unknown'' code"

definition acei_level_name :: "u8 \<Rightarrow> string" where
  "acei_level_name code = switch_on [
     (ACEI_LEVEL_PROTECTION_HUMAN, ''protection_human''),
     (ACEI_LEVEL_PROTECTION_SENSOR, ''protection_sensor''),
     (ACEI_LEVEL_USER_HIGH, ''user_high''),
     (ACEI_LEVEL_USER_DEFAULT, ''user_default''),
     (ACEI_LEVEL_COMFORT_1, ''comfort_1''),
     (ACEI_LEVEL_COMFORT_2, ''comfort_2''),
     (ACEI_LEVEL_AUTO_SAAC, ''auto_saac''),
     (ACEI_LEVEL_AUTO_DEFAULT, ''auto_default'')] ''unknown'' code"

definition command_result_name :: "u8 \<Rightarrow> string" where
  "command_result_name code = switch_on [
     (RESULT_UNKNOWN_STATUS_REPLY, ''UNKNOWN_STATUS_REPLY''),
     (RESULT_COMMAND_COMPLETED_OK, ''COMMAND_COMPLETED_OK''),
     (RESULT_NO_CONTACT, ''NO_CONTACT''),
     (RESULT_MANUALLY_OPERATED, ''MANUALLY_OPERATED''),
     (RESULT_BLOCKED, ''BLOCKED''),
     (RESULT_WRONG_SYSTEMKEY, ''WRONG_SYSTEMKEY''),
     (RESULT_PRIORITY_LEVEL_LOCKED, ''PRIORITY_LEVEL_LOCKED''),
     (RESULT_REACHED_WRONG_POSITION, ''REACHED_WRONG_POSITION''),
     (RESULT_ERROR_DURING_EXECUTION, ''ERROR_DURING_EXECUTION''),
     (RESULT_NO_EXECUTION, ''NO_EXECUTION''),
     (RESULT_CALIBRATING, ''CALIBRATING''),
     (RESULT_POWER_CONSUMPTION_TOO_HIGH, ''POWER_CONSUMPTION_TOO_HIGH''),
     (RESULT_POWER_CONSUMPTION_TOO_LOW, ''POWER_CONSUMPTION_TOO_LOW''),
     (RESULT_LOCK_POSITION_OPEN, ''LOCK_POSITION_OPEN''),
     (RESULT_MOTION_TIME_TOO_LONG, ''MOTION_TIME_TOO_LONG''),
     (RESULT_THERMAL_PROTECTION, ''THERMAL_PROTECTION''),
     (RESULT_PRODUCT_NOT_OPERATIONAL, ''PRODUCT_NOT_OPERATIONAL''),
     (RESULT_FILTER_MAINTENANCE_NEEDED, ''FILTER_MAINTENANCE_NEEDED''),
     (RESULT_BATTERY_LEVEL, ''BATTERY_LEVEL''),
     (RESULT_TARGET_MODIFIED, ''TARGET_MODIFIED''),
     (RESULT_MODE_NOT_IMPLEMENTED, ''MODE_NOT_IMPLEMENTED''),
     (RESULT_COMMAND_INCOMPATIBLE_TO_MOVEMENT, ''COMMAND_INCOMPATIBLE_TO_MOVEMENT''),
     (RESULT_USER_ACTION, ''USER_ACTION''),
     (RESULT_DEAD_BOLT_ERROR, ''DEAD_BOLT_ERROR''),
     (RESULT_AUTOMATIC_CYCLE_ENGAGED, ''AUTOMATIC_CYCLE_ENGAGED''),
     (RESULT_WRONG_LOAD_CONNECTED, ''WRONG_LOAD_CONNECTED''),
     (RESULT_COLOUR_NOT_REACHABLE, ''COLOUR_NOT_REACHABLE''),
     (RESULT_TARGET_NOT_REACHABLE, ''TARGET_NOT_REACHABLE''),
     (RESULT_BAD_INDEX_RECEIVED, ''BAD_INDEX_RECEIVED''),
     (RESULT_COMMAND_OVERRULED, ''COMMAND_OVERRULED''),
     (RESULT_NODE_WAITING_FOR_POWER, ''NODE_WAITING_FOR_POWER''),
     (RESULT_NODE_LOCKED, ''NODE_LOCKED''),
     (RESULT_WRONG_POSITION, ''WRONG_POSITION''),
     (RESULT_LIMITS_NOT_SET, ''LIMITS_NOT_SET''),
     (RESULT_IP_NOT_SET, ''IP_NOT_SET''),
     (RESULT_OUT_OF_RANGE, ''OUT_OF_RANGE''),
     (RESULT_PRIORITY_LOCKED_NON_EXEC, ''PRIORITY_LOCKED''),
     (RESULT_INVALID_FUNCTION_INDEX, ''INVALID_FUNCTION_INDEX''),
     (RESULT_INFORMATION_CODE, ''INFORMATION_CODE''),
     (RESULT_PARAMETER_LIMITED, ''PARAMETER_LIMITED''),
     (RESULT_LIMITATION_BY_LOCAL_USER, ''LIMITATION_BY_LOCAL_USER''),
     (RESULT_LIMITATION_BY_USER, ''LIMITATION_BY_USER''),
     (RESULT_LIMITATION_BY_RAIN, ''LIMITATION_BY_RAIN''),
     (RESULT_LIMITATION_BY_TIMER, ''LIMITATION_BY_TIMER''),
     (RESULT_LIMITATION_BY_SCD, ''LIMITATION_BY_SCD''),
     (RESULT_LIMITATION_BY_UPS, ''LIMITATION_BY_UPS''),
     (RESULT_LIMITATION_BY_UNKNOWN_DEVICE, ''LIMITATION_BY_UNKNOWN_DEVICE''),
     (RESULT_LIMITATION_BY_SAAC, ''LIMITATION_BY_SAAC''),
     (RESULT_LIMITATION_BY_WIND, ''LIMITATION_BY_WIND''),
     (RESULT_LIMITATION_BY_MYSELF, ''LIMITATION_BY_MYSELF''),
     (RESULT_LIMITATION_BY_AUTOMATIC_CYCLE, ''LIMITATION_BY_AUTOMATIC_CYCLE''),
     (RESULT_LIMITATION_BY_EMERGENCY, ''LIMITATION_BY_EMERGENCY'')] ''UNKNOWN_RESULT_CODE'' code"

definition command_result_description :: "u8 \<Rightarrow> string" where
  "command_result_description code = switch_on [
     (RESULT_UNKNOWN_STATUS_REPLY, ''unknown reply''),
     (RESULT_COMMAND_COMPLETED_OK, ''no errors detected''),
     (RESULT_NO_CONTACT, ''no communication to node''),
     (RESULT_MANUALLY_OPERATED, ''manually operated by a user''),
     (RESULT_BLOCKED, ''node has been blocked by an object''),
     (RESULT_WRONG_SYSTEMKEY, ''node contains the wrong system key''),
     (RESULT_PRIORITY_LEVEL_LOCKED, ''node is locked on this priority level''),
     (RESULT_REACHED_WRONG_POSITION, ''node stopped in another position than expected''),
     (RESULT_ERROR_DURING_EXECUTION, ''an error occurred during command execution''),
     (RESULT_NO_EXECUTION, ''no movement of the node parameter''),
     (RESULT_CALIBRATING, ''node is calibrating the parameters''),
     (RESULT_POWER_CONSUMPTION_TOO_HIGH, ''node power consumption is too high''),
     (RESULT_POWER_CONSUMPTION_TOO_LOW, ''node power consumption is too low''),
     (RESULT_LOCK_POSITION_OPEN, ''door open during lock command''),
     (RESULT_MOTION_TIME_TOO_LONG, ''target was not reached in time''),
     (RESULT_THERMAL_PROTECTION, ''node has gone into thermal protection mode''),
     (RESULT_PRODUCT_NOT_OPERATIONAL, ''node is not currently operational''),
     (RESULT_FILTER_MAINTENANCE_NEEDED, ''filter needs maintenance''),
     (RESULT_BATTERY_LEVEL, ''battery level is low''),
     (RESULT_TARGET_MODIFIED, ''node modified the requested target value''),
     (RESULT_MODE_NOT_IMPLEMENTED, ''node does not support the received mode''),
     (RESULT_COMMAND_INCOMPATIBLE_TO_MOVEMENT, ''node cannot move in the requested direction''),
     (RESULT_USER_ACTION, ''user action overrode the command''),
     (RESULT_DEAD_BOLT_ERROR, ''dead bolt error''),
     (RESULT_AUTOMATIC_CYCLE_ENGAGED, ''node has gone into automatic cycle mode''),
     (RESULT_WRONG_LOAD_CONNECTED, ''wrong load connected to node''),
     (RESULT_COLOUR_NOT_REACHABLE, ''node cannot reach the requested colour''),
     (RESULT_TARGET_NOT_REACHABLE, ''node cannot reach the requested target position''),
     (RESULT_BAD_INDEX_RECEIVED, ''invalid index received''),
     (RESULT_COMMAND_OVERRULED, ''command was overruled by a newer command''),
     (RESULT_NODE_WAITING_FOR_POWER, ''node is waiting for power''),
     (RESULT_NODE_LOCKED, ''node is locked''),
     (RESULT_WRONG_POSITION, ''wrong position''),
     (RESULT_LIMITS_NOT_SET, ''limits are not set''),
     (RESULT_IP_NOT_SET, ''intermediate position is not set''),
     (RESULT_OUT_OF_RANGE, ''requested value is out of range''),
     (RESULT_PRIORITY_LOCKED_NON_EXEC, ''command priority too low, node rejected execution''),
     (RESULT_INVALID_FUNCTION_INDEX, ''requested function/sub-index is not implemented by the device''),
     (RESULT_INFORMATION_CODE, ''information-only result with unknown semantics''),
     (RESULT_PARAMETER_LIMITED, ''parameter was limited by an unknown device''),
     (RESULT_LIMITATION_BY_LOCAL_USER, ''parameter was limited by the local button''),
     (RESULT_LIMITATION_BY_USER, ''parameter was limited by a remote control''),
     (RESULT_LIMITATION_BY_RAIN, ''parameter was limited by a rain sensor''),
     (RESULT_LIMITATION_BY_TIMER, ''parameter was limited by a timer''),
     (RESULT_LIMITATION_BY_SCD, ''parameter was limited by a security controlling actuator''),
     (RESULT_LIMITATION_BY_UPS, ''parameter was limited by a power supply''),
     (RESULT_LIMITATION_BY_UNKNOWN_DEVICE, ''parameter was limited by an unknown device''),
     (RESULT_LIMITATION_BY_SAAC, ''parameter was limited by a standalone automatic controller''),
     (RESULT_LIMITATION_BY_WIND, ''parameter was limited by a wind sensor''),
     (RESULT_LIMITATION_BY_MYSELF, ''parameter was limited by the node itself''),
     (RESULT_LIMITATION_BY_AUTOMATIC_CYCLE, ''parameter was limited by an automatic cycle''),
     (RESULT_LIMITATION_BY_EMERGENCY, ''parameter was limited by an emergency'')] ''unknown result code'' code"

definition is_limitation_result :: "u8 \<Rightarrow> bool" where
  "is_limitation_result code = switch_on [
     (RESULT_PARAMETER_LIMITED, True),
     (RESULT_LIMITATION_BY_LOCAL_USER, True),
     (RESULT_LIMITATION_BY_USER, True),
     (RESULT_LIMITATION_BY_RAIN, True),
     (RESULT_LIMITATION_BY_TIMER, True),
     (RESULT_LIMITATION_BY_SCD, True),
     (RESULT_LIMITATION_BY_UPS, True),
     (RESULT_LIMITATION_BY_UNKNOWN_DEVICE, True),
     (RESULT_LIMITATION_BY_SAAC, True),
     (RESULT_LIMITATION_BY_WIND, True),
     (RESULT_LIMITATION_BY_MYSELF, True),
     (RESULT_LIMITATION_BY_AUTOMATIC_CYCLE, True),
     (RESULT_LIMITATION_BY_EMERGENCY, True)] False code"

end
