(* ===== verification/Frame.thy ===== *)
theory Frame
  imports Constants
begin

text \<open>
  The frame container (\<open>proto_frame.h\<close>, \<open>proto_frame.cpp\<close>): the \<open>IoFrame\<close> record, its builders,
  the serializer and the parser with the optional out-of-length authenticator, the hexadecimal
  node-address helpers and the reflected CRC-CCITT.

  A C++ function that fills an out-parameter and returns \<open>bool\<close> is a function from the old value
  to the pair of the result and the new value, so that what a failing call leaves behind is visible.
  A buffer with its length is a list; \<open>serialize\<close> returns the bytes written, none standing for the
  return value 0. The parser's out-parameter has no reader after a failure, so it is an option.
\<close>

section \<open>The frame record\<close>

record io_frame =
  ctrl0 :: u8
  ctrl1 :: u8
  dst :: node_id
  src :: node_id
  cmd :: u8
  data :: bytes
  data_len :: u8
  mac :: bytes
  has_mac :: bool

definition empty_frame :: io_frame where
  "empty_frame = \<lparr>ctrl0 = 0, ctrl1 = 0, dst = replicate NODE_ID_SIZE 0, src = replicate NODE_ID_SIZE 0,
     cmd = 0, data = replicate FRAME_MAX_DATA_SIZE 0, data_len = 0, mac = replicate HMAC_SIZE 0,
     has_mac = False\<rparr>"

text \<open>The array sizes of the struct.\<close>

definition frame_shape :: "io_frame \<Rightarrow> bool" where
  "frame_shape f \<longleftrightarrow> length (dst f) = NODE_ID_SIZE \<and> length (src f) = NODE_ID_SIZE \<and>
     length (data f) = FRAME_MAX_DATA_SIZE \<and> length (mac f) = HMAC_SIZE"

definition payload :: "io_frame \<Rightarrow> bytes" where
  "payload f = take (unat (data_len f)) (data f)"

section \<open>Builders\<close>

definition init_frame :: "bool \<Rightarrow> bool \<Rightarrow> bool \<Rightarrow> bool \<Rightarrow> io_frame" where
  "init_frame is_2w start_flag end_flag low_power =
     (let f = empty_frame;
          f = (if end_flag then f\<lparr>ctrl0 := ctrl0 f OR CTRL0_END\<rparr> else f);
          f = (if start_flag then f\<lparr>ctrl0 := ctrl0 f OR CTRL0_START\<rparr> else f);
          f = (if \<not> is_2w then f\<lparr>ctrl0 := ctrl0 f OR CTRL0_PROTOCOL_1W\<rparr> else f)
      in if low_power then f\<lparr>ctrl1 := ctrl1 f OR CTRL1_LOW_POWER\<rparr> else f)"

definition set_dst :: "io_frame \<Rightarrow> node_id \<Rightarrow> io_frame" where
  "set_dst f nid = f\<lparr>dst := nid\<rparr>"

definition set_src :: "io_frame \<Rightarrow> node_id \<Rightarrow> io_frame" where
  "set_src f nid = f\<lparr>src := nid\<rparr>"

text \<open>
  \<open>set_cmd\<close> with a non-null parameter pointer; the list is the \<open>params_len\<close> bytes it points to.
  A call without parameters is the empty list.
\<close>

definition set_cmd :: "io_frame \<Rightarrow> u8 \<Rightarrow> bytes \<Rightarrow> bool \<times> io_frame" where
  "set_cmd f c params =
     (if length params > FRAME_MAX_DATA_SIZE then (False, f)
      else
        let f = f\<lparr>cmd := c, data_len := of_nat (length params), data := blit (data f) 0 params\<rparr>;
            total = of_nat FRAME_MIN_SIZE + data_len f
        in if total > of_nat FRAME_MAX_DECLARED_SIZE then (False, f)
           else (True, f\<lparr>ctrl0 := (ctrl0 f AND NOT CTRL0_LENGTH_MASK) OR
                                    ((total - 1) AND CTRL0_LENGTH_MASK)\<rparr>))"

definition frame_length :: "io_frame \<Rightarrow> u8" where
  "frame_length f = (ctrl0 f AND CTRL0_LENGTH_MASK) + 1"

definition is_start :: "io_frame \<Rightarrow> bool" where
  "is_start f \<longleftrightarrow> ctrl0 f AND CTRL0_START \<noteq> 0"

definition is_end :: "io_frame \<Rightarrow> bool" where
  "is_end f \<longleftrightarrow> ctrl0 f AND CTRL0_END \<noteq> 0"

definition frame_carries_mac_trailer :: "u8 \<Rightarrow> bool" where
  "frame_carries_mac_trailer c \<longleftrightarrow> c = CMD_ONEWAY_ADD_CONTROLLER"

section \<open>Serializer and parser\<close>

definition serialize :: "io_frame \<Rightarrow> nat \<Rightarrow> bytes" where
  "serialize f buf_size =
     (let len = unat (frame_length f) in
      if len < FRAME_MIN_SIZE \<or> len > FRAME_MAX_DECLARED_SIZE then []
      else if unat (data_len f) > FRAME_MAX_DATA_SIZE then []
      else if of_nat FRAME_MIN_SIZE + data_len f \<noteq> frame_length f then []
      else if has_mac f \<and> \<not> frame_carries_mac_trailer (cmd f) then []
      else
        let total_len = (if has_mac f then len + HMAC_SIZE else len) in
        if buf_size < total_len then []
        else [ctrl0 f, ctrl1 f] @ dst f @ src f @ [cmd f] @ payload f @
             (if has_mac f then mac f else []))"

definition parse :: "bytes \<Rightarrow> io_frame option" where
  "parse buf =
     (if length buf < FRAME_MIN_SIZE then None
      else
        let f = empty_frame\<lparr>ctrl0 := buf ! 0, ctrl1 := buf ! 1\<rparr>;
            len = unat (frame_length f);
            data_size = len - FRAME_MIN_SIZE
        in
        if len < FRAME_MIN_SIZE \<or> len > FRAME_MAX_DECLARED_SIZE then None
        else if length buf \<noteq> len \<and>
                \<not> (length buf = len + HMAC_SIZE \<and> frame_carries_mac_trailer (buf ! FRAME_CMD_OFFSET))
        then None
        else
          let f = f\<lparr>has_mac := length buf \<noteq> len, dst := sub_bytes 2 NODE_ID_SIZE buf,
                    src := sub_bytes 5 NODE_ID_SIZE buf, cmd := buf ! FRAME_CMD_OFFSET,
                    data_len := of_nat data_size\<rparr>
          in
          if data_size > FRAME_MAX_DATA_SIZE then None
          else if FRAME_MIN_SIZE + data_size > length buf then None
          else
            let f = f\<lparr>data := blit (data f) 0 (sub_bytes FRAME_MIN_SIZE data_size buf)\<rparr>
            in Some (if has_mac f
                     then f\<lparr>mac := sub_bytes (FRAME_MIN_SIZE + data_size) HMAC_SIZE buf\<rparr>
                     else f))"

section \<open>Node-address helpers\<close>

text \<open>The \<open>"C"\<close>-locale \<open>toupper\<close> and a nibble, \<open>None\<close> standing for \<open>-1\<close>.\<close>

definition hex_nibble :: "char \<Rightarrow> nat option" where
  "hex_nibble ch =
     (let n = of_char ch :: nat in
      if 48 \<le> n \<and> n \<le> 57 then Some (n - 48)
      else let n = (if 97 \<le> n \<and> n \<le> 122 then n - 32 else n) in
        if 65 \<le> n \<and> n \<le> 70 then Some (10 + (n - 65)) else None)"

fun hex_pairs :: "string \<Rightarrow> bytes option" where
  "hex_pairs [] = Some []"
| "hex_pairs [x] = None"
| "hex_pairs (h # l # rest) =
     (case (hex_nibble h, hex_nibble l) of
        (Some high, Some low) \<Rightarrow> map_option (\<lambda>bs. of_nat (high * 16 + low) # bs) (hex_pairs rest)
      | _ \<Rightarrow> None)"

definition hex_to_bytes :: "string \<Rightarrow> nat \<Rightarrow> bytes option" where
  "hex_to_bytes hex len = (if length hex \<noteq> len * 2 then None else hex_pairs hex)"

text \<open>\<open>%02X\<close> of one byte.\<close>

definition hex_digit :: "nat \<Rightarrow> char" where
  "hex_digit n = (if n < 10 then char_of (48 + n) else char_of (55 + n))"

definition hex_byte :: "u8 \<Rightarrow> string" where
  "hex_byte b = [hex_digit (unat b div 16), hex_digit (unat b mod 16)]"

definition node_id_to_string :: "node_id \<Rightarrow> string" where
  "node_id_to_string nid = hex_byte (nid ! 0) @ hex_byte (nid ! 1) @ hex_byte (nid ! 2)"

section \<open>CRC\<close>

definition crc_bit :: "u16 \<Rightarrow> u16" where
  "crc_bit crc =
     (if crc AND CRC_LSB_MASK \<noteq> 0 then drop_bit 1 crc XOR CRC_POLYNOMIAL_REVERSED else drop_bit 1 crc)"

definition crc_byte :: "u16 \<Rightarrow> u8 \<Rightarrow> u16" where
  "crc_byte crc b = (crc_bit ^^ BITS_PER_BYTE) (crc XOR ucast b)"

definition crc_ccitt :: "bytes \<Rightarrow> u16" where
  "crc_ccitt bs = foldl crc_byte 0x0000 bs"

section \<open>Length field\<close>

lemma and_1F_mod: "unat (w AND 0x1F :: u8) = unat w mod 32"
proof -
  have "w AND 0x1F = take_bit 5 w"
    by (simp add: take_bit_eq_mask mask_eq_exp_minus_1)
  then show ?thesis by (simp only: unsigned_take_bit_eq) (simp add: take_bit_eq_mod)
qed

lemma unat_frame_length: "unat (frame_length f) = unat (ctrl0 f) mod 32 + 1"
proof -
  have "unat (ctrl0 f AND 0x1F) + 1 < 256" by (simp add: and_1F_mod)
  then show ?thesis
    by (simp add: frame_length_def unat_word_ariths and_1F_mod)
qed

lemma frame_length_bounds: "1 \<le> unat (frame_length f)" "unat (frame_length f) \<le> FRAME_MAX_DECLARED_SIZE"
  by (simp_all add: unat_frame_length)

text \<open>
  The invariant the header states: the declared length is the header plus the data length, and the
  arrays have their sizes.
\<close>

definition frame_ok :: "io_frame \<Rightarrow> bool" where
  "frame_ok f \<longleftrightarrow> frame_shape f \<and> unat (data_len f) \<le> FRAME_MAX_DATA_SIZE \<and>
     unat (frame_length f) = FRAME_MIN_SIZE + unat (data_len f) \<and>
     (has_mac f \<longrightarrow> frame_carries_mac_trailer (cmd f))"

lemma frame_shape_empty [simp, wf_rules]: "frame_shape empty_frame"
  by (simp add: frame_shape_def empty_frame_def)

lemma frame_shape_init [simp, wf_rules]: "frame_shape (init_frame a b c d)"
  by (simp add: frame_shape_def init_frame_def empty_frame_def Let_def)

lemma frame_shape_set_dst [wf_rules]: "frame_shape f \<Longrightarrow> length nid = NODE_ID_SIZE \<Longrightarrow> frame_shape (set_dst f nid)"
  by (simp add: frame_shape_def set_dst_def)

lemma frame_shape_set_src [wf_rules]: "frame_shape f \<Longrightarrow> length nid = NODE_ID_SIZE \<Longrightarrow> frame_shape (set_src f nid)"
  by (simp add: frame_shape_def set_src_def)

lemma length_payload: "frame_shape f \<Longrightarrow> unat (data_len f) \<le> FRAME_MAX_DATA_SIZE \<Longrightarrow>
    length (payload f) = unat (data_len f)"
  by (simp add: payload_def frame_shape_def)

text \<open>What a successful \<open>set_cmd\<close> writes, and that it always succeeds on a payload that fits.\<close>

lemma length_field_update:
  "((c AND - 32) OR (t AND 0x1F)) AND 0x1F = (t AND 0x1F :: u8)"
proof -
  have "(- 32 :: u8) = NOT 0x1F" by simp
  then show ?thesis by (simp only:) (rule bit_word_eqI, auto simp: bit_simps)
qed

lemma set_cmd_fits:
  assumes "length params \<le> FRAME_MAX_DATA_SIZE"
  shows "set_cmd f c params =
    (True, f\<lparr>cmd := c, data_len := of_nat (length params), data := blit (data f) 0 params,
             ctrl0 := (ctrl0 f AND NOT CTRL0_LENGTH_MASK) OR
                      (of_nat (8 + length params) AND CTRL0_LENGTH_MASK)\<rparr>)"
proof -
  have len: "unat (of_nat (length params) :: u8) = length params"
    using assms by (simp add: unat_of_nat)
  have "unat (9 + of_nat (length params) :: u8) = 9 + length params"
    using assms by (simp add: unat_word_ariths len)
  then have "\<not> (9 + of_nat (length params) :: u8) > 32"
    using assms by (simp add: word_less_nat_alt)
  moreover have "(9 + of_nat (length params) :: u8) - 1 = of_nat (8 + length params)"
    by simp
  ultimately show ?thesis
    using assms by (simp add: set_cmd_def Let_def)
qed

lemma set_cmd_too_long: "length params > FRAME_MAX_DATA_SIZE \<Longrightarrow> set_cmd f c params = (False, f)"
  by (simp add: set_cmd_def)

lemma set_cmd_ok:
  assumes "frame_shape f" and "\<not> has_mac f" and "length params \<le> FRAME_MAX_DATA_SIZE"
    and "set_cmd f c params = (r, g)"
  shows "r" and "frame_ok g" and "payload g = params" and "cmd g = c" and "\<not> has_mac g"
    and "dst g = dst f" and "src g = src f" and "ctrl1 g = ctrl1 f"
    and "unat (data_len g) = length params"
proof -
  have len: "unat (of_nat (length params) :: u8) = length params"
    using assms(3) by (simp add: unat_of_nat)
  have g: "(r, g) = (True, f\<lparr>cmd := c, data_len := of_nat (length params), data := blit (data f) 0 params,
             ctrl0 := (ctrl0 f AND NOT CTRL0_LENGTH_MASK) OR
                      (of_nat (8 + length params) AND CTRL0_LENGTH_MASK)\<rparr>)"
    using assms(3,4) by (simp add: set_cmd_fits)
  have "unat ((of_nat (8 + length params) :: u8) AND 0x1F) = 8 + length params"
  proof -
    have "unat (of_nat (8 + length params) :: u8) = 8 + length params"
      using assms(3) by (subst unat_of_nat) simp
    then show ?thesis using assms(3) by (simp only: and_1F_mod) simp
  qed
  then have fl: "unat (frame_length g) = 9 + length params"
    using g assms(3) by (simp add: frame_length_def length_field_update unat_word_ariths del: of_nat_add)
  show "r" "cmd g = c" "\<not> has_mac g" "dst g = dst f" "src g = src f" "ctrl1 g = ctrl1 f"
    using g assms(2) by simp_all
  show "payload g = params"
    using g len by (simp add: payload_def)
  show "unat (data_len g) = length params"
    using g len by simp
  show "frame_ok g"
    using g assms(1-3) fl len by (simp add: frame_ok_def frame_shape_def)
qed

text \<open>Flag bits: read off the control byte, untouched by the length update.\<close>

lemma is_start_bit: "is_start f \<longleftrightarrow> bit (ctrl0 f) 6"
  using and_exp_eq_0_iff_not_bit [of "ctrl0 f" 6] by (simp add: is_start_def)

lemma is_end_bit: "is_end f \<longleftrightarrow> bit (ctrl0 f) 7"
  using and_exp_eq_0_iff_not_bit [of "ctrl0 f" 7] by (simp add: is_end_def)

lemma oneway_bit: "ctrl0 f AND CTRL0_PROTOCOL_1W = 0 \<longleftrightarrow> \<not> bit (ctrl0 f) 5"
  using and_exp_eq_0_iff_not_bit [of "ctrl0 f" 5] by simp

lemma set_cmd_ctrl_bits:
  assumes "set_cmd f c ps = (r, g)" and "5 \<le> n"
  shows "bit (ctrl0 g) n = bit (ctrl0 f) n"
proof (cases "length ps \<le> FRAME_MAX_DATA_SIZE")
  case True
  have "(- 32 :: u8) = NOT (mask 5)" and "(0x1F :: u8) = mask 5"
    by (simp_all add: mask_eq_exp_minus_1)
  then have "bit (((ctrl0 f AND - 32) OR (t AND 0x1F)) :: u8) n = bit (ctrl0 f) n" for t
    using assms(2)
    by (simp only: bit_or_iff bit_and_iff bit_not_iff_eq bit_mask_iff)
      (auto dest: bit_imp_le_length)
  then show ?thesis
    using assms(1) True by (auto simp: set_cmd_fits simp del: of_nat_add)
next
  case False
  then show ?thesis using assms(1) by (simp add: set_cmd_def)
qed

lemma init_frame_bits [simp]:
  "ctrl1 (init_frame is_2w st en lp) = (if lp then CTRL1_LOW_POWER else 0)"
  "bit (ctrl0 (init_frame is_2w st en lp)) 5 \<longleftrightarrow> \<not> is_2w"
  "bit (ctrl0 (init_frame is_2w st en lp)) 6 \<longleftrightarrow> st"
  "bit (ctrl0 (init_frame is_2w st en lp)) 7 \<longleftrightarrow> en"
  "\<not> has_mac (init_frame is_2w st en lp)"
  by (simp_all add: init_frame_def empty_frame_def Let_def)

lemma set_addr_simps [simp]:
  "ctrl0 (set_dst f nid) = ctrl0 f" "ctrl1 (set_dst f nid) = ctrl1 f" "has_mac (set_dst f nid) = has_mac f"
  "dst (set_dst f nid) = nid" "src (set_dst f nid) = src f" "data (set_dst f nid) = data f"
  "ctrl0 (set_src f nid) = ctrl0 f" "ctrl1 (set_src f nid) = ctrl1 f" "has_mac (set_src f nid) = has_mac f"
  "src (set_src f nid) = nid" "dst (set_src f nid) = dst f" "data (set_src f nid) = data f"
  by (simp_all add: set_dst_def set_src_def)

lemma set_cmd_flags:
  assumes "set_cmd f c ps = (r, g)"
  shows "is_start g = bit (ctrl0 f) 6" and "is_end g = bit (ctrl0 f) 7"
    and "(ctrl0 g AND CTRL0_PROTOCOL_1W = 0) = (\<not> bit (ctrl0 f) 5)"
  by (simp_all only: is_start_bit is_end_bit oneway_bit) (simp_all add: set_cmd_ctrl_bits [OF assms])

section \<open>Round trips of the wire format\<close>

definition wire :: "io_frame \<Rightarrow> bytes" where
  "wire f = [ctrl0 f, ctrl1 f] @ dst f @ src f @ [cmd f] @ payload f @ (if has_mac f then mac f else [])"

text \<open>
  What a frame looks like to a receiver: the unused tail of the data array and an absent
  authenticator read as zeros.
\<close>

definition canonical :: "io_frame \<Rightarrow> io_frame" where
  "canonical f = f\<lparr>data := blit (replicate FRAME_MAX_DATA_SIZE 0) 0 (payload f),
                   mac := (if has_mac f then mac f else replicate HMAC_SIZE 0)\<rparr>"

lemma length_wire:
  "frame_ok f \<Longrightarrow> length (wire f) = unat (frame_length f) + (if has_mac f then HMAC_SIZE else 0)"
  by (auto simp: wire_def frame_ok_def frame_shape_def length_payload)

lemma frame_ok_length_word: "frame_ok f \<Longrightarrow> 9 + data_len f = frame_length f"
  by (simp add: word_unat_eq_iff frame_ok_def unat_word_ariths)

lemma serialize_ok:
  assumes "frame_ok f" and "length (wire f) \<le> n"
  shows "serialize f n = wire f"
  using assms frame_length_bounds [of f] frame_ok_length_word [OF assms(1)] length_wire [OF assms(1)]
  by (auto simp: serialize_def frame_ok_def wire_def Let_def)

lemma serialize_small: "frame_ok f \<Longrightarrow> n < length (wire f) \<Longrightarrow> serialize f n = []"
  by (auto simp: serialize_def Let_def length_wire)

text \<open>
  A frame whose declared length disagrees with its data length never reaches the wire.
\<close>

lemma serialize_nonempty:
  assumes "serialize f n \<noteq> []" and "frame_shape f"
  shows "frame_ok f" and "serialize f n = wire f"
proof -
  have "unat (data_len f) \<le> 23" and *: "9 + data_len f = frame_length f"
    using assms(1) by (auto simp: serialize_def Let_def split: if_splits)
  then have "unat (frame_length f) = 9 + unat (data_len f)"
    using * [symmetric] by (simp add: unat_word_ariths)
  then show "frame_ok f"
    using assms \<open>unat (data_len f) \<le> 23\<close>
    by (auto simp: frame_ok_def serialize_def Let_def split: if_splits)
  show "serialize f n = wire f"
    using assms(1) by (auto simp: serialize_def wire_def Let_def split: if_splits)
qed

lemma wire_nth:
  assumes "frame_shape f"
  shows "wire f ! 0 = ctrl0 f" and "wire f ! 1 = ctrl1 f" and "wire f ! 8 = cmd f"
    and "sub_bytes 2 3 (wire f) = dst f" and "sub_bytes 5 3 (wire f) = src f"
    and "drop 9 (wire f) = payload f @ (if has_mac f then mac f else [])"
proof -
  obtain a b c where d: "dst f = [a, b, c]" using assms by (auto simp: frame_shape_def elim: length_3E)
  obtain a' b' c' where s: "src f = [a', b', c']" using assms by (auto simp: frame_shape_def elim: length_3E)
  have w: "wire f = ctrl0 f # ctrl1 f # a # b # c # a' # b' # c' # cmd f # payload f @
             (if has_mac f then mac f else [])"
    by (simp add: wire_def d s)
  show "wire f ! 0 = ctrl0 f" "wire f ! 1 = ctrl1 f" "wire f ! 8 = cmd f"
    "sub_bytes 2 3 (wire f) = dst f" "sub_bytes 5 3 (wire f) = src f"
    "drop 9 (wire f) = payload f @ (if has_mac f then mac f else [])"
    by (simp_all add: w d s sub_bytes_def numeral_eq_Suc)
qed

lemma drop_9_plus: "drop (9 + n) xs = drop n (drop 9 xs)"
  by (simp add: add.commute)

text \<open>The parser in closed form: the guards that can fail, and the frame they let through.\<close>

lemma parse_closed:
  "parse buf =
    (let len = unat (buf ! 0) mod 32 + 1 in
     if length buf < 9 \<or> len < 9 \<or>
        length buf \<noteq> len \<and> \<not> (length buf = len + 6 \<and> frame_carries_mac_trailer (buf ! 8))
     then None
     else Some \<lparr>ctrl0 = buf ! 0, ctrl1 = buf ! 1, dst = sub_bytes 2 3 buf, src = sub_bytes 5 3 buf,
        cmd = buf ! 8, data = blit (replicate 23 0) 0 (sub_bytes 9 (len - 9) buf),
        data_len = of_nat (len - 9),
        mac = (if length buf \<noteq> len then sub_bytes len 6 buf else replicate 6 0),
        has_mac = (length buf \<noteq> len)\<rparr>)"
proof -
  have "unat (buf ! 0) mod 32 + 1 \<le> 32"
    by (simp add: Suc_leI)
  then show ?thesis
    by (auto simp: parse_def Let_def unat_frame_length empty_frame_def)
qed

lemma parse_wire:
  assumes ok: "frame_ok f"
  shows "parse (wire f) = Some (canonical f)"
proof -
  have shape: "frame_shape f" using ok by (simp add: frame_ok_def)
  note at = wire_nth [OF shape]
  have len: "length (wire f) = unat (frame_length f) + (if has_mac f then 6 else 0)"
    using length_wire [OF ok] by simp
  have fl: "unat (frame_length f) = 9 + unat (data_len f)" and dl: "unat (data_len f) \<le> 23"
    using ok by (simp_all add: frame_ok_def)
  have lp: "length (payload f) = unat (data_len f)"
    using shape dl by (rule length_payload)
  have pay: "sub_bytes 9 (unat (data_len f)) (wire f) = payload f"
    by (simp add: sub_bytes_def at lp)
  have mac: "has_mac f \<Longrightarrow> sub_bytes (9 + unat (data_len f)) 6 (wire f) = mac f"
    using shape at(6) lp by (simp add: sub_bytes_def frame_shape_def drop_9_plus)
  have trailer: "has_mac f \<Longrightarrow> frame_carries_mac_trailer (cmd f)"
    using ok by (simp add: frame_ok_def)
  show ?thesis
    using len fl dl pay mac trailer
    unfolding parse_closed
    by (simp add: Let_def at(1-5) [unfolded One_nat_def] unat_frame_length canonical_def)
qed

lemma parse_Some:
  assumes "parse buf = Some f"
  shows "frame_ok f" and "wire f = buf" and "canonical f = f"
proof -
  define len where "len = unat (buf ! 0) mod 32 + 1"
  have big: "9 \<le> length buf" and len9: "9 \<le> len" and len32: "len \<le> 32"
    and cases: "length buf = len \<or> length buf = len + 6 \<and> frame_carries_mac_trailer (buf ! 8)"
    using assms by (auto simp: parse_closed Let_def len_def Suc_leI split: if_splits)
  have f: "f = \<lparr>ctrl0 = buf ! 0, ctrl1 = buf ! 1, dst = sub_bytes 2 3 buf, src = sub_bytes 5 3 buf,
      cmd = buf ! 8, data = blit (replicate 23 0) 0 (sub_bytes 9 (len - 9) buf),
      data_len = of_nat (len - 9),
      mac = (if length buf \<noteq> len then sub_bytes len 6 buf else replicate 6 0),
      has_mac = (length buf \<noteq> len)\<rparr>"
    using assms unfolding parse_closed by (auto simp: Let_def len_def split: if_splits)
  have dl: "unat (data_len f) = len - 9"
    using len32 by (simp add: f unat_of_nat)
  have fl: "unat (frame_length f) = len"
    by (simp add: f len_def unat_frame_length)
  have lbuf: "len \<le> length buf" using cases by auto
  have pay: "payload f = sub_bytes 9 (len - 9) buf"
    using dl lbuf len9 by (simp add: payload_def) (simp add: f blit_def sub_bytes_def)
  have shape: "frame_shape f"
    using cases len9 len32 big by (auto simp: f frame_shape_def)
  show "frame_ok f"
    using shape dl fl len9 len32 cases by (auto simp: frame_ok_def f)
  show "canonical f = f"
    using pay by (simp add: canonical_def) (simp add: f)
  show "wire f = buf"
  proof (rule nth_equalityI)
    show l: "length (wire f) = length buf"
      using length_wire [OF \<open>frame_ok f\<close>] fl cases by (auto simp: f)
    fix i assume i: "i < length (wire f)"
    have d: "drop 9 (wire f) = drop 9 buf"
      using wire_nth(6) [OF shape] pay cases len9
      by (auto simp: f sub_bytes_def) (metis add.commute append_take_drop_id diff_add drop_drop take_all_iff
          drop_eq_Nil2 le_add2 length_drop diff_add_inverse)
    show "wire f ! i = buf ! i"
    proof (cases "i < 9")
      case True
      then consider "i = 0" | "i = 1" | "i = 2" | "i = 3" | "i = 4" | "i = 5" | "i = 6" | "i = 7" | "i = 8"
        by linarith
      then show ?thesis
        using big by cases (simp_all add: wire_def f sub_bytes_def nth_append numeral_eq_Suc take_Suc_conv_app_nth)
    next
      case False
      then have "wire f ! i = drop 9 (wire f) ! (i - 9)" and "buf ! i = drop 9 buf ! (i - 9)"
        using i l by simp_all
      then show ?thesis by (simp add: d)
    qed
  qed
qed

section \<open>Hexadecimal node addresses\<close>

lemma hex_nibble_digit: "n < 16 \<Longrightarrow> hex_nibble (hex_digit n) = Some n"
  by (auto simp: hex_nibble_def hex_digit_def Let_def)

lemma hex_pairs_hex_byte: "hex_pairs (hex_byte b @ rest) = map_option ((#) b) (hex_pairs rest)"
proof -
  have "unat b div 16 < 16" using unat_u8_less [of b] by linarith
  moreover have "(word_of_nat (unat b div 16 * 16 + unat b mod 16) :: u8) = b"
    by (simp only: div_mult_mod_eq) simp
  ultimately show ?thesis
    by (simp add: hex_byte_def hex_nibble_digit del: of_nat_add of_nat_mult)
qed

lemma length_hex_byte [simp]: "length (hex_byte b) = 2"
  by (simp add: hex_byte_def)

lemma hex_pairs_length: "hex_pairs s = Some bs \<Longrightarrow> length s = 2 * length bs"
  by (induction s arbitrary: bs rule: hex_pairs.induct) (auto split: option.splits)

lemma hex_to_bytes_node_id:
  assumes "length nid = NODE_ID_SIZE"
  shows "hex_to_bytes (node_id_to_string nid) NODE_ID_SIZE = Some nid"
proof -
  obtain a b c where n: "nid = [a, b, c]" using assms by (auto elim: length_3E)
  have "hex_pairs (hex_byte a @ hex_byte b @ hex_byte c @ []) = Some [a, b, c]"
    by (simp only: hex_pairs_hex_byte) simp
  then show ?thesis by (simp add: n hex_to_bytes_def node_id_to_string_def)
qed

lemma node_id_to_string_inj:
  assumes "length a = NODE_ID_SIZE" and "length b = NODE_ID_SIZE"
    and "node_id_to_string a = node_id_to_string b"
  shows "a = b"
  using assms hex_to_bytes_node_id by (metis option.inject)

lemma length_hex_to_bytes: "hex_to_bytes s n = Some bs \<Longrightarrow> length bs = n"
  by (auto simp: hex_to_bytes_def dest: hex_pairs_length split: if_splits)

section \<open>Error detection of the CRC\<close>

lemma crc_bit_alt: "crc_bit x = drop_bit 1 x XOR (if bit x 0 then CRC_POLYNOMIAL_REVERSED else 0)"
  by (simp add: crc_bit_def and_one_eq bit_0 mod_2_eq_odd)

lemma crc_bit_xor: "crc_bit (x XOR y) = crc_bit x XOR crc_bit y"
proof -
  have "drop_bit 1 (x XOR y) = drop_bit 1 x XOR drop_bit 1 y" by (rule drop_bit_xor)
  then show ?thesis
    by (cases "bit x 0"; cases "bit y 0")
      (simp_all add: crc_bit_alt bit_xor_iff xor.left_commute xor.commute xor.assoc del: bit_0)
qed

lemma bit_crc_bit_15: "bit (crc_bit x) 15 \<longleftrightarrow> bit x 0"
proof -
  have "\<not> bit (drop_bit 1 x) 15"
    by (auto simp: bit_drop_bit_eq dest: bit_imp_le_length)
  then show ?thesis by (simp add: crc_bit_alt bit_xor_iff del: bit_0)
qed

lemma crc_bit_even: "\<not> bit x 0 \<Longrightarrow> crc_bit x = drop_bit 1 x"
  by (simp add: crc_bit_alt del: bit_0)

lemma crc_bit_zero_iff: "crc_bit x = 0 \<longleftrightarrow> x = 0"
proof
  assume z: "crc_bit x = 0"
  then have even: "\<not> bit x 0"
    using bit_crc_bit_15 [of x] by simp
  then have "drop_bit 1 x = 0"
    using z crc_bit_even by simp
  then have "\<not> bit x (Suc n)" for n
    by (simp flip: bit_drop_1)
  then have "\<not> bit x n" for n
    using even by (cases n) simp_all
  then show "x = 0"
    by (simp add: bit_eq_iff)
next
  assume "x = 0" then show "crc_bit x = 0" by (simp add: crc_bit_def)
qed

lemma crc_bits_xor: "(crc_bit ^^ n) (x XOR y) = (crc_bit ^^ n) x XOR (crc_bit ^^ n) y"
  by (induction n) (simp_all add: crc_bit_xor)

lemma crc_bits_zero_iff: "(crc_bit ^^ n) x = 0 \<longleftrightarrow> x = 0"
  by (induction n) (simp_all add: crc_bit_zero_iff)

lemma crc_bits_0 [simp]: "(crc_bit ^^ n) 0 = 0"
  by (simp add: crc_bits_zero_iff)

lemma crc_byte_xor: "crc_byte (c XOR d) (a XOR b) = crc_byte c a XOR crc_byte d b"
  by (simp add: crc_byte_def unsigned_xor_eq flip: crc_bits_xor)
    (simp add: xor.left_commute xor.commute xor.assoc)

lemma crc_byte_state_inj: "crc_byte c b = crc_byte d b \<Longrightarrow> c = d"
proof -
  assume "crc_byte c b = crc_byte d b"
  then have "crc_byte (c XOR d) (b XOR b) = 0" by (simp only: crc_byte_xor) simp
  then show "c = d" by (simp add: crc_byte_def crc_bits_zero_iff)
qed

lemma foldl_crc_state_inj: "foldl crc_byte c bs = foldl crc_byte d bs \<Longrightarrow> c = d"
  by (induction bs arbitrary: c d) (auto dest: crc_byte_state_inj)

lemma crc_xor_bytes:
  "length xs = length ys \<Longrightarrow>
   foldl crc_byte (c XOR d) (xor_bytes xs ys) = foldl crc_byte c xs XOR foldl crc_byte d ys"
  by (induction xs ys arbitrary: c d rule: list_induct2) (simp_all add: xor_bytes_def crc_byte_xor)

text \<open>
  If the top \<open>n\<close> bits of the register are zero after \<open>n\<close> shifts, no shift has fed the polynomial
  back, so the \<open>n\<close> low bits of the start value were zero. This is what lets a difference of up to
  16 consecutive bits never vanish.
\<close>

lemma crc_bits_no_feedback:
  "n \<le> 16 \<Longrightarrow> drop_bit (16 - n) ((crc_bit ^^ n) v) = 0 \<Longrightarrow>
   (crc_bit ^^ n) v = drop_bit n v \<and> take_bit n v = 0"
proof (induction n)
  case 0
  then show ?case by simp
next
  case (Suc n)
  let ?s = "(crc_bit ^^ n) v"
  have top: "drop_bit (15 - n) (crc_bit ?s) = 0" using Suc.prems by simp
  have "bit (crc_bit ?s) 15 \<longleftrightarrow> bit (drop_bit (15 - n) (crc_bit ?s)) n"
    using Suc.prems(1) by (simp add: bit_drop_bit_eq)
  with top have odd: "\<not> bit ?s 0"
    using bit_crc_bit_15 by simp
  then have step: "crc_bit ?s = drop_bit 1 ?s" by (rule crc_bit_even)
  have "drop_bit (16 - n) ?s = drop_bit (15 - n) (drop_bit 1 ?s)"
    using Suc.prems(1) by (simp add: Suc_diff_le [symmetric])
  then have IH: "?s = drop_bit n v" "take_bit n v = 0"
    using top step Suc by simp_all
  have "\<not> bit v n"
    using odd by (subst (asm) IH(1)) (simp add: bit_drop_bit_eq del: bit_0)
  then have "\<not> bit v m" if "m < Suc n" for m
    using that arg_cong [OF IH(2), of "\<lambda>w. bit w m"]
    by (cases "m = n") (simp_all add: bit_take_bit_iff)
  then have "take_bit (Suc n) v = 0"
    by (intro bit_word_eqI) (auto simp: bit_take_bit_iff)
  then show ?case
    using step IH(1) by (simp add: drop_bit_drop_bit)
qed

lemma crc_table_high: "drop_bit 8 (crc_byte 0 b) = 0 \<Longrightarrow> b = 0"
proof -
  assume "drop_bit 8 (crc_byte 0 b) = 0"
  then have "take_bit 8 (ucast b :: u16) = 0"
    using crc_bits_no_feedback [of 8 "ucast b"] by (simp add: crc_byte_def)
  moreover have "take_bit 8 (ucast b :: u16) = ucast b"
    by (rule bit_word_eqI) (auto simp: bit_simps dest: bit_imp_le_length)
  ultimately show "b = 0"
    by simp
qed

lemma crc_two_bytes_inj:
  assumes eq: "crc_byte (crc_byte s a) b = crc_byte (crc_byte s a') b'"
  shows "a = a' \<and> b = b'"
proof -
  have "crc_byte (crc_byte (s XOR s) (a XOR a')) (b XOR b') = 0"
    using eq by (simp only: crc_byte_xor) simp
  then have z: "crc_byte 0 (a XOR a') = ucast (b XOR b')"
    by (simp add: crc_byte_def [of "crc_byte _ _"] crc_bits_zero_iff)
  have "drop_bit 8 (ucast (b XOR b') :: u16) = 0"
    by (rule bit_word_eqI) (auto simp: bit_simps dest: bit_imp_le_length)
  then have "a XOR a' = 0"
    using z crc_table_high by metis
  moreover from this z have "b XOR b' = 0"
    by (simp add: crc_byte_def)
  ultimately show ?thesis by simp
qed

text \<open>A sample frame for the witnesses: a position command, as the controller sends it.\<close>

definition sample_frame :: io_frame where
  "sample_frame = snd (set_cmd (set_src (set_dst (init_frame True True False True) [0xFE, 0xEB, 0x1E])
     [0xC0, 0xFF, 0xEE]) CMD_EXECUTE [0x01, 0x63, 0xC8, 0x00, 0x80, 0xD8, 0x06, 0x00])"

lemma sample_frame_eq:
  "sample_frame = \<lparr>ctrl0 = 0x50, ctrl1 = 0x20, dst = [0xFE, 0xEB, 0x1E], src = [0xC0, 0xFF, 0xEE],
     cmd = 0, data = [0x01, 0x63, 0xC8, 0x00, 0x80, 0xD8, 0x06, 0x00] @ replicate 15 0, data_len = 8,
     mac = replicate 6 0, has_mac = False\<rparr>"
  by code_simp

lemma sample_frame_ok: "frame_ok sample_frame" "length (wire sample_frame) = 17"
  unfolding sample_frame_eq by (code_simp, code_simp)

section \<open>Properties\<close>

text \<open>C9. Serialize, then parse: every well-formed frame survives the wire, with the unused tail of
  its data array read as zeros, whenever the transmit buffer is large enough.\<close>

theorem serialize_parse_roundtrip:
  assumes "frame_ok f" and "length (wire f) \<le> n"
  shows "parse (serialize f n) = Some (canonical f)"
  using assms by (simp add: serialize_ok parse_wire)

theorem serialize_parse_roundtrip_witness:
  "serialize sample_frame 40 \<noteq> [] \<and> parse (serialize sample_frame 40) = Some (canonical sample_frame)"
  using serialize_parse_roundtrip [of sample_frame 40] sample_frame_ok
  by (simp add: serialize_ok) (auto simp: wire_def)

text \<open>C30. Parse, then serialize: an accepted buffer is exactly the wire form of the frame it was
  read into; the frame has the header's invariant, and no other buffer gives that frame.\<close>

theorem parse_serialize_roundtrip:
  assumes "parse buf = Some f" and "length buf \<le> n"
  shows "serialize f n = buf \<and> frame_ok f \<and> length buf \<le> FRAME_MAX_DECLARED_SIZE + FRAME_MAX_TRAILER_SIZE"
proof -
  note f = parse_Some [OF assms(1)]
  have "length buf = unat (frame_length f) + (if has_mac f then 6 else 0)"
    using length_wire [OF f(1)] f(2) by simp
  then show ?thesis
    using f assms(2) frame_length_bounds(2) [of f] by (simp add: serialize_ok)
qed

theorem parse_serialize_roundtrip_witness:
  "parse (wire sample_frame) = Some (canonical sample_frame) \<and>
   serialize (canonical sample_frame) 40 = wire sample_frame"
  using parse_serialize_roundtrip [OF parse_wire [OF sample_frame_ok(1)], of 40] sample_frame_ok parse_wire
  by simp

text \<open>The serializer writes nothing unless the declared length, the data length and the
  authenticator flag agree; a frame built by hand with a wrong length field cannot be sent.\<close>

theorem serialize_rejects_inconsistent:
  assumes "frame_shape f"
  shows "serialize f n = (if frame_ok f \<and> length (wire f) \<le> n then wire f else [])"
  using assms serialize_nonempty [of f n] serialize_ok [of f n] serialize_small [of f n]
  by (metis not_le_imp_less)

theorem serialize_rejects_inconsistent_witness:
  "frame_shape (sample_frame\<lparr>data_len := 7\<rparr>) \<and> serialize (sample_frame\<lparr>data_len := 7\<rparr>) 40 = []"
proof -
  have shape: "frame_shape (sample_frame\<lparr>data_len := 7\<rparr>)"
    and bad: "\<not> frame_ok (sample_frame\<lparr>data_len := 7\<rparr>)"
    unfolding sample_frame_eq by (code_simp, code_simp)
  show ?thesis
    using serialize_rejects_inconsistent [OF shape, of 40] shape bad by simp
qed

text \<open>Every frame built by \<open>init_frame\<close> and \<open>set_cmd\<close> with a payload that fits the data
  array is well-formed, keeps its flags and carries the payload; a longer payload is refused and
  leaves the frame as it was.\<close>

theorem set_cmd_builds:
  assumes "length d = NODE_ID_SIZE" and "length s = NODE_ID_SIZE"
    and "set_cmd (set_src (set_dst (init_frame is_2w st en lp) d) s) c ps = (ok, f)"
  shows "ok = (length ps \<le> FRAME_MAX_DATA_SIZE) \<and>
    (if ok
     then frame_ok f \<and> payload f = ps \<and> cmd f = c \<and> dst f = d \<and> src f = s \<and> \<not> has_mac f \<and>
       is_start f = st \<and> is_end f = en \<and> (ctrl0 f AND CTRL0_PROTOCOL_1W = 0) = is_2w \<and>
       ctrl1 f = (if lp then CTRL1_LOW_POWER else 0)
     else f = set_src (set_dst (init_frame is_2w st en lp) d) s)"
proof (cases "length ps \<le> FRAME_MAX_DATA_SIZE")
  case True
  have shape: "frame_shape (set_src (set_dst (init_frame is_2w st en lp) d) s)"
    using assms(1,2) by (simp add: wf_rules)
  have nomac: "\<not> has_mac (set_src (set_dst (init_frame is_2w st en lp) d) s)"
    by simp
  show ?thesis
    using True set_cmd_ok [OF shape nomac True assms(3)] set_cmd_flags [OF assms(3)] by simp
next
  case False
  then show ?thesis
    using assms(3) by (simp add: set_cmd_def)
qed

theorem set_cmd_builds_witness:
  "frame_ok sample_frame \<and> is_start sample_frame \<and> \<not> is_end sample_frame"
proof -
  obtain ok f where eq: "set_cmd (set_src (set_dst (init_frame True True False True) [0xFE, 0xEB, 0x1E])
     [0xC0, 0xFF, 0xEE]) CMD_EXECUTE [0x01, 0x63, 0xC8, 0x00, 0x80, 0xD8, 0x06, 0x00] = (ok, f)"
    by fastforce
  then have "f = sample_frame" by (simp add: sample_frame_def)
  then show ?thesis using set_cmd_builds [OF _ _ eq] by (auto split: if_splits)
qed

text \<open>The CRC detects every error confined to two adjacent bytes (hence every burst of up to
  nine bits wherever it falls, and every single-byte error).\<close>

theorem crc_detects_adjacent_bytes:
  assumes "crc_ccitt (pre @ [a, b] @ post) = crc_ccitt (pre @ [a', b'] @ post)"
  shows "a = a' \<and> b = b'"
  using assms crc_two_bytes_inj foldl_crc_state_inj by (simp add: crc_ccitt_def) blast

theorem crc_detects_adjacent_bytes_witness:
  "crc_ccitt ([0x50] @ [0x20, 0xFE] @ [0xEB]) \<noteq> crc_ccitt ([0x50] @ [0x21, 0xFF] @ [0xEB])"
  using crc_detects_adjacent_bytes [of "[0x50]" "0x20" "0xFE" "[0xEB]" "0x21" "0xFF"]
  by auto

text \<open>The CRC is linear over exclusive-or, so whether an error pattern is detected does not
  depend on the message it falls on.\<close>

theorem crc_linear:
  assumes "length xs = length ys"
  shows "crc_ccitt (xor_bytes xs ys) = crc_ccitt xs XOR crc_ccitt ys"
  using crc_xor_bytes [OF assms, of 0 0] by (simp add: crc_ccitt_def)

theorem crc_linear_witness:
  "crc_ccitt (xor_bytes [0x50, 0x20] [0x01, 0x02]) = crc_ccitt [0x50, 0x20] XOR crc_ccitt [0x01, 0x02]"
  using crc_linear [of "[0x50, 0x20]" "[0x01, 0x02]"] by simp

text \<open>A node address printed as six hexadecimal digits is read back as the same address.\<close>

theorem node_id_string_roundtrip:
  assumes "length nid = NODE_ID_SIZE"
  shows "hex_to_bytes (node_id_to_string nid) NODE_ID_SIZE = Some nid"
  using assms by (rule hex_to_bytes_node_id)

theorem node_id_string_roundtrip_witness:
  "node_id_to_string [0xC0, 0xFF, 0xEE] = ''C0FFEE'' \<and> hex_to_bytes ''C0FFEE'' 3 = Some [0xC0, 0xFF, 0xEE]"
proof -
  have "node_id_to_string [0xC0, 0xFF, 0xEE] = ''C0FFEE''" by code_simp
  then show ?thesis using node_id_string_roundtrip [of "[0xC0, 0xFF, 0xEE]"] by simp
qed

end
