(* ===== verification/Device_Model.thy ===== *)
theory Device_Model
  imports Frame "HOL-Library.Signed_Division" Complex_Main
begin

text \<open>
  The device model (\<open>proto_device_model.h\<close>, \<open>proto_device_model.cpp\<close>): device types and their
  capabilities, the packed type metadata, position and tilt reports, the runtime device record and
  the hub's predictions beside it.

  \<open>DeviceType\<close> is a byte-wide enumeration, so a received byte outside the named values is a value of
  it too: \<open>DT_OTHER\<close>. Positions are rationals: every value the code computes from a report is
  \<open>raw * 100 / 51200 = raw / 512\<close> with \<open>raw < 2^16\<close>, which single precision holds exactly, as it does
  the differences and the tolerance.
\<close>

section \<open>Device types and capabilities\<close>

datatype device_type =
    DT_UNKNOWN | DT_VENETIAN_BLIND | DT_ROLLER_SHUTTER | DT_AWNING | DT_WINDOW_OPENER
    | DT_GARAGE_OPENER | DT_LIGHT | DT_GATE_OPENER | DT_ROLLING_DOOR_OPENER | DT_LOCK | DT_BLIND
    | DT_SCREEN | DT_BEACON | DT_DUAL_SHUTTER | DT_HEATING_TEMPERATURE_INTERFACE
    | DT_ON_OFF_SWITCH | DT_HORIZONTAL_AWNING | DT_EXTERNAL_VENETIAN_BLIND | DT_LOUVRE_BLIND
    | DT_CURTAIN_TRACK | DT_VENTILATION_POINT | DT_EXTERIOR_HEATING | DT_HEAT_PUMP
    | DT_INTRUSION_ALARM | DT_SWINGING_SHUTTER | DT_OTHER u8

datatype capability_class =
    CAP_UNKNOWN | CAP_COVER | CAP_LIGHT | CAP_SWITCH | CAP_SENSOR | CAP_BEACON | CAP_CLIMATE | CAP_LOCK

fun device_type_raw :: "device_type \<Rightarrow> u8" where
  "device_type_raw DT_UNKNOWN = 0x00"
| "device_type_raw DT_VENETIAN_BLIND = 0x01"
| "device_type_raw DT_ROLLER_SHUTTER = 0x02"
| "device_type_raw DT_AWNING = 0x03"
| "device_type_raw DT_WINDOW_OPENER = 0x04"
| "device_type_raw DT_GARAGE_OPENER = 0x05"
| "device_type_raw DT_LIGHT = 0x06"
| "device_type_raw DT_GATE_OPENER = 0x07"
| "device_type_raw DT_ROLLING_DOOR_OPENER = 0x08"
| "device_type_raw DT_LOCK = 0x09"
| "device_type_raw DT_BLIND = 0x0A"
| "device_type_raw DT_SCREEN = 0x0B"
| "device_type_raw DT_BEACON = 0x0C"
| "device_type_raw DT_DUAL_SHUTTER = 0x0D"
| "device_type_raw DT_HEATING_TEMPERATURE_INTERFACE = 0x0E"
| "device_type_raw DT_ON_OFF_SWITCH = 0x0F"
| "device_type_raw DT_HORIZONTAL_AWNING = 0x10"
| "device_type_raw DT_EXTERNAL_VENETIAN_BLIND = 0x11"
| "device_type_raw DT_LOUVRE_BLIND = 0x12"
| "device_type_raw DT_CURTAIN_TRACK = 0x13"
| "device_type_raw DT_VENTILATION_POINT = 0x14"
| "device_type_raw DT_EXTERIOR_HEATING = 0x15"
| "device_type_raw DT_HEAT_PUMP = 0x16"
| "device_type_raw DT_INTRUSION_ALARM = 0x17"
| "device_type_raw DT_SWINGING_SHUTTER = 0x18"
| "device_type_raw (DT_OTHER raw) = raw"

text \<open>\<open>static_cast<DeviceType>(raw)\<close>.\<close>

definition named_device_types :: "device_type list" where
  "named_device_types = [DT_UNKNOWN, DT_VENETIAN_BLIND, DT_ROLLER_SHUTTER, DT_AWNING, DT_WINDOW_OPENER,
     DT_GARAGE_OPENER, DT_LIGHT, DT_GATE_OPENER, DT_ROLLING_DOOR_OPENER, DT_LOCK,
     DT_BLIND, DT_SCREEN, DT_BEACON, DT_DUAL_SHUTTER, DT_HEATING_TEMPERATURE_INTERFACE,
     DT_ON_OFF_SWITCH, DT_HORIZONTAL_AWNING, DT_EXTERNAL_VENETIAN_BLIND,
     DT_LOUVRE_BLIND, DT_CURTAIN_TRACK, DT_VENTILATION_POINT, DT_EXTERIOR_HEATING,
     DT_HEAT_PUMP, DT_INTRUSION_ALARM, DT_SWINGING_SHUTTER]"

definition device_type_of_raw :: "u8 \<Rightarrow> device_type" where
  "device_type_of_raw raw =
     (if unat raw < length named_device_types then named_device_types ! unat raw else DT_OTHER raw)"

fun device_type_name :: "device_type \<Rightarrow> string" where
  "device_type_name DT_UNKNOWN = ''unknown''"
| "device_type_name DT_VENETIAN_BLIND = ''venetian_blind''"
| "device_type_name DT_ROLLER_SHUTTER = ''roller_shutter''"
| "device_type_name DT_AWNING = ''awning''"
| "device_type_name DT_WINDOW_OPENER = ''window_opener''"
| "device_type_name DT_GARAGE_OPENER = ''garage_opener''"
| "device_type_name DT_LIGHT = ''light''"
| "device_type_name DT_GATE_OPENER = ''gate_opener''"
| "device_type_name DT_ROLLING_DOOR_OPENER = ''rolling_door_opener''"
| "device_type_name DT_LOCK = ''lock''"
| "device_type_name DT_BLIND = ''blind''"
| "device_type_name DT_SCREEN = ''screen''"
| "device_type_name DT_BEACON = ''beacon''"
| "device_type_name DT_DUAL_SHUTTER = ''dual_shutter''"
| "device_type_name DT_HEATING_TEMPERATURE_INTERFACE = ''heating_temperature_interface''"
| "device_type_name DT_ON_OFF_SWITCH = ''on_off_switch''"
| "device_type_name DT_HORIZONTAL_AWNING = ''horizontal_awning''"
| "device_type_name DT_EXTERNAL_VENETIAN_BLIND = ''external_venetian_blind''"
| "device_type_name DT_LOUVRE_BLIND = ''louvre_blind''"
| "device_type_name DT_CURTAIN_TRACK = ''curtain_track''"
| "device_type_name DT_VENTILATION_POINT = ''ventilation_point''"
| "device_type_name DT_EXTERIOR_HEATING = ''exterior_heating''"
| "device_type_name DT_HEAT_PUMP = ''heat_pump''"
| "device_type_name DT_INTRUSION_ALARM = ''intrusion_alarm''"
| "device_type_name DT_SWINGING_SHUTTER = ''swinging_shutter''"
| "device_type_name (DT_OTHER raw) = ''unknown''"

fun yaml_device_type_name :: "device_type \<Rightarrow> string option" where
  "yaml_device_type_name DT_UNKNOWN = Some ''unknown''"
| "yaml_device_type_name DT_VENETIAN_BLIND = Some ''venetian_blind''"
| "yaml_device_type_name DT_ROLLER_SHUTTER = Some ''roller_shutter''"
| "yaml_device_type_name DT_AWNING = Some ''awning''"
| "yaml_device_type_name DT_WINDOW_OPENER = Some ''window_opener''"
| "yaml_device_type_name DT_GARAGE_OPENER = Some ''garage_opener''"
| "yaml_device_type_name DT_LIGHT = Some ''light''"
| "yaml_device_type_name DT_GATE_OPENER = Some ''gate_opener''"
| "yaml_device_type_name DT_ROLLING_DOOR_OPENER = Some ''rolling_door_opener''"
| "yaml_device_type_name DT_LOCK = Some ''lock''"
| "yaml_device_type_name DT_BLIND = Some ''blind''"
| "yaml_device_type_name DT_SCREEN = Some ''screen''"
| "yaml_device_type_name DT_BEACON = None"
| "yaml_device_type_name DT_DUAL_SHUTTER = Some ''dual_shutter''"
| "yaml_device_type_name DT_HEATING_TEMPERATURE_INTERFACE = Some ''heating_temperature_interface''"
| "yaml_device_type_name DT_ON_OFF_SWITCH = Some ''on_off_switch''"
| "yaml_device_type_name DT_HORIZONTAL_AWNING = Some ''horizontal_awning''"
| "yaml_device_type_name DT_EXTERNAL_VENETIAN_BLIND = Some ''external_venetian_blind''"
| "yaml_device_type_name DT_LOUVRE_BLIND = Some ''louvre_blind''"
| "yaml_device_type_name DT_CURTAIN_TRACK = Some ''curtain_track''"
| "yaml_device_type_name DT_VENTILATION_POINT = None"
| "yaml_device_type_name DT_EXTERIOR_HEATING = None"
| "yaml_device_type_name DT_HEAT_PUMP = None"
| "yaml_device_type_name DT_INTRUSION_ALARM = Some ''intrusion_alarm''"
| "yaml_device_type_name DT_SWINGING_SHUTTER = Some ''swinging_shutter''"
| "yaml_device_type_name (DT_OTHER raw) = None"

fun device_capability_class :: "device_type \<Rightarrow> capability_class" where
  "device_capability_class DT_UNKNOWN = CAP_UNKNOWN"
| "device_capability_class DT_VENETIAN_BLIND = CAP_COVER"
| "device_capability_class DT_ROLLER_SHUTTER = CAP_COVER"
| "device_capability_class DT_AWNING = CAP_COVER"
| "device_capability_class DT_WINDOW_OPENER = CAP_COVER"
| "device_capability_class DT_GARAGE_OPENER = CAP_COVER"
| "device_capability_class DT_LIGHT = CAP_LIGHT"
| "device_capability_class DT_GATE_OPENER = CAP_COVER"
| "device_capability_class DT_ROLLING_DOOR_OPENER = CAP_COVER"
| "device_capability_class DT_LOCK = CAP_LOCK"
| "device_capability_class DT_BLIND = CAP_COVER"
| "device_capability_class DT_SCREEN = CAP_COVER"
| "device_capability_class DT_BEACON = CAP_BEACON"
| "device_capability_class DT_DUAL_SHUTTER = CAP_COVER"
| "device_capability_class DT_HEATING_TEMPERATURE_INTERFACE = CAP_CLIMATE"
| "device_capability_class DT_ON_OFF_SWITCH = CAP_SWITCH"
| "device_capability_class DT_HORIZONTAL_AWNING = CAP_COVER"
| "device_capability_class DT_EXTERNAL_VENETIAN_BLIND = CAP_COVER"
| "device_capability_class DT_LOUVRE_BLIND = CAP_COVER"
| "device_capability_class DT_CURTAIN_TRACK = CAP_COVER"
| "device_capability_class DT_VENTILATION_POINT = CAP_SWITCH"
| "device_capability_class DT_EXTERIOR_HEATING = CAP_CLIMATE"
| "device_capability_class DT_HEAT_PUMP = CAP_CLIMATE"
| "device_capability_class DT_INTRUSION_ALARM = CAP_SENSOR"
| "device_capability_class DT_SWINGING_SHUTTER = CAP_COVER"
| "device_capability_class (DT_OTHER raw) = CAP_UNKNOWN"

fun capability_class_name :: "capability_class \<Rightarrow> string" where
  "capability_class_name CAP_COVER = ''cover''"
| "capability_class_name CAP_LIGHT = ''light''"
| "capability_class_name CAP_SWITCH = ''switch''"
| "capability_class_name CAP_SENSOR = ''sensor''"
| "capability_class_name CAP_BEACON = ''beacon''"
| "capability_class_name CAP_CLIMATE = ''climate''"
| "capability_class_name CAP_LOCK = ''lock''"
| "capability_class_name CAP_UNKNOWN = ''unknown''"

definition device_capability_class_name :: "device_type \<Rightarrow> string" where
  "device_capability_class_name type = capability_class_name (device_capability_class type)"

fun pairing_platform_name :: "capability_class \<Rightarrow> string option" where
  "pairing_platform_name CAP_COVER = Some ''cover''"
| "pairing_platform_name CAP_LIGHT = Some ''light''"
| "pairing_platform_name CAP_SWITCH = Some ''switch''"
| "pairing_platform_name CAP_LOCK = Some ''lock''"
| "pairing_platform_name _ = None"

definition default_inverted_for_type :: "device_type \<Rightarrow> bool" where
  "default_inverted_for_type type \<longleftrightarrow> type = DT_HORIZONTAL_AWNING"

definition device_supports_position_control :: "device_type \<Rightarrow> bool" where
  "device_supports_position_control type \<longleftrightarrow> device_capability_class type = CAP_COVER"

definition device_supports_binary_control :: "device_type \<Rightarrow> bool" where
  "device_supports_binary_control type \<longleftrightarrow>
     (let capability_class = device_capability_class type
      in capability_class = CAP_LIGHT \<or> capability_class = CAP_SWITCH)"

definition device_supports_lock_control :: "device_type \<Rightarrow> bool" where
  "device_supports_lock_control type \<longleftrightarrow> device_capability_class type = CAP_LOCK"

definition device_supports_status_requests :: "device_type \<Rightarrow> bool" where
  "device_supports_status_requests type \<longleftrightarrow>
     device_supports_position_control type \<or> device_supports_binary_control type \<or>
     device_supports_lock_control type"

fun device_supports_tilt :: "device_type \<Rightarrow> bool" where
  "device_supports_tilt DT_VENETIAN_BLIND = True"
| "device_supports_tilt DT_BLIND = True"
| "device_supports_tilt DT_EXTERNAL_VENETIAN_BLIND = True"
| "device_supports_tilt DT_LOUVRE_BLIND = True"
| "device_supports_tilt _ = False"

fun device_supports_vent :: "device_type \<Rightarrow> bool" where
  "device_supports_vent DT_WINDOW_OPENER = True"
| "device_supports_vent DT_VENTILATION_POINT = True"
| "device_supports_vent _ = False"

definition device_operation_profile_name :: "device_type \<Rightarrow> string" where
  "device_operation_profile_name type =
     (if device_supports_position_control type
      then if device_supports_tilt type then ''cover_position_tilt'' else ''cover_position''
      else if device_supports_binary_control type then ''binary_on_off''
      else (case device_capability_class type of
              CAP_LOCK \<Rightarrow> ''lock'' | CAP_CLIMATE \<Rightarrow> ''climate'' | CAP_SENSOR \<Rightarrow> ''sensor''
            | CAP_BEACON \<Rightarrow> ''beacon'' | _ \<Rightarrow> ''unknown''))"

datatype cover_command = CC_STOP | CC_FAVORITE | CC_VENT | CC_FORCE_OPEN

fun cover_command_name :: "cover_command \<Rightarrow> string" where
  "cover_command_name CC_STOP = ''STOP''"
| "cover_command_name CC_FAVORITE = ''FAVORITE''"
| "cover_command_name CC_VENT = ''VENT''"
| "cover_command_name CC_FORCE_OPEN = ''FORCE_OPEN''"

section \<open>Diagnostics and YAML\<close>

definition format_device_type_hex :: "device_type \<Rightarrow> string" where
  "format_device_type_hex type = ''0x'' @ hex_byte (device_type_raw type)"

definition format_device_type_diagnostic :: "device_type \<Rightarrow> string" where
  "format_device_type_diagnostic type =
     (let name = device_type_name type; raw = format_device_type_hex type
      in if name \<noteq> ''unknown'' then name @ '' ('' @ raw @ '')'' else raw)"

definition format_device_type_for_yaml :: "device_type \<Rightarrow> string" where
  "format_device_type_for_yaml type =
     (case yaml_device_type_name type of
        Some name \<Rightarrow> quoted name
      | None \<Rightarrow> format_device_type_hex type)"

definition build_device_yaml_snippet ::
  "device_type \<Rightarrow> u8 \<Rightarrow> string \<Rightarrow> bool \<Rightarrow> bool \<Rightarrow> bool \<Rightarrow> string" where
  "build_device_yaml_snippet type subtype device_id metadata_complete inverted low_power =
     (let low_power_line = (if low_power then text_line ''    low_power: true'' else [])
      in if \<not> metadata_complete
         then text_line ''  <cover|light|switch|lock>:'' @
              text_line ''  - platform: home_io_control'' @
              text_line (''    name: '' @ quoted ''My Device'') @
              text_line (''    io_device_id: '' @ quoted device_id) @
              ''    # io_device_type: left unset '' @ em_dash @
              text_line '' this device didn't report its type during'' @
              text_line ''    #   discovery, so the controller learns it automatically from the next status'' @
              text_line ''    #   reply. Add it explicitly once you see it logged, to skip re-learning on'' @
              text_line ''    #   every future boot.'' @
              low_power_line
         else let capability_class = device_capability_class type
              in case pairing_platform_name capability_class of
                   None \<Rightarrow> []
                 | Some platform \<Rightarrow>
                     let extra_lines =
                           (if capability_class = CAP_COVER \<and> inverted
                            then text_line ''    invert_position: true'' else []) @ low_power_line;
                         subtype_line = text_line (''    io_subtype: '' @ dec_string (unat subtype))
                     in text_line (''  '' @ platform @ '':'') @
                        text_line ''  - platform: home_io_control'' @
                        text_line (''    name: '' @ quoted ''My Device'') @
                        text_line (''    io_device_id: '' @ quoted device_id) @
                        text_line (''    io_device_type: '' @ format_device_type_for_yaml type) @
                        subtype_line @ extra_lines)"

section \<open>Packed metadata\<close>

definition decode_packed_device_type :: "u8 \<Rightarrow> u8 \<Rightarrow> device_type" where
  "decode_packed_device_type type_msb type_subtype =
     device_type_of_raw (push_bit DEVICE_TYPE_LOW_BITS_SHIFT type_msb OR
                         drop_bit DEVICE_TYPE_HIGH_BITS_SHIFT type_subtype)"

definition decode_packed_device_subtype :: "u8 \<Rightarrow> u8" where
  "decode_packed_device_subtype type_subtype = type_subtype AND DEVICE_SUBTYPE_MASK"

definition encode_packed_device_type :: "device_type \<Rightarrow> u8 \<Rightarrow> u8 \<times> u8" where
  "encode_packed_device_type type subtype =
     (let raw = device_type_raw type
      in (drop_bit DEVICE_TYPE_LOW_BITS_SHIFT raw,
          push_bit DEVICE_TYPE_HIGH_BITS_SHIFT raw OR (subtype AND DEVICE_SUBTYPE_MASK)))"

section \<open>Position and tilt reports\<close>

abbreviation (input) UNKNOWN_POSITION :: rat where "UNKNOWN_POSITION \<equiv> 212"

text \<open>\<open>raw * 100.0F / STATUS_POS_MAX\<close>.\<close>

definition raw_percent :: "u16 \<Rightarrow> rat" where
  "raw_percent raw = of_nat (unat raw) * 100 / of_nat (unat STATUS_POS_MAX)"

definition decode_position_report :: "u16 \<Rightarrow> u16 \<Rightarrow> bool \<Rightarrow> rat \<times> rat" where
  "decode_position_report target_raw current_raw is_stopped =
     (let target_valid = target_raw \<le> STATUS_POS_MAX;
          current_valid = current_raw \<le> STATUS_POS_MAX;
          decoded_current = (if current_valid then raw_percent current_raw else UNKNOWN_POSITION);
          target = (if target_valid then raw_percent target_raw
                    else if is_stopped \<and> current_valid then decoded_current
                    else UNKNOWN_POSITION);
          position = (if current_valid then decoded_current
                      else if is_stopped \<and> target_valid then target
                      else UNKNOWN_POSITION)
      in (target, position))"

definition has_reached_target_position :: "rat \<Rightarrow> rat \<Rightarrow> bool" where
  "has_reached_target_position target position =
     (if target = UNKNOWN_POSITION \<or> position = UNKNOWN_POSITION then False
      else let tolerance = of_nat (unat STATUS_POS_TOLERANCE_RAW) * 100 / of_nat (unat STATUS_POS_MAX)
           in \<bar>target - position\<bar> \<le> tolerance)"

definition decode_tilt_report :: "u16 \<Rightarrow> rat" where
  "decode_tilt_report tilt_raw =
     (if tilt_raw > STATUS_POS_MAX then UNKNOWN_POSITION else 100 - raw_percent tilt_raw)"

section \<open>Device state\<close>

datatype motion = MOTION_NONE | MOTION_MOVING | MOTION_STOPPED

record optimistic_state =
  opt_target :: rat
  opt_tilt :: rat
  opt_motion :: motion

definition no_prediction :: optimistic_state where
  "no_prediction = \<lparr>opt_target = UNKNOWN_POSITION, opt_tilt = UNKNOWN_POSITION, opt_motion = MOTION_NONE\<rparr>"

definition optimistic_empty :: "optimistic_state \<Rightarrow> bool" where
  "optimistic_empty s \<longleftrightarrow>
     opt_target s = UNKNOWN_POSITION \<and> opt_tilt s = UNKNOWN_POSITION \<and> opt_motion s = MOTION_NONE"

definition optimistic_clear :: "optimistic_state \<Rightarrow> optimistic_state" where
  "optimistic_clear s = no_prediction"

definition optimistic_clear_position :: "optimistic_state \<Rightarrow> optimistic_state" where
  "optimistic_clear_position s = s\<lparr>opt_target := UNKNOWN_POSITION, opt_motion := MOTION_NONE\<rparr>"

definition optimistic_clear_tilt :: "optimistic_state \<Rightarrow> optimistic_state" where
  "optimistic_clear_tilt s = s\<lparr>opt_tilt := UNKNOWN_POSITION\<rparr>"

text \<open>
  \<open>IoDevice\<close>. The name is the NUL-terminated content of its 32-byte buffer; the signed 16-bit signal
  strengths are integers, kept in range by the code that writes them.
\<close>

abbreviation (input) RSSI_UNKNOWN_DBM :: int where "RSSI_UNKNOWN_DBM \<equiv> - 32768"
abbreviation (input) RSSI_EMA_SCALE :: int where "RSSI_EMA_SCALE \<equiv> 8"

record io_device =
  dev_node_id :: node_id
  dev_type :: device_type
  dev_subtype :: u8
  dev_name :: bytes
  dev_position :: rat
  dev_tilt :: rat
  dev_target :: rat
  dev_is_stopped :: bool
  dev_inverted :: bool
  dev_silent :: bool
  dev_optimistic_state :: bool
  dev_low_power :: bool
  dev_dimmable :: bool
  dev_last_result_code :: u8
  dev_last_result_at_ms :: u32
  dev_last_status :: u32
  dev_last_rssi_dbm :: int
  dev_rssi_ema_scaled :: int
  dev_last_seen_ms :: u32
  dev_exchange_timeout_count :: u16
  dev_exchange_attempt_count :: u16
  dev_optimistic :: optimistic_state

definition new_device :: io_device where
  "new_device =
     \<lparr>dev_node_id = [0, 0, 0], dev_type = DT_UNKNOWN, dev_subtype = 0, dev_name = [],
      dev_position = UNKNOWN_POSITION, dev_tilt = UNKNOWN_POSITION, dev_target = UNKNOWN_POSITION,
      dev_is_stopped = True, dev_inverted = False, dev_silent = False, dev_optimistic_state = True,
      dev_low_power = False, dev_dimmable = False, dev_last_result_code = 0, dev_last_result_at_ms = 0,
      dev_last_status = 0, dev_last_rssi_dbm = RSSI_UNKNOWN_DBM, dev_rssi_ema_scaled = RSSI_UNKNOWN_DBM,
      dev_last_seen_ms = 0, dev_exchange_timeout_count = 0, dev_exchange_attempt_count = 0,
      dev_optimistic = no_prediction\<rparr>"

definition rssi_scaled_to_dbm :: "int \<Rightarrow> int" where
  "rssi_scaled_to_dbm scaled =
     (let half = RSSI_EMA_SCALE div 2
      in (scaled + (if scaled \<ge> 0 then half else - half)) sdiv RSSI_EMA_SCALE)"

definition device_rssi_ema_dbm :: "io_device \<Rightarrow> int" where
  "device_rssi_ema_dbm dev =
     (if dev_rssi_ema_scaled dev = RSSI_UNKNOWN_DBM then RSSI_UNKNOWN_DBM
      else rssi_scaled_to_dbm (dev_rssi_ema_scaled dev))"

definition effective_target :: "io_device \<Rightarrow> rat" where
  "effective_target dev =
     (if opt_target (dev_optimistic dev) \<noteq> UNKNOWN_POSITION then opt_target (dev_optimistic dev)
      else dev_target dev)"

definition effective_tilt :: "io_device \<Rightarrow> rat" where
  "effective_tilt dev =
     (if opt_tilt (dev_optimistic dev) \<noteq> UNKNOWN_POSITION then opt_tilt (dev_optimistic dev)
      else dev_tilt dev)"

definition effective_is_stopped :: "io_device \<Rightarrow> bool" where
  "effective_is_stopped dev =
     (case opt_motion (dev_optimistic dev) of
        MOTION_MOVING \<Rightarrow> False | MOTION_STOPPED \<Rightarrow> True | MOTION_NONE \<Rightarrow> dev_is_stopped dev)"

section \<open>Lemmas\<close>

lemma device_type_of_raw_raw [simp]: "device_type_raw (device_type_of_raw raw) = raw"
proof (cases "unat raw < length named_device_types")
  case True
  have "map device_type_raw named_device_types = map word_of_nat [0..<length named_device_types]"
    by (simp add: named_device_types_def upt_rec)
  then have "map device_type_raw named_device_types ! unat raw =
      map word_of_nat [0..<length named_device_types] ! unat raw" by simp
  with True show ?thesis by (simp add: device_type_of_raw_def)
qed (simp add: device_type_of_raw_def)

text \<open>A value of the enumeration is canonical when its byte reads back as itself.\<close>

definition device_type_ok :: "device_type \<Rightarrow> bool" where
  "device_type_ok type \<longleftrightarrow> (\<forall>raw. type = DT_OTHER raw \<longrightarrow> 25 \<le> unat raw)"

lemma device_type_of_raw_ok [simp, wf_rules]: "device_type_ok (device_type_of_raw raw)"
proof (cases "unat raw < length named_device_types")
  case True
  then have "device_type_of_raw raw \<in> set named_device_types" by (simp add: device_type_of_raw_def)
  moreover have "\<forall>t \<in> set named_device_types. device_type_ok t"
    by (simp add: named_device_types_def device_type_ok_def)
  ultimately show ?thesis by blast
qed (simp add: device_type_of_raw_def device_type_ok_def named_device_types_def)

lemma device_type_raw_of_raw [simp]: "device_type_ok t \<Longrightarrow> device_type_of_raw (device_type_raw t) = t"
  by (cases t) (simp_all add: device_type_of_raw_def named_device_types_def device_type_ok_def)

lemma unpack_type: "push_bit 2 (drop_bit 2 raw) OR drop_bit 6 (push_bit 6 raw OR (s AND 0x3F)) = (raw :: u8)"
proof (rule bit_word_eqI)
  fix n assume n: "n < LENGTH(8)"
  have m: "(0x3F :: u8) = mask 6" by (simp add: mask_eq_exp_minus_1)
  show "bit (push_bit 2 (drop_bit 2 raw) OR drop_bit 6 (push_bit 6 raw OR (s AND 0x3F))) n = bit raw n"
    using n unfolding m by (cases "n < 2") (auto simp: bit_simps numeral_2_eq_2 [symmetric] Suc_diff_Suc
        simp flip: add_2_eq_Suc')
qed

lemma unpack_subtype: "(push_bit 6 raw OR (s AND 0x3F)) AND 0x3F = (s AND 0x3F :: u8)"
proof -
  have m: "(0x3F :: u8) = mask 6" by (simp add: mask_eq_exp_minus_1)
  show ?thesis unfolding m by (rule bit_word_eqI) (auto simp: bit_simps)
qed

lemma repack_type:
  assumes "msb < 64"
  shows "drop_bit 2 (push_bit 2 msb OR drop_bit 6 sub) = (msb :: u8)"
    and "push_bit 6 (push_bit 2 msb OR drop_bit 6 sub) OR (sub AND 0x3F AND 0x3F) = (sub :: u8)"
proof -
  have m: "(0x3F :: u8) = mask 6" by (simp add: mask_eq_exp_minus_1)
  have "msb = take_bit 6 msb"
    using assms by (simp add: word_unat_eq_iff unsigned_take_bit_eq take_bit_eq_mod word_less_nat_alt unat_mod_distrib)
  then have low: "n < 6" if "bit msb n" for n
    using that by (metis bit_take_bit_iff)
  show "drop_bit 2 (push_bit 2 msb OR drop_bit 6 sub) = msb"
    by (rule bit_word_eqI) (auto simp: bit_simps dest: low bit_imp_le_length)
  show "push_bit 6 (push_bit 2 msb OR drop_bit 6 sub) OR (sub AND 0x3F AND 0x3F) = sub"
    unfolding m by (rule bit_word_eqI) (auto simp: bit_simps)
qed

lemma raw_percent_alt: "raw_percent raw = of_nat (unat raw) / 512"
proof -
  have c: "unat (0xC800 :: u16) = 51200" by simp
  have "(x :: rat) * 100 / of_nat 51200 = x / 512" for x by simp
  then show ?thesis unfolding raw_percent_def c by blast
qed

lemma tolerance_alt: "of_nat (unat STATUS_POS_TOLERANCE_RAW) * 100 / of_nat (unat STATUS_POS_MAX) = (25 / 128 :: rat)"
proof -
  have c: "unat (0xC800 :: u16) = 51200" "unat (100 :: u16) = 100" by simp_all
  show ?thesis unfolding c by simp
qed

lemma raw_percent_bounds:
  assumes "raw \<le> STATUS_POS_MAX"
  shows "0 \<le> raw_percent raw" and "raw_percent raw \<le> 100"
proof -
  define n where "n = unat raw"
  have "n \<le> 51200" using assms by (simp add: word_le_nat_alt n_def)
  then have "(of_nat n :: rat) \<le> of_nat 51200" by (simp only: of_nat_le_iff)
  then show "0 \<le> raw_percent raw" "raw_percent raw \<le> 100"
    by (simp_all add: raw_percent_alt flip: n_def del: of_nat_unat)
qed

lemma raw_percent_known: "raw \<le> STATUS_POS_MAX \<Longrightarrow> raw_percent raw \<noteq> UNKNOWN_POSITION"
  using raw_percent_bounds(2) [of raw] by auto

section \<open>Properties\<close>

text \<open>The packed type metadata loses nothing: decoding an encoded pair returns the device type
  and the low six bits of the subtype, and encoding what was decoded returns the two bytes exactly,
  whenever the first byte fits the six bits the format has for it.\<close>

theorem packed_type_roundtrip:
  assumes "device_type_ok type"
  shows "(case encode_packed_device_type type subtype of (msb, sub) \<Rightarrow>
      decode_packed_device_type msb sub = type \<and>
      decode_packed_device_subtype sub = subtype AND DEVICE_SUBTYPE_MASK) \<and>
    (m < 64 \<longrightarrow>
      encode_packed_device_type (decode_packed_device_type m s) (decode_packed_device_subtype s) = (m, s))"
  using assms unpack_type [of "device_type_raw type" subtype] unpack_subtype [of "device_type_raw type" subtype]
    repack_type [of m s]
  by (simp add: encode_packed_device_type_def decode_packed_device_type_def decode_packed_device_subtype_def
      Let_def del: and.left_idem)

theorem packed_type_roundtrip_witness:
  "encode_packed_device_type (decode_packed_device_type 0x03 0xC5) (decode_packed_device_subtype 0xC5) = (0x03, 0xC5)"
  using packed_type_roundtrip [of DT_LOCK 1 3 "0xC5"] by (simp add: device_type_ok_def)

text \<open>A position report decodes to percentages between 0 and 100 or to the unknown marker. The
  position is known exactly when the current reading is valid or the device is stopped with a valid
  target, and symmetrically for the target; a stopped device with any valid reading reports itself
  at its target when the other reading is a marker.\<close>

theorem position_report_ranges:
  "(case decode_position_report target_raw current_raw stopped of (target, position) \<Rightarrow>
      (target = UNKNOWN_POSITION \<or> 0 \<le> target \<and> target \<le> 100) \<and>
      (position = UNKNOWN_POSITION \<or> 0 \<le> position \<and> position \<le> 100) \<and>
      (target \<noteq> UNKNOWN_POSITION) =
        (target_raw \<le> STATUS_POS_MAX \<or> (stopped \<and> current_raw \<le> STATUS_POS_MAX)) \<and>
      (position \<noteq> UNKNOWN_POSITION) =
        (current_raw \<le> STATUS_POS_MAX \<or> (stopped \<and> target_raw \<le> STATUS_POS_MAX)) \<and>
      (stopped \<and> (target_raw > STATUS_POS_MAX) \<noteq> (current_raw > STATUS_POS_MAX) \<longrightarrow>
        has_reached_target_position target position))"
  using raw_percent_bounds raw_percent_known
  by (auto simp: decode_position_report_def has_reached_target_position_def Let_def not_less)

theorem position_report_ranges_witness:
  "has_reached_target_position (fst (decode_position_report 0xD200 0x6400 True))
     (snd (decode_position_report 0xD200 0x6400 True))"
  using position_report_ranges [where target_raw = "0xD200" and current_raw = "0x6400" and stopped = True]
  by (simp split: prod.splits)

text \<open>On valid readings the floating-point test for having reached the target is exactly the
  integer test that the raw readings are at most STATUS_POS_TOLERANCE_RAW apart.\<close>

theorem reached_target_is_raw_distance:
  assumes "target_raw \<le> STATUS_POS_MAX" and "current_raw \<le> STATUS_POS_MAX"
  shows "(case decode_position_report target_raw current_raw stopped of (target, position) \<Rightarrow>
      has_reached_target_position target position) \<longleftrightarrow>
    \<bar>int (unat target_raw) - int (unat current_raw)\<bar> \<le> int (unat STATUS_POS_TOLERANCE_RAW)"
proof -
  let ?t = "int (unat target_raw)" and ?c = "int (unat current_raw)"
  have "\<bar>rat_of_nat t / 512 - rat_of_nat c / 512\<bar> = \<bar>rat_of_int (int t - int c)\<bar> / 512" for t c
    by (simp add: field_simps abs_if split: if_splits)
  then have "\<bar>raw_percent target_raw - raw_percent current_raw\<bar> = \<bar>rat_of_int (?t - ?c)\<bar> / 512"
    unfolding raw_percent_alt by blast
  then have "\<bar>raw_percent target_raw - raw_percent current_raw\<bar> \<le> 25 / 128
      \<longleftrightarrow> \<bar>rat_of_int (?t - ?c)\<bar> \<le> rat_of_int 100"
    by (simp only:) (simp add: field_simps)
  also have "\<dots> \<longleftrightarrow> \<bar>?t - ?c\<bar> \<le> 100"
    unfolding of_int_abs [symmetric] of_int_le_iff by (rule refl)
  finally have "\<bar>raw_percent target_raw - raw_percent current_raw\<bar> \<le> 25 / 128
      \<longleftrightarrow> \<bar>?t - ?c\<bar> \<le> int (unat STATUS_POS_TOLERANCE_RAW)" by simp
  then show ?thesis
    using assms raw_percent_known
    by (simp only: decode_position_report_def has_reached_target_position_def Let_def tolerance_alt
        prod.case if_True if_False simp_thms not_False_eq_True)
qed

theorem reached_target_is_raw_distance_witness:
  "\<not> (case decode_position_report 0x6400 0x6300 False of (target, position) \<Rightarrow>
      has_reached_target_position target position)"
  using reached_target_is_raw_distance [of "0x6400" "0x6300" False] by simp

text \<open>The capability predicates are one consistent table: exactly the covers, the binary devices
  and the locks can be asked for their status, no type is in two of these groups, tilt is offered
  only by covers, and a pairing snippet exists exactly for the types with status requests (when the
  device reported its metadata).\<close>

theorem capability_table:
  "(device_supports_status_requests type \<longleftrightarrow>
      device_capability_class type \<in> {CAP_COVER, CAP_LIGHT, CAP_SWITCH, CAP_LOCK}) \<and>
    \<not> (device_supports_position_control type \<and> device_supports_binary_control type) \<and>
    \<not> (device_supports_lock_control type \<and> device_supports_binary_control type) \<and>
    (device_supports_tilt type \<longrightarrow> device_supports_position_control type) \<and>
    (build_device_yaml_snippet type subtype node True inverted low_power = [] \<longleftrightarrow>
      \<not> device_supports_status_requests type)"
  by (cases type)
    (simp_all add: device_supports_status_requests_def device_supports_position_control_def
      device_supports_binary_control_def device_supports_lock_control_def build_device_yaml_snippet_def
      text_line_def nl_def)

theorem capability_table_witness:
  "device_supports_position_control DT_BLIND"
  using capability_table [of DT_BLIND 0 "''38B4A1''" False False] by simp

end
