(* ===== verification/Aes.thy ===== *)
theory Aes
  imports Constants
begin

text \<open>
  The self-contained AES-128 of \<open>proto_crypto.cpp\<close>: tables, field multiplication, the round
  transformations on the 16-byte state, the key schedule and the two block operations. The state is
  the byte list \<open>state[0..15]\<close> in the code's (column-major) order. The main result is that the
  decryption path inverts the encryption path under every key, and back.
\<close>

section \<open>Tables\<close>

definition AES_SBOX :: bytes where
  "AES_SBOX = [
     0x63, 0x7C, 0x77, 0x7B, 0xF2, 0x6B, 0x6F, 0xC5, 0x30, 0x01, 0x67, 0x2B, 0xFE, 0xD7, 0xAB, 0x76,
     0xCA, 0x82, 0xC9, 0x7D, 0xFA, 0x59, 0x47, 0xF0, 0xAD, 0xD4, 0xA2, 0xAF, 0x9C, 0xA4, 0x72, 0xC0,
     0xB7, 0xFD, 0x93, 0x26, 0x36, 0x3F, 0xF7, 0xCC, 0x34, 0xA5, 0xE5, 0xF1, 0x71, 0xD8, 0x31, 0x15,
     0x04, 0xC7, 0x23, 0xC3, 0x18, 0x96, 0x05, 0x9A, 0x07, 0x12, 0x80, 0xE2, 0xEB, 0x27, 0xB2, 0x75,
     0x09, 0x83, 0x2C, 0x1A, 0x1B, 0x6E, 0x5A, 0xA0, 0x52, 0x3B, 0xD6, 0xB3, 0x29, 0xE3, 0x2F, 0x84,
     0x53, 0xD1, 0x00, 0xED, 0x20, 0xFC, 0xB1, 0x5B, 0x6A, 0xCB, 0xBE, 0x39, 0x4A, 0x4C, 0x58, 0xCF,
     0xD0, 0xEF, 0xAA, 0xFB, 0x43, 0x4D, 0x33, 0x85, 0x45, 0xF9, 0x02, 0x7F, 0x50, 0x3C, 0x9F, 0xA8,
     0x51, 0xA3, 0x40, 0x8F, 0x92, 0x9D, 0x38, 0xF5, 0xBC, 0xB6, 0xDA, 0x21, 0x10, 0xFF, 0xF3, 0xD2,
     0xCD, 0x0C, 0x13, 0xEC, 0x5F, 0x97, 0x44, 0x17, 0xC4, 0xA7, 0x7E, 0x3D, 0x64, 0x5D, 0x19, 0x73,
     0x60, 0x81, 0x4F, 0xDC, 0x22, 0x2A, 0x90, 0x88, 0x46, 0xEE, 0xB8, 0x14, 0xDE, 0x5E, 0x0B, 0xDB,
     0xE0, 0x32, 0x3A, 0x0A, 0x49, 0x06, 0x24, 0x5C, 0xC2, 0xD3, 0xAC, 0x62, 0x91, 0x95, 0xE4, 0x79,
     0xE7, 0xC8, 0x37, 0x6D, 0x8D, 0xD5, 0x4E, 0xA9, 0x6C, 0x56, 0xF4, 0xEA, 0x65, 0x7A, 0xAE, 0x08,
     0xBA, 0x78, 0x25, 0x2E, 0x1C, 0xA6, 0xB4, 0xC6, 0xE8, 0xDD, 0x74, 0x1F, 0x4B, 0xBD, 0x8B, 0x8A,
     0x70, 0x3E, 0xB5, 0x66, 0x48, 0x03, 0xF6, 0x0E, 0x61, 0x35, 0x57, 0xB9, 0x86, 0xC1, 0x1D, 0x9E,
     0xE1, 0xF8, 0x98, 0x11, 0x69, 0xD9, 0x8E, 0x94, 0x9B, 0x1E, 0x87, 0xE9, 0xCE, 0x55, 0x28, 0xDF,
     0x8C, 0xA1, 0x89, 0x0D, 0xBF, 0xE6, 0x42, 0x68, 0x41, 0x99, 0x2D, 0x0F, 0xB0, 0x54, 0xBB, 0x16]"

definition AES_INV_SBOX :: bytes where
  "AES_INV_SBOX = [
     0x52, 0x09, 0x6A, 0xD5, 0x30, 0x36, 0xA5, 0x38, 0xBF, 0x40, 0xA3, 0x9E, 0x81, 0xF3, 0xD7, 0xFB,
     0x7C, 0xE3, 0x39, 0x82, 0x9B, 0x2F, 0xFF, 0x87, 0x34, 0x8E, 0x43, 0x44, 0xC4, 0xDE, 0xE9, 0xCB,
     0x54, 0x7B, 0x94, 0x32, 0xA6, 0xC2, 0x23, 0x3D, 0xEE, 0x4C, 0x95, 0x0B, 0x42, 0xFA, 0xC3, 0x4E,
     0x08, 0x2E, 0xA1, 0x66, 0x28, 0xD9, 0x24, 0xB2, 0x76, 0x5B, 0xA2, 0x49, 0x6D, 0x8B, 0xD1, 0x25,
     0x72, 0xF8, 0xF6, 0x64, 0x86, 0x68, 0x98, 0x16, 0xD4, 0xA4, 0x5C, 0xCC, 0x5D, 0x65, 0xB6, 0x92,
     0x6C, 0x70, 0x48, 0x50, 0xFD, 0xED, 0xB9, 0xDA, 0x5E, 0x15, 0x46, 0x57, 0xA7, 0x8D, 0x9D, 0x84,
     0x90, 0xD8, 0xAB, 0x00, 0x8C, 0xBC, 0xD3, 0x0A, 0xF7, 0xE4, 0x58, 0x05, 0xB8, 0xB3, 0x45, 0x06,
     0xD0, 0x2C, 0x1E, 0x8F, 0xCA, 0x3F, 0x0F, 0x02, 0xC1, 0xAF, 0xBD, 0x03, 0x01, 0x13, 0x8A, 0x6B,
     0x3A, 0x91, 0x11, 0x41, 0x4F, 0x67, 0xDC, 0xEA, 0x97, 0xF2, 0xCF, 0xCE, 0xF0, 0xB4, 0xE6, 0x73,
     0x96, 0xAC, 0x74, 0x22, 0xE7, 0xAD, 0x35, 0x85, 0xE2, 0xF9, 0x37, 0xE8, 0x1C, 0x75, 0xDF, 0x6E,
     0x47, 0xF1, 0x1A, 0x71, 0x1D, 0x29, 0xC5, 0x89, 0x6F, 0xB7, 0x62, 0x0E, 0xAA, 0x18, 0xBE, 0x1B,
     0xFC, 0x56, 0x3E, 0x4B, 0xC6, 0xD2, 0x79, 0x20, 0x9A, 0xDB, 0xC0, 0xFE, 0x78, 0xCD, 0x5A, 0xF4,
     0x1F, 0xDD, 0xA8, 0x33, 0x88, 0x07, 0xC7, 0x31, 0xB1, 0x12, 0x10, 0x59, 0x27, 0x80, 0xEC, 0x5F,
     0x60, 0x51, 0x7F, 0xA9, 0x19, 0xB5, 0x4A, 0x0D, 0x2D, 0xE5, 0x7A, 0x9F, 0x93, 0xC9, 0x9C, 0xEF,
     0xA0, 0xE0, 0x3B, 0x4D, 0xAE, 0x2A, 0xF5, 0xB0, 0xC8, 0xEB, 0xBB, 0x3C, 0x83, 0x53, 0x99, 0x61,
     0x17, 0x2B, 0x04, 0x7E, 0xBA, 0x77, 0xD6, 0x26, 0xE1, 0x69, 0x14, 0x63, 0x55, 0x21, 0x0C, 0x7D]"

definition AES_RCON :: bytes where
  "AES_RCON = [
     0x00, 0x01, 0x02, 0x04, 0x08, 0x10, 0x20, 0x40, 0x80, 0x1B, 0x36]"

section \<open>Field multiplication\<close>

definition xtime :: "u8 \<Rightarrow> u8" where
  "xtime v = (let high_bit = v AND 0x80 \<noteq> 0; v = push_bit 1 v in if high_bit then v XOR 0x1B else v)"

function aes_mul_loop :: "u8 \<Rightarrow> u8 \<Rightarrow> u8 \<Rightarrow> u8" where
  "aes_mul_loop value factor result =
     (if factor \<noteq> 0
      then aes_mul_loop (xtime value) (drop_bit 1 factor)
             (if factor AND 1 \<noteq> 0 then result XOR value else result)
      else result)"
  by pat_completeness auto
termination
proof (relation "measure (\<lambda>(v, f, r). unat f)")
  fix v f r :: u8
  assume "f \<noteq> 0"
  then have "unat (drop_bit 1 f) < unat f"
    by (simp add: drop_bit_eq_div unat_div unat_gt_0)
  then show "((xtime v, drop_bit 1 f, if f AND 1 \<noteq> 0 then r XOR v else r), v, f, r)
      \<in> measure (\<lambda>(v, f, r). unat f)"
    by simp
qed simp

declare aes_mul_loop.simps [simp del]

definition aes_mul :: "u8 \<Rightarrow> u8 \<Rightarrow> u8" where
  "aes_mul value factor = aes_mul_loop value factor 0"

section \<open>Round transformations\<close>

definition aes_add_round_key :: "bytes \<Rightarrow> bytes \<Rightarrow> nat \<Rightarrow> bytes" where
  "aes_add_round_key state round_keys round =
     xor_bytes state (sub_bytes (round * AES_BLOCK_SIZE) AES_BLOCK_SIZE round_keys)"

definition aes_sub_bytes :: "bytes \<Rightarrow> bytes" where
  "aes_sub_bytes state = map (\<lambda>b. AES_SBOX ! unat b) state"

definition aes_inv_sub_bytes :: "bytes \<Rightarrow> bytes" where
  "aes_inv_sub_bytes state = map (\<lambda>b. AES_INV_SBOX ! unat b) state"

text \<open>Entry \<open>i\<close> of the index list is the position of \<open>tmp\<close> that \<open>state[i]\<close> is read from.\<close>

definition aes_shift_rows :: "bytes \<Rightarrow> bytes" where
  "aes_shift_rows tmp = map (nth tmp) [0, 5, 10, 15, 4, 9, 14, 3, 8, 13, 2, 7, 12, 1, 6, 11]"

definition aes_inv_shift_rows :: "bytes \<Rightarrow> bytes" where
  "aes_inv_shift_rows tmp = map (nth tmp) [0, 13, 10, 7, 4, 1, 14, 11, 8, 5, 2, 15, 12, 9, 6, 3]"

definition mix_column :: "u8 \<Rightarrow> u8 \<Rightarrow> u8 \<Rightarrow> u8 \<Rightarrow> bytes" where
  "mix_column a0 a1 a2 a3 =
     [aes_mul a0 0x02 XOR aes_mul a1 0x03 XOR a2 XOR a3,
      a0 XOR aes_mul a1 0x02 XOR aes_mul a2 0x03 XOR a3,
      a0 XOR a1 XOR aes_mul a2 0x02 XOR aes_mul a3 0x03,
      aes_mul a0 0x03 XOR a1 XOR a2 XOR aes_mul a3 0x02]"

definition inv_mix_column :: "u8 \<Rightarrow> u8 \<Rightarrow> u8 \<Rightarrow> u8 \<Rightarrow> bytes" where
  "inv_mix_column a0 a1 a2 a3 =
     [aes_mul a0 0x0E XOR aes_mul a1 0x0B XOR aes_mul a2 0x0D XOR aes_mul a3 0x09,
      aes_mul a0 0x09 XOR aes_mul a1 0x0E XOR aes_mul a2 0x0B XOR aes_mul a3 0x0D,
      aes_mul a0 0x0D XOR aes_mul a1 0x09 XOR aes_mul a2 0x0E XOR aes_mul a3 0x0B,
      aes_mul a0 0x0B XOR aes_mul a1 0x0D XOR aes_mul a2 0x09 XOR aes_mul a3 0x0E]"

definition on_columns :: "(u8 \<Rightarrow> u8 \<Rightarrow> u8 \<Rightarrow> u8 \<Rightarrow> bytes) \<Rightarrow> bytes \<Rightarrow> bytes" where
  "on_columns f st = concat (map (\<lambda>column. f (st ! (column * 4)) (st ! (column * 4 + 1))
     (st ! (column * 4 + 2)) (st ! (column * 4 + 3))) [0, 1, 2, 3])"

definition aes_mix_columns :: "bytes \<Rightarrow> bytes" where
  "aes_mix_columns state = on_columns mix_column state"

definition aes_inv_mix_columns :: "bytes \<Rightarrow> bytes" where
  "aes_inv_mix_columns state = on_columns inv_mix_column state"

section \<open>Key schedule\<close>

text \<open>
  The 176-byte output buffer is grown four bytes at a time: the list is its first
  \<open>bytes_generated\<close> bytes.
\<close>

definition aes_next_word :: "bytes \<Rightarrow> nat \<Rightarrow> bytes" where
  "aes_next_word round_keys rcon_index =
     (let bytes_generated = length round_keys;
          temp = map (\<lambda>i. round_keys ! (bytes_generated - 4 + i)) [0, 1, 2, 3];
          temp = (if bytes_generated mod AES_KEY_SIZE = 0
                  then [AES_SBOX ! unat (temp ! 1) XOR AES_RCON ! rcon_index, AES_SBOX ! unat (temp ! 2),
                        AES_SBOX ! unat (temp ! 3), AES_SBOX ! unat (temp ! 0)]
                  else temp)
      in map (\<lambda>i. round_keys ! (bytes_generated - AES_KEY_SIZE + i) XOR temp ! i) [0, 1, 2, 3])"

lemma length_aes_next_word [simp]: "length (aes_next_word ks r) = 4"
  by (simp add: aes_next_word_def Let_def)

function aes_expand_loop :: "bytes \<Rightarrow> nat \<Rightarrow> bytes" where
  "aes_expand_loop round_keys rcon_index =
     (if length round_keys < 176
      then aes_expand_loop (round_keys @ aes_next_word round_keys rcon_index)
             (if length round_keys mod AES_KEY_SIZE = 0 then rcon_index + 1 else rcon_index)
      else round_keys)"
  by pat_completeness auto
termination
  by (relation "measure (\<lambda>(ks, r). 176 - length ks)") auto

declare aes_expand_loop.simps [simp del]

definition aes_expand_key :: "bytes \<Rightarrow> bytes" where
  "aes_expand_key key = aes_expand_loop key 1"

section \<open>Block operations\<close>

definition aes_round :: "bytes \<Rightarrow> bytes \<Rightarrow> nat \<Rightarrow> bytes" where
  "aes_round round_keys state round =
     aes_add_round_key (aes_mix_columns (aes_shift_rows (aes_sub_bytes state))) round_keys round"

definition aes_inv_round :: "bytes \<Rightarrow> bytes \<Rightarrow> nat \<Rightarrow> bytes" where
  "aes_inv_round round_keys state round =
     aes_inv_mix_columns (aes_add_round_key (aes_inv_sub_bytes (aes_inv_shift_rows state)) round_keys round)"

definition aes128_encrypt_block :: "bytes \<Rightarrow> bytes \<Rightarrow> bytes" where
  "aes128_encrypt_block block key =
     (let round_keys = aes_expand_key key;
          state = aes_add_round_key block round_keys 0;
          state = foldl (aes_round round_keys) state [1, 2, 3, 4, 5, 6, 7, 8, 9]
      in aes_add_round_key (aes_shift_rows (aes_sub_bytes state)) round_keys 10)"

definition aes128_decrypt_block :: "bytes \<Rightarrow> bytes \<Rightarrow> bytes" where
  "aes128_decrypt_block block key =
     (let round_keys = aes_expand_key key;
          state = aes_add_round_key block round_keys 10;
          state = foldl (aes_inv_round round_keys) state [9, 8, 7, 6, 5, 4, 3, 2, 1]
      in aes_add_round_key (aes_inv_sub_bytes (aes_inv_shift_rows state)) round_keys 0)"

section \<open>The substitution boxes invert each other\<close>

lemma inv_sbox_table: "map (\<lambda>b. AES_INV_SBOX ! unat b) AES_SBOX = map word_of_nat [0..<256]"
  by (simp add: AES_SBOX_def AES_INV_SBOX_def upt_rec)

lemma length_sbox [simp]: "length AES_SBOX = 256" "length AES_INV_SBOX = 256"
  by (simp_all add: AES_SBOX_def AES_INV_SBOX_def)

lemma inv_sbox [simp]: "AES_INV_SBOX ! unat (AES_SBOX ! unat b) = b"
proof -
  have "map (\<lambda>b. AES_INV_SBOX ! unat b) AES_SBOX ! unat b = map word_of_nat [0..<256] ! unat b"
    by (simp only: inv_sbox_table)
  then show ?thesis by simp
qed

text \<open>A left inverse on a finite type is a right inverse.\<close>

lemma sbox_inv [simp]: "AES_SBOX ! unat (AES_INV_SBOX ! unat b) = b"
proof -
  have "inj (\<lambda>b :: u8. AES_SBOX ! unat b)"
    by (rule inj_on_inverseI [where g = "\<lambda>c. AES_INV_SBOX ! unat c"]) simp
  then have "surj (\<lambda>b :: u8. AES_SBOX ! unat b)"
    by (rule finite_UNIV_inj_surj [OF finite_class.finite_UNIV])
  then obtain a :: u8 where "b = AES_SBOX ! unat a"
    by (rule surjE [where y = b])
  then show ?thesis by simp
qed

lemma inv_sub_bytes_sub_bytes [simp]: "aes_inv_sub_bytes (aes_sub_bytes st) = st"
  by (simp add: aes_inv_sub_bytes_def aes_sub_bytes_def o_def)

lemma sub_bytes_inv_sub_bytes [simp]: "aes_sub_bytes (aes_inv_sub_bytes st) = st"
  by (simp add: aes_inv_sub_bytes_def aes_sub_bytes_def o_def)

lemma length_aes_sub_bytes [simp]: "length (aes_sub_bytes st) = length st"
  "length (aes_inv_sub_bytes st) = length st"
  by (simp_all add: aes_sub_bytes_def aes_inv_sub_bytes_def)

section \<open>Row shifts and round keys\<close>

lemma length_aes_shift_rows [simp]: "length (aes_shift_rows st) = 16" "length (aes_inv_shift_rows st) = 16"
  by (simp_all add: aes_shift_rows_def aes_inv_shift_rows_def)

lemma inv_shift_rows_shift_rows [simp]: "length st = 16 \<Longrightarrow> aes_inv_shift_rows (aes_shift_rows st) = st"
  by (subst (3) nth_list_16) (simp_all add: aes_shift_rows_def aes_inv_shift_rows_def)

lemma shift_rows_inv_shift_rows [simp]: "length st = 16 \<Longrightarrow> aes_shift_rows (aes_inv_shift_rows st) = st"
  by (subst (3) nth_list_16) (simp_all add: aes_shift_rows_def aes_inv_shift_rows_def)

lemma length_aes_add_round_key [simp]:
  "length rk = 176 \<Longrightarrow> n \<le> 10 \<Longrightarrow> length st = 16 \<Longrightarrow> length (aes_add_round_key st rk n) = 16"
  by (simp add: aes_add_round_key_def)

lemma add_round_key_twice [simp]:
  "length rk = 176 \<Longrightarrow> n \<le> 10 \<Longrightarrow> length st = 16 \<Longrightarrow>
   aes_add_round_key (aes_add_round_key st rk n) rk n = st"
  by (simp add: aes_add_round_key_def)

section \<open>The column mix\<close>

lemma xtime_alt: "xtime v = push_bit 1 v XOR (if bit v 7 then 0x1B else 0)"
  using and_exp_eq_0_iff_not_bit [of v 7] by (simp add: xtime_def Let_def)

lemma xtime_xor: "xtime (a XOR b) = xtime a XOR xtime b"
proof -
  have "push_bit 1 (a XOR b) = push_bit 1 a XOR push_bit 1 b" by (rule push_bit_xor)
  then show ?thesis
    by (cases "bit a 7"; cases "bit b 7")
      (simp_all add: xtime_alt bit_xor_iff xor.left_commute xor.commute xor.assoc)
qed

lemma aes_mul_consts:
  "aes_mul v 0x02 = xtime v"
  "aes_mul v 0x03 = v XOR xtime v"
  "aes_mul v 0x09 = v XOR xtime (xtime (xtime v))"
  "aes_mul v 0x0B = v XOR xtime v XOR xtime (xtime (xtime v))"
  "aes_mul v 0x0D = v XOR xtime (xtime v) XOR xtime (xtime (xtime v))"
  "aes_mul v 0x0E = xtime v XOR xtime (xtime v) XOR xtime (xtime (xtime v))"
  by (simp_all add: aes_mul_def aes_mul_loop.simps xor.assoc)

lemma xor_left_cancel [simp]: "(a :: u8) XOR (a XOR b) = b"
  by (simp flip: xor.assoc)

lemmas mix_simps = mix_column_def inv_mix_column_def aes_mul_consts xtime_xor
  xor.assoc xor.commute xor.left_commute

lemma inv_mix_mix:
  "inv_mix_column (mix_column a b c d ! 0) (mix_column a b c d ! 1) (mix_column a b c d ! 2)
     (mix_column a b c d ! 3) = [a, b, c, d]"
  by (simp add: mix_simps)

lemma mix_inv_mix:
  "mix_column (inv_mix_column a b c d ! 0) (inv_mix_column a b c d ! 1) (inv_mix_column a b c d ! 2)
     (inv_mix_column a b c d ! 3) = [a, b, c, d]"
  by (simp add: mix_simps)

lemma on_columns_inverse:
  assumes "\<And>a b c d. length (g a b c d) = 4"
    and "\<And>a b c d. f (g a b c d ! 0) (g a b c d ! 1) (g a b c d ! 2) (g a b c d ! 3) = [a, b, c, d]"
    and "length st = 16"
  shows "on_columns f (on_columns g st) = st"
proof -
  have g: "g a b c d = [g a b c d ! 0, g a b c d ! 1, g a b c d ! 2, g a b c d ! 3]" for a b c d
    using assms(1) by (intro nth_equalityI) (auto simp: nth_Cons' less_Suc_eq numeral_eq_Suc)
  define h where "h i = g (st ! (i * 4)) (st ! (i * 4 + 1)) (st ! (i * 4 + 2)) (st ! (i * 4 + 3))" for i
  have h4: "length (h i) = 4" for i by (simp add: h_def assms(1))
  have cols: "on_columns g st = h 0 @ h 1 @ h 2 @ h 3"
    by (simp add: on_columns_def h_def)
  have inv: "f (h i ! 0) (h i ! 1) (h i ! 2) (h i ! 3)
      = [st ! (i * 4), st ! (i * 4 + 1), st ! (i * 4 + 2), st ! (i * 4 + 3)]" for i
    unfolding h_def by (rule assms(2))
  have "on_columns f (on_columns g st) =
      [st ! 0, st ! 1, st ! 2, st ! 3, st ! 4, st ! 5, st ! 6, st ! 7,
       st ! 8, st ! 9, st ! 10, st ! 11, st ! 12, st ! 13, st ! 14, st ! 15]"
    using inv [of 0] inv [of 1] inv [of 2] inv [of 3]
    by (simp add: on_columns_def [of f] cols nth_append h4 flip: numeral_2_eq_2)
  then show ?thesis using nth_list_16 [OF assms(3)] by simp
qed

lemma length_aes_mix_columns [simp]: "length (aes_mix_columns st) = 16" "length (aes_inv_mix_columns st) = 16"
  by (simp_all add: aes_mix_columns_def aes_inv_mix_columns_def on_columns_def mix_column_def inv_mix_column_def)

lemma inv_mix_columns_mix_columns [simp]:
  "length st = 16 \<Longrightarrow> aes_inv_mix_columns (aes_mix_columns st) = st"
  unfolding aes_mix_columns_def aes_inv_mix_columns_def
  by (rule on_columns_inverse) (simp add: mix_column_def, rule inv_mix_mix, simp)

lemma mix_columns_inv_mix_columns [simp]:
  "length st = 16 \<Longrightarrow> aes_mix_columns (aes_inv_mix_columns st) = st"
  unfolding aes_mix_columns_def aes_inv_mix_columns_def
  by (rule on_columns_inverse) (simp add: inv_mix_column_def, rule mix_inv_mix, simp)

section \<open>The key schedule\<close>

text \<open>The schedule always has 176 bytes and starts with the key; it never reads outside its buffer.\<close>

lemma aes_expand_loop_props:
  "length ks mod 4 = 0 \<Longrightarrow> 16 \<le> length ks \<Longrightarrow> length ks \<le> 176 \<Longrightarrow>
   length (aes_expand_loop ks r) = 176 \<and> take (length ks) (aes_expand_loop ks r) = ks"
proof (induction ks r rule: aes_expand_loop.induct)
  case (1 ks r)
  show ?case
  proof (cases "length ks < 176")
    case True
    let ?ks = "ks @ aes_next_word ks r" and ?r = "if length ks mod 16 = 0 then r + 1 else r"
    have "length ks + 4 \<le> 176" using True "1.prems" by presburger
    then have IH: "length (aes_expand_loop ?ks ?r) = 176"
        "take (length ks + 4) (aes_expand_loop ?ks ?r) = ?ks"
      using "1.IH" [OF True] "1.prems" by (simp_all add: mod_add_eq [symmetric])
    have "aes_expand_loop ks r = aes_expand_loop ?ks ?r"
      by (subst aes_expand_loop.simps) (simp only: True if_True)
    moreover have "take (length ks) (aes_expand_loop ?ks ?r) = ks"
      using arg_cong [OF IH(2), of "take (length ks)"] by (simp add: min_def)
    ultimately show ?thesis
      using IH(1) by simp
  next
    case False
    with "1.prems" show ?thesis by (subst (1 2) aes_expand_loop.simps) simp
  qed
qed

lemma length_aes_expand_key [simp]: "length key = 16 \<Longrightarrow> length (aes_expand_key key) = 176"
  using aes_expand_loop_props [of key 1] by (simp add: aes_expand_key_def)

section \<open>Decryption inverts encryption\<close>

lemma length_aes_round [simp]:
  "length rk = 176 \<Longrightarrow> n \<le> 10 \<Longrightarrow> length (aes_round rk st n) = 16"
  "length rk = 176 \<Longrightarrow> n \<le> 10 \<Longrightarrow> length st = 16 \<Longrightarrow> length (aes_inv_round rk st n) = 16"
  by (simp_all add: aes_round_def aes_inv_round_def)

text \<open>
  The inverse rounds undo the rounds once the state has been moved past the row shift and the
  substitution: \<open>aes_core\<close> is that move, and a round followed by it is undone by it and an
  inverse round.
\<close>

definition aes_core :: "bytes \<Rightarrow> bytes" where
  "aes_core st = aes_shift_rows (aes_sub_bytes st)"

definition aes_inv_core :: "bytes \<Rightarrow> bytes" where
  "aes_inv_core st = aes_inv_sub_bytes (aes_inv_shift_rows st)"

lemma aes_core_inverse [simp]:
  "length st = 16 \<Longrightarrow> aes_inv_core (aes_core st) = st"
  "length st = 16 \<Longrightarrow> aes_core (aes_inv_core st) = st"
  by (simp_all add: aes_core_def aes_inv_core_def)

lemma length_aes_core [simp]: "length (aes_core st) = 16" "length (aes_inv_core st) = 16"
  by (simp_all add: aes_core_def aes_inv_core_def)

lemma aes_round_core:
  "aes_round rk st n = aes_add_round_key (aes_mix_columns (aes_core st)) rk n"
  "aes_inv_round rk st n = aes_inv_mix_columns (aes_add_round_key (aes_inv_core st) rk n)"
  by (simp_all add: aes_round_def aes_inv_round_def aes_core_def aes_inv_core_def)

lemma aes_inv_round_round:
  assumes "length rk = 176" and "n \<le> 10" and "length st = 16"
  shows "aes_inv_round rk (aes_core (aes_round rk st n)) n = aes_core st"
  using assms by (simp add: aes_round_core)

lemma aes_round_inv_round:
  assumes "length rk = 176" and "n \<le> 10" and "length st = 16"
  shows "aes_round rk (aes_inv_core (aes_inv_round rk st n)) n = aes_inv_core st"
  using assms by (simp add: aes_round_core)

lemma length_foldl_aes_round:
  "length rk = 176 \<Longrightarrow> \<forall>n \<in> set ns. n \<le> 10 \<Longrightarrow> length st = 16 \<Longrightarrow>
   length (foldl (aes_round rk) st ns) = 16 \<and> length (foldl (aes_inv_round rk) st ns) = 16"
  by (induction ns arbitrary: st) simp_all

lemma aes_inv_rounds_rounds:
  "length rk = 176 \<Longrightarrow> \<forall>n \<in> set ns. n \<le> 10 \<Longrightarrow> length st = 16 \<Longrightarrow>
   foldl (aes_inv_round rk) (aes_core (foldl (aes_round rk) st ns)) (rev ns) = aes_core st"
  by (induction ns arbitrary: st) (simp_all add: aes_inv_round_round)

lemma aes_rounds_inv_rounds:
  "length rk = 176 \<Longrightarrow> \<forall>n \<in> set ns. n \<le> 10 \<Longrightarrow> length st = 16 \<Longrightarrow>
   foldl (aes_round rk) (aes_inv_core (foldl (aes_inv_round rk) st ns)) (rev ns) = aes_inv_core st"
  by (induction ns arbitrary: st) (simp_all add: aes_round_inv_round)

lemma length_encrypt_block [simp]: "length key = 16 \<Longrightarrow> length (aes128_encrypt_block b key) = 16"
  by (simp add: aes128_encrypt_block_def Let_def)

lemma length_decrypt_block [simp]: "length key = 16 \<Longrightarrow> length (aes128_decrypt_block b key) = 16"
  by (simp add: aes128_decrypt_block_def Let_def aes_add_round_key_def)

lemma decrypt_encrypt_block:
  assumes "length key = 16" and "length block = 16"
  shows "aes128_decrypt_block (aes128_encrypt_block block key) key = block"
proof -
  let ?rk = "aes_expand_key key"
  let ?s0 = "aes_add_round_key block ?rk 0"
  let ?s9 = "foldl (aes_round ?rk) ?s0 [1, 2, 3, 4, 5, 6, 7, 8, 9]"
  have rk: "length ?rk = 176" using assms by simp
  have s0: "length ?s0 = 16" using assms rk by simp
  have s9: "length (aes_core ?s9) = 16" by simp
  have "aes_add_round_key (aes128_encrypt_block block key) ?rk 10 = aes_core ?s9"
    using rk s9 by (simp add: aes128_encrypt_block_def Let_def flip: aes_core_def)
  moreover have "foldl (aes_inv_round ?rk) (aes_core ?s9) (rev [1, 2, 3, 4, 5, 6, 7, 8, 9]) = aes_core ?s0"
    by (rule aes_inv_rounds_rounds) (use rk s0 in simp_all)
  ultimately show ?thesis
    using assms s0 rk by (simp add: aes128_decrypt_block_def Let_def flip: aes_inv_core_def)
qed

lemma encrypt_decrypt_block:
  assumes "length key = 16" and "length block = 16"
  shows "aes128_encrypt_block (aes128_decrypt_block block key) key = block"
proof -
  let ?rk = "aes_expand_key key"
  let ?s10 = "aes_add_round_key block ?rk 10"
  let ?s1 = "foldl (aes_inv_round ?rk) ?s10 [9, 8, 7, 6, 5, 4, 3, 2, 1]"
  have rk: "length ?rk = 176" using assms by simp
  have s10: "length ?s10 = 16" using assms rk by simp
  have "aes_add_round_key (aes128_decrypt_block block key) ?rk 0 = aes_inv_core ?s1"
    using rk by (simp add: aes128_decrypt_block_def Let_def flip: aes_inv_core_def)
  moreover have "foldl (aes_round ?rk) (aes_inv_core ?s1) (rev [9, 8, 7, 6, 5, 4, 3, 2, 1]) = aes_inv_core ?s10"
    by (rule aes_rounds_inv_rounds) (use rk s10 in simp_all)
  ultimately show ?thesis
    using assms s10 rk by (simp add: aes128_encrypt_block_def Let_def flip: aes_core_def)
qed

end
