(* ===== verification/Protocol_Crypto.thy ===== *)
theory Protocol_Crypto
  imports Aes
begin

text \<open>
  The protocol's cryptography (\<open>proto_crypto.cpp\<close> below the cipher): the running checksum, the
  initialization vectors of the two-way and one-way schemes, the truncated authenticators and the
  key wrap. The block cipher of the code reports success always, so its \<open>bool\<close> result and the
  branches on it have no counterpart here; random challenges are arguments.

  The checksum turns out to be one shift per byte of a 16-bit linear feedback register
  (\<open>checksum_is_lfsr\<close>), from which its sensitivity to every single byte follows.
\<close>

section \<open>Definitions\<close>

fun compute_checksum :: "u8 \<Rightarrow> u8 \<times> u8 \<Rightarrow> u8 \<times> u8" where
  "compute_checksum byte (c1, c2) =
     (let tmp = byte XOR c2;
          c2 = push_bit 1 (c1 AND 0x7F) AND 0xFF
      in if c1 AND 0x80 = 0
         then let c2 = (if tmp \<ge> 128 then c2 OR 1 else c2)
              in (c2, push_bit 1 tmp AND 0xFF)
         else let c2 = (if tmp \<ge> 128 then c2 OR 1 else c2)
              in (c2 XOR 0x55, (push_bit 1 tmp XOR 0x5B) AND 0xFF))"

definition checksum_span :: "bytes \<Rightarrow> u8 \<times> u8" where
  "checksum_span span = foldl (\<lambda>c b. compute_checksum b c) (0, 0) span"

definition construct_iv_prefix :: "bytes \<Rightarrow> bytes" where
  "construct_iv_prefix span =
     (let (c1, c2) = checksum_span span
      in take 8 span @ replicate (8 - length span) IV_PADDING @ [c1, c2])"

definition construct_iv :: "bytes \<Rightarrow> bytes \<Rightarrow> bytes" where
  "construct_iv span challenge = construct_iv_prefix span @ challenge"

definition construct_iv_1w_sequence :: "bytes \<Rightarrow> u16 \<Rightarrow> bytes" where
  "construct_iv_1w_sequence span sequence =
     construct_iv_prefix span @ [hi8 sequence, lo8 sequence, IV_PADDING, IV_PADDING, IV_PADDING, IV_PADDING]"

definition construct_iv_1w_node :: "node_id \<Rightarrow> bytes" where
  "construct_iv_1w_node node = map (\<lambda>i. node ! (i mod NODE_ID_SIZE)) [0..<IV_SIZE]"

definition aes128_encrypt :: "bytes \<Rightarrow> bytes \<Rightarrow> bytes" where
  "aes128_encrypt block key = aes128_encrypt_block block key"

definition aes128_decrypt :: "bytes \<Rightarrow> bytes \<Rightarrow> bytes" where
  "aes128_decrypt block key = aes128_decrypt_block block key"

definition create_hmac :: "bytes \<Rightarrow> bytes \<Rightarrow> bytes \<Rightarrow> bytes" where
  "create_hmac span challenge key = take HMAC_SIZE (aes128_encrypt (construct_iv span challenge) key)"

definition create_1w_hmac :: "bytes \<Rightarrow> u16 \<Rightarrow> bytes \<Rightarrow> bytes" where
  "create_1w_hmac span sequence controller_key =
     take HMAC_SIZE (aes128_encrypt (construct_iv_1w_sequence span sequence) controller_key)"

text \<open>The constant-time comparison: the bitwise or of all differences is zero.\<close>

definition constant_time_equal :: "bytes \<Rightarrow> bytes \<Rightarrow> bool" where
  "constant_time_equal xs ys =
     (foldl (\<lambda>diff i. diff OR (xs ! i XOR ys ! i)) 0 [0..<HMAC_SIZE] = (0 :: u8))"

definition verify_hmac :: "bytes \<Rightarrow> bytes \<Rightarrow> bytes \<Rightarrow> bytes \<Rightarrow> bool" where
  "verify_hmac span hmac challenge key = constant_time_equal hmac (create_hmac span challenge key)"

definition xor_with_encrypted_iv :: "bytes \<Rightarrow> bytes \<Rightarrow> bytes" where
  "xor_with_encrypted_iv iv block = xor_bytes block (aes128_encrypt iv TRANSFER_KEY)"

definition crypt_key :: "bytes \<Rightarrow> bytes \<Rightarrow> bytes \<Rightarrow> bytes" where
  "crypt_key span challenge block = xor_with_encrypted_iv (construct_iv span challenge) block"

definition crypt_1w_key :: "node_id \<Rightarrow> bytes \<Rightarrow> bytes" where
  "crypt_1w_key node block = xor_with_encrypted_iv (construct_iv_1w_node node) block"

section \<open>The checksum is a feedback shift register\<close>

definition lfsr :: "u16 \<Rightarrow> u16" where
  "lfsr w = push_bit 1 w XOR (if bit w 15 then 0x555B else 0)"

lemma bit_be16: "bit (be16 a b) n \<longleftrightarrow> (if n < 8 then bit b n else bit a (n - 8))"
  by (auto simp: be16_def bit_simps dest: bit_imp_le_length)

lemma be16_xor: "be16 (a XOR x) (b XOR y) = be16 a b XOR be16 x y"
  by (rule bit_word_eqI) (simp add: bit_be16 bit_xor_iff)

lemma u8_ge_128: "(128 \<le> (w :: u8)) = bit w 7"
proof -
  have "bit w 7 \<longleftrightarrow> bit (unat w) 7" by (simp only: bit_unsigned_iff possible_bit_nat simp_thms)
  also have "\<dots> \<longleftrightarrow> odd (unat w div 128)" unfolding bit_iff_odd by simp
  also have "\<dots> \<longleftrightarrow> 128 \<le> unat w"
  proof (cases "unat w < 128")
    case False
    then have "unat w div 128 = 1" using unat_u8_less [of w] by (intro div_nat_eqI) auto
    with False show ?thesis by simp
  qed simp
  finally show ?thesis by (simp add: word_le_nat_alt)
qed

lemma be16_shift:
  "be16 (push_bit 1 (a AND 0x7F) OR (if bit b 7 then 1 else 0)) (push_bit 1 b) = push_bit 1 (be16 a b)"
proof (rule bit_word_eqI)
  fix n assume "n < LENGTH(16)"
  then have n: "n < 16" by simp
  have m: "(0x7F :: u8) = mask 7" by (simp add: mask_eq_exp_minus_1)
  consider "n < 8" | "n = 8" | "8 < n" by linarith
  then show "bit (be16 (push_bit 1 (a AND 0x7F) OR (if bit b 7 then 1 else 0)) (push_bit 1 b)) n =
      bit (push_bit 1 (be16 a b)) n"
  proof cases
    case 1
    then show ?thesis by (auto simp only: bit_be16 bit_push_bit_iff) auto
  next
    case 2
    then show ?thesis by (simp only: bit_be16 bit_push_bit_iff bit_or_iff) simp
  next
    case 3
    with n have "n - 8 \<noteq> 0" "n - 8 - 1 < 7" "n - 8 - 1 = n - 1 - 8" "n - 8 < 8" by auto
    moreover have "\<not> bit (if bit b 7 then 1 else 0 :: u8) (n - 8)"
      using \<open>n - 8 \<noteq> 0\<close> by (simp add: bit_1_iff)
    ultimately show ?thesis
      using 3 n by (auto simp only: m bit_be16 bit_push_bit_iff bit_or_iff bit_and_iff bit_mask_iff) auto
  qed
qed

lemma checksum_lfsr:
  assumes "compute_checksum byte (c1, c2) = (d1, d2)"
  shows "be16 d1 d2 = lfsr (be16 c1 (byte XOR c2))"
proof -
  define tmp where "tmp = byte XOR c2"
  define sh where "sh = push_bit 1 (c1 AND 0x7F) OR (if bit tmp 7 then 1 else 0)"
  have "(0xFF :: u8) = - 1" by simp
  then have all: "w AND 0xFF = w" for w :: u8 by (simp only: and.right_neutral)
  have top: "c1 AND 0x80 = 0 \<longleftrightarrow> \<not> bit (be16 c1 tmp) 15"
    using and_exp_eq_0_iff_not_bit [of c1 7] by (simp add: bit_be16)
  have const: "be16 0x55 0x5B = 0x555B" by (simp add: be16_def)
  have shift: "be16 sh (push_bit 1 tmp) = push_bit 1 (be16 c1 tmp)"
    unfolding sh_def by (rule be16_shift)
  have sh: "(if 128 \<le> tmp then push_bit 1 (c1 AND 0x7F) OR 1 else push_bit 1 (c1 AND 0x7F)) = sh"
    by (simp only: sh_def u8_ge_128 or.right_neutral split: if_split) simp
  have "(d1, d2) = (if c1 AND 0x80 = 0 then (sh, push_bit 1 tmp) else (sh XOR 0x55, push_bit 1 tmp XOR 0x5B))"
    unfolding assms [symmetric] compute_checksum.simps Let_def all tmp_def [symmetric] sh by (rule refl)
  then have d: "d1 = (if bit (be16 c1 tmp) 15 then sh XOR 0x55 else sh)"
      "d2 = (if bit (be16 c1 tmp) 15 then push_bit 1 tmp XOR 0x5B else push_bit 1 tmp)"
    by (simp_all only: top if_not_P if_P not_not prod.inject split: if_splits) simp_all
  show ?thesis
    by (cases "bit (be16 c1 tmp) 15")
      (simp_all only: d lfsr_def tmp_def [symmetric] be16_xor shift const xor.right_neutral if_True if_False)
qed

text \<open>The register step is linear and loses nothing: its feedback constant is odd.\<close>

lemma lfsr_xor: "lfsr (a XOR b) = lfsr a XOR lfsr b"
proof -
  have "push_bit 1 (a XOR b) = push_bit 1 a XOR push_bit 1 b" by (rule push_bit_xor)
  then show ?thesis
    by (cases "bit a 15"; cases "bit b 15")
      (simp_all add: lfsr_def bit_xor_iff xor.left_commute xor.commute xor.assoc)
qed

lemma lfsr_eq_0 [simp]: "lfsr w = 0 \<longleftrightarrow> w = 0"
proof
  assume z: "lfsr w = 0"
  have "bit (0x555B :: u16) 0" by simp
  then have "bit (lfsr w) 0 = bit w 15"
    by (simp only: lfsr_def bit_xor_iff bit_push_bit_iff) simp
  with z have top: "\<not> bit w 15" by simp
  then have shifted: "push_bit 1 w = 0" using z by (simp only: lfsr_def if_False xor.right_neutral)
  have below: "\<not> bit w n" if "n < 15" for n
  proof -
    have "bit (push_bit 1 w) (Suc n) = bit w n"
      using that by (simp only: bit_push_bit_iff) simp
    then show ?thesis unfolding shifted by simp
  qed
  show "w = 0"
  proof (rule bit_word_eqI)
    fix n assume "n < LENGTH(16)"
    then have "n < 15 \<or> n = 15" by auto
    with top below show "bit w n = bit 0 n" by auto
  qed
qed (simp add: lfsr_def)

lemma lfsr_inj [simp]: "lfsr a = lfsr b \<longleftrightarrow> a = b"
  using lfsr_eq_0 [of "a XOR b"] by (simp add: lfsr_xor)

definition checksum_word :: "bytes \<Rightarrow> u16" where
  "checksum_word span = (let (c1, c2) = checksum_span span in be16 c1 c2)"

lemma checksum_span_snoc:
  "checksum_span (span @ [b]) = compute_checksum b (checksum_span span)"
  by (simp add: checksum_span_def)

lemma be16_absorb: "be16 a (b XOR c) = be16 a c XOR ucast b"
  by (rule bit_word_eqI) (auto simp: bit_be16 bit_simps dest: bit_imp_le_length)

lemma checksum_word_snoc: "checksum_word (span @ [b]) = lfsr (checksum_word span XOR ucast b)"
proof -
  obtain c1 c2 where c: "checksum_span span = (c1, c2)" by fastforce
  obtain d1 d2 where d: "compute_checksum b (c1, c2) = (d1, d2)" by fastforce
  have "be16 d1 d2 = lfsr (be16 c1 (b XOR c2))" by (rule checksum_lfsr [OF d])
  then show ?thesis
    by (simp only: checksum_word_def checksum_span_snoc c d Let_def prod.case be16_absorb)
qed

lemma checksum_word_Nil [simp]: "checksum_word [] = 0"
  by (simp add: checksum_word_def checksum_span_def be16_def)

lemma checksum_span_eq_iff: "checksum_span xs = checksum_span ys \<longleftrightarrow> checksum_word xs = checksum_word ys"
proof
  assume "checksum_word xs = checksum_word ys"
  then have "hi8 (checksum_word xs) = hi8 (checksum_word ys)" "lo8 (checksum_word xs) = lo8 (checksum_word ys)"
    by simp_all
  then show "checksum_span xs = checksum_span ys"
    by (simp add: checksum_word_def split: prod.splits)
qed (simp add: checksum_word_def)

lemma u8_to_u16_inj: "(ucast (a :: u8) :: u16) = ucast b \<longleftrightarrow> a = b"
  using u8_to_u16_zero [of "a XOR b"] by (simp add: unsigned_xor_eq)

lemma xor_right_inject [simp]: "(a XOR c = b XOR c) = (a = (b :: 'a::len word))"
  by (metis word_xor_cancel)

lemma xor_left_inject [simp]: "(c XOR a = c XOR b) = (a = (b :: 'a::len word))"
  by (simp only: xor.commute [of c] xor_right_inject)

lemma checksum_word_tail:
  "checksum_word xs \<noteq> checksum_word ys \<Longrightarrow> checksum_word (xs @ zs) \<noteq> checksum_word (ys @ zs)"
proof (induction zs rule: rev_induct)
  case (snoc z zs)
  then show ?case by (simp add: checksum_word_snoc flip: append_assoc)
qed simp

lemma checksum_word_single:
  "a \<noteq> b \<Longrightarrow> checksum_word (xs @ a # zs) \<noteq> checksum_word (xs @ b # zs)"
proof -
  assume "a \<noteq> b"
  then have "checksum_word (xs @ [a]) \<noteq> checksum_word (xs @ [b])"
    by (simp add: checksum_word_snoc u8_to_u16_inj)
  then have "checksum_word ((xs @ [a]) @ zs) \<noteq> checksum_word ((xs @ [b]) @ zs)"
    by (rule checksum_word_tail)
  then show ?thesis by simp
qed

section \<open>Initialization vectors\<close>

lemma length_construct_iv_prefix [simp]: "length (construct_iv_prefix span) = 10"
  by (simp add: construct_iv_prefix_def split: prod.splits)

lemma length_construct_iv [simp]: "length challenge = 6 \<Longrightarrow> length (construct_iv span challenge) = 16"
  by (simp add: construct_iv_def)

lemma length_construct_iv_1w [simp]:
  "length (construct_iv_1w_sequence span sequence) = 16" "length (construct_iv_1w_node node) = 16"
  by (simp_all add: construct_iv_1w_sequence_def construct_iv_1w_node_def)

text \<open>The prefix separates two spans of one length whenever a head byte or the checksum differs.\<close>

lemma construct_iv_prefix_eq:
  assumes "length xs = length ys" and "construct_iv_prefix xs = construct_iv_prefix ys"
  shows "take 8 xs = take 8 ys" and "checksum_span xs = checksum_span ys"
proof -
  obtain a b c d where c: "checksum_span xs = (a, b)" "checksum_span ys = (c, d)" by fastforce
  have "take 8 xs @ replicate (8 - length xs) IV_PADDING @ [a, b] =
        take 8 ys @ replicate (8 - length ys) IV_PADDING @ [c, d]"
    using assms(2) by (simp add: construct_iv_prefix_def c)
  then show "take 8 xs = take 8 ys" "checksum_span xs = checksum_span ys"
    using assms(1) c by simp_all
qed

section \<open>The key wrap is its own inverse\<close>

text \<open>
  What the two wraps rely on: a keystream block of sixteen bytes for every sixteen-byte
  initialization vector. Exclusive-or with it is an involution, hence injective.
\<close>

locale keystream =
  fixes stream :: "bytes \<Rightarrow> bytes"
  assumes length_stream: "length iv = 16 \<Longrightarrow> length (stream iv) = 16"
begin

lemma wrap_unwrap:
  "length iv = 16 \<Longrightarrow> length block = 16 \<Longrightarrow> xor_bytes (xor_bytes block (stream iv)) (stream iv) = block"
  by (simp add: length_stream)

lemma wrap_inj:
  assumes "length iv = 16" "length k1 = 16" "length k2 = 16"
    and "xor_bytes k1 (stream iv) = xor_bytes k2 (stream iv)"
  shows "k1 = k2"
proof -
  have "k1 = xor_bytes (xor_bytes k1 (stream iv)) (stream iv)"
    by (rule wrap_unwrap [OF assms(1,2), symmetric])
  also have "\<dots> = k2" unfolding assms(4) by (rule wrap_unwrap [OF assms(1,3)])
  finally show ?thesis .
qed

lemma length_wrap: "length iv = 16 \<Longrightarrow> length block = 16 \<Longrightarrow> length (xor_bytes block (stream iv)) = 16"
  by (simp add: length_stream)

end

lemma length_TRANSFER_KEY: "length TRANSFER_KEY = 16"
  by simp

interpretation transfer: keystream "\<lambda>iv. aes128_encrypt iv TRANSFER_KEY"
proof unfold_locales
  fix iv :: bytes assume "length iv = 16"
  show "length (aes128_encrypt iv TRANSFER_KEY) = 16"
    unfolding aes128_encrypt_def by (rule length_encrypt_block) (rule length_TRANSFER_KEY)
qed

lemma length_crypt_key [simp]:
  "length challenge = 6 \<Longrightarrow> length block = 16 \<Longrightarrow> length (crypt_key span challenge block) = 16"
  "length block = 16 \<Longrightarrow> length (crypt_1w_key node block) = 16"
  unfolding crypt_key_def crypt_1w_key_def xor_with_encrypted_iv_def
  by (rule transfer.length_wrap, simp, assumption)+

lemma crypt_key_twice [simp]:
  "length challenge = 6 \<Longrightarrow> length block = 16 \<Longrightarrow>
   crypt_key span challenge (crypt_key span challenge block) = block"
  unfolding crypt_key_def xor_with_encrypted_iv_def by (rule transfer.wrap_unwrap) simp_all

lemma crypt_key_inj:
  "length challenge = 6 \<Longrightarrow> length k1 = 16 \<Longrightarrow> length k2 = 16 \<Longrightarrow>
   crypt_key span challenge k1 = crypt_key span challenge k2 \<Longrightarrow> k1 = k2"
  "length k1 = 16 \<Longrightarrow> length k2 = 16 \<Longrightarrow> crypt_1w_key node k1 = crypt_1w_key node k2 \<Longrightarrow> k1 = k2"
  unfolding crypt_key_def crypt_1w_key_def xor_with_encrypted_iv_def
  by (rule transfer.wrap_inj; simp?)+

lemma crypt_1w_key_twice [simp]:
  "length block = 16 \<Longrightarrow> crypt_1w_key node (crypt_1w_key node block) = block"
  unfolding crypt_1w_key_def xor_with_encrypted_iv_def by (rule transfer.wrap_unwrap) simp_all

section \<open>Authenticators\<close>

lemma length_create_hmac [simp]:
  "length key = 16 \<Longrightarrow> length (create_hmac span challenge key) = 6"
  "length key = 16 \<Longrightarrow> length (create_1w_hmac span sequence key) = 6"
  by (simp_all add: create_hmac_def create_1w_hmac_def aes128_encrypt_def)

lemma foldl_or_zero:
  "foldl (\<lambda>d i. d OR f i) (a :: u8) ns = 0 \<longleftrightarrow> a = 0 \<and> (\<forall>i \<in> set ns. f i = 0)"
  by (induction ns arbitrary: a) (auto simp: word_or_eq_zero_iff)

lemma constant_time_equal_iff:
  "length xs = 6 \<Longrightarrow> length ys = 6 \<Longrightarrow> constant_time_equal xs ys \<longleftrightarrow> xs = ys"
  by (auto simp: constant_time_equal_def foldl_or_zero list_eq_iff_nth_eq)

lemma verify_create_hmac [simp]: "verify_hmac span (create_hmac span challenge key) challenge key"
  by (simp only: verify_hmac_def constant_time_equal_def foldl_or_zero word_xor_eq_zero_iff) simp

section \<open>Properties\<close>

text \<open>The block cipher is a permutation of the sixteen-byte blocks for every key: decryption
  inverts encryption and encryption inverts decryption.\<close>

theorem aes_inverse:
  assumes "length key = AES_KEY_SIZE" and "length block = AES_BLOCK_SIZE"
  shows "aes128_decrypt (aes128_encrypt block key) key = block \<and>
    aes128_encrypt (aes128_decrypt block key) key = block"
  using assms by (simp add: aes128_encrypt_def aes128_decrypt_def decrypt_encrypt_block encrypt_decrypt_block)

theorem aes_inverse_witness:
  "aes128_decrypt (aes128_encrypt (replicate 16 7) (replicate 16 3)) (replicate 16 3) = replicate 16 7"
  using aes_inverse [of "replicate 16 3" "replicate 16 7"] by simp

text \<open>The checksum of a span, read as one 16-bit register, shifts once per byte and feeds back
  0x555B; so changing any single byte of a span, at any position, changes the checksum, and with it
  the initialization vector of the 2W and of the 1W authenticator.\<close>

theorem iv_binds_single_byte:
  assumes "a \<noteq> b"
  shows "construct_iv (xs @ a # zs) challenge \<noteq> construct_iv (xs @ b # zs) challenge' \<and>
    construct_iv_1w_sequence (xs @ a # zs) s \<noteq> construct_iv_1w_sequence (xs @ b # zs) s'"
proof -
  have "construct_iv_prefix (xs @ a # zs) \<noteq> construct_iv_prefix (xs @ b # zs)"
    using construct_iv_prefix_eq(2) [of "xs @ a # zs" "xs @ b # zs"] checksum_word_single [OF assms]
    by (auto simp: checksum_span_eq_iff)
  then show ?thesis by (simp add: construct_iv_def construct_iv_1w_sequence_def)
qed

theorem iv_binds_single_byte_witness:
  "construct_iv [1, 2, 3, 4, 5, 6, 7, 8, 9] [] \<noteq> construct_iv [1, 2, 3, 4, 5, 6, 7, 8, 0x89] []"
  using iv_binds_single_byte [of 9 "0x89" "[1, 2, 3, 4, 5, 6, 7, 8]" "[]" "[]" "[]" 0 0] by simp

text \<open>The 2W and the 1W key wraps are their own inverse, so the receiver of a wrapped key
  recovers exactly the key that was sent when it uses the same span and challenge (or node), and two
  different keys never wrap to the same bytes.\<close>

theorem key_wrap_roundtrip:
  assumes "length challenge = HMAC_SIZE" and "length k1 = AES_KEY_SIZE" and "length k2 = AES_KEY_SIZE"
  shows "crypt_key span challenge (crypt_key span challenge k1) = k1 \<and>
    crypt_1w_key node (crypt_1w_key node k1) = k1 \<and>
    (crypt_key span challenge k1 = crypt_key span challenge k2 \<longleftrightarrow> k1 = k2) \<and>
    (crypt_1w_key node k1 = crypt_1w_key node k2 \<longleftrightarrow> k1 = k2)"
  using assms crypt_key_inj(1) [of challenge k1 k2 span] crypt_key_inj(2) [of k1 k2 node] by auto

theorem key_wrap_roundtrip_witness:
  "crypt_key [0x32] (replicate 6 9) (crypt_key [0x32] (replicate 6 9) (replicate 16 1)) = replicate 16 1"
  using key_wrap_roundtrip [of "replicate 6 9" "replicate 16 1" "replicate 16 1" "[0x32]" "[1, 2, 3]"] by simp

text \<open>The constant-time verification accepts exactly the authenticator that the holder of the key
  computes for this span and challenge, and nothing else.\<close>

theorem verify_hmac_iff:
  assumes "length key = AES_KEY_SIZE" and "length hmac = HMAC_SIZE"
  shows "verify_hmac span hmac challenge key \<longleftrightarrow> hmac = create_hmac span challenge key"
  using assms by (simp add: verify_hmac_def constant_time_equal_iff)

theorem verify_hmac_iff_witness:
  "verify_hmac [0x3C] (create_hmac [0x3C] (replicate 6 9) (replicate 16 1)) (replicate 6 9) (replicate 16 1)"
  using verify_hmac_iff [of "replicate 16 1" "create_hmac [0x3C] (replicate 6 9) (replicate 16 1)"
      "[0x3C]" "replicate 6 9"] by simp

lemma iv_1w_known_answer:
  "construct_iv_1w_sequence [0x00, 0x01, 0x43, 0xD2, 0x00, 0x00, 0x00] 0x0599 =
   [0x00, 0x01, 0x43, 0xD2, 0x00, 0x00, 0x00, 0x55, 0x05, 0x00, 0x05, 0x99, 0x55, 0x55, 0x55, 0x55]"
  by code_simp

end
