(* ===== verification/Codecs.thy ===== *)
theory Codecs
  imports Device_Model Protocol_Crypto
begin

text \<open>
  The payload codecs (\<open>proto_codecs.h\<close>, \<open>proto_codecs.cpp\<close>): Latin-1 device names, address classes
  and typed broadcasts, the diagnostic reading of one-way frames, discovery responses and the
  one-way add-controller frame. A \<open>std::string\<close> of a device name is its list of bytes. The block
  cipher reports success always, so the branches taken on its failure have no counterpart.
\<close>

section \<open>Device names\<close>

datatype device_name_validation_error =
  NAME_NONE | NAME_EMPTY | NAME_TOO_LONG | NAME_INVALID_UTF8 | NAME_UNSUPPORTED_CHAR

definition utf8_char :: "u8 \<Rightarrow> bytes" where
  "utf8_char byte = [0xC0 OR drop_bit 6 byte, 0x80 OR (byte AND 0x3F)]"

text \<open>The loop of \<open>latin1_to_utf8\<close>; it stops before the result would not fit with its terminator.\<close>

fun latin1_loop :: "bytes \<Rightarrow> bytes \<Rightarrow> bytes" where
  "latin1_loop result [] = result"
| "latin1_loop result (byte # rest) =
     (if byte < 0x80
      then if length result + 1 \<ge> DEVICE_NAME_BUFFER_SIZE then result
           else latin1_loop (result @ [byte]) rest
      else if length result + 2 \<ge> DEVICE_NAME_BUFFER_SIZE then result
           else latin1_loop (result @ utf8_char byte) rest)"

definition latin1_to_utf8 :: "bytes \<Rightarrow> bytes" where
  "latin1_to_utf8 xs = latin1_loop [] xs"

text \<open>\<open>std::isspace\<close> in the "C" locale.\<close>

definition is_space :: "u8 \<Rightarrow> bool" where
  "is_space b \<longleftrightarrow> b = 0x20 \<or> (0x09 \<le> b \<and> b \<le> 0x0D)"

definition strip_end :: "('a \<Rightarrow> bool) \<Rightarrow> 'a list \<Rightarrow> 'a list" where
  "strip_end P xs = rev (dropWhile P (rev xs))"

definition trim_ascii_whitespace :: "bytes \<Rightarrow> bytes" where
  "trim_ascii_whitespace v = strip_end is_space (dropWhile is_space v)"

definition decode_device_name_payload :: "bytes \<Rightarrow> bytes" where
  "decode_device_name_payload xs =
     (if xs = [] then []
      else let begin_at = (if xs ! 0 > 0x20 then 0 else 1)
           in if begin_at \<ge> length xs then []
              else let raw = strip_end (\<lambda>b. b = 0x00 \<or> b = 0x20) (drop begin_at xs)
                   in if raw = [] then [] else latin1_to_utf8 raw)"

text \<open>One character: its code point and the number of bytes it takes, or the error.\<close>

definition utf8_decode_char :: "bytes \<Rightarrow> device_name_validation_error + (u16 \<times> nat)" where
  "utf8_decode_char rest =
     (let byte = rest ! 0 in
      if byte \<le> 0x7F then Inr (ucast byte, 1)
      else if byte AND 0xE0 = 0xC0
      then if 1 \<ge> length rest then Inl NAME_INVALID_UTF8
           else let continuation = rest ! 1
                in if continuation AND 0xC0 \<noteq> 0x80 then Inl NAME_INVALID_UTF8
                   else let codepoint = push_bit 6 (ucast (byte AND 0x1F)) OR ucast (continuation AND 0x3F)
                        in if codepoint < 0x80 then Inl NAME_INVALID_UTF8 else Inr (codepoint, 2)
      else if byte AND 0xF0 = 0xE0 \<or> byte AND 0xF8 = 0xF0 then Inl NAME_UNSUPPORTED_CHAR
      else Inl NAME_INVALID_UTF8)"

lemma utf8_decode_char_advance: "utf8_decode_char rest = Inr (codepoint, advance) \<Longrightarrow> 0 < advance"
  by (auto simp: utf8_decode_char_def Let_def split: if_splits)

function encode_name_loop ::
  "bytes \<Rightarrow> bytes \<Rightarrow> nat \<Rightarrow> device_name_validation_error \<times> bytes \<times> nat" where
  "encode_name_loop rest buf latin1_len =
     (if rest = [] then (NAME_NONE, buf, latin1_len)
      else case utf8_decode_char rest of
          Inl err \<Rightarrow> (err, buf, latin1_len)
        | Inr (codepoint, advance) \<Rightarrow>
            if codepoint > LATIN1_CODEPOINT_MAX then (NAME_UNSUPPORTED_CHAR, buf, latin1_len)
            else if latin1_len \<ge> DEVICE_NAME_WRITE_CHAR_LIMIT then (NAME_TOO_LONG, buf, latin1_len)
            else encode_name_loop (drop advance rest) (buf[latin1_len := ucast codepoint]) (latin1_len + 1))"
  by pat_completeness auto
termination
  by (relation "measure (\<lambda>(rest, buf, n). length rest)") (auto dest: utf8_decode_char_advance)

declare encode_name_loop.simps [simp del]

text \<open>The verdict, the 16-byte payload and the normalized name (both are out-parameters).\<close>

definition encode_device_name_payload ::
  "bytes \<Rightarrow> device_name_validation_error \<times> bytes \<times> bytes" where
  "encode_device_name_payload name =
     (let buf = replicate DEVICE_NAME_WRITE_PAYLOAD_SIZE 0;
          trimmed_name = trim_ascii_whitespace name
      in if trimmed_name = [] then (NAME_EMPTY, buf, [])
         else case encode_name_loop trimmed_name buf 0 of
                (err, buf, latin1_len) \<Rightarrow>
                  if err \<noteq> NAME_NONE then (err, buf, [])
                  else (NAME_NONE, buf, latin1_to_utf8 (take latin1_len buf)))"

fun device_name_validation_error_name :: "device_name_validation_error \<Rightarrow> string" where
  "device_name_validation_error_name NAME_NONE = ''NONE''"
| "device_name_validation_error_name NAME_EMPTY = ''EMPTY''"
| "device_name_validation_error_name NAME_TOO_LONG = ''TOO_LONG''"
| "device_name_validation_error_name NAME_INVALID_UTF8 = ''INVALID_UTF8''"
| "device_name_validation_error_name NAME_UNSUPPORTED_CHAR = ''UNSUPPORTED_CHAR''"

fun device_name_validation_error_description :: "device_name_validation_error \<Rightarrow> string" where
  "device_name_validation_error_description NAME_NONE = ''name accepted''"
| "device_name_validation_error_description NAME_EMPTY = ''device name must not be empty''"
| "device_name_validation_error_description NAME_TOO_LONG =
     ''device name exceeds the 15-character write limit''"
| "device_name_validation_error_description NAME_INVALID_UTF8 = ''device name must be valid UTF-8''"
| "device_name_validation_error_description NAME_UNSUPPORTED_CHAR =
     ''device name contains characters outside Latin-1''"

section \<open>Address classes\<close>

datatype address_class = UNICAST | BROADCAST_ALL | BROADCAST_TYPE | DISCOVERY | UNKNOWN_BROADCAST

definition classify_address :: "node_id \<Rightarrow> address_class" where
  "classify_address addr =
     (if addr ! 0 \<noteq> 0x00 then UNICAST
      else let suffix = addr ! 2 AND ADDRESS_SUFFIX_MASK;
               has_type_bits = addr ! 1 \<noteq> 0 \<or> addr ! 2 AND 0xC0 \<noteq> 0
           in if suffix = ADDRESS_SUFFIX_DISCOVERY then DISCOVERY
              else if has_type_bits then BROADCAST_TYPE
              else if suffix = ADDRESS_SUFFIX_BROADCAST then BROADCAST_ALL
              else if addr ! 1 = 0 \<and> addr ! 2 = 0 then BROADCAST_ALL
              else UNKNOWN_BROADCAST)"

fun address_class_name :: "address_class \<Rightarrow> string" where
  "address_class_name UNICAST = ''unicast''"
| "address_class_name BROADCAST_ALL = ''broadcast_all''"
| "address_class_name BROADCAST_TYPE = ''broadcast_type''"
| "address_class_name DISCOVERY = ''discovery''"
| "address_class_name UNKNOWN_BROADCAST = ''unknown_broadcast''"

definition broadcast_target_type :: "node_id \<Rightarrow> device_type" where
  "broadcast_target_type addr =
     (if addr ! 0 \<noteq> 0x00 then DT_UNKNOWN
      else let type_raw = push_bit DEVICE_TYPE_LOW_BITS_SHIFT (ucast (addr ! 1)) OR
                          (ucast (drop_bit DEVICE_TYPE_HIGH_BITS_SHIFT (addr ! 2)) :: u16)
           in if type_raw > ucast (device_type_raw DT_SWINGING_SHUTTER) then DT_UNKNOWN
              else device_type_of_raw (ucast type_raw))"

definition encode_broadcast_address :: "device_type \<Rightarrow> node_id" where
  "encode_broadcast_address type =
     (let type_raw = (ucast (device_type_raw type) :: u16)
      in [0, ucast (drop_bit DEVICE_TYPE_LOW_BITS_SHIFT type_raw),
          ucast (push_bit DEVICE_TYPE_HIGH_BITS_SHIFT type_raw OR ucast DEVICE_SUBTYPE_MASK)])"

section \<open>One-way frames\<close>

text \<open>\<open>snprintf\<close> into a buffer of \<open>out_size\<close> bytes keeps \<open>out_size - 1\<close> characters.\<close>

definition decode_1w_main_intent :: "u8 \<Rightarrow> u8 \<Rightarrow> nat \<Rightarrow> string" where
  "decode_1w_main_intent main0 main1 out_size =
     take (out_size - 1)
       (if main0 = POS_STOP then ''STOP''
        else if main0 = POS_FAVORITE then (if main1 = POS_VENT_MODIFIER then ''VENT'' else ''FAVORITE'')
        else if main0 = POS_UNKNOWN then ''UNCHANGED''
        else if main0 = POS_FORCE_OPEN then ''FORCE_OPEN''
        else if main0 = POS_SECURED_TARGET then ''SECURED_TARGET''
        else if main0 = POS_DEFAULT then ''DEFAULT''
        else if main0 \<le> POSITION_WIRE_MAX
        then let percent = main0 div POSITION_WIRE_SCALE
             in if percent = 0 then ''OPEN''
                else if percent = 100 then ''CLOSE''
                else ''position '' @ dec_string (unat percent) @ ''%''
        else ''0x'' @ hex_byte main0)"

definition oneway_intent_to_target :: "u8 \<Rightarrow> u8 \<Rightarrow> rat option" where
  "oneway_intent_to_target main0 main1 =
     (if main0 = POS_STOP \<or> main0 = POS_FAVORITE \<or> main0 = POS_UNKNOWN \<or> main0 = POS_FORCE_OPEN \<or>
         main0 = POS_SECURED_TARGET \<or> main0 = POS_DEFAULT
      then None
      else if main0 \<le> POSITION_WIRE_MAX then Some (of_nat (unat (main0 div POSITION_WIRE_SCALE)))
      else None)"

abbreviation (input) ONEWAY_INTENT_BUFFER_SIZE :: nat where "ONEWAY_INTENT_BUFFER_SIZE \<equiv> 24"
abbreviation (input) ONEWAY_EXECUTE_MIN_DATA_LEN :: u8 where "ONEWAY_EXECUTE_MIN_DATA_LEN \<equiv> 4"

record oneway_frame_info =
  ofi_src :: node_id
  ofi_address_class :: address_class
  ofi_target_type :: device_type
  ofi_cmd :: u8
  ofi_has_intent :: bool
  ofi_originator :: u8
  ofi_acei_level :: u8
  ofi_intent :: string
  ofi_main0 :: u8
  ofi_main1 :: u8
  ofi_data_len :: u8

definition decode_1w_frame :: "io_frame \<Rightarrow> oneway_frame_info" where
  "decode_1w_frame frame =
     (let info = \<lparr>ofi_src = src frame, ofi_address_class = classify_address (dst frame),
                  ofi_target_type = broadcast_target_type (dst frame), ofi_cmd = cmd frame,
                  ofi_has_intent = False, ofi_originator = 0, ofi_acei_level = 0, ofi_intent = [],
                  ofi_main0 = 0, ofi_main1 = 0, ofi_data_len = data_len frame\<rparr>
      in if (cmd frame = CMD_EXECUTE \<or> cmd frame = CMD_ACTIVATE_MODE) \<and>
            data_len frame \<ge> ONEWAY_EXECUTE_MIN_DATA_LEN
         then info\<lparr>ofi_has_intent := True, ofi_originator := data frame ! 0,
                   ofi_acei_level := drop_bit ACEI_LEVEL_SHIFT (data frame ! 1 AND ACEI_LEVEL_MASK),
                   ofi_main0 := data frame ! 2, ofi_main1 := data frame ! 3,
                   ofi_intent := decode_1w_main_intent (data frame ! 2) (data frame ! 3)
                                   ONEWAY_INTENT_BUFFER_SIZE\<rparr>
         else info)"

section \<open>Discovery responses\<close>

record discovery_response_info =
  dri_metadata_complete :: bool
  dri_has_extended :: bool
  dri_manufacturer :: u8
  dri_flags :: u8
  dri_backbone :: node_id
  dri_timestamp :: u16

definition decode_discovery_response ::
  "io_frame \<Rightarrow> io_device \<Rightarrow> discovery_response_info \<times> io_device \<times> string" where
  "decode_discovery_response frame device =
     (let n = unat (data_len frame);
          complete = n \<ge> DEVICE_METADATA_SIZE;
          device = device\<lparr>dev_node_id := src frame\<rparr>;
          device = (if complete
                    then let type = decode_packed_device_type (data frame ! 0) (data frame ! 1)
                         in device\<lparr>dev_type := type,
                                   dev_subtype := decode_packed_device_subtype (data frame ! 1),
                                   dev_inverted := default_inverted_for_type type\<rparr>
                    else device\<lparr>dev_type := DT_UNKNOWN, dev_subtype := 0, dev_inverted := False\<rparr>);
          device = device\<lparr>dev_position := UNKNOWN_POSITION, dev_target := UNKNOWN_POSITION,
                          dev_is_stopped := True\<rparr>;
          info = \<lparr>dri_metadata_complete = complete,
                  dri_has_extended = n \<ge> DISCOVERY_RESP_FULL_SIZE,
                  dri_manufacturer = (if n > DISCOVERY_RESP_MANUFACTURER_OFFSET
                                      then data frame ! DISCOVERY_RESP_MANUFACTURER_OFFSET else 0),
                  dri_flags = (if n > DISCOVERY_RESP_FLAGS_OFFSET
                               then data frame ! DISCOVERY_RESP_FLAGS_OFFSET else 0),
                  dri_backbone = (if n > DISCOVERY_RESP_BACKBONE_OFFSET + NODE_ID_SIZE - 1
                                  then sub_bytes DISCOVERY_RESP_BACKBONE_OFFSET NODE_ID_SIZE (data frame)
                                  else [0, 0, 0]),
                  dri_timestamp = (if n > DISCOVERY_RESP_TIMESTAMP_OFFSET + 1
                                   then be16 (data frame ! DISCOVERY_RESP_TIMESTAMP_OFFSET)
                                             (data frame ! (DISCOVERY_RESP_TIMESTAMP_OFFSET + 1))
                                   else 0)\<rparr>
      in (info, device, node_id_to_string (dev_node_id device)))"

section \<open>The one-way add-controller frame\<close>

datatype oneway_mac_status = MAC_NOT_PRESENT | MAC_VERIFIED | MAC_FAILED

record oneway_adopted_key =
  oak_system_key :: bytes
  oak_manufacturer :: u8
  oak_sender_node :: node_id
  oak_sequence :: u16
  oak_mac_status :: oneway_mac_status

datatype oneway_add_controller_decode_error =
  ADD_NOT_ONEWAY | ADD_WRONG_COMMAND | ADD_BAD_LENGTH | ADD_KEY_UNWRAP_FAILED

abbreviation (input) ONEWAY_ADD_CONTROLLER_MANUFACTURER_OFFSET :: nat where
  "ONEWAY_ADD_CONTROLLER_MANUFACTURER_OFFSET \<equiv> AES_KEY_SIZE"
abbreviation (input) ONEWAY_ADD_CONTROLLER_SEQUENCE_OFFSET :: nat where
  "ONEWAY_ADD_CONTROLLER_SEQUENCE_OFFSET \<equiv> AES_KEY_SIZE + 2"
abbreviation (input) ONEWAY_ADD_CONTROLLER_PAYLOAD_SIZE :: u8 where
  "ONEWAY_ADD_CONTROLLER_PAYLOAD_SIZE \<equiv> 20"

definition decode_1w_add_controller ::
  "io_frame \<Rightarrow> oneway_add_controller_decode_error + oneway_adopted_key" where
  "decode_1w_add_controller frame =
     (if ctrl0 frame AND CTRL0_PROTOCOL_1W = 0 then Inl ADD_NOT_ONEWAY
      else if cmd frame \<noteq> CMD_ONEWAY_ADD_CONTROLLER then Inl ADD_WRONG_COMMAND
      else if data_len frame \<noteq> ONEWAY_ADD_CONTROLLER_PAYLOAD_SIZE then Inl ADD_BAD_LENGTH
      else
        let enc_key = take AES_KEY_SIZE (data frame);
            key = crypt_1w_key (src frame) enc_key;
            sequence = be16 (data frame ! ONEWAY_ADD_CONTROLLER_SEQUENCE_OFFSET)
                            (data frame ! (ONEWAY_ADD_CONTROLLER_SEQUENCE_OFFSET + 1));
            out = \<lparr>oak_system_key = key,
                   oak_manufacturer = data frame ! ONEWAY_ADD_CONTROLLER_MANUFACTURER_OFFSET,
                   oak_sender_node = src frame, oak_sequence = sequence,
                   oak_mac_status = MAC_NOT_PRESENT\<rparr>
        in if \<not> has_mac frame then Inr out
           else let mac_span = cmd frame # enc_key;
                    expected_mac = create_1w_hmac mac_span sequence key
                in Inr (out\<lparr>oak_mac_status :=
                      (if constant_time_equal (mac frame) expected_mac then MAC_VERIFIED else MAC_FAILED)\<rparr>))"

section \<open>Names: lemmas\<close>

definition utf8 :: "bytes \<Rightarrow> bytes" where
  "utf8 xs = concat (map (\<lambda>b. if b < 0x80 then [b] else utf8_char b) xs)"

lemma utf8_simps [simp]: "utf8 [] = []"
  "utf8 (b # xs) = (if b < 0x80 then [b] else utf8_char b) @ utf8 xs"
  "utf8 (xs @ ys) = utf8 xs @ utf8 ys"
  by (simp_all add: utf8_def)

lemma length_utf8_char [simp]: "length (utf8_char b) = 2"
  by (simp add: utf8_char_def)

lemma utf8_char_not_Nil [simp]: "utf8_char b \<noteq> []"
  by (simp add: utf8_char_def)

lemma utf8_eq_Nil [simp]: "utf8 xs = [] \<longleftrightarrow> xs = []"
  by (cases xs) simp_all

lemma length_utf8: "length (utf8 xs) \<le> 2 * length xs"
  by (induction xs) auto

lemma latin1_loop_utf8:
  "length result + length (utf8 xs) < 32 \<Longrightarrow> latin1_loop result xs = result @ utf8 xs"
  by (induction result xs rule: latin1_loop.induct) (auto split: if_splits)

lemma latin1_to_utf8_short [simp]: "length xs \<le> 15 \<Longrightarrow> latin1_to_utf8 xs = utf8 xs"
  using length_utf8 [of xs] by (simp add: latin1_to_utf8_def latin1_loop_utf8)

lemma length_latin1_loop: "length result < 32 \<Longrightarrow> length (latin1_loop result xs) < 32"
  by (induction result xs rule: latin1_loop.induct) auto

lemma length_latin1_to_utf8: "length (latin1_to_utf8 xs) < DEVICE_NAME_BUFFER_SIZE"
  by (simp add: latin1_to_utf8_def length_latin1_loop)

lemma u8_bits_eqI:
  assumes "bit a 0 = bit b 0" "bit a 1 = bit b 1" "bit a 2 = bit b 2" "bit a 3 = bit b 3"
    "bit a 4 = bit b 4" "bit a 5 = bit b 5" "bit a 6 = bit b 6" "bit a 7 = bit b 7"
  shows "a = (b :: u8)"
proof (rule bit_word_eqI)
  fix n assume "n < LENGTH(8)"
  then have "n = 0 \<or> n = 1 \<or> n = 2 \<or> n = 3 \<or> n = 4 \<or> n = 5 \<or> n = 6 \<or> n = 7" by auto
  with assms show "bit a n = bit b n" by metis
qed

lemma u16_small_bits: "w \<le> 0xFF \<Longrightarrow> 8 \<le> n \<Longrightarrow> \<not> bit (w :: u16) n"
proof -
  assume w: "w \<le> 0xFF" and n: "8 \<le> n"
  have "unat w \<le> 255" using w by (simp add: word_le_nat_alt)
  then have "w = take_bit 8 w"
    by (simp add: word_unat_eq_iff unsigned_take_bit_eq take_bit_eq_mod unat_mod_distrib)
  then show ?thesis using n by (metis bit_take_bit_iff not_le)
qed

text \<open>The decoder of one character inverts \<open>utf8\<close> on the code points of Latin-1.\<close>

lemma utf8_two_bytes:
  assumes "byte AND 0xE0 = 0xC0" and "continuation AND 0xC0 = 0x80"
    and cp: "codepoint = push_bit 6 (ucast (byte AND 0x1F)) OR (ucast (continuation AND 0x3F) :: u16)"
    and "codepoint \<le> 0xFF"
  shows "utf8_char (ucast codepoint) = [byte, continuation]"
proof -
  have high: "\<not> bit codepoint 8" "\<not> bit codepoint 9" "\<not> bit codepoint 10"
    using u16_small_bits [OF assms(4)] by auto
  have c: "bit codepoint n = (if n < 6 then bit continuation n else n < 11 \<and> bit byte (n - 6))" for n
  proof -
    have m: "(0x1F :: u8) = mask 5" "(0x3F :: u8) = mask 6" by (simp_all add: mask_eq_exp_minus_1)
    show ?thesis unfolding cp m by (auto simp: bit_simps)
  qed
  have lead: "bit byte 7" "bit byte 6" "\<not> bit byte 5"
    using arg_cong [OF assms(1), of "\<lambda>w. bit w 7"] arg_cong [OF assms(1), of "\<lambda>w. bit w 6"]
      arg_cong [OF assms(1), of "\<lambda>w. bit w 5"] by (simp_all add: bit_and_iff)
  have cont: "bit continuation 7" "\<not> bit continuation 6"
    using arg_cong [OF assms(2), of "\<lambda>w. bit w 7"] arg_cong [OF assms(2), of "\<lambda>w. bit w 6"]
    by (simp_all add: bit_and_iff)
  have b: "bit byte 2 = False" "bit byte 3 = False" "bit byte 4 = False"
    using high c [of 8] c [of 9] c [of 10] by simp_all
  have "0xC0 OR drop_bit 6 (ucast codepoint) = byte"
    by (rule u8_bits_eqI) (use lead b c [of 6] c [of 7] high in \<open>simp_all add: bit_simps\<close>)
  moreover have "0x80 OR (ucast codepoint AND 0x3F) = continuation"
    by (rule u8_bits_eqI) (use cont c in \<open>simp_all add: bit_simps\<close>)
  ultimately show ?thesis by (simp add: utf8_char_def)
qed

lemma u16_to_u8_unat: "w \<le> 0xFF \<Longrightarrow> unat (ucast (w :: u16) :: u8) = unat w"
proof -
  assume "w \<le> 0xFF"
  then have "unat w < 256" by (simp add: word_le_nat_alt)
  then show ?thesis
    by (simp add: unsigned_ucast_eq unsigned_take_bit_eq take_bit_eq_mod unat_mod_distrib)
qed

lemma u8_to_u16_unat [simp]: "unat (ucast (b :: u8) :: u16) = unat b"
proof -
  have "unat b < 65536" by (rule less_trans [OF unat_u8_less]) simp
  then show ?thesis by (simp add: unsigned_ucast_eq unsigned_take_bit_eq take_bit_eq_mod)
qed

lemma utf8_decode_char_sound:
  assumes "utf8_decode_char rest = Inr (codepoint, advance)" and "rest \<noteq> []" and "codepoint \<le> 0xFF"
  shows "utf8 [ucast codepoint] = take advance rest"
proof -
  obtain byte rest' where rest: "rest = byte # rest'" using assms(2) by (cases rest) auto
  show ?thesis
  proof (cases "byte \<le> 0x7F")
    case True
    then have "codepoint = ucast byte" "advance = 1" using assms(1) rest by (auto simp: utf8_decode_char_def)
    moreover have "byte < 0x80" using True by (simp add: word_le_nat_alt word_less_nat_alt)
    moreover have "ucast (ucast byte :: u16) = byte" by (rule bit_word_eqI) (simp add: bit_simps)
    ultimately show ?thesis using rest by simp
  next
    case False
    then have lead: "byte AND 0xE0 = 0xC0"
      using assms(1) rest by (auto simp: utf8_decode_char_def Let_def split: if_splits)
    with False obtain continuation rest'' where rest': "rest' = continuation # rest''"
      using assms(1) rest by (cases rest') (auto simp: utf8_decode_char_def Let_def)
    have d: "continuation AND 0xC0 = 0x80" "advance = 2" "\<not> codepoint < 0x80"
      "codepoint = push_bit 6 (ucast (byte AND 0x1F)) OR ucast (continuation AND 0x3F)"
      using assms(1) False lead by (auto simp: utf8_decode_char_def Let_def rest rest' split: if_splits)
    have "\<not> (ucast codepoint :: u8) < 0x80"
      using d(3) u16_to_u8_unat [OF assms(3)] by (simp add: word_less_nat_alt)
    moreover have "utf8_char (ucast codepoint) = [byte, continuation]"
      by (rule utf8_two_bytes [OF lead d(1) d(4) assms(3)])
    ultimately show ?thesis by (simp add: rest rest' d(2) numeral_2_eq_2)
  qed
qed

lemma utf8_char_bits:
  "(0xC0 OR drop_bit 6 b) AND 0xE0 = (0xC0 :: u8)" "(0x80 OR (b AND 0x3F)) AND 0xC0 = (0x80 :: u8)"
  "push_bit 6 (ucast ((0xC0 OR drop_bit 6 b) AND 0x1F)) OR ucast ((0x80 OR (b AND 0x3F)) AND 0x3F)
   = (ucast b :: u16)"
proof -
  show "(0xC0 OR drop_bit 6 b) AND 0xE0 = (0xC0 :: u8)"
    by (rule u8_bits_eqI) (auto simp: bit_simps dest: bit_imp_le_length)
  show "(0x80 OR (b AND 0x3F)) AND 0xC0 = (0x80 :: u8)"
    by (rule u8_bits_eqI) (auto simp: bit_simps dest: bit_imp_le_length)
  have m: "(0x1F :: u8) = mask 5" "(0x3F :: u8) = mask 6" by (simp_all add: mask_eq_exp_minus_1)
  have c: "\<not> bit (0xC0 :: u8) n" "\<not> bit (0x80 :: u8) n" if "n < 6" for n
  proof -
    have "n = 0 \<or> n = 1 \<or> n = 2 \<or> n = 3 \<or> n = 4 \<or> n = 5" using that by auto
    then show "\<not> bit (0xC0 :: u8) n" "\<not> bit (0x80 :: u8) n" by auto
  qed
  show "push_bit 6 (ucast ((0xC0 OR drop_bit 6 b) AND 0x1F)) OR ucast ((0x80 OR (b AND 0x3F)) AND 0x3F)
      = (ucast b :: u16)"
  proof (rule bit_word_eqI)
    fix n assume "n < LENGTH(16)"
    show "bit (push_bit 6 (ucast ((0xC0 OR drop_bit 6 b) AND 0x1F)) OR
        ucast ((0x80 OR (b AND 0x3F)) AND 0x3F) :: u16) n = bit (ucast b :: u16) n"
      using c [of n] c [of "n - 6"] \<open>n < LENGTH(16)\<close> unfolding m
      by (cases "n < 6") (auto simp: bit_simps dest: bit_imp_le_length)
  qed
qed

lemma utf8_decode_char_complete:
  "utf8_decode_char (utf8 [b] @ rest) = Inr (ucast b, length (utf8 [b]))"
proof (cases "b < 0x80")
  case True
  then have "b \<le> 0x7F" by (simp add: word_le_nat_alt word_less_nat_alt)
  with True show ?thesis by (simp add: utf8_decode_char_def)
next
  case False
  have "bit (0xC0 OR drop_bit 6 b) 7" by (simp add: bit_simps)
  then have "\<not> (0xC0 OR drop_bit 6 b) \<le> 0x7F"
    unfolding u8_ge_128 [symmetric] by (simp add: word_le_nat_alt)
  moreover have "\<not> (ucast b :: u16) < 0x80"
    using False by (simp add: word_less_nat_alt unsigned_ucast_eq take_bit_eq_mod)
  ultimately show ?thesis
    using False utf8_char_bits [of b] by (simp add: utf8_decode_char_def Let_def utf8_char_def)
qed

lemma encode_name_loop_sound:
  "encode_name_loop rest buf n = (NAME_NONE, buf', n') \<Longrightarrow> n \<le> 15 \<Longrightarrow> length buf = 16 \<Longrightarrow>
   length buf' = 16 \<and> n \<le> n' \<and> n' \<le> 15 \<and> utf8 (take n' buf') = utf8 (take n buf) @ rest \<and>
   drop n' buf' = drop n' buf"
proof (induction rest buf n rule: encode_name_loop.induct)
  case (1 rest buf n)
  show ?case
  proof (cases "rest = []")
    case True
    with 1 show ?thesis by (auto simp: encode_name_loop.simps)
  next
    case False
    obtain cp adv where dec: "utf8_decode_char rest = Inr (cp, adv)"
      using "1.prems"(1) False by (cases "utf8_decode_char rest") (auto simp: encode_name_loop.simps
          utf8_decode_char_def Let_def split: if_splits)
    have small: "cp \<le> 0xFF" "n < 15"
      using "1.prems"(1) False dec by (auto simp: encode_name_loop.simps split: if_splits)
    let ?buf = "buf[n := ucast cp]"
    have step: "encode_name_loop (drop adv rest) ?buf (n + 1) = (NAME_NONE, buf', n')"
      using "1.prems"(1) False dec small by (subst (asm) encode_name_loop.simps) (auto split: if_splits)
    have IH: "length buf' = 16 \<and> n + 1 \<le> n' \<and> n' \<le> 15 \<and>
        utf8 (take n' buf') = utf8 (take (n + 1) ?buf) @ drop adv rest \<and> drop n' buf' = drop n' ?buf"
      using "1.IH" [OF False dec refl _ _ step] small "1.prems"(3) by (simp add: not_less not_le)
    have "take (n + 1) ?buf = take n buf @ [ucast cp]"
      using small "1.prems"(3) by (simp add: take_Suc_conv_app_nth)
    then have "utf8 (take (n + 1) ?buf) = utf8 (take n buf) @ take adv rest"
      using utf8_decode_char_sound [OF dec False small(1)] by simp
    with IH small show ?thesis by (auto simp: drop_update_cancel)
  qed
qed

lemma encode_name_loop_complete:
  "length buf = 16 \<Longrightarrow> n + length xs \<le> 15 \<Longrightarrow>
   encode_name_loop (utf8 xs) buf n = (NAME_NONE, take n buf @ xs @ drop (n + length xs) buf, n + length xs)"
proof (induction xs arbitrary: buf n)
  case Nil
  then show ?case by (simp add: encode_name_loop.simps)
next
  case (Cons x xs)
  have ne: "utf8 (x # xs) \<noteq> []" by simp
  have dec: "utf8_decode_char (utf8 (x # xs)) = Inr (ucast x, length (utf8 [x]))"
    using utf8_decode_char_complete [of x "utf8 xs"] by simp
  have small: "\<not> (ucast x :: u16) > 0xFF" "\<not> n \<ge> 15"
    using Cons.prems unat_u8_less [of x]
    by (simp_all add: word_less_nat_alt unsigned_ucast_eq take_bit_eq_mod del: unat_u8_less)
  have "ucast (ucast x :: u16) = x" by (rule bit_word_eqI) (simp add: bit_simps)
  with ne dec small have step: "encode_name_loop (utf8 (x # xs)) buf n =
      encode_name_loop (utf8 xs) (buf[n := x]) (n + 1)"
    by (subst encode_name_loop.simps) (simp only: dec ne sum.case prod.case if_False, simp)
  have "n < length buf" using small Cons.prems(1) by simp
  then have "take (Suc n) (buf[n := x]) = take n buf @ [x]" by (simp add: take_Suc_conv_app_nth)
  with step Cons.IH [of "buf[n := x]" "n + 1"] Cons.prems show ?case by simp
qed

lemma strip_end_append: "xs \<noteq> [] \<Longrightarrow> \<not> P (last xs) \<Longrightarrow> (\<forall>y \<in> set ys. P y) \<Longrightarrow> strip_end P (xs @ ys) = xs"
proof -
  assume xs: "xs \<noteq> []" "\<not> P (last xs)" and ys: "\<forall>y \<in> set ys. P y"
  then obtain zs z where z: "xs = zs @ [z]" "\<not> P z" by (cases xs rule: rev_cases) auto
  have "dropWhile P (rev ys @ z # rev zs) = dropWhile P (z # rev zs)"
    by (rule dropWhile_append2) (use ys in auto)
  with z show ?thesis by (simp add: strip_end_def)
qed

lemma strip_end_id: "xs = [] \<or> \<not> P (last xs) \<Longrightarrow> strip_end P xs = xs"
  using strip_end_append [of xs P "[]"] by (cases "xs = []") (simp_all add: strip_end_def)

lemma strip_end_last: "strip_end P xs \<noteq> [] \<Longrightarrow> \<not> P (last (strip_end P xs))"
  by (simp add: strip_end_def last_rev hd_dropWhile)

lemma strip_end_prefix: "\<exists>ys. xs = strip_end P xs @ ys"
proof -
  have "rev xs = takeWhile P (rev xs) @ dropWhile P (rev xs)" by simp
  then have "xs = rev (dropWhile P (rev xs)) @ rev (takeWhile P (rev xs))"
    by (metis rev_append rev_rev_ident)
  then show ?thesis unfolding strip_end_def by blast
qed

lemma trim_ends:
  assumes "trim_ascii_whitespace v \<noteq> []"
  shows "\<not> is_space (hd (trim_ascii_whitespace v))" and "\<not> is_space (last (trim_ascii_whitespace v))"
proof -
  let ?w = "dropWhile is_space v"
  obtain ys where ys: "?w = strip_end is_space ?w @ ys" using strip_end_prefix by blast
  have ne: "strip_end is_space ?w \<noteq> []" using assms by (simp add: trim_ascii_whitespace_def)
  then have "?w \<noteq> []" by (metis strip_end_def dropWhile.simps(1) rev.simps(1))
  then have "\<not> is_space (hd ?w)" by (rule hd_dropWhile)
  moreover have "hd ?w = hd (strip_end is_space ?w)" using ys ne by (metis hd_append2)
  ultimately show "\<not> is_space (hd (trim_ascii_whitespace v))" by (simp add: trim_ascii_whitespace_def)
  show "\<not> is_space (last (trim_ascii_whitespace v))"
    unfolding trim_ascii_whitespace_def by (rule strip_end_last [OF ne])
qed

lemma trim_id:
  "v \<noteq> [] \<Longrightarrow> \<not> is_space (hd v) \<Longrightarrow> \<not> is_space (last v) \<Longrightarrow> trim_ascii_whitespace v = v"
  by (cases v) (simp_all add: trim_ascii_whitespace_def strip_end_id)

lemma trim_trim [simp]: "trim_ascii_whitespace (trim_ascii_whitespace v) = trim_ascii_whitespace v"
proof (cases "trim_ascii_whitespace v = []")
  case True
  then show ?thesis by (simp only: True) (simp add: trim_ascii_whitespace_def strip_end_def)
qed (use trim_ends [of v] trim_id [of "trim_ascii_whitespace v"] in \<open>auto dest: set_dropWhileD\<close>)

lemma encode_device_name_accepts:
  "trim_ascii_whitespace name = utf8 xs \<Longrightarrow> xs \<noteq> [] \<Longrightarrow> length xs \<le> 15 \<Longrightarrow>
   encode_device_name_payload name = (NAME_NONE, xs @ replicate (16 - length xs) 0, utf8 xs)"
  using encode_name_loop_complete [of "replicate 16 0" 0 xs]
  by (simp add: encode_device_name_payload_def)

lemma encode_device_name_accepted:
  assumes "encode_device_name_payload name = (NAME_NONE, p, nname)"
  obtains xs where "xs \<noteq> []" and "length xs \<le> 15" and "trim_ascii_whitespace name = utf8 xs"
    and "p = xs @ replicate (16 - length xs) 0" and "nname = utf8 xs"
proof -
  have ne: "trim_ascii_whitespace name \<noteq> []"
    using assms by (auto simp: encode_device_name_payload_def Let_def)
  obtain err buf n where loop: "encode_name_loop (trim_ascii_whitespace name) (replicate 16 0) 0 = (err, buf, n)"
    by (metis prod_cases3)
  have err: "err = NAME_NONE"
    using assms ne loop by (auto simp: encode_device_name_payload_def Let_def split: if_splits)
  define xs where "xs = take n buf"
  have s: "length buf = 16" "n \<le> 15" "utf8 xs = trim_ascii_whitespace name" "drop n buf = drop n (replicate 16 0)"
    using encode_name_loop_sound [OF loop [unfolded err]] by (simp_all add: xs_def)
  have len: "length xs = n" using s by (simp add: xs_def)
  have xs: "xs \<noteq> []" "trim_ascii_whitespace name = utf8 xs" using s ne by auto
  moreover have "length xs \<le> 15" using len s by simp
  moreover note encode_device_name_accepts [OF xs(2) xs(1)]
  ultimately show ?thesis using that [of xs] assms by simp
qed

section \<open>Broadcast addresses: lemmas\<close>

lemma broadcast_address_type [simp]:
  "device_type_ok type \<Longrightarrow> broadcast_target_type (encode_broadcast_address type) =
     (if \<exists>raw. type = DT_OTHER raw then DT_UNKNOWN else type)"
proof (cases type)
  case (DT_OTHER raw)
  have "push_bit 2 (ucast (ucast (drop_bit 2 (ucast raw :: u16)) :: u8)) OR
      ucast (drop_bit 6 (ucast (push_bit 6 (ucast raw :: u16) OR ucast (0x3F :: u8)) :: u8)) = (ucast raw :: u16)"
    (is "?type_raw = _")
  proof -
    have m: "(0x3F :: u8) = mask 6" by (simp add: mask_eq_exp_minus_1)
    show ?thesis
    proof (rule bit_word_eqI)
      fix n assume "n < LENGTH(16)"
      show "bit ?type_raw n = bit (ucast raw :: u16) n"
        unfolding m by (cases "n < 2") (auto simp: bit_simps dest: bit_imp_le_length simp flip: add_2_eq_Suc')
    qed
  qed
  moreover assume "device_type_ok type"
  ultimately show ?thesis
    by (simp add: DT_OTHER broadcast_target_type_def encode_broadcast_address_def Let_def
        device_type_ok_def word_less_nat_alt)
qed (simp_all add: broadcast_target_type_def encode_broadcast_address_def
    device_type_of_raw_def named_device_types_def)

lemma broadcast_address_class:
  assumes "device_type_ok type"
  shows "classify_address (encode_broadcast_address type) =
    (if type = DT_UNKNOWN then BROADCAST_ALL else BROADCAST_TYPE)"
proof (cases type)
  case (DT_OTHER raw)
  have suffix: "ucast (push_bit 6 (ucast raw :: u16) OR 0x3F) AND 0x3F = (0x3F :: u8)"
    by (rule u8_bits_eqI) (simp_all add: bit_simps)
  have "25 \<le> unat raw" using assms DT_OTHER by (simp add: device_type_ok_def)
  then have nz: "unat (drop_bit 2 (ucast raw :: u16)) \<noteq> 0" "unat (drop_bit 2 (ucast raw :: u16)) < 256"
    using unat_u8_less [of raw]
    by (auto simp: word_unat_eq_iff unat_drop_bit_eq drop_bit_eq_div unat_div simp del: unat_u8_less)
  then have "unat (ucast (drop_bit 2 (ucast raw :: u16)) :: u8) = unat (drop_bit 2 (ucast raw :: u16))"
    by (intro u16_to_u8_unat) (simp add: word_le_nat_alt)
  with nz have "(ucast (drop_bit 2 (ucast raw :: u16)) :: u8) \<noteq> 0" by (metis unat_0)
  with suffix show ?thesis
    by (simp add: DT_OTHER classify_address_def encode_broadcast_address_def Let_def)
qed (simp_all add: classify_address_def encode_broadcast_address_def)

section \<open>One-way intents: lemmas\<close>

definition special_codes :: "u8 set" where
  "special_codes = {POS_STOP, POS_FAVORITE, POS_UNKNOWN, POS_FORCE_OPEN, POS_SECURED_TARGET, POS_DEFAULT}"

definition position_text :: "nat \<Rightarrow> string" where
  "position_text n =
     (if n = 0 then ''OPEN'' else if n = 100 then ''CLOSE'' else ''position '' @ dec_string n @ ''%'')"

lemma length_dec_string_100: "n < 100 \<Longrightarrow> length (dec_string n) \<le> 2"
  by (subst dec_string.simps, subst dec_string.simps) auto

lemma intent_position:
  assumes "\<not> (main0 \<in> special_codes \<or> main0 > 200)"
  shows "decode_1w_main_intent main0 main1 24 = position_text (unat main0 div 2)"
proof -
  have le: "unat main0 \<le> 200" using assms by (simp add: word_le_nat_alt not_less)
  have d: "unat (main0 div 2) = unat main0 div 2" by (simp add: unat_div)
  have z: "(main0 div 2 = 0) = (unat main0 div 2 = 0)" "(main0 div 2 = 100) = (unat main0 div 2 = 100)"
    unfolding word_unat_eq_iff d by simp_all
  have "length (dec_string (unat main0 div 2)) \<le> 2" if "unat main0 div 2 \<noteq> 100"
    by (rule length_dec_string_100) (use le that in linarith)
  then show ?thesis
    using assms by (cases "unat main0 div 2 = 100")
      (simp_all add: decode_1w_main_intent_def special_codes_def position_text_def Let_def
        z d not_less take_Cons' del: unat_eq_zero)
qed

lemma intent_not_position:
  assumes "main0 \<in> special_codes \<or> main0 > 200"
  shows "decode_1w_main_intent main0 main1 24 \<noteq> position_text n"
proof (cases "main0 \<in> special_codes")
  case True
  then have "decode_1w_main_intent main0 main1 24 \<in> {''STOP'', ''VENT'', ''FAVORITE'', ''UNCHANGED'',
      ''FORCE_OPEN'', ''SECURED_TARGET'', ''DEFAULT''}"
    by (auto simp: special_codes_def decode_1w_main_intent_def)
  then show ?thesis by (auto simp: position_text_def)
next
  case False
  with assms have "hd (decode_1w_main_intent main0 main1 24) = CHR ''0''"
    by (auto simp: special_codes_def decode_1w_main_intent_def)
  then show ?thesis by (auto simp: position_text_def)
qed

section \<open>Properties\<close>

text \<open>A device name is accepted for writing exactly when, trimmed, it is the UTF-8 text of one to
  fifteen Latin-1 characters; the payload then is these characters padded with zeros to sixteen
  bytes, and the normalized name is the trimmed name.\<close>

theorem device_name_encoding:
  "encode_device_name_payload name = (NAME_NONE, p, nname) \<longleftrightarrow>
    (\<exists>xs. xs \<noteq> [] \<and> length xs \<le> DEVICE_NAME_WRITE_CHAR_LIMIT \<and>
       trim_ascii_whitespace name = utf8 xs \<and> p = xs @ replicate (DEVICE_NAME_WRITE_PAYLOAD_SIZE - length xs) 0 \<and>
       nname = trim_ascii_whitespace name)"
proof
  assume "encode_device_name_payload name = (NAME_NONE, p, nname)"
  then show "\<exists>xs. xs \<noteq> [] \<and> length xs \<le> DEVICE_NAME_WRITE_CHAR_LIMIT \<and>
       trim_ascii_whitespace name = utf8 xs \<and> p = xs @ replicate (DEVICE_NAME_WRITE_PAYLOAD_SIZE - length xs) 0 \<and>
       nname = trim_ascii_whitespace name"
    by (rule encode_device_name_accepted) fastforce
qed (use encode_device_name_accepts in fastforce)

text \<open>A name written to a device and read back is the trimmed name that was written, provided its
  first byte is above the padding range and its last byte is not a NUL (the reader strips both).\<close>

theorem device_name_roundtrip:
  assumes "encode_device_name_payload name = (NAME_NONE, p, nname)"
    and "0x20 < hd (trim_ascii_whitespace name)" and "last (trim_ascii_whitespace name) \<noteq> 0"
  shows "decode_device_name_payload p = trim_ascii_whitespace name \<and>
    length p = DEVICE_NAME_WRITE_PAYLOAD_SIZE \<and> length nname < DEVICE_NAME_BUFFER_SIZE"
proof -
  obtain xs where xs: "xs \<noteq> []" "length xs \<le> 15" "trim_ascii_whitespace name = utf8 xs"
    "p = xs @ replicate (16 - length xs) 0" "nname = utf8 xs"
    using assms(1) by (rule encode_device_name_accepted)
  have "\<not> is_space (last (utf8 xs))" using trim_ends(2) [of name] xs by simp
  moreover obtain ys y where y: "xs = ys @ [y]" using xs(1) by (cases xs rule: rev_cases) auto
  ultimately have last: "y \<noteq> 0 \<and> y \<noteq> 0x20"
    using assms(3) xs(3) by (auto simp: is_space_def)
  have "0x20 < hd xs"
    using assms(2) xs(1,3) by (cases xs) (auto split: if_splits simp: word_less_nat_alt)
  then have first: "0x20 < p ! 0" "p \<noteq> []" using xs(1,4) by (cases xs; simp)+
  have "strip_end (\<lambda>b. b = 0 \<or> b = 0x20) p = xs"
    unfolding xs(4) by (rule strip_end_append) (use xs(1) y last in auto)
  then have "decode_device_name_payload p = utf8 xs"
    using first xs(1,2) by (simp add: decode_device_name_payload_def)
  with xs length_utf8 [of xs] show ?thesis by simp
qed

theorem device_name_roundtrip_witness:
  "decode_device_name_payload [0x4B, 0xFC, 0x63, 0x68, 0x65, 0, 0, 0, 0, 0, 0, 0, 0, 0, 0, 0] =
     [0x4B, 0xC3, 0xBC, 0x63, 0x68, 0x65]"
proof -
  have t: "trim_ascii_whitespace [0x20, 0x4B, 0xC3, 0xBC, 0x63, 0x68, 0x65, 0x0A] = [0x4B, 0xC3, 0xBC, 0x63, 0x68, 0x65]"
    by code_simp
  have "encode_device_name_payload [0x20, 0x4B, 0xC3, 0xBC, 0x63, 0x68, 0x65, 0x0A] =
      (NAME_NONE, [0x4B, 0xFC, 0x63, 0x68, 0x65, 0, 0, 0, 0, 0, 0, 0, 0, 0, 0, 0], [0x4B, 0xC3, 0xBC, 0x63, 0x68, 0x65])"
    by code_simp
  from device_name_roundtrip [OF this] show ?thesis unfolding t by simp
qed

text \<open>The broadcast address built for a named device type is classified as a broadcast and
  decodes to that type again; only the unknown type gives the broadcast to every device.\<close>

theorem broadcast_address_roundtrip:
  assumes "device_type_ok type"
  shows "broadcast_target_type (encode_broadcast_address type) =
      (if \<exists>raw. type = DT_OTHER raw then DT_UNKNOWN else type) \<and>
    classify_address (encode_broadcast_address type) =
      (if type = DT_UNKNOWN then BROADCAST_ALL else BROADCAST_TYPE)"
  using assms broadcast_address_class [OF assms] by simp

theorem broadcast_address_roundtrip_witness:
  "broadcast_target_type [0, 1, 0xBF] = DT_LIGHT"
proof -
  have "encode_broadcast_address DT_LIGHT = [0, 1, 0xBF]" by code_simp
  then show ?thesis using broadcast_address_roundtrip [of DT_LIGHT] by (simp add: device_type_ok_def)
qed

text \<open>The target a one-way command is taken to lead to agrees with the text it is logged as: a
  command resolves to a target position exactly when its text is that of a position, OPEN (0), CLOSE
  (100) or a percentage, and the target is that percentage, never above 100.\<close>

theorem oneway_intent_consistent:
  "oneway_intent_to_target main0 main1 = Some p \<longleftrightarrow>
    (\<exists>n \<le> 100. p = of_nat n \<and> n = unat main0 div 2 \<and>
      decode_1w_main_intent main0 main1 ONEWAY_INTENT_BUFFER_SIZE = position_text n)"
proof (cases "main0 \<in> special_codes \<or> main0 > 200")
  case True
  then have "oneway_intent_to_target main0 main1 = None"
    by (auto simp: oneway_intent_to_target_def special_codes_def)
  then show ?thesis using intent_not_position [OF True] by simp
next
  case False
  then have le: "unat main0 \<le> 200" by (simp add: word_le_nat_alt not_less)
  have "oneway_intent_to_target main0 main1 = Some (of_nat (unat main0 div 2))"
    using False by (simp add: oneway_intent_to_target_def special_codes_def unat_div not_less del: of_nat_unat)
  then show ?thesis using le intent_position [OF False] by auto
qed

theorem oneway_intent_consistent_witness:
  "decode_1w_main_intent 0xC8 0 ONEWAY_INTENT_BUFFER_SIZE = ''CLOSE''"
proof -
  have "oneway_intent_to_target 0xC8 0 = Some 100"
    by (simp add: oneway_intent_to_target_def unat_div)
  then obtain n where "n \<le> 100" "(100 :: rat) = of_nat n"
    "decode_1w_main_intent 0xC8 0 24 = position_text n"
    using oneway_intent_consistent [of "0xC8" 0 100] by blast
  moreover from this(2) have "n = 100" by (metis of_nat_eq_iff of_nat_numeral)
  ultimately show ?thesis by (simp add: position_text_def)
qed

text \<open>The decoders of discovery responses and of one-way frames never read past the declared
  payload: two frames that agree on addresses, command, length and the declared bytes decode alike,
  whatever the rest of their buffers holds.\<close>

theorem decoders_read_declared_payload:
  assumes "src f = src g" and "dst f = dst g" and "cmd f = cmd g" and "data_len f = data_len g"
    and "payload f = payload g"
  shows "decode_discovery_response f device = decode_discovery_response g device \<and>
    decode_1w_frame f = decode_1w_frame g"
proof -
  have nth: "data f ! i = data g ! i" if "i < unat (data_len g)" for i
    using arg_cong [OF assms(5), of "\<lambda>xs. xs ! i"] that assms(4) by (simp add: payload_def)
  have sub: "sub_bytes i n (data f) = sub_bytes i n (data g)" if "i + n \<le> unat (data_len g)" for i n
  proof -
    have "sub_bytes i n xs = sub_bytes i n (take (unat (data_len g)) xs)" for xs :: bytes
      using that by (simp add: sub_bytes_def drop_take min_def)
    then show ?thesis using assms(4,5) by (metis payload_def)
  qed
  have "decode_1w_frame f = decode_1w_frame g"
    using nth assms by (simp add: decode_1w_frame_def Let_def word_le_nat_alt)
  moreover have "decode_discovery_response f device = decode_discovery_response g device"
    using nth sub assms by (simp add: decode_discovery_response_def Let_def)
  ultimately show ?thesis by blast
qed

theorem decoders_read_declared_payload_witness:
  "decode_1w_frame (empty_frame\<lparr>data := replicate 21 7\<rparr>) = decode_1w_frame empty_frame"
  using decoders_read_declared_payload [of "empty_frame\<lparr>data := replicate 21 7\<rparr>" empty_frame new_device]
  by (simp add: empty_frame_def payload_def)

end
