(* ===== verification/Commands.thy ===== *)
theory Commands
  imports Codecs
begin

text \<open>
  The frame builders (\<open>proto_commands.h\<close>, \<open>proto_commands.cpp\<close>). A builder is a function to the pair
  of its \<open>bool\<close> result and the frame it leaves in its out-parameter; the builders that can refuse
  before they touch the frame take the old frame as first argument. Random challenges and nonces
  are arguments.
\<close>

section \<open>Payload constants\<close>

abbreviation (input) POSITION_PERCENT_MAX :: u8 where "POSITION_PERCENT_MAX \<equiv> 100"
abbreviation (input) EXECUTE_ORIGINATOR :: u8 where "EXECUTE_ORIGINATOR \<equiv> ORIGINATOR_USER_REMOTE"
abbreviation (input) EXECUTE_ACEI :: u8 where
  "EXECUTE_ACEI \<equiv> push_bit ACEI_LEVEL_SHIFT ACEI_LEVEL_USER_DEFAULT OR push_bit ACEI_EXTENDED_SHIFT 1 OR ACEI_VALID_BIT"
abbreviation (input) EXECUTE_ACEI_FORCE_OPEN :: u8 where
  "EXECUTE_ACEI_FORCE_OPEN \<equiv>
     push_bit ACEI_LEVEL_SHIFT ACEI_LEVEL_PROTECTION_HUMAN OR push_bit ACEI_EXTENDED_SHIFT 1 OR ACEI_VALID_BIT"
abbreviation (input) KEY_EXTRACTION_DISCOVER_RESP_FLAGS :: u8 where "KEY_EXTRACTION_DISCOVER_RESP_FLAGS \<equiv> 0xDD"
abbreviation (input) KEY_EXTRACTION_DISCOVER_RESP_TIMESTAMP :: u16 where
  "KEY_EXTRACTION_DISCOVER_RESP_TIMESTAMP \<equiv> 0x000E"
abbreviation (input) EXECUTE_POSITION_LAYOUT_FLAG :: u8 where "EXECUTE_POSITION_LAYOUT_FLAG \<equiv> 0x80"
abbreviation (input) EXECUTE_POSITION_PROFILE :: u8 where "EXECUTE_POSITION_PROFILE \<equiv> 0x06"
abbreviation (input) EXECUTE_PROFILE_SILENT :: u8 where "EXECUTE_PROFILE_SILENT \<equiv> 0x05"
abbreviation (input) PRIVATE2_EXTENDED_BLOCK_FLAG :: u8 where "PRIVATE2_EXTENDED_BLOCK_FLAG \<equiv> 0x80"
abbreviation (input) STATUS_UPDATE_ACK_PAYLOAD :: bytes where "STATUS_UPDATE_ACK_PAYLOAD \<equiv> [0x05, 0x00]"
abbreviation (input) SET_CONFIG1_STATUS_BROADCAST_PAYLOAD :: bytes where
  "SET_CONFIG1_STATUS_BROADCAST_PAYLOAD \<equiv> [0xE0, 0x10, 0x0A, 0x08, 0x00]"
abbreviation (input) IDENTIFY_PARAMETER :: u8 where "IDENTIFY_PARAMETER \<equiv> 0xFF"
abbreviation (input) ONEWAY_EXECUTE_FP1 :: u8 where "ONEWAY_EXECUTE_FP1 \<equiv> 0x00"
abbreviation (input) ONEWAY_EXECUTE_FP2 :: u8 where "ONEWAY_EXECUTE_FP2 \<equiv> 0x00"
abbreviation (input) ONEWAY_ADD_DATA_VALUE :: u8 where "ONEWAY_ADD_DATA_VALUE \<equiv> 0x01"
abbreviation (input) ONEWAY_REMOVE_DATA_VALUE :: u8 where "ONEWAY_REMOVE_DATA_VALUE \<equiv> 0x00"

section \<open>Two-way commands\<close>

text \<open>
  The prologue of every two-way builder: \<open>init_frame\<close> (which resets the whole frame), \<open>set_dst\<close>,
  \<open>set_src\<close>.
\<close>

definition addressed_2w :: "bool \<Rightarrow> bool \<Rightarrow> bool \<Rightarrow> node_id \<Rightarrow> node_id \<Rightarrow> io_frame" where
  "addressed_2w start_flag end_flag low_power own target =
     set_src (set_dst (init_frame True start_flag end_flag low_power) target) own"

definition make_position_payload :: "u8 \<Rightarrow> u8 \<Rightarrow> bool \<Rightarrow> bytes" where
  "make_position_payload acei position silent =
     [EXECUTE_ORIGINATOR, acei, POSITION_WIRE_SCALE * position, 0x00, EXECUTE_POSITION_LAYOUT_FLAG,
      POS_FAVORITE, if silent then EXECUTE_PROFILE_SILENT else EXECUTE_POSITION_PROFILE, 0x00]"

definition create_no_payload_request :: "node_id \<Rightarrow> node_id \<Rightarrow> bool \<Rightarrow> u8 \<Rightarrow> bool \<times> io_frame" where
  "create_no_payload_request own target low_power c = set_cmd (addressed_2w True False low_power own target) c []"

definition create_execute_position ::
  "io_frame \<Rightarrow> node_id \<Rightarrow> node_id \<Rightarrow> bool \<Rightarrow> u8 \<Rightarrow> bool \<Rightarrow> bool \<times> io_frame" where
  "create_execute_position f own target low_power position silent =
     (if position > POSITION_PERCENT_MAX then (False, f)
      else set_cmd (addressed_2w True False low_power own target) CMD_EXECUTE
             (make_position_payload EXECUTE_ACEI position silent))"

fun cover_command_bytes :: "cover_command \<Rightarrow> (u8 \<times> u8) option" where
  "cover_command_bytes CC_STOP = Some (POS_STOP, 0x00)"
| "cover_command_bytes CC_FAVORITE = Some (POS_FAVORITE, 0x00)"
| "cover_command_bytes CC_VENT = Some (POS_FAVORITE, POS_VENT_MODIFIER)"
| "cover_command_bytes CC_FORCE_OPEN = None"

definition create_execute_command ::
  "io_frame \<Rightarrow> node_id \<Rightarrow> node_id \<Rightarrow> bool \<Rightarrow> cover_command \<Rightarrow> bool \<Rightarrow> bool \<times> io_frame" where
  "create_execute_command f own target low_power c silent =
     (case cover_command_bytes c of
        None \<Rightarrow> (False, f)
      | Some (main_byte, modifier_byte) \<Rightarrow>
          let f = addressed_2w True False low_power own target
          in if silent \<and> c = CC_FAVORITE
             then set_cmd f CMD_EXECUTE [EXECUTE_ORIGINATOR, EXECUTE_ACEI, main_byte, modifier_byte,
                    EXECUTE_POSITION_LAYOUT_FLAG, POS_FAVORITE, EXECUTE_PROFILE_SILENT, 0x00]
             else set_cmd f CMD_EXECUTE [EXECUTE_ORIGINATOR, EXECUTE_ACEI, main_byte, modifier_byte, 0x00, 0x00])"

definition create_force_open :: "node_id \<Rightarrow> node_id \<Rightarrow> bool \<Rightarrow> u8 \<Rightarrow> bool \<times> io_frame" where
  "create_force_open own target low_power open_position =
     set_cmd (addressed_2w True False low_power own target) CMD_EXECUTE
       (make_position_payload EXECUTE_ACEI_FORCE_OPEN open_position False)"

definition create_private_function ::
  "node_id \<Rightarrow> node_id \<Rightarrow> bool \<Rightarrow> u8 \<Rightarrow> u8 \<Rightarrow> bool \<times> io_frame" where
  "create_private_function own target low_power function_id sub_index =
     set_cmd (addressed_2w True False low_power own target) CMD_PRIVATE [function_id, sub_index, 0x00]"

definition create_get_status :: "node_id \<Rightarrow> node_id \<Rightarrow> bool \<Rightarrow> bool \<times> io_frame" where
  "create_get_status own target low_power =
     create_private_function own target low_power PRIVATE_GET_POSITION_STATUS 0x00"

definition create_get_name :: "node_id \<Rightarrow> node_id \<Rightarrow> bool \<Rightarrow> bool \<times> io_frame" where
  "create_get_name own target low_power = create_no_payload_request own target low_power CMD_GET_NAME"

definition create_general_info3 :: "node_id \<Rightarrow> node_id \<Rightarrow> bool \<Rightarrow> bool \<times> io_frame" where
  "create_general_info3 own target low_power =
     create_no_payload_request own target low_power CMD_GET_GENERAL_INFO3"

definition create_get_info1 :: "node_id \<Rightarrow> node_id \<Rightarrow> bool \<Rightarrow> bool \<times> io_frame" where
  "create_get_info1 own target low_power = create_no_payload_request own target low_power CMD_GET_INFO1"

definition create_get_info2 :: "node_id \<Rightarrow> node_id \<Rightarrow> bool \<Rightarrow> bool \<times> io_frame" where
  "create_get_info2 own target low_power = create_no_payload_request own target low_power CMD_GET_INFO2"

definition create_set_name :: "node_id \<Rightarrow> node_id \<Rightarrow> bool \<Rightarrow> bytes \<Rightarrow> bool \<times> io_frame" where
  "create_set_name own target low_power name_payload =
     set_cmd (addressed_2w True False low_power own target) CMD_SET_NAME name_payload"

definition create_identify :: "node_id \<Rightarrow> node_id \<Rightarrow> bool \<Rightarrow> bool \<times> io_frame" where
  "create_identify own target low_power =
     set_cmd (addressed_2w True False low_power own target) CMD_IDENTIFY
       [ORIGINATOR_USER_REMOTE, IDENTIFY_PARAMETER]"

text \<open>The tilt value: \<open>int\<close> arithmetic, truncated to 16 bits.\<close>

definition tilt_wire_value :: "u8 \<Rightarrow> u16" where
  "tilt_wire_value tilt_percent =
     word_of_int ((100 - int (unat tilt_percent)) * int (unat STATUS_POS_MAX) sdiv 100)"

definition create_execute_tilt :: "node_id \<Rightarrow> node_id \<Rightarrow> bool \<Rightarrow> u8 \<Rightarrow> bool \<times> io_frame" where
  "create_execute_tilt own target low_power tilt_percent =
     (let tilt_value = tilt_wire_value tilt_percent
      in set_cmd (addressed_2w True False low_power own target) CMD_EXECUTE
           [EXECUTE_ORIGINATOR, EXECUTE_ACEI, POS_UNKNOWN, 0x00, STATUS_TILT_SELECTOR,
            hi8 tilt_value, lo8 tilt_value, 0x00])"

definition create_execute_position_and_tilt ::
  "io_frame \<Rightarrow> node_id \<Rightarrow> node_id \<Rightarrow> bool \<Rightarrow> u8 \<Rightarrow> u8 \<Rightarrow> bool \<times> io_frame" where
  "create_execute_position_and_tilt f own target low_power position tilt_percent =
     (if position > POSITION_PERCENT_MAX then (False, f)
      else let tilt_value = tilt_wire_value tilt_percent
           in set_cmd (addressed_2w True False low_power own target) CMD_EXECUTE
                [EXECUTE_ORIGINATOR, EXECUTE_ACEI, 2 * position, 0x00, STATUS_TILT_SELECTOR,
                 hi8 tilt_value, lo8 tilt_value, 0x00])"

definition create_get_status_extended ::
  "node_id \<Rightarrow> node_id \<Rightarrow> bool \<Rightarrow> u8 \<Rightarrow> u8 \<Rightarrow> u8 \<Rightarrow> bool \<times> io_frame" where
  "create_get_status_extended own target low_power selector block function_id =
     set_cmd (addressed_2w True False low_power own target) CMD_PRIVATE [function_id, selector, block, 0x00]"

definition create_get_status_tilt :: "node_id \<Rightarrow> node_id \<Rightarrow> bool \<Rightarrow> bool \<times> io_frame" where
  "create_get_status_tilt own target low_power =
     create_get_status_extended own target low_power STATUS_TILT_SELECTOR 0x01 PRIVATE_GET_POSITION_STATUS"

definition create_private2_read :: "node_id \<Rightarrow> node_id \<Rightarrow> u8 \<Rightarrow> bool \<Rightarrow> bool \<Rightarrow> bool \<times> io_frame" where
  "create_private2_read own target modifier long_form low_power =
     (let f = addressed_2w True False low_power own target
      in if long_form
         then set_cmd f CMD_PRIVATE2
                [POS_UNKNOWN, 0x00, PRIVATE2_EXTENDED_BLOCK_FLAG, POS_FAVORITE, modifier, 0x00]
         else set_cmd f CMD_PRIVATE2 [POS_FAVORITE, modifier, 0x00, 0x00])"

section \<open>Discovery and pairing\<close>

definition create_discover :: "node_id \<Rightarrow> bool \<times> io_frame" where
  "create_discover own = set_cmd (addressed_2w True True False own BROADCAST_DISCOVER) CMD_DISCOVER_REQ []"

definition create_discovery_request ::
  "node_id \<Rightarrow> u8 \<Rightarrow> node_id \<Rightarrow> bool \<Rightarrow> bool \<Rightarrow> u8 \<Rightarrow> bytes option \<Rightarrow> bytes \<Rightarrow> bool \<times> io_frame" where
  "create_discovery_request own command target low_power payload_enabled payload_byte system_key nonce =
     (let f = addressed_2w True True low_power own target
      in if command = CMD_DISCOVER_REQ then set_cmd f CMD_DISCOVER_REQ []
         else if command = CMD_DISCOVER_SPE_REQ
         then (case system_key of
                 None \<Rightarrow> (False, f)
               | Some key \<Rightarrow> set_cmd f CMD_DISCOVER_SPE_REQ (nonce @ create_hmac [command] nonce key))
         else if command = CMD_DISCOVER_ALT_REQ
         then set_cmd f CMD_DISCOVER_ALT_REQ (if payload_enabled then [payload_byte] else [])
         else (False, f))"

definition create_discover_resp ::
  "node_id \<Rightarrow> node_id \<Rightarrow> device_type \<Rightarrow> u8 \<Rightarrow> u8 \<Rightarrow> bool \<times> io_frame" where
  "create_discover_resp own target type subtype manufacturer_id =
     (let f = addressed_2w True True False own target;
          (msb, sub) = encode_packed_device_type type subtype
      in set_cmd f CMD_DISCOVER_RESP
           ([msb, sub] @ own @ [manufacturer_id, KEY_EXTRACTION_DISCOVER_RESP_FLAGS,
             hi8 KEY_EXTRACTION_DISCOVER_RESP_TIMESTAMP, lo8 KEY_EXTRACTION_DISCOVER_RESP_TIMESTAMP]))"

definition create_device_terminal_ack :: "node_id \<Rightarrow> node_id \<Rightarrow> u8 \<Rightarrow> bool \<times> io_frame" where
  "create_device_terminal_ack own target c = set_cmd (addressed_2w False True False own target) c []"

definition create_key_confirm :: "node_id \<Rightarrow> node_id \<Rightarrow> bool \<times> io_frame" where
  "create_key_confirm own target = create_device_terminal_ack own target CMD_KEY_CONFIRM"

definition create_discover_confirm_ack :: "node_id \<Rightarrow> node_id \<Rightarrow> bool \<times> io_frame" where
  "create_discover_confirm_ack own target = create_device_terminal_ack own target CMD_DISCOVER_CONFIRM_ACK"

definition recover_system_key_from_transfer :: "bytes \<Rightarrow> bytes \<Rightarrow> bytes" where
  "recover_system_key_from_transfer transfer_payload challenge =
     crypt_key [CMD_KEY_INIT] challenge transfer_payload"

definition create_key_init :: "node_id \<Rightarrow> node_id \<Rightarrow> bool \<times> io_frame" where
  "create_key_init own target = set_cmd (addressed_2w True False True own target) CMD_KEY_INIT []"

definition create_key_transfer ::
  "io_frame \<Rightarrow> node_id \<Rightarrow> node_id \<Rightarrow> bytes \<Rightarrow> bytes \<Rightarrow> bool \<times> io_frame" where
  "create_key_transfer old_frame target source key challenge =
     set_cmd (addressed_2w False False True source target) CMD_KEY_TRANSFER
       (crypt_key [cmd old_frame] challenge key)"

definition create_challenge_req_framed ::
  "node_id \<Rightarrow> node_id \<Rightarrow> bytes \<Rightarrow> bool \<Rightarrow> bool \<Rightarrow> bool \<times> io_frame" where
  "create_challenge_req_framed target source challenge start_flag low_power =
     set_cmd (addressed_2w start_flag False low_power source target) CMD_CHALLENGE_REQ challenge"

definition create_challenge_req :: "node_id \<Rightarrow> node_id \<Rightarrow> bytes \<Rightarrow> bool \<times> io_frame" where
  "create_challenge_req target source challenge = create_challenge_req_framed target source challenge False False"

definition create_challenge_req_device_role :: "node_id \<Rightarrow> node_id \<Rightarrow> bytes \<Rightarrow> bool \<times> io_frame" where
  "create_challenge_req_device_role target source challenge =
     create_challenge_req_framed target source challenge False False"

definition create_challenge_resp_framed ::
  "node_id \<Rightarrow> node_id \<Rightarrow> bytes \<Rightarrow> io_frame \<Rightarrow> bytes \<Rightarrow> bool \<Rightarrow> bool \<Rightarrow> bool \<times> io_frame" where
  "create_challenge_resp_framed target source challenge origin key end_flag low_power =
     set_cmd (addressed_2w False end_flag low_power source target) CMD_CHALLENGE_RESP
       (create_hmac (cmd origin # payload origin) challenge key)"

definition create_challenge_resp ::
  "node_id \<Rightarrow> node_id \<Rightarrow> bytes \<Rightarrow> io_frame \<Rightarrow> bytes \<Rightarrow> bool \<times> io_frame" where
  "create_challenge_resp target source challenge origin key =
     create_challenge_resp_framed target source challenge origin key False True"

definition create_address_resp_device_role :: "node_id \<Rightarrow> node_id \<Rightarrow> bool \<times> io_frame" where
  "create_address_resp_device_role own target =
     set_cmd (addressed_2w False False False own target) CMD_ADDRESS_RESP own"

definition create_challenge_resp_device_role ::
  "node_id \<Rightarrow> node_id \<Rightarrow> bytes \<Rightarrow> io_frame \<Rightarrow> bytes \<Rightarrow> bool \<times> io_frame" where
  "create_challenge_resp_device_role target source challenge origin key =
     create_challenge_resp_framed target source challenge origin key True False"

definition create_status_update_resp :: "node_id \<Rightarrow> node_id \<Rightarrow> bool \<times> io_frame" where
  "create_status_update_resp own target =
     set_cmd (addressed_2w False True True own target) CMD_STATUS_UPDATE_RESP STATUS_UPDATE_ACK_PAYLOAD"

definition create_set_config1 :: "node_id \<Rightarrow> node_id \<Rightarrow> bool \<times> io_frame" where
  "create_set_config1 own target =
     set_cmd (addressed_2w True False True own target) CMD_SET_CONFIG1 SET_CONFIG1_STATUS_BROADCAST_PAYLOAD"

section \<open>One-way commands\<close>

definition init_1w_broadcast_frame :: "node_id \<Rightarrow> device_type \<Rightarrow> io_frame" where
  "init_1w_broadcast_frame source target_type =
     set_src (set_dst (init_frame False True True False) (encode_broadcast_address target_type)) source"

definition build_1w_execute ::
  "node_id \<Rightarrow> device_type \<Rightarrow> u8 \<Rightarrow> u8 \<Rightarrow> u16 \<Rightarrow> bytes \<Rightarrow> u8 \<Rightarrow> bool \<Rightarrow> bool \<times> io_frame" where
  "build_1w_execute source target_type main0 main1 sequence controller_key acei broadcast_all =
     (let params = [EXECUTE_ORIGINATOR, acei, main0, main1, ONEWAY_EXECUTE_FP1, ONEWAY_EXECUTE_FP2];
          mac_span = CMD_EXECUTE # params;
          sequence_bytes = [hi8 sequence, lo8 sequence];
          mac_bytes = create_1w_hmac mac_span sequence controller_key;
          f = init_1w_broadcast_frame source (if broadcast_all then DT_UNKNOWN else target_type)
      in set_cmd f CMD_EXECUTE (params @ sequence_bytes @ mac_bytes))"

definition create_1w_execute_position ::
  "io_frame \<Rightarrow> node_id \<Rightarrow> device_type \<Rightarrow> u8 \<Rightarrow> u16 \<Rightarrow> bytes \<Rightarrow> u8 \<Rightarrow> bool \<Rightarrow> bool \<times> io_frame" where
  "create_1w_execute_position f source target_type position sequence controller_key acei broadcast_all =
     (if position > POSITION_PERCENT_MAX then (False, f)
      else build_1w_execute source target_type (POSITION_WIRE_SCALE * position) 0x00 sequence
             controller_key acei broadcast_all)"

definition create_1w_execute_command ::
  "io_frame \<Rightarrow> node_id \<Rightarrow> device_type \<Rightarrow> cover_command \<Rightarrow> u16 \<Rightarrow> bytes \<Rightarrow> u8 \<Rightarrow> bool \<Rightarrow> bool \<times> io_frame" where
  "create_1w_execute_command f source target_type c sequence controller_key acei broadcast_all =
     (case cover_command_bytes c of
        None \<Rightarrow> (False, f)
      | Some (main0, main1) \<Rightarrow>
          build_1w_execute source target_type main0 main1 sequence controller_key acei broadcast_all)"

definition create_1w_add_controller ::
  "node_id \<Rightarrow> device_type \<Rightarrow> u8 \<Rightarrow> u16 \<Rightarrow> bytes \<Rightarrow> bool \<Rightarrow> bool \<times> io_frame" where
  "create_1w_add_controller source target_type manufacturer sequence controller_key with_mac =
     (let enc_key = crypt_1w_key source controller_key;
          pl = enc_key @ [manufacturer, ONEWAY_ADD_DATA_VALUE, hi8 sequence, lo8 sequence];
          mac_span = CMD_ONEWAY_ADD_CONTROLLER # enc_key;
          mac_bytes = create_1w_hmac mac_span sequence controller_key;
          f = init_1w_broadcast_frame source target_type
      in case set_cmd f CMD_ONEWAY_ADD_CONTROLLER pl of
           (False, f) \<Rightarrow> (False, f)
         | (True, f) \<Rightarrow> (True, if with_mac then f\<lparr>has_mac := True, mac := mac_bytes\<rparr> else f))"

definition create_1w_remove_controller ::
  "node_id \<Rightarrow> device_type \<Rightarrow> u16 \<Rightarrow> bytes \<Rightarrow> bool \<times> io_frame" where
  "create_1w_remove_controller source target_type sequence controller_key =
     (let mac_span = [CMD_ONEWAY_REMOVE, ONEWAY_REMOVE_DATA_VALUE];
          mac_bytes = create_1w_hmac mac_span sequence controller_key;
          f = init_1w_broadcast_frame source target_type
      in set_cmd f CMD_ONEWAY_REMOVE ([ONEWAY_REMOVE_DATA_VALUE, hi8 sequence, lo8 sequence] @ mac_bytes))"

section \<open>What a builder leaves in the frame\<close>

text \<open>
  A built frame can be sent: it serializes into the wire buffer and the receiver's parser returns
  exactly this frame.
\<close>

definition transmittable :: "bool \<times> io_frame \<Rightarrow> bool" where
  "transmittable r \<longleftrightarrow> fst r \<and> serialize (snd r) FRAME_MAX_WIRE_SIZE \<noteq> [] \<and>
     parse (serialize (snd r) FRAME_MAX_WIRE_SIZE) = Some (snd r)"

lemma transmittableI:
  assumes "fst r" and "frame_ok (snd r)" and "canonical (snd r) = snd r"
  shows "transmittable r"
proof -
  have "length (wire (snd r)) \<le> 40"
    using length_wire [OF assms(2)] frame_length_bounds(2) [of "snd r"] by (auto split: if_splits)
  then have s: "serialize (snd r) 40 = wire (snd r)"
    by (rule serialize_ok [OF assms(2)])
  then show ?thesis
    using assms parse_wire [OF assms(2)] by (simp add: transmittable_def wire_def)
qed

text \<open>A frame straight from \<open>init_frame\<close> and the address setters.\<close>

definition blank :: "io_frame \<Rightarrow> bool" where
  "blank f \<longleftrightarrow> frame_shape f \<and> \<not> has_mac f \<and> data f = replicate FRAME_MAX_DATA_SIZE 0 \<and>
     mac f = replicate HMAC_SIZE 0"

lemma init_frame_arrays [simp]:
  "data (init_frame a b c d) = replicate 23 0" "mac (init_frame a b c d) = replicate 6 0"
  by (simp_all add: init_frame_def empty_frame_def Let_def)

lemma mac_set_addr [simp]: "mac (set_dst f nid) = mac f" "mac (set_src f nid) = mac f"
  by (simp_all add: set_dst_def set_src_def)

lemma blank_2w [wf_rules]: "length own = 3 \<Longrightarrow> length target = 3 \<Longrightarrow> blank (addressed_2w st en lp own target)"
  by (simp add: blank_def addressed_2w_def wf_rules)

lemma length_encode_broadcast [simp]: "length (encode_broadcast_address t) = 3"
  by (simp add: encode_broadcast_address_def Let_def)

lemma blank_1w [wf_rules]: "length source = 3 \<Longrightarrow> blank (init_1w_broadcast_frame source t)"
  by (simp add: blank_def init_1w_broadcast_frame_def wf_rules)

lemma addr_2w [simp]:
  "dst (addressed_2w st en lp own target) = target" "src (addressed_2w st en lp own target) = own"
  "bit (ctrl0 (addressed_2w st en lp own target)) 5 = False"
  by (simp_all add: addressed_2w_def)

lemma addr_1w [simp]:
  "dst (init_1w_broadcast_frame source t) = encode_broadcast_address t"
  "src (init_1w_broadcast_frame source t) = source"
  "bit (ctrl0 (init_1w_broadcast_frame source t)) 5 = True"
  by (simp_all add: init_1w_broadcast_frame_def)

lemma set_cmd_blank:
  assumes "blank f" and "length ps \<le> FRAME_MAX_DATA_SIZE"
  shows "fst (set_cmd f c ps)" and "frame_ok (snd (set_cmd f c ps))"
    and "canonical (snd (set_cmd f c ps)) = snd (set_cmd f c ps)"
    and "payload (snd (set_cmd f c ps)) = ps" and "cmd (snd (set_cmd f c ps)) = c"
    and "dst (snd (set_cmd f c ps)) = dst f" and "src (snd (set_cmd f c ps)) = src f"
    and "\<not> has_mac (snd (set_cmd f c ps))"
    and "data_len (snd (set_cmd f c ps)) = of_nat (length ps)"
    and "data (snd (set_cmd f c ps)) = blit (replicate FRAME_MAX_DATA_SIZE 0) 0 ps"
    and "(ctrl0 (snd (set_cmd f c ps)) AND CTRL0_PROTOCOL_1W = 0) = (\<not> bit (ctrl0 f) 5)"
proof -
  have b: "frame_shape f" "\<not> has_mac f" "data f = replicate 23 0" "mac f = replicate 6 0"
    using assms(1) by (simp_all add: blank_def)
  obtain r g where rg: "set_cmd f c ps = (r, g)" by fastforce
  note ok = set_cmd_ok [OF b(1,2) assms(2) rg]
  have g: "g = f\<lparr>cmd := c, data_len := of_nat (length ps), data := blit (data f) 0 ps,
             ctrl0 := (ctrl0 f AND NOT CTRL0_LENGTH_MASK) OR
                      (of_nat (8 + length ps) AND CTRL0_LENGTH_MASK)\<rparr>"
    using rg assms(2) by (simp add: set_cmd_fits)
  show "fst (set_cmd f c ps)" "frame_ok (snd (set_cmd f c ps))"
    "payload (snd (set_cmd f c ps)) = ps" "cmd (snd (set_cmd f c ps)) = c"
    "dst (snd (set_cmd f c ps)) = dst f" "src (snd (set_cmd f c ps)) = src f"
    "\<not> has_mac (snd (set_cmd f c ps))"
    using ok rg by simp_all
  show "canonical (snd (set_cmd f c ps)) = snd (set_cmd f c ps)"
    unfolding rg snd_conv canonical_def ok(3) using b by (simp add: g)
  show "data_len (snd (set_cmd f c ps)) = of_nat (length ps)"
    "data (snd (set_cmd f c ps)) = blit (replicate 23 0) 0 ps"
    unfolding rg snd_conv by (simp_all add: g b)
  show "(ctrl0 (snd (set_cmd f c ps)) AND CTRL0_PROTOCOL_1W = 0) = (\<not> bit (ctrl0 f) 5)"
    unfolding rg snd_conv by (rule set_cmd_flags(3) [OF rg])
qed

lemma transmittable_set_cmd [wf_rules]:
  "blank f \<Longrightarrow> length ps \<le> 23 \<Longrightarrow> transmittable (set_cmd f c ps)"
  by (rule transmittableI) (simp_all add: set_cmd_blank)

lemmas builder_defs =
  create_execute_position_def create_force_open_def create_private_function_def create_get_status_def
  create_get_name_def create_general_info3_def create_get_info1_def create_get_info2_def
  create_set_name_def create_identify_def create_execute_tilt_def create_execute_position_and_tilt_def
  create_get_status_extended_def create_get_status_tilt_def create_private2_read_def
  create_no_payload_request_def create_discover_def create_discover_resp_def create_device_terminal_ack_def
  create_key_confirm_def create_discover_confirm_ack_def create_key_init_def create_key_transfer_def
  create_challenge_req_framed_def create_challenge_req_def create_challenge_req_device_role_def
  create_challenge_resp_framed_def create_challenge_resp_def create_address_resp_device_role_def
  create_challenge_resp_device_role_def create_status_update_resp_def create_set_config1_def
  make_position_payload_def

text \<open>Reading a payload byte back.\<close>

lemma data_set_cmd:
  assumes "blank f" and "length ps \<le> 23" and "i < length ps"
  shows "data (snd (set_cmd f c ps)) ! i = ps ! i"
  using assms by (simp add: set_cmd_blank(10) blit_def nth_append)

lemma take_data_set_cmd:
  assumes "blank f" and "length ps \<le> 23" and "n \<le> length ps"
  shows "take n (data (snd (set_cmd f c ps))) = take n ps"
  using assms by (simp add: set_cmd_blank(10) blit_def)

text \<open>The add-controller frame: a built frame with the authenticator attached outside its length.\<close>

lemma add_controller_frame:
  assumes "length source = 3" and "length key = 16"
    and "create_1w_add_controller source type manufacturer sequence key with_mac = (ok, f)"
  shows "ok" and "frame_ok f" and "canonical f = f" and "cmd f = CMD_ONEWAY_ADD_CONTROLLER"
    and "data_len f = 20" and "src f = source" and "\<not> (ctrl0 f AND CTRL0_PROTOCOL_1W = 0)"
    and "data f = blit (replicate 23 0) 0 (crypt_1w_key source key @ [manufacturer, 1, hi8 sequence, lo8 sequence])"
    and "has_mac f = with_mac"
    and "with_mac \<Longrightarrow> mac f = create_1w_hmac (CMD_ONEWAY_ADD_CONTROLLER # crypt_1w_key source key) sequence key"
proof -
  let ?g = "init_1w_broadcast_frame source type"
  let ?p = "crypt_1w_key source key @ [manufacturer, 1, hi8 sequence, lo8 sequence]"
  let ?h = "create_1w_hmac (CMD_ONEWAY_ADD_CONTROLLER # crypt_1w_key source key) sequence key"
  have b: "blank ?g" and l: "length ?p \<le> 23" using assms by (simp_all add: wf_rules)
  note sc = set_cmd_blank [OF b l, of CMD_ONEWAY_ADD_CONTROLLER]
  define s where "s = snd (set_cmd ?g CMD_ONEWAY_ADD_CONTROLLER ?p)"
  have r: "set_cmd ?g CMD_ONEWAY_ADD_CONTROLLER ?p = (True, s)"
    using sc(1) by (simp add: s_def prod_eq_iff)
  note sc = sc [folded s_def]
  have f: "ok = True" "f = (if with_mac then s\<lparr>has_mac := True, mac := ?h\<rparr> else s)"
    using assms(3) r by (simp_all add: create_1w_add_controller_def Let_def)
  then show "ok" by simp
  show "cmd f = CMD_ONEWAY_ADD_CONTROLLER" "src f = source" "has_mac f = with_mac"
    "data f = blit (replicate 23 0) 0 ?p" "\<not> (ctrl0 f AND CTRL0_PROTOCOL_1W = 0)"
    "with_mac \<Longrightarrow> mac f = ?h"
    using f sc by simp_all
  show "data_len f = 20" using f sc(9) assms(2) by simp
  show "frame_ok f"
    using f(2) sc(2,5,8) assms(2)
    by (simp add: frame_ok_def frame_shape_def frame_length_def frame_carries_mac_trailer_def)
  show "canonical f = f"
  proof (cases with_mac)
    case True
    have "data s = blit (replicate 23 0) 0 (payload s)"
      using arg_cong [OF sc(3), of data] by (simp add: canonical_def)
    with True f(2) show ?thesis by (simp add: canonical_def payload_def)
  qed (use f(2) sc(3) in simp)
qed

lemma add_controller_transmittable:
  "length source = 3 \<Longrightarrow> length key = 16 \<Longrightarrow>
   transmittable (create_1w_add_controller source type manufacturer sequence key with_mac)"
  by (rule transmittableI)
    (use add_controller_frame [of source key type manufacturer sequence with_mac, OF _ _ prod.collapse [symmetric]]
      in simp_all)

section \<open>Wire values\<close>

lemma tilt_wire_value_alt: "unat t \<le> 100 \<Longrightarrow> unat (tilt_wire_value t) = 512 * (100 - unat t)"
proof -
  assume t: "unat t \<le> 100"
  have "(100 - int (unat t)) * 51200 sdiv 100 = 512 * (100 - int (unat t))"
    using t by (simp add: signed_divide_int_def sgn_if abs_mult)
  then have "tilt_wire_value t = word_of_int (int (512 * (100 - unat t)))"
    using t by (simp add: tilt_wire_value_def of_nat_diff del: of_nat_unat)
  then have v: "tilt_wire_value t = word_of_nat (512 * (100 - unat t))"
    by (simp only: of_int_of_nat_eq)
  show ?thesis unfolding v unat_of_nat by (rule mod_less) simp
qed

lemma decode_tilt_wire_value: "unat t \<le> 100 \<Longrightarrow> decode_tilt_report (tilt_wire_value t) = of_nat (unat t)"
proof -
  assume t: "unat t \<le> 100"
  have v: "unat (tilt_wire_value t) = 512 * (100 - unat t)" by (rule tilt_wire_value_alt [OF t])
  then have "\<not> tilt_wire_value t > 0xC800" by (simp add: word_less_nat_alt)
  then show ?thesis
    using t by (simp add: decode_tilt_report_def raw_percent_alt v of_nat_diff field_simps del: of_nat_unat)
qed

section \<open>Properties\<close>

text \<open>The one-way builders.\<close>

lemma oneway_transmittable:
  assumes "length source = NODE_ID_SIZE" and "length key = AES_KEY_SIZE"
  shows "position \<le> POSITION_PERCENT_MAX \<Longrightarrow>
      transmittable (create_1w_execute_position f source type position sequence key acei broadcast_all)"
    and "cover_command_bytes c \<noteq> None \<Longrightarrow>
      transmittable (create_1w_execute_command f source type c sequence key acei broadcast_all)"
    and "transmittable (create_1w_remove_controller source type sequence key)"
  using assms by (auto simp: create_1w_execute_position_def create_1w_execute_command_def
      create_1w_remove_controller_def build_1w_execute_def Let_def wf_rules not_less [symmetric])



text \<open>C10. Authentication works end to end: the answer to a challenge verifies over the command and
  payload of the original request under a key exactly when that key gives the same authenticator as
  the answering side's, in particular under the shared key.\<close>

theorem challenge_response_verifies:
  assumes "length own = NODE_ID_SIZE" and "length target = NODE_ID_SIZE"
    and "length key = AES_KEY_SIZE" and "length key' = AES_KEY_SIZE"
    and "create_challenge_resp target own challenge origin key = (ok, resp)"
  shows "ok \<and> cmd resp = CMD_CHALLENGE_RESP \<and> src resp = own \<and> dst resp = target \<and>
    verify_hmac (cmd origin # payload origin) (payload resp) challenge key \<and>
    (verify_hmac (cmd origin # payload origin) (payload resp) challenge key' \<longleftrightarrow>
      create_hmac (cmd origin # payload origin) challenge key =
      create_hmac (cmd origin # payload origin) challenge key')"
proof -
  let ?f = "addressed_2w False False True own target"
  let ?h = "create_hmac (cmd origin # payload origin) challenge key"
  have r: "(ok, resp) = set_cmd ?f CMD_CHALLENGE_RESP ?h"
    using assms(5) by (simp add: create_challenge_resp_def create_challenge_resp_framed_def)
  have b: "blank ?f" and l: "length ?h \<le> 23" using assms by (simp_all add: wf_rules)
  from set_cmd_blank [OF b l, of CMD_CHALLENGE_RESP] show ?thesis
    using assms(3,4) unfolding r [symmetric] by (simp add: verify_hmac_def constant_time_equal_iff)
qed

theorem challenge_response_verifies_witness:
  "verify_hmac (cmd empty_frame # payload empty_frame)
     (payload (snd (create_challenge_resp [1, 2, 3] [4, 5, 6] (replicate 6 9) empty_frame (replicate 16 1))))
     (replicate 6 9) (replicate 16 1)"
  using challenge_response_verifies [of "[4, 5, 6]" "[1, 2, 3]" "replicate 16 1" "replicate 16 1"
      "replicate 6 9" empty_frame] by (metis length_replicate length_Cons list.size(3) prod.collapse numeral_3_eq_3)

lemma key_transfer_frame:
  assumes "length own = NODE_ID_SIZE" and "length target = NODE_ID_SIZE"
    and "length key = AES_KEY_SIZE" and "length challenge = HMAC_SIZE"
    and "cmd old_frame = CMD_KEY_INIT" and "create_key_transfer old_frame target own key challenge = (ok, f)"
  shows "ok" and "cmd f = CMD_KEY_TRANSFER" and "src f = own" and "dst f = target" and "data_len f = 16"
    and "payload f = take AES_KEY_SIZE (data f)"
    and "recover_system_key_from_transfer (take AES_KEY_SIZE (data f)) challenge = key"
proof -
  let ?g = "addressed_2w False False True own target"
  let ?p = "crypt_key [CMD_KEY_INIT] challenge key"
  have r: "(ok, f) = set_cmd ?g CMD_KEY_TRANSFER ?p"
    using assms(5,6) by (simp add: create_key_transfer_def)
  have b: "blank ?g" and l: "length ?p \<le> 23" and n: "length ?p = 16" using assms by (simp_all add: wf_rules)
  note sc = set_cmd_blank [OF b l, of CMD_KEY_TRANSFER, folded r, unfolded fst_conv snd_conv]
  have d: "take AES_KEY_SIZE (data f) = ?p" using n by (simp add: sc(10) blit_def)
  show "ok" "cmd f = CMD_KEY_TRANSFER" "src f = own" "dst f = target" "data_len f = 16"
    using sc(1,5,6,7,9) n by simp_all
  show "payload f = take AES_KEY_SIZE (data f)" using sc(4) d by simp
  show "recover_system_key_from_transfer (take AES_KEY_SIZE (data f)) challenge = key"
    unfolding d using assms(3,4) by (simp add: recover_system_key_from_transfer_def)
qed

text \<open>The system key sent in a key transfer that answers a key-init frame is the key that the
  receiving side recovers from its payload with the same challenge.\<close>

theorem key_transfer_roundtrip:
  assumes "length own = NODE_ID_SIZE" and "length target = NODE_ID_SIZE"
    and "length key = AES_KEY_SIZE" and "length challenge = HMAC_SIZE"
    and "cmd old_frame = CMD_KEY_INIT" and "create_key_transfer old_frame target own key challenge = (ok, f)"
  shows "ok \<and> cmd f = CMD_KEY_TRANSFER \<and> recover_system_key_from_transfer (payload f) challenge = key"
  using key_transfer_frame [OF assms] by simp

theorem key_transfer_roundtrip_witness:
  "recover_system_key_from_transfer
     (payload (snd (create_key_transfer (empty_frame\<lparr>cmd := 0x31\<rparr>) [1, 2, 3] [4, 5, 6] (replicate 16 7) (replicate 6 9))))
     (replicate 6 9) = replicate 16 7"
  using key_transfer_roundtrip [of "[4, 5, 6]" "[1, 2, 3]" "replicate 16 7" "replicate 6 9" "empty_frame\<lparr>cmd := 0x31\<rparr>"]
  by (cases "create_key_transfer (empty_frame\<lparr>cmd := 0x31\<rparr>) [1, 2, 3] [4, 5, 6] (replicate 16 7) (replicate 6 9)") simp

lemma add_controller_recovered:
  assumes "length source = NODE_ID_SIZE" and "length key = AES_KEY_SIZE"
    and "create_1w_add_controller source type manufacturer sequence key with_mac = (ok, f)"
  shows "ok \<and> parse (serialize f FRAME_MAX_WIRE_SIZE) = Some f \<and>
    decode_1w_add_controller f = Inr \<lparr>oak_system_key = key, oak_manufacturer = manufacturer,
      oak_sender_node = source, oak_sequence = sequence,
      oak_mac_status = (if with_mac then MAC_VERIFIED else MAC_NOT_PRESENT)\<rparr>"
proof -
  note fr = add_controller_frame [OF assms(1) [simplified] assms(2) [simplified] assms(3)]
  have len: "length (crypt_1w_key source key) = 16" using assms(2) by simp
  have k: "take 16 (data f) = crypt_1w_key source key"
    unfolding fr(8) using len by (simp add: blit_def)
  have d: "data f ! 16 = manufacturer" "be16 (data f ! 18) (data f ! 19) = sequence"
    unfolding fr(8) using len by (simp_all add: blit_def nth_append)
  have "transmittable (ok, f)"
    using add_controller_transmittable [of source key type manufacturer sequence with_mac] assms by simp
  then have "ok \<and> parse (serialize f 40) = Some f" by (simp add: transmittable_def)
  moreover have "constant_time_equal h h" for h :: bytes
    by (simp only: constant_time_equal_def foldl_or_zero word_xor_eq_zero_iff) simp
  ultimately show ?thesis
    using fr(4-7,9,10) k d assms(2) by (simp add: decode_1w_add_controller_def Let_def)
qed

text \<open>C34. A receiver that overhears an add-controller frame as built here recovers the controller key,
  the manufacturer, the sender and the sequence number, and its authenticator verifies when one was
  attached; the reader without an authenticator reports it absent.\<close>

theorem add_controller_roundtrip:
  assumes "length source = NODE_ID_SIZE" and "length key = AES_KEY_SIZE"
    and "create_1w_add_controller source type manufacturer sequence key with_mac = (ok, f)"
  shows "ok \<and> parse (serialize f FRAME_MAX_WIRE_SIZE) = Some f \<and>
    decode_1w_add_controller f = Inr \<lparr>oak_system_key = key, oak_manufacturer = manufacturer,
      oak_sender_node = source, oak_sequence = sequence,
      oak_mac_status = (if with_mac then MAC_VERIFIED else MAC_NOT_PRESENT)\<rparr>"
  by (rule add_controller_recovered [OF assms])

theorem add_controller_roundtrip_witness:
  "map_option decode_1w_add_controller
     (parse (serialize (snd (create_1w_add_controller [1, 2, 3] DT_AWNING 2 7 (replicate 16 5) True)) 40)) =
   Some (Inr \<lparr>oak_system_key = replicate 16 5, oak_manufacturer = 2, oak_sender_node = [1, 2, 3],
     oak_sequence = 7, oak_mac_status = MAC_VERIFIED\<rparr>)"
proof -
  obtain ok f where r: "create_1w_add_controller [1, 2, 3] DT_AWNING 2 7 (replicate 16 5) True = (ok, f)"
    by fastforce
  show ?thesis using add_controller_roundtrip [OF _ _ r] unfolding r by simp
qed


lemma oneway_position_decodes:
  assumes "length source = NODE_ID_SIZE" and "length key = AES_KEY_SIZE" and "position \<le> POSITION_PERCENT_MAX"
    and "device_type_ok type"
    and "create_1w_execute_position g source type position sequence key acei False = (ok, f)"
  shows "ok \<and> ofi_has_intent (decode_1w_frame f) \<and> ofi_src (decode_1w_frame f) = source \<and>
    ofi_address_class (decode_1w_frame f) = (if type = DT_UNKNOWN then BROADCAST_ALL else BROADCAST_TYPE) \<and>
    oneway_intent_to_target (ofi_main0 (decode_1w_frame f)) (ofi_main1 (decode_1w_frame f)) =
      (if position = 50 then None else Some (of_nat (unat position))) \<and>
    drop 8 (payload f) = create_1w_hmac (cmd f # take 6 (payload f)) sequence key"
proof -
  let ?g = "init_1w_broadcast_frame source type"
  let ?m = "create_1w_hmac [0, 1, acei, 2 * position, 0, 0, 0] sequence key"
  let ?p = "[1, acei, 2 * position, 0, 0, 0, hi8 sequence, lo8 sequence] @ ?m"
  have b: "blank ?g" and l: "length ?p \<le> 23" using assms(1,2) by (simp_all add: wf_rules)
  have r: "(ok, f) = set_cmd ?g CMD_EXECUTE ?p"
    using assms(3,5) by (simp add: create_1w_execute_position_def build_1w_execute_def Let_def not_less [symmetric])
  note sc = set_cmd_blank [OF b l, of CMD_EXECUTE, folded r, unfolded fst_conv snd_conv]
  have d: "data f ! 2 = 2 * position" "data f ! 3 = 0" using sc(10) by (simp_all add: blit_def)
  have len: "data_len f = 14" using sc(9) assms(2) by simp
  have pos: "unat position \<le> 100" using assms(3) by (simp add: word_le_nat_alt)
  then have twice: "unat (2 * position) = 2 * unat position" by (simp add: unat_word_ariths)
  have half: "unat ((2 * position) div 2) = unat position" by (simp add: unat_div twice)
  have eqs: "(2 * position = w) = (2 * unat position = unat w)" for w
    by (simp add: word_unat_eq_iff twice)
  have fifty: "(2 * position = 100) = (position = 50)"
    unfolding eqs by (auto simp: word_unat_eq_iff)
  have "oneway_intent_to_target (2 * position) 0 = (if position = 50 then None else Some (of_nat (unat position)))"
    using pos half unfolding oneway_intent_to_target_def fifty
    by (simp add: eqs word_le_nat_alt twice del: of_nat_unat)
  moreover have "drop 8 (payload f) = ?m" "cmd f # take 6 (payload f) = [0, 1, acei, 2 * position, 0, 0, 0]"
    using sc(4,5) by simp_all
  ultimately show ?thesis
    using sc(1,5,6,7) d len assms(4) broadcast_address_class [of type]
    by (simp add: decode_1w_frame_def Let_def del: of_nat_unat)
qed

text \<open>A one-way position command is decoded by a listener as the position it was built for and
  resolves to that target, with one exception that the wire format forces: 50 percent shares its byte
  with the force-open code. Its authenticator is the one over the command and parameter bytes that
  are on the air.\<close>

theorem oneway_position_command_decodes:
  assumes "length source = NODE_ID_SIZE" and "length key = AES_KEY_SIZE" and "position \<le> POSITION_PERCENT_MAX"
    and "device_type_ok type"
    and "create_1w_execute_position g source type position sequence key acei False = (ok, f)"
  shows "ok \<and> ofi_has_intent (decode_1w_frame f) \<and> ofi_src (decode_1w_frame f) = source \<and>
    ofi_address_class (decode_1w_frame f) = (if type = DT_UNKNOWN then BROADCAST_ALL else BROADCAST_TYPE) \<and>
    oneway_intent_to_target (ofi_main0 (decode_1w_frame f)) (ofi_main1 (decode_1w_frame f)) =
      (if position = 50 then None else Some (of_nat (unat position))) \<and>
    drop 8 (payload f) = create_1w_hmac (cmd f # take 6 (payload f)) sequence key"
  using oneway_position_decodes [OF assms] .

theorem oneway_position_command_decodes_witness:
  "ofi_address_class (decode_1w_frame (snd (create_1w_execute_position empty_frame [1, 2, 3] DT_AWNING 100 7
     (replicate 16 5) 0x43 False))) = BROADCAST_TYPE"
proof -
  obtain ok f where r: "create_1w_execute_position empty_frame [1, 2, 3] DT_AWNING 100 7 (replicate 16 5) 0x43 False = (ok, f)"
    by fastforce
  show ?thesis using oneway_position_command_decodes [OF _ _ _ _ r] unfolding r by (simp add: device_type_ok_def)
qed

text \<open>A discovery response built for the device role decodes at the controller to the same device
  type, subtype and manufacturer, with the sender's address and the extended fields present.\<close>

theorem discovery_response_roundtrip:
  assumes "length own = NODE_ID_SIZE" and "length target = NODE_ID_SIZE" and "device_type_ok type"
    and "create_discover_resp own target type subtype m = (ok, f)"
    and "decode_discovery_response f device = (info, device', device_id)"
  shows "ok \<and> dev_type device' = type \<and> dev_subtype device' = subtype AND DEVICE_SUBTYPE_MASK \<and>
    dev_node_id device' = own \<and> device_id = node_id_to_string own \<and>
    dri_metadata_complete info \<and> dri_has_extended info \<and> dri_manufacturer info = m \<and> dri_backbone info = own"
proof -
  let ?g = "addressed_2w True True False own target"
  obtain msb sub where enc: "encode_packed_device_type type subtype = (msb, sub)" by fastforce
  obtain x y z where own: "own = [x, y, z]" using assms(1) by (auto elim: length_3E)
  let ?p = "[msb, sub, x, y, z, m, 0xDD, 0, 0x0E]"
  have b: "blank ?g" using assms(1,2) by (simp add: wf_rules)
  have r: "(ok, f) = set_cmd ?g CMD_DISCOVER_RESP ?p"
    using assms(4) by (simp add: create_discover_resp_def enc own hi8_def lo8_def)
  note sc = set_cmd_blank [OF b, of ?p CMD_DISCOVER_RESP, folded r, unfolded fst_conv snd_conv, simplified]
  have d: "data f ! 0 = msb" "data f ! Suc 0 = sub" "data f ! 5 = m" "sub_bytes 2 3 (data f) = own"
    using sc(10) by (simp_all add: blit_def sub_bytes_def own)
  have "decode_packed_device_type msb sub = type \<and> decode_packed_device_subtype sub = subtype AND 0x3F"
    using enc assms(3) unpack_type [of "device_type_raw type" subtype] unpack_subtype [of "device_type_raw type" subtype]
    by (auto simp: encode_packed_device_type_def decode_packed_device_type_def
        decode_packed_device_subtype_def Let_def)
  then show ?thesis
    using sc d assms(5) by (auto simp: decode_discovery_response_def Let_def)
qed

theorem discovery_response_roundtrip_witness:
  "\<exists>ok f info device' device_id. create_discover_resp [1, 2, 3] [4, 5, 6] DT_LOCK 5 2 = (ok, f) \<and>
     decode_discovery_response f new_device = (info, device', device_id) \<and> dev_type device' = DT_LOCK"
proof -
  obtain ok f where r: "create_discover_resp [1, 2, 3] [4, 5, 6] DT_LOCK 5 2 = (ok, f)" by fastforce
  obtain info device' device_id where d: "decode_discovery_response f new_device = (info, device', device_id)"
    by (metis prod_cases3)
  have "dev_type device' = DT_LOCK"
    using discovery_response_roundtrip [OF _ _ _ r d] by (simp add: device_type_ok_def)
  with r d show ?thesis by blast
qed

text \<open>The tilt angle in a tilt command is the angle a status report with the same wire value
  decodes to, for every percentage up to 100.\<close>

theorem tilt_roundtrip:
  assumes "length own = NODE_ID_SIZE" and "length target = NODE_ID_SIZE" and "unat tilt \<le> 100"
    and "create_execute_tilt own target lp tilt = (ok, f)"
  shows "ok \<and> payload f ! 4 = STATUS_TILT_SELECTOR \<and>
    decode_tilt_report (be16 (payload f ! 5) (payload f ! 6)) = of_nat (unat tilt)"
proof -
  let ?g = "addressed_2w True False lp own target"
  let ?v = "tilt_wire_value tilt"
  let ?p = "[EXECUTE_ORIGINATOR, EXECUTE_ACEI, POS_UNKNOWN, 0x00, STATUS_TILT_SELECTOR, hi8 ?v, lo8 ?v, 0x00]"
  have b: "blank ?g" using assms(1,2) by (simp add: wf_rules)
  have r: "(ok, f) = set_cmd ?g CMD_EXECUTE ?p"
    using assms(4) by (simp add: create_execute_tilt_def Let_def)
  have l: "length ?p \<le> 23" by simp
  note sc = set_cmd_blank [OF b l, of CMD_EXECUTE, folded r, unfolded fst_conv snd_conv]
  show ?thesis
    using sc(1,4) decode_tilt_wire_value [OF assms(3)] by (simp del: of_nat_unat)
qed

theorem tilt_roundtrip_witness:
  "decode_tilt_report (be16 (payload (snd (create_execute_tilt [1, 2, 3] [4, 5, 6] False 25)) ! 5)
     (payload (snd (create_execute_tilt [1, 2, 3] [4, 5, 6] False 25)) ! 6)) = 25"
proof -
  obtain ok f where r: "create_execute_tilt [1, 2, 3] [4, 5, 6] False 25 = (ok, f)" by fastforce
  show ?thesis using tilt_roundtrip [OF _ _ _ r] unfolding r by simp
qed

end
