(* ===== verification/Soft_Phy.thy ===== *)
theory Soft_Phy
  imports Commands
begin

text \<open>
  The software physical layer (\<open>radio_soft_phy.h\<close>, \<open>radio_soft_phy.cpp\<close>): the UART cells that the
  chips without a line coder send and receive as raw bits, the search for a CRC-valid frame in a
  demodulated bit stream of unknown alignment, and the helpers that size a reception.

  A byte buffer with its length is a list. The bit reader and the bit writer address the buffer by
  position, as the code does; nothing here assumes that a frame starts on a byte boundary.
\<close>

section \<open>Receiving\<close>

definition get_bit_msb :: "bytes \<Rightarrow> nat \<Rightarrow> bool" where
  "get_bit_msb raw bit_pos = bit (raw ! (bit_pos div 8)) (7 - bit_pos mod 8)"

definition uart_cell_value :: "bytes \<Rightarrow> nat \<Rightarrow> u8" where
  "uart_cell_value raw bit_pos =
     foldl (\<lambda>value index. value OR push_bit index (of_bool (get_bit_msb raw (bit_pos + 1 + index)))) 0 [0..<8]"

function decode_uart_loop :: "bytes \<Rightarrow> nat \<Rightarrow> nat \<Rightarrow> bytes \<Rightarrow> bytes" where
  "decode_uart_loop raw bit_pos decoded_max_len decoded =
     (if bit_pos + 10 \<le> 8 * length raw \<and> length decoded < decoded_max_len
      then if get_bit_msb raw bit_pos \<or> \<not> get_bit_msb raw (bit_pos + 9) then decoded
           else decode_uart_loop raw (bit_pos + 10) decoded_max_len (decoded @ [uart_cell_value raw bit_pos])
      else decoded)"
  by pat_completeness auto
termination
  by (relation "measure (\<lambda>(raw, pos, m, d). m - length d)") auto

declare decode_uart_loop.simps [simp del]

definition decode_uart_probe :: "bytes \<Rightarrow> nat \<Rightarrow> nat \<Rightarrow> bytes" where
  "decode_uart_probe raw bit_offset decoded_max_len = decode_uart_loop raw bit_offset decoded_max_len []"

definition is_known_io_command :: "u8 \<Rightarrow> bool" where
  "is_known_io_command c =
     (c \<in> {CMD_EXECUTE, CMD_PRIVATE, CMD_PRIVATE_RESP, CMD_PRIVATE2, CMD_PRIVATE2_RESP, CMD_IDENTIFY,
       CMD_WRITE_PRIVATE, CMD_WRITE_PRIVATE_ACK, CMD_DISCOVER_REQ, CMD_DISCOVER_RESP,
       CMD_DISCOVER_SPE_REQ, CMD_DISCOVER_SPE_RESP, CMD_DISCOVER_CONFIRM, CMD_DISCOVER_CONFIRM_ACK,
       CMD_KEY_INIT, CMD_KEY_TRANSFER, CMD_KEY_CONFIRM, CMD_ADDRESS_REQ, CMD_CHALLENGE_REQ,
       CMD_CHALLENGE_RESP, CMD_UNKNOWN4A_RESP, CMD_GET_NAME, CMD_GET_NAME_RESP, CMD_SET_NAME,
       CMD_SET_NAME_RESP, CMD_GET_INFO1, CMD_GET_INFO1_RESP, CMD_GET_INFO2, CMD_GET_INFO2_RESP,
       CMD_GET_GENERAL_INFO3, CMD_GET_GENERAL_INFO3_RESP, CMD_SET_CONFIG1, CMD_SET_CONFIG1_RESP,
       CMD_STATUS_UPDATE, CMD_STATUS_UPDATE_RESP, CMD_ERROR_RESP})"

definition is_plausible_uart_frame :: "io_frame \<Rightarrow> nat \<Rightarrow> bool" where
  "is_plausible_uart_frame frame candidate_len =
     (if candidate_len < FRAME_MIN_SIZE then False
      else if is_known_io_command (cmd frame) then True
      else ctrl0 frame AND CTRL0_PROTOCOL_1W \<noteq> 0)"

text \<open>The body of the double loop: whether the candidate at \<open>start\<close> is returned.\<close>

definition crc_candidate :: "bytes \<Rightarrow> nat \<Rightarrow> nat \<Rightarrow> bool" where
  "crc_candidate decoded start candidate_len =
     (case parse (sub_bytes start candidate_len decoded) of
        None \<Rightarrow> False
      | Some frame \<Rightarrow>
          is_plausible_uart_frame frame candidate_len \<and>
          start + candidate_len + 2 \<le> length decoded \<and>
          crc_ccitt (sub_bytes start candidate_len decoded) =
            be16 (decoded ! (start + candidate_len + 1)) (decoded ! (start + candidate_len)))"

definition find_crc_valid_frame :: "bytes \<Rightarrow> nat \<times> nat" where
  "find_crc_valid_frame decoded =
     (let candidates = concat (map (\<lambda>start.
            map (Pair start) (rev [FRAME_MIN_SIZE..<min (length decoded - start) FRAME_MAX_WIRE_SIZE + 1]))
            [0..<length decoded])
      in case find (\<lambda>(start, candidate_len). crc_candidate decoded start candidate_len) candidates of
           None \<Rightarrow> (0, 0)
         | Some p \<Rightarrow> p)"

record uart_probe_result =
  upr_valid :: bool
  upr_bit_offset :: nat
  upr_frame_start :: nat
  upr_frame_len :: nat
  upr_decoded :: bytes

abbreviation (input) UART_PROBE_MAX_BIT_OFFSET :: nat where "UART_PROBE_MAX_BIT_OFFSET \<equiv> 10"
abbreviation (input) RADIO_PACKET_BUFFER_SIZE :: nat where "RADIO_PACKET_BUFFER_SIZE \<equiv> 64"
abbreviation (input) UART_CELL_BITS :: nat where "UART_CELL_BITS \<equiv> 10"

fun uart_probe_loop :: "bytes \<Rightarrow> nat list \<Rightarrow> uart_probe_result \<Rightarrow> uart_probe_result" where
  "uart_probe_loop raw [] best = best"
| "uart_probe_loop raw (bit_offset # offsets) best =
     (let decoded = decode_uart_probe raw bit_offset RADIO_PACKET_BUFFER_SIZE
      in if decoded = [] then uart_probe_loop raw offsets best
         else let best = (if length decoded > length (upr_decoded best) \<and> \<not> upr_valid best
                          then best\<lparr>upr_bit_offset := bit_offset, upr_decoded := decoded\<rparr> else best);
                  (frame_start, frame_len) = find_crc_valid_frame decoded
              in if frame_len > 0
                 then \<lparr>upr_valid = True, upr_bit_offset = bit_offset, upr_frame_start = frame_start,
                       upr_frame_len = frame_len, upr_decoded = decoded\<rparr>
                 else uart_probe_loop raw offsets best)"

definition find_uart_probe :: "bytes \<Rightarrow> uart_probe_result" where
  "find_uart_probe raw =
     uart_probe_loop raw [0..<UART_PROBE_MAX_BIT_OFFSET]
       \<lparr>upr_valid = False, upr_bit_offset = 0, upr_frame_start = 0, upr_frame_len = 0, upr_decoded = []\<rparr>"

section \<open>Sizing a reception\<close>

definition soft_phy_raw_bytes_for_frame :: "u8 \<Rightarrow> u8" where
  "soft_phy_raw_bytes_for_frame frame_len =
     (let cells = (ucast frame_len :: u16) + of_nat FRAME_CRC_SIZE;
          bits = cells * of_nat UART_CELL_BITS
      in ucast ((bits + 7) div 8))"

definition soft_phy_peek_frame_length :: "bytes \<Rightarrow> nat" where
  "soft_phy_peek_frame_length raw =
     foldl (\<lambda>best bit_offset.
        case decode_uart_probe raw bit_offset 1 of
          [ctrl0_byte] \<Rightarrow>
            let frame_len = unat ((ctrl0_byte AND CTRL0_LENGTH_MASK) + 1)
            in if frame_len < FRAME_MIN_SIZE \<or> frame_len > FRAME_MAX_SIZE then best else max frame_len best
        | _ \<Rightarrow> best) 0 [0..<UART_PROBE_MAX_BIT_OFFSET]"

section \<open>Sending\<close>

definition write_bit :: "bytes \<Rightarrow> nat \<Rightarrow> bool \<Rightarrow> bytes" where
  "write_bit encoded pos b =
     (if b then encoded[pos div 8 := encoded ! (pos div 8) OR push_bit (7 - pos mod 8) 1] else encoded)"

fun write_bits :: "bytes \<Rightarrow> nat \<Rightarrow> bool list \<Rightarrow> bytes" where
  "write_bits encoded pos [] = encoded"
| "write_bits encoded pos (b # bs) = write_bits (write_bit encoded pos b) (pos + 1) bs"

text \<open>Start bit, eight data bits from the least significant one, stop bit.\<close>

definition uart_cell :: "u8 \<Rightarrow> bool list" where
  "uart_cell value = False # map (bit value) [0..<8] @ [True]"

fun uart_encode_loop :: "bytes \<Rightarrow> nat \<Rightarrow> bytes \<Rightarrow> bytes" where
  "uart_encode_loop encoded bit_pos [] = encoded"
| "uart_encode_loop encoded bit_pos (value # rest) =
     uart_encode_loop (write_bits encoded bit_pos (uart_cell value)) (bit_pos + 10) rest"

definition uart_encode_packet :: "bytes \<Rightarrow> nat \<Rightarrow> bytes" where
  "uart_encode_packet packet encoded_max_len =
     (if packet = [] \<or> encoded_max_len = 0 then []
      else let encoded = replicate encoded_max_len 0;
               total_bits = length packet * 10
           in if (total_bits + 7) div 8 > encoded_max_len then []
              else let encoded = uart_encode_loop encoded 0 packet;
                       encoded_len = (total_bits + 7) div 8;
                       encoded = write_bits encoded total_bits (replicate (encoded_len * 8 - total_bits) True)
                   in take encoded_len encoded)"

text \<open>
  The encoding step of \<open>SoftPhyDriverBase::send_packet\<close>: the frame with its CRC, low byte first, as
  UART cells; the empty list stands for the refusals.
\<close>

definition soft_phy_tx_buffer :: "bytes \<Rightarrow> bytes" where
  "soft_phy_tx_buffer frame_bytes =
     (if length frame_bytes + 2 > FRAME_MAX_WIRE_SIZE then []
      else let crc = crc_ccitt frame_bytes
           in uart_encode_packet (frame_bytes @ [lo8 crc, hi8 crc]) RADIO_PACKET_BUFFER_SIZE)"

section \<open>Bits of a buffer\<close>

lemma length_write_bit [simp]: "length (write_bit e p b) = length e"
  by (simp add: write_bit_def)

lemma get_write_bit:
  assumes "p < 8 * length e" and "q < 8 * length e"
  shows "get_bit_msb (write_bit e p b) q = (if q = p then b \<or> get_bit_msb e p else get_bit_msb e q)"
proof (cases "b \<and> q div 8 = p div 8")
  case True
  have "p div 8 < length e" using assms(1) by (simp add: less_mult_imp_div_less mult.commute)
  moreover have "bit (push_bit (7 - p mod 8) 1 :: u8) (7 - q mod 8) = (q = p)"
  proof -
    have "p mod 8 < 8" "q mod 8 < 8" by simp_all
    moreover have "q = p \<longleftrightarrow> q mod 8 = p mod 8" using True by (metis mult_div_mod_eq)
    ultimately show ?thesis by (simp only: bit_push_bit_iff bit_1_iff) auto
  qed
  ultimately show ?thesis using True by (auto simp: get_bit_msb_def write_bit_def bit_or_iff)
next
  case False
  then show ?thesis by (auto simp: get_bit_msb_def write_bit_def)
qed

lemma length_write_bits [simp]: "length (write_bits e p bs) = length e"
  by (induction e p bs rule: write_bits.induct) simp_all

text \<open>Written positions hold what was written, if they were clear; the others are unchanged.\<close>

lemma get_write_bits:
  "p + length bs \<le> 8 * length e \<Longrightarrow> q < 8 * length e \<Longrightarrow>
   (\<And>i. p \<le> i \<Longrightarrow> i < p + length bs \<Longrightarrow> \<not> get_bit_msb e i) \<Longrightarrow>
   get_bit_msb (write_bits e p bs) q =
     (if p \<le> q \<and> q < p + length bs then bs ! (q - p) else get_bit_msb e q)"
proof (induction e p bs rule: write_bits.induct)
  case (2 e p b bs)
  have "get_bit_msb (write_bits (write_bit e p b) (p + 1) bs) q =
    (if p + 1 \<le> q \<and> q < p + 1 + length bs then bs ! (q - (p + 1)) else get_bit_msb (write_bit e p b) q)"
    by (rule "2.IH") (use 2 in \<open>auto simp: get_write_bit\<close>)
  then show ?case using 2 by (auto simp: get_write_bit nth_Cons')
qed auto

lemma length_uart_cell [simp]: "length (uart_cell v) = 10"
  by (simp add: uart_cell_def)

lemma length_encode_loop [simp]: "length (uart_encode_loop e p vs) = length e"
  by (induction e p vs rule: uart_encode_loop.induct) simp_all

lemma get_encode_loop:
  "p + 10 * length vs \<le> 8 * length e \<Longrightarrow> q < 8 * length e \<Longrightarrow>
   (\<And>i. p \<le> i \<Longrightarrow> i < 8 * length e \<Longrightarrow> \<not> get_bit_msb e i) \<Longrightarrow>
   get_bit_msb (uart_encode_loop e p vs) q =
     (if p \<le> q \<and> q < p + 10 * length vs then uart_cell (vs ! ((q - p) div 10)) ! ((q - p) mod 10)
      else get_bit_msb e q)"
proof (induction e p vs rule: uart_encode_loop.induct)
  case (2 e p v vs)
  let ?e = "write_bits e p (uart_cell v)"
  have w: "get_bit_msb ?e i = (if p \<le> i \<and> i < p + 10 then uart_cell v ! (i - p) else get_bit_msb e i)"
    if "i < 8 * length e" for i
    using get_write_bits [of p "uart_cell v" e i] 2 that by simp
  have IH: "get_bit_msb (uart_encode_loop ?e (p + 10) vs) q =
     (if p + 10 \<le> q \<and> q < p + 10 + 10 * length vs
      then uart_cell (vs ! ((q - (p + 10)) div 10)) ! ((q - (p + 10)) mod 10) else get_bit_msb ?e q)"
    by (rule "2.IH") (use 2 w in auto)
  show ?case
  proof (cases "p + 10 \<le> q \<and> q < p + 10 + 10 * length vs")
    case True
    then obtain k where k: "q = p + 10 + k" by (metis le_Suc_ex)
    have "(k + 10) div 10 = k div 10 + 1" "(k + 10) mod 10 = k mod 10" by simp_all
    with True IH k show ?thesis by (simp add: add.commute)
  next
    case False
    with IH w [of q] 2 show ?thesis by auto
  qed
qed auto

section \<open>Cells\<close>

lemma uart_cell_nth [simp]:
  "uart_cell v ! 0 = False" "uart_cell v ! 9 = True" "i < 8 \<Longrightarrow> uart_cell v ! Suc i = bit v i"
  by (simp_all add: uart_cell_def nth_append)

lemma bit_or_fold:
  "bit (foldl (\<lambda>v i. v OR push_bit i (of_bool (P i))) (a :: u8) [0..<n]) m \<longleftrightarrow>
   bit a m \<or> (m < n \<and> m < 8 \<and> P m)"
proof (induction n)
  case (Suc n)
  have "bit (push_bit n (of_bool (P n)) :: u8) m \<longleftrightarrow> m = n \<and> m < 8 \<and> P n"
    by (cases "P n") (auto simp: bit_push_bit_iff bit_1_iff simp del: push_bit_of_1)
  with Suc show ?case by (auto simp: bit_or_iff less_Suc_eq)
qed simp

lemma bit_uart_cell_value: "bit (uart_cell_value raw p) i \<longleftrightarrow> i < 8 \<and> get_bit_msb raw (p + 1 + i)"
  unfolding uart_cell_value_def bit_or_fold by simp

text \<open>The first \<open>10 * length ps\<close> bits of \<open>raw\<close> are the cells of \<open>ps\<close>.\<close>

definition carries :: "bytes \<Rightarrow> bytes \<Rightarrow> bool" where
  "carries raw ps \<longleftrightarrow> 10 * length ps \<le> 8 * length raw \<and>
     (\<forall>q < 10 * length ps. get_bit_msb raw q = uart_cell (ps ! (q div 10)) ! (q mod 10))"

lemma carries_cell:
  assumes "carries raw ps" and "k < length ps"
  shows "\<not> get_bit_msb raw (10 * k)" and "get_bit_msb raw (10 * k + 9)"
    and "uart_cell_value raw (10 * k) = ps ! k"
proof -
  have c: "get_bit_msb raw (10 * k + j) = uart_cell (ps ! k) ! j" if "j < 10" for j
  proof -
    have "10 * k + j < 10 * length ps" using assms(2) that by linarith
    moreover have "(10 * k + j) div 10 = k" "(10 * k + j) mod 10 = j" using that by simp_all
    ultimately show ?thesis using assms(1) by (simp add: carries_def)
  qed
  show "\<not> get_bit_msb raw (10 * k)" using c [of 0] by simp
  show "get_bit_msb raw (10 * k + 9)" using c [of 9] by simp
  show "uart_cell_value raw (10 * k) = ps ! k"
  proof (rule bit_word_eqI)
    fix i assume "i < LENGTH(8)"
    then show "bit (uart_cell_value raw (10 * k)) i = bit (ps ! k) i"
      using c [of "Suc i"] by (simp add: bit_uart_cell_value)
  qed
qed

lemma decode_loop_carries:
  assumes "carries raw ps" and "length ps \<le> m" and "k \<le> length ps"
  shows "decode_uart_loop raw (10 * k) m (take k ps) = decode_uart_loop raw (10 * length ps) m ps"
  using assms(3)
proof (induction "length ps - k" arbitrary: k)
  case (Suc n)
  then have k: "k < length ps" by linarith
  note cell = carries_cell [OF assms(1) k]
  have "10 * k + 10 \<le> 8 * length raw" using assms(1) k by (simp add: carries_def)
  then have "decode_uart_loop raw (10 * k) m (take k ps) =
      decode_uart_loop raw (10 * Suc k) m (take (Suc k) ps)"
    using cell k assms(2) by (subst decode_uart_loop.simps) (simp add: take_Suc_conv_app_nth add.commute)
  then show ?case using Suc.hyps(1) [of "Suc k"] Suc.hyps(2) k by simp
qed simp

lemma decode_loop_prefix: "\<exists>extra. decode_uart_loop raw p m d = d @ extra"
proof (induction raw p m d rule: decode_uart_loop.induct)
  case (1 raw p m d)
  then show ?case
    by (subst decode_uart_loop.simps) (auto simp: )
qed

lemma decode_carries:
  assumes "carries raw ps" and "length ps \<le> m"
  shows "\<exists>extra. decode_uart_probe raw 0 m = ps @ extra \<and>
    (8 * length raw < 10 * length ps + 10 \<longrightarrow> extra = [])"
proof -
  have d: "decode_uart_probe raw 0 m = decode_uart_loop raw (10 * length ps) m ps"
    using decode_loop_carries [OF assms, of 0] by (simp add: decode_uart_probe_def)
  show ?thesis
  proof (cases "8 * length raw < 10 * length ps + 10")
    case True
    then show ?thesis unfolding d by (subst decode_uart_loop.simps) simp
  next
    case False
    then show ?thesis unfolding d using decode_loop_prefix by blast
  qed
qed

text \<open>What the encoder writes carries its packet, whatever follows it in the receive buffer.\<close>

lemma get_bit_append: "q < 8 * length xs \<Longrightarrow> get_bit_msb (xs @ ys) q = get_bit_msb xs q"
  by (simp add: get_bit_msb_def nth_append less_mult_imp_div_less mult.commute)

lemma get_bit_take: "q < 8 * n \<Longrightarrow> get_bit_msb (take n xs) q = get_bit_msb xs q"
  by (simp add: get_bit_msb_def less_mult_imp_div_less mult.commute)

lemma uart_encode_carries:
  assumes "ps \<noteq> []" and "(length ps * 10 + 7) div 8 \<le> n"
  shows "length (uart_encode_packet ps n) = (length ps * 10 + 7) div 8"
    and "carries (uart_encode_packet ps n @ noise) ps"
proof -
  define e where "e = uart_encode_loop (replicate n 0) 0 ps"
  define len where "len = (length ps * 10 + 7) div 8"
  define e' where "e' = write_bits e (length ps * 10) (replicate (len * 8 - length ps * 10) True)"
  have bits: "length ps * 10 \<le> 8 * len" unfolding len_def by linarith
  have n: "0 < n" "len \<le> n" using assms by (cases ps; auto simp: len_def)+
  have enc: "uart_encode_packet ps n = take len e'"
    using assms n by (simp add: uart_encode_packet_def Let_def e_def e'_def len_def)
  then show l: "length (uart_encode_packet ps n) = (length ps * 10 + 7) div 8"
    using n by (simp add: e'_def e_def flip: len_def)
  have zero: "\<not> get_bit_msb (replicate n 0) i" if "i < 8 * n" for i
    using that by (simp add: get_bit_msb_def less_mult_imp_div_less mult.commute)
  have e: "get_bit_msb e q =
      (if q < 10 * length ps then uart_cell (ps ! (q div 10)) ! (q mod 10) else False)" if "q < 8 * n" for q
    using get_encode_loop [of 0 ps "replicate n 0" q] that bits n zero by (simp add: e_def)
  have e': "get_bit_msb e' q = uart_cell (ps ! (q div 10)) ! (q mod 10)" if q: "q < 10 * length ps" for q
  proof -
    have "get_bit_msb e' q = get_bit_msb e q"
      unfolding e'_def using q bits n by (subst get_write_bits) (auto simp: e e_def [THEN arg_cong, of length])
    then show ?thesis using q e [of q] bits n by simp
  qed
  show "carries (uart_encode_packet ps n @ noise) ps"
    unfolding carries_def
  proof (intro conjI allI impI)
    show "10 * length ps \<le> 8 * length (uart_encode_packet ps n @ noise)"
      using l bits by (simp add: len_def)
    fix q assume q: "q < 10 * length ps"
    then have "q < 8 * len" using bits by linarith
    then have "get_bit_msb (uart_encode_packet ps n @ noise) q = get_bit_msb e' q"
      using l by (simp add: get_bit_append len_def) (simp add: enc get_bit_take len_def)
    then show "get_bit_msb (uart_encode_packet ps n @ noise) q = uart_cell (ps ! (q div 10)) ! (q mod 10)"
      using e' [OF q] by simp
  qed
qed

section \<open>Searching for a frame\<close>

lemma find_first: "(\<forall>x \<in> set xs. \<not> P x) \<Longrightarrow> P y \<Longrightarrow> find P (xs @ y # ys) = Some y"
  by (induction xs) auto

lemma find_crc_valid_frame_alt:
  "find_crc_valid_frame decoded =
     (case find (\<lambda>(start, candidate_len). crc_candidate decoded start candidate_len)
        (concat (map (\<lambda>start. map (Pair start) (rev [9..<min (length decoded - start) 40 + 1]))
          [0..<length decoded])) of
        None \<Rightarrow> (0, 0) | Some p \<Rightarrow> p)"
proof -
  have "FRAME_MAX_WIRE_SIZE = 40" by simp
  then show ?thesis by (simp only: find_crc_valid_frame_def Let_def)
qed

lemma find_crc_valid_frame_first:
  assumes "crc_candidate decoded 0 l" and "9 \<le> l" and "l \<le> min (length decoded) 40"
    and "\<And>l'. l < l' \<Longrightarrow> l' \<le> 40 \<Longrightarrow> l' \<le> length decoded \<Longrightarrow> \<not> crc_candidate decoded 0 l'"
  shows "find_crc_valid_frame decoded = (0, l)"
proof -
  let ?n = "min (length decoded) 40"
  let ?more = "concat (map (\<lambda>start. map (Pair start) (rev [9..<min (length decoded - start) 40 + 1]))
      [1..<length decoded])"
  have "0 < length decoded" using assms(2,3) by linarith
  then have "[0..<length decoded] = 0 # [1..<length decoded]" by (simp add: upt_rec)
  moreover have "rev [9..<M] = rev [l + 1..<M] @ l # rev [9..<l]" if "l < M" for M
  proof -
    have "[9..<M] = [9..<l] @ [l..<M]"
      using that assms(2) upt_add_eq_append [of 9 l "M - l"] by simp
    moreover have "[l..<M] = l # [l + 1..<M]" using that by (simp add: upt_conv_Cons)
    ultimately show ?thesis by simp
  qed
  moreover have "l < ?n + 1" using assms(3) by linarith
  ultimately have split: "concat (map (\<lambda>start. map (Pair start) (rev [9..<min (length decoded - start) 40 + 1]))
      [0..<length decoded]) =
      map (Pair 0) (rev [l + 1..<?n + 1]) @ (0, l) # (map (Pair 0) (rev [9..<l]) @ ?more)"
    by (simp del: upt_Suc)
  have "find (\<lambda>(start, candidate_len). crc_candidate decoded start candidate_len)
      (map (Pair 0) (rev [l + 1..<?n + 1]) @ (0, l) # (map (Pair 0) (rev [9..<l]) @ ?more)) = Some (0, l)"
    by (rule find_first) (use assms in \<open>auto simp del: upt_Suc\<close>)
  then show ?thesis
    unfolding find_crc_valid_frame_alt split by (simp only: option.case)
qed

lemma find_crc_valid_frame_sound:
  assumes "find_crc_valid_frame decoded = (start, l)" and "0 < l"
  shows "crc_candidate decoded start l"
proof -
  let ?cs = "concat (map (\<lambda>start. map (Pair start) (rev [9..<min (length decoded - start) 40 + 1]))
      [0..<length decoded])"
  have "find (\<lambda>(start, candidate_len). crc_candidate decoded start candidate_len) ?cs = Some (start, l)"
    using assms by (auto simp only: find_crc_valid_frame_alt prod.inject split: option.splits)
  then show ?thesis by (auto simp: find_Some_iff)
qed

lemma uart_probe_loop_hit:
  assumes "decode_uart_probe raw off 64 = d" and "d \<noteq> []" and "find_crc_valid_frame d = (fs, fl)" and "0 < fl"
  shows "uart_probe_loop raw (off # offsets) best = \<lparr>upr_valid = True, upr_bit_offset = off,
    upr_frame_start = fs, upr_frame_len = fl, upr_decoded = d\<rparr>"
  unfolding uart_probe_loop.simps(2) assms(1) Let_def assms(3) prod.case using assms(2,4) by simp

lemma uart_probe_loop_sound:
  "uart_probe_loop raw offsets best = r \<Longrightarrow> upr_valid r \<Longrightarrow> \<not> upr_valid best \<Longrightarrow>
   upr_bit_offset r \<in> set offsets \<and>
   upr_decoded r = decode_uart_probe raw (upr_bit_offset r) RADIO_PACKET_BUFFER_SIZE \<and>
   crc_candidate (upr_decoded r) (upr_frame_start r) (upr_frame_len r)"
proof (induction offsets arbitrary: best)
  case (Cons off offsets)
  define d where "d = decode_uart_probe raw off 64"
  obtain fs fl where c: "find_crc_valid_frame d = (fs, fl)" by fastforce
  define hit where "hit = \<lparr>upr_valid = True, upr_bit_offset = off, upr_frame_start = fs,
      upr_frame_len = fl, upr_decoded = d\<rparr>"
  define best' where "best' = (if d \<noteq> [] \<and> length d > length (upr_decoded best) \<and> \<not> upr_valid best
      then best\<lparr>upr_bit_offset := off, upr_decoded := d\<rparr> else best)"
  have step: "uart_probe_loop raw (off # offsets) best =
      (if d \<noteq> [] \<and> fl > 0 then hit else uart_probe_loop raw offsets best')"
    unfolding uart_probe_loop.simps(2) d_def [symmetric] Let_def c prod.case hit_def best'_def by simp
  have invalid: "\<not> upr_valid best'" using Cons.prems(3) by (simp add: best'_def)
  show ?case
  proof (cases "d \<noteq> [] \<and> fl > 0")
    case True
    then have "r = hit" using Cons.prems(1) step by metis
    then show ?thesis
      using find_crc_valid_frame_sound [OF c] True by (simp add: hit_def d_def)
  next
    case False
    then have "uart_probe_loop raw offsets best' = r" using Cons.prems(1) step by metis
    from Cons.IH [OF this Cons.prems(2) invalid] show ?thesis by auto
  qed
qed simp

lemma canonical_cmd [simp]: "cmd (canonical f) = cmd f" "ctrl0 (canonical f) = ctrl0 f"
  by (simp_all add: canonical_def)

text \<open>The candidate at the very start of the decoded bytes is the frame that was sent.\<close>

lemma crc_candidate_sent:
  assumes ok: "frame_ok f" and known: "is_known_io_command (cmd f) \<or> ctrl0 f AND CTRL0_PROTOCOL_1W \<noteq> 0"
    and trailer: "has_mac f \<longleftrightarrow> frame_carries_mac_trailer (cmd f)"
    and decoded: "decoded = wire f @ [lo8 (crc_ccitt (wire f)), hi8 (crc_ccitt (wire f))] @ extra"
  shows "find_crc_valid_frame decoded = (0, length (wire f))"
proof (rule find_crc_valid_frame_first)
  have shape: "frame_shape f" and fl: "9 \<le> unat (frame_length f)" using ok by (simp_all add: frame_ok_def)
  have len: "length (wire f) = unat (frame_length f) + (if has_mac f then 6 else 0)"
    using length_wire [OF ok] by simp
  show "9 \<le> length (wire f)" using len fl by simp
  show "length (wire f) \<le> min (length decoded) 40"
    using len frame_length_bounds(2) [of f] decoded by (auto split: if_splits)
  show "crc_candidate decoded 0 (length (wire f))"
    using parse_wire [OF ok] known len fl
    by (auto simp: crc_candidate_def decoded sub_bytes_def is_plausible_uart_frame_def nth_append)
  fix l' assume l': "length (wire f) < l'" "l' \<le> 40" "l' \<le> length decoded"
  have "wire f = take 9 (wire f) @ drop 9 (wire f)" by simp
  have nine: "length (wire f) > 8" and ne: "wire f \<noteq> []" using len fl by (auto simp: wire_def)
  have at: "take l' decoded ! 0 = ctrl0 f" "take l' decoded ! 8 = cmd f" "length (take l' decoded) = l'"
    using l' nine ne wire_nth(1,3) [OF shape] by (simp_all add: decoded nth_append del: take_append)
  have "unat (ctrl0 f) mod 32 + 1 = unat (frame_length f)" by (simp add: unat_frame_length)
  with at l' len trailer have "parse (take l' decoded) = None"
    unfolding parse_closed by (auto simp: Let_def split: if_splits)
  then show "\<not> crc_candidate decoded 0 l'" by (simp add: crc_candidate_def sub_bytes_def)
qed

lemma find_uart_probe_sent:
  assumes "frame_ok f" and "is_known_io_command (cmd f) \<or> ctrl0 f AND CTRL0_PROTOCOL_1W \<noteq> 0"
    and "has_mac f \<longleftrightarrow> frame_carries_mac_trailer (cmd f)"
  obtains extra where "find_uart_probe (soft_phy_tx_buffer (serialize f 40) @ noise) =
    \<lparr>upr_valid = True, upr_bit_offset = 0, upr_frame_start = 0, upr_frame_len = length (wire f),
     upr_decoded = wire f @ extra\<rparr>"
proof -
  let ?crc = "crc_ccitt (wire f)"
  let ?ps = "wire f @ [lo8 ?crc, hi8 ?crc]"
  have len: "length (wire f) \<le> 38"
    using length_wire [OF assms(1)] frame_length_bounds(2) [of f] by (auto split: if_splits)
  have ser: "serialize f 40 = wire f" using serialize_ok [OF assms(1)] len by simp
  have tx: "soft_phy_tx_buffer (wire f) = uart_encode_packet ?ps 64"
    using len by (simp add: soft_phy_tx_buffer_def Let_def)
  have "carries (uart_encode_packet ?ps 64 @ noise) ?ps"
    by (rule uart_encode_carries(2)) (use len in auto)
  then obtain extra where d: "decode_uart_probe (uart_encode_packet ?ps 64 @ noise) 0 64 = ?ps @ extra"
    using decode_carries [of "uart_encode_packet ?ps 64 @ noise" ?ps 64] len by auto
  have find: "find_crc_valid_frame (?ps @ extra) = (0, length (wire f))"
    by (rule crc_candidate_sent [OF assms(1-3)]) simp
  have pos: "0 < length (wire f)" by (simp add: wire_def)
  have offs: "[0..<10 :: nat] = 0 # [1..<10]" by (subst upt_conv_Cons) simp_all
  have "?ps @ extra \<noteq> []" by simp
  note hit = uart_probe_loop_hit [OF d this find pos, of "[1..<10]"]
  have "find_uart_probe (soft_phy_tx_buffer (serialize f 40) @ noise) =
      \<lparr>upr_valid = True, upr_bit_offset = 0, upr_frame_start = 0,
       upr_frame_len = length (wire f), upr_decoded = ?ps @ extra\<rparr>"
    unfolding find_uart_probe_def ser tx offs by (rule hit)
  then show ?thesis using that by simp
qed

section \<open>Properties\<close>

text \<open>C32. What the software transmitter sends, the software receiver recovers: for every well-formed
  frame of a known command (or a one-way frame), the transmit buffer, followed by any noise that still
  fits the receive buffer, probes as valid at bit offset 0 with exactly the frame's bytes. The one
  ambiguous shape, an add-controller frame without its authenticator followed by noise, is excluded.\<close>

theorem soft_phy_roundtrip:
  assumes "frame_ok f" and "is_known_io_command (cmd f) \<or> ctrl0 f AND CTRL0_PROTOCOL_1W \<noteq> 0"
    and "has_mac f \<longleftrightarrow> frame_carries_mac_trailer (cmd f)"
    and "r = find_uart_probe (soft_phy_tx_buffer (serialize f FRAME_MAX_WIRE_SIZE) @ noise)"
  shows "upr_valid r \<and> upr_bit_offset r = 0 \<and>
    parse (sub_bytes (upr_frame_start r) (upr_frame_len r) (upr_decoded r)) = Some (canonical f)"
proof (rule find_uart_probe_sent [OF assms(1-3), of noise])
  fix extra
  assume *: "find_uart_probe (soft_phy_tx_buffer (serialize f 40) @ noise) =
    \<lparr>upr_valid = True, upr_bit_offset = 0, upr_frame_start = 0, upr_frame_len = length (wire f),
     upr_decoded = wire f @ extra\<rparr>"
  have "FRAME_MAX_WIRE_SIZE = 40" by simp
  then have r: "r = \<lparr>upr_valid = True, upr_bit_offset = 0, upr_frame_start = 0,
      upr_frame_len = length (wire f), upr_decoded = wire f @ extra\<rparr>"
    unfolding assms(4) by (simp only: *)
  show ?thesis unfolding r using parse_wire [OF assms(1)] by (simp add: sub_bytes_def)
qed

theorem soft_phy_roundtrip_witness:
  "upr_valid (find_uart_probe (soft_phy_tx_buffer (serialize sample_frame FRAME_MAX_WIRE_SIZE) @ [0x12, 0x34]))"
  using soft_phy_roundtrip [of sample_frame _ "[0x12, 0x34]", OF sample_frame_ok(1) _ _ refl]
  by (simp add: sample_frame_eq is_known_io_command_def frame_carries_mac_trailer_def)

text \<open>The receiver never hands up bytes that fail the CRC: a valid probe result, whatever the
  demodulated bits are, names a range inside the bytes decoded at its offset that parses as a
  plausible frame and whose CRC equals the two bytes after it.\<close>

theorem soft_phy_probe_sound:
  assumes "upr_valid (find_uart_probe raw)"
  shows "\<exists>off s l frame decoded. find_uart_probe raw = \<lparr>upr_valid = True, upr_bit_offset = off,
      upr_frame_start = s, upr_frame_len = l, upr_decoded = decoded\<rparr> \<and> off < UART_PROBE_MAX_BIT_OFFSET \<and>
    decoded = decode_uart_probe raw off RADIO_PACKET_BUFFER_SIZE \<and> s + l + 2 \<le> length decoded \<and>
    parse (sub_bytes s l decoded) = Some frame \<and> frame_ok frame \<and>
    (is_known_io_command (cmd frame) \<or> ctrl0 frame AND CTRL0_PROTOCOL_1W \<noteq> 0) \<and>
    crc_ccitt (sub_bytes s l decoded) = be16 (decoded ! (s + l + 1)) (decoded ! (s + l))"
proof -
  let ?r = "find_uart_probe raw"
  have "upr_bit_offset ?r \<in> set [0..<10] \<and> upr_decoded ?r = decode_uart_probe raw (upr_bit_offset ?r) 64 \<and>
      crc_candidate (upr_decoded ?r) (upr_frame_start ?r) (upr_frame_len ?r)"
    by (rule uart_probe_loop_sound [OF find_uart_probe_def [symmetric] assms]) simp
  then show ?thesis
    using assms parse_Some(1)
    by (cases ?r) (auto simp: crc_candidate_def is_plausible_uart_frame_def split: option.splits if_splits)
qed

theorem soft_phy_probe_sound_witness:
  "\<exists>off < UART_PROBE_MAX_BIT_OFFSET.
     upr_bit_offset (find_uart_probe (soft_phy_tx_buffer (serialize sample_frame 40) @ [7])) = off"
proof -
  have "upr_valid (find_uart_probe (soft_phy_tx_buffer (serialize sample_frame 40) @ [7]))"
    by (rule find_uart_probe_sent [OF sample_frame_ok(1), where noise = "[7]"])
      (simp_all add: sample_frame_eq is_known_io_command_def frame_carries_mac_trailer_def)
  from soft_phy_probe_sound [OF this] show ?thesis by fastforce
qed

end
