(* ===== verification/Operation_Queue.thy ===== *)
theory Operation_Queue
  imports Device_Model
begin

text \<open>
  The queue of pending operations (\<open>operation_queue.h\<close>, \<open>operation_queue.cpp\<close>): control operations
  ahead of background polls, coalescing of position and tilt, de-duplicated polls, pairing at the
  front. The deque is a list, its front first; an operation that reports whether it coalesced or
  pushed returns the pair of its result and the new queue.
\<close>

section \<open>Operations\<close>

abbreviation (input) BINARY_ENTITY_ON_POSITION :: u8 where "BINARY_ENTITY_ON_POSITION \<equiv> 0"
abbreviation (input) BINARY_ENTITY_OFF_POSITION :: u8 where "BINARY_ENTITY_OFF_POSITION \<equiv> 100"

datatype pending_operation_type =
    SET_POSITION | SET_TILT | SET_POSITION_AND_TILT | DEVICE_COMMAND | SET_LIGHT_STATE | SET_LOCK_STATE
  | SET_SWITCH_STATE | ONEWAY_COMMAND | ONEWAY_POSITION | ONEWAY_ENROLL | ONEWAY_UNENROLL
  | REQUEST_STATUS | REQUEST_NAME | DISCOVER_AND_PAIR

record pending_operation =
  op_type :: pending_operation_type
  op_device_id :: string
  op_position :: u8
  op_tilt :: u8
  op_command :: cover_command

type_synonym op_queue = "pending_operation list"

text \<open>The aggregate initializer, with the defaults of the fields it leaves out.\<close>

definition pending :: "pending_operation_type \<Rightarrow> string \<Rightarrow> u8 \<Rightarrow> pending_operation" where
  "pending t device_id position =
     \<lparr>op_type = t, op_device_id = device_id, op_position = position, op_tilt = 0, op_command = CC_STOP\<rparr>"

definition is_background_op :: "pending_operation_type \<Rightarrow> bool" where
  "is_background_op t \<longleftrightarrow> t = REQUEST_STATUS \<or> t = REQUEST_NAME"

definition addresses_a_device :: "pending_operation_type \<Rightarrow> bool" where
  "addresses_a_device t \<longleftrightarrow>
     t \<noteq> ONEWAY_COMMAND \<and> t \<noteq> ONEWAY_POSITION \<and> t \<noteq> ONEWAY_ENROLL \<and> t \<noteq> ONEWAY_UNENROLL"

fun insert_before_background :: "pending_operation \<Rightarrow> op_queue \<Rightarrow> op_queue" where
  "insert_before_background op [] = [op]"
| "insert_before_background op (o1 # q) =
     (if is_background_op (op_type o1) then op # o1 # q else o1 # insert_before_background op q)"

definition push_control :: "pending_operation \<Rightarrow> op_queue \<Rightarrow> op_queue" where
  "push_control op q =
     (let q = (if addresses_a_device (op_type op)
               then filter (\<lambda>existing. \<not> (op_type existing = REQUEST_STATUS \<and>
                                          op_device_id existing = op_device_id op)) q
               else q)
      in insert_before_background op q)"

text \<open>The first queued operation of type \<open>t\<close> for the device is modified in place, if there is one.\<close>

fun coalesce ::
  "pending_operation_type \<Rightarrow> string \<Rightarrow> (pending_operation \<Rightarrow> pending_operation) \<Rightarrow> op_queue \<Rightarrow> op_queue option" where
  "coalesce t device_id upd [] = None"
| "coalesce t device_id upd (op # q) =
     (if op_type op = t \<and> op_device_id op = device_id then Some (upd op # q)
      else map_option ((#) op) (coalesce t device_id upd q))"

definition enqueue_set_position :: "string \<Rightarrow> u8 \<Rightarrow> op_queue \<Rightarrow> bool \<times> op_queue" where
  "enqueue_set_position device_id position q =
     (case coalesce SET_TILT device_id
             (\<lambda>op. op\<lparr>op_type := SET_POSITION_AND_TILT, op_position := position, op_tilt := op_position op\<rparr>) q of
        Some q \<Rightarrow> (True, q)
      | None \<Rightarrow> (False, push_control (pending SET_POSITION device_id position) q))"

definition enqueue_set_tilt :: "string \<Rightarrow> u8 \<Rightarrow> op_queue \<Rightarrow> bool \<times> op_queue" where
  "enqueue_set_tilt device_id tilt_percent q =
     (case coalesce SET_POSITION device_id
             (\<lambda>op. op\<lparr>op_type := SET_POSITION_AND_TILT, op_tilt := tilt_percent\<rparr>) q of
        Some q \<Rightarrow> (True, q)
      | None \<Rightarrow> (False, push_control (pending SET_TILT device_id tilt_percent) q))"

definition enqueue_set_position_and_tilt :: "string \<Rightarrow> u8 \<Rightarrow> u8 \<Rightarrow> op_queue \<Rightarrow> op_queue" where
  "enqueue_set_position_and_tilt device_id position tilt_percent q =
     push_control ((pending SET_POSITION_AND_TILT device_id position)\<lparr>op_tilt := tilt_percent\<rparr>) q"

definition enqueue_device_command :: "string \<Rightarrow> cover_command \<Rightarrow> op_queue \<Rightarrow> op_queue" where
  "enqueue_device_command device_id c q = push_control ((pending DEVICE_COMMAND device_id 0)\<lparr>op_command := c\<rparr>) q"

definition enqueue_oneway_command :: "string \<Rightarrow> cover_command \<Rightarrow> op_queue \<Rightarrow> op_queue" where
  "enqueue_oneway_command controller_id c q =
     push_control ((pending ONEWAY_COMMAND controller_id 0)\<lparr>op_command := c\<rparr>) q"

definition enqueue_oneway_position :: "string \<Rightarrow> u8 \<Rightarrow> op_queue \<Rightarrow> op_queue" where
  "enqueue_oneway_position controller_id position q =
     push_control (pending ONEWAY_POSITION controller_id position) q"

definition enqueue_oneway_enroll :: "string \<Rightarrow> op_queue \<Rightarrow> op_queue" where
  "enqueue_oneway_enroll controller_id q = push_control (pending ONEWAY_ENROLL controller_id 0) q"

definition enqueue_oneway_unenroll :: "string \<Rightarrow> op_queue \<Rightarrow> op_queue" where
  "enqueue_oneway_unenroll controller_id q = push_control (pending ONEWAY_UNENROLL controller_id 0) q"

definition enqueue_set_light_position :: "string \<Rightarrow> u8 \<Rightarrow> op_queue \<Rightarrow> op_queue" where
  "enqueue_set_light_position device_id position q = push_control (pending SET_LIGHT_STATE device_id position) q"

definition enqueue_set_light_state :: "string \<Rightarrow> bool \<Rightarrow> op_queue \<Rightarrow> op_queue" where
  "enqueue_set_light_state device_id on_state q =
     enqueue_set_light_position device_id
       (if on_state then BINARY_ENTITY_ON_POSITION else BINARY_ENTITY_OFF_POSITION) q"

definition enqueue_set_lock_state :: "string \<Rightarrow> bool \<Rightarrow> op_queue \<Rightarrow> op_queue" where
  "enqueue_set_lock_state device_id locked q =
     push_control (pending SET_LOCK_STATE device_id
       (if locked then BINARY_ENTITY_OFF_POSITION else BINARY_ENTITY_ON_POSITION)) q"

definition enqueue_set_switch_state :: "string \<Rightarrow> bool \<Rightarrow> op_queue \<Rightarrow> op_queue" where
  "enqueue_set_switch_state device_id on_state q =
     push_control (pending SET_SWITCH_STATE device_id
       (if on_state then BINARY_ENTITY_ON_POSITION else BINARY_ENTITY_OFF_POSITION)) q"

definition enqueue_request_status :: "string \<Rightarrow> op_queue \<Rightarrow> bool \<times> op_queue" where
  "enqueue_request_status device_id q =
     (if \<exists>op \<in> set q. op_type op = REQUEST_STATUS \<and> op_device_id op = device_id then (False, q)
      else (True, q @ [pending REQUEST_STATUS device_id 0]))"

definition enqueue_request_name :: "string \<Rightarrow> op_queue \<Rightarrow> bool \<times> op_queue" where
  "enqueue_request_name device_id q =
     (if \<exists>op \<in> set q. op_type op = REQUEST_NAME \<and> op_device_id op = device_id then (False, q)
      else (True, q @ [pending REQUEST_NAME device_id 0]))"

definition enqueue_discover_and_pair :: "op_queue \<Rightarrow> bool \<times> op_queue" where
  "enqueue_discover_and_pair q =
     (if \<exists>op \<in> set q. op_type op = DISCOVER_AND_PAIR then (False, q)
      else (True, pending DISCOVER_AND_PAIR [] 0 #
                  filter (\<lambda>op. \<not> (op_type op = REQUEST_STATUS \<or> op_type op = REQUEST_NAME)) q))"

definition pop :: "op_queue \<Rightarrow> (pending_operation \<times> op_queue) option" where
  "pop q = (case q of [] \<Rightarrow> None | op # q \<Rightarrow> Some (op, q))"

section \<open>The queue as a state machine\<close>

datatype queue_call =
    Set_Position string u8 | Set_Tilt string u8 | Set_Position_And_Tilt string u8 u8
  | Device_Command string cover_command | Set_Light_Position string u8 | Set_Lock_State string bool
  | Set_Switch_State string bool | Oneway_Command string cover_command | Oneway_Position string u8
  | Oneway_Enroll string | Oneway_Unenroll string | Request_Status string | Request_Name string
  | Discover_And_Pair | Pop

fun queue_step :: "queue_call \<Rightarrow> op_queue \<Rightarrow> op_queue" where
  "queue_step (Set_Position d p) q = snd (enqueue_set_position d p q)"
| "queue_step (Set_Tilt d t) q = snd (enqueue_set_tilt d t q)"
| "queue_step (Set_Position_And_Tilt d p t) q = enqueue_set_position_and_tilt d p t q"
| "queue_step (Device_Command d c) q = enqueue_device_command d c q"
| "queue_step (Set_Light_Position d p) q = enqueue_set_light_position d p q"
| "queue_step (Set_Lock_State d b) q = enqueue_set_lock_state d b q"
| "queue_step (Set_Switch_State d b) q = enqueue_set_switch_state d b q"
| "queue_step (Oneway_Command d c) q = enqueue_oneway_command d c q"
| "queue_step (Oneway_Position d p) q = enqueue_oneway_position d p q"
| "queue_step (Oneway_Enroll d) q = enqueue_oneway_enroll d q"
| "queue_step (Oneway_Unenroll d) q = enqueue_oneway_unenroll d q"
| "queue_step (Request_Status d) q = snd (enqueue_request_status d q)"
| "queue_step (Request_Name d) q = snd (enqueue_request_name d q)"
| "queue_step Discover_And_Pair q = snd (enqueue_discover_and_pair q)"
| "queue_step Pop q = (case pop q of None \<Rightarrow> q | Some (op, q') \<Rightarrow> q')"

text \<open>
  The invariant: every control operation before every poll, no two polls of one kind for one device,
  and pairing only at the front.
\<close>

definition controls :: "op_queue \<Rightarrow> op_queue" where
  "controls q = filter (\<lambda>op. \<not> is_background_op (op_type op)) q"

definition polls :: "op_queue \<Rightarrow> op_queue" where
  "polls q = filter (\<lambda>op. is_background_op (op_type op)) q"

definition poll_key :: "pending_operation \<Rightarrow> pending_operation_type \<times> string" where
  "poll_key op = (op_type op, op_device_id op)"

definition queue_ok :: "op_queue \<Rightarrow> bool" where
  "queue_ok q \<longleftrightarrow> q = controls q @ polls q \<and> distinct (map poll_key (polls q)) \<and>
     (\<forall>op \<in> set (tl q). op_type op \<noteq> DISCOVER_AND_PAIR)"

section \<open>Lemmas\<close>

lemma controls_simps [simp]:
  "controls [] = []" "controls (xs @ ys) = controls xs @ controls ys"
  "controls (op # q) = (if is_background_op (op_type op) then controls q else op # controls q)"
  "polls [] = []" "polls (xs @ ys) = polls xs @ polls ys"
  "polls (op # q) = (if is_background_op (op_type op) then op # polls q else polls q)"
  by (simp_all add: controls_def polls_def)

lemma controls_polls [simp]:
  "controls (controls q) = controls q" "polls (polls q) = polls q"
  "controls (polls q) = []" "polls (controls q) = []"
  by (induction q) auto

lemma pending_simps [simp]:
  "op_type (pending t d p) = t" "op_device_id (pending t d p) = d" "op_position (pending t d p) = p"
  by (simp_all add: pending_def)

lemma not_background [simp]:
  "\<not> is_background_op SET_POSITION" "\<not> is_background_op SET_TILT" "\<not> is_background_op SET_POSITION_AND_TILT"
  "\<not> is_background_op DEVICE_COMMAND" "\<not> is_background_op SET_LIGHT_STATE" "\<not> is_background_op SET_LOCK_STATE"
  "\<not> is_background_op SET_SWITCH_STATE" "\<not> is_background_op ONEWAY_COMMAND" "\<not> is_background_op ONEWAY_POSITION"
  "\<not> is_background_op ONEWAY_ENROLL" "\<not> is_background_op ONEWAY_UNENROLL" "\<not> is_background_op DISCOVER_AND_PAIR"
  "is_background_op REQUEST_STATUS" "is_background_op REQUEST_NAME"
  by (simp_all add: is_background_op_def)

lemma insert_before_background_ordered:
  "insert_before_background op (controls q @ polls q) = controls q @ op # polls q"
proof -
  have "insert_before_background op (cs @ bs) = cs @ op # bs"
    if "\<forall>o1 \<in> set cs. \<not> is_background_op (op_type o1)" "\<forall>o1 \<in> set bs. is_background_op (op_type o1)" for cs bs
    using that by (induction cs) (cases bs; simp)+
  then show ?thesis by (simp add: controls_def polls_def)
qed

text \<open>The polls that survive a control operation.\<close>

definition fresh_polls :: "pending_operation \<Rightarrow> op_queue \<Rightarrow> op_queue" where
  "fresh_polls op q = (if addresses_a_device (op_type op)
     then filter (\<lambda>existing. \<not> (op_type existing = REQUEST_STATUS \<and> op_device_id existing = op_device_id op)) (polls q)
     else polls q)"

lemma push_control_ok:
  assumes "queue_ok q" and "\<not> is_background_op (op_type op)"
  shows "push_control op q = controls q @ op # fresh_polls op q"
    and "controls (push_control op q) = controls q @ [op]" and "polls (push_control op q) = fresh_polls op q"
proof -
  let ?drop = "\<lambda>e. \<not> (op_type e = REQUEST_STATUS \<and> op_device_id e = op_device_id op)"
  have q: "q = controls q @ polls q" using assms(1) by (simp add: queue_ok_def)
  have "filter ?drop (controls q) = controls q"
    unfolding controls_def by (rule filter_True) (auto simp: is_background_op_def)
  then have f: "filter ?drop q = controls q @ filter ?drop (polls q)"
    by (subst q) simp
  have "controls (filter ?drop (polls q)) = []" by (auto simp: controls_def polls_def filter_empty_conv)
  moreover have "polls (filter ?drop (polls q)) = filter ?drop (polls q)"
    by (simp add: polls_def) (rule filter_cong; auto)
  ultimately have pf: "controls (filter ?drop (polls q)) = []"
    "polls (filter ?drop (polls q)) = filter ?drop (polls q)" .
  show c: "push_control op q = controls q @ op # fresh_polls op q"
  proof (cases "addresses_a_device (op_type op)")
    case True
    have "insert_before_background op (filter ?drop q) = controls q @ op # filter ?drop (polls q)"
      using insert_before_background_ordered [of op "filter ?drop q"] f pf by simp
    with True show ?thesis by (simp add: push_control_def fresh_polls_def)
  next
    case False
    then show ?thesis
      using insert_before_background_ordered [of op q] q by (simp add: push_control_def fresh_polls_def)
  qed
  show "controls (push_control op q) = controls q @ [op]" "polls (push_control op q) = fresh_polls op q"
    using assms(2) pf by (simp_all add: c fresh_polls_def)
qed

lemma in_tl_append: "x \<in> set (tl (xs @ ys)) \<Longrightarrow> x \<in> set (tl xs) \<or> x \<in> set ys"
  by (cases xs; cases ys) auto

lemma push_control_queue_ok [wf_rules]:
  assumes "queue_ok q" and "\<not> is_background_op (op_type op)" and "op_type op \<noteq> DISCOVER_AND_PAIR"
  shows "queue_ok (push_control op q)"
proof -
  note pc = push_control_ok [OF assms(1,2)]
  have q: "q = controls q @ polls q" using assms(1) by (simp add: queue_ok_def)
  have "distinct (map poll_key (fresh_polls op q))"
    using assms(1) by (simp add: queue_ok_def fresh_polls_def distinct_map_filter)
  moreover have "op_type x \<noteq> DISCOVER_AND_PAIR" if x: "x \<in> set (tl (push_control op q))" for x
  proof -
    consider "x \<in> set (tl (controls q))" | "x = op" | "x \<in> set (fresh_polls op q)"
      using in_tl_append [of x "controls q" "op # fresh_polls op q"] x [unfolded pc(1)] by auto
    then show ?thesis
    proof cases
      case 1
      then have "x \<in> set (tl q)" by (subst q) (cases "controls q"; simp)
      then show ?thesis using assms(1) by (simp add: queue_ok_def)
    next
      case 3
      then have "is_background_op (op_type x)" by (auto simp: fresh_polls_def polls_def split: if_splits)
      then show ?thesis by auto
    qed (use assms(3) in simp)
  qed
  ultimately show ?thesis using pc by (simp add: queue_ok_def)
qed

lemma coalesce_Some:
  "coalesce t d upd q = Some q' \<Longrightarrow>
   \<exists>xs op ys. q = xs @ op # ys \<and> op_type op = t \<and> op_device_id op = d \<and> q' = xs @ upd op # ys \<and>
     (\<forall>o1 \<in> set xs. \<not> (op_type o1 = t \<and> op_device_id o1 = d))"
proof (induction q arbitrary: q')
  case (Cons o1 q)
  show ?case
  proof (cases "op_type o1 = t \<and> op_device_id o1 = d")
    case True
    with Cons.prems show ?thesis by (intro exI [of _ "[]"]) auto
  next
    case False
    with Cons.prems obtain q1 where "coalesce t d upd q = Some q1" "q' = o1 # q1"
      by (auto split: if_splits)
    with Cons.IH obtain xs op ys where "q = xs @ op # ys" "op_type op = t" "op_device_id op = d"
      "q' = o1 # xs @ upd op # ys" "\<forall>o1 \<in> set xs. \<not> (op_type o1 = t \<and> op_device_id o1 = d)" by blast
    with False show ?thesis by (intro exI [of _ "o1 # xs"]) auto
  qed
qed simp

lemma coalesce_None: "coalesce t d upd q = None \<longleftrightarrow> (\<forall>op \<in> set q. \<not> (op_type op = t \<and> op_device_id op = d))"
  by (induction q) auto

lemma queue_ok_sorted:
  "q = controls q @ polls q \<longleftrightarrow>
   sorted_wrt (\<lambda>a b. is_background_op (op_type a) \<longrightarrow> is_background_op (op_type b)) q"
proof (induction q)
  case (Cons op q)
  show ?case
  proof (cases "is_background_op (op_type op)")
    case True
    have "op # q = controls q @ op # polls q \<longleftrightarrow> (\<forall>o1 \<in> set q. is_background_op (op_type o1))"
    proof
      assume eq: "op # q = controls q @ op # polls q"
      then have "controls q = []" using True by (cases "controls q") (auto simp: controls_def filter_eq_Cons_iff)
      then show "\<forall>o1 \<in> set q. is_background_op (op_type o1)" by (auto simp: controls_def filter_empty_conv)
    next
      assume all: "\<forall>o1 \<in> set q. is_background_op (op_type o1)"
      then have "controls q = []" "polls q = q" by (auto simp: controls_def polls_def)
      then show "op # q = controls q @ op # polls q" by simp
    qed
    moreover have "sorted_wrt (\<lambda>a b. is_background_op (op_type a) \<longrightarrow> is_background_op (op_type b)) q"
      if "\<forall>o1 \<in> set q. is_background_op (op_type o1)"
      using that by (auto simp: sorted_wrt_iff_nth_less)
    ultimately show ?thesis using True by auto
  next
    case False
    with Cons.IH show ?thesis by simp
  qed
qed simp

lemma replace_queue_ok:
  assumes "queue_ok (xs @ op # ys)" and "\<not> is_background_op (op_type op)"
    and "\<not> is_background_op (op_type op')" and "op_type op' \<noteq> DISCOVER_AND_PAIR"
  shows "queue_ok (xs @ op' # ys)"
proof -
  have "sorted_wrt (\<lambda>a b. is_background_op (op_type a) \<longrightarrow> is_background_op (op_type b)) (xs @ op # ys)"
    using assms(1) unfolding queue_ok_def queue_ok_sorted by (rule conjunct1)
  then have "sorted_wrt (\<lambda>a b. is_background_op (op_type a) \<longrightarrow> is_background_op (op_type b)) (xs @ op' # ys)"
    using assms(2,3) by (auto simp: sorted_wrt_append)
  moreover have "\<forall>x \<in> set (tl (xs @ op' # ys)). op_type x \<noteq> DISCOVER_AND_PAIR"
    using assms(1,4) by (cases xs) (auto simp: queue_ok_def)
  moreover have "distinct (map poll_key (polls (xs @ op' # ys)))"
    using assms(1-3) by (simp add: queue_ok_def)
  ultimately show ?thesis by (simp only: queue_ok_def queue_ok_sorted)
qed

lemma enqueue_set_position_ok [wf_rules]: "queue_ok q \<Longrightarrow> queue_ok (snd (enqueue_set_position d p q))"
  by (auto simp: enqueue_set_position_def wf_rules split: option.split dest!: coalesce_Some
      intro: replace_queue_ok)

lemma enqueue_set_tilt_ok [wf_rules]: "queue_ok q \<Longrightarrow> queue_ok (snd (enqueue_set_tilt d p q))"
  by (auto simp: enqueue_set_tilt_def wf_rules split: option.split dest!: coalesce_Some
      intro: replace_queue_ok)

lemma append_poll_ok:
  assumes "queue_ok q" and "is_background_op (op_type op)" and "poll_key op \<notin> poll_key ` set (polls q)"
  shows "queue_ok (q @ [op])"
proof -
  have "q = controls q @ polls q" using assms(1) by (simp add: queue_ok_def)
  moreover have "op_type x \<noteq> DISCOVER_AND_PAIR" if "x \<in> set (tl (q @ [op]))" for x
    using in_tl_append [OF that] assms(1,2) by (auto simp: queue_ok_def is_background_op_def)
  ultimately show ?thesis using assms by (simp add: queue_ok_def)
qed

lemma enqueue_request_ok [wf_rules]:
  "queue_ok q \<Longrightarrow> queue_ok (snd (enqueue_request_status d q))"
  "queue_ok q \<Longrightarrow> queue_ok (snd (enqueue_request_name d q))"
  by (auto simp: enqueue_request_status_def enqueue_request_name_def polls_def poll_key_def
      eq_commute [of REQUEST_STATUS] eq_commute [of REQUEST_NAME] intro!: append_poll_ok)

lemma enqueue_discover_ok [wf_rules]: "queue_ok q \<Longrightarrow> queue_ok (snd (enqueue_discover_and_pair q))"
proof (cases "\<exists>op \<in> set q. op_type op = DISCOVER_AND_PAIR")
  case False
  have "filter (\<lambda>op. \<not> (op_type op = REQUEST_STATUS \<or> op_type op = REQUEST_NAME)) q = controls q"
    by (simp add: controls_def is_background_op_def)
  then have "snd (enqueue_discover_and_pair q) = pending DISCOVER_AND_PAIR [] 0 # controls q"
    using False by (simp add: enqueue_discover_and_pair_def)
  moreover have "\<forall>x \<in> set (controls q). op_type x \<noteq> DISCOVER_AND_PAIR"
    using False by (auto simp: controls_def)
  ultimately show ?thesis by (simp add: queue_ok_def)
qed (simp add: enqueue_discover_and_pair_def)

lemma pop_ok [wf_rules]: "queue_ok q \<Longrightarrow> pop q = Some (op, q') \<Longrightarrow> queue_ok q'"
  unfolding queue_ok_def queue_ok_sorted
  by (cases q; cases "is_background_op (op_type op)"; cases q') (auto simp: pop_def dest: list.set_sel(2))

lemma queue_step_ok [wf_rules]: "queue_ok q \<Longrightarrow> queue_ok (queue_step c q)"
  by (cases c) (auto simp: wf_rules enqueue_set_position_and_tilt_def enqueue_device_command_def
      enqueue_set_light_position_def enqueue_set_lock_state_def enqueue_set_switch_state_def
      enqueue_oneway_command_def enqueue_oneway_position_def enqueue_oneway_enroll_def
      enqueue_oneway_unenroll_def split: option.split prod.split)

interpretation pending_queue: machine "[]" queue_step queue_ok
  by unfold_locales (simp_all add: wf_rules, simp add: queue_ok_def)

section \<open>Properties\<close>

text \<open>C11. In every state the queue can reach, by any sequence of calls, all control operations stand
  before all background polls, there is at most one status and one name request per device, and a
  pairing request stands only at the front.\<close>

theorem queue_invariant:
  assumes "reachable [] queue_step q"
  shows "q = controls q @ polls q \<and> distinct (map poll_key (polls q)) \<and>
    (\<forall>op \<in> set (tl q). op_type op \<noteq> DISCOVER_AND_PAIR)"
  using pending_queue.inv_reachable [OF assms] by (simp add: queue_ok_def)

theorem queue_invariant_witness:
  "distinct (map poll_key (polls (fold queue_step
     [Request_Status ''A'', Set_Position ''B'' 10, Request_Status ''A'', Discover_And_Pair] [])))"
  using queue_invariant [OF reachable_fold] by blast

text \<open>A poll leaves the queue only when no control operation is waiting, and the control operations
  leave it in the order in which they were queued.\<close>

theorem queue_priority:
  assumes "reachable [] queue_step q" and "pop q = Some (op, q')"
  shows "(is_background_op (op_type op) \<longrightarrow> controls q' = []) \<and>
    (\<not> is_background_op (op_type op) \<longrightarrow> controls q = op # controls q')"
proof -
  have q: "q = op # q'" using assms(2) by (auto simp: pop_def split: list.splits)
  have "sorted_wrt (\<lambda>a b. is_background_op (op_type a) \<longrightarrow> is_background_op (op_type b)) (op # q')"
    using pending_queue.inv_reachable [OF assms(1)] unfolding queue_ok_def queue_ok_sorted q by (rule conjunct1)
  then show ?thesis by (auto simp: q controls_def filter_empty_conv)
qed

theorem queue_priority_witness:
  "controls (snd (the (pop (fold queue_step [Request_Status ''A'', Set_Position ''B'' 10] [])))) = []"
proof -
  have "pop (fold queue_step [Request_Status ''A'', Set_Position ''B'' 10] []) =
      Some (pending SET_POSITION ''B'' 10, [pending REQUEST_STATUS ''A'' 0])" by code_simp
  from queue_priority [OF reachable_fold this] this show ?thesis by (simp add: pending_def)
qed

text \<open>No user command is lost or merged away: a device, light, lock, switch or one-way command is
  appended behind the queued control operations, which all stay; the only thing it removes is a
  queued status request for its own device, and a one-way command removes nothing.\<close>

theorem control_commands_kept:
  assumes "reachable [] queue_step q"
    and "c \<in> {Set_Position_And_Tilt d p t, Device_Command d cc, Set_Light_Position d p, Set_Lock_State d b,
           Set_Switch_State d b, Oneway_Command d cc, Oneway_Position d p, Oneway_Enroll d, Oneway_Unenroll d}"
  shows "\<exists>op. op_device_id op = d \<and> controls (queue_step c q) = controls q @ [op] \<and>
    polls (queue_step c q) = (if addresses_a_device (op_type op)
      then filter (\<lambda>e. \<not> (op_type e = REQUEST_STATUS \<and> op_device_id e = d)) (polls q) else polls q)"
proof -
  have ok: "queue_ok q" by (rule pending_queue.inv_reachable [OF assms(1)])
  have pick: "\<exists>op. op_device_id op = d \<and> \<not> is_background_op (op_type op) \<and> push_control op1 q = push_control op q"
    if "op_device_id op1 = d" "\<not> is_background_op (op_type op1)" for op1
    using that by blast
  have "\<exists>op. op_device_id op = d \<and> \<not> is_background_op (op_type op) \<and> queue_step c q = push_control op q"
    using assms(2) by (auto intro!: pick simp: enqueue_set_position_and_tilt_def enqueue_device_command_def
      enqueue_set_light_position_def enqueue_set_lock_state_def enqueue_set_switch_state_def
      enqueue_oneway_command_def enqueue_oneway_position_def enqueue_oneway_enroll_def
      enqueue_oneway_unenroll_def)
  then obtain op where "op_device_id op = d" "\<not> is_background_op (op_type op)" "queue_step c q = push_control op q"
    by blast
  then show ?thesis using push_control_ok(2,3) [OF ok] by (auto simp: fresh_polls_def)
qed

theorem control_commands_kept_witness:
  "controls (queue_step (Device_Command ''A'' CC_STOP) (fold queue_step [Set_Position ''A'' 10] [])) \<noteq> []"
  using control_commands_kept [OF reachable_fold, of "Device_Command ''A'' CC_STOP" "''A''" 0 0 CC_STOP True
      "[Set_Position ''A'' 10]"] by auto

text \<open>A position for a device with a queued tilt command becomes one combined command in the place of
  the tilt command, with the new position and the queued tilt; without one it is queued as a control
  operation of its own. The same holds for a tilt and a queued position.\<close>

theorem position_tilt_coalesce:
  "(case enqueue_set_position d p q of (merged, q') \<Rightarrow>
      (merged \<longleftrightarrow> (\<exists>op \<in> set q. op_type op = SET_TILT \<and> op_device_id op = d)) \<and>
      (if merged
       then \<exists>xs op ys. q = xs @ op # ys \<and> op_type op = SET_TILT \<and> op_device_id op = d \<and>
              q' = xs @ op\<lparr>op_type := SET_POSITION_AND_TILT, op_position := p, op_tilt := op_position op\<rparr> # ys
       else q' = push_control (pending SET_POSITION d p) q)) \<and>
    (case enqueue_set_tilt d t q of (merged, q') \<Rightarrow>
      (merged \<longleftrightarrow> (\<exists>op \<in> set q. op_type op = SET_POSITION \<and> op_device_id op = d)) \<and>
      (if merged
       then \<exists>xs op ys. q = xs @ op # ys \<and> op_type op = SET_POSITION \<and> op_device_id op = d \<and>
              q' = xs @ op\<lparr>op_type := SET_POSITION_AND_TILT, op_tilt := t\<rparr> # ys
       else q' = push_control (pending SET_TILT d t) q))"
proof (rule conjI)
  let ?upd = "\<lambda>op. op\<lparr>op_type := SET_POSITION_AND_TILT, op_position := p, op_tilt := op_position op\<rparr>"
  show "case enqueue_set_position d p q of (merged, q') \<Rightarrow>
      (merged \<longleftrightarrow> (\<exists>op \<in> set q. op_type op = SET_TILT \<and> op_device_id op = d)) \<and>
      (if merged
       then \<exists>xs op ys. q = xs @ op # ys \<and> op_type op = SET_TILT \<and> op_device_id op = d \<and>
              q' = xs @ op\<lparr>op_type := SET_POSITION_AND_TILT, op_position := p, op_tilt := op_position op\<rparr> # ys
       else q' = push_control (pending SET_POSITION d p) q)"
  proof (cases "coalesce SET_TILT d ?upd q")
    case None
    then have "\<not> (\<exists>op \<in> set q. op_type op = SET_TILT \<and> op_device_id op = d)" by (auto simp: coalesce_None)
    with None show ?thesis by (simp add: enqueue_set_position_def)
  next
    case (Some q')
    note found = coalesce_Some [OF Some]
    then have "\<exists>op \<in> set q. op_type op = SET_TILT \<and> op_device_id op = d" by auto
    with found Some show ?thesis by (auto simp: enqueue_set_position_def)
  qed
next
  let ?upd = "\<lambda>op. op\<lparr>op_type := SET_POSITION_AND_TILT, op_tilt := t\<rparr>"
  show "case enqueue_set_tilt d t q of (merged, q') \<Rightarrow>
      (merged \<longleftrightarrow> (\<exists>op \<in> set q. op_type op = SET_POSITION \<and> op_device_id op = d)) \<and>
      (if merged
       then \<exists>xs op ys. q = xs @ op # ys \<and> op_type op = SET_POSITION \<and> op_device_id op = d \<and>
              q' = xs @ op\<lparr>op_type := SET_POSITION_AND_TILT, op_tilt := t\<rparr> # ys
       else q' = push_control (pending SET_TILT d t) q)"
  proof (cases "coalesce SET_POSITION d ?upd q")
    case None
    then have "\<not> (\<exists>op \<in> set q. op_type op = SET_POSITION \<and> op_device_id op = d)" by (auto simp: coalesce_None)
    with None show ?thesis by (simp add: enqueue_set_tilt_def)
  next
    case (Some q')
    note found = coalesce_Some [OF Some]
    then have "\<exists>op \<in> set q. op_type op = SET_POSITION \<and> op_device_id op = d" by auto
    with found Some show ?thesis by (auto simp: enqueue_set_tilt_def)
  qed
qed

text \<open>Coalescing lets a new position overtake a stop: with a tilt and then a stop queued for a device,
  a position sent after the stop is merged into the tilt in front of it, so the stop is executed last.
  A coalesced command also leaves a status request for the device in the queue, which a pushed command
  would have dropped.\<close>

theorem coalescing_overtakes_stop:
  "map (\<lambda>op. (op_type op, op_position op, op_command op))
     (fold queue_step [Set_Tilt d t, Device_Command d CC_STOP, Set_Position d p] []) =
     [(SET_POSITION_AND_TILT, p, CC_STOP), (DEVICE_COMMAND, 0, CC_STOP)] \<and>
   map op_type (fold queue_step [Set_Tilt d t, Request_Status d, Set_Position d p] []) =
     [SET_POSITION_AND_TILT, REQUEST_STATUS] \<and>
   map op_type (fold queue_step [Set_Light_Position d t, Request_Status d, Set_Position d p] []) =
     [SET_LIGHT_STATE, SET_POSITION]"
  by (simp add: enqueue_set_position_def enqueue_set_tilt_def enqueue_device_command_def push_control_def
      enqueue_set_light_position_def enqueue_request_status_def addresses_a_device_def pending_def
      is_background_op_def)

end
