(* ===== verification/Decisions.thy ===== *)
theory Decisions
  imports Codecs
begin

text \<open>
  The pure frame-classification helpers of the hub (\<open>hub_decisions.h\<close>): endpoint matching, the
  dispositions of exchange and pairing responses, and the time windows of one-way traffic on the
  32-bit millisecond clock.
\<close>

datatype exchange_first_response_disposition = FIRST_IGNORE_UNRELATED | COMPLETE_DIRECT | REQUIRE_AUTH
datatype exchange_final_response_disposition = FINAL_IGNORE_UNRELATED | FINAL_ACCEPT
datatype pairing_discovery_disposition = PD_NO_RESPONSE | PD_INVALID | PD_ACCEPT
datatype pairing_key_challenge_disposition = PK_IGNORE | PK_ACCEPT

definition is_exchange_internal_command :: "u8 \<Rightarrow> bool" where
  "is_exchange_internal_command c \<longleftrightarrow> c = CMD_CHALLENGE_REQ \<or> c = CMD_CHALLENGE_RESP"

definition frame_matches_nodes :: "io_frame \<Rightarrow> node_id \<Rightarrow> node_id \<Rightarrow> bool" where
  "frame_matches_nodes frame expected_src expected_dst \<longleftrightarrow>
     src frame = expected_src \<and> dst frame = expected_dst"

definition frame_matches_exchange_endpoints :: "io_frame \<Rightarrow> io_frame \<Rightarrow> bool" where
  "frame_matches_exchange_endpoints request candidate =
     frame_matches_nodes candidate (dst request) (src request)"

definition classify_exchange_first_response ::
  "io_frame \<Rightarrow> io_frame \<Rightarrow> exchange_first_response_disposition" where
  "classify_exchange_first_response request candidate =
     (if \<not> frame_matches_exchange_endpoints request candidate then FIRST_IGNORE_UNRELATED
      else if cmd candidate = CMD_CHALLENGE_REQ then REQUIRE_AUTH
      else COMPLETE_DIRECT)"

definition classify_exchange_final_response ::
  "io_frame \<Rightarrow> io_frame \<Rightarrow> exchange_final_response_disposition" where
  "classify_exchange_final_response request candidate =
     (if frame_matches_exchange_endpoints request candidate then FINAL_ACCEPT else FINAL_IGNORE_UNRELATED)"

definition retry_after_unconfirmed_accept_is_safe :: "u8 \<Rightarrow> bool" where
  "retry_after_unconfirmed_accept_is_safe c \<longleftrightarrow> c \<noteq> CMD_EXECUTE"

definition classify_pairing_discovery_response ::
  "io_frame \<Rightarrow> node_id \<Rightarrow> pairing_discovery_disposition" where
  "classify_pairing_discovery_response candidate controller_id =
     (if cmd candidate = CMD_DISCOVER_RESP \<and> dst candidate = controller_id then PD_ACCEPT else PD_INVALID)"

definition classify_pairing_key_challenge ::
  "io_frame \<Rightarrow> node_id \<Rightarrow> node_id \<Rightarrow> pairing_key_challenge_disposition" where
  "classify_pairing_key_challenge candidate device_id controller_id =
     (if cmd candidate = CMD_CHALLENGE_REQ \<and> unat (data_len candidate) = HMAC_SIZE \<and>
         frame_matches_nodes candidate device_id controller_id
      then PK_ACCEPT else PK_IGNORE)"

section \<open>One-way traffic windows\<close>

record oneway_dedup_state =
  odd_src_id :: string
  odd_cmd :: u8
  odd_has_intent :: bool
  odd_main0 :: u8
  odd_main1 :: u8
  odd_timestamp :: u32

definition is_duplicate_1w_frame :: "oneway_dedup_state \<Rightarrow> oneway_dedup_state \<Rightarrow> u32 \<Rightarrow> bool" where
  "is_duplicate_1w_frame prev incoming window_ms =
     (if odd_src_id prev \<noteq> odd_src_id incoming \<or> odd_cmd prev \<noteq> odd_cmd incoming \<or>
         odd_has_intent prev \<noteq> odd_has_intent incoming then False
      else if odd_has_intent incoming \<and>
              (odd_main0 prev \<noteq> odd_main0 incoming \<or> odd_main1 prev \<noteq> odd_main1 incoming) then False
      else odd_timestamp incoming - odd_timestamp prev < window_ms)"

definition defer_background_poll_for_1w_activity ::
  "bool \<Rightarrow> u32 \<Rightarrow> u32 \<Rightarrow> u32 \<Rightarrow> u32 \<Rightarrow> u32 \<Rightarrow> bool" where
  "defer_background_poll_for_1w_activity next_op_is_background first_1w_activity_ms last_1w_activity_ms
       now quiet_ms max_defer_ms =
     (if \<not> next_op_is_background \<or> last_1w_activity_ms = 0 then False
      else if now - first_1w_activity_ms \<ge> max_defer_ms then False
      else now - last_1w_activity_ms < quiet_ms)"

definition oneway_burst_started_fresh :: "u32 \<Rightarrow> u32 \<Rightarrow> u32 \<Rightarrow> bool" where
  "oneway_burst_started_fresh last_1w_activity_ms now quiet_ms \<longleftrightarrow>
     last_1w_activity_ms = 0 \<or> now - last_1w_activity_ms \<ge> quiet_ms"

section \<open>The wrapping clock\<close>

text \<open>
  \<open>millis()\<close> wraps after 49.7 days. A subtraction gives the elapsed time across the wrap as long as
  less than the whole period has passed.
\<close>

definition clock :: "nat \<Rightarrow> u32" where
  "clock t = of_nat t"

lemma clock_elapsed: "t \<le> t' \<Longrightarrow> t' - t < 2 ^ 32 \<Longrightarrow> unat (clock t' - clock t) = t' - t"
proof -
  assume a: "t \<le> t'" "t' - t < 2 ^ 32"
  have "clock t' - clock t = of_nat (t' - t)" using a(1) by (simp add: clock_def of_nat_diff)
  then show ?thesis using a(2) by (simp add: unat_of_nat)
qed

lemma clock_elapsed_less:
  "t \<le> t' \<Longrightarrow> t' - t < 2 ^ 32 \<Longrightarrow> clock t' - clock t < w \<longleftrightarrow> t' - t < unat w"
  by (simp add: word_less_nat_alt clock_elapsed)

lemma clock_elapsed_le:
  "t \<le> t' \<Longrightarrow> t' - t < 2 ^ 32 \<Longrightarrow> w \<le> clock t' - clock t \<longleftrightarrow> unat w \<le> t' - t"
  by (simp add: word_le_nat_alt clock_elapsed)

section \<open>Properties\<close>

text \<open>A response is accepted into an exchange only when it comes from the node the request went to
  and is addressed to the node that sent it; of the accepted ones exactly the challenge requests
  demand authentication, and the final answer obeys the same endpoint rule.\<close>

theorem exchange_response_endpoints:
  "(classify_exchange_first_response request candidate \<noteq> FIRST_IGNORE_UNRELATED \<longleftrightarrow>
      src candidate = dst request \<and> dst candidate = src request) \<and>
    (classify_exchange_first_response request candidate = REQUIRE_AUTH \<longleftrightarrow>
      src candidate = dst request \<and> dst candidate = src request \<and> cmd candidate = CMD_CHALLENGE_REQ) \<and>
    (classify_exchange_final_response request candidate = FINAL_ACCEPT \<longleftrightarrow>
      classify_exchange_first_response request candidate \<noteq> FIRST_IGNORE_UNRELATED)"
  by (auto simp: classify_exchange_first_response_def classify_exchange_final_response_def
      frame_matches_exchange_endpoints_def frame_matches_nodes_def)

text \<open>The de-duplication window and the poll deferral survive the wrap of the millisecond clock: with
  the times counted without wrapping and less than a full period apart, a repeated frame is dropped
  exactly while less than the window has passed, and polls are never deferred past the maximum.\<close>

theorem oneway_windows_wrap_safe:
  assumes "t0 \<le> t1" and "t1 \<le> t2" and "t2 - t0 < 2 ^ 32"
    and "clock t1 \<noteq> 0"
  shows "(is_duplicate_1w_frame \<lparr>odd_src_id = s, odd_cmd = c, odd_has_intent = i, odd_main0 = m0,
      odd_main1 = m1, odd_timestamp = clock t1\<rparr>
      \<lparr>odd_src_id = s, odd_cmd = c, odd_has_intent = i, odd_main0 = m0, odd_main1 = m1,
       odd_timestamp = clock t2\<rparr> w \<longleftrightarrow> t2 - t1 < unat w) \<and>
    (defer_background_poll_for_1w_activity b (clock t0) (clock t1) (clock t2) quiet most \<longleftrightarrow>
      b \<and> t2 - t0 < unat most \<and> t2 - t1 < unat quiet) \<and>
    (oneway_burst_started_fresh (clock t1) (clock t2) quiet \<longleftrightarrow> unat quiet \<le> t2 - t1)"
  using assms clock_elapsed_less [of t1 t2] clock_elapsed_less [of t0 t2]
    clock_elapsed_le [of t1 t2] clock_elapsed_le [of t0 t2]
  by (auto simp: is_duplicate_1w_frame_def defer_background_poll_for_1w_activity_def
      oneway_burst_started_fresh_def not_less not_le)

theorem oneway_windows_wrap_safe_witness:
  "oneway_burst_started_fresh (clock (2 ^ 32 - 5)) (clock (2 ^ 32 + 5)) 10"
  using oneway_windows_wrap_safe [where ?t0.0 = "2 ^ 32 - 5" and ?t1.0 = "2 ^ 32 - 5" and ?t2.0 = "2 ^ 32 + 5" and quiet = 10]
  by (simp add: clock_def)

end
