(* ===== verification/Sequence_Store.thy ===== *)
theory Sequence_Store
  imports Constants
begin

text \<open>
  The rolling sequence counters of the one-way controller identities
  (\<open>oneway_sequence_store.h\<close>, \<open>oneway_sequence_store.cpp\<close>), with the flash they are reserved in.

  The store is the vector of counters and the persisted preferences, keyed by the hash the code
  derives from the node address. Whether a write reaches the flash is decided outside: a failed write
  may or may not have taken effect (\<open>save\<close> succeeds, \<open>sync\<close> fails), so it has two outcomes. A
  reboot loses the counters, keeps the flash and registers the configured identities again.
\<close>

section \<open>Definitions\<close>

abbreviation (input) ONEWAY_SEQUENCE_ACCEPTANCE_WINDOW :: nat where "ONEWAY_SEQUENCE_ACCEPTANCE_WINDOW \<equiv> 1000"
abbreviation (input) ONEWAY_SEQUENCE_STRIDE :: nat where "ONEWAY_SEQUENCE_STRIDE \<equiv> 8"
abbreviation (input) ONEWAY_SEQUENCE_REBOOT_HEADROOM :: nat where "ONEWAY_SEQUENCE_REBOOT_HEADROOM \<equiv> 8"

abbreviation (input) FNV1_OFFSET_BASIS :: u32 where "FNV1_OFFSET_BASIS \<equiv> 2166136261"
abbreviation (input) FNV1_PRIME :: u32 where "FNV1_PRIME \<equiv> 16777619"

definition fnv_step :: "u32 \<Rightarrow> u8 \<Rightarrow> u32" where
  "fnv_step h b = (h XOR ucast b) * FNV1_PRIME"

definition preference_key :: "bytes \<Rightarrow> u32" where
  "preference_key node = foldl fnv_step (fnv_step (fnv_step FNV1_OFFSET_BASIS 0x31) 0x57) node"

record seq_counter =
  sc_node :: node_id
  sc_next :: u16
  sc_reserved :: u16

record seq_store =
  ss_counters :: "seq_counter list"
  ss_flash :: "u32 \<Rightarrow> u16 option"

datatype persist_outcome = Persisted | Not_Written | Written_Unsynced

fun persist :: "persist_outcome \<Rightarrow> u32 \<Rightarrow> u16 \<Rightarrow> (u32 \<Rightarrow> u16 option) \<Rightarrow> bool \<times> (u32 \<Rightarrow> u16 option)" where
  "persist Persisted key v flash = (True, flash(key \<mapsto> v))"
| "persist Not_Written key v flash = (False, flash)"
| "persist Written_Unsynced key v flash = (False, flash(key \<mapsto> v))"

definition find_counter :: "seq_counter list \<Rightarrow> node_id \<Rightarrow> seq_counter option" where
  "find_counter cs node = find (\<lambda>c. sc_node c = node) cs"

fun update_counter :: "node_id \<Rightarrow> seq_counter \<Rightarrow> seq_counter list \<Rightarrow> seq_counter list" where
  "update_counter node c' [] = []"
| "update_counter node c' (c # cs) = (if sc_node c = node then c' # cs else c # update_counter node c' cs)"

definition add_identity :: "node_id \<Rightarrow> u16 \<Rightarrow> seq_store \<Rightarrow> seq_store" where
  "add_identity node initial_sequence s =
     (case find_counter (ss_counters s) node of
        Some c \<Rightarrow> s
      | None \<Rightarrow>
          let start = (case ss_flash s (preference_key node) of
                         Some persisted \<Rightarrow> if persisted > initial_sequence then persisted else initial_sequence
                       | None \<Rightarrow> initial_sequence)
          in s\<lparr>ss_counters := ss_counters s @ [\<lparr>sc_node = node, sc_next = start, sc_reserved = start\<rparr>]\<rparr>)"

definition seq_next :: "persist_outcome \<Rightarrow> node_id \<Rightarrow> seq_store \<Rightarrow> u16 option \<times> seq_store" where
  "seq_next outcome node s =
     (case find_counter (ss_counters s) node of
        None \<Rightarrow> (None, s)
      | Some counter \<Rightarrow>
          let new_reservation = sc_next counter + of_nat ONEWAY_SEQUENCE_STRIDE;
              (ok, flash) = (if sc_next counter = sc_reserved counter
                             then persist outcome (preference_key node) new_reservation (ss_flash s)
                             else (True, ss_flash s));
              reserved = (if sc_next counter = sc_reserved counter then new_reservation else sc_reserved counter)
          in if \<not> ok then (None, s\<lparr>ss_flash := flash\<rparr>)
             else (Some (sc_next counter),
                   \<lparr>ss_counters = update_counter node
                      (counter\<lparr>sc_next := sc_next counter + 1, sc_reserved := reserved\<rparr>) (ss_counters s),
                    ss_flash = flash\<rparr>))"

definition seq_seed :: "persist_outcome \<Rightarrow> node_id \<Rightarrow> u16 \<Rightarrow> seq_store \<Rightarrow> bool \<times> seq_store" where
  "seq_seed outcome node v s =
     (case find_counter (ss_counters s) node of
        None \<Rightarrow> (False, s)
      | Some counter \<Rightarrow>
          (case persist outcome (preference_key node) v (ss_flash s) of
             (False, flash) \<Rightarrow> (False, s\<lparr>ss_flash := flash\<rparr>)
           | (True, flash) \<Rightarrow>
               (True, \<lparr>ss_counters = update_counter node (counter\<lparr>sc_next := v, sc_reserved := v\<rparr>) (ss_counters s),
                       ss_flash = flash\<rparr>)))"

definition seq_peek :: "node_id \<Rightarrow> seq_store \<Rightarrow> u16 option" where
  "seq_peek node s = map_option sc_next (find_counter (ss_counters s) node)"

section \<open>Histories with crashes\<close>

text \<open>
  \<open>config\<close> lists the identities and their \<open>initial_sequence\<close>, as the generated code registers them at
  setup. The log collects what \<open>seq_next\<close> handed out.
\<close>

type_synonym seq_config = "(node_id \<times> u16) list"

datatype seq_event = Next persist_outcome node_id | Reboot

definition boot :: "seq_config \<Rightarrow> seq_store \<Rightarrow> seq_store" where
  "boot config s = fold (\<lambda>(node, i). add_identity node i) config (s\<lparr>ss_counters := []\<rparr>)"

fun seq_exec :: "seq_config \<Rightarrow> seq_event \<Rightarrow> seq_store \<times> (node_id \<times> u16) list \<Rightarrow> seq_store \<times> (node_id \<times> u16) list" where
  "seq_exec config (Next outcome node) (s, log) =
     (case seq_next outcome node s of
        (None, s') \<Rightarrow> (s', log)
      | (Some v, s') \<Rightarrow> (s', log @ [(node, v)]))"
| "seq_exec config Reboot (s, log) = (boot config s, log)"

definition seq_history :: "seq_config \<Rightarrow> seq_event list \<Rightarrow> seq_store \<times> (node_id \<times> u16) list" where
  "seq_history config events =
     fold (seq_exec config) events (boot config \<lparr>ss_counters = [], ss_flash = Map.empty\<rparr>, [])"

definition handed_out :: "node_id \<Rightarrow> (node_id \<times> u16) list \<Rightarrow> nat list" where
  "handed_out node log = map (unat \<circ> snd) (filter (\<lambda>(m, v). m = node) log)"

definition reboots :: "seq_event list \<Rightarrow> nat" where
  "reboots events = length (filter (\<lambda>e. e = Reboot) events)"

fun event_node_ok :: "seq_event \<Rightarrow> bool" where
  "event_node_ok (Next outcome node) \<longleftrightarrow> length node = NODE_ID_SIZE"
| "event_node_ok Reboot \<longleftrightarrow> True"

section \<open>Counters\<close>

lemma find_counter_node: "find_counter cs node = Some c \<Longrightarrow> sc_node c = node"
  by (auto simp: find_counter_def find_Some_iff)

lemma find_update_same:
  "find_counter cs node = Some c \<Longrightarrow> sc_node c' = node \<Longrightarrow> find_counter (update_counter node c' cs) node = Some c'"
  by (induction cs) (auto simp: find_counter_def split: if_splits)

lemma find_update_fields:
  assumes "find_counter cs n = Some c"
  shows "find_counter (update_counter n (c\<lparr>sc_next := x, sc_reserved := y\<rparr>) cs) n = Some (c\<lparr>sc_next := x, sc_reserved := y\<rparr>)"
    and "find_counter (update_counter n (c\<lparr>sc_next := x\<rparr>) cs) n = Some (c\<lparr>sc_next := x\<rparr>)"
  using find_counter_node [OF assms] by (simp_all add: find_update_same [OF assms])

lemma find_update_other:
  "m \<noteq> node \<Longrightarrow> sc_node c' = node \<Longrightarrow> find_counter (update_counter node c' cs) m = find_counter cs m"
  by (induction cs) (auto simp: find_counter_def)

lemma flash_add_identity [simp]: "ss_flash (add_identity node i s) = ss_flash s"
  by (simp add: add_identity_def Let_def split: option.split)

definition start_value :: "u16 \<Rightarrow> u16 option \<Rightarrow> u16" where
  "start_value i p = (case p of Some v \<Rightarrow> if v > i then v else i | None \<Rightarrow> i)"

lemma find_append: "find_counter (xs @ ys) m = (case find_counter xs m of None \<Rightarrow> find_counter ys m | Some c \<Rightarrow> Some c)"
  by (induction xs) (auto simp: find_counter_def)

lemma find_counter_single: "find_counter [c] m = (if sc_node c = m then Some c else None)"
  by (simp add: find_counter_def)

lemma find_add_identity:
  "find_counter (ss_counters (add_identity node i s)) m =
     (case find_counter (ss_counters s) m of
        Some c \<Rightarrow> Some c
      | None \<Rightarrow> if m = node
                then Some \<lparr>sc_node = node, sc_next = start_value i (ss_flash s (preference_key node)),
                           sc_reserved = start_value i (ss_flash s (preference_key node))\<rparr>
                else None)"
  by (auto simp: add_identity_def Let_def find_append start_value_def find_counter_single split: option.split)

lemma find_boot_fold:
  "find_counter (ss_counters (fold (\<lambda>(node, i). add_identity node i) config s)) m =
     (case find_counter (ss_counters s) m of
        Some c \<Rightarrow> Some c
      | None \<Rightarrow> map_option (\<lambda>i. \<lparr>sc_node = m, sc_next = start_value i (ss_flash s (preference_key m)),
                                   sc_reserved = start_value i (ss_flash s (preference_key m))\<rparr>) (map_of config m))
   \<and> ss_flash (fold (\<lambda>(node, i). add_identity node i) config s) = ss_flash s"
  by (induction config arbitrary: s) (auto simp: find_add_identity split: option.split)

lemma boot_flash [simp]: "ss_flash (boot config s) = ss_flash s"
  using find_boot_fold [of config "s\<lparr>ss_counters := []\<rparr>"] by (simp add: boot_def)

lemma boot_find: "map_of config m = Some i \<Longrightarrow>
    find_counter (ss_counters (boot config s)) m =
      Some \<lparr>sc_node = m, sc_next = start_value i (ss_flash s (preference_key m)),
            sc_reserved = start_value i (ss_flash s (preference_key m))\<rparr>"
  using find_boot_fold [of config "s\<lparr>ss_counters := []\<rparr>" m] by (simp add: boot_def find_counter_def)

section \<open>Preference keys do not collide\<close>

text \<open>
  The hash multiplies by the odd FNV prime modulo \<open>2 ^ 32\<close>, so a difference of two keys is a combination
  of three small byte differences; bounding it shows that it vanishes only when all three do.
\<close>

lemma fnv_small_cases:
  fixes d s t k :: int
  assumes k: "16777216 * k = t - 162409 * d - 403 * s"
    and bounds: "\<bar>d\<bar> \<le> 255" "\<bar>s\<bar> \<le> 510" "\<bar>t\<bar> \<le> 255"
  shows "(38 * d + s - k) mod 256 = 0 \<Longrightarrow> d = 0 \<and> s = 0 \<and> t = 0"
proof -
  assume m: "(38 * d + s - k) mod 256 = 0"
  have b: "- 255 \<le> d" "d \<le> 255" "- 510 \<le> s" "s \<le> 510" "- 255 \<le> t" "t \<le> 255"
    using bounds by linarith+
  have "- 2 \<le> k" "k \<le> 2" using k b by linarith+
  then consider "k = -2" | "k = -1" | "k = 0" | "k = 1" | "k = 2" by linarith
  then show ?thesis
  proof cases
    case 1
    have "206 \<le> d" "d \<le> 207" using k b unfolding 1 by linarith+
    then consider "d = 206" | "d = 207" by linarith
    then have "d = 206 \<and> (s = 243 \<or> s = 244) \<or> d = 207 \<and> (s = -160 \<or> s = -159)"
      using k b unfolding 1 by cases (simp; linarith)+
    then show ?thesis using m unfolding 1 by (elim disjE conjE) simp_all
  next
    case 2
    have "103 \<le> d" "d \<le> 104" using k b unfolding 2 by linarith+
    then consider "d = 103" | "d = 104" by linarith
    then have "d = 103 \<and> s = 122 \<or> d = 104 \<and> s = -281"
      using k b unfolding 2 by cases (simp; linarith)+
    then show ?thesis using m unfolding 2 by (elim disjE conjE) simp_all
  next
    case 3
    have "-1 \<le> d" "d \<le> 1" using k b unfolding 3 by linarith+
    then consider "d = -1" | "d = 0" | "d = 1" by linarith
    then have "d = -1 \<and> s = 403 \<or> d = 0 \<and> s = 0 \<or> d = 1 \<and> s = -403"
      using k b unfolding 3 by cases (simp; linarith)+
    then show ?thesis using m k unfolding 3 by (elim disjE conjE) simp_all
  next
    case 4
    have "-104 \<le> d" "d \<le> -103" using k b unfolding 4 by linarith+
    then consider "d = -104" | "d = -103" by linarith
    then have "d = -104 \<and> s = 281 \<or> d = -103 \<and> s = -122"
      using k b unfolding 4 by cases (simp; linarith)+
    then show ?thesis using m unfolding 4 by (elim disjE conjE) simp_all
  next
    case 5
    have "-207 \<le> d" "d \<le> -206" using k b unfolding 5 by linarith+
    then consider "d = -207" | "d = -206" by linarith
    then have "d = -207 \<and> (s = 159 \<or> s = 160) \<or> d = -206 \<and> (s = -244 \<or> s = -243)"
      using k b unfolding 5 by cases (simp; linarith)+
    then show ?thesis using m unfolding 5 by (elim disjE conjE) simp_all
  qed
qed

lemma uint_div_256: "uint (drop_bit 8 (v :: u32)) = uint v div 256"
proof -
  have "take_bit 32 (uint v) = uint v" using take_bit_int_eq_self [of "uint v" 32] unsigned_less [of v] by simp
  then show ?thesis by (simp only: unsigned_drop_bit_eq) (simp add: drop_bit_eq_div)
qed

lemma xor_byte_int: "\<exists>t :: int. \<bar>t\<bar> \<le> 255 \<and> w XOR ucast (x :: u8) = w + (of_int t :: u32)"
proof -
  let ?v = "w XOR ucast x"
  have "drop_bit 8 ?v = drop_bit 8 w"
    by (rule bit_word_eqI) (auto simp: bit_simps dest: bit_imp_le_length)
  then have "uint (drop_bit 8 ?v) = uint (drop_bit 8 w)" by simp
  then have "uint ?v div 256 = uint w div 256" by (simp only: uint_div_256)
  then have "\<bar>uint ?v - uint w\<bar> \<le> 255" by linarith
  moreover have "?v = w + of_int (uint ?v - uint w)" by simp
  ultimately show ?thesis by blast
qed

lemma fnv_prime_cancel:
  assumes "a * 16777619 = b * (16777619 :: u32)"
  shows "a = b"
proof -
  have one: "(16777619 :: u32) * 899433627 = 1" by simp
  have "a * 16777619 * 899433627 = b * 16777619 * 899433627" by (simp only: assms)
  then show ?thesis by (simp only: mult.assoc one mult_1_right)
qed

lemma xor_byte_cancel: "w XOR ucast (x :: u8) = (w :: u32) XOR ucast y \<longleftrightarrow> x = y"
proof
  assume "w XOR ucast x = w XOR ucast y"
  then have "w XOR (w XOR ucast x) = w XOR (w XOR ucast y)" by simp
  then have "(ucast x :: u32) = ucast y" by (simp add: xor.assoc [symmetric])
  then have "(ucast (ucast x :: u32) :: u8) = ucast (ucast y :: u32)" by simp
  moreover have "(ucast (ucast z :: u32) :: u8) = z" for z by (rule bit_word_eqI) (simp add: bit_simps)
  ultimately show "x = y" by simp
qed simp

lemma xor_byte_move: "v XOR ucast (a :: u8) = (w :: u32) XOR ucast b \<Longrightarrow> v = w XOR ucast (a XOR b)"
  proof -
  assume *: "v XOR ucast a = w XOR ucast b"
  have "v = (v XOR ucast a) XOR ucast a" by (simp add: xor.assoc)
  also have "\<dots> = w XOR ucast (a XOR b)" unfolding * by (simp add: unsigned_xor_eq ac_simps)
  finally show ?thesis .
qed

lemma of_int_zero_mod: "(of_int x :: u32) = 0 \<Longrightarrow> \<exists>z. x = 4294967296 * z"
  by (simp add: word_of_int_eq_0_iff dvd_def)

lemma fnv_zero_mod:
  assumes "(of_int (d * 637696617 + s * 16777619 - t) :: u32) = 0" "\<bar>d\<bar> \<le> 255" "\<bar>s\<bar> \<le> 510" "\<bar>t\<bar> \<le> 255"
  shows "d = 0 \<and> s = 0 \<and> t = 0"
proof -
  obtain z where z: "d * 637696617 + s * 16777619 - t = 4294967296 * z"
    using of_int_zero_mod [OF assms(1)] by blast
  define k where "k = 38 * d + s - 256 * z"
  have "16777216 * k = t - 162409 * d - 403 * s" using z by (simp add: k_def)
  moreover have "(38 * d + s - k) mod 256 = 0" by (simp add: k_def)
  ultimately show ?thesis using fnv_small_cases [of k t d s] assms(2-4) by simp
qed

lemma preference_key_inj:
  assumes "length m = 3" "length n = 3" "preference_key m = preference_key n"
  shows "m = n"
proof -
  obtain a b c where m: "m = [a, b, c]" using length_3E [OF assms(1)] .
  obtain a' b' c' where n: "n = [a', b', c']" using length_3E [OF assms(2)] .
  define h where "h = fnv_step (fnv_step 2166136261 0x31) 0x57"
  define u u' where "u = fnv_step h a" and "u' = fnv_step h a'"
  define v v' where "v = fnv_step u b" and "v' = fnv_step u' b'"
  have "fnv_step v c = fnv_step v' c'"
    using assms(3) by (simp add: preference_key_def m n u_def u'_def v_def v'_def h_def)
  then have "v XOR ucast c = v' XOR ucast c'" unfolding fnv_step_def by (rule fnv_prime_cancel)
  then have "v = v' XOR ucast (c XOR c')" by (rule xor_byte_move)
  then obtain t where t: "\<bar>t\<bar> \<le> 255" "v = v' + of_int t" using xor_byte_int by metis
  obtain p q p' q' where p: "\<bar>p\<bar> \<le> 255" "h XOR ucast a = h + of_int p" "\<bar>p'\<bar> \<le> 255" "h XOR ucast a' = h + of_int p'"
    and q: "\<bar>q\<bar> \<le> 255" "u XOR ucast b = u + of_int q" "\<bar>q'\<bar> \<le> 255" "u' XOR ucast b' = u' + of_int q'"
    using xor_byte_int by metis
  obtain r where r: "\<bar>r\<bar> \<le> 255" "h XOR ucast a = (h XOR ucast a') + of_int r"
    using xor_byte_int [of "h XOR ucast a'" "a XOR a'"] xor_byte_move [of "h XOR ucast a" a "h XOR ucast a'" a']
    by (simp only: word_xor_cancel) metis
  have "u = u' + of_int r * 16777619" by (simp add: u_def u'_def fnv_step_def r distrib_right)
  then have vv: "v = v' + (of_int r * 16777619 + of_int (q - q')) * 16777619"
    using q by (simp only: v_def v'_def fnv_step_def) (simp add: algebra_simps)
  have square: "(281488499309161 :: u32) = 637696617" by simp
  have "of_int r * 16777619 * 16777619 + of_int (q - q') * 16777619 - of_int t = (0 :: u32)"
    using t vv by (simp add: algebra_simps)
  then have "(of_int (r * 637696617 + (q - q') * 16777619 - t) :: u32) = 0"
    using square by (simp add: algebra_simps)
  then have "r = 0 \<and> q - q' = 0 \<and> t = 0" using t(1) q r(1) by (intro fnv_zero_mod) linarith+
  then have "a = a'" "v = v'" using r t xor_byte_cancel by auto
  then have "u = u'" "b = b'" "c = c'"
    using \<open>v XOR ucast c = v' XOR ucast c'\<close> fnv_prime_cancel [of "u XOR ucast b" "u' XOR ucast b'"]
    by (auto simp: v_def v'_def u_def u'_def fnv_step_def xor_byte_cancel)
  then show ?thesis by (simp add: m n \<open>a = a'\<close>)
qed

section \<open>A counter never falls behind what it handed out\<close>

definition counter_inv :: "u16 \<Rightarrow> node_id \<Rightarrow> seq_store \<times> (node_id \<times> u16) list \<Rightarrow> bool" where
  "counter_inv i node st \<longleftrightarrow>
     (\<exists>c. find_counter (ss_counters (fst st)) node = Some c
        \<and> i \<le> sc_next c
        \<and> sorted_wrt (<) (handed_out node (snd st))
        \<and> (\<forall>v \<in> set (handed_out node (snd st)). unat i \<le> v \<and> v < unat (sc_next c))
        \<and> (case ss_flash (fst st) (preference_key node) of
             None \<Rightarrow> sc_next c = i \<and> sc_reserved c = i
           | Some f \<Rightarrow> sc_next c \<le> sc_reserved c \<and> sc_reserved c \<le> f \<and> unat f \<le> unat (sc_next c) + 8))"

definition next_of :: "node_id \<Rightarrow> seq_store \<Rightarrow> nat" where
  "next_of node s = (case seq_peek node s of Some v \<Rightarrow> unat v | None \<Rightarrow> 0)"

lemma handed_out_snoc:
  "handed_out n (log @ [(m, v)]) = handed_out n log @ (if m = n then [unat v] else [])"
  by (simp add: handed_out_def)

lemma unat_plus_8: "unat (w :: u16) + 8 < 65536 \<Longrightarrow> unat (w + 8) = unat w + 8"
  using unat_add_lem [of w 8] by simp

lemma unat_plus_1: "unat (w :: u16) + 8 < 65536 \<Longrightarrow> unat (w + 1) = unat w + 1"
  using unat_add_lem [of w 1] by simp

lemma persist_other: "persist outcome key v flash = (ok, flash') \<Longrightarrow> k \<noteq> key \<Longrightarrow> flash' k = flash k"
  by (cases outcome) auto

lemma seq_next_other:
  assumes "length m = 3" "length n = 3" "m \<noteq> n" "seq_next outcome m s = (r, s')"
  shows "find_counter (ss_counters s') n = find_counter (ss_counters s) n \<and>
         ss_flash s' (preference_key n) = ss_flash s (preference_key n)"
proof -
  have key: "preference_key n \<noteq> preference_key m" using preference_key_inj assms(1-3) by metis
  show ?thesis
    using assms(3,4) key
    by (auto simp: seq_next_def Let_def find_update_other dest: find_counter_node persist_other
        split: option.splits prod.splits if_splits)
qed

text \<open>The three ways a call on a registered identity can end.\<close>

lemma seq_next_within_block:
  "find_counter (ss_counters s) n = Some c \<Longrightarrow> sc_next c \<noteq> sc_reserved c \<Longrightarrow>
   seq_next outcome n s = (Some (sc_next c),
     \<lparr>ss_counters = update_counter n (c\<lparr>sc_next := sc_next c + 1\<rparr>) (ss_counters s), ss_flash = ss_flash s\<rparr>)"
  by (simp add: seq_next_def)

lemma seq_next_new_block:
  "find_counter (ss_counters s) n = Some c \<Longrightarrow> sc_next c = sc_reserved c \<Longrightarrow>
   seq_next Persisted n s = (Some (sc_next c),
     \<lparr>ss_counters = update_counter n (c\<lparr>sc_next := sc_next c + 1, sc_reserved := sc_next c + 8\<rparr>) (ss_counters s),
      ss_flash = (ss_flash s)(preference_key n \<mapsto> sc_next c + 8)\<rparr>)"
  by (simp add: seq_next_def Let_def)

lemma seq_next_refused:
  "find_counter (ss_counters s) n = Some c \<Longrightarrow> sc_next c = sc_reserved c \<Longrightarrow>
   seq_next Not_Written n s = (None, s) \<and>
   seq_next Written_Unsynced n s = (None, s\<lparr>ss_flash := (ss_flash s)(preference_key n \<mapsto> sc_next c + 8)\<rparr>)"
  by (simp add: seq_next_def Let_def)

lemma counter_inv_next_same:
  assumes inv: "counter_inv i n (s, log)" and room: "next_of n s + 8 < 65536"
    and call: "seq_next outcome n s = (r, s')"
  shows "counter_inv i n (s', case r of None \<Rightarrow> log | Some v \<Rightarrow> log @ [(n, v)])
         \<and> next_of n s' = next_of n s + (case r of None \<Rightarrow> 0 | Some v \<Rightarrow> 1)"
proof -
  obtain c where c: "find_counter (ss_counters s) n = Some c" using inv by (auto simp: counter_inv_def)
  have room': "unat (sc_next c) + 8 < 65536" using room c by (simp add: next_of_def seq_peek_def)
  note plus = unat_plus_8 [OF room'] unat_plus_1 [OF room']
  note upd = find_update_fields [OF c]
  have out: "sorted_wrt (<) (handed_out n log)" "\<forall>v \<in> set (handed_out n log). unat i \<le> v \<and> v < unat (sc_next c)"
    "i \<le> sc_next c"
    using inv c by (auto simp: counter_inv_def)
  have below: "\<forall>v \<in> set (handed_out n log). unat i \<le> v \<and> v < Suc (unat (sc_next c))"
    using out(2) by (auto intro: less_SucI)
  have sorted: "sorted_wrt (<) (handed_out n log @ [unat (sc_next c)])" using out by (simp add: sorted_wrt_append)
  show ?thesis
  proof (cases "sc_next c = sc_reserved c")
    case True
    note eq = seq_next_new_block [OF c True] seq_next_refused [OF c True]
    show ?thesis
    proof (cases outcome)
      case Persisted
      then show ?thesis
        using call True plus out below sorted by (auto simp: eq counter_inv_def next_of_def seq_peek_def handed_out_snoc
            upd word_le_nat_alt c)
    next
      case Not_Written
      then show ?thesis using call inv by (auto simp: eq)
    next
      case Written_Unsynced
      then show ?thesis
        using call True plus out by (auto simp: eq counter_inv_def next_of_def seq_peek_def word_le_nat_alt c)
    qed
  next
    case False
    then obtain f where f: "ss_flash s (preference_key n) = Some f" "sc_next c < sc_reserved c"
        "sc_reserved c \<le> f" "unat f \<le> unat (sc_next c) + 8"
      using inv c by (cases "ss_flash s (preference_key n)") (auto simp: counter_inv_def)
    then show ?thesis
      using call plus out below sorted
      by (auto simp: seq_next_within_block [OF c False] counter_inv_def next_of_def seq_peek_def handed_out_snoc
           upd word_le_nat_alt word_less_nat_alt c)
  qed
qed

lemma counter_inv_boot:
  assumes "counter_inv i n (s, log)" "map_of config n = Some i"
  shows "counter_inv i n (boot config s, log) \<and> next_of n (boot config s) \<le> next_of n s + 8
         \<and> next_of n s \<le> next_of n (boot config s)"
  using assms boot_find [OF assms(2), of s]
  by (fastforce simp: counter_inv_def next_of_def seq_peek_def start_value_def word_le_nat_alt word_less_nat_alt
      split: option.splits)

lemma counter_inv_exec:
  assumes inv: "counter_inv i n (s, log)" and n: "length n = NODE_ID_SIZE" and config: "map_of config n = Some i"
    and event: "event_node_ok e" and room: "next_of n s + 8 < 65536" and step: "seq_exec config e (s, log) = (s', log')"
  shows "counter_inv i n (s', log')
    \<and> next_of n s' + length (handed_out n log) \<le> next_of n s + length (handed_out n log') + (if e = Reboot then 8 else 0)
    \<and> length (handed_out n log) \<le> length (handed_out n log') \<and> length (handed_out n log') \<le> length (handed_out n log) + (if e = Reboot then 0 else 1)
    \<and> next_of n s \<le> next_of n s'"
proof (cases e)
  case Reboot
  then show ?thesis using counter_inv_boot [OF inv config] step by auto
next
  case (Next outcome m)
  obtain r s1 where call: "seq_next outcome m s = (r, s1)" by (cases "seq_next outcome m s")
  show ?thesis
  proof (cases "m = n")
    case True
    then show ?thesis
      using counter_inv_next_same [OF inv room, of outcome r s1] call step Next
      by (cases r) (auto simp: handed_out_snoc)
  next
    case False
    have "find_counter (ss_counters s1) n = find_counter (ss_counters s) n"
      "ss_flash s1 (preference_key n) = ss_flash s (preference_key n)"
      using seq_next_other [OF _ _ False call] n event Next by simp_all
    then show ?thesis
      using inv call step Next False
      by (cases r) (auto simp: counter_inv_def next_of_def seq_peek_def handed_out_snoc)
  qed
qed

lemma counter_inv_fold:
  assumes inv: "counter_inv i n st" and n: "length n = NODE_ID_SIZE" and config: "map_of config n = Some i"
    and events: "list_all event_node_ok es"
    and room: "next_of n (fst st) + length es + 7 * reboots es + 8 < 65536"
  shows "counter_inv i n (fold (seq_exec config) es st)
    \<and> next_of n (fst (fold (seq_exec config) es st)) + length (handed_out n (snd st))
        \<le> next_of n (fst st) + length (handed_out n (snd (fold (seq_exec config) es st))) + 8 * reboots es
    \<and> length (handed_out n (snd (fold (seq_exec config) es st))) + reboots es \<le> length (handed_out n (snd st)) + length es"
  using inv events room
proof (induction es arbitrary: st)
  case Nil
  then show ?case by (simp add: reboots_def)
next
  case (Cons e es)
  obtain s log s' log' where st: "st = (s, log)" and step: "seq_exec config e (s, log) = (s', log')"
    by (metis surj_pair)
  have reb: "reboots (e # es) = reboots es + (if e = Reboot then 1 else 0)" by (simp add: reboots_def)
  have "next_of n s + 8 < 65536" using Cons.prems st by simp
  then have one: "counter_inv i n (s', log')"
    "next_of n s' + length (handed_out n log) \<le> next_of n s + length (handed_out n log') + (if e = Reboot then 8 else 0)"
    "length (handed_out n log) \<le> length (handed_out n log')"
    "length (handed_out n log') \<le> length (handed_out n log) + (if e = Reboot then 0 else 1)"
    using counter_inv_exec [OF _ n config _ _ step] Cons.prems st by auto
  have "next_of n s' + length es + 7 * reboots es + 8 < 65536"
    using Cons.prems(3) one(2-4) st reb by (cases "e = Reboot") simp_all
  then have rest: "counter_inv i n (fold (seq_exec config) es (s', log'))
    \<and> next_of n (fst (fold (seq_exec config) es (s', log'))) + length (handed_out n log')
        \<le> next_of n s' + length (handed_out n (snd (fold (seq_exec config) es (s', log')))) + 8 * reboots es
    \<and> length (handed_out n (snd (fold (seq_exec config) es (s', log')))) + reboots es \<le> length (handed_out n log') + length es"
    using Cons.IH [of "(s', log')"] one(1) Cons.prems(2) by simp
  have fold: "fold (seq_exec config) (e # es) st = fold (seq_exec config) es (s', log')"
    by (simp add: st step)
  show ?case
    unfolding fold reb using rest one(2-4) by (cases "e = Reboot") (simp_all add: st)
qed

lemma counter_inv_start:
  assumes "map_of config n = Some i"
  shows "counter_inv i n (boot config \<lparr>ss_counters = [], ss_flash = Map.empty\<rparr>, [])
    \<and> next_of n (boot config \<lparr>ss_counters = [], ss_flash = Map.empty\<rparr>) = unat i"
  by (simp add: counter_inv_def boot_find [OF assms] start_value_def next_of_def seq_peek_def handed_out_def)

lemma seq_history_sound:
  assumes "map_of config n = Some i" "length n = NODE_ID_SIZE" "list_all event_node_ok events"
    and "unat i + length events + 7 * reboots events + 8 < 65536"
    and "seq_history config events = (s, log)"
  shows "counter_inv i n (s, log) \<and> next_of n s \<le> unat i + length (handed_out n log) + 8 * reboots events"
proof -
  let ?st = "(boot config \<lparr>ss_counters = [], ss_flash = Map.empty\<rparr>, [])"
  have start: "counter_inv i n ?st" "next_of n (fst ?st) = unat i"
    using counter_inv_start [OF assms(1)] by simp_all
  show ?thesis
    using counter_inv_fold [OF start(1) assms(2,1,3)] start(2) assms(4,5)
    by (simp_all add: seq_history_def handed_out_def)
qed

section \<open>Properties\<close>

text \<open>The persisted counter of an identity follows its address alone: the preference keys of two
  different three-byte node addresses differ, so no identity can resume from, or overwrite, the
  counter of another.\<close>

theorem preference_keys_distinct:
  assumes "length m = NODE_ID_SIZE" "length n = NODE_ID_SIZE" "m \<noteq> n"
  shows "preference_key m \<noteq> preference_key n"
  using preference_key_inj assms by auto

theorem preference_keys_distinct_witness:
  "preference_key [0x01, 0x02, 0x03] \<noteq> preference_key [0x01, 0x03, 0x02]"
  by (rule preference_keys_distinct) simp_all

text \<open>C12. No sequence is ever handed out twice. Take any interleaving of sends by any identities with
  reboots, any of whose flash writes fail (with the value lost, or written but not confirmed). Until
  the 16-bit counter wraps, the values an identity was handed are strictly increasing, start no lower
  than its \<open>initial_sequence\<close>, and the counter has advanced by no more than one per value handed out
  plus one stride per reboot.\<close>

theorem sequences_never_reused:
  assumes "map_of config n = Some i" "length n = NODE_ID_SIZE" "list_all event_node_ok events"
    and "unat i + length events + 7 * reboots events + 8 < 65536"
    and "seq_history config events = (s, log)"
  shows "sorted_wrt (<) (handed_out n log) \<and> (\<forall>v \<in> set (handed_out n log). unat i \<le> v)
    \<and> (\<exists>w. seq_peek n s = Some w \<and> (\<forall>v \<in> set (handed_out n log). v < unat w)
           \<and> unat w \<le> unat i + length (handed_out n log) + ONEWAY_SEQUENCE_STRIDE * reboots events)"
  using seq_history_sound [OF assms] by (auto simp: counter_inv_def next_of_def seq_peek_def)

theorem sequences_never_reused_witness:
  "sorted_wrt (<) (handed_out [1, 2, 3] (snd (seq_history [([1, 2, 3], 100)]
     [Next Persisted [1, 2, 3], Reboot, Next Written_Unsynced [1, 2, 3], Reboot, Next Persisted [1, 2, 3]])))"
proof -
  let ?es = "[Next Persisted [1, 2, 3], Reboot, Next Written_Unsynced [1, 2, 3], Reboot, Next Persisted [1, 2, 3]]"
  obtain s log where h: "seq_history [([1, 2, 3], 100)] ?es = (s, log)" by (metis surj_pair)
  have "sorted_wrt (<) (handed_out [1, 2, 3] log) \<and> (\<forall>v \<in> set (handed_out [1, 2, 3] log). unat (100 :: u16) \<le> v)
    \<and> (\<exists>w. seq_peek [1, 2, 3] s = Some w \<and> (\<forall>v \<in> set (handed_out [1, 2, 3] log). v < unat w)
           \<and> unat w \<le> unat (100 :: u16) + length (handed_out [1, 2, 3] log) + ONEWAY_SEQUENCE_STRIDE * reboots ?es)"
    by (rule sequences_never_reused [OF _ _ _ _ h]) (simp_all add: reboots_def)
  then show ?thesis using h by simp
qed

text \<open>The stride keeps an identity inside a device's acceptance window: after a value was handed out,
  up to \<open>ONEWAY_SEQUENCE_REBOOT_HEADROOM\<close> reboots with no further successful send for the identity
  leave the next value ahead of the last one by less than \<open>ONEWAY_SEQUENCE_ACCEPTANCE_WINDOW\<close>.\<close>

theorem reboots_stay_in_window:
  assumes "map_of config n = Some i" "length n = NODE_ID_SIZE"
    and "list_all event_node_ok (before @ Next Persisted n # after)"
    and "unat i + length (before @ Next Persisted n # after) + 7 * reboots (before @ Next Persisted n # after) + 8 < 65536"
    and "seq_history config before = (s, log)" "seq_peek n s = Some v"
    and "reboots after \<le> ONEWAY_SEQUENCE_REBOOT_HEADROOM"
    and "seq_history config (before @ Next Persisted n # after) = (s', log')"
    and "handed_out n log' = handed_out n log @ [unat v]"
  shows "\<exists>w. seq_peek n s' = Some w \<and> unat v < unat w \<and> unat w < unat v + ONEWAY_SEQUENCE_ACCEPTANCE_WINDOW"
proof -
  let ?st = "(boot config \<lparr>ss_counters = [], ss_flash = Map.empty\<rparr>, [])"
  have start: "counter_inv i n ?st" "next_of n (fst ?st) = unat i"
    using counter_inv_start [OF assms(1)] by simp_all
  have split: "reboots (before @ Next Persisted n # after) = reboots before + reboots after" by (simp add: reboots_def)
  have log: "fold (seq_exec config) before ?st = (s, log)" using assms(5) by (simp add: seq_history_def)
  have pre: "counter_inv i n (s, log)" "next_of n s \<le> unat i + length (handed_out n log) + 8 * reboots before"
      "length (handed_out n log) + reboots before \<le> length before"
    using counter_inv_fold [OF start(1) assms(2,1), of before] start(2) assms(3,4) split log
    by (simp_all add: handed_out_def)
  have "fold (seq_exec config) (Next Persisted n # after) (s, log) = (s', log')"
    using assms(8) log by (simp add: seq_history_def)
  moreover have "next_of n s + length (Next Persisted n # after) + 7 * reboots (Next Persisted n # after) + 8 < 65536"
    using pre assms(4) split by (simp add: reboots_def)
  ultimately have post: "counter_inv i n (s', log')"
      "next_of n s' + length (handed_out n log) \<le> next_of n s + length (handed_out n log') + 8 * reboots after"
    using counter_inv_fold [OF pre(1) assms(2,1), of "Next Persisted n # after"] assms(3)
    by (simp_all add: reboots_def)
  have "next_of n s = unat v" using assms(6) by (simp add: next_of_def)
  then have "next_of n s' \<le> unat v + 1 + 8 * reboots after" using post assms(9) by simp
  then show ?thesis using post(1) assms(7,9) by (auto simp: counter_inv_def next_of_def seq_peek_def)
qed

theorem reboots_stay_in_window_witness:
  "\<exists>w. seq_peek [1, 2, 3] (fst (seq_history [([1, 2, 3], 100)] [Next Persisted [1, 2, 3], Reboot, Reboot])) = Some w
       \<and> unat w < 1100"
proof -
  let ?s = "boot [([1, 2, 3], 100)] \<lparr>ss_counters = [], ss_flash = Map.empty\<rparr>"
  obtain s' log' where h: "seq_history [([1, 2, 3], 100)] ([] @ Next Persisted [1, 2, 3] # [Reboot, Reboot]) = (s', log')"
    by (metis surj_pair)
  have log: "handed_out [1, 2, 3] log' = handed_out [1, 2, 3] [] @ [unat (100 :: u16)]"
    using h by (auto simp: seq_history_def boot_def add_identity_def find_counter_def seq_next_def handed_out_def)
  have first: "seq_history [([1, 2, 3], 100)] [] = (?s, [])" by (simp add: seq_history_def)
  have peek: "seq_peek [1, 2, 3] ?s = Some 100"
    by (simp add: boot_def add_identity_def find_counter_def seq_peek_def)
  have "\<exists>w. seq_peek [1, 2, 3] s' = Some w \<and> unat (100 :: u16) < unat w
      \<and> unat w < unat (100 :: u16) + ONEWAY_SEQUENCE_ACCEPTANCE_WINDOW"
    by (rule reboots_stay_in_window [OF _ _ _ _ first peek _ h log, where i = 100]) (simp_all add: reboots_def)
  then show ?thesis using h by auto
qed

text \<open>Past the 16-bit wrap the guarantee is lost: \<open>add_identity\<close> compares plainly, so once the
  reservation has wrapped below \<open>initial_sequence\<close> a reboot resumes from \<open>initial_sequence\<close> and hands
  out a value a device has already accepted.\<close>

theorem reuse_after_wrap:
  "handed_out [1, 2, 3] (snd (seq_history [([1, 2, 3], 65530)]
     (Next Persisted [1, 2, 3] # [Reboot, Next Persisted [1, 2, 3]]))) = [65530, 65530]"
  by (simp add: seq_history_def boot_def add_identity_def find_counter_def seq_next_def handed_out_def)

text \<open>Reserving comes first: a send that cannot make its reservation durable hands out nothing and
  leaves the counter where it was; a value is handed out only below a reservation that is in flash.\<close>

theorem next_reserves_first:
  assumes "seq_next outcome n s = (r, s')" "seq_peek n s = Some v"
  shows "case r of
           None \<Rightarrow> outcome \<noteq> Persisted \<and> seq_peek n s' = Some v \<and> ss_counters s' = ss_counters s
         | Some w \<Rightarrow> w = v \<and> seq_peek n s' = Some (v + 1)
             \<and> (outcome = Persisted \<or> ss_flash s' = ss_flash s)"
proof -
  obtain c where c: "find_counter (ss_counters s) n = Some c" "v = sc_next c"
    using assms(2) by (auto simp: seq_peek_def)
  show ?thesis
  proof (cases "sc_next c = sc_reserved c")
    case True
    note eq = seq_next_new_block [OF c(1) True] seq_next_refused [OF c(1) True]
    show ?thesis using assms(1) c
      by (cases outcome) (auto simp: eq seq_peek_def find_update_fields [OF c(1)])
  next
    case False
    show ?thesis using assms(1) c
      by (auto simp: seq_next_within_block [OF c(1) False] seq_peek_def find_update_fields [OF c(1)])
  qed
qed

theorem next_reserves_first_witness:
  "seq_peek [1, 2, 3] (snd (seq_next Not_Written [1, 2, 3] (boot [([1, 2, 3], 7)] \<lparr>ss_counters = [], ss_flash = Map.empty\<rparr>)))
     = Some 7"
proof -
  let ?s = "boot [([1, 2, 3], 7)] \<lparr>ss_counters = [], ss_flash = Map.empty\<rparr>"
  have call: "seq_next Not_Written [1, 2, 3] ?s = (None, ?s)"
    by (simp add: boot_def add_identity_def find_counter_def seq_next_def)
  have "seq_peek [1, 2, 3] ?s = Some 7"
    by (simp add: boot_def add_identity_def find_counter_def seq_peek_def)
  then show ?thesis using next_reserves_first [OF call] call by simp
qed

end
