(* ===== verification/Poll_Policy.thy ===== *)
theory Poll_Policy
  imports Prelude
begin

text \<open>
  Poll scheduling, failure backoff and follow-up windows of the devices (\<open>status_poll_policy.h\<close>,
  \<open>status_poll_policy.cpp\<close>). The state is the map from device id to \<open>PollTracking\<close>; time stamps are
  the 32-bit values of \<open>millis()\<close> and compare plainly, as in the code.
\<close>

section \<open>Definitions\<close>

abbreviation (input) STATUS_RETRY_AFTER_FAIL_MS :: u32 where "STATUS_RETRY_AFTER_FAIL_MS \<equiv> 5000"
abbreviation (input) STATUS_RETRY_AFTER_FAIL_STEP2_MS :: u32 where "STATUS_RETRY_AFTER_FAIL_STEP2_MS \<equiv> 15000"
abbreviation (input) STATUS_RETRY_AFTER_FAIL_STEP3_MS :: u32 where "STATUS_RETRY_AFTER_FAIL_STEP3_MS \<equiv> 30000"
abbreviation (input) STATUS_RETRY_AFTER_FAIL_STEP4_MS :: u32 where "STATUS_RETRY_AFTER_FAIL_STEP4_MS \<equiv> 60000"
abbreviation (input) STATUS_RETRY_AFTER_FAIL_MAX_MS :: u32 where "STATUS_RETRY_AFTER_FAIL_MAX_MS \<equiv> 300000"
abbreviation (input) STATUS_AUTH_RETRY_AFTER_FAIL_MS :: u32 where "STATUS_AUTH_RETRY_AFTER_FAIL_MS \<equiv> 30000"
abbreviation (input) STATUS_AUTH_RETRY_AFTER_FAIL_STEP2_MS :: u32 where "STATUS_AUTH_RETRY_AFTER_FAIL_STEP2_MS \<equiv> 120000"
abbreviation (input) STATUS_AUTH_RETRY_AFTER_FAIL_MAX_MS :: u32 where "STATUS_AUTH_RETRY_AFTER_FAIL_MAX_MS \<equiv> 300000"
abbreviation (input) MAX_TRACKED_STATUS_POLL_WINDOW_MS :: u32 where "MAX_TRACKED_STATUS_POLL_WINDOW_MS \<equiv> 600000"
abbreviation (input) INITIAL_STATUS_REQUEST_DELAY_MS :: u32 where "INITIAL_STATUS_REQUEST_DELAY_MS \<equiv> 5000"
abbreviation (input) REMOTE_ACTIVITY_STATUS_POLL_DELAY_MS :: u32 where "REMOTE_ACTIVITY_STATUS_POLL_DELAY_MS \<equiv> 2000"
abbreviation (input) ONEWAY_QUIET_PERIOD_MS :: u32 where "ONEWAY_QUIET_PERIOD_MS \<equiv> 700"
abbreviation (input) ONEWAY_POLL_DEFER_CAP_MS :: u32 where "ONEWAY_POLL_DEFER_CAP_MS \<equiv> 5000"
abbreviation (input) DEFAULT_SETTLE_POLL_DELAY_MS :: u32 where "DEFAULT_SETTLE_POLL_DELAY_MS \<equiv> 3000"
abbreviation (input) STOP_SETTLE_POLL_CAP_MS :: u32 where "STOP_SETTLE_POLL_CAP_MS \<equiv> 1000"

definition settle_delay_ms :: "u32 \<Rightarrow> u32 \<Rightarrow> bool \<Rightarrow> u32" where
  "settle_delay_ms interval_ms hint_delay_ms cap_for_stop =
     (let delay = (if interval_ms \<noteq> 0 then interval_ms else DEFAULT_SETTLE_POLL_DELAY_MS);
          delay = (if hint_delay_ms \<noteq> 0 then min delay hint_delay_ms else delay)
      in if cap_for_stop then min delay STOP_SETTLE_POLL_CAP_MS else delay)"

record poll_tracking =
  pt_interval_ms :: u32
  pt_next_update :: u32
  pt_poll_deadline :: u32
  pt_status_poll_failures :: u8
  pt_auth_poll_failures :: u8

definition no_tracking :: poll_tracking where
  "no_tracking = \<lparr>pt_interval_ms = 0, pt_next_update = 0, pt_poll_deadline = 0,
                  pt_status_poll_failures = 0, pt_auth_poll_failures = 0\<rparr>"

type_synonym poll_policy = "(string, poll_tracking) omap"

definition set_interval :: "string \<Rightarrow> u32 \<Rightarrow> poll_policy \<Rightarrow> poll_policy" where
  "set_interval device_id interval_ms p = om_touch no_tracking device_id (\<lambda>t. t\<lparr>pt_interval_ms := interval_ms\<rparr>) p"

definition get_interval :: "string \<Rightarrow> poll_policy \<Rightarrow> u32" where
  "get_interval device_id p = (case om_get p device_id of Some t \<Rightarrow> pt_interval_ms t | None \<Rightarrow> 0)"

definition begin_tracking :: "string \<Rightarrow> u32 \<Rightarrow> u32 \<Rightarrow> poll_policy \<Rightarrow> poll_policy" where
  "begin_tracking device_id initial_delay_ms now p =
     om_touch no_tracking device_id
       (\<lambda>t. t\<lparr>pt_poll_deadline := now + MAX_TRACKED_STATUS_POLL_WINDOW_MS,
              pt_next_update := (if initial_delay_ms = 0 then 0 else now + initial_delay_ms),
              pt_status_poll_failures := 0, pt_auth_poll_failures := 0\<rparr>) p"

definition cleared :: "poll_tracking \<Rightarrow> poll_tracking" where
  "cleared t = t\<lparr>pt_next_update := 0, pt_poll_deadline := 0, pt_status_poll_failures := 0, pt_auth_poll_failures := 0\<rparr>"

definition poll_clear :: "string \<Rightarrow> poll_policy \<Rightarrow> poll_policy" where
  "poll_clear device_id p = om_adjust device_id cleared p"

definition set_next_update :: "string \<Rightarrow> u32 \<Rightarrow> poll_policy \<Rightarrow> poll_policy" where
  "set_next_update device_id abs_time p = om_touch no_tracking device_id (\<lambda>t. t\<lparr>pt_next_update := abs_time\<rparr>) p"

definition get_next_update :: "string \<Rightarrow> poll_policy \<Rightarrow> u32" where
  "get_next_update device_id p = (case om_get p device_id of Some t \<Rightarrow> pt_next_update t | None \<Rightarrow> 0)"

definition get_poll_deadline :: "string \<Rightarrow> poll_policy \<Rightarrow> u32" where
  "get_poll_deadline device_id p = (case om_get p device_id of Some t \<Rightarrow> pt_poll_deadline t | None \<Rightarrow> 0)"

definition is_tracking_active :: "string \<Rightarrow> u32 \<Rightarrow> poll_policy \<Rightarrow> bool" where
  "is_tracking_active device_id now p =
     (case om_get p device_id of
        None \<Rightarrow> False
      | Some t \<Rightarrow> pt_poll_deadline t \<noteq> 0 \<and> now \<le> pt_poll_deadline t)"

definition retry_delay_ms :: "u8 \<Rightarrow> bool \<Rightarrow> u32" where
  "retry_delay_ms consecutive_failures auth_like =
     (if auth_like then
        (if consecutive_failures \<le> 1 then STATUS_AUTH_RETRY_AFTER_FAIL_MS
         else if consecutive_failures = 2 then STATUS_AUTH_RETRY_AFTER_FAIL_STEP2_MS
         else STATUS_AUTH_RETRY_AFTER_FAIL_MAX_MS)
      else if consecutive_failures \<le> 1 then STATUS_RETRY_AFTER_FAIL_MS
      else if consecutive_failures = 2 then STATUS_RETRY_AFTER_FAIL_STEP2_MS
      else if consecutive_failures = 3 then STATUS_RETRY_AFTER_FAIL_STEP3_MS
      else if consecutive_failures = 4 then STATUS_RETRY_AFTER_FAIL_STEP4_MS
      else STATUS_RETRY_AFTER_FAIL_MAX_MS)"

text \<open>The failure counters after one more failure: they saturate, and a failure of one kind ends the
  streak of the other.\<close>

definition count_failure :: "bool \<Rightarrow> poll_tracking \<Rightarrow> poll_tracking" where
  "count_failure auth_like t =
     (if auth_like
      then t\<lparr>pt_status_poll_failures := 0,
             pt_auth_poll_failures := (if pt_auth_poll_failures t < 255 then pt_auth_poll_failures t + 1
                                       else pt_auth_poll_failures t)\<rparr>
      else t\<lparr>pt_auth_poll_failures := 0,
             pt_status_poll_failures := (if pt_status_poll_failures t < 255 then pt_status_poll_failures t + 1
                                         else pt_status_poll_failures t)\<rparr>)"

definition on_exchange_failed :: "string \<Rightarrow> bool \<Rightarrow> u32 \<Rightarrow> poll_policy \<Rightarrow> u32 \<times> poll_policy" where
  "on_exchange_failed device_id auth_like now p =
     (case om_get p device_id of
        None \<Rightarrow> (0, p)
      | Some t0 \<Rightarrow>
          let t = count_failure auth_like t0;
              p = om_put device_id t p;
              backoff_ms = (if auth_like then retry_delay_ms (pt_auth_poll_failures t) True
                            else retry_delay_ms (pt_status_poll_failures t) False)
          in if is_tracking_active device_id now p \<and> now + backoff_ms \<le> pt_poll_deadline t
             then (backoff_ms, om_put device_id (t\<lparr>pt_next_update := now + backoff_ms\<rparr>) p)
             else (0, poll_clear device_id p))"

definition clear_failure_streaks :: "string \<Rightarrow> poll_policy \<Rightarrow> poll_policy" where
  "clear_failure_streaks device_id p =
     om_adjust device_id (\<lambda>t. t\<lparr>pt_status_poll_failures := 0, pt_auth_poll_failures := 0\<rparr>) p"

definition get_status_poll_failures :: "string \<Rightarrow> poll_policy \<Rightarrow> u8" where
  "get_status_poll_failures device_id p = (case om_get p device_id of Some t \<Rightarrow> pt_status_poll_failures t | None \<Rightarrow> 0)"

definition get_auth_poll_failures :: "string \<Rightarrow> poll_policy \<Rightarrow> u8" where
  "get_auth_poll_failures device_id p = (case om_get p device_id of Some t \<Rightarrow> pt_auth_poll_failures t | None \<Rightarrow> 0)"

text \<open>
  The scan over the entries in key order. \<open>is_tracking_active\<close> and \<open>clear\<close> look the scanned key up
  again, so they read and write the entry itself.
\<close>

definition window_open :: "u32 \<Rightarrow> poll_tracking \<Rightarrow> bool" where
  "window_open now t \<longleftrightarrow> pt_poll_deadline t \<noteq> 0 \<and> now \<le> pt_poll_deadline t"

definition overdue :: "u32 \<Rightarrow> poll_tracking \<Rightarrow> bool" where
  "overdue now t \<longleftrightarrow> \<not> (pt_next_update t = 0 \<or> now \<le> pt_next_update t)"

fun pop_due_device :: "u32 \<Rightarrow> poll_policy \<Rightarrow> string option \<times> poll_policy" where
  "pop_due_device now [] = (None, [])"
| "pop_due_device now ((device_id, t) # p) =
     (if \<not> overdue now t then
        (case pop_due_device now p of (r, p') \<Rightarrow> (r, (device_id, t) # p'))
      else if \<not> window_open now t then
        (case pop_due_device now p of (r, p') \<Rightarrow> (r, (device_id, cleared t) # p'))
      else (Some device_id, (device_id, t\<lparr>pt_next_update := 0\<rparr>) # p))"

section \<open>The policy as a state machine\<close>

datatype poll_call =
    Set_Interval string u32 | Begin_Tracking string u32 u32 | Clear_Tracking string | Set_Next_Update string u32
  | On_Exchange_Failed string bool u32 | Clear_Failure_Streaks string | Pop_Due_Device u32

fun poll_step :: "poll_call \<Rightarrow> poll_policy \<Rightarrow> poll_policy" where
  "poll_step (Set_Interval d i) p = set_interval d i p"
| "poll_step (Begin_Tracking d i now) p = begin_tracking d i now p"
| "poll_step (Clear_Tracking d) p = poll_clear d p"
| "poll_step (Set_Next_Update d t) p = set_next_update d t p"
| "poll_step (On_Exchange_Failed d a now) p = snd (on_exchange_failed d a now p)"
| "poll_step (Clear_Failure_Streaks d) p = clear_failure_streaks d p"
| "poll_step (Pop_Due_Device now) p = snd (pop_due_device now p)"

definition tracking_ok :: "poll_tracking \<Rightarrow> bool" where
  "tracking_ok t \<longleftrightarrow> pt_status_poll_failures t = 0 \<or> pt_auth_poll_failures t = 0"

definition policy_ok :: "poll_policy \<Rightarrow> bool" where
  "policy_ok p \<longleftrightarrow> om_wf p \<and> (\<forall>d t. om_get p d = Some t \<longrightarrow> tracking_ok t)"

section \<open>Lemmas\<close>

lemma tracking_ok_simps [simp]:
  "tracking_ok no_tracking" "tracking_ok (cleared t)" "tracking_ok (count_failure a t)"
  "tracking_ok (t\<lparr>pt_interval_ms := i\<rparr>) = tracking_ok t" "tracking_ok (t\<lparr>pt_next_update := i\<rparr>) = tracking_ok t"
  by (simp_all add: tracking_ok_def no_tracking_def cleared_def count_failure_def)

lemma policy_ok_touch [wf_rules]:
  "policy_ok p \<Longrightarrow> (\<And>t. tracking_ok t \<Longrightarrow> tracking_ok (f t)) \<Longrightarrow> policy_ok (om_touch no_tracking d f p)"
  by (auto simp: policy_ok_def om_get_touch split: option.splits)

lemma policy_ok_adjust [wf_rules]:
  "policy_ok p \<Longrightarrow> (\<And>t. tracking_ok t \<Longrightarrow> tracking_ok (f t)) \<Longrightarrow> policy_ok (om_adjust d f p)"
  by (auto simp: policy_ok_def om_get_adjust)

lemma policy_ok_put [wf_rules]: "policy_ok p \<Longrightarrow> tracking_ok t \<Longrightarrow> policy_ok (om_put d t p)"
  by (auto simp: policy_ok_def om_get_put)

lemma pop_due_keys: "map fst (snd (pop_due_device now p)) = map fst p"
  by (induction now p rule: pop_due_device.induct) (auto split: prod.split)

lemma pop_due_in:
  "(d, t') \<in> set (snd (pop_due_device now p)) \<Longrightarrow> \<exists>t. (d, t) \<in> set p \<and> (t' = t \<or> t' = cleared t \<or> t' = t\<lparr>pt_next_update := 0\<rparr>)"
  by (induction now p rule: pop_due_device.induct) (auto split: prod.splits if_splits)

lemma policy_ok_pop [wf_rules]: "policy_ok p \<Longrightarrow> policy_ok (snd (pop_due_device now p))"
  unfolding policy_ok_def
proof (elim conjE, intro conjI allI impI)
  assume wf: "om_wf p" and ok: "\<forall>d t. om_get p d = Some t \<longrightarrow> tracking_ok t"
  show "om_wf (snd (pop_due_device now p))" using wf by (simp add: om_wf_def pop_due_keys)
  fix d t assume "om_get (snd (pop_due_device now p)) d = Some t"
  then have "(d, t) \<in> set (snd (pop_due_device now p))" by (rule om_get_Some_in)
  then obtain u where "(d, u) \<in> set p" "t = u \<or> t = cleared u \<or> t = u\<lparr>pt_next_update := 0\<rparr>"
    using pop_due_in by blast
  moreover have "tracking_ok u" using ok om_get_in_wf [OF wf calculation(1)] by blast
  ultimately show "tracking_ok t" by auto
qed

lemma on_exchange_failed_ok [wf_rules]: "policy_ok p \<Longrightarrow> policy_ok (snd (on_exchange_failed d a now p))"
  by (auto simp: on_exchange_failed_def Let_def poll_clear_def intro!: wf_rules split: option.split)

lemma poll_step_ok [wf_rules]: "policy_ok p \<Longrightarrow> policy_ok (poll_step c p)"
  by (cases c)
    (auto simp: set_interval_def begin_tracking_def poll_clear_def set_next_update_def clear_failure_streaks_def
       tracking_ok_def cleared_def intro!: wf_rules)

interpretation poll_policy: machine "[]" poll_step policy_ok
  by unfold_locales (simp_all add: wf_rules, simp add: policy_ok_def)

text \<open>A failure of a due poll either ends the tracking or moves the next poll forward inside the window.\<close>

lemma retry_delay_range: "5000 \<le> unat (retry_delay_ms n a)" "unat (retry_delay_ms n a) \<le> 300000"
  by (simp_all add: retry_delay_ms_def)

lemma on_exchange_failed_cases:
  assumes "om_get p d = Some t"
  obtains "om_get (snd (on_exchange_failed d a now p)) d = Some (cleared (count_failure a t))"
      "fst (on_exchange_failed d a now p) = 0"
  | n where "on_exchange_failed d a now p =
        (retry_delay_ms n a, om_put d ((count_failure a t)\<lparr>pt_next_update := now + retry_delay_ms n a\<rparr>) (om_put d (count_failure a t) p))"
      "now + retry_delay_ms n a \<le> pt_poll_deadline t" "now \<le> pt_poll_deadline t"
proof -
  define n where "n = (if a then pt_auth_poll_failures (count_failure a t) else pt_status_poll_failures (count_failure a t))"
  have keep: "pt_poll_deadline (count_failure a t) = pt_poll_deadline t" by (simp add: count_failure_def)
  have delay: "(if a then retry_delay_ms (pt_auth_poll_failures (count_failure a t)) True
        else retry_delay_ms (pt_status_poll_failures (count_failure a t)) False) = retry_delay_ms n a"
    by (simp add: n_def)
  have active: "is_tracking_active d now (om_put d (count_failure a t) p) \<longleftrightarrow> pt_poll_deadline t \<noteq> 0 \<and> now \<le> pt_poll_deadline t"
    by (simp add: is_tracking_active_def keep)
  show thesis
  proof (cases "(pt_poll_deadline t \<noteq> 0 \<and> now \<le> pt_poll_deadline t) \<and> now + retry_delay_ms n a \<le> pt_poll_deadline t")
    case True
    then show thesis
      by (intro that(2) [of n]) (simp_all add: on_exchange_failed_def assms Let_def delay active keep)
  next
    case False
    then have "on_exchange_failed d a now p = (0, poll_clear d (om_put d (count_failure a t) p))"
      by (auto simp: on_exchange_failed_def assms Let_def delay active keep)
    then show thesis by (intro that(1)) (simp_all add: poll_clear_def om_get_adjust)
  qed
qed

text \<open>A run of failed polls of one device: each poll is issued when it is due and its window is open.\<close>

fun failed_polls :: "string \<Rightarrow> (bool \<times> u32) list \<Rightarrow> poll_policy \<Rightarrow> poll_policy option" where
  "failed_polls d [] p = Some p"
| "failed_polls d ((auth_like, now) # fs) p =
     (case om_get p d of
        Some t \<Rightarrow> if overdue now t \<and> window_open now t
                  then failed_polls d fs (snd (on_exchange_failed d auth_like now p)) else None
      | None \<Rightarrow> None)"

lemma failed_polls_bound:
  assumes "failed_polls d fs p = Some p'" "om_get p d = Some t" "unat (pt_poll_deadline t) + 300000 < 2 ^ 32"
  shows "length fs * 5000 \<le> unat (pt_poll_deadline t) - unat (pt_next_update t) + 5000 \<or> fs = []"
  using assms
proof (induction fs arbitrary: p t)
  case (Cons f fs)
  obtain a now where f: "f = (a, now)" by (cases f)
  have due: "overdue now t" "window_open now t" and rest: "failed_polls d fs (snd (on_exchange_failed d a now p)) = Some p'"
    using Cons.prems f by (auto split: if_splits)
  have late: "unat (pt_next_update t) < unat now" "unat now \<le> unat (pt_poll_deadline t)"
    using due by (auto simp: overdue_def window_open_def word_less_nat_alt word_le_nat_alt not_le)
  show ?case
  proof (cases rule: on_exchange_failed_cases [OF Cons.prems(2), of a now])
    case 1
    then have "fs = []" using rest by (cases fs) (auto simp: overdue_def cleared_def)
    then show ?thesis using late by simp
  next
    case (2 n)
    let ?b = "retry_delay_ms n a"
    have sum: "unat (now + ?b) = unat now + unat ?b"
      using Cons.prems(3) late(2) retry_delay_range [of n a] unat_add_lem [of now ?b] by simp
    have next_le: "unat now + unat ?b \<le> unat (pt_poll_deadline t)" using 2(2) sum by (simp add: word_le_nat_alt)
    let ?t = "(count_failure a t)\<lparr>pt_next_update := now + ?b\<rparr>"
    have "om_get (snd (on_exchange_failed d a now p)) d = Some ?t" by (simp add: 2(1))
    moreover have dl: "pt_poll_deadline ?t = pt_poll_deadline t" by (simp add: count_failure_def)
    ultimately have "length fs * 5000 \<le> unat (pt_poll_deadline t) - unat (now + ?b) + 5000 \<or> fs = []"
      using Cons.IH [OF rest, of ?t] Cons.prems(3) by simp
    then show ?thesis using sum next_le late retry_delay_range(1) [of n a] by auto
  qed
qed simp

lemma pop_due_get:
  "om_wf p \<Longrightarrow> om_get p d = Some t \<Longrightarrow>
   (case om_get (snd (pop_due_device now p)) d of
      None \<Rightarrow> False
    | Some t' \<Rightarrow> t' = (if fst (pop_due_device now p) = Some d then t\<lparr>pt_next_update := 0\<rparr> else t')
        \<and> pt_interval_ms t' = pt_interval_ms t \<and> (\<not> overdue now t \<longrightarrow> t' = t)
        \<and> (fst (pop_due_device now p) \<noteq> Some d \<longrightarrow> t' = t \<or> t' = cleared t \<and> \<not> window_open now t))"
proof (induction now p rule: pop_due_device.induct)
  case (2 now k u p)
  have wf: "om_wf p" and low: "\<forall>x \<in> fst ` set p. k < x" using 2(3) by (auto simp: om_wf_def)
  have notin: "fst (pop_due_device now p) \<noteq> Some k"
  proof
    assume *: "fst (pop_due_device now p) = Some k"
    have "fst (pop_due_device now q) = Some k \<Longrightarrow> k \<in> fst ` set q" for q
      by (induction now q rule: pop_due_device.induct) (auto split: prod.splits if_splits)
    with * low show False by auto
  qed
  show ?case
  proof (cases "k = d")
    case True
    then show ?thesis using 2(4) notin
      by (auto simp: om_get_def cleared_def split: prod.splits)
  next
    case False
    then have "om_get p d = Some t" using 2(4) by (simp add: om_get_def)
    then show ?thesis using 2(1,2) wf False
      by (cases "overdue now u"; cases "window_open now u")
        (auto simp: om_get_def split: prod.splits option.splits)
  qed
qed simp

lemma pop_due_result:
  "om_wf p \<Longrightarrow> fst (pop_due_device now p) = r \<Longrightarrow>
   (\<forall>d t. (d, t) \<in> set p \<and> (case r of None \<Rightarrow> True | Some e \<Rightarrow> d < e) \<longrightarrow> \<not> (overdue now t \<and> window_open now t))
   \<and> (\<forall>e. r = Some e \<longrightarrow> (\<exists>t. (e, t) \<in> set p \<and> overdue now t \<and> window_open now t))"
proof (induction now p arbitrary: r rule: pop_due_device.induct)
  case (2 now k u p)
  have wf: "om_wf p" and low: "\<forall>x \<in> fst ` set p. k < x" using 2(3) by (auto simp: om_wf_def)
  show ?case
  proof (cases "overdue now u \<and> window_open now u")
    case True
    then have "r = Some k" using 2(4) by simp
    then show ?thesis using True low by (auto dest: order_less_asym)
  next
    case False
    then have "fst (pop_due_device now p) = r" using 2(4) by (auto split: prod.splits if_splits)
    moreover have "(\<not> overdue now u) \<or> (\<not> window_open now u)" using False by blast
    ultimately show ?thesis using 2(1,2) wf False by (cases "overdue now u") (auto; blast)+
  qed
qed simp

section \<open>Properties\<close>

text \<open>In every reachable policy the keys are strictly ordered and at most one of the two failure
  streaks of a device is running.\<close>

theorem failure_streaks_exclusive:
  assumes "reachable [] poll_step p"
  shows "om_wf p \<and> (get_status_poll_failures d p = 0 \<or> get_auth_poll_failures d p = 0)"
  using poll_policy.inv_reachable [OF assms]
  by (auto simp: policy_ok_def tracking_ok_def get_status_poll_failures_def get_auth_poll_failures_def split: option.split)

theorem failure_streaks_exclusive_witness:
  "get_status_poll_failures ''A'' (fold poll_step [Begin_Tracking ''A'' 1 1, On_Exchange_Failed ''A'' True 2] []) = 0"
proof -
  let ?p = "fold poll_step [Begin_Tracking ''A'' 1 1, On_Exchange_Failed ''A'' True 2] []"
  have "get_auth_poll_failures ''A'' ?p = 1" by code_simp
  then show ?thesis using failure_streaks_exclusive [OF reachable_fold, of _ "''A''"] by (metis zero_neq_one)
qed

text \<open>The due-device scan returns the first device in key order whose poll is overdue inside an open
  window, and consumes exactly that poll. When it returns nothing no device had one. Entries whose
  window has closed may be cleared, nothing else changes, and configured intervals always survive.\<close>

theorem pop_due_device_spec:
  assumes "reachable [] poll_step p" and "pop_due_device now p = (r, p')"
  shows "(case r of
            None \<Rightarrow> \<forall>d t. om_get p d = Some t \<longrightarrow> \<not> (overdue now t \<and> window_open now t)
          | Some e \<Rightarrow> (\<exists>t. om_get p e = Some t \<and> overdue now t \<and> window_open now t \<and>
                          om_get p' e = Some (t\<lparr>pt_next_update := 0\<rparr>)) \<and>
                      (\<forall>d t. om_get p d = Some t \<and> d < e \<longrightarrow> \<not> (overdue now t \<and> window_open now t)))
    \<and> (\<forall>d t. om_get p d = Some t \<and> r \<noteq> Some d \<longrightarrow>
         om_get p' d = Some t \<or> om_get p' d = Some (cleared t) \<and> \<not> window_open now t)
    \<and> (\<forall>d. get_interval d p' = get_interval d p)"
proof -
  have wf: "om_wf p" using poll_policy.inv_reachable [OF assms(1)] by (simp add: policy_ok_def)
  have mem: "om_get p d = Some t \<longleftrightarrow> (d, t) \<in> set p" for d t
    using om_get_in_wf [OF wf] om_get_Some_in by metis
  have get: "om_get p d = Some t \<Longrightarrow> \<exists>t'. om_get p' d = Some t' \<and> (r = Some d \<longrightarrow> t' = t\<lparr>pt_next_update := 0\<rparr>)
      \<and> pt_interval_ms t' = pt_interval_ms t
      \<and> (r \<noteq> Some d \<longrightarrow> t' = t \<or> t' = cleared t \<and> \<not> window_open now t)" for d t
    using pop_due_get [OF wf, of d t now] assms(2) by (auto split: option.splits)
  have none: "om_get p d = None \<Longrightarrow> om_get p' d = None" for d
    using pop_due_keys [of now p] assms(2) by (simp add: om_get_def map_of_eq_None_iff image_set [symmetric])
      (metis image_set)
  note res = pop_due_result [OF wf, of now r, simplified assms(2) fst_conv, OF refl]
  have "case r of
            None \<Rightarrow> \<forall>d t. om_get p d = Some t \<longrightarrow> \<not> (overdue now t \<and> window_open now t)
          | Some e \<Rightarrow> (\<exists>t. om_get p e = Some t \<and> overdue now t \<and> window_open now t \<and>
                          om_get p' e = Some (t\<lparr>pt_next_update := 0\<rparr>)) \<and>
                      (\<forall>d t. om_get p d = Some t \<and> d < e \<longrightarrow> \<not> (overdue now t \<and> window_open now t))"
  proof (cases r)
    case None
    then show ?thesis using res mem by auto
  next
    case (Some e)
    then obtain t where "om_get p e = Some t" "overdue now t" "window_open now t" using res mem by auto
    moreover from get [OF this(1)] Some have "om_get p' e = Some (t\<lparr>pt_next_update := 0\<rparr>)" by auto
    ultimately show ?thesis using res mem Some by auto
  qed
  moreover have "get_interval d p' = get_interval d p" for d
    using get [of d] none [of d] by (cases "om_get p d") (auto simp: get_interval_def)
  ultimately show ?thesis using get by fastforce
qed

theorem pop_due_device_spec_witness:
  "\<exists>t. om_get (fold poll_step [Begin_Tracking ''B'' 10 1, Begin_Tracking ''A'' 5000 1] []) ''B'' = Some t \<and> overdue 20 t"
proof -
  let ?p = "fold poll_step [Begin_Tracking ''B'' 10 1, Begin_Tracking ''A'' 5000 1] []"
  have "pop_due_device 20 ?p = (Some ''B'', snd (pop_due_device 20 ?p))" by code_simp
  from pop_due_device_spec [OF reachable_fold this] show ?thesis by auto
qed

text \<open>Follow-up polling of a device that never answers ends. Between two wraps of the clock, a window
  opened by \<open>begin_tracking\<close> admits at most 121 failing polls, whatever mix of silent and
  authentication failures they are: each retry is at least 5 s later and inside the window.\<close>

theorem follow_up_polling_ends:
  assumes "unat now + 900000 < 2 ^ 32" and "unat delay \<le> 600000"
    and "failed_polls d fs (begin_tracking d delay now p) = Some p'"
  shows "length fs \<le> 121"
proof -
  let ?p = "begin_tracking d delay now p"
  obtain t where t: "om_get ?p d = Some t" "pt_poll_deadline t = now + 600000"
      "pt_next_update t = (if delay = 0 then 0 else now + delay)"
    by (simp add: begin_tracking_def om_get_touch)
  have dl: "unat (now + 600000) = unat now + 600000" using assms(1) unat_add_lem [of now 600000] by simp
  show ?thesis
  proof (cases "delay = 0")
    case True
    then have "fs = []" using assms(3) t by (cases fs) (auto simp: overdue_def)
    then show ?thesis by simp
  next
    case False
    have "unat (now + delay) = unat now + unat delay"
      using assms(1,2) unat_add_lem [of now delay] by simp
    then show ?thesis using failed_polls_bound [OF assms(3) t(1)] assms(1) dl t False by auto
  qed
qed

theorem follow_up_polling_ends_witness:
  "failed_polls ''A'' [(False, 3000), (False, 8001)] (begin_tracking ''A'' 1000 1000 []) \<noteq> None \<and>
   (\<forall>p'. failed_polls ''A'' (replicate 122 (False, 3000)) (begin_tracking ''A'' 1000 1000 []) \<noteq> Some p')"
proof (intro conjI allI notI)
  show "failed_polls ''A'' [(False, 3000), (False, 8001)] (begin_tracking ''A'' 1000 1000 []) = None \<Longrightarrow> False"
    by code_simp
  fix p' assume "failed_polls ''A'' (replicate 122 (False, 3000)) (begin_tracking ''A'' 1000 1000 []) = Some p'"
  from follow_up_polling_ends [OF _ _ this] show False by simp
qed

text \<open>A tracking window is open when it is opened only if its deadline does not wrap: in the last ten
  minutes before the millisecond clock wraps, \<open>begin_tracking\<close> opens a window that is already closed,
  and the next scan clears it without a poll.\<close>

theorem tracking_window_open_iff:
  "is_tracking_active d now (begin_tracking d delay now p) \<longleftrightarrow> unat now + 600000 < 2 ^ 32"
proof -
  have active: "is_tracking_active d now (begin_tracking d delay now p) \<longleftrightarrow> now + 600000 \<noteq> 0 \<and> now \<le> now + 600000"
    by (simp add: is_tracking_active_def begin_tracking_def om_get_touch)
  show ?thesis
  proof (cases "unat now + 600000 < 2 ^ 32")
    case True
    then have "unat (now + 600000) = unat now + 600000" using unat_add_lem [of now 600000] by simp
    then show ?thesis using True active by (auto simp: word_le_nat_alt simp flip: unat_eq_0)
  next
    case False
    then have "unat (now + 600000) = unat now + 600000 - 2 ^ 32"
      using unat_plus_if' [of now 600000] by simp
    then show ?thesis using False active unsigned_less [of now] by (auto simp: word_le_nat_alt)
  qed
qed

text \<open>A settle poll is always scheduled, and a device hint or a stop only brings it forward.\<close>

theorem settle_delay_bounds:
  "settle_delay_ms interval_ms hint stop \<noteq> 0 \<and>
   settle_delay_ms interval_ms hint stop \<le> (if interval_ms = 0 then DEFAULT_SETTLE_POLL_DELAY_MS else interval_ms) \<and>
   (hint \<noteq> 0 \<longrightarrow> settle_delay_ms interval_ms hint stop \<le> hint) \<and>
   (stop \<longrightarrow> settle_delay_ms interval_ms hint stop \<le> STOP_SETTLE_POLL_CAP_MS)"
  by (auto simp: settle_delay_ms_def Let_def min_def word_le_nat_alt simp flip: unat_eq_0)

end
