(* ===== verification/Registry.thy ===== *)
theory Registry
  imports Frame Device_Model
begin

text \<open>
  The device table, the update callbacks and the linked remotes (\<open>device_registry.h\<close>,
  \<open>device_registry.cpp\<close>). Callbacks observe the device only: the registry records, per notification,
  which callback saw which device. An operation that returns a flag returns it with the new registry.
\<close>

section \<open>Definitions\<close>

record device_config =
  cfg_type :: device_type
  cfg_subtype :: u8
  cfg_inverted :: bool
  cfg_optimistic_state :: bool
  cfg_silent :: bool
  cfg_low_power :: bool

definition default_config :: device_config where
  "default_config = \<lparr>cfg_type = DT_UNKNOWN, cfg_subtype = 0, cfg_inverted = False, cfg_optimistic_state = True,
                     cfg_silent = False, cfg_low_power = False\<rparr>"

record registry =
  reg_devices :: "(string, io_device) omap"
  reg_callbacks :: nat
  reg_seen :: "(nat \<times> string \<times> io_device) list"
  reg_linked_remotes :: "(string, string list) omap"
  reg_linked_classes :: "(u8, string list) omap"

definition empty_registry :: registry where
  "empty_registry = \<lparr>reg_devices = [], reg_callbacks = 0, reg_seen = [], reg_linked_remotes = [], reg_linked_classes = []\<rparr>"

definition reg_get :: "string \<Rightarrow> registry \<Rightarrow> io_device option" where
  "reg_get device_id r = om_get (reg_devices r) device_id"

definition reg_put :: "string \<Rightarrow> io_device \<Rightarrow> registry \<Rightarrow> registry" where
  "reg_put device_id device r = r\<lparr>reg_devices := om_put device_id device (reg_devices r)\<rparr>"

definition reg_add :: "string \<Rightarrow> device_config \<Rightarrow> registry \<Rightarrow> registry" where
  "reg_add device_id cfg r =
     (if reg_get device_id r \<noteq> None then r
      else case hex_to_bytes device_id NODE_ID_SIZE of
        None \<Rightarrow> r
      | Some node \<Rightarrow>
          reg_put device_id
            (new_device\<lparr>dev_node_id := node, dev_type := cfg_type cfg, dev_subtype := cfg_subtype cfg,
                        dev_inverted := cfg_inverted cfg, dev_optimistic_state := cfg_optimistic_state cfg,
                        dev_silent := cfg_silent cfg, dev_low_power := cfg_low_power cfg\<rparr>) r)"

definition reg_set_dimmable :: "string \<Rightarrow> bool \<Rightarrow> registry \<Rightarrow> registry" where
  "reg_set_dimmable device_id dimmable r =
     r\<lparr>reg_devices := om_adjust device_id (\<lambda>dev. dev\<lparr>dev_dimmable := dimmable\<rparr>) (reg_devices r)\<rparr>"

definition reg_set_silent :: "string \<Rightarrow> bool \<Rightarrow> registry \<Rightarrow> registry" where
  "reg_set_silent device_id silent r =
     r\<lparr>reg_devices := om_adjust device_id (\<lambda>dev. dev\<lparr>dev_silent := silent\<rparr>) (reg_devices r)\<rparr>"

definition reg_subscribe :: "registry \<Rightarrow> registry" where
  "reg_subscribe r = r\<lparr>reg_callbacks := reg_callbacks r + 1\<rparr>"

definition reg_notify :: "string \<Rightarrow> registry \<Rightarrow> registry" where
  "reg_notify device_id r =
     (case reg_get device_id r of
        None \<Rightarrow> r
      | Some dev \<Rightarrow> r\<lparr>reg_seen := reg_seen r @ map (\<lambda>cb. (cb, device_id, dev)) [0..<reg_callbacks r]\<rparr>)"

definition reg_add_linked_remote :: "string \<Rightarrow> string \<Rightarrow> registry \<Rightarrow> registry" where
  "reg_add_linked_remote remote_id device_id r =
     r\<lparr>reg_linked_remotes := om_touch [] remote_id (\<lambda>ids. ids @ [device_id]) (reg_linked_remotes r)\<rparr>"

definition reg_linked_devices :: "string \<Rightarrow> registry \<Rightarrow> string list option" where
  "reg_linked_devices remote_id r = om_get (reg_linked_remotes r) remote_id"

text \<open>The map of device classes is ordered by the byte of the enumeration.\<close>

definition reg_add_linked_remote_class :: "device_type \<Rightarrow> string \<Rightarrow> registry \<Rightarrow> registry" where
  "reg_add_linked_remote_class type device_id r =
     r\<lparr>reg_linked_classes := om_touch [] (device_type_raw type) (\<lambda>ids. ids @ [device_id]) (reg_linked_classes r)\<rparr>"

definition reg_linked_devices_for_class :: "device_type \<Rightarrow> registry \<Rightarrow> string list option" where
  "reg_linked_devices_for_class type r = om_get (reg_linked_classes r) (device_type_raw type)"

definition apply_optimistic_target :: "string \<Rightarrow> rat \<Rightarrow> registry \<Rightarrow> bool \<times> registry" where
  "apply_optimistic_target device_id target_io_position r =
     (case reg_get device_id r of
        None \<Rightarrow> (False, r)
      | Some dev \<Rightarrow>
          if \<not> dev_optimistic_state dev then (False, r)
          else (True, reg_notify device_id (reg_put device_id
                 (dev\<lparr>dev_optimistic := (dev_optimistic dev)\<lparr>opt_target := target_io_position, opt_motion := MOTION_MOVING\<rparr>\<rparr>) r)))"

definition apply_optimistic_stop :: "string \<Rightarrow> registry \<Rightarrow> bool \<times> registry" where
  "apply_optimistic_stop device_id r =
     (case reg_get device_id r of
        None \<Rightarrow> (False, r)
      | Some dev \<Rightarrow>
          if \<not> dev_optimistic_state dev then (False, r)
          else (True, reg_notify device_id (reg_put device_id
                 (dev\<lparr>dev_optimistic := (dev_optimistic dev)\<lparr>opt_target := UNKNOWN_POSITION, opt_motion := MOTION_STOPPED\<rparr>\<rparr>) r)))"

definition apply_optimistic_tilt :: "string \<Rightarrow> rat \<Rightarrow> registry \<Rightarrow> bool \<times> registry" where
  "apply_optimistic_tilt device_id tilt_percent r =
     (case reg_get device_id r of
        None \<Rightarrow> (False, r)
      | Some dev \<Rightarrow>
          if \<not> dev_optimistic_state dev then (False, r)
          else if \<not> device_supports_tilt (dev_type dev) then (False, r)
          else (True, reg_notify device_id (reg_put device_id
                 (dev\<lparr>dev_optimistic := (dev_optimistic dev)\<lparr>opt_tilt := tilt_percent\<rparr>\<rparr>) r)))"

definition rollback_optimistic :: "string \<Rightarrow> registry \<Rightarrow> bool \<times> registry" where
  "rollback_optimistic device_id r =
     (case reg_get device_id r of
        None \<Rightarrow> (False, r)
      | Some dev \<Rightarrow>
          if optimistic_empty (dev_optimistic dev) then (False, r)
          else (True, reg_notify device_id (reg_put device_id
                 (dev\<lparr>dev_optimistic := optimistic_clear (dev_optimistic dev)\<rparr>) r)))"

definition for_each_linked_remote :: "registry \<Rightarrow> (string \<times> string list) list" where
  "for_each_linked_remote r = reg_linked_remotes r"

section \<open>The registry as a state machine\<close>

datatype registry_call =
    Reg_Add string device_config | Reg_Set_Dimmable string bool | Reg_Set_Silent string bool | Reg_Subscribe
  | Reg_Notify string | Reg_Add_Linked_Remote string string | Reg_Add_Linked_Class device_type string
  | Optimistic_Target string rat | Optimistic_Stop string | Optimistic_Tilt string rat | Rollback string

fun registry_step :: "registry_call \<Rightarrow> registry \<Rightarrow> registry" where
  "registry_step (Reg_Add d cfg) r = reg_add d cfg r"
| "registry_step (Reg_Set_Dimmable d b) r = reg_set_dimmable d b r"
| "registry_step (Reg_Set_Silent d b) r = reg_set_silent d b r"
| "registry_step Reg_Subscribe r = reg_subscribe r"
| "registry_step (Reg_Notify d) r = reg_notify d r"
| "registry_step (Reg_Add_Linked_Remote m d) r = reg_add_linked_remote m d r"
| "registry_step (Reg_Add_Linked_Class t d) r = reg_add_linked_remote_class t d r"
| "registry_step (Optimistic_Target d x) r = snd (apply_optimistic_target d x r)"
| "registry_step (Optimistic_Stop d) r = snd (apply_optimistic_stop d r)"
| "registry_step (Optimistic_Tilt d x) r = snd (apply_optimistic_tilt d x r)"
| "registry_step (Rollback d) r = snd (rollback_optimistic d r)"

text \<open>
  What a device was declared and last reported, without the predictions laid over it.
\<close>

definition observed :: "io_device \<Rightarrow> io_device" where
  "observed dev = dev\<lparr>dev_optimistic := no_prediction\<rparr>"

definition device_ok :: "string \<Rightarrow> io_device \<Rightarrow> bool" where
  "device_ok device_id dev \<longleftrightarrow>
     hex_to_bytes device_id NODE_ID_SIZE = Some (dev_node_id dev)
     \<and> (\<not> dev_optimistic_state dev \<longrightarrow> dev_optimistic dev = no_prediction)
     \<and> (\<not> device_supports_tilt (dev_type dev) \<longrightarrow> opt_tilt (dev_optimistic dev) = UNKNOWN_POSITION)"

definition registry_ok :: "registry \<Rightarrow> bool" where
  "registry_ok r \<longleftrightarrow>
     om_wf (reg_devices r) \<and> om_wf (reg_linked_remotes r) \<and> om_wf (reg_linked_classes r)
     \<and> (\<forall>d dev. reg_get d r = Some dev \<longrightarrow> device_ok d dev)"

section \<open>Lemmas\<close>

lemma reg_get_simps [simp]:
  "reg_get d (reg_put d' dev r) = (if d = d' then Some dev else reg_get d r)"
  "reg_get d (reg_notify d' r) = reg_get d r"
  "reg_get d (reg_subscribe r) = reg_get d r"
  "reg_get d (reg_add_linked_remote m e r) = reg_get d r"
  "reg_get d (reg_add_linked_remote_class t e r) = reg_get d r"
  "reg_get d (reg_set_dimmable e b r) =
     (if d = e then map_option (\<lambda>dev. dev\<lparr>dev_dimmable := b\<rparr>) (reg_get e r) else reg_get d r)"
  "reg_get d (reg_set_silent e b r) =
     (if d = e then map_option (\<lambda>dev. dev\<lparr>dev_silent := b\<rparr>) (reg_get e r) else reg_get d r)"
  by (simp_all add: reg_get_def reg_put_def reg_notify_def reg_subscribe_def reg_add_linked_remote_def
      reg_add_linked_remote_class_def reg_set_dimmable_def reg_set_silent_def om_get_put om_get_adjust
      split: option.split)

lemma registry_ok_put [wf_rules]:
  "registry_ok r \<Longrightarrow> device_ok d dev \<Longrightarrow> registry_ok (reg_put d dev r)"
  by (auto simp: registry_ok_def) (simp_all add: reg_put_def)

lemma registry_ok_notify [wf_rules]: "registry_ok r \<Longrightarrow> registry_ok (reg_notify d r)"
  by (auto simp: registry_ok_def) (simp_all add: reg_notify_def split: option.split)

lemma registry_ok_get: "registry_ok r \<Longrightarrow> reg_get d r = Some dev \<Longrightarrow> device_ok d dev"
  by (simp add: registry_ok_def)

lemma device_ok_predict [wf_rules]:
  "device_ok d dev \<Longrightarrow> dev_optimistic_state dev \<Longrightarrow>
   (device_supports_tilt (dev_type dev) \<or> opt_tilt p = opt_tilt (dev_optimistic dev)) \<Longrightarrow>
   device_ok d (dev\<lparr>dev_optimistic := p\<rparr>)"
  by (auto simp: device_ok_def)

lemma device_ok_clear [wf_rules]:
  "device_ok d dev \<Longrightarrow> device_ok d (dev\<lparr>dev_optimistic := no_prediction\<rparr>)"
  by (auto simp: device_ok_def no_prediction_def)

lemma registry_ok_add [wf_rules]: "registry_ok r \<Longrightarrow> registry_ok (reg_add d cfg r)"
  by (auto simp: reg_add_def device_ok_def new_device_def no_prediction_def intro!: registry_ok_put split: option.split)

lemma registry_ok_links [wf_rules]:
  "registry_ok r \<Longrightarrow> registry_ok (reg_add_linked_remote m d r)"
  "registry_ok r \<Longrightarrow> registry_ok (reg_add_linked_remote_class t d r)"
  "registry_ok r \<Longrightarrow> registry_ok (reg_subscribe r)"
  by (simp_all add: registry_ok_def)
    (simp_all add: reg_add_linked_remote_def reg_add_linked_remote_class_def reg_subscribe_def)

lemma registry_ok_flags [wf_rules]:
  "registry_ok r \<Longrightarrow> registry_ok (reg_set_dimmable d b r)"
  "registry_ok r \<Longrightarrow> registry_ok (reg_set_silent d b r)"
  by (auto simp: registry_ok_def device_ok_def) (simp_all add: reg_set_dimmable_def reg_set_silent_def)

lemma registry_ok_predictions [wf_rules]:
  assumes "registry_ok r"
  shows "registry_ok (snd (apply_optimistic_target d x r))" "registry_ok (snd (apply_optimistic_stop d r))"
    "registry_ok (snd (apply_optimistic_tilt d x r))" "registry_ok (snd (rollback_optimistic d r))"
  using assms registry_ok_get [OF assms, of d]
  by (auto simp: apply_optimistic_target_def apply_optimistic_stop_def apply_optimistic_tilt_def
      rollback_optimistic_def optimistic_clear_def intro!: wf_rules split: option.split)

lemma registry_step_ok [wf_rules]: "registry_ok r \<Longrightarrow> registry_ok (registry_step c r)"
  by (cases c) (simp_all add: wf_rules)

interpretation device_registry: machine empty_registry registry_step registry_ok
  by unfold_locales (simp_all add: wf_rules, simp add: registry_ok_def empty_registry_def reg_get_def)

lemma observed_empty: "optimistic_empty (dev_optimistic dev) \<Longrightarrow> observed dev = dev"
  by (cases dev; cases "dev_optimistic dev") (simp add: optimistic_empty_def observed_def no_prediction_def)

section \<open>Properties\<close>



text \<open>Predictions and their withdrawal never touch what a device reported: whatever prediction call is
  made, every device keeps its observed state, and no device but the addressed one changes at all.\<close>

theorem predictions_keep_observations:
  assumes "c \<in> {Optimistic_Target d x, Optimistic_Stop d, Optimistic_Tilt d x, Rollback d}"
  shows "map_option observed (reg_get e (registry_step c r)) = map_option observed (reg_get e r)
    \<and> (e \<noteq> d \<longrightarrow> reg_get e (registry_step c r) = reg_get e r)"
  using assms
  by (auto simp: apply_optimistic_target_def apply_optimistic_stop_def apply_optimistic_tilt_def
      rollback_optimistic_def observed_def split: option.split)

theorem predictions_keep_observations_witness:
  "map_option observed (reg_get ''0A0B0C'' (registry_step (Optimistic_Stop ''0A0B0C'')
     (reg_add ''0A0B0C'' default_config empty_registry))) =
   map_option observed (reg_get ''0A0B0C'' (reg_add ''0A0B0C'' default_config empty_registry))"
  using predictions_keep_observations [of "Optimistic_Stop ''0A0B0C''" "''0A0B0C''" 0 "''0A0B0C''"
      "reg_add ''0A0B0C'' default_config empty_registry"] by blast

text \<open>A rollback after any run of prediction calls shows the device as last reported: target, tilt and
  movement are the observed ones again.\<close>

theorem rollback_restores_observation:
  assumes "list_all (\<lambda>c. c \<in> {Optimistic_Target d x, Optimistic_Stop d, Optimistic_Tilt d x, Rollback d}) cs"
    and "reg_get d r = Some dev" and "reg_get d (registry_step (Rollback d) (fold registry_step cs r)) = Some dev'"
  shows "effective_target dev' = dev_target dev \<and> effective_tilt dev' = dev_tilt dev \<and>
    effective_is_stopped dev' = dev_is_stopped dev"
proof -
  have obs: "map_option observed (reg_get d (fold registry_step cs r)) = map_option observed (reg_get d r)"
    using assms(1)
  proof (induction cs arbitrary: r)
    case (Cons c cs)
    then have "map_option observed (reg_get d (registry_step c r)) = map_option observed (reg_get d r)"
      by (auto simp: apply_optimistic_target_def apply_optimistic_stop_def apply_optimistic_tilt_def
          rollback_optimistic_def observed_def split: option.split)
    with Cons show ?case by simp
  qed simp
  then obtain mid where mid: "reg_get d (fold registry_step cs r) = Some mid" "observed mid = observed dev"
    using assms(2) by auto
  then have "dev' = observed mid"
    using assms(3) by (auto simp: rollback_optimistic_def observed_empty optimistic_clear_def split: if_splits)
      (simp add: observed_def)
  with mid(2) have "dev' = observed dev" by simp
  then show ?thesis
    by (simp add: observed_def effective_target_def effective_tilt_def effective_is_stopped_def no_prediction_def)
qed

theorem rollback_restores_observation_witness:
  "\<exists>dev'. reg_get ''0A0B0C'' (registry_step (Rollback ''0A0B0C'') (fold registry_step
      [Optimistic_Target ''0A0B0C'' 40, Optimistic_Stop ''0A0B0C''] (reg_add ''0A0B0C'' default_config empty_registry))) = Some dev'
    \<and> effective_target dev' = UNKNOWN_POSITION"
proof -
  let ?r = "reg_add ''0A0B0C'' default_config empty_registry"
  let ?d = "''0A0B0C''"
  have dev: "reg_get ?d ?r = Some (new_device\<lparr>dev_node_id := [0x0A, 0x0B, 0x0C]\<rparr>)" by code_simp
  have "reg_get ?d (registry_step (Rollback ?d) (fold registry_step [Optimistic_Target ?d 40, Optimistic_Stop ?d] ?r)) \<noteq> None"
    by code_simp
  then obtain dev' where dev': "reg_get ?d (registry_step (Rollback ?d)
      (fold registry_step [Optimistic_Target ?d 40, Optimistic_Stop ?d] ?r)) = Some dev'" by blast
  from rollback_restores_observation [OF _ dev dev', of 40] dev' show ?thesis
    by (simp add: new_device_def)
qed

text \<open>A prediction call that reports success has told every subscriber exactly once, in the order of
  subscription, and each saw the new state; one that reports failure has changed nothing.\<close>

theorem predictions_notify_once:
  assumes "(b, r') \<in> {apply_optimistic_target d x r, apply_optimistic_stop d r, apply_optimistic_tilt d x r,
                       rollback_optimistic d r}"
  shows "if b then \<exists>dev. reg_get d r' = Some dev \<and> reg_seen r' = reg_seen r @ map (\<lambda>cb. (cb, d, dev)) [0..<reg_callbacks r]
         else r' = r"
  using assms
  by (auto simp: apply_optimistic_target_def apply_optimistic_stop_def apply_optimistic_tilt_def
      rollback_optimistic_def reg_notify_def reg_put_def reg_get_def split: option.splits if_splits)

theorem predictions_notify_once_witness:
  "length (reg_seen (snd (apply_optimistic_stop ''0A0B0C''
     (fold registry_step [Reg_Add ''0A0B0C'' default_config, Reg_Subscribe, Reg_Subscribe] empty_registry)))) = 2"
proof -
  let ?r = "fold registry_step [Reg_Add ''0A0B0C'' default_config, Reg_Subscribe, Reg_Subscribe] empty_registry"
  have b: "fst (apply_optimistic_stop ''0A0B0C'' ?r)" "reg_callbacks ?r = 2" "reg_seen ?r = []" by code_simp+
  show ?thesis
    using predictions_notify_once [of "fst (apply_optimistic_stop ''0A0B0C'' ?r)" "snd (apply_optimistic_stop ''0A0B0C'' ?r)"
        "''0A0B0C''" 0 ?r] b by auto
qed

end
