(* ===== verification/Tuning.thy ===== *)
theory Tuning
  imports Codecs
begin

text \<open>
  The runtime tuning configuration, its text forms and the parameter tables behind the Home Assistant
  entities (\<open>tuning_config.h\<close>, \<open>tuning_config.cpp\<close>, \<open>tuning_registry.cpp\<close>) with the hub's table lookups
  (\<open>hub_core.cpp\<close>). A bandwidth in kHz has one decimal and is kept in tenths; a numeric parameter
  travels as a float, here a rational, and an out-of-range conversion, undefined in C++, is \<open>None\<close>.
\<close>

section \<open>The configuration\<close>

datatype discovery_command = DISCOVER | DISCOVER_SPE | DISCOVER_ALT

fun discovery_command_byte :: "discovery_command \<Rightarrow> u8" where
  "discovery_command_byte DISCOVER = 0x28"
| "discovery_command_byte DISCOVER_SPE = 0x2A"
| "discovery_command_byte DISCOVER_ALT = 0x2E"

abbreviation (input) SX1262_RESPONSE_PREAMBLE :: u16 where "SX1262_RESPONSE_PREAMBLE \<equiv> 8"
abbreviation (input) SX1262_POST_TX_SETTLE_US :: u16 where "SX1262_POST_TX_SETTLE_US \<equiv> 500"
abbreviation (input) SX1276_RESPONSE_PREAMBLE :: u16 where "SX1276_RESPONSE_PREAMBLE \<equiv> 12"
abbreviation (input) SX1276_DISCOVERY_HOP_SLICE_MS :: u16 where "SX1276_DISCOVERY_HOP_SLICE_MS \<equiv> 5"
abbreviation (input) SX1262_DISCOVERY_HOP_SLICE_MS :: u16 where "SX1262_DISCOVERY_HOP_SLICE_MS \<equiv> 7"
abbreviation (input) LR1121_RESPONSE_PREAMBLE :: u16 where "LR1121_RESPONSE_PREAMBLE \<equiv> SX1262_RESPONSE_PREAMBLE"
abbreviation (input) LR1121_POST_TX_SETTLE_US :: u16 where "LR1121_POST_TX_SETTLE_US \<equiv> SX1262_POST_TX_SETTLE_US"
abbreviation (input) LR1121_DISCOVERY_HOP_SLICE_MS :: u16 where "LR1121_DISCOVERY_HOP_SLICE_MS \<equiv> 7"

record tuning_config =
  sx1262_rx_bandwidth :: u8
  sx1262_response_preamble :: u16
  sx1262_post_tx_settle_us :: u16
  sx1276_rx_bandwidth :: u8
  sx1276_response_preamble :: u16
  sx1276_discovery_hop_slice_ms :: u16
  sx1262_discovery_hop_slice_ms :: u16
  lr1121_rx_bandwidth :: u8
  lr1121_response_preamble :: u16
  lr1121_post_tx_settle_us :: u16
  lr1121_discovery_hop_slice_ms :: u16
  cold_broadcast_reply_preamble :: u16
  normal_start_preamble :: u16
  lbt_max_retries :: u8
  lbt_rssi_threshold_dbm :: u16
  exchange_start_response_wait_ms :: u16
  exchange_response_wait_ms :: u16
  exchange_total_budget_ms :: u16
  pairing_discovery_commands :: "discovery_command list"
  pairing_discovery_destination :: bytes
  pairing_discovery_destination_auto :: bool
  pairing_discovery_payload :: u8
  pairing_discovery_payload_enabled :: bool
  pairing_discovery_low_power :: bool
  pairing_discovery_wait_ms :: u16
  pairing_discovery_initial_dwell_ms :: u16
  pairing_key_exchange_retries :: u8
  tuning_active :: bool

text \<open>The signed 16-bit threshold is the word whose \<open>sint\<close> is the value; \<open>0xFFA6\<close> is -90 dBm.\<close>

definition default_tuning :: tuning_config where
  "default_tuning =
     \<lparr>sx1262_rx_bandwidth = 0x0C, sx1262_response_preamble = SX1262_RESPONSE_PREAMBLE,
      sx1262_post_tx_settle_us = SX1262_POST_TX_SETTLE_US, sx1276_rx_bandwidth = 0x13,
      sx1276_response_preamble = SX1276_RESPONSE_PREAMBLE,
      sx1276_discovery_hop_slice_ms = SX1276_DISCOVERY_HOP_SLICE_MS,
      sx1262_discovery_hop_slice_ms = SX1262_DISCOVERY_HOP_SLICE_MS, lr1121_rx_bandwidth = 0x0B,
      lr1121_response_preamble = LR1121_RESPONSE_PREAMBLE, lr1121_post_tx_settle_us = LR1121_POST_TX_SETTLE_US,
      lr1121_discovery_hop_slice_ms = LR1121_DISCOVERY_HOP_SLICE_MS,
      cold_broadcast_reply_preamble = COLD_BROADCAST_REPLY_PREAMBLE, normal_start_preamble = NORMAL_START_PREAMBLE,
      lbt_max_retries = of_nat LBT_MAX_RETRIES, lbt_rssi_threshold_dbm = 0xFFA6,
      exchange_start_response_wait_ms = 400, exchange_response_wait_ms = 500,
      exchange_total_budget_ms = EXCHANGE_TOTAL_BUDGET_MS, pairing_discovery_commands = [DISCOVER],
      pairing_discovery_destination = [0, 0, 0], pairing_discovery_destination_auto = True,
      pairing_discovery_payload = 0, pairing_discovery_payload_enabled = False,
      pairing_discovery_low_power = False, pairing_discovery_wait_ms = PAIRING_DISCOVERY_WAIT_MS,
      pairing_discovery_initial_dwell_ms = PAIRING_DISCOVERY_INITIAL_DWELL_MS,
      pairing_key_exchange_retries = of_nat PAIRING_KEY_EXCHANGE_RETRIES, tuning_active = False\<rparr>"

section \<open>Bandwidths\<close>

type_synonym bandwidth_table = "(u8 \<times> nat) list"

definition SX1262_BANDWIDTHS :: bandwidth_table where
  "SX1262_BANDWIDTHS = [(0x1C, 390), (0x14, 469), (0x0C, 586), (0x1B, 782), (0x0B, 1173), (0x1A, 1562), (0x12, 1872)]"

definition SX1276_BANDWIDTHS :: bandwidth_table where
  "SX1276_BANDWIDTHS = [(0x14, 208), (0x13, 417), (0x03, 625), (0x12, 833), (0x02, 1250)]"

definition LR1121_BANDWIDTHS :: bandwidth_table where
  "LR1121_BANDWIDTHS = [(0x1C, 390), (0x14, 469), (0x0C, 586), (0x1B, 782), (0x0B, 1173), (0x1A, 1562), (0x12, 1872)]"

definition bandwidth_to_khz :: "bandwidth_table \<Rightarrow> u8 \<Rightarrow> nat \<Rightarrow> nat" where
  "bandwidth_to_khz table reg fallback = (case map_of table reg of Some khz \<Rightarrow> khz | None \<Rightarrow> fallback)"

definition bandwidth_to_string :: "nat \<Rightarrow> string" where
  "bandwidth_to_string khz = dec_string (khz div 10) @ CHR 0x2E # dec_string (khz mod 10)"

definition is_space_char :: "char \<Rightarrow> bool" where
  "is_space_char c \<longleftrightarrow> is_space (of_char c)"

definition lower_char :: "char \<Rightarrow> char" where
  "lower_char c = (if 65 \<le> (of_char c :: nat) \<and> (of_char c :: nat) \<le> 90 then char_of ((of_char c :: nat) + 32) else c)"

definition bandwidth_from_string :: "bandwidth_table \<Rightarrow> string \<Rightarrow> u8 option" where
  "bandwidth_from_string table value =
     (let normalized = map lower_char (filter (\<lambda>c. \<not> is_space_char c) value);
          normalized = (if length normalized > 3 \<and> drop (length normalized - 3) normalized = ''khz''
                        then take (length normalized - 3) normalized else normalized)
      in map_option fst (find (\<lambda>(reg, khz). normalized = bandwidth_to_string khz \<or> normalized = dec_string (khz div 10)) table))"

definition sx1262_bandwidth_to_string :: "u8 \<Rightarrow> string" where
  "sx1262_bandwidth_to_string bw = bandwidth_to_string (bandwidth_to_khz SX1262_BANDWIDTHS bw 1173)"

definition sx1276_bandwidth_to_string :: "u8 \<Rightarrow> string" where
  "sx1276_bandwidth_to_string bw = bandwidth_to_string (bandwidth_to_khz SX1276_BANDWIDTHS bw 417)"

definition lr1121_bandwidth_to_string :: "u8 \<Rightarrow> string" where
  "lr1121_bandwidth_to_string bw = bandwidth_to_string (bandwidth_to_khz LR1121_BANDWIDTHS bw 1173)"

section \<open>Discovery settings\<close>

definition discovery_command_from_string :: "string \<Rightarrow> discovery_command option" where
  "discovery_command_from_string value =
     (let normalized = map lower_char value
      in if normalized = ''0x28'' \<or> normalized = ''discover'' then Some DISCOVER
         else if normalized = ''0x2a'' \<or> normalized = ''discover_spe'' then Some DISCOVER_SPE
         else if normalized = ''0x2e'' \<or> normalized = ''discover_alt'' then Some DISCOVER_ALT
         else None)"

definition discovery_command_to_string :: "discovery_command \<Rightarrow> string" where
  "discovery_command_to_string c = ''0x'' @ hex_byte (discovery_command_byte c)"

fun discovery_commands_to_csv :: "discovery_command list \<Rightarrow> string" where
  "discovery_commands_to_csv [] = []"
| "discovery_commands_to_csv [c] = discovery_command_to_string c"
| "discovery_commands_to_csv (c # cs) = discovery_command_to_string c @ CHR 0x2C # discovery_commands_to_csv cs"

definition discovery_commands_to_string :: "discovery_command list \<Rightarrow> string" where
  "discovery_commands_to_string cs = ''['' @ discovery_commands_to_csv cs @ '']''"

definition resolve_discovery_destination :: "u8 \<Rightarrow> bool \<Rightarrow> bytes \<Rightarrow> bytes" where
  "resolve_discovery_destination command destination_auto destination =
     (if \<not> destination_auto then destination
      else if command = CMD_DISCOVER_REQ \<or> command = CMD_DISCOVER_SPE_REQ then BROADCAST_DISCOVER
      else if command = CMD_DISCOVER_ALT_REQ then BROADCAST_DISCOVER_ALT
      else BROADCAST_DISCOVER)"

definition discovery_destination_to_string :: "bool \<Rightarrow> bytes \<Rightarrow> string" where
  "discovery_destination_to_string destination_auto destination =
     (if destination_auto then ''auto'' else ''0x'' @ node_id_to_string destination)"

definition discovery_payload_to_string :: "bool \<Rightarrow> u8 \<Rightarrow> string" where
  "discovery_payload_to_string payload_enabled payload_byte =
     (if \<not> payload_enabled then ''none'' else ''0x'' @ hex_byte payload_byte)"

definition tuning_update_log_line :: "string \<Rightarrow> string \<Rightarrow> string" where
  "tuning_update_log_line name value = ''Tuning updated via HA: '' @ name @ ''='' @ value"

definition dec_int :: "int \<Rightarrow> string" where
  "dec_int i = (if i < 0 then CHR 0x2D # dec_string (nat (- i)) else dec_string (nat i))"

section \<open>Snapshots\<close>

definition override :: "bool \<Rightarrow> string \<Rightarrow> string \<Rightarrow> string" where
  "override differs name value = (if differs then CHR 0x20 # name @ ''='' @ value else [])"

definition tuning_config_snapshot :: "tuning_config \<Rightarrow> string" where
  "tuning_config_snapshot cfg =
     override (sx1262_rx_bandwidth cfg \<noteq> sx1262_rx_bandwidth default_tuning) ''sx1262_rx_bandwidth'' (sx1262_bandwidth_to_string (sx1262_rx_bandwidth cfg)) @
     override (sx1262_response_preamble cfg \<noteq> sx1262_response_preamble default_tuning) ''sx1262_response_preamble'' (dec_string (unat (sx1262_response_preamble cfg))) @
     override (sx1262_post_tx_settle_us cfg \<noteq> sx1262_post_tx_settle_us default_tuning) ''sx1262_post_tx_settle_us'' (dec_string (unat (sx1262_post_tx_settle_us cfg))) @
     override (sx1276_rx_bandwidth cfg \<noteq> sx1276_rx_bandwidth default_tuning) ''sx1276_rx_bandwidth'' (sx1276_bandwidth_to_string (sx1276_rx_bandwidth cfg)) @
     override (sx1276_response_preamble cfg \<noteq> sx1276_response_preamble default_tuning) ''sx1276_response_preamble'' (dec_string (unat (sx1276_response_preamble cfg))) @
     override (sx1276_discovery_hop_slice_ms cfg \<noteq> sx1276_discovery_hop_slice_ms default_tuning) ''sx1276_discovery_hop_slice_ms'' (dec_string (unat (sx1276_discovery_hop_slice_ms cfg))) @
     override (sx1262_discovery_hop_slice_ms cfg \<noteq> sx1262_discovery_hop_slice_ms default_tuning) ''sx1262_discovery_hop_slice_ms'' (dec_string (unat (sx1262_discovery_hop_slice_ms cfg))) @
     override (lr1121_rx_bandwidth cfg \<noteq> lr1121_rx_bandwidth default_tuning) ''lr1121_rx_bandwidth'' (lr1121_bandwidth_to_string (lr1121_rx_bandwidth cfg)) @
     override (lr1121_response_preamble cfg \<noteq> lr1121_response_preamble default_tuning) ''lr1121_response_preamble'' (dec_string (unat (lr1121_response_preamble cfg))) @
     override (lr1121_post_tx_settle_us cfg \<noteq> lr1121_post_tx_settle_us default_tuning) ''lr1121_post_tx_settle_us'' (dec_string (unat (lr1121_post_tx_settle_us cfg))) @
     override (lr1121_discovery_hop_slice_ms cfg \<noteq> lr1121_discovery_hop_slice_ms default_tuning) ''lr1121_discovery_hop_slice_ms'' (dec_string (unat (lr1121_discovery_hop_slice_ms cfg))) @
     override (cold_broadcast_reply_preamble cfg \<noteq> cold_broadcast_reply_preamble default_tuning) ''cold_broadcast_reply_preamble'' (dec_string (unat (cold_broadcast_reply_preamble cfg))) @
     override (normal_start_preamble cfg \<noteq> normal_start_preamble default_tuning) ''normal_start_preamble'' (dec_string (unat (normal_start_preamble cfg))) @
     override (lbt_max_retries cfg \<noteq> lbt_max_retries default_tuning) ''lbt_max_retries'' (dec_string (unat (lbt_max_retries cfg))) @
     override (lbt_rssi_threshold_dbm cfg \<noteq> lbt_rssi_threshold_dbm default_tuning) ''lbt_rssi_threshold_dbm'' (dec_int (sint (lbt_rssi_threshold_dbm cfg))) @
     override (pairing_discovery_commands cfg \<noteq> pairing_discovery_commands default_tuning)
       ''pairing_discovery_commands'' (discovery_commands_to_string (pairing_discovery_commands cfg)) @
     override (\<not> pairing_discovery_destination_auto cfg) ''pairing_discovery_destination''
       (discovery_destination_to_string (pairing_discovery_destination_auto cfg) (pairing_discovery_destination cfg)) @
     override (pairing_discovery_payload_enabled cfg \<noteq> pairing_discovery_payload_enabled default_tuning \<or>
               pairing_discovery_payload cfg \<noteq> pairing_discovery_payload default_tuning)
       ''pairing_discovery_payload''
       (discovery_payload_to_string (pairing_discovery_payload_enabled cfg) (pairing_discovery_payload cfg)) @
     override (pairing_discovery_low_power cfg \<noteq> pairing_discovery_low_power default_tuning)
       ''pairing_discovery_low_power'' (if pairing_discovery_low_power cfg then ''true'' else ''false'') @
     override (pairing_discovery_wait_ms cfg \<noteq> pairing_discovery_wait_ms default_tuning) ''pairing_discovery_wait_ms'' (dec_string (unat (pairing_discovery_wait_ms cfg))) @
     override (pairing_discovery_initial_dwell_ms cfg \<noteq> pairing_discovery_initial_dwell_ms default_tuning) ''pairing_discovery_initial_dwell_ms'' (dec_string (unat (pairing_discovery_initial_dwell_ms cfg))) @
     override (pairing_key_exchange_retries cfg \<noteq> pairing_key_exchange_retries default_tuning) ''pairing_key_exchange_retries'' (dec_string (unat (pairing_key_exchange_retries cfg)))"

definition tuning_config_full_snapshot :: "tuning_config \<Rightarrow> string" where
  "tuning_config_full_snapshot cfg =
     (let result = tuning_config_snapshot cfg
      in if result = [] then ''Tuning: defaults active'' else ''Tuning overrides active:'' @ result)"

section \<open>The parameter tables\<close>

text \<open>\<open>static_cast\<close> from float truncates toward zero and is defined only when the result fits.\<close>

definition trunc_rat :: "rat \<Rightarrow> int" where
  "trunc_rat v = (if v \<ge> 0 then \<lfloor>v\<rfloor> else \<lceil>v\<rceil>)"

definition to_u16 :: "rat \<Rightarrow> u16 option" where
  "to_u16 v = (let i = trunc_rat v in if 0 \<le> i \<and> i \<le> 65535 then Some (word_of_int i) else None)"

definition to_u8 :: "rat \<Rightarrow> u8 option" where
  "to_u8 v = (let i = trunc_rat v in if 0 \<le> i \<and> i \<le> 255 then Some (word_of_int i) else None)"

definition to_i16 :: "rat \<Rightarrow> u16 option" where
  "to_i16 v = (let i = trunc_rat v in if - 32768 \<le> i \<and> i \<le> 32767 then Some (word_of_int i) else None)"

record tuning_number_param =
  np_name :: string
  np_get :: "tuning_config \<Rightarrow> rat"
  np_set :: "tuning_config \<Rightarrow> rat \<Rightarrow> tuning_config option"
  np_applies_to_radio :: bool

record tuning_select_param =
  sp_name :: string
  sp_get :: "tuning_config \<Rightarrow> string"
  sp_set :: "tuning_config \<Rightarrow> string \<Rightarrow> bool \<times> tuning_config"
  sp_applies_to_radio :: bool

definition NUMBER_PARAMS :: "tuning_number_param list" where
  "NUMBER_PARAMS =
     [\<lparr>np_name = ''sx1262_response_preamble'', np_get = (\<lambda>t. of_int (uint (sx1262_response_preamble t))),
        np_set = (\<lambda>t v. map_option (\<lambda>w. t\<lparr>sx1262_response_preamble := w\<rparr>) (to_u16 v)), np_applies_to_radio = True\<rparr>,
      \<lparr>np_name = ''sx1262_post_tx_settle_us'', np_get = (\<lambda>t. of_int (uint (sx1262_post_tx_settle_us t))),
        np_set = (\<lambda>t v. map_option (\<lambda>w. t\<lparr>sx1262_post_tx_settle_us := w\<rparr>) (to_u16 v)), np_applies_to_radio = True\<rparr>,
      \<lparr>np_name = ''sx1276_response_preamble'', np_get = (\<lambda>t. of_int (uint (sx1276_response_preamble t))),
        np_set = (\<lambda>t v. map_option (\<lambda>w. t\<lparr>sx1276_response_preamble := w\<rparr>) (to_u16 v)), np_applies_to_radio = True\<rparr>,
      \<lparr>np_name = ''sx1276_discovery_hop_slice_ms'', np_get = (\<lambda>t. of_int (uint (sx1276_discovery_hop_slice_ms t))),
        np_set = (\<lambda>t v. map_option (\<lambda>w. t\<lparr>sx1276_discovery_hop_slice_ms := w\<rparr>) (to_u16 v)), np_applies_to_radio = False\<rparr>,
      \<lparr>np_name = ''sx1262_discovery_hop_slice_ms'', np_get = (\<lambda>t. of_int (uint (sx1262_discovery_hop_slice_ms t))),
        np_set = (\<lambda>t v. map_option (\<lambda>w. t\<lparr>sx1262_discovery_hop_slice_ms := w\<rparr>) (to_u16 v)), np_applies_to_radio = False\<rparr>,
      \<lparr>np_name = ''lr1121_response_preamble'', np_get = (\<lambda>t. of_int (uint (lr1121_response_preamble t))),
        np_set = (\<lambda>t v. map_option (\<lambda>w. t\<lparr>lr1121_response_preamble := w\<rparr>) (to_u16 v)), np_applies_to_radio = True\<rparr>,
      \<lparr>np_name = ''lr1121_post_tx_settle_us'', np_get = (\<lambda>t. of_int (uint (lr1121_post_tx_settle_us t))),
        np_set = (\<lambda>t v. map_option (\<lambda>w. t\<lparr>lr1121_post_tx_settle_us := w\<rparr>) (to_u16 v)), np_applies_to_radio = True\<rparr>,
      \<lparr>np_name = ''lr1121_discovery_hop_slice_ms'', np_get = (\<lambda>t. of_int (uint (lr1121_discovery_hop_slice_ms t))),
        np_set = (\<lambda>t v. map_option (\<lambda>w. t\<lparr>lr1121_discovery_hop_slice_ms := w\<rparr>) (to_u16 v)), np_applies_to_radio = False\<rparr>,
      \<lparr>np_name = ''cold_broadcast_reply_preamble'', np_get = (\<lambda>t. of_int (uint (cold_broadcast_reply_preamble t))),
        np_set = (\<lambda>t v. map_option (\<lambda>w. t\<lparr>cold_broadcast_reply_preamble := w\<rparr>) (to_u16 v)), np_applies_to_radio = False\<rparr>,
      \<lparr>np_name = ''normal_start_preamble'', np_get = (\<lambda>t. of_int (uint (normal_start_preamble t))),
        np_set = (\<lambda>t v. map_option (\<lambda>w. t\<lparr>normal_start_preamble := w\<rparr>) (to_u16 v)), np_applies_to_radio = False\<rparr>,
      \<lparr>np_name = ''lbt_max_retries'', np_get = (\<lambda>t. of_int (uint (lbt_max_retries t))),
        np_set = (\<lambda>t v. map_option (\<lambda>w. t\<lparr>lbt_max_retries := w\<rparr>) (to_u8 v)), np_applies_to_radio = False\<rparr>,
      \<lparr>np_name = ''lbt_rssi_threshold_dbm'', np_get = (\<lambda>t. of_int (sint (lbt_rssi_threshold_dbm t))),
        np_set = (\<lambda>t v. map_option (\<lambda>w. t\<lparr>lbt_rssi_threshold_dbm := w\<rparr>) (to_i16 v)), np_applies_to_radio = False\<rparr>,
      \<lparr>np_name = ''exchange_start_response_wait_ms'', np_get = (\<lambda>t. of_int (uint (exchange_start_response_wait_ms t))),
        np_set = (\<lambda>t v. map_option (\<lambda>w. t\<lparr>exchange_start_response_wait_ms := w\<rparr>) (to_u16 v)), np_applies_to_radio = False\<rparr>,
      \<lparr>np_name = ''exchange_response_wait_ms'', np_get = (\<lambda>t. of_int (uint (exchange_response_wait_ms t))),
        np_set = (\<lambda>t v. map_option (\<lambda>w. t\<lparr>exchange_response_wait_ms := w\<rparr>) (to_u16 v)), np_applies_to_radio = False\<rparr>,
      \<lparr>np_name = ''exchange_total_budget_ms'', np_get = (\<lambda>t. of_int (uint (exchange_total_budget_ms t))),
        np_set = (\<lambda>t v. map_option (\<lambda>w. t\<lparr>exchange_total_budget_ms := w\<rparr>) (to_u16 v)), np_applies_to_radio = False\<rparr>,
      \<lparr>np_name = ''pairing_discovery_wait_ms'', np_get = (\<lambda>t. of_int (uint (pairing_discovery_wait_ms t))),
        np_set = (\<lambda>t v. map_option (\<lambda>w. t\<lparr>pairing_discovery_wait_ms := w\<rparr>) (to_u16 v)), np_applies_to_radio = False\<rparr>,
      \<lparr>np_name = ''pairing_discovery_initial_dwell_ms'', np_get = (\<lambda>t. of_int (uint (pairing_discovery_initial_dwell_ms t))),
        np_set = (\<lambda>t v. map_option (\<lambda>w. t\<lparr>pairing_discovery_initial_dwell_ms := w\<rparr>) (to_u16 v)), np_applies_to_radio = False\<rparr>,
      \<lparr>np_name = ''pairing_key_exchange_retries'', np_get = (\<lambda>t. of_int (uint (pairing_key_exchange_retries t))),
        np_set = (\<lambda>t v. map_option (\<lambda>w. t\<lparr>pairing_key_exchange_retries := w\<rparr>) (to_u8 v)), np_applies_to_radio = False\<rparr>]"

definition is_blank :: "char \<Rightarrow> bool" where
  "is_blank c \<longleftrightarrow> c = CHR 0x20 \<or> c = CHR 0x09"

definition trim_blanks :: "string \<Rightarrow> string" where
  "trim_blanks s = rev (dropWhile is_blank (rev (dropWhile is_blank s)))"

function parse_discovery_commands :: "string \<Rightarrow> discovery_command list" where
  "parse_discovery_commands v =
     (if v = [] then []
      else let token = trim_blanks (takeWhile (\<lambda>c. c \<noteq> CHR 0x2C) v);
               rest = dropWhile (\<lambda>c. c \<noteq> CHR 0x2C) v;
               commands = (case discovery_command_from_string token of Some c \<Rightarrow> [c] | None \<Rightarrow> [])
           in if rest = [] then commands else commands @ parse_discovery_commands (tl rest))"
  by pat_completeness auto
termination
proof (relation "measure length")
  fix v :: string and x xa xb
  assume "v \<noteq> []" "xa = dropWhile (\<lambda>c. c \<noteq> CHR 0x2C) v" "xa \<noteq> []"
  moreover have "length (dropWhile (\<lambda>c. c \<noteq> CHR 0x2C) v) \<le> length v" by (rule length_dropWhile_le)
  moreover have "length v > 0" using \<open>v \<noteq> []\<close> by simp
  ultimately have "length (tl xa) < length v" by (simp only: length_tl)
  then show "(tl xa, v) \<in> measure length" by simp
qed simp

declare parse_discovery_commands.simps [simp del]

definition bandwidth_setter ::
  "bandwidth_table \<Rightarrow> (u8 \<Rightarrow> tuning_config) \<Rightarrow> tuning_config \<Rightarrow> string \<Rightarrow> bool \<times> tuning_config" where
  "bandwidth_setter table upd t v =
     (case bandwidth_from_string table v of None \<Rightarrow> (False, t) | Some reg \<Rightarrow> (True, upd reg))"

definition set_discovery_destination :: "tuning_config \<Rightarrow> string \<Rightarrow> bool \<times> tuning_config" where
  "set_discovery_destination t v =
     (if v = ''auto'' then (True, t\<lparr>pairing_discovery_destination_auto := True\<rparr>)
      else if v = ''0x00003B'' then
        (True, t\<lparr>pairing_discovery_destination_auto := False,
                pairing_discovery_destination := [0, 0, ADDRESS_SUFFIX_DISCOVERY]\<rparr>)
      else if v = ''0x00003F'' then
        (True, t\<lparr>pairing_discovery_destination_auto := False,
                pairing_discovery_destination := [0, 0, ADDRESS_SUFFIX_BROADCAST]\<rparr>)
      else (False, t))"

definition set_discovery_payload :: "tuning_config \<Rightarrow> string \<Rightarrow> bool \<times> tuning_config" where
  "set_discovery_payload t v =
     (if v = ''none'' then (True, t\<lparr>pairing_discovery_payload_enabled := False\<rparr>)
      else if v = ''0x00'' then (True, t\<lparr>pairing_discovery_payload_enabled := True, pairing_discovery_payload := 0\<rparr>)
      else (False, t))"

definition SELECT_PARAMS :: "tuning_select_param list" where
  "SELECT_PARAMS =
     [\<lparr>sp_name = ''sx1262_rx_bandwidth'', sp_get = (\<lambda>t. sx1262_bandwidth_to_string (sx1262_rx_bandwidth t)),
       sp_set = (\<lambda>t v. bandwidth_setter SX1262_BANDWIDTHS (\<lambda>reg. t\<lparr>sx1262_rx_bandwidth := reg\<rparr>) t v),
       sp_applies_to_radio = True\<rparr>,
      \<lparr>sp_name = ''sx1276_rx_bandwidth'', sp_get = (\<lambda>t. sx1276_bandwidth_to_string (sx1276_rx_bandwidth t)),
       sp_set = (\<lambda>t v. bandwidth_setter SX1276_BANDWIDTHS (\<lambda>reg. t\<lparr>sx1276_rx_bandwidth := reg\<rparr>) t v),
       sp_applies_to_radio = True\<rparr>,
      \<lparr>sp_name = ''lr1121_rx_bandwidth'', sp_get = (\<lambda>t. lr1121_bandwidth_to_string (lr1121_rx_bandwidth t)),
       sp_set = (\<lambda>t v. bandwidth_setter LR1121_BANDWIDTHS (\<lambda>reg. t\<lparr>lr1121_rx_bandwidth := reg\<rparr>) t v),
       sp_applies_to_radio = True\<rparr>,
      \<lparr>sp_name = ''pairing_discovery_commands'', sp_get = (\<lambda>t. discovery_commands_to_csv (pairing_discovery_commands t)),
       sp_set = (\<lambda>t v. (True, t\<lparr>pairing_discovery_commands := parse_discovery_commands v\<rparr>)),
       sp_applies_to_radio = False\<rparr>,
      \<lparr>sp_name = ''pairing_discovery_destination'',
       sp_get = (\<lambda>t. discovery_destination_to_string (pairing_discovery_destination_auto t) (pairing_discovery_destination t)),
       sp_set = set_discovery_destination, sp_applies_to_radio = False\<rparr>,
      \<lparr>sp_name = ''pairing_discovery_payload'',
       sp_get = (\<lambda>t. discovery_payload_to_string (pairing_discovery_payload_enabled t) (pairing_discovery_payload t)),
       sp_set = set_discovery_payload, sp_applies_to_radio = False\<rparr>,
      \<lparr>sp_name = ''pairing_discovery_low_power'',
       sp_get = (\<lambda>t. if pairing_discovery_low_power t then ''On'' else ''Off''),
       sp_set = (\<lambda>t v. (True, t\<lparr>pairing_discovery_low_power := (v = ''On'')\<rparr>)),
       sp_applies_to_radio = False\<rparr>]"

definition find_tuning_number :: "string \<Rightarrow> tuning_number_param option" where
  "find_tuning_number name = find (\<lambda>p. name = np_name p) NUMBER_PARAMS"

definition find_tuning_select :: "string \<Rightarrow> tuning_select_param option" where
  "find_tuning_select name = find (\<lambda>p. name = sp_name p) SELECT_PARAMS"

section \<open>The hub's lookups\<close>

text \<open>
  The state is the configuration and the one last applied to the radio driver. An unknown name is
  logged and ignored; an undefined conversion makes the whole update undefined.
\<close>

record tuning_state =
  ts_config :: tuning_config
  ts_applied :: "tuning_config option"

definition apply_tuning_to_radio :: "tuning_state \<Rightarrow> tuning_state" where
  "apply_tuning_to_radio s = s\<lparr>ts_applied := Some (ts_config s)\<rparr>"

definition update_tuning_number :: "string \<Rightarrow> rat \<Rightarrow> tuning_state \<Rightarrow> tuning_state option" where
  "update_tuning_number name value s =
     (case find_tuning_number name of
        None \<Rightarrow> Some s
      | Some param \<Rightarrow>
          (case np_set param (ts_config s) value of
             None \<Rightarrow> None
           | Some cfg \<Rightarrow> Some (if np_applies_to_radio param then apply_tuning_to_radio (s\<lparr>ts_config := cfg\<rparr>)
                               else s\<lparr>ts_config := cfg\<rparr>)))"

definition update_tuning_select :: "string \<Rightarrow> string \<Rightarrow> tuning_state \<Rightarrow> tuning_state" where
  "update_tuning_select name value s =
     (case find_tuning_select name of
        None \<Rightarrow> s
      | Some param \<Rightarrow>
          (case sp_set param (ts_config s) value of
             (parsed, cfg) \<Rightarrow> if parsed \<and> sp_applies_to_radio param then apply_tuning_to_radio (s\<lparr>ts_config := cfg\<rparr>)
                              else s\<lparr>ts_config := cfg\<rparr>))"

definition get_tuning_number_value :: "string \<Rightarrow> tuning_state \<Rightarrow> rat" where
  "get_tuning_number_value name s = (case find_tuning_number name of None \<Rightarrow> 0 | Some param \<Rightarrow> np_get param (ts_config s))"

definition get_tuning_select_value :: "string \<Rightarrow> tuning_state \<Rightarrow> string" where
  "get_tuning_select_value name s = (case find_tuning_select name of None \<Rightarrow> [] | Some param \<Rightarrow> sp_get param (ts_config s))"

section \<open>Lemmas\<close>

lemma trunc_rat_of_int [simp]: "trunc_rat (of_int i) = i"
  by (simp add: trunc_rat_def)

lemma trunc_rat_word [simp]: "trunc_rat (unsigned w) = uint w" "trunc_rat (signed v) = sint v"
  using trunc_rat_of_int [of "uint w"] trunc_rat_of_int [of "sint v"] by simp_all

lemma to_word_get [simp]:
  "to_u16 (unsigned (w :: u16)) = Some w" "to_u8 (unsigned (b :: u8)) = Some b" "to_i16 (signed (v :: u16)) = Some v"
proof -
  have "0 \<le> uint w" "uint w \<le> 65535" using uint_lt2p [of w] by simp_all
  then show "to_u16 (unsigned w) = Some w" by (simp add: to_u16_def Let_def)
  have "0 \<le> uint b" "uint b \<le> 255" using uint_lt2p [of b] by simp_all
  then show "to_u8 (unsigned b) = Some b" by (simp add: to_u8_def Let_def)
  have "- 32768 \<le> sint v" "sint v \<le> 32767" using sint_lt [of v] sint_ge [of v] by simp_all
  then show "to_i16 (signed v) = Some v" by (simp add: to_i16_def Let_def)
qed

lemma number_param_reset: "p \<in> set NUMBER_PARAMS \<Longrightarrow> np_set p t (np_get p t) = Some t"
  by (auto simp: NUMBER_PARAMS_def)

lemma digit_chars:
  "char_of (48 :: nat) = CHR ''0''" "char_of (49 :: nat) = CHR ''1''" "char_of (50 :: nat) = CHR ''2''"
  "char_of (51 :: nat) = CHR ''3''" "char_of (52 :: nat) = CHR ''4''" "char_of (53 :: nat) = CHR ''5''"
  "char_of (54 :: nat) = CHR ''6''" "char_of (55 :: nat) = CHR ''7''" "char_of (56 :: nat) = CHR ''8''"
  "char_of (57 :: nat) = CHR ''9''"
  by code_simp+

definition digit_set :: "char set" where
  "digit_set = set ''0123456789''"

lemma digit_char: "(k :: nat) < 10 \<Longrightarrow> char_of (48 + k) \<in> digit_set \<and> of_char (char_of (48 + k)) = 48 + k"
proof -
  assume "k < 10"
  then consider "k = 0" | "k = 1" | "k = 2" | "k = 3" | "k = 4" | "k = 5" | "k = 6" | "k = 7" | "k = 8" | "k = 9"
    by (auto simp: less_Suc_eq numeral_eq_Suc)
  then show ?thesis by cases (simp_all add: digit_chars digit_set_def)
qed

lemma dec_string_digits: "set (dec_string n) \<subseteq> digit_set \<and> dec_string n \<noteq> []"
proof (induction n rule: dec_string.induct)
  case (1 n)
  show ?case
  proof (cases "n < 10")
    case True
    then show ?thesis using digit_char [of n] by (subst (1 2) dec_string.simps) auto
  next
    case False
    then show ?thesis using digit_char [of "n mod 10"] 1 by (subst (1 2) dec_string.simps) auto
  qed
qed

definition dec_value :: "string \<Rightarrow> nat" where
  "dec_value s = foldl (\<lambda>v c. 10 * v + (of_char c - 48)) 0 s"

lemma dec_value_dec_string: "dec_value (dec_string n) = n"
proof (induction n rule: dec_string.induct)
  case (1 n)
  show ?case
  proof (cases "n < 10")
    case True
    then show ?thesis using digit_char [of n] by (subst dec_string.simps) (simp add: dec_value_def)
  next
    case False
    then show ?thesis using digit_char [of "n mod 10"] 1 by (subst dec_string.simps) (simp add: dec_value_def)
  qed
qed

lemma dec_string_inj: "dec_string m = dec_string n \<Longrightarrow> m = n"
  using dec_value_dec_string by metis

lemma no_dot: "CHR 0x2E \<notin> set (dec_string n)"
  using dec_string_digits [of n] by (auto simp: digit_set_def)

lemma bandwidth_string_parts:
  "takeWhile (\<lambda>c. c \<noteq> CHR 0x2E) (bandwidth_to_string k) = dec_string (k div 10)"
  "dropWhile (\<lambda>c. c \<noteq> CHR 0x2E) (bandwidth_to_string k) = CHR 0x2E # dec_string (k mod 10)"
proof -
  have "\<And>c. c \<in> set (dec_string (k div 10)) \<Longrightarrow> c \<noteq> CHR 0x2E" using no_dot by blast
  then show "takeWhile (\<lambda>c. c \<noteq> CHR 0x2E) (bandwidth_to_string k) = dec_string (k div 10)"
    "dropWhile (\<lambda>c. c \<noteq> CHR 0x2E) (bandwidth_to_string k) = CHR 0x2E # dec_string (k mod 10)"
    unfolding bandwidth_to_string_def by (subst takeWhile_append2 dropWhile_append2, assumption, simp)+
qed

lemma bandwidth_string_inj: "bandwidth_to_string j = bandwidth_to_string k \<Longrightarrow> j = k"
  using bandwidth_string_parts [of j] bandwidth_string_parts [of k] dec_string_inj
  by (metis div_mult_mod_eq list.inject)

lemma bandwidth_string_not_whole: "bandwidth_to_string k \<noteq> dec_string n"
proof
  assume "bandwidth_to_string k = dec_string n"
  then have "CHR 0x2E \<in> set (dec_string n)" by (metis bandwidth_to_string_def in_set_conv_decomp)
  with no_dot show False by blast
qed

lemma plain_chars:
  "\<not> is_space_char (CHR ''0'') \<and> lower_char (CHR ''0'') = CHR ''0''" "\<not> is_space_char (CHR ''1'') \<and> lower_char (CHR ''1'') = CHR ''1''"
  "\<not> is_space_char (CHR ''2'') \<and> lower_char (CHR ''2'') = CHR ''2''" "\<not> is_space_char (CHR ''3'') \<and> lower_char (CHR ''3'') = CHR ''3''"
  "\<not> is_space_char (CHR ''4'') \<and> lower_char (CHR ''4'') = CHR ''4''" "\<not> is_space_char (CHR ''5'') \<and> lower_char (CHR ''5'') = CHR ''5''"
  "\<not> is_space_char (CHR ''6'') \<and> lower_char (CHR ''6'') = CHR ''6''" "\<not> is_space_char (CHR ''7'') \<and> lower_char (CHR ''7'') = CHR ''7''"
  "\<not> is_space_char (CHR ''8'') \<and> lower_char (CHR ''8'') = CHR ''8''" "\<not> is_space_char (CHR ''9'') \<and> lower_char (CHR ''9'') = CHR ''9''"
  "\<not> is_space_char (CHR 0x2E) \<and> lower_char (CHR 0x2E) = CHR 0x2E"
  by (simp_all add: is_space_char_def is_space_def lower_char_def)

lemma bandwidth_normal:
  "map lower_char (filter (\<lambda>c. \<not> is_space_char c) (bandwidth_to_string k)) = bandwidth_to_string k"
  "drop n (bandwidth_to_string k) \<noteq> ''khz''"
proof -
  have chars: "set (bandwidth_to_string k) \<subseteq> insert (CHR 0x2E) digit_set"
    using dec_string_digits [of "k div 10"] dec_string_digits [of "k mod 10"] by (simp add: bandwidth_to_string_def) blast
  have plain: "\<forall>c \<in> insert (CHR 0x2E) digit_set. \<not> is_space_char c \<and> lower_char c = c"
    by (simp add: plain_chars digit_set_def)
  have "filter (\<lambda>c. \<not> is_space_char c) (bandwidth_to_string k) = bandwidth_to_string k"
    by (rule filter_True) (use chars plain in blast)
  then show "map lower_char (filter (\<lambda>c. \<not> is_space_char c) (bandwidth_to_string k)) = bandwidth_to_string k"
    using chars plain by (simp only:) (rule map_idI, blast)
  show "drop n (bandwidth_to_string k) \<noteq> ''khz''"
  proof
    assume "drop n (bandwidth_to_string k) = ''khz''"
    then have "CHR ''k'' \<in> set (drop n (bandwidth_to_string k))" by simp
    then have "CHR ''k'' \<in> set (bandwidth_to_string k)" by (rule in_set_dropD)
    then show False using chars by (auto simp: digit_set_def)
  qed
qed

text \<open>A table whose register bytes and frequencies are distinct reads its own text back.\<close>

lemma bandwidth_text:
  assumes "distinct (map fst table)" "distinct (map snd table)" "reg \<in> fst ` set table"
  shows "bandwidth_from_string table (bandwidth_to_string (bandwidth_to_khz table reg fallback)) = Some reg"
proof -
  obtain khz where mem: "(reg, khz) \<in> set table" using assms(3) by auto
  then have khz: "bandwidth_to_khz table reg fallback = khz" using assms(1) by (simp add: bandwidth_to_khz_def)
  have "find (\<lambda>(r, f). bandwidth_to_string khz = bandwidth_to_string f \<or> bandwidth_to_string khz = dec_string (f div 10)) table
      = find (\<lambda>(r, f). f = khz) table"
    by (rule find_cong) (auto dest: bandwidth_string_inj simp: bandwidth_string_not_whole)
  also have "\<dots> = Some (reg, khz)"
    using assms(2) mem
  proof (induction table)
    case (Cons a table)
    then show ?case by (cases a) (force simp: image_iff)
  qed simp
  finally show ?thesis
    by (simp only: khz bandwidth_from_string_def Let_def bandwidth_normal if_False simp_thms option.map fst_conv)
qed

lemma bandwidth_text_of:
  "reg \<in> fst ` set SX1262_BANDWIDTHS \<Longrightarrow> bandwidth_from_string SX1262_BANDWIDTHS (sx1262_bandwidth_to_string reg) = Some reg"
  "reg \<in> fst ` set SX1276_BANDWIDTHS \<Longrightarrow> bandwidth_from_string SX1276_BANDWIDTHS (sx1276_bandwidth_to_string reg) = Some reg"
  "reg \<in> fst ` set LR1121_BANDWIDTHS \<Longrightarrow> bandwidth_from_string LR1121_BANDWIDTHS (lr1121_bandwidth_to_string reg) = Some reg"
  unfolding sx1262_bandwidth_to_string_def sx1276_bandwidth_to_string_def lr1121_bandwidth_to_string_def
  by (rule bandwidth_text; simp add: SX1262_BANDWIDTHS_def SX1276_BANDWIDTHS_def LR1121_BANDWIDTHS_def)+

lemma discovery_command_text:
  "CHR 0x2C \<notin> set (discovery_command_to_string c) \<and> discovery_command_to_string c \<noteq> [] \<and>
   discovery_command_from_string (trim_blanks (discovery_command_to_string c)) = Some c"
proof -
  have "list_all (\<lambda>c. CHR 0x2C \<notin> set (discovery_command_to_string c) \<and> discovery_command_to_string c \<noteq> [] \<and>
     discovery_command_from_string (trim_blanks (discovery_command_to_string c)) = Some c) [DISCOVER, DISCOVER_SPE, DISCOVER_ALT]"
    by code_simp
  then show ?thesis by (cases c) simp_all
qed

lemma parse_discovery_csv: "parse_discovery_commands (discovery_commands_to_csv cs) = cs"
proof (induction cs rule: discovery_commands_to_csv.induct)
  case 1
  show ?case by (simp add: parse_discovery_commands.simps)
next
  case (2 c)
  let ?tok = "discovery_command_to_string c"
  have "takeWhile (\<lambda>x. x \<noteq> CHR 0x2C) ?tok = ?tok" "dropWhile (\<lambda>x. x \<noteq> CHR 0x2C) ?tok = []"
    using discovery_command_text [of c] by (auto simp: takeWhile_eq_all_conv dropWhile_eq_Nil_conv)
  then show ?case using discovery_command_text [of c]
    by (simp only: discovery_commands_to_csv.simps parse_discovery_commands.simps [of ?tok] Let_def, simp)
next
  case (3 c c' cs)
  let ?tok = "discovery_command_to_string c" and ?rest = "CHR 0x2C # discovery_commands_to_csv (c' # cs)"
  have no: "\<And>x. x \<in> set ?tok \<Longrightarrow> x \<noteq> CHR 0x2C" using discovery_command_text [of c] by auto
  have "takeWhile (\<lambda>x. x \<noteq> CHR 0x2C) (?tok @ ?rest) = ?tok" "dropWhile (\<lambda>x. x \<noteq> CHR 0x2C) (?tok @ ?rest) = ?rest"
    using takeWhile_append2 [of ?tok "\<lambda>x. x \<noteq> CHR 0x2C" ?rest] dropWhile_append2 [of ?tok "\<lambda>x. x \<noteq> CHR 0x2C" ?rest] no
    by simp_all
  then have "parse_discovery_commands (?tok @ ?rest) = c # parse_discovery_commands (discovery_commands_to_csv (c' # cs))"
    using discovery_command_text [of c] by (subst parse_discovery_commands.simps) (simp only: Let_def, simp)
  then show ?case using 3 by simp
qed

text \<open>The settings the selection lists of the entities can show.\<close>

definition selectable :: "tuning_config \<Rightarrow> bool" where
  "selectable t \<longleftrightarrow>
     sx1262_rx_bandwidth t \<in> fst ` set SX1262_BANDWIDTHS \<and> sx1276_rx_bandwidth t \<in> fst ` set SX1276_BANDWIDTHS \<and>
     lr1121_rx_bandwidth t \<in> fst ` set LR1121_BANDWIDTHS \<and>
     (\<not> pairing_discovery_destination_auto t \<longrightarrow> pairing_discovery_destination t \<in> {BROADCAST_DISCOVER, BROADCAST_DISCOVER_ALT}) \<and>
     (pairing_discovery_payload_enabled t \<longrightarrow> pairing_discovery_payload t = 0)"

lemma destination_text:
  "discovery_destination_to_string False BROADCAST_DISCOVER = ''0x00003B''"
  "discovery_destination_to_string False BROADCAST_DISCOVER_ALT = ''0x00003F''"
  "discovery_payload_to_string True 0 = ''0x00''"
  by code_simp+

lemma select_param_reset:
  assumes p: "p \<in> set SELECT_PARAMS" and ok: "selectable t"
  shows "sp_set p t (sp_get p t) = (True, t)"
proof -
  note sel = ok [unfolded selectable_def]
  have bw: "bandwidth_from_string SX1262_BANDWIDTHS (sx1262_bandwidth_to_string (sx1262_rx_bandwidth t)) = Some (sx1262_rx_bandwidth t)"
    "bandwidth_from_string SX1276_BANDWIDTHS (sx1276_bandwidth_to_string (sx1276_rx_bandwidth t)) = Some (sx1276_rx_bandwidth t)"
    "bandwidth_from_string LR1121_BANDWIDTHS (lr1121_bandwidth_to_string (lr1121_rx_bandwidth t)) = Some (lr1121_rx_bandwidth t)"
    by (rule bandwidth_text_of(1) [OF conjunct1 [OF sel]])
      (rule bandwidth_text_of(2) [OF conjunct1 [OF conjunct2 [OF sel]]],
       rule bandwidth_text_of(3) [OF conjunct1 [OF conjunct2 [OF conjunct2 [OF sel]]]])
  have dst: "set_discovery_destination t (discovery_destination_to_string
      (pairing_discovery_destination_auto t) (pairing_discovery_destination t)) = (True, t)"
  proof (cases "pairing_discovery_destination_auto t")
    case True
    then show ?thesis by (simp add: set_discovery_destination_def discovery_destination_to_string_def)
  next
    case False
    then consider "pairing_discovery_destination t = BROADCAST_DISCOVER" | "pairing_discovery_destination t = BROADCAST_DISCOVER_ALT"
      using sel by blast
    then show ?thesis
    proof cases
      case 1
      have "discovery_destination_to_string (pairing_discovery_destination_auto t) (pairing_discovery_destination t) = ''0x00003B''"
        by (simp only: False 1 destination_text)
      then show ?thesis using False 1 by (simp add: set_discovery_destination_def)
    next
      case 2
      have "discovery_destination_to_string (pairing_discovery_destination_auto t) (pairing_discovery_destination t) = ''0x00003F''"
        by (simp only: False 2 destination_text)
      then show ?thesis using False 2 by (simp add: set_discovery_destination_def)
    qed
  qed
  have pay: "set_discovery_payload t (discovery_payload_to_string (pairing_discovery_payload_enabled t)
      (pairing_discovery_payload t)) = (True, t)"
  proof (cases "pairing_discovery_payload_enabled t")
    case True
    then have zero: "pairing_discovery_payload t = 0" using sel by blast
    have "discovery_payload_to_string (pairing_discovery_payload_enabled t) (pairing_discovery_payload t) = ''0x00''"
      by (simp only: True zero destination_text)
    then show ?thesis using True zero by (simp add: set_discovery_payload_def)
  next
    case False
    then show ?thesis by (simp add: set_discovery_payload_def discovery_payload_to_string_def)
  qed
  show ?thesis
    using p unfolding SELECT_PARAMS_def
    by (simp only: list.set insert_iff empty_iff, elim disjE)
      (simp_all add: bandwidth_setter_def bw parse_discovery_csv dst pay)
qed

lemma find_tuning_in:
  "find_tuning_number name = Some p \<Longrightarrow> p \<in> set NUMBER_PARAMS \<and> np_name p = name"
  "find_tuning_select name = Some q \<Longrightarrow> q \<in> set SELECT_PARAMS \<and> sp_name q = name"
  by (auto simp: find_tuning_number_def find_tuning_select_def find_Some_iff)

section \<open>Properties\<close>

text \<open>The text forms of the select parameters are lossless: selecting the option an entity currently
  shows leaves the configuration as it is, for the bandwidths, the discovery command list, the
  destination, the payload and the low-power flag, and so does writing back the value a number entity
  shows, for every numeric parameter and every value of its type.\<close>

theorem tuning_rewrite_is_identity:
  "(selectable (ts_config s) \<longrightarrow> ts_config (update_tuning_select name (get_tuning_select_value name s) s) = ts_config s) \<and>
   (\<exists>s'. update_tuning_number name (get_tuning_number_value name s) s = Some s' \<and> ts_config s' = ts_config s)"
proof (intro conjI impI)
  assume ok: "selectable (ts_config s)"
  show "ts_config (update_tuning_select name (get_tuning_select_value name s) s) = ts_config s"
  proof (cases "find_tuning_select name")
    case (Some p)
    then show ?thesis
      using select_param_reset [OF _ ok, of p] find_tuning_in(2)
      by (simp add: update_tuning_select_def get_tuning_select_value_def apply_tuning_to_radio_def)
  qed (simp add: update_tuning_select_def)
next
  show "\<exists>s'. update_tuning_number name (get_tuning_number_value name s) s = Some s' \<and> ts_config s' = ts_config s"
  proof (cases "find_tuning_number name")
    case (Some p)
    then show ?thesis
      using number_param_reset [of p "ts_config s"] find_tuning_in(1)
      by (simp add: update_tuning_number_def get_tuning_number_value_def apply_tuning_to_radio_def)
  qed (simp add: update_tuning_number_def)
qed

theorem tuning_rewrite_is_identity_witness:
  "ts_config (update_tuning_select ''pairing_discovery_commands'' (get_tuning_select_value ''pairing_discovery_commands''
     \<lparr>ts_config = default_tuning, ts_applied = None\<rparr>) \<lparr>ts_config = default_tuning, ts_applied = None\<rparr>) = default_tuning"
proof -
  have "selectable (ts_config \<lparr>ts_config = default_tuning, ts_applied = None\<rparr>)" by code_simp
  with tuning_rewrite_is_identity show ?thesis by (metis tuning_state.select_convs(1))
qed

text \<open>The driver is never left behind: whenever an update changes a parameter that the driver caches, the
  configuration last applied to the driver is the new one.\<close>

theorem tuning_applied_when_cached:
  assumes "find_tuning_number name = Some p" "np_applies_to_radio p" "update_tuning_number name v s = Some s'"
  shows "ts_applied s' = Some (ts_config s')"
  using assms by (auto simp: update_tuning_number_def apply_tuning_to_radio_def split: option.splits)

theorem tuning_applied_when_cached_witness:
  "\<exists>s'. update_tuning_number ''sx1262_response_preamble'' 12 \<lparr>ts_config = default_tuning, ts_applied = None\<rparr> = Some s' \<and>
        ts_applied s' = Some (ts_config s')"
proof -
  let ?s = "\<lparr>ts_config = default_tuning, ts_applied = None\<rparr>"
  have "find_tuning_number ''sx1262_response_preamble'' = Some (NUMBER_PARAMS ! 0)"
    by (simp add: find_tuning_number_def NUMBER_PARAMS_def)
  moreover have "np_applies_to_radio (NUMBER_PARAMS ! 0)" by (simp add: NUMBER_PARAMS_def)
  moreover obtain s' where "update_tuning_number ''sx1262_response_preamble'' 12 ?s = Some s'"
    by (simp add: update_tuning_number_def find_tuning_number_def NUMBER_PARAMS_def to_u16_def trunc_rat_def)
  ultimately show ?thesis using tuning_applied_when_cached by metis
qed

text \<open>The logged snapshot is blind to the three exchange windows: it is the same whatever they are set
  to, so a configuration that overrides only them is reported as all defaults.\<close>

theorem snapshot_omits_exchange_windows:
  "tuning_config_full_snapshot (cfg\<lparr>exchange_start_response_wait_ms := a, exchange_response_wait_ms := b,
     exchange_total_budget_ms := c\<rparr>) = tuning_config_full_snapshot cfg \<and>
   tuning_config_full_snapshot (default_tuning\<lparr>exchange_total_budget_ms := 9000\<rparr>) = ''Tuning: defaults active''"
  by (simp add: tuning_config_full_snapshot_def tuning_config_snapshot_def override_def default_tuning_def)

end
