(* ===== verification/Telemetry.thy ===== *)
theory Telemetry
  imports Codecs
begin

text \<open>
  The per-attempt recorder of the pairing flow and its advisor (\<open>pairing_telemetry.h\<close>,
  \<open>pairing_telemetry.cpp\<close>, \<open>pairing_advisor.cpp\<close>) with the pairing stages (\<open>hub_pairing.h\<close>). The value
  of \<open>millis()\<close> is an argument; the fixed event array is a list of at most 32 events, oldest first.
\<close>

section \<open>Pairing stages\<close>

datatype pairing_state =
    PS_IDLE | PS_TX_DISCOVER | PS_WAIT_DISCOVER_RESPONSE | PS_TX_KEY_INIT | PS_WAIT_KEY_CHALLENGE
  | PS_TX_KEY_TRANSFER | PS_WAIT_KEY_CONFIRM | PS_REGISTER_DEVICE | PS_COMPLETE | PS_FAILED

fun pairing_state_byte :: "pairing_state \<Rightarrow> u8" where
  "pairing_state_byte PS_IDLE = 0"
| "pairing_state_byte PS_TX_DISCOVER = 1"
| "pairing_state_byte PS_WAIT_DISCOVER_RESPONSE = 2"
| "pairing_state_byte PS_TX_KEY_INIT = 3"
| "pairing_state_byte PS_WAIT_KEY_CHALLENGE = 4"
| "pairing_state_byte PS_TX_KEY_TRANSFER = 5"
| "pairing_state_byte PS_WAIT_KEY_CONFIRM = 6"
| "pairing_state_byte PS_REGISTER_DEVICE = 7"
| "pairing_state_byte PS_COMPLETE = 8"
| "pairing_state_byte PS_FAILED = 9"

fun pairing_stage_name :: "pairing_state \<Rightarrow> string" where
  "pairing_stage_name PS_IDLE = ''idle''"
| "pairing_stage_name PS_TX_DISCOVER = ''tx_discover''"
| "pairing_stage_name PS_WAIT_DISCOVER_RESPONSE = ''wait_discover_response''"
| "pairing_stage_name PS_TX_KEY_INIT = ''tx_key_init''"
| "pairing_stage_name PS_WAIT_KEY_CHALLENGE = ''wait_key_challenge''"
| "pairing_stage_name PS_TX_KEY_TRANSFER = ''tx_key_transfer''"
| "pairing_stage_name PS_WAIT_KEY_CONFIRM = ''wait_key_confirm''"
| "pairing_stage_name PS_REGISTER_DEVICE = ''register_device''"
| "pairing_stage_name PS_COMPLETE = ''complete''"
| "pairing_stage_name PS_FAILED = ''failed''"

section \<open>The recorder\<close>

abbreviation (input) PAIRING_TELEMETRY_MAX_EVENTS :: nat where "PAIRING_TELEMETRY_MAX_EVENTS \<equiv> 32"
abbreviation (input) RESULT_SENSOR_STRING_BUFFER_SIZE :: nat where "RESULT_SENSOR_STRING_BUFFER_SIZE \<equiv> 256"

datatype telemetry_kind = TK_TX | TK_RX | TK_RX_REJECT | TK_LBT_DEFER | TK_HOP | TK_PHASE

record telemetry_event =
  te_millis_offset :: u32
  te_kind :: telemetry_kind
  te_cmd :: u8
  te_src :: node_id
  te_dst :: node_id
  te_rssi :: int
  te_aux :: u8
  te_oneway :: bool

datatype pairing_outcome =
    PO_NONE | PO_PAIRED | PO_NO_RESPONSE | PO_INVALID_RESPONSE | PO_KEY_EXCHANGE_FAILED | PO_CONFIG_FAILED

fun outcome_name :: "pairing_outcome \<Rightarrow> string" where
  "outcome_name PO_PAIRED = ''paired''"
| "outcome_name PO_NO_RESPONSE = ''no_response''"
| "outcome_name PO_INVALID_RESPONSE = ''invalid_response''"
| "outcome_name PO_KEY_EXCHANGE_FAILED = ''key_exchange_failed''"
| "outcome_name PO_CONFIG_FAILED = ''config_failed''"
| "outcome_name PO_NONE = ''none''"

record telemetry =
  tel_events :: "telemetry_event list"
  tel_heard_count :: u16
  tel_truncated :: bool
  tel_start_ms :: u32
  tel_end_ms :: u32
  tel_ended :: bool
  tel_phase :: pairing_state
  tel_outcome :: pairing_outcome
  tel_discovery_attempts :: u8
  tel_lbt_retries :: u8
  tel_paired :: "(node_id \<times> device_type) option"
  tel_advice_codes :: string

definition tel_begin :: "u32 \<Rightarrow> telemetry" where
  "tel_begin now =
     \<lparr>tel_events = [], tel_heard_count = 0, tel_truncated = False, tel_start_ms = now, tel_end_ms = now,
      tel_ended = False, tel_phase = PS_IDLE, tel_outcome = PO_NONE, tel_discovery_attempts = 0,
      tel_lbt_retries = 0, tel_paired = None, tel_advice_codes = []\<rparr>"

definition is_rx_kind :: "telemetry_kind \<Rightarrow> bool" where
  "is_rx_kind k \<longleftrightarrow> k = TK_RX \<or> k = TK_RX_REJECT"

definition tel_record :: "u32 \<Rightarrow> telemetry_event \<Rightarrow> telemetry \<Rightarrow> telemetry" where
  "tel_record now event t =
     (let t = (if is_rx_kind (te_kind event) \<and> tel_heard_count t < 0xFFFF
               then t\<lparr>tel_heard_count := tel_heard_count t + 1\<rparr> else t)
      in if length (tel_events t) \<ge> PAIRING_TELEMETRY_MAX_EVENTS then t\<lparr>tel_truncated := True\<rparr>
         else t\<lparr>tel_events := tel_events t @ [event\<lparr>te_millis_offset := now - tel_start_ms t\<rparr>]\<rparr>)"

definition tel_event :: "telemetry_kind \<Rightarrow> u8 \<Rightarrow> node_id \<Rightarrow> node_id \<Rightarrow> int \<Rightarrow> u8 \<Rightarrow> bool \<Rightarrow> telemetry_event" where
  "tel_event kind c source dest rssi aux oneway =
     \<lparr>te_millis_offset = 0, te_kind = kind, te_cmd = c, te_src = source, te_dst = dest, te_rssi = rssi,
      te_aux = aux, te_oneway = oneway\<rparr>"

abbreviation (input) no_node :: node_id where "no_node \<equiv> [0, 0, 0]"

definition record_tx :: "u32 \<Rightarrow> u8 \<Rightarrow> telemetry \<Rightarrow> telemetry" where
  "record_tx now c t = tel_record now (tel_event TK_TX c no_node no_node 0 0 False) t"

definition record_rx :: "u32 \<Rightarrow> io_frame \<Rightarrow> int \<Rightarrow> telemetry \<Rightarrow> telemetry" where
  "record_rx now frame rssi t =
     tel_record now (tel_event TK_RX (cmd frame) (src frame) (dst frame) rssi 0 (ctrl0 frame AND CTRL0_PROTOCOL_1W \<noteq> 0)) t"

definition record_rx_reject :: "u32 \<Rightarrow> io_frame \<Rightarrow> int \<Rightarrow> telemetry \<Rightarrow> telemetry" where
  "record_rx_reject now frame rssi t =
     tel_record now (tel_event TK_RX_REJECT (cmd frame) (src frame) (dst frame) rssi 0 (ctrl0 frame AND CTRL0_PROTOCOL_1W \<noteq> 0)) t"

definition record_lbt_defer :: "u32 \<Rightarrow> int \<Rightarrow> telemetry \<Rightarrow> telemetry" where
  "record_lbt_defer now rssi t =
     (let t = (if tel_lbt_retries t < 0xFF then t\<lparr>tel_lbt_retries := tel_lbt_retries t + 1\<rparr> else t)
      in tel_record now (tel_event TK_LBT_DEFER 0 no_node no_node rssi (tel_lbt_retries t) False) t)"

definition record_hop :: "u32 \<Rightarrow> telemetry \<Rightarrow> telemetry" where
  "record_hop now t = tel_record now (tel_event TK_HOP 0 no_node no_node 0 0 False) t"

definition set_phase :: "u32 \<Rightarrow> pairing_state \<Rightarrow> telemetry \<Rightarrow> telemetry" where
  "set_phase now phase t =
     tel_record now (tel_event TK_PHASE 0 no_node no_node 0 (pairing_state_byte phase) False) (t\<lparr>tel_phase := phase\<rparr>)"

definition set_outcome :: "u32 \<Rightarrow> pairing_outcome \<Rightarrow> telemetry \<Rightarrow> telemetry" where
  "set_outcome now outcome t = t\<lparr>tel_outcome := outcome, tel_end_ms := now, tel_ended := True\<rparr>"

definition set_paired_device :: "node_id \<Rightarrow> device_type \<Rightarrow> telemetry \<Rightarrow> telemetry" where
  "set_paired_device node type t = t\<lparr>tel_paired := Some (node, type)\<rparr>"

definition increment_discovery_attempt :: "telemetry \<Rightarrow> telemetry" where
  "increment_discovery_attempt t =
     (if tel_discovery_attempts t < 0xFF then t\<lparr>tel_discovery_attempts := tel_discovery_attempts t + 1\<rparr> else t)"

definition set_advice_codes :: "string \<Rightarrow> telemetry \<Rightarrow> telemetry" where
  "set_advice_codes codes t = t\<lparr>tel_advice_codes := codes\<rparr>"

definition duration_ms :: "u32 \<Rightarrow> telemetry \<Rightarrow> u32" where
  "duration_ms now t = (if tel_ended t then tel_end_ms t else now) - tel_start_ms t"

definition result_text :: "u32 \<Rightarrow> telemetry \<Rightarrow> string" where
  "result_text now t =
     ''v1; outcome='' @ outcome_name (tel_outcome t) @ ''; phase='' @ pairing_stage_name (tel_phase t) @
     ''; node='' @ (case tel_paired t of Some (node, type) \<Rightarrow> node_id_to_string node | None \<Rightarrow> ''-'') @
     ''; type='' @ (case tel_paired t of Some (node, type) \<Rightarrow> device_type_name type | None \<Rightarrow> ''-'') @
     ''; attempts='' @ dec_string (unat (tel_discovery_attempts t)) @
     ''; lbt='' @ dec_string (unat (tel_lbt_retries t)) @
     ''; dur_ms='' @ dec_string (unat (duration_ms now t)) @
     ''; heard='' @ dec_string (unat (tel_heard_count t)) @
     ''; advice='' @ (if tel_advice_codes t = [] then ''none'' else tel_advice_codes t)"

text \<open>\<open>snprintf\<close> keeps what fits the buffer with its terminator.\<close>

definition result_sensor_string :: "u32 \<Rightarrow> telemetry \<Rightarrow> string" where
  "result_sensor_string now t = take (RESULT_SENSOR_STRING_BUFFER_SIZE - 1) (result_text now t)"

section \<open>The advisor\<close>

abbreviation (input) PAIRING_ADVICE_MAX :: nat where "PAIRING_ADVICE_MAX \<equiv> 4"

datatype pairing_advice_code =
    PA_NONE | ONE_WAY_PAIRING_TRAFFIC | CHANNEL_BUSY_LBT_DELAYED | FOREIGN_CONTROLLER_PAIRING | RF_SILENT

record pairing_advice =
  pad_code :: pairing_advice_code
  pad_subject_node :: node_id
  pad_rssi :: int

definition advice_about :: "pairing_advice_code \<Rightarrow> telemetry_event \<Rightarrow> pairing_advice" where
  "advice_about code event = \<lparr>pad_code = code, pad_subject_node = te_src event, pad_rssi = te_rssi event\<rparr>"

definition is_oneway_pairing_frame :: "telemetry_event \<Rightarrow> bool" where
  "is_oneway_pairing_frame event \<longleftrightarrow>
     te_oneway event \<and> te_dst event = BROADCAST_DISCOVER_ALT \<and>
     (te_cmd event = CMD_WRITE_PRIVATE \<or> te_cmd event = CMD_ONEWAY_REMOVE \<or> te_cmd event = CMD_DISCOVER_ALT_REQ)"

definition count_occurrences_of_source :: "telemetry_event list \<Rightarrow> node_id \<Rightarrow> u8" where
  "count_occurrences_of_source events source =
     of_nat (length (filter (\<lambda>e. is_rx_kind (te_kind e) \<and> te_src e = source) events))"

text \<open>Each helper appends at most one entry to the advice written so far.\<close>

definition append_one_way_pairing_advice :: "telemetry_event list \<Rightarrow> pairing_advice list \<Rightarrow> pairing_advice list" where
  "append_one_way_pairing_advice events out =
     (if length out \<ge> PAIRING_ADVICE_MAX then out
      else case find (\<lambda>e. is_rx_kind (te_kind e) \<and> is_oneway_pairing_frame e) events of
             None \<Rightarrow> out
           | Some e \<Rightarrow> out @ [advice_about ONE_WAY_PAIRING_TRAFFIC e])"

definition append_channel_busy_advice :: "telemetry \<Rightarrow> pairing_advice list \<Rightarrow> pairing_advice list" where
  "append_channel_busy_advice t out =
     (if length out \<ge> PAIRING_ADVICE_MAX \<or> unat (tel_lbt_retries t) < LBT_MAX_RETRIES then out
      else case find (\<lambda>e. is_rx_kind (te_kind e) \<and> \<not> count_occurrences_of_source (tel_events t) (te_src e) < 2) (tel_events t) of
             None \<Rightarrow> out
           | Some e \<Rightarrow> out @ [advice_about CHANNEL_BUSY_LBT_DELAYED e])"

definition append_foreign_controller_advice ::
  "node_id \<Rightarrow> telemetry_event list \<Rightarrow> pairing_advice list \<Rightarrow> pairing_advice list" where
  "append_foreign_controller_advice own_node_id events out =
     (if own_node_id = no_node then out
      else if length out \<ge> PAIRING_ADVICE_MAX then out
      else case find (\<lambda>e. is_rx_kind (te_kind e) \<and> te_cmd e = CMD_DISCOVER_RESP \<and> te_dst e \<noteq> own_node_id) events of
             None \<Rightarrow> out
           | Some e \<Rightarrow> out @ [advice_about FOREIGN_CONTROLLER_PAIRING e])"

definition analyze_pairing_telemetry :: "telemetry \<Rightarrow> node_id \<Rightarrow> pairing_advice list" where
  "analyze_pairing_telemetry t own_node_id =
     (let out = append_one_way_pairing_advice (tel_events t) [];
          out = append_channel_busy_advice t out;
          out = append_foreign_controller_advice own_node_id (tel_events t) out
      in if out = [] \<and> tel_heard_count t = 0
         then [\<lparr>pad_code = RF_SILENT, pad_subject_node = no_node, pad_rssi = 0\<rparr>] else out)"

fun pairing_advice_code_name :: "pairing_advice_code \<Rightarrow> string" where
  "pairing_advice_code_name ONE_WAY_PAIRING_TRAFFIC = ''1w_traffic''"
| "pairing_advice_code_name CHANNEL_BUSY_LBT_DELAYED = ''channel_busy''"
| "pairing_advice_code_name FOREIGN_CONTROLLER_PAIRING = ''foreign_controller''"
| "pairing_advice_code_name RF_SILENT = ''rf_silent''"
| "pairing_advice_code_name PA_NONE = ''none''"

fun comma_separated :: "string list \<Rightarrow> string" where
  "comma_separated [] = []"
| "comma_separated [s] = s"
| "comma_separated (s # ss) = s @ CHR 0x2C # comma_separated ss"

definition advice_codes_text :: "pairing_advice list \<Rightarrow> string" where
  "advice_codes_text advice = comma_separated (map (\<lambda>a. pairing_advice_code_name (pad_code a)) advice)"

section \<open>A run of the recorder\<close>

datatype telemetry_call =
    Rec_Tx u32 u8 | Rec_Rx u32 io_frame int | Rec_Rx_Reject u32 io_frame int | Rec_Lbt_Defer u32 int | Rec_Hop u32
  | Set_Phase u32 pairing_state | Increment_Discovery

fun telemetry_step :: "telemetry_call \<Rightarrow> telemetry \<Rightarrow> telemetry" where
  "telemetry_step (Rec_Tx now c) t = record_tx now c t"
| "telemetry_step (Rec_Rx now f r) t = record_rx now f r t"
| "telemetry_step (Rec_Rx_Reject now f r) t = record_rx_reject now f r t"
| "telemetry_step (Rec_Lbt_Defer now r) t = record_lbt_defer now r t"
| "telemetry_step (Rec_Hop now) t = record_hop now t"
| "telemetry_step (Set_Phase now p) t = set_phase now p t"
| "telemetry_step Increment_Discovery t = increment_discovery_attempt t"

fun call_kind :: "telemetry_call \<Rightarrow> telemetry_kind option" where
  "call_kind (Rec_Tx now c) = Some TK_TX"
| "call_kind (Rec_Rx now f r) = Some TK_RX"
| "call_kind (Rec_Rx_Reject now f r) = Some TK_RX_REJECT"
| "call_kind (Rec_Lbt_Defer now r) = Some TK_LBT_DEFER"
| "call_kind (Rec_Hop now) = Some TK_HOP"
| "call_kind (Set_Phase now p) = Some TK_PHASE"
| "call_kind Increment_Discovery = None"

definition kinds_of :: "telemetry_call list \<Rightarrow> telemetry_kind list" where
  "kinds_of calls = List.map_filter call_kind calls"

lemma kinds_of_simps [simp]:
  "kinds_of [] = []"
  "kinds_of (cs @ [c]) = kinds_of cs @ (case call_kind c of Some k \<Rightarrow> [k] | None \<Rightarrow> [])"
  by (simp_all add: kinds_of_def List.map_filter_def split: option.split)

definition count_rx :: "telemetry_kind list \<Rightarrow> nat" where
  "count_rx ks = length (filter is_rx_kind ks)"

text \<open>What the recorder holds after a run of calls, stated over the whole run.\<close>

definition recorded :: "telemetry_call list \<Rightarrow> telemetry \<Rightarrow> bool" where
  "recorded calls t \<longleftrightarrow>
     map te_kind (tel_events t) = take PAIRING_TELEMETRY_MAX_EVENTS (kinds_of calls) \<and>
     tel_truncated t = (length (kinds_of calls) > PAIRING_TELEMETRY_MAX_EVENTS) \<and>
     unat (tel_heard_count t) = min 65535 (count_rx (kinds_of calls)) \<and>
     unat (tel_lbt_retries t) = min 255 (length (filter (\<lambda>k. k = TK_LBT_DEFER) (kinds_of calls))) \<and>
     unat (tel_discovery_attempts t) = min 255 (length (filter (\<lambda>c. c = Increment_Discovery) calls))"

lemma take_kinds_snoc:
  "map te_kind es = take n ks \<Longrightarrow>
   (if length es \<ge> n then take n (ks @ [k]) = map te_kind es else take n (ks @ [k]) = map te_kind es @ [k])
   \<and> (length es \<ge> n \<longleftrightarrow> length ks \<ge> n)"
proof -
  assume *: "map te_kind es = take n ks"
  then have "length es = min n (length ks)" by (metis length_map length_take min.commute)
  then show ?thesis using * by auto
qed

lemma unat_inc_u16: "(w :: u16) < 0xFFFF \<Longrightarrow> unat (w + 1) = unat w + 1"
  using unat_add_lem [of w 1] by (simp add: word_less_nat_alt)

lemma unat_inc_u8: "(w :: u8) < 0xFF \<Longrightarrow> unat (w + 1) = unat w + 1"
  using unat_add_lem [of w 1] by (simp add: word_less_nat_alt)

lemma tel_record_spec:
  assumes "map te_kind (tel_events t) = take 32 ks" "tel_truncated t = (length ks > 32)"
    "unat (tel_heard_count t) = min 65535 (count_rx ks)"
  shows "map te_kind (tel_events (tel_record now e t)) = take 32 (ks @ [te_kind e])
    \<and> tel_truncated (tel_record now e t) = (length (ks @ [te_kind e]) > 32)
    \<and> unat (tel_heard_count (tel_record now e t)) = min 65535 (count_rx (ks @ [te_kind e]))
    \<and> tel_lbt_retries (tel_record now e t) = tel_lbt_retries t
    \<and> tel_discovery_attempts (tel_record now e t) = tel_discovery_attempts t"
proof -
  have heard: "unat (if is_rx_kind (te_kind e) \<and> tel_heard_count t < 0xFFFF then tel_heard_count t + 1 else tel_heard_count t)
      = min 65535 (count_rx (ks @ [te_kind e]))"
    using assms(3) unat_inc_u16 [of "tel_heard_count t"] by (auto simp: count_rx_def word_less_nat_alt)
  show ?thesis
    using take_kinds_snoc [OF assms(1), of "te_kind e"] assms heard
    by (auto simp: tel_record_def Let_def split: if_splits)
qed

lemma tel_event_kind [simp]: "te_kind (tel_event k c s d r a w) = k"
  by (simp add: tel_event_def)

lemma recorded_step: "recorded calls t \<Longrightarrow> recorded (calls @ [c]) (telemetry_step c t)"
proof (cases c)
  case (Rec_Lbt_Defer now r)
  assume rec: "recorded calls t"
  let ?t = "if tel_lbt_retries t < 0xFF then t\<lparr>tel_lbt_retries := tel_lbt_retries t + 1\<rparr> else t"
  have "unat (tel_lbt_retries ?t) = min 255 (length (filter (\<lambda>k. k = TK_LBT_DEFER) (kinds_of (calls @ [c]))))"
    using rec Rec_Lbt_Defer unat_inc_u8 [of "tel_lbt_retries t"] by (auto simp: recorded_def word_less_nat_alt)
  moreover have "recorded calls (?t\<lparr>tel_lbt_retries := tel_lbt_retries t\<rparr>)" using rec by (simp add: recorded_def)
  ultimately show ?thesis
    using rec Rec_Lbt_Defer tel_record_spec [of ?t "kinds_of calls"]
    by (simp add: recorded_def record_lbt_defer_def Let_def)
next
  case Increment_Discovery
  assume "recorded calls t"
  with Increment_Discovery show ?thesis
    using unat_inc_u8 [of "tel_discovery_attempts t"]
    by (auto simp: recorded_def increment_discovery_attempt_def word_less_nat_alt)
qed (use tel_record_spec [of t "kinds_of calls"] tel_record_spec [of "t\<lparr>tel_phase := _\<rparr>" "kinds_of calls"] in
  \<open>simp add: recorded_def record_tx_def record_rx_def record_rx_reject_def record_hop_def set_phase_def\<close>)+

lemma recorded_run: "recorded calls (fold telemetry_step calls (tel_begin now))"
  by (induction calls rule: rev_induct)
    (simp add: recorded_def tel_begin_def count_rx_def, simp add: recorded_step)

section \<open>Lengths\<close>

lemma length_dec_string: "n < 10 ^ Suc k \<Longrightarrow> length (dec_string n) \<le> Suc k"
proof (induction n arbitrary: k rule: dec_string.induct)
  case (1 n)
  show ?case
  proof (cases "n < 10")
    case True
    then show ?thesis by (subst dec_string.simps) simp
  next
    case False
    then obtain j where k: "k = Suc j" using 1(2) by (cases k) auto
    then have "n div 10 < 10 ^ Suc j" using 1(2) by (simp add: less_mult_imp_div_less)
    then have "length (dec_string (n div 10)) \<le> Suc j" using 1(1) False by blast
    then show ?thesis using False k by (subst dec_string.simps) simp
  qed
qed

lemma length_dec_byte: "length (dec_string (unat (b :: u8))) \<le> 3"
proof -
  have "unat b < 2 ^ LENGTH(8)" by (rule unsigned_less)
  then show ?thesis using length_dec_string [of "unat b" 2] by (simp del: unat_u8_less)
qed

lemma length_dec_u16: "length (dec_string (unat (w :: u16))) \<le> 5"
proof -
  have "unat w < 2 ^ LENGTH(16)" by (rule unsigned_less)
  then show ?thesis using length_dec_string [of "unat w" 4] by simp
qed

lemma length_dec_u32: "length (dec_string (unat (w :: u32))) \<le> 10"
proof -
  have "unat w < 2 ^ LENGTH(32)" by (rule unsigned_less)
  then show ?thesis using length_dec_string [of "unat w" 9] by simp
qed

lemma length_names:
  "length (outcome_name out) \<le> 19" "length (pairing_stage_name st) \<le> 22" "length (device_type_name type) \<le> 29"
  "length (node_id_to_string node) = 6"
     apply (cases out; simp)
    apply (cases st; simp)
   apply (cases type; simp)
  by (simp add: node_id_to_string_def hex_byte_def)

section \<open>Advice\<close>

definition first_of :: "pairing_advice_code \<Rightarrow> telemetry_event option \<Rightarrow> pairing_advice list" where
  "first_of code e = (case e of None \<Rightarrow> [] | Some e \<Rightarrow> [advice_about code e])"

lemma length_first_of: "length (first_of code e) \<le> 1"
  by (simp add: first_of_def split: option.split)

lemma append_advice_forms:
  "append_one_way_pairing_advice events [] =
     first_of ONE_WAY_PAIRING_TRAFFIC (find (\<lambda>e. is_rx_kind (te_kind e) \<and> is_oneway_pairing_frame e) events)"
  "length out \<le> 1 \<Longrightarrow> append_channel_busy_advice t out = out @
     (if unat (tel_lbt_retries t) < LBT_MAX_RETRIES then [] else first_of CHANNEL_BUSY_LBT_DELAYED
       (find (\<lambda>e. is_rx_kind (te_kind e) \<and> \<not> count_occurrences_of_source (tel_events t) (te_src e) < 2) (tel_events t)))"
  "length out \<le> 2 \<Longrightarrow> append_foreign_controller_advice own events out = out @
     (if own = no_node then [] else first_of FOREIGN_CONTROLLER_PAIRING
       (find (\<lambda>e. is_rx_kind (te_kind e) \<and> te_cmd e = CMD_DISCOVER_RESP \<and> te_dst e \<noteq> own) events))"
  by (auto simp: append_one_way_pairing_advice_def append_channel_busy_advice_def append_foreign_controller_advice_def
      first_of_def split: option.split)

lemma analyze_form:
  "\<exists>a b c. length a \<le> 1 \<and> length b \<le> 1 \<and> length c \<le> 1
    \<and> (\<forall>x \<in> set a. \<exists>e. find (\<lambda>e. is_rx_kind (te_kind e) \<and> is_oneway_pairing_frame e) (tel_events t) = Some e
          \<and> x = advice_about ONE_WAY_PAIRING_TRAFFIC e)
    \<and> (\<forall>x \<in> set b. 5 \<le> unat (tel_lbt_retries t) \<and> (\<exists>e. find (\<lambda>e. is_rx_kind (te_kind e) \<and>
          \<not> count_occurrences_of_source (tel_events t) (te_src e) < 2) (tel_events t) = Some e
          \<and> x = advice_about CHANNEL_BUSY_LBT_DELAYED e))
    \<and> (\<forall>x \<in> set c. own \<noteq> no_node \<and> (\<exists>e. find (\<lambda>e. is_rx_kind (te_kind e) \<and> te_cmd e = CMD_DISCOVER_RESP
          \<and> te_dst e \<noteq> own) (tel_events t) = Some e \<and> x = advice_about FOREIGN_CONTROLLER_PAIRING e))
    \<and> analyze_pairing_telemetry t own =
        (if a @ b @ c = [] \<and> tel_heard_count t = 0
         then [\<lparr>pad_code = RF_SILENT, pad_subject_node = no_node, pad_rssi = 0\<rparr>] else a @ b @ c)"
proof -
  let ?a = "first_of ONE_WAY_PAIRING_TRAFFIC (find (\<lambda>e. is_rx_kind (te_kind e) \<and> is_oneway_pairing_frame e) (tel_events t))"
  let ?b = "if unat (tel_lbt_retries t) < LBT_MAX_RETRIES then [] else first_of CHANNEL_BUSY_LBT_DELAYED
       (find (\<lambda>e. is_rx_kind (te_kind e) \<and> \<not> count_occurrences_of_source (tel_events t) (te_src e) < 2) (tel_events t))"
  let ?c = "if own = no_node then [] else first_of FOREIGN_CONTROLLER_PAIRING
       (find (\<lambda>e. is_rx_kind (te_kind e) \<and> te_cmd e = CMD_DISCOVER_RESP \<and> te_dst e \<noteq> own) (tel_events t))"
  have len: "length ?a \<le> 1" "length ?b \<le> 1" "length ?c \<le> 1" using length_first_of by auto
  then have two: "length (?a @ ?b) \<le> 2" by (simp only: length_append)
  have "analyze_pairing_telemetry t own =
        (if ?a @ ?b @ ?c = [] \<and> tel_heard_count t = 0
         then [\<lparr>pad_code = RF_SILENT, pad_subject_node = no_node, pad_rssi = 0\<rparr>] else ?a @ ?b @ ?c)"
    unfolding analyze_pairing_telemetry_def Let_def append_advice_forms(1) append_advice_forms(2) [OF len(1)]
      append_advice_forms(3) [OF two] by simp
  with len show ?thesis
    by (intro exI [of _ ?a] exI [of _ ?b] exI [of _ ?c]) (auto simp: first_of_def split: option.splits)
qed

lemma advice_codes_length: "length (advice_codes_text (analyze_pairing_telemetry t own)) \<le> 44"
proof -
  obtain a b c where len: "length a \<le> 1" "length b \<le> 1" "length c \<le> 1"
    and sa: "\<forall>x \<in> set a. \<exists>e. find (\<lambda>e. is_rx_kind (te_kind e) \<and> is_oneway_pairing_frame e) (tel_events t) = Some e
          \<and> x = advice_about ONE_WAY_PAIRING_TRAFFIC e"
    and sb: "\<forall>x \<in> set b. 5 \<le> unat (tel_lbt_retries t) \<and> (\<exists>e. find (\<lambda>e. is_rx_kind (te_kind e) \<and>
          \<not> count_occurrences_of_source (tel_events t) (te_src e) < 2) (tel_events t) = Some e
          \<and> x = advice_about CHANNEL_BUSY_LBT_DELAYED e)"
    and sc: "\<forall>x \<in> set c. own \<noteq> no_node \<and> (\<exists>e. find (\<lambda>e. is_rx_kind (te_kind e) \<and> te_cmd e = CMD_DISCOVER_RESP
          \<and> te_dst e \<noteq> own) (tel_events t) = Some e \<and> x = advice_about FOREIGN_CONTROLLER_PAIRING e)"
    and form: "analyze_pairing_telemetry t own =
        (if a @ b @ c = [] \<and> tel_heard_count t = 0
         then [\<lparr>pad_code = RF_SILENT, pad_subject_node = no_node, pad_rssi = 0\<rparr>] else a @ b @ c)"
    using analyze_form [of t own] by blast
  have codes: "\<forall>x \<in> set a. pad_code x = ONE_WAY_PAIRING_TRAFFIC" "\<forall>x \<in> set b. pad_code x = CHANNEL_BUSY_LBT_DELAYED"
      "\<forall>x \<in> set c. pad_code x = FOREIGN_CONTROLLER_PAIRING"
    using sa sb sc by (metis advice_about_def pairing_advice.select_convs(1))+
  have shape: "map (\<lambda>x. pairing_advice_code_name (pad_code x)) xs \<in> {[], [pairing_advice_code_name k]}"
    if "length xs \<le> 1" "\<forall>x \<in> set xs. pad_code x = k" for xs k
    using that by (cases xs) auto
  have "advice_codes_text (a @ b @ c) = comma_separated (map (\<lambda>x. pairing_advice_code_name (pad_code x)) a @
      map (\<lambda>x. pairing_advice_code_name (pad_code x)) b @ map (\<lambda>x. pairing_advice_code_name (pad_code x)) c)"
    by (simp add: advice_codes_text_def)
  then have "length (advice_codes_text (a @ b @ c)) \<le> 44"
    using shape [OF len(1) codes(1)] shape [OF len(2) codes(2)] shape [OF len(3) codes(3)]
    by (elim insertE emptyE) simp_all
  then show ?thesis by (simp add: form advice_codes_text_def)
qed

lemma count_occurrences_small:
  "length events \<le> 32 \<Longrightarrow> unat (count_occurrences_of_source events s) =
     length (filter (\<lambda>e. is_rx_kind (te_kind e) \<and> te_src e = s) events)"
proof -
  assume "length events \<le> 32"
  moreover have "length (filter (\<lambda>e. is_rx_kind (te_kind e) \<and> te_src e = s) events) \<le> length events"
    by (rule length_filter_le)
  ultimately have "length (filter (\<lambda>e. is_rx_kind (te_kind e) \<and> te_src e = s) events) \<le> 32" by linarith
  then have "length (filter (\<lambda>e. is_rx_kind (te_kind e) \<and> te_src e = s) events) < 2 ^ LENGTH(8)" by simp
  then show ?thesis by (simp only: count_occurrences_of_source_def unat_of_nat mod_less)
qed

section \<open>Properties\<close>


text \<open>The result string is never cut off by its 256-byte buffer: whatever the attempt recorded, with the
  advice codes of the advisor the formatted text fits with its terminator.\<close>

theorem result_string_fits:
  "result_sensor_string now (set_advice_codes (advice_codes_text (analyze_pairing_telemetry t' own)) t) =
   result_text now (set_advice_codes (advice_codes_text (analyze_pairing_telemetry t' own)) t)"
proof -
  let ?codes = "advice_codes_text (analyze_pairing_telemetry t' own)"
  let ?t = "set_advice_codes ?codes t"
  have codes: "length (if tel_advice_codes ?t = [] then ''none'' else tel_advice_codes ?t) \<le> 44"
    using advice_codes_length [of t' own] by (simp add: set_advice_codes_def)
  have node: "length (case tel_paired ?t of Some (node, type) \<Rightarrow> node_id_to_string node | None \<Rightarrow> ''-'') \<le> 6"
    by (auto simp: length_names split: option.split)
  have type: "length (case tel_paired ?t of Some (node, type) \<Rightarrow> device_type_name type | None \<Rightarrow> ''-'') \<le> 29"
    by (auto simp: length_names split: option.split)
  have "length (result_text now ?t) \<le> 255"
    using codes node type length_names(1) [of "tel_outcome ?t"] length_names(2) [of "tel_phase ?t"]
      length_dec_byte [of "tel_discovery_attempts ?t"] length_dec_byte [of "tel_lbt_retries ?t"]
      length_dec_u32 [of "duration_ms now ?t"] length_dec_u16 [of "tel_heard_count ?t"]
    unfolding result_text_def length_append by (simp del: length_dec_string)
  then show ?thesis by (simp add: result_sensor_string_def)
qed

lemma advisor_sound_run:
  fixes calls own now
  defines "t \<equiv> fold telemetry_step calls (tel_begin now)"
  defines "advice \<equiv> analyze_pairing_telemetry t own"
  shows "(RF_SILENT \<in> pad_code ` set advice \<longleftrightarrow> tel_heard_count t = 0) \<and> length advice < PAIRING_ADVICE_MAX \<and>
    (\<forall>a \<in> set advice.
      (pad_code a = FOREIGN_CONTROLLER_PAIRING \<longrightarrow> own \<noteq> no_node \<and>
         (\<exists>e \<in> set (tel_events t). is_rx_kind (te_kind e) \<and> te_cmd e = CMD_DISCOVER_RESP \<and> te_dst e \<noteq> own \<and>
            te_src e = pad_subject_node a)) \<and>
      (pad_code a = CHANNEL_BUSY_LBT_DELAYED \<longrightarrow> 5 \<le> unat (tel_lbt_retries t) \<and>
         2 \<le> length (filter (\<lambda>e. is_rx_kind (te_kind e) \<and> te_src e = pad_subject_node a) (tel_events t))))"
proof -
  have rec: "recorded calls t" unfolding t_def by (rule recorded_run)
  have short: "length (tel_events t) \<le> 32"
    using rec unfolding recorded_def by (metis length_map length_take min.cobounded2)
  obtain a b c where len: "length a \<le> 1" "length b \<le> 1" "length c \<le> 1"
    and sa: "\<forall>x \<in> set a. \<exists>e. find (\<lambda>e. is_rx_kind (te_kind e) \<and> is_oneway_pairing_frame e) (tel_events t) = Some e
          \<and> x = advice_about ONE_WAY_PAIRING_TRAFFIC e"
    and sb: "\<forall>x \<in> set b. 5 \<le> unat (tel_lbt_retries t) \<and> (\<exists>e. find (\<lambda>e. is_rx_kind (te_kind e) \<and>
          \<not> count_occurrences_of_source (tel_events t) (te_src e) < 2) (tel_events t) = Some e
          \<and> x = advice_about CHANNEL_BUSY_LBT_DELAYED e)"
    and sc: "\<forall>x \<in> set c. own \<noteq> no_node \<and> (\<exists>e. find (\<lambda>e. is_rx_kind (te_kind e) \<and> te_cmd e = CMD_DISCOVER_RESP
          \<and> te_dst e \<noteq> own) (tel_events t) = Some e \<and> x = advice_about FOREIGN_CONTROLLER_PAIRING e)"
    and form: "advice = (if a @ b @ c = [] \<and> tel_heard_count t = 0
         then [\<lparr>pad_code = RF_SILENT, pad_subject_node = no_node, pad_rssi = 0\<rparr>] else a @ b @ c)"
    using analyze_form [of t own] unfolding advice_def by blast
  have heard: "a @ b @ c = []" if "tel_heard_count t = 0"
  proof -
    have "count_rx (kinds_of calls) = 0" using rec that by (auto simp: recorded_def min_def split: if_splits)
    then have "\<forall>k \<in> set (kinds_of calls). \<not> is_rx_kind k" by (simp add: count_rx_def filter_empty_conv)
    moreover have "te_kind ` set (tel_events t) \<subseteq> set (kinds_of calls)"
      using rec unfolding recorded_def by (metis list.set_map set_take_subset)
    ultimately have "\<forall>e \<in> set (tel_events t). \<not> is_rx_kind (te_kind e)" by auto
    then have none: "find (\<lambda>e. is_rx_kind (te_kind e) \<and> P e) (tel_events t) = None" for P
      by (auto simp: find_None_iff)
    have "set a = {}" "set b = {}" "set c = {}" using sa sb sc by (auto simp: none)
    then show ?thesis by simp
  qed
  have rf: "RF_SILENT \<in> pad_code ` set advice \<longleftrightarrow> tel_heard_count t = 0"
    using heard sa sb sc by (auto simp: form advice_about_def)
  have "length advice < 4" using len by (auto simp: form)
  moreover have "pad_code x = FOREIGN_CONTROLLER_PAIRING \<longrightarrow> own \<noteq> no_node \<and>
         (\<exists>e \<in> set (tel_events t). is_rx_kind (te_kind e) \<and> te_cmd e = CMD_DISCOVER_RESP \<and> te_dst e \<noteq> own \<and>
            te_src e = pad_subject_node x)" if "x \<in> set advice" for x
    using that sa sb sc by (fastforce simp: form advice_about_def find_Some_iff split: if_splits)
  moreover have "pad_code x = CHANNEL_BUSY_LBT_DELAYED \<longrightarrow> 5 \<le> unat (tel_lbt_retries t) \<and>
         2 \<le> length (filter (\<lambda>e. is_rx_kind (te_kind e) \<and> te_src e = pad_subject_node x) (tel_events t))"
    if "x \<in> set advice" for x
  proof
    assume "pad_code x = CHANNEL_BUSY_LBT_DELAYED"
    then have "x \<in> set b" using that sa sc by (auto simp: form advice_about_def split: if_splits)
    then obtain e where lbt: "5 \<le> unat (tel_lbt_retries t)" and x: "x = advice_about CHANNEL_BUSY_LBT_DELAYED e"
      and "\<not> count_occurrences_of_source (tel_events t) (te_src e) < 2"
      using sb by (auto simp: find_Some_iff)
    then have "2 \<le> length (filter (\<lambda>e'. is_rx_kind (te_kind e') \<and> te_src e' = te_src e) (tel_events t))"
      using count_occurrences_small [OF short, of "te_src e"] by (simp add: word_less_nat_alt)
    then show "5 \<le> unat (tel_lbt_retries t) \<and>
         2 \<le> length (filter (\<lambda>e. is_rx_kind (te_kind e) \<and> te_src e = pad_subject_node x) (tel_events t))"
      using lbt x by (simp add: advice_about_def)
  qed
  ultimately show ?thesis using rf by blast
qed

text \<open>The advisor is sound on what was recorded. It reports a silent band exactly when nothing was heard;
  it names a foreign controller only for a discovery response, heard during the attempt, that went to
  another controller, and never while the own address is unset; it blames a busy channel on a source
  only after five deferrals and only if the source was heard at least twice; and it never fills its
  buffer.\<close>

theorem advisor_sound:
  assumes "a \<in> set (analyze_pairing_telemetry (fold telemetry_step calls (tel_begin now)) own)"
  shows "let t = fold telemetry_step calls (tel_begin now) in
    (pad_code a = RF_SILENT \<longrightarrow> tel_heard_count t = 0) \<and>
    (pad_code a = FOREIGN_CONTROLLER_PAIRING \<longrightarrow> own \<noteq> no_node \<and>
       (\<exists>e \<in> set (tel_events t). is_rx_kind (te_kind e) \<and> te_cmd e = CMD_DISCOVER_RESP \<and> te_dst e \<noteq> own \<and>
          te_src e = pad_subject_node a)) \<and>
    (pad_code a = CHANNEL_BUSY_LBT_DELAYED \<longrightarrow> 5 \<le> unat (tel_lbt_retries t) \<and>
       2 \<le> length (filter (\<lambda>e. is_rx_kind (te_kind e) \<and> te_src e = pad_subject_node a) (tel_events t))) \<and>
    (tel_heard_count t = 0 \<longrightarrow> RF_SILENT \<in> pad_code ` set (analyze_pairing_telemetry t own)) \<and>
    length (analyze_pairing_telemetry t own) < PAIRING_ADVICE_MAX"
proof -
  note run = advisor_sound_run [of calls now own]
  note each = bspec [OF conjunct2 [OF conjunct2 [OF run]] assms]
  have "pad_code a \<in> pad_code ` set (analyze_pairing_telemetry (fold telemetry_step calls (tel_begin now)) own)"
    using assms by (rule imageI)
  then have "pad_code a = RF_SILENT \<longrightarrow> tel_heard_count (fold telemetry_step calls (tel_begin now)) = 0"
    using conjunct1 [OF run] by metis
  then show ?thesis
    unfolding Let_def using each conjunct1 [OF run] conjunct1 [OF conjunct2 [OF run]] by (intro conjI) simp_all
qed

theorem advisor_sound_witness:
  "\<exists>calls a. a \<in> set (analyze_pairing_telemetry (fold telemetry_step calls (tel_begin 0)) [1, 2, 3]) \<and>
     pad_code a = FOREIGN_CONTROLLER_PAIRING \<and>
     (\<exists>e \<in> set (tel_events (fold telemetry_step calls (tel_begin 0))). te_dst e \<noteq> [1, 2, 3] \<and> te_src e = pad_subject_node a)"
proof -
  let ?f = "empty_frame\<lparr>cmd := CMD_DISCOVER_RESP, src := [7, 8, 9], dst := [4, 5, 6]\<rparr>"
  let ?t = "fold telemetry_step [Rec_Rx 5 ?f (-60)] (tel_begin 0)"
  let ?a = "hd (analyze_pairing_telemetry ?t [1, 2, 3])"
  have m: "?a \<in> set (analyze_pairing_telemetry ?t [1, 2, 3]) \<and> pad_code ?a = FOREIGN_CONTROLLER_PAIRING"
    by code_simp
  have "\<exists>e \<in> set (tel_events ?t). te_dst e \<noteq> [1, 2, 3] \<and> te_src e = pad_subject_node ?a"
    using advisor_sound [OF conjunct1 [OF m]] m unfolding Let_def by blast
  then show ?thesis using m by blast
qed

text \<open>Hops crowd out what was heard: once the first 32 events of an attempt hold no received frame, which
  160 ms of hopping in an empty discovery window are enough for, the advisor stays silent for good. Frames
  heard later are counted and rule out the report of a silent band, but they are no longer stored, so no
  advice that needs a stored frame is ever given.\<close>

theorem hops_blind_advisor:
  assumes "\<forall>k \<in> set (take PAIRING_TELEMETRY_MAX_EVENTS (kinds_of calls)). \<not> is_rx_kind k"
  shows "analyze_pairing_telemetry (fold telemetry_step calls (tel_begin now)) own =
    (if count_rx (kinds_of calls) = 0 then [\<lparr>pad_code = RF_SILENT, pad_subject_node = no_node, pad_rssi = 0\<rparr>] else [])"
proof -
  let ?t = "fold telemetry_step calls (tel_begin now)"
  have rec: "recorded calls ?t" by (rule recorded_run)
  have "te_kind ` set (tel_events ?t) = set (take 32 (kinds_of calls))"
    using rec unfolding recorded_def by (metis list.set_map)
  then have "\<forall>e \<in> set (tel_events ?t). \<not> is_rx_kind (te_kind e)" using assms by blast
  then have none: "find (\<lambda>e. is_rx_kind (te_kind e) \<and> P e) (tel_events ?t) = None" for P
    by (auto simp: find_None_iff)
  have "unat (tel_heard_count ?t) = min 65535 (count_rx (kinds_of calls))" using rec by (simp add: recorded_def)
  then have "tel_heard_count ?t = 0 \<longleftrightarrow> count_rx (kinds_of calls) = 0" by (auto simp: unat_eq_0 [symmetric] min_def)
  then show ?thesis
    by (simp add: analyze_pairing_telemetry_def append_one_way_pairing_advice_def append_channel_busy_advice_def
        append_foreign_controller_advice_def none Let_def)
qed

theorem hops_blind_advisor_witness:
  "let calls = replicate 32 (Rec_Hop 5) @ [Rec_Rx 200 (empty_frame\<lparr>cmd := CMD_DISCOVER_RESP, dst := [4, 5, 6]\<rparr>) (-60)]
   in analyze_pairing_telemetry (fold telemetry_step calls (tel_begin 0)) [1, 2, 3] = []"
proof -
  let ?calls = "replicate 32 (Rec_Hop 5) @ [Rec_Rx 200 (empty_frame\<lparr>cmd := CMD_DISCOVER_RESP, dst := [4, 5, 6]\<rparr>) (-60)]"
  have "\<forall>k \<in> set (take PAIRING_TELEMETRY_MAX_EVENTS (kinds_of ?calls)). \<not> is_rx_kind k" "count_rx (kinds_of ?calls) \<noteq> 0"
    by code_simp+
  then show ?thesis using hops_blind_advisor [of ?calls 0 "[1, 2, 3]"] by simp
qed

end
