(* ===== verification/Radio_Link.thy ===== *)
theory Radio_Link
  imports Decisions Tuning Telemetry
begin

text \<open>
  The radio as the exchange and pairing engines see it (\<open>radio_interface.h\<close>) and the engine's three
  radio primitives (\<open>exchange_engine.cpp\<close>, \<open>hub_exchange.h\<close>): channel hopping, transmission with
  listen-before-talk, and the one listen loop every wait is built on. The chip and the air are an
  explicit environment: a script of what the receiver will deliver, of how transmissions end and of
  the noise readings, consumed in order. A silent environment lets a wait run into its timeout. The
  clock counts microseconds since boot without a bound; \<open>millis()\<close> and \<open>micros()\<close> are its wrapping views.
\<close>

section \<open>The environment\<close>

text \<open>
  One reception is what one \<open>wait_for_packet\<close> meets: the time it took, the packet unless the reception
  failed, its signal strength, and whether a preamble or sync word is visible afterwards.
\<close>

record reception =
  rcv_elapsed_us :: int
  rcv_packet :: "bytes option"
  rcv_rssi :: int
  rcv_preamble :: bool

record radio =
  rad_clock :: int
  rad_freq :: u32
  rad_air :: "reception list"
  rad_tx :: "(bool \<times> int) list"
  rad_noise :: "int list"
  rad_preamble :: bool
  rad_last_rssi :: int
  rad_last_hop_us :: u32
  rad_sent :: "(bytes \<times> u32 \<times> u16) list"

definition millis :: "radio \<Rightarrow> u32" where
  "millis r = word_of_int (rad_clock r div 1000)"

definition micros :: "radio \<Rightarrow> u32" where
  "micros r = word_of_int (rad_clock r)"

definition delay_ms :: "nat \<Rightarrow> radio \<Rightarrow> radio" where
  "delay_ms n r = r\<lparr>rad_clock := rad_clock r + 1000 * int n\<rparr>"

definition wait_for_packet :: "u32 \<Rightarrow> radio \<Rightarrow> bytes option \<times> radio" where
  "wait_for_packet timeout_ms r =
     (case rad_air r of
        [] \<Rightarrow> (None, (delay_ms (unat timeout_ms) r)\<lparr>rad_preamble := False, rad_last_rssi := 0\<rparr>)
      | e # air \<Rightarrow>
          (rcv_packet e, r\<lparr>rad_air := air, rad_clock := rad_clock r + rcv_elapsed_us e,
                          rad_preamble := rcv_preamble e, rad_last_rssi := rcv_rssi e\<rparr>))"

definition send_packet :: "bytes \<Rightarrow> u32 \<Rightarrow> u16 \<Rightarrow> radio \<Rightarrow> bool \<times> radio" where
  "send_packet buf freq preamble r =
     (let (ok, us) = (case rad_tx r of [] \<Rightarrow> (True, 0) | x # _ \<Rightarrow> x);
          r = r\<lparr>rad_tx := tl (rad_tx r), rad_clock := rad_clock r + us, rad_freq := freq\<rparr>
      in (ok, if ok then r\<lparr>rad_sent := rad_sent r @ [(buf, freq, preamble)]\<rparr> else r))"

definition read_rssi :: "radio \<Rightarrow> int \<times> radio" where
  "read_rssi r = (case rad_noise r of [] \<Rightarrow> (-128, r) | x # xs \<Rightarrow> (x, r\<lparr>rad_noise := xs\<rparr>))"

definition change_frequency :: "u32 \<Rightarrow> radio \<Rightarrow> radio" where
  "change_frequency freq r = r\<lparr>rad_freq := freq\<rparr>"

datatype radio_chip = CHIP_SX1276 | CHIP_SX1262 | CHIP_LR1121

fun hop_dwell_ms :: "radio_chip \<Rightarrow> tuning_config \<Rightarrow> u16" where
  "hop_dwell_ms CHIP_SX1276 tuning = sx1276_discovery_hop_slice_ms tuning"
| "hop_dwell_ms CHIP_SX1262 tuning = sx1262_discovery_hop_slice_ms tuning"
| "hop_dwell_ms CHIP_LR1121 tuning = lr1121_discovery_hop_slice_ms tuning"

definition has_fast_tx_rx_turnaround :: "radio_chip \<Rightarrow> bool" where
  "has_fast_tx_rx_turnaround chip \<longleftrightarrow> chip = CHIP_SX1276"

section \<open>What the engine keeps\<close>

text \<open>The radio-capture half of the debug snapshot feeds one log line and is left out.\<close>

record exchange_debug =
  dbg_stage :: string
  dbg_tries :: nat
  dbg_max_tries :: nat
  dbg_request_cmd :: u8
  dbg_saw_challenge :: bool

record exchange_counters =
  ctr_lbt_retries :: u32
  ctr_retransmits :: u32
  ctr_challenge_round_trips :: u32
  ctr_parse_failures :: u32

record engine_log =
  el_debug :: exchange_debug
  el_counters :: exchange_counters
  el_telemetry :: "telemetry option"

record exchange_env =
  env_node_id :: node_id
  env_system_key :: bytes
  env_tuning :: tuning_config
  env_chip :: radio_chip
  env_response_preamble :: u16

definition reset_debug :: "u8 \<Rightarrow> engine_log \<Rightarrow> engine_log" where
  "reset_debug request_cmd l = l\<lparr>el_debug :=
     \<lparr>dbg_stage = ''idle'', dbg_tries = 0, dbg_max_tries = EXCHANGE_RETRY_COUNT,
      dbg_request_cmd = request_cmd, dbg_saw_challenge = False\<rparr>\<rparr>"

definition record_debug :: "string \<Rightarrow> nat \<Rightarrow> bool \<Rightarrow> engine_log \<Rightarrow> engine_log" where
  "record_debug stage tries saw l =
     (let d = el_debug l in
      l\<lparr>el_debug := d\<lparr>dbg_stage := stage, dbg_tries := tries, dbg_saw_challenge := dbg_saw_challenge d \<or> saw\<rparr>\<rparr>)"

definition count_lbt_retry :: "engine_log \<Rightarrow> engine_log" where
  "count_lbt_retry l = l\<lparr>el_counters := (el_counters l)\<lparr>ctr_lbt_retries := ctr_lbt_retries (el_counters l) + 1\<rparr>\<rparr>"

definition count_retransmit :: "engine_log \<Rightarrow> engine_log" where
  "count_retransmit l = l\<lparr>el_counters := (el_counters l)\<lparr>ctr_retransmits := ctr_retransmits (el_counters l) + 1\<rparr>\<rparr>"

definition count_round_trip :: "engine_log \<Rightarrow> engine_log" where
  "count_round_trip l = l\<lparr>el_counters :=
     (el_counters l)\<lparr>ctr_challenge_round_trips := ctr_challenge_round_trips (el_counters l) + 1\<rparr>\<rparr>"

definition count_parse_failure :: "engine_log \<Rightarrow> engine_log" where
  "count_parse_failure l = l\<lparr>el_counters :=
     (el_counters l)\<lparr>ctr_parse_failures := ctr_parse_failures (el_counters l) + 1\<rparr>\<rparr>"

definition tell :: "(telemetry \<Rightarrow> telemetry) \<Rightarrow> engine_log \<Rightarrow> engine_log" where
  "tell f l = l\<lparr>el_telemetry := map_option f (el_telemetry l)\<rparr>"

section \<open>Channel hopping\<close>

abbreviation (input) HOP_TIME_US :: u32 where "HOP_TIME_US \<equiv> 2700"

definition next_channel :: "u32 \<Rightarrow> u32" where
  "next_channel f = (if f = FREQ_CH1 then FREQ_CH2 else if f = FREQ_CH3 then FREQ_CH1 else FREQ_CH3)"

definition hop_frequency :: "u32 \<Rightarrow> radio \<Rightarrow> radio" where
  "hop_frequency skip_freq r =
     (let first = next_channel (rad_freq r);
          target = (if first = skip_freq then next_channel first else first);
          r = change_frequency target r
      in r\<lparr>rad_last_hop_us := micros r\<rparr>)"

definition reset_hop_timestamp :: "radio \<Rightarrow> radio" where
  "reset_hop_timestamp r = r\<lparr>rad_last_hop_us := micros r\<rparr>"

definition maybe_hop :: "bool \<Rightarrow> radio \<Rightarrow> radio" where
  "maybe_hop reception_in_progress r =
     (if micros r - rad_last_hop_us r \<le> HOP_TIME_US then r
      else if reception_in_progress then r
      else hop_frequency 0 r)"

text \<open>One application of the rotation never repeats a channel, so the C++ loop runs at most twice.\<close>

lemma next_channel_moves: "next_channel f \<noteq> f"
  by (simp add: next_channel_def)

lemma next_channel_cases: "next_channel f \<in> {FREQ_CH1, FREQ_CH2, FREQ_CH3}"
  by (simp add: next_channel_def)

lemma hop_frequency_freq:
  "rad_freq (hop_frequency skip r) \<in> {FREQ_CH1, FREQ_CH2, FREQ_CH3} \<and> rad_freq (hop_frequency skip r) \<noteq> skip"
  by (auto simp: hop_frequency_def change_frequency_def next_channel_def Let_def)

lemma hop_frequency_frame [simp]:
  "rad_clock (hop_frequency skip r) = rad_clock r"
  "rad_air (hop_frequency skip r) = rad_air r"
  "rad_tx (hop_frequency skip r) = rad_tx r"
  "rad_noise (hop_frequency skip r) = rad_noise r"
  "rad_sent (hop_frequency skip r) = rad_sent r"
  "rad_preamble (hop_frequency skip r) = rad_preamble r"
  "millis (hop_frequency skip r) = millis r"
  by (simp_all add: hop_frequency_def change_frequency_def millis_def Let_def)

section \<open>Transmission with listen-before-talk\<close>

fun lbt_loop :: "nat \<Rightarrow> int \<Rightarrow> radio \<Rightarrow> engine_log \<Rightarrow> radio \<times> engine_log" where
  "lbt_loop 0 threshold r l = (r, l)"
| "lbt_loop (Suc n) threshold r l =
     (let (rssi, r) = read_rssi r in
      if rssi < threshold then (r, l)
      else lbt_loop n threshold (delay_ms (unat LBT_RETRY_DELAY_MS) r)
             (tell (record_lbt_defer (millis r) rssi) (count_lbt_retry l)))"

definition transmit_frame ::
  "exchange_env \<Rightarrow> io_frame \<Rightarrow> u32 \<Rightarrow> u16 \<Rightarrow> radio \<Rightarrow> engine_log \<Rightarrow> bool \<times> radio \<times> engine_log" where
  "transmit_frame env frame freq preamble r l =
     (let buf = serialize frame FRAME_MAX_WIRE_SIZE in
      if buf = [] then (False, r, l)
      else
        let (r, l) = lbt_loop (unat (lbt_max_retries (env_tuning env)))
                       (sint (lbt_rssi_threshold_dbm (env_tuning env))) r l;
            (ok, r) = send_packet buf freq preamble r
        in if \<not> ok then (False, r, l)
           else (True, r, tell (record_tx (millis r) (cmd frame)) l))"

section \<open>The listen loop\<close>

datatype listen_policy = HOLD_REQUEST_CHANNEL | ROTATE_ALL_CHANNELS | ROTATE_SKIPPING_REQUEST
datatype reply_disposition = RD_ACCEPT | RD_IGNORE | RD_ABORT
datatype listen_outcome = LO_ACCEPTED | LO_ABORTED | LO_TIMED_OUT

record listen_spec =
  ls_window_ms :: u32
  ls_policy :: listen_policy
  ls_request_freq :: u32
  ls_dwell_ms :: u32
  ls_hop_after_ignored_frame :: bool
  ls_linger_on_preamble :: bool
  ls_linger_dwell_ms :: u32

definition holding_listen :: "u32 \<Rightarrow> listen_spec" where
  "holding_listen window =
     \<lparr>ls_window_ms = window, ls_policy = HOLD_REQUEST_CHANNEL, ls_request_freq = 0, ls_dwell_ms = 0,
      ls_hop_after_ignored_frame = True, ls_linger_on_preamble = False, ls_linger_dwell_ms = 0\<rparr>"

text \<open>
  A handler sees the parsed frame (or that there is none), the raw packet and the radio, and updates
  the state its closure captures; the hop callback does the same.
\<close>

type_synonym 'h reply_handler = "io_frame option \<Rightarrow> bytes \<Rightarrow> radio \<Rightarrow> 'h \<Rightarrow> reply_disposition \<times> 'h"
type_synonym 'h hop_handler = "radio \<Rightarrow> 'h \<Rightarrow> 'h"

definition rotating :: "listen_spec \<Rightarrow> bool" where
  "rotating spec \<longleftrightarrow> ls_policy spec \<noteq> HOLD_REQUEST_CHANNEL"

definition skip_channel :: "listen_spec \<Rightarrow> u32" where
  "skip_channel spec = (if ls_policy spec = ROTATE_SKIPPING_REQUEST then ls_request_freq spec else 0)"

definition preamble_or_sync_incoming :: "radio \<Rightarrow> listen_spec \<Rightarrow> bool" where
  "preamble_or_sync_incoming r spec \<longleftrightarrow> ls_linger_on_preamble spec \<and> rad_preamble r"

definition resolve_dwell_ms :: "listen_spec \<Rightarrow> exchange_env \<Rightarrow> u32" where
  "resolve_dwell_ms spec env =
     (if \<not> rotating spec then 0
      else if ls_dwell_ms spec \<noteq> 0 then ls_dwell_ms spec
      else ucast (hop_dwell_ms (env_chip env) (env_tuning env)))"

definition dispatch_received_packet ::
  "'h reply_handler \<Rightarrow> bytes \<Rightarrow> io_frame \<Rightarrow> radio \<Rightarrow> 'h \<Rightarrow> listen_outcome option \<times> io_frame \<times> 'h" where
  "dispatch_received_packet on_frame packet frame r h =
     (let parsed = parse packet;
          frame = (case parsed of Some f \<Rightarrow> f | None \<Rightarrow> frame)
      in case on_frame parsed packet r h of
           (RD_ACCEPT, h) \<Rightarrow> (Some LO_ACCEPTED, frame, h)
         | (RD_ABORT, h) \<Rightarrow> (Some LO_ABORTED, frame, h)
         | (RD_IGNORE, h) \<Rightarrow> (None, frame, h))"

definition listen_hop :: "'h hop_handler \<Rightarrow> listen_spec \<Rightarrow> radio \<Rightarrow> 'h \<Rightarrow> radio \<times> 'h" where
  "listen_hop on_hop spec r h = (let r = hop_frequency (skip_channel spec) r in (r, on_hop r h))"

text \<open>
  The time left is read as a signed difference, so the loop ends also when a reception overruns the
  deadline. The only run without an end is a rotating listen with a zero dwell in a silent band; it is
  the value \<open>None\<close>.
\<close>

lemma millis_delay: "millis (delay_ms n r) = millis r + of_nat n"
proof -
  have "(rad_clock r + 1000 * int n) div 1000 = rad_clock r div 1000 + int n" by simp
  then show ?thesis by (simp add: millis_def delay_ms_def)
qed

lemma wait_for_packet_frame [simp]:
  "rad_freq (snd (wait_for_packet t r)) = rad_freq r"
  "rad_tx (snd (wait_for_packet t r)) = rad_tx r"
  "rad_noise (snd (wait_for_packet t r)) = rad_noise r"
  "rad_sent (snd (wait_for_packet t r)) = rad_sent r"
  by (simp_all add: wait_for_packet_def delay_ms_def split: list.split)

lemma wait_for_packet_time:
  "rad_air r = [] \<Longrightarrow> rad_air (snd (wait_for_packet t r)) = [] \<and>
     millis (snd (wait_for_packet t r)) = millis r + t \<and> fst (wait_for_packet t r) = None"
  using millis_delay [of "unat t" r] by (simp add: wait_for_packet_def delay_ms_def millis_def)

lemma wait_for_packet_air:
  "rad_air (snd (wait_for_packet t r)) = tl (rad_air r)"
  by (simp add: wait_for_packet_def delay_ms_def split: list.split)

lemma positive_remaining: "0 <s (x :: u32) \<Longrightarrow> x \<noteq> 0"
  by (auto simp: word_sless_alt)

lemma remaining_less:
  fixes d :: u32
  assumes "s \<le> d - m" and "s \<noteq> 0"
  shows "unat (d - (m + s)) < unat (d - m)"
proof -
  have "unat (d - m - s) = unat (d - m) - unat s" by (rule unat_sub [OF assms(1)])
  then have "unat (d - (m + s)) = unat (d - m) - unat s" by (simp add: diff_diff_eq)
  moreover have "0 < unat s" "unat s \<le> unat (d - m)"
    using assms by (simp_all add: unat_gt_0 word_le_nat_alt)
  ultimately show ?thesis by linarith
qed

lemma remaining_le:
  fixes d :: u32
  assumes "s \<le> d - m"
  shows "unat (d - (m + s)) \<le> unat (d - m)"
  by (cases "s = 0") (use assms remaining_less [of s d m] in auto)

text \<open>Each wait uses up a reception or, in a silent band, some of the window.\<close>

definition listen_rank :: "u32 \<Rightarrow> radio \<Rightarrow> nat \<times> nat" where
  "listen_rank deadline r = (length (rad_air r), unat (deadline - millis r))"

definition rank_less :: "((nat \<times> nat) \<times> nat \<times> nat) set" where
  "rank_less = less_than <*lex*> less_than"

lemma wf_rank_less: "wf rank_less"
  by (simp add: rank_less_def wf_lex_prod)

lemma listen_rank_hop [simp]: "listen_rank deadline (hop_frequency skip r) = listen_rank deadline r"
  by (simp add: listen_rank_def)

lemma wait_decreases:
  assumes "wait_for_packet t r = (got, r1)" and "t \<le> deadline - millis r" and "\<not> (rad_air r = [] \<and> t = 0)"
  shows "(listen_rank deadline r1, listen_rank deadline r) \<in> rank_less"
proof (cases "rad_air r = []")
  case True
  then have "rad_air r1 = []" "millis r1 = millis r + t"
    using wait_for_packet_time [of r t] assms(1) by auto
  then show ?thesis
    using True remaining_less [OF assms(2)] assms(3) by (auto simp: listen_rank_def rank_less_def)
next
  case False
  then have "length (rad_air r1) < length (rad_air r)"
    using wait_for_packet_air [of t r] assms(1) by (cases "rad_air r") auto
  then show ?thesis by (simp add: listen_rank_def rank_less_def)
qed

lemma wait_no_increase:
  assumes "wait_for_packet t r = (got, r1)" and "t \<le> deadline - millis r"
    and "(listen_rank deadline r, b) \<in> rank_less"
  shows "(listen_rank deadline r1, b) \<in> rank_less"
proof (cases "rad_air r = []")
  case True
  then have "rad_air r1 = []" "millis r1 = millis r + t"
    using wait_for_packet_time [of r t] assms(1) by auto
  then show ?thesis
    using True remaining_le [OF assms(2)] assms(3)
    by (cases b) (auto simp: listen_rank_def rank_less_def)
next
  case False
  then have "length (rad_air r1) < length (rad_air r)"
    using wait_for_packet_air [of t r] assms(1) by (cases "rad_air r") auto
  then show ?thesis using assms(3) by (cases b) (auto simp: listen_rank_def rank_less_def)
qed

lemma wait_twice_decreases:
  assumes "wait_for_packet t r = (got, r1)" and "t \<le> deadline - millis r" and "\<not> (rad_air r = [] \<and> t = 0)"
    and "wait_for_packet t2 r1 = (got2, r2)" and "t2 \<le> deadline - millis r1"
  shows "(listen_rank deadline r2, listen_rank deadline r) \<in> rank_less"
  by (rule wait_no_increase [OF assms(4, 5) wait_decreases [OF assms(1-3)]])

text \<open>
  One pass of the loop body ends the listen or leads to the next pass. A pass without an end and
  without progress is \<open>None\<close>.
\<close>

datatype 'h listen_pass = Listen_Done listen_outcome io_frame radio 'h | Listen_On io_frame radio 'h

definition handle_packet ::
  "'h reply_handler \<Rightarrow> 'h hop_handler \<Rightarrow> listen_spec \<Rightarrow> bool \<Rightarrow> bytes \<Rightarrow> io_frame \<Rightarrow> radio \<Rightarrow> 'h \<Rightarrow> 'h listen_pass" where
  "handle_packet on_frame on_hop spec hop_allowed packet frame r h =
     (case dispatch_received_packet on_frame packet frame r h of
        (Some outcome, frame, h) \<Rightarrow> Listen_Done outcome frame r h
      | (None, frame, h) \<Rightarrow>
          if hop_allowed then (case listen_hop on_hop spec r h of (r, h) \<Rightarrow> Listen_On frame r h)
          else Listen_On frame r h)"

definition listen_once ::
  "'h reply_handler \<Rightarrow> 'h hop_handler \<Rightarrow> listen_spec \<Rightarrow> u32 \<Rightarrow> u32 \<Rightarrow> io_frame \<Rightarrow> radio \<Rightarrow> 'h \<Rightarrow> 'h listen_pass option" where
  "listen_once on_frame on_hop spec dwell deadline frame r h =
     (let remaining = deadline - millis r;
          slice = (if rotating spec then min remaining dwell else remaining)
      in if \<not> 0 <s remaining then Some (Listen_Done LO_TIMED_OUT frame r h)
         else if rad_air r = [] \<and> slice = 0 then None
         else Some (case wait_for_packet slice r of
           (Some packet, r1) \<Rightarrow>
             handle_packet on_frame on_hop spec
               (rotating spec \<and> ls_hop_after_ignored_frame spec \<and> 0 <s deadline - millis r1 \<and>
                \<not> preamble_or_sync_incoming r1 spec) packet frame r1 h
         | (None, r1) \<Rightarrow>
             if \<not> 0 <s deadline - millis r1 then Listen_Done LO_TIMED_OUT frame r1 h
             else if \<not> rotating spec then Listen_On frame r1 h
             else if \<not> preamble_or_sync_incoming r1 spec
             then (case listen_hop on_hop spec r1 h of (r2, h2) \<Rightarrow> Listen_On frame r2 h2)
             else (case wait_for_packet (min (deadline - millis r1) (ls_linger_dwell_ms spec)) r1 of
                     (None, r2) \<Rightarrow> Listen_On frame r2 h
                   | (Some packet, r2) \<Rightarrow> handle_packet on_frame on_hop spec False packet frame r2 h)))"

lemma handle_packet_rank:
  "handle_packet on_frame on_hop spec b packet frame r h = Listen_On frame' r' h' \<Longrightarrow>
     listen_rank deadline r' = listen_rank deadline r"
  by (auto simp: handle_packet_def listen_hop_def Let_def split: prod.splits option.splits if_splits)

lemma listen_once_rank:
  assumes "listen_once on_frame on_hop spec dwell deadline frame r h = Some (Listen_On frame' r' h')"
  shows "(listen_rank deadline r', listen_rank deadline r) \<in> rank_less"
proof -
  let ?slice = "if rotating spec then min (deadline - millis r) dwell else deadline - millis r"
  obtain got r1 where w: "wait_for_packet ?slice r = (got, r1)" by (cases "wait_for_packet ?slice r")
  have le: "?slice \<le> deadline - millis r" by simp
  have prog: "\<not> (rad_air r = [] \<and> ?slice = 0)"
    using assms by (auto simp: listen_once_def Let_def split: if_splits)
  note first = wait_decreases [OF w le prog]
  show ?thesis
  proof (cases got)
    case (Some packet)
    then show ?thesis
      using assms w first by (auto simp: listen_once_def Let_def handle_packet_rank split: if_splits)
  next
    case None
    obtain got2 r2 where w2: "wait_for_packet (min (deadline - millis r1) (ls_linger_dwell_ms spec)) r1 = (got2, r2)"
      by (cases "wait_for_packet (min (deadline - millis r1) (ls_linger_dwell_ms spec)) r1")
    have second: "(listen_rank deadline r2, listen_rank deadline r) \<in> rank_less"
      by (rule wait_no_increase [OF w2 _ first]) simp
    show ?thesis
      using assms w w2 None first second
      by (auto simp: listen_once_def Let_def handle_packet_rank listen_hop_def split: if_splits option.splits)
  qed
qed

function listen_loop ::
  "'h reply_handler \<Rightarrow> 'h hop_handler \<Rightarrow> listen_spec \<Rightarrow> u32 \<Rightarrow> u32 \<Rightarrow> io_frame \<Rightarrow> radio \<Rightarrow> 'h \<Rightarrow>
   (listen_outcome \<times> io_frame \<times> radio \<times> 'h) option" where
  "listen_loop on_frame on_hop spec dwell deadline frame r h =
     (case listen_once on_frame on_hop spec dwell deadline frame r h of
        None \<Rightarrow> None
      | Some (Listen_Done outcome frame r h) \<Rightarrow> Some (outcome, frame, r, h)
      | Some (Listen_On frame r h) \<Rightarrow> listen_loop on_frame on_hop spec dwell deadline frame r h)"
  by pat_completeness auto

termination
  by (relation "inv_image rank_less (\<lambda>(on_frame, on_hop, spec, dwell, deadline, frame, r, h). listen_rank deadline r)")
     (auto simp: wf_rank_less intro: listen_once_rank)

declare listen_loop.simps [simp del]

definition listen ::
  "exchange_env \<Rightarrow> listen_spec \<Rightarrow> io_frame \<Rightarrow> 'h reply_handler \<Rightarrow> 'h hop_handler \<Rightarrow> radio \<Rightarrow> 'h \<Rightarrow>
   (listen_outcome \<times> io_frame \<times> radio \<times> 'h) option" where
  "listen env spec frame on_frame on_hop r h =
     (let deadline = millis r + ls_window_ms spec;
          dwell = resolve_dwell_ms spec env;
          (r, h) = (if ls_policy spec = ROTATE_SKIPPING_REQUEST then listen_hop on_hop spec r h else (r, h))
      in listen_loop on_frame on_hop spec dwell deadline frame r h)"

section \<open>The proof rule of a listen\<close>

text \<open>
  A listen is a loop over an unbounded environment, so it has one proof rule, in the shape of the rule
  for a while loop: an assertion \<open>Q\<close> that every wait, every ignored packet and every hop keeps, and a
  conclusion \<open>R\<close> for each way to stop. The locale is the contract between the loop and its callers'
  handlers; every wait of the engines is an instance.
\<close>

locale listener =
  fixes on_frame :: "'h reply_handler" and on_hop :: "'h hop_handler" and spec :: listen_spec
    and Q :: "io_frame \<Rightarrow> radio \<Rightarrow> 'h \<Rightarrow> bool" and R :: "listen_outcome \<Rightarrow> io_frame \<Rightarrow> radio \<Rightarrow> 'h \<Rightarrow> bool"
  assumes on_wait: "Q frame r h \<Longrightarrow> wait_for_packet t r = (None, r1) \<Longrightarrow> Q frame r1 h"
    and on_ignored: "Q frame r h \<Longrightarrow> wait_for_packet t r = (Some packet, r1) \<Longrightarrow>
        dispatch_received_packet on_frame packet frame r1 h = (None, frame1, h1) \<Longrightarrow> Q frame1 r1 h1"
    and on_retune: "Q frame r h \<Longrightarrow> rotating spec \<Longrightarrow>
        Q frame (hop_frequency (skip_channel spec) r) (on_hop (hop_frequency (skip_channel spec) r) h)"
    and on_stop: "Q frame r h \<Longrightarrow> wait_for_packet t r = (Some packet, r1) \<Longrightarrow>
        dispatch_received_packet on_frame packet frame r1 h = (Some outcome, frame1, h1) \<Longrightarrow> R outcome frame1 r1 h1"
    and on_timeout: "Q frame r h \<Longrightarrow> R LO_TIMED_OUT frame r h"
begin

lemma listen_once_rule:
  assumes "Q frame r h"
  shows "case listen_once on_frame on_hop spec dwell deadline frame r h of
           None \<Rightarrow> True
         | Some (Listen_Done outcome frame' r' h') \<Rightarrow> R outcome frame' r' h'
         | Some (Listen_On frame' r' h') \<Rightarrow> Q frame' r' h'"
proof -
  have packet: "case handle_packet on_frame on_hop spec b packet frame r1 h of
           Listen_Done outcome frame' r' h' \<Rightarrow> R outcome frame' r' h'
         | Listen_On frame' r' h' \<Rightarrow> Q frame' r' h'"
    if "Q frame r h" "wait_for_packet t r = (Some packet, r1)" "b \<Longrightarrow> rotating spec" for b packet r r1 t
    using that on_stop [OF that(1, 2)] on_ignored [OF that(1, 2)]
    by (auto simp: handle_packet_def listen_hop_def Let_def intro: on_retune split: prod.splits option.splits)
  let ?slice = "if rotating spec then min (deadline - millis r) dwell else deadline - millis r"
  obtain got r1 where w: "wait_for_packet ?slice r = (got, r1)" by (cases "wait_for_packet ?slice r")
  show ?thesis
  proof (cases got)
    case (Some p)
    then show ?thesis
      using w on_timeout [OF assms(1)]
        packet [OF assms(1) w [unfolded Some], of "rotating spec \<and> ls_hop_after_ignored_frame spec \<and>
          0 <s deadline - millis r1 \<and> \<not> preamble_or_sync_incoming r1 spec"]
      by (auto simp: listen_once_def Let_def)
  next
    case None
    note q1 = on_wait [OF assms(1) w [unfolded None]]
    obtain got2 r2 where w2: "wait_for_packet (min (deadline - millis r1) (ls_linger_dwell_ms spec)) r1 = (got2, r2)"
      by (cases "wait_for_packet (min (deadline - millis r1) (ls_linger_dwell_ms spec)) r1")
    have second: "case (case wait_for_packet (min (deadline - millis r1) (ls_linger_dwell_ms spec)) r1 of
                     (None, r2) \<Rightarrow> Listen_On frame r2 h
                   | (Some packet, r2) \<Rightarrow> handle_packet on_frame on_hop spec False packet frame r2 h) of
           Listen_Done outcome frame' r' h' \<Rightarrow> R outcome frame' r' h'
         | Listen_On frame' r' h' \<Rightarrow> Q frame' r' h'"
      using w2 on_wait [OF q1] packet [OF q1, of _ _ r2 False] by (cases got2) auto
    show ?thesis
      using w None on_timeout [OF assms(1)] on_timeout [OF q1] q1 on_retune [OF q1] second
      by (simp add: listen_once_def Let_def listen_hop_def)
  qed
qed

lemma listen_loop_rule:
  "listen_loop on_frame on_hop spec dwell deadline frame r h = Some (out, frame', r', h') \<Longrightarrow>
   Q frame r h \<Longrightarrow> R out frame' r' h'"
proof (induction "listen_rank deadline r" arbitrary: frame r h rule: wf_induct_rule [OF wf_rank_less])
  case (1 r)
  note pass = listen_once_rule [OF 1(3), of dwell deadline]
  show ?case
  proof (cases "listen_once on_frame on_hop spec dwell deadline frame r h")
    case None
    then show ?thesis using 1(2) by (simp add: listen_loop.simps)
  next
    case (Some res)
    show ?thesis
    proof (cases res)
      case (Listen_Done o1 f1 r1 h1)
      then show ?thesis using 1(2) Some pass by (simp add: listen_loop.simps)
    next
      case (Listen_On f1 r1 h1)
      then have "Q f1 r1 h1" using Some pass by simp
      moreover have "listen_loop on_frame on_hop spec dwell deadline f1 r1 h1 = Some (out, frame', r', h')"
        using 1(2) Some Listen_On by (simp add: listen_loop.simps)
      ultimately show ?thesis
        using 1(1) [OF listen_once_rank [OF Some [unfolded Listen_On]]] by blast
    qed
  qed
qed

lemma listen_rule:
  assumes "listen env spec frame on_frame on_hop r h = Some (out, frame', r', h')" and "Q frame r h"
  shows "R out frame' r' h'"
proof (cases "ls_policy spec = ROTATE_SKIPPING_REQUEST")
  case True
  then have "rotating spec" by (simp add: rotating_def)
  then show ?thesis
    using assms True on_retune [OF assms(2)]
    by (auto simp: listen_def listen_hop_def Let_def intro: listen_loop_rule)
next
  case False
  then show ?thesis using assms by (auto simp: listen_def Let_def intro: listen_loop_rule)
qed

end

section \<open>What every listen does to the radio\<close>

text \<open>Whatever the handler, listening sends nothing, and only a rotating listen retunes.\<close>

definition same_transmissions :: "radio \<Rightarrow> radio \<Rightarrow> bool" where
  "same_transmissions r r' \<longleftrightarrow> rad_sent r' = rad_sent r \<and> rad_tx r' = rad_tx r \<and> rad_noise r' = rad_noise r"

interpretation quiet_listen: listener on_frame on_hop spec
  "\<lambda>frame r h. same_transmissions r0 r \<and> (\<not> rotating spec \<longrightarrow> rad_freq r = rad_freq r0)"
  "\<lambda>out frame r h. same_transmissions r0 r \<and> (\<not> rotating spec \<longrightarrow> rad_freq r = rad_freq r0)"
  for on_frame :: "'h reply_handler" and on_hop spec r0
proof (unfold_locales, goal_cases)
  case (1 frame r h t r1)
  then show ?case using wait_for_packet_frame [of t r] by (simp add: same_transmissions_def)
next
  case (2 frame r h t packet r1 frame1 h1)
  then show ?case using wait_for_packet_frame [of t r] by (simp add: same_transmissions_def)
next
  case (4 frame r h t packet r1 outcome frame1 h1)
  then show ?case using wait_for_packet_frame [of t r] by (simp add: same_transmissions_def)
qed (simp_all add: same_transmissions_def)

lemma listen_transmits_nothing:
  "listen env spec frame on_frame on_hop r h = Some (out, frame', r', h') \<Longrightarrow> same_transmissions r r'"
  using quiet_listen.listen_rule [of env spec frame on_frame on_hop r h out frame' r' h' r]
  by (simp add: same_transmissions_def)

text \<open>A skipping listen never sits on the request channel.\<close>

interpretation skipping_listen: listener on_frame on_hop spec
  "\<lambda>frame r h. rad_freq r \<noteq> skip_channel spec" "\<lambda>out frame r h. rad_freq r \<noteq> skip_channel spec"
  for on_frame :: "'h reply_handler" and on_hop spec
proof (unfold_locales, goal_cases)
  case (1 frame r h t r1)
  then show ?case using wait_for_packet_frame [of t r] by simp
next
  case (2 frame r h t packet r1 frame1 h1)
  then show ?case using wait_for_packet_frame [of t r] by simp
next
  case (3 frame r h)
  then show ?case using hop_frequency_freq by blast
next
  case (4 frame r h t packet r1 outcome frame1 h1)
  then show ?case using wait_for_packet_frame [of t r] by simp
qed

lemma listen_leaves_skip:
  assumes "listen env spec frame on_frame on_hop r h = Some (out, frame', r', h')"
    and "ls_policy spec = ROTATE_SKIPPING_REQUEST"
  shows "rad_freq r' \<noteq> skip_channel spec"
proof -
  let ?r = "hop_frequency (skip_channel spec) r"
  have "listen_loop on_frame on_hop spec (resolve_dwell_ms spec env) (millis r + ls_window_ms spec) frame ?r (on_hop ?r h)
      = Some (out, frame', r', h')"
    using assms by (simp add: listen_def listen_hop_def Let_def)
  then show ?thesis
    by (rule skipping_listen.listen_loop_rule) (use hop_frequency_freq in blast)
qed

section \<open>Every listen ends\<close>

lemma listen_once_progress:
  assumes "rotating spec \<longrightarrow> dwell \<noteq> 0"
  shows "listen_once on_frame on_hop spec dwell deadline frame r h \<noteq> None"
proof -
  have "min x dwell \<noteq> 0" if "0 <s x" "rotating spec" for x
    using that assms positive_remaining [of x] by (simp add: min_def)
  then show ?thesis
    using positive_remaining [of "deadline - millis r"] by (auto simp: listen_once_def Let_def)
qed

lemma listen_loop_returns:
  assumes "rotating spec \<longrightarrow> dwell \<noteq> 0"
  shows "\<exists>res. listen_loop on_frame on_hop spec dwell deadline frame r h = Some res"
proof (induction "listen_rank deadline r" arbitrary: frame r h rule: wf_induct_rule [OF wf_rank_less])
  case (1 r)
  obtain res where once: "listen_once on_frame on_hop spec dwell deadline frame r h = Some res"
    using listen_once_progress [OF assms, of on_frame on_hop deadline frame r h] by (metis not_None_eq)
  show ?case
  proof (cases res)
    case (Listen_Done o1 f1 r1 h1)
    then show ?thesis using once by (simp add: listen_loop.simps)
  next
    case (Listen_On f1 r1 h1)
    then show ?thesis
      using once 1 [OF listen_once_rank [OF once [unfolded Listen_On]]] by (simp add: listen_loop.simps)
  qed
qed

lemma listen_returns:
  assumes "rotating spec \<longrightarrow> resolve_dwell_ms spec env \<noteq> 0"
  shows "\<exists>res. listen env spec frame on_frame on_hop r h = Some res"
proof -
  obtain r1 h1 where "(if ls_policy spec = ROTATE_SKIPPING_REQUEST then listen_hop on_hop spec r h else (r, h)) = (r1, h1)"
    by (meson surj_pair)
  moreover have "\<exists>res. listen_loop on_frame on_hop spec (resolve_dwell_ms spec env)
      (millis r + ls_window_ms spec) frame r1 h1 = Some res"
    by (rule listen_loop_returns [of spec "resolve_dwell_ms spec env", OF assms])
  ultimately show ?thesis by (simp only: listen_def Let_def split_conv)
qed

lemma holding_listen_returns:
  obtains out frame' r' h' where "listen env (holding_listen window) frame on_frame on_hop r h = Some (out, frame', r', h')"
proof -
  have "\<not> rotating (holding_listen window)" by (simp add: rotating_def holding_listen_def)
  then obtain res where "listen env (holding_listen window) frame on_frame on_hop r h = Some res"
    using listen_returns [of "holding_listen window" env frame on_frame on_hop r h] by (metis (no_types))
  then show ?thesis by (cases res) (auto intro: that)
qed

end
