(* ===== verification/Exchange.thy ===== *)
theory Exchange
  imports Radio_Link Commands "HOL-Library.Monad_Syntax"
begin

text \<open>
  The exchange engine (\<open>exchange_engine.cpp\<close>, \<open>exchange_engine.h\<close>): the outbound authenticated exchange
  with its retries and time budget, the inbound challenge, and the broadcast roll-call, on top of the
  transmit and listen primitives of \<open>Radio_Link\<close>. The random challenge of an inbound authentication is
  an argument. Log lines are left out.
\<close>

datatype exchange_outcome = EX_FAILED | SUCCESS_WITH_RESPONSE | SUCCESS_UNCONFIRMED

datatype outbound_exchange_state =
    OX_IDLE | TX_REQUEST | WAIT_FIRST_RESPONSE | BUILD_AUTH_RESPONSE | TX_AUTH_RESPONSE
  | WAIT_FINAL_RESPONSE | OX_SUCCESS | OX_FAILED

fun outbound_stage_name :: "outbound_exchange_state \<Rightarrow> string" where
  "outbound_stage_name OX_IDLE = ''idle''"
| "outbound_stage_name TX_REQUEST = ''tx_request''"
| "outbound_stage_name WAIT_FIRST_RESPONSE = ''wait_first_response''"
| "outbound_stage_name BUILD_AUTH_RESPONSE = ''build_auth_response''"
| "outbound_stage_name TX_AUTH_RESPONSE = ''tx_auth_response''"
| "outbound_stage_name WAIT_FINAL_RESPONSE = ''wait_final_response''"
| "outbound_stage_name OX_SUCCESS = ''success''"
| "outbound_stage_name OX_FAILED = ''failed''"

datatype inbound_auth_state = IA_IDLE | TX_CHALLENGE | WAIT_CHALLENGE_RESPONSE | VERIFIED | IA_FAILED

fun inbound_stage_name :: "inbound_auth_state \<Rightarrow> string" where
  "inbound_stage_name IA_IDLE = ''idle''"
| "inbound_stage_name TX_CHALLENGE = ''tx_challenge''"
| "inbound_stage_name WAIT_CHALLENGE_RESPONSE = ''wait_challenge_response''"
| "inbound_stage_name VERIFIED = ''verified''"
| "inbound_stage_name IA_FAILED = ''failed''"

section \<open>Steps of an outbound exchange\<close>

definition request_preamble_for :: "exchange_env \<Rightarrow> io_frame \<Rightarrow> u16" where
  "request_preamble_for env request =
     (if \<not> is_start request then env_response_preamble env
      else if ctrl1 request AND CTRL1_LOW_POWER \<noteq> 0 then LONG_PREAMBLE
      else normal_start_preamble (env_tuning env))"

definition transmit_request ::
  "exchange_env \<Rightarrow> io_frame \<Rightarrow> u32 \<Rightarrow> u16 \<Rightarrow> nat \<Rightarrow> radio \<Rightarrow> engine_log \<Rightarrow> bool \<times> radio \<times> engine_log" where
  "transmit_request env request freq preamble try_index r l =
     (case transmit_frame env request freq preamble r l of
        (True, r, l) \<Rightarrow> (True, r, l)
      | (False, r, l) \<Rightarrow> (False, r, record_debug ''tx_request_failed'' try_index False l))"

text \<open>The handlers capture the disposition of the last classified frame and the engine's log.\<close>

definition first_response_handler ::
  "io_frame \<Rightarrow> nat \<Rightarrow> (exchange_first_response_disposition \<times> engine_log) reply_handler" where
  "first_response_handler request try_index parsed packet r s =
     (case (parsed, s) of
        (None, disp, l) \<Rightarrow>
          (RD_IGNORE, disp, count_parse_failure (record_debug ''first_parse_fail'' try_index False l))
      | (Some f, _, l) \<Rightarrow>
          let disp = classify_exchange_first_response request f
          in if disp = FIRST_IGNORE_UNRELATED
             then (RD_IGNORE, disp, record_debug ''first_wrong_exchange'' try_index False l)
             else (RD_ACCEPT, disp, l))"

definition wait_for_first_response ::
  "exchange_env \<Rightarrow> io_frame \<Rightarrow> nat \<Rightarrow> u32 \<Rightarrow> radio \<Rightarrow> engine_log \<Rightarrow>
   (exchange_first_response_disposition \<times> io_frame \<times> radio \<times> engine_log) option" where
  "wait_for_first_response env request try_index wait_ms r l = do {
     (outcome, rx, r, disp, l) \<leftarrow> listen env (holding_listen wait_ms) empty_frame
        (first_response_handler request try_index) (\<lambda>r h. h) r (FIRST_IGNORE_UNRELATED, l);
     Some (if outcome = LO_ACCEPTED then (disp, rx, r, l)
           else (FIRST_IGNORE_UNRELATED, rx, r, record_debug ''wait_first_timeout'' try_index False l))
   }"

definition handle_authentication ::
  "exchange_env \<Rightarrow> io_frame \<Rightarrow> u32 \<Rightarrow> nat \<Rightarrow> io_frame \<Rightarrow> radio \<Rightarrow> engine_log \<Rightarrow> bool \<times> radio \<times> engine_log" where
  "handle_authentication env request freq try_index rx r l =
     (let l = record_debug (outbound_stage_name BUILD_AUTH_RESPONSE) try_index True l;
          (built, auth_resp) = create_challenge_resp (dst request) (env_node_id env)
             (take HMAC_SIZE (data rx)) request (env_system_key env)
      in if \<not> built then (False, r, record_debug ''auth_build_failed'' try_index True l)
         else
           let l = record_debug (outbound_stage_name TX_AUTH_RESPONSE) try_index True l
           in case transmit_frame env auth_resp freq (env_response_preamble env) r l of
                (True, r, l) \<Rightarrow> (True, r, count_round_trip l)
              | (False, r, l) \<Rightarrow> (False, r, record_debug ''tx_auth_failed'' try_index True l))"

definition is_valid_final_response :: "io_frame \<Rightarrow> io_frame \<Rightarrow> bool" where
  "is_valid_final_response candidate request \<longleftrightarrow>
     classify_exchange_final_response request candidate = FINAL_ACCEPT"

definition final_response_handler :: "io_frame \<Rightarrow> nat \<Rightarrow> engine_log reply_handler" where
  "final_response_handler request try_index parsed packet r l =
     (case parsed of
        None \<Rightarrow> (RD_IGNORE, count_parse_failure (record_debug ''final_parse_fail'' try_index True l))
      | Some f \<Rightarrow>
          if is_valid_final_response f request then (RD_ACCEPT, l)
          else (RD_IGNORE, record_debug ''final_wrong_exchange'' try_index True l))"

definition wait_for_final_response ::
  "exchange_env \<Rightarrow> io_frame \<Rightarrow> nat \<Rightarrow> io_frame \<Rightarrow> radio \<Rightarrow> engine_log \<Rightarrow>
   (exchange_final_response_disposition \<times> io_frame \<times> radio \<times> engine_log) option" where
  "wait_for_final_response env request try_index rx r l = do {
     (outcome, rx, r, l) \<leftarrow> listen env (holding_listen (ucast (exchange_response_wait_ms (env_tuning env)))) rx
        (final_response_handler request try_index) (\<lambda>r h. h) r l;
     Some (if outcome = LO_ACCEPTED then (FINAL_ACCEPT, rx, r, l)
           else (FINAL_IGNORE_UNRELATED, rx, r, record_debug ''wait_final_timeout'' try_index True l))
   }"

section \<open>The outbound exchange\<close>

text \<open>One try either finishes the exchange or leads to the next one, remembering whether any try so
  far was authenticated.\<close>

datatype try_result = Finished exchange_outcome "io_frame option" | Next_try bool

definition exchange_try ::
  "exchange_env \<Rightarrow> io_frame \<Rightarrow> u32 \<Rightarrow> u16 \<Rightarrow> nat \<Rightarrow> bool \<Rightarrow> radio \<Rightarrow> engine_log \<Rightarrow>
   (try_result \<times> radio \<times> engine_log) option" where
  "exchange_try env request freq preamble try_index accepted r l =
     (let wait_ms = ucast (if is_start request then exchange_start_response_wait_ms (env_tuning env)
                           else exchange_response_wait_ms (env_tuning env));
          (sent, r, l) = transmit_request env request freq preamble try_index r l
      in if \<not> sent then Some (Next_try accepted, r, l)
      else do {
        (disp, rx, r, l) \<leftarrow> wait_for_first_response env request try_index wait_ms r
           (record_debug (outbound_stage_name WAIT_FIRST_RESPONSE) try_index False l);
        case disp of
          FIRST_IGNORE_UNRELATED \<Rightarrow> Some (Next_try accepted, r, l)
        | COMPLETE_DIRECT \<Rightarrow>
            Some (Finished SUCCESS_WITH_RESPONSE (Some rx), r, record_debug ''success_direct'' try_index False l)
        | REQUIRE_AUTH \<Rightarrow>
            (case handle_authentication env request freq try_index rx r l of
               (False, r, l) \<Rightarrow> Some (Next_try accepted, r, l)
             | (True, r, l) \<Rightarrow> do {
                 (final_disp, rx, r, l) \<leftarrow> wait_for_final_response env request try_index rx r
                    (record_debug (outbound_stage_name WAIT_FINAL_RESPONSE) try_index True l);
                 Some (if final_disp \<noteq> FINAL_ACCEPT
                       then (if retry_after_unconfirmed_accept_is_safe (cmd request) then Next_try True
                             else Finished SUCCESS_UNCONFIRMED None,
                             r, record_debug ''success_auth_unconfirmed'' try_index True l)
                       else (Finished SUCCESS_WITH_RESPONSE (Some rx), r,
                             record_debug ''success_auth'' try_index True l))
               })
      })"

abbreviation (input) EXCHANGE_RETRY_DELAY_MS :: nat where "EXCHANGE_RETRY_DELAY_MS \<equiv> 250"

fun exchange_loop ::
  "exchange_env \<Rightarrow> io_frame \<Rightarrow> u32 \<Rightarrow> u16 \<Rightarrow> u32 \<Rightarrow> nat \<Rightarrow> nat \<Rightarrow> bool \<Rightarrow> radio \<Rightarrow> engine_log \<Rightarrow>
   (exchange_outcome \<times> io_frame option \<times> radio \<times> engine_log) option" where
  "exchange_loop env request freq preamble begin_ms 0 tries accepted r l =
     Some (if accepted then SUCCESS_UNCONFIRMED else EX_FAILED, None, r, l)"
| "exchange_loop env request freq preamble begin_ms (Suc n) tries accepted r l =
     (if tries > 0 \<and> millis r - begin_ms \<ge> ucast (exchange_total_budget_ms (env_tuning env))
      then Some (if accepted then SUCCESS_UNCONFIRMED else EX_FAILED, None, r,
                 record_debug ''retry_budget_exhausted'' tries False l)
      else
        let (r, l) = (if tries > 0 then (delay_ms EXCHANGE_RETRY_DELAY_MS r, count_retransmit l) else (r, l))
        in do {
          (res, r, l) \<leftarrow> exchange_try env request freq preamble (tries + 1) accepted r l;
          case res of
            Finished outcome response \<Rightarrow> Some (outcome, response, r, l)
          | Next_try accepted \<Rightarrow> exchange_loop env request freq preamble begin_ms n (tries + 1) accepted r l
        })"

definition tries_allowed :: "u8 \<Rightarrow> nat" where
  "tries_allowed max_tries = max 1 (min (unat max_tries) EXCHANGE_RETRY_COUNT)"

definition send_and_receive ::
  "exchange_env \<Rightarrow> io_frame \<Rightarrow> u32 \<Rightarrow> u8 \<Rightarrow> radio \<Rightarrow> engine_log \<Rightarrow>
   (exchange_outcome \<times> io_frame option \<times> radio \<times> engine_log) option" where
  "send_and_receive env request freq max_tries r l =
     (let l = reset_debug (cmd request) l;
          r = r\<lparr>rad_last_rssi := 0\<rparr>;
          n = tries_allowed max_tries;
          l = l\<lparr>el_debug := (el_debug l)\<lparr>dbg_max_tries := n\<rparr>\<rparr>
      in exchange_loop env request freq (request_preamble_for env request) (millis r) n 0 False r l)"

section \<open>Inbound authentication\<close>

definition authenticate_request ::
  "exchange_env \<Rightarrow> bytes \<Rightarrow> io_frame \<Rightarrow> u32 \<Rightarrow> radio \<Rightarrow> engine_log \<Rightarrow> bool \<times> radio \<times> engine_log" where
  "authenticate_request env random request freq r l =
     (let failed = record_debug (inbound_stage_name IA_FAILED) 1 True;
          l = record_debug (inbound_stage_name TX_CHALLENGE) 1 True l;
          (built, challenge) = create_challenge_req (src request) (env_node_id env) random
      in if \<not> built then (False, r, failed l)
      else case transmit_frame env challenge freq SHORT_PREAMBLE r l of
        (False, r, l) \<Rightarrow> (False, r, failed l)
      | (True, r, l) \<Rightarrow>
          (let l = record_debug (inbound_stage_name WAIT_CHALLENGE_RESPONSE) 1 True l in
           case wait_for_packet (ucast (exchange_response_wait_ms (env_tuning env))) r of
             (None, r) \<Rightarrow> (False, r, failed l)
           | (Some packet, r) \<Rightarrow>
               (case parse packet of
                  None \<Rightarrow> (False, r, failed l)
                | Some rx \<Rightarrow>
                    if cmd rx \<noteq> CMD_CHALLENGE_RESP then (False, r, failed l)
                    else if \<not> verify_hmac (cmd request # payload request) (data rx)
                              (take HMAC_SIZE (data challenge)) (env_system_key env)
                    then (False, r, failed l)
                    else (True, r, count_round_trip (record_debug (inbound_stage_name VERIFIED) 1 True l)))))"

section \<open>The broadcast roll-call\<close>

text \<open>The reply callback appends to the list of replies; the count saturates at a byte.\<close>

definition is_broadcast_reply :: "exchange_env \<Rightarrow> u8 \<Rightarrow> io_frame \<Rightarrow> bool" where
  "is_broadcast_reply env expected_cmd f \<longleftrightarrow> cmd f = expected_cmd \<and> dst f = env_node_id env"

definition broadcast_handler ::
  "exchange_env \<Rightarrow> u8 \<Rightarrow> (u8 \<times> (io_frame \<times> int) list) reply_handler" where
  "broadcast_handler env expected_cmd parsed packet r s =
     (case (parsed, s) of
        (None, _) \<Rightarrow> (RD_IGNORE, s)
      | (Some f, count, replies) \<Rightarrow>
          if \<not> is_broadcast_reply env expected_cmd f then (RD_IGNORE, s)
          else (RD_IGNORE, if count < 0xFF then count + 1 else count, replies @ [(f, rad_last_rssi r)]))"

definition roll_call_listen :: "u32 \<Rightarrow> u32 \<Rightarrow> listen_spec" where
  "roll_call_listen window freq =
     (holding_listen window)\<lparr>ls_policy := ROTATE_SKIPPING_REQUEST, ls_request_freq := freq,
        ls_hop_after_ignored_frame := False, ls_linger_on_preamble := True,
        ls_linger_dwell_ms := PREAMBLE_LINGER_DWELL_MS\<rparr>"

definition collect_broadcast_responses ::
  "exchange_env \<Rightarrow> io_frame \<Rightarrow> u32 \<Rightarrow> u8 \<Rightarrow> u32 \<Rightarrow> radio \<Rightarrow> engine_log \<Rightarrow>
   (u8 \<times> (io_frame \<times> int) list \<times> radio \<times> engine_log) option" where
  "collect_broadcast_responses env request freq expected_cmd window_ms r l =
     (case transmit_frame env request freq (request_preamble_for env request) r (reset_debug (cmd request) l) of
        (False, r, l) \<Rightarrow> Some (0, [], r, record_debug ''broadcast_tx_failed'' 1 False l)
      | (True, r, l) \<Rightarrow> do {
          (outcome, rx, r, count, replies) \<leftarrow> listen env (roll_call_listen window_ms freq) empty_frame
             (broadcast_handler env expected_cmd) (\<lambda>r h. h) r (0, []);
          Some (count, replies, r, record_debug ''broadcast_collect_done'' 1 False l)
        })"

section \<open>What was heard and what was sent\<close>

text \<open>Between two states of the radio a frame was heard if a packet taken from the air in between parses to it.\<close>

definition heard :: "radio \<Rightarrow> radio \<Rightarrow> io_frame \<Rightarrow> bool" where
  "heard r r' f \<longleftrightarrow> (\<exists>c p. rad_air r = c @ rad_air r' \<and> Some p \<in> rcv_packet ` set c \<and> parse p = Some f)"

definition later :: "radio \<Rightarrow> radio \<Rightarrow> bool" where
  "later r r' \<longleftrightarrow> (\<exists>c. rad_air r = c @ rad_air r')"

lemma later_refl [simp]: "later r r"
  by (simp add: later_def)

lemma later_same_air: "rad_air r' = rad_air r \<Longrightarrow> later r r'"
  by (simp add: later_def)

lemma later_trans [trans]: "later a b \<Longrightarrow> later b c \<Longrightarrow> later a c"
  by (auto simp: later_def)

lemma heard_later: "later a b \<Longrightarrow> heard b c f \<Longrightarrow> heard a c f"
  by (auto simp: later_def heard_def) (metis Un_iff append_assoc image_eqI set_append)

lemma heard_before: "heard a b f \<Longrightarrow> later b c \<Longrightarrow> heard a c f"
  by (auto simp: later_def heard_def) (metis Un_iff append_assoc image_eqI set_append)

lemma wait_later: "wait_for_packet t r = (got, r') \<Longrightarrow> later r r'"
  by (auto simp: wait_for_packet_def later_def delay_ms_def split: list.splits)

lemma wait_heard:
  "wait_for_packet t r = (Some p, r') \<Longrightarrow> parse p = Some f \<Longrightarrow> heard r r' f"
proof -
  assume w: "wait_for_packet t r = (Some p, r')" and f: "parse p = Some f"
  then obtain e where "rad_air r = [e] @ rad_air r'" "rcv_packet e = Some p"
    by (auto simp: wait_for_packet_def split: list.splits)
  then show ?thesis unfolding heard_def using f by (metis image_eqI list.set_intros(1))
qed

lemma lbt_loop_frame:
  "lbt_loop n threshold r l = (r', l') \<Longrightarrow>
     rad_air r' = rad_air r \<and> rad_sent r' = rad_sent r \<and> rad_tx r' = rad_tx r \<and> rad_freq r' = rad_freq r"
  by (induction n threshold r l rule: lbt_loop.induct)
     (auto simp: read_rssi_def delay_ms_def split: list.splits if_splits)

lemma transmit_frame_sent:
  assumes "transmit_frame env f freq preamble r l = (ok, r', l')"
  shows "rad_air r' = rad_air r \<and>
    rad_sent r' = (if ok then rad_sent r @ [(serialize f FRAME_MAX_WIRE_SIZE, freq, preamble)] else rad_sent r) \<and>
    (ok \<longrightarrow> rad_freq r' = freq)"
proof (cases "serialize f FRAME_MAX_WIRE_SIZE = []")
  case True
  then show ?thesis using assms by (simp add: transmit_frame_def)
next
  case False
  obtain r1 l1 where "lbt_loop (unat (lbt_max_retries (env_tuning env)))
      (sint (lbt_rssi_threshold_dbm (env_tuning env))) r l = (r1, l1)" by fastforce
  moreover have "rad_air r1 = rad_air r \<and> rad_sent r1 = rad_sent r" using lbt_loop_frame [OF calculation] by simp
  ultimately show ?thesis
    using assms False
    by (auto simp: transmit_frame_def send_packet_def Let_def split: list.splits prod.splits if_splits)
qed

section \<open>The waits of an exchange\<close>

text \<open>Both handlers fulfil the contract of the listen loop with the same two promises: the air is only
  consumed, and an accepted frame was heard and classified.\<close>

interpretation first_wait: listener "first_response_handler request try_index" "\<lambda>r h. h" "holding_listen window"
  "\<lambda>frame r s. later r0 r"
  "\<lambda>out frame r s. later r0 r \<and> (out = LO_ACCEPTED \<longrightarrow> heard r0 r frame \<and>
      fst s = classify_exchange_first_response request frame \<and> fst s \<noteq> FIRST_IGNORE_UNRELATED)"
  for request try_index window r0
proof (unfold_locales, goal_cases)
  case (1 frame r h t r1)
  then show ?case using wait_later later_trans by blast
next
  case (2 frame r h t packet r1 frame1 h1)
  then show ?case using wait_later later_trans by blast
next
  case (4 frame r h t packet r1 outcome frame1 h1)
  then have "later r0 r1" using wait_later later_trans by blast
  then show ?case
    using 4 heard_later [OF 4(1) wait_heard [OF 4(2)]]
    by (auto simp: dispatch_received_packet_def first_response_handler_def Let_def
        split: option.splits prod.splits if_splits)
qed (simp_all add: rotating_def holding_listen_def)

interpretation final_wait: listener "final_response_handler request try_index" "\<lambda>r h. h" "holding_listen window"
  "\<lambda>frame r s. later r0 r"
  "\<lambda>out frame r s. later r0 r \<and> (out = LO_ACCEPTED \<longrightarrow> heard r0 r frame \<and>
      frame_matches_exchange_endpoints request frame)"
  for request try_index window r0
proof (unfold_locales, goal_cases)
  case (1 frame r h t r1)
  then show ?case using wait_later later_trans by blast
next
  case (2 frame r h t packet r1 frame1 h1)
  then show ?case using wait_later later_trans by blast
next
  case (4 frame r h t packet r1 outcome frame1 h1)
  then have "later r0 r1" using wait_later later_trans by blast
  then show ?case
    using 4 heard_later [OF 4(1) wait_heard [OF 4(2)]]
    by (auto simp: dispatch_received_packet_def final_response_handler_def is_valid_final_response_def
        classify_exchange_final_response_def Let_def split: option.splits prod.splits if_splits)
qed (simp_all add: rotating_def holding_listen_def)

lemma first_response_spec:
  obtains disp rx r' l' where
    "wait_for_first_response env request try_index wait_ms r l = Some (disp, rx, r', l')"
    "later r r'" "rad_sent r' = rad_sent r"
    "disp \<noteq> FIRST_IGNORE_UNRELATED \<longrightarrow> heard r r' rx \<and> disp = classify_exchange_first_response request rx"
proof -
  obtain outcome rx r' s where run: "listen env (holding_listen wait_ms) empty_frame
      (first_response_handler request try_index) (\<lambda>r h. h) r (FIRST_IGNORE_UNRELATED, l) = Some (outcome, rx, r', s)"
    by (rule holding_listen_returns)
  obtain disp l' where s: "s = (disp, l')" by (cases s)
  show ?thesis
    using first_wait.listen_rule [OF run later_refl] listen_transmits_nothing [OF run]
    by (cases "outcome = LO_ACCEPTED")
       (auto simp: wait_for_first_response_def run s same_transmissions_def intro: that)
qed

lemma final_response_spec:
  obtains disp rx' r' l' where
    "wait_for_final_response env request try_index rx r l = Some (disp, rx', r', l')"
    "later r r'" "rad_sent r' = rad_sent r"
    "disp = FINAL_ACCEPT \<longrightarrow> heard r r' rx' \<and> frame_matches_exchange_endpoints request rx'"
proof -
  obtain outcome rx' r' l' where run: "listen env (holding_listen (ucast (exchange_response_wait_ms (env_tuning env)))) rx
      (final_response_handler request try_index) (\<lambda>r h. h) r l = Some (outcome, rx', r', l')"
    by (rule holding_listen_returns)
  show ?thesis
    using final_wait.listen_rule [OF run later_refl] listen_transmits_nothing [OF run]
    by (cases "outcome = LO_ACCEPTED")
       (auto simp: wait_for_final_response_def run same_transmissions_def intro: that)
qed

section \<open>One try\<close>

text \<open>The request as it goes on air, and an answer to a challenge heard from the addressed device.\<close>

definition request_on_air :: "io_frame \<Rightarrow> u32 \<Rightarrow> u16 \<Rightarrow> bytes \<times> u32 \<times> u16" where
  "request_on_air request freq preamble = (serialize request FRAME_MAX_WIRE_SIZE, freq, preamble)"

definition answers ::
  "exchange_env \<Rightarrow> io_frame \<Rightarrow> u32 \<Rightarrow> radio \<Rightarrow> radio \<Rightarrow> bytes \<times> u32 \<times> u16 \<Rightarrow> bool" where
  "answers env request freq r r' x \<longleftrightarrow> (\<exists>ch f.
     heard r r' ch \<and> cmd ch = CMD_CHALLENGE_REQ \<and> frame_matches_exchange_endpoints request ch \<and>
     create_challenge_resp (dst request) (env_node_id env) (take HMAC_SIZE (data ch)) request (env_system_key env) = (True, f) \<and>
     x = (serialize f FRAME_MAX_WIRE_SIZE, freq, env_response_preamble env))"

lemma answers_later: "later a b \<Longrightarrow> answers env request freq b c x \<Longrightarrow> answers env request freq a c x"
  unfolding answers_def using heard_later by blast

lemma answers_before: "answers env request freq a b x \<Longrightarrow> later b c \<Longrightarrow> answers env request freq a c x"
  unfolding answers_def using heard_before by blast

lemma classify_first_cases:
  "classify_exchange_first_response request f = COMPLETE_DIRECT \<Longrightarrow> frame_matches_exchange_endpoints request f"
  "classify_exchange_first_response request f = REQUIRE_AUTH \<Longrightarrow>
     frame_matches_exchange_endpoints request f \<and> cmd f = CMD_CHALLENGE_REQ"
  by (auto simp: classify_exchange_first_response_def split: if_splits)

lemma transmit_request_sent:
  assumes "transmit_request env request freq preamble try_index r l = (ok, r', l')"
  shows "rad_air r' = rad_air r \<and>
    rad_sent r' = (if ok then rad_sent r @ [request_on_air request freq preamble] else rad_sent r)"
proof -
  obtain ok1 r1 l1 where t: "transmit_frame env request freq preamble r l = (ok1, r1, l1)" by (metis surj_pair)
  show ?thesis
    using assms transmit_frame_sent [OF t] t
    by (cases ok1) (auto simp: transmit_request_def request_on_air_def)
qed

lemma handle_authentication_sent:
  assumes "handle_authentication env request freq try_index rx r l = (ok, r', l')"
    and "heard r0 r rx" and "classify_exchange_first_response request rx = REQUIRE_AUTH"
  shows "rad_air r' = rad_air r \<and> (if ok then \<exists>x. rad_sent r' = rad_sent r @ [x] \<and> answers env request freq r0 r' x
     else rad_sent r' = rad_sent r)"
proof -
  obtain built f where c: "create_challenge_resp (dst request) (env_node_id env) (take HMAC_SIZE (data rx)) request
      (env_system_key env) = (built, f)" by fastforce
  obtain ok1 r1 l1 where t: "transmit_frame env f freq (env_response_preamble env) r
      (record_debug (outbound_stage_name TX_AUTH_RESPONSE) try_index True
        (record_debug (outbound_stage_name BUILD_AUTH_RESPONSE) try_index True l)) = (ok1, r1, l1)"
    by (metis surj_pair)
  note sent = transmit_frame_sent [OF t]
  show ?thesis
  proof (cases "built \<and> ok1")
    case True
    then have ok: "ok" "r' = r1" using assms(1) c t by (auto simp: handle_authentication_def Let_def)
    have "later r r1" using sent by (simp add: later_same_air)
    then have "heard r0 r1 rx" by (rule heard_before [OF assms(2)])
    then have "answers env request freq r0 r1 (serialize f FRAME_MAX_WIRE_SIZE, freq, env_response_preamble env)"
      unfolding answers_def using classify_first_cases(2) [OF assms(3)] c True by (intro exI [of _ rx] exI [of _ f]) simp
    then show ?thesis using sent ok True by auto
  next
    case False
    then show ?thesis using assms(1) c t sent by (auto simp: handle_authentication_def Let_def split: if_splits)
  qed
qed

lemma exchange_try_spec:
  obtains res r' l' where "exchange_try env request freq preamble try_index accepted r l = Some (res, r', l')"
    and "later r r'"
    and "rad_sent r' = rad_sent r \<and> res = Next_try accepted
       \<or> rad_sent r' = rad_sent r @ [request_on_air request freq preamble] \<and> res = Next_try accepted
       \<or> rad_sent r' = rad_sent r @ [request_on_air request freq preamble] \<and>
           (\<exists>rx. res = Finished SUCCESS_WITH_RESPONSE (Some rx) \<and> heard r r' rx \<and>
              frame_matches_exchange_endpoints request rx)
       \<or> (\<exists>x. rad_sent r' = rad_sent r @ [request_on_air request freq preamble, x] \<and> answers env request freq r r' x \<and>
           (res = (if retry_after_unconfirmed_accept_is_safe (cmd request) then Next_try True
                   else Finished SUCCESS_UNCONFIRMED None) \<or>
            (\<exists>rx. res = Finished SUCCESS_WITH_RESPONSE (Some rx) \<and> heard r r' rx \<and>
              frame_matches_exchange_endpoints request rx)))"
proof -
  let ?wait = "ucast (if is_start request then exchange_start_response_wait_ms (env_tuning env)
                      else exchange_response_wait_ms (env_tuning env)) :: u32"
  obtain ok r1 l1 where tx: "transmit_request env request freq preamble try_index r l = (ok, r1, l1)" by (metis surj_pair)
  note sent1 = transmit_request_sent [OF tx]
  have l01: "later r r1" using sent1 by (simp add: later_same_air)
  show ?thesis
  proof (cases ok)
    case False
    then show ?thesis using tx sent1 l01 by (auto simp: exchange_try_def intro: that)
  next
    case ok: True
    obtain disp rx r2 l2 where first: "wait_for_first_response env request try_index ?wait r1
        (record_debug (outbound_stage_name WAIT_FIRST_RESPONSE) try_index False l1) = Some (disp, rx, r2, l2)"
      and l12: "later r1 r2" and s2: "rad_sent r2 = rad_sent r1"
      and got: "disp \<noteq> FIRST_IGNORE_UNRELATED \<longrightarrow> heard r1 r2 rx \<and> disp = classify_exchange_first_response request rx"
      by (rule first_response_spec [of env request try_index ?wait r1
            "record_debug (outbound_stage_name WAIT_FIRST_RESPONSE) try_index False l1"])
    have l02: "later r r2" using l01 l12 later_trans by blast
    show ?thesis
    proof (cases disp)
      case FIRST_IGNORE_UNRELATED
      then show ?thesis using tx ok first sent1 s2 l02 by (auto simp: exchange_try_def Let_def intro: that)
    next
      case COMPLETE_DIRECT
      then have "heard r r2 rx" "frame_matches_exchange_endpoints request rx"
        using got heard_later [OF l01] classify_first_cases(1) [of request rx] by auto
      then show ?thesis
        using COMPLETE_DIRECT tx ok first sent1 s2 l02 by (auto simp: exchange_try_def Let_def intro: that)
    next
      case REQUIRE_AUTH
      then have h: "heard r r2 rx" and cl: "classify_exchange_first_response request rx = REQUIRE_AUTH"
        using got heard_later [OF l01] by auto
      obtain aok r3 l3 where auth: "handle_authentication env request freq try_index rx r2 l2 = (aok, r3, l3)"
        by (metis surj_pair)
      note sent3 = handle_authentication_sent [OF auth h cl]
      have l03: "later r r3" using sent3 l02 later_same_air later_trans by blast
      show ?thesis
      proof (cases aok)
        case False
        then show ?thesis
          using REQUIRE_AUTH tx ok first auth sent1 s2 sent3 l03 by (auto simp: exchange_try_def Let_def intro: that)
      next
        case aok: True
        then obtain x where s3: "rad_sent r3 = rad_sent r2 @ [x]" and ans: "answers env request freq r r3 x"
          using sent3 by auto
        obtain fin rx' r4 l4 where final: "wait_for_final_response env request try_index rx r3
            (record_debug (outbound_stage_name WAIT_FINAL_RESPONSE) try_index True l3) = Some (fin, rx', r4, l4)"
          and l34: "later r3 r4" and s4: "rad_sent r4 = rad_sent r3"
          and fgot: "fin = FINAL_ACCEPT \<longrightarrow> heard r3 r4 rx' \<and> frame_matches_exchange_endpoints request rx'"
          by (rule final_response_spec [of env request try_index rx r3
                "record_debug (outbound_stage_name WAIT_FINAL_RESPONSE) try_index True l3"])
        have l04: "later r r4" using l03 l34 later_trans by blast
        have ans4: "answers env request freq r r4 x" using ans l34 by (rule answers_before)
        have sent: "rad_sent r4 = rad_sent r @ [request_on_air request freq preamble, x]"
          using sent1 ok s2 s3 s4 by simp
        show ?thesis
        proof (cases "fin = FINAL_ACCEPT")
          case True
          then have "heard r r4 rx'" "frame_matches_exchange_endpoints request rx'"
            using fgot heard_later [OF l03] by auto
          then show ?thesis
            using True REQUIRE_AUTH tx ok first auth aok final sent ans4 l04
            by (auto simp: exchange_try_def Let_def intro: that)
        next
          case False
          then show ?thesis
            using REQUIRE_AUTH tx ok first auth aok final sent ans4 l04
            by (auto simp: exchange_try_def Let_def intro: that)
        qed
      qed
    qed
  qed
qed

section \<open>The whole exchange\<close>

definition try_sends ::
  "exchange_env \<Rightarrow> io_frame \<Rightarrow> u32 \<Rightarrow> u16 \<Rightarrow> radio \<Rightarrow> radio \<Rightarrow> (bytes \<times> u32 \<times> u16) list \<Rightarrow> bool" where
  "try_sends env request freq preamble r r' u \<longleftrightarrow>
     u = [] \<or> u = [request_on_air request freq preamble] \<or>
     (\<exists>x. u = [request_on_air request freq preamble, x] \<and> answers env request freq r r' x)"

definition answered :: "(bytes \<times> u32 \<times> u16) list list \<Rightarrow> bool" where
  "answered ts \<longleftrightarrow> (\<exists>u \<in> set ts. length u = 2)"

text \<open>The contract of an exchange: what is sent, try by try, and what the outcome says about it.\<close>

definition exchange_contract ::
  "exchange_env \<Rightarrow> io_frame \<Rightarrow> u32 \<Rightarrow> u16 \<Rightarrow> nat \<Rightarrow> bool \<Rightarrow> radio \<Rightarrow> exchange_outcome \<Rightarrow> io_frame option \<Rightarrow> radio \<Rightarrow> bool" where
  "exchange_contract env request freq preamble n accepted r outcome response r' \<longleftrightarrow>
     later r r' \<and>
     (\<exists>ts. length ts \<le> n \<and> rad_sent r' = rad_sent r @ concat ts \<and>
        (\<forall>u \<in> set ts. try_sends env request freq preamble r r' u) \<and>
        (cmd request = CMD_EXECUTE \<longrightarrow> (\<forall>u \<in> set (butlast ts). length u < 2)) \<and>
        (outcome = SUCCESS_UNCONFIRMED \<longrightarrow> accepted \<or> answered ts) \<and>
        (outcome = EX_FAILED \<longrightarrow> \<not> accepted \<and> \<not> answered ts)) \<and>
     (case response of
        None \<Rightarrow> outcome \<noteq> SUCCESS_WITH_RESPONSE
      | Some rx \<Rightarrow> outcome = SUCCESS_WITH_RESPONSE \<and> heard r r' rx \<and> frame_matches_exchange_endpoints request rx)"

lemma try_sends_later:
  "try_sends env request freq preamble b c u \<Longrightarrow> later a b \<Longrightarrow> try_sends env request freq preamble a c u"
  unfolding try_sends_def using answers_later by blast

lemma try_sends_before:
  "try_sends env request freq preamble a b u \<Longrightarrow> later b c \<Longrightarrow> try_sends env request freq preamble a c u"
  unfolding try_sends_def using answers_before by blast

lemma contract_stop:
  "outcome = (if accepted then SUCCESS_UNCONFIRMED else EX_FAILED) \<Longrightarrow> rad_air r' = rad_air r \<Longrightarrow>
   rad_sent r' = rad_sent r \<Longrightarrow>
   exchange_contract env request freq preamble n accepted r outcome None r'"
  unfolding exchange_contract_def answered_def
  by (intro conjI exI [of _ "[]"]) (auto simp: later_same_air)

lemma contract_last:
  assumes "later r r'" and "try_sends env request freq preamble r r' u" and "rad_sent r' = rad_sent r @ u"
    and "outcome \<noteq> EX_FAILED" and "outcome = SUCCESS_UNCONFIRMED \<longrightarrow> length u = 2"
    and "case response of
        None \<Rightarrow> outcome \<noteq> SUCCESS_WITH_RESPONSE
      | Some rx \<Rightarrow> outcome = SUCCESS_WITH_RESPONSE \<and> heard r r' rx \<and> frame_matches_exchange_endpoints request rx"
  shows "exchange_contract env request freq preamble (Suc n) accepted r outcome response r'"
  unfolding exchange_contract_def answered_def
  using assms by (intro conjI exI [of _ "[u]"]) auto

lemma contract_step:
  assumes rest: "exchange_contract env request freq preamble n accepted' r1 outcome response r'"
    and l: "later r r1" and u: "try_sends env request freq preamble r r1 u" and s: "rad_sent r1 = rad_sent r @ u"
    and acc: "accepted' \<longleftrightarrow> accepted \<or> length u = 2" and ex: "cmd request = CMD_EXECUTE \<longrightarrow> length u < 2"
  shows "exchange_contract env request freq preamble (Suc n) accepted r outcome response r'"
proof -
  have l1: "later r1 r'" using rest by (simp add: exchange_contract_def)
  obtain ts where ts: "length ts \<le> n" "rad_sent r' = rad_sent r1 @ concat ts"
      "\<forall>u \<in> set ts. try_sends env request freq preamble r1 r' u"
      "cmd request = CMD_EXECUTE \<longrightarrow> (\<forall>u \<in> set (butlast ts). length u < 2)"
      "outcome = SUCCESS_UNCONFIRMED \<longrightarrow> accepted' \<or> answered ts"
      "outcome = EX_FAILED \<longrightarrow> \<not> accepted' \<and> \<not> answered ts"
    using rest unfolding exchange_contract_def by blast
  have sends: "\<forall>v \<in> set (u # ts). try_sends env request freq preamble r r' v"
    using ts(3) try_sends_later [OF _ l] try_sends_before [OF u l1] by auto
  have "\<exists>ts. length ts \<le> Suc n \<and> rad_sent r' = rad_sent r @ concat ts \<and>
        (\<forall>u \<in> set ts. try_sends env request freq preamble r r' u) \<and>
        (cmd request = CMD_EXECUTE \<longrightarrow> (\<forall>u \<in> set (butlast ts). length u < 2)) \<and>
        (outcome = SUCCESS_UNCONFIRMED \<longrightarrow> accepted \<or> answered ts) \<and>
        (outcome = EX_FAILED \<longrightarrow> \<not> accepted \<and> \<not> answered ts)"
    by (rule exI [of _ "u # ts"]) (use ts sends s acc ex in \<open>auto simp: answered_def\<close>)
  moreover have "case response of
        None \<Rightarrow> outcome \<noteq> SUCCESS_WITH_RESPONSE
      | Some rx \<Rightarrow> outcome = SUCCESS_WITH_RESPONSE \<and> heard r r' rx \<and> frame_matches_exchange_endpoints request rx"
    using rest heard_later [OF l] by (auto simp: exchange_contract_def split: option.splits)
  ultimately show ?thesis unfolding exchange_contract_def using later_trans [OF l l1] by blast
qed

lemma exchange_loop_contract:
  "\<exists>outcome response r' l'. exchange_loop env request freq preamble begin_ms n tries accepted r l =
     Some (outcome, response, r', l') \<and>
     exchange_contract env request freq preamble n accepted r outcome response r'"
proof (induction n arbitrary: tries accepted r l)
  case 0
  show ?case using contract_stop [OF refl, of r r] by auto
next
  case (Suc n)
  show ?case
  proof (cases "tries > 0 \<and> millis r - begin_ms \<ge> ucast (exchange_total_budget_ms (env_tuning env))")
    case True
    then show ?thesis using contract_stop [OF refl, of r r] by auto
  next
    case go: False
    obtain r0 l0 where prep: "(if tries > 0 then (delay_ms EXCHANGE_RETRY_DELAY_MS r, count_retransmit l) else (r, l)) = (r0, l0)"
      by (metis surj_pair)
    have same: "rad_air r0 = rad_air r" "rad_sent r0 = rad_sent r"
      using prep by (auto simp: delay_ms_def split: if_splits)
    obtain res r1 l1 where tried: "exchange_try env request freq preamble (tries + 1) accepted r0 l0 = Some (res, r1, l1)"
      and lat: "later r0 r1"
      and cases: "rad_sent r1 = rad_sent r0 \<and> res = Next_try accepted
       \<or> rad_sent r1 = rad_sent r0 @ [request_on_air request freq preamble] \<and> res = Next_try accepted
       \<or> rad_sent r1 = rad_sent r0 @ [request_on_air request freq preamble] \<and>
           (\<exists>rx. res = Finished SUCCESS_WITH_RESPONSE (Some rx) \<and> heard r0 r1 rx \<and>
              frame_matches_exchange_endpoints request rx)
       \<or> (\<exists>x. rad_sent r1 = rad_sent r0 @ [request_on_air request freq preamble, x] \<and> answers env request freq r0 r1 x \<and>
           (res = (if retry_after_unconfirmed_accept_is_safe (cmd request) then Next_try True
                   else Finished SUCCESS_UNCONFIRMED None) \<or>
            (\<exists>rx. res = Finished SUCCESS_WITH_RESPONSE (Some rx) \<and> heard r0 r1 rx \<and>
              frame_matches_exchange_endpoints request rx)))"
      by (rule exchange_try_spec [of env request freq preamble "tries + 1" accepted r0 l0])
    have lat': "later r r1" using lat same(1) by (simp add: later_def)
    have heard': "heard r r1 f" if "heard r0 r1 f" for f using that same(1) by (simp add: heard_def)
    have answers': "answers env request freq r r1 x" if "answers env request freq r0 r1 x" for x
      using that heard' unfolding answers_def by blast
    have step: "exchange_loop env request freq preamble begin_ms (Suc n) tries accepted r l =
        (case res of Finished outcome response \<Rightarrow> Some (outcome, response, r1, l1)
         | Next_try a \<Rightarrow> exchange_loop env request freq preamble begin_ms n (tries + 1) a r1 l1)"
    proof -
      have "(tries > 0 \<and> millis r - begin_ms \<ge> ucast (exchange_total_budget_ms (env_tuning env))) = False"
        using go by blast
      then show ?thesis
        by (simp only: exchange_loop.simps if_False prep Let_def split_conv tried bind.simps)
    qed
    show ?thesis
    proof (cases res)
      case (Finished outcome response)
      have "\<exists>u. try_sends env request freq preamble r r1 u \<and> rad_sent r1 = rad_sent r @ u \<and> outcome \<noteq> EX_FAILED \<and>
          (outcome = SUCCESS_UNCONFIRMED \<longrightarrow> length u = 2) \<and>
          (case response of None \<Rightarrow> outcome \<noteq> SUCCESS_WITH_RESPONSE
           | Some rx \<Rightarrow> outcome = SUCCESS_WITH_RESPONSE \<and> heard r r1 rx \<and> frame_matches_exchange_endpoints request rx)"
        using cases Finished same heard' answers' by (auto simp: try_sends_def split: if_splits)
      then have "exchange_contract env request freq preamble (Suc n) accepted r outcome response r1"
        using contract_last [OF lat'] by blast
      then show ?thesis using step Finished by auto
    next
      case (Next_try a)
      have "\<exists>u. try_sends env request freq preamble r r1 u \<and> rad_sent r1 = rad_sent r @ u \<and>
          (a \<longleftrightarrow> accepted \<or> length u = 2) \<and> (cmd request = CMD_EXECUTE \<longrightarrow> length u < 2)"
        using cases Next_try same answers'
        by (auto simp: try_sends_def retry_after_unconfirmed_accept_is_safe_def split: if_splits)
      moreover obtain outcome response r' l' where
        "exchange_loop env request freq preamble begin_ms n (tries + 1) a r1 l1 = Some (outcome, response, r', l')"
        "exchange_contract env request freq preamble n a r1 outcome response r'"
        using Suc.IH by blast
      ultimately show ?thesis using step Next_try contract_step [OF _ lat'] by fastforce
    qed
  qed
qed

lemma cleared_capture [simp]: "heard (r\<lparr>rad_last_rssi := x\<rparr>) r' f = heard r r' f"
  by (simp add: heard_def)

lemma send_and_receive_contract:
  "\<exists>outcome response r' l'. send_and_receive env request freq max_tries r l = Some (outcome, response, r', l') \<and>
     exchange_contract env request freq (request_preamble_for env request) (tries_allowed max_tries) False r outcome response r'"
proof -
  have "exchange_contract env request freq p n a (r\<lparr>rad_last_rssi := 0\<rparr>) outcome response r' \<longleftrightarrow>
        exchange_contract env request freq p n a r outcome response r'" for p n a outcome response r'
    by (simp add: exchange_contract_def later_def try_sends_def answers_def split: option.split)
  then show ?thesis
    unfolding send_and_receive_def Let_def
    using exchange_loop_contract [of env request freq "request_preamble_for env request"] by metis
qed

lemma send_and_receive_obeys:
  "send_and_receive env request freq max_tries r l = Some (outcome, response, r', l') \<Longrightarrow>
   exchange_contract env request freq (request_preamble_for env request) (tries_allowed max_tries) False r outcome response r'"
  using send_and_receive_contract [of env request freq max_tries r l] by auto

section \<open>Inbound authentication and the roll-call\<close>

lemma constant_time_equal_take:
  assumes "6 \<le> length xs" and "length ys = 6"
  shows "constant_time_equal xs ys \<longleftrightarrow> take 6 xs = ys"
proof -
  have "constant_time_equal xs ys = constant_time_equal (take 6 xs) ys"
    by (simp add: constant_time_equal_def foldl_or_zero)
  then show ?thesis using assms by (simp add: constant_time_equal_iff)
qed

lemma challenge_request_data:
  assumes "create_challenge_req target own random = (built, challenge)"
    and "length target = 3" and "length own = 3" and "length random = 6"
  shows "built \<and> take 6 (data challenge) = random"
proof -
  let ?f = "addressed_2w False False False own target"
  have b: "blank ?f" and n: "length random \<le> 23" using assms(2-4) by (simp_all add: wf_rules)
  have r: "set_cmd ?f CMD_CHALLENGE_REQ random = (built, challenge)"
    using assms(1) by (simp add: create_challenge_req_def create_challenge_req_framed_def)
  have "built" using set_cmd_blank(1) [OF b n, of CMD_CHALLENGE_REQ] unfolding r by simp
  moreover have "take 6 (data challenge) = take 6 random"
    using take_data_set_cmd [OF b n, of 6 CMD_CHALLENGE_REQ] assms(4) unfolding r by simp
  ultimately show ?thesis using assms(4) by simp
qed

text \<open>The replies in a stretch of air: what parses, carries the command and is addressed to the node.\<close>

definition frames_in :: "reception list \<Rightarrow> io_frame list" where
  "frames_in c = List.map_filter parse (List.map_filter rcv_packet c)"

lemma frames_in_simps [simp]:
  "frames_in [] = []"
  "frames_in (c @ [e]) = frames_in c @ (case rcv_packet e of None \<Rightarrow> [] | Some p \<Rightarrow>
      (case parse p of None \<Rightarrow> [] | Some f \<Rightarrow> [f]))"
  by (simp_all add: frames_in_def List.map_filter_def split: option.split)

definition replies_complete :: "exchange_env \<Rightarrow> u8 \<Rightarrow> radio \<Rightarrow> radio \<Rightarrow> u8 \<times> (io_frame \<times> int) list \<Rightarrow> bool" where
  "replies_complete env expected_cmd r0 r s \<longleftrightarrow>
     (\<exists>c. rad_air r0 = c @ rad_air r \<and>
        map fst (snd s) = filter (is_broadcast_reply env expected_cmd) (frames_in c)) \<and>
     unat (fst s) = min 255 (length (snd s))"

lemma replies_complete_wait:
  assumes "replies_complete env expected_cmd r0 r s" and "wait_for_packet t r = (None, r1)"
  shows "replies_complete env expected_cmd r0 r1 s"
proof (cases "rad_air r")
  case Nil
  then have "rad_air r1 = rad_air r" using assms(2) by (auto simp: wait_for_packet_def delay_ms_def)
  then show ?thesis using assms(1) by (simp add: replies_complete_def)
next
  case (Cons e air)
  then have a: "rad_air r = [e] @ rad_air r1" "rcv_packet e = None"
    using assms(2) by (auto simp: wait_for_packet_def)
  obtain c where "rad_air r0 = c @ rad_air r"
      "map fst (snd s) = filter (is_broadcast_reply env expected_cmd) (frames_in c)"
    using assms(1) by (auto simp: replies_complete_def)
  then have "rad_air r0 = (c @ [e]) @ rad_air r1"
      "map fst (snd s) = filter (is_broadcast_reply env expected_cmd) (frames_in (c @ [e]))"
    using a by simp_all
  then show ?thesis using assms(1) unfolding replies_complete_def by blast
qed

lemma count_saturates:
  fixes n :: u8
  assumes "unat n = min 255 k"
  shows "unat (if n < 0xFF then n + 1 else n) = min 255 (Suc k)"
proof (cases "n < 0xFF")
  case True
  then have "unat n < 255" by (simp add: word_less_nat_alt)
  then have "unat (n + 1) = unat n + 1" by (simp add: unat_word_ariths)
  then show ?thesis using True assms \<open>unat n < 255\<close> by simp
next
  case False
  then have "255 \<le> unat n" by (simp add: word_less_nat_alt)
  then show ?thesis using False assms by simp
qed

lemma replies_complete_packet:
  assumes "replies_complete env expected_cmd r0 r s" and "wait_for_packet t r = (Some packet, r1)"
    and "dispatch_received_packet (broadcast_handler env expected_cmd) packet frame r1 s = (stop, frame1, s1)"
  shows "stop = None \<and> replies_complete env expected_cmd r0 r1 s1"
proof -
  obtain count replies where s: "s = (count, replies)" by (cases s)
  obtain e where a: "rad_air r = [e] @ rad_air r1" "rcv_packet e = Some packet"
    using assms(2) by (auto simp: wait_for_packet_def split: list.splits)
  obtain c where c: "rad_air r0 = c @ rad_air r"
      "map fst (snd s) = filter (is_broadcast_reply env expected_cmd) (frames_in c)"
    using assms(1) by (auto simp: replies_complete_def)
  have n: "unat count = min 255 (length replies)" using assms(1) s by (simp add: replies_complete_def)
  have "rad_air r0 = (c @ [e]) @ rad_air r1" using a c by simp
  moreover have "stop = None \<and> map fst (snd s1) = filter (is_broadcast_reply env expected_cmd) (frames_in (c @ [e])) \<and>
      unat (fst s1) = min 255 (length (snd s1))"
    using assms(3) a c n count_saturates [OF n] s
    by (auto simp: dispatch_received_packet_def broadcast_handler_def Let_def split: option.splits if_splits)
  ultimately show ?thesis unfolding replies_complete_def by blast
qed

interpretation roll_call: listener "broadcast_handler env expected_cmd" "\<lambda>r h. h" spec
  "\<lambda>frame r s. replies_complete env expected_cmd r0 r s"
  "\<lambda>out frame r s. replies_complete env expected_cmd r0 r s"
  for env expected_cmd spec r0
proof (unfold_locales, goal_cases)
  case (1 frame r h t r1)
  then show ?case by (rule replies_complete_wait)
next
  case (2 frame r h t packet r1 frame1 h1)
  then show ?case using replies_complete_packet by blast
next
  case (3 frame r h)
  then show ?case by (simp add: replies_complete_def)
next
  case (4 frame r h t packet r1 outcome frame1 h1)
  then show ?case using replies_complete_packet by blast
qed

lemma dwell_positive:
  assumes "hop_dwell_ms (env_chip env) (env_tuning env) \<noteq> 0"
  shows "(ucast (hop_dwell_ms (env_chip env) (env_tuning env)) :: u32) \<noteq> 0"
proof
  assume "(ucast (hop_dwell_ms (env_chip env) (env_tuning env)) :: u32) = 0"
  then have "ucast (ucast (hop_dwell_ms (env_chip env) (env_tuning env)) :: u32) = (0 :: u16)" by simp
  moreover have "(ucast (ucast w :: u32) :: u16) = w" for w :: u16
    by (rule bit_word_eqI) (simp add: bit_simps)
  ultimately show False using assms by simp
qed

lemma roll_call_returns:
  assumes "hop_dwell_ms (env_chip env) (env_tuning env) \<noteq> 0"
  obtains res where "listen env (roll_call_listen window freq) frame on_frame on_hop r h = Some res"
proof -
  have "resolve_dwell_ms (roll_call_listen window freq) env \<noteq> 0"
    using dwell_positive [OF assms] by (simp add: resolve_dwell_ms_def roll_call_listen_def rotating_def holding_listen_def)
  then show ?thesis
    using listen_returns [of "roll_call_listen window freq" env frame on_frame on_hop r h] that by auto
qed

lemma roll_call_collects:
  assumes "hop_dwell_ms (env_chip env) (env_tuning env) \<noteq> 0"
  shows "\<exists>count replies r' l' c.
    collect_broadcast_responses env request freq expected_cmd window_ms r l = Some (count, replies, r', l') \<and>
    rad_air r = c @ rad_air r' \<and>
    map fst replies = filter (is_broadcast_reply env expected_cmd) (frames_in c) \<and>
    unat count = min 255 (length replies) \<and>
    (rad_sent r' \<noteq> rad_sent r \<longrightarrow> rad_freq r' \<noteq> freq)"
proof -
  obtain ok r1 l1 where t: "transmit_frame env request freq (request_preamble_for env request) r
      (reset_debug (cmd request) l) = (ok, r1, l1)" by (metis surj_pair)
  note sent = transmit_frame_sent [OF t]
  show ?thesis
  proof (cases ok)
    case False
    then show ?thesis using t sent
      by (intro exI [of _ 0] exI [of _ "[]"] exI [of _ r1] exI conjI) (auto simp: collect_broadcast_responses_def)
  next
    case True
    let ?spec = "roll_call_listen window_ms freq"
    obtain out rx r2 count replies where run: "listen env ?spec empty_frame
        (broadcast_handler env expected_cmd) (\<lambda>r h. h) r1 (0, []) = Some (out, rx, r2, count, replies)"
      using roll_call_returns [OF assms, of window_ms freq empty_frame "broadcast_handler env expected_cmd" "\<lambda>r h. h" r1 "(0, [])"]
      by (metis surj_pair)
    have "replies_complete env expected_cmd r1 r1 (0, [])" by (simp add: replies_complete_def)
    then have "replies_complete env expected_cmd r1 r2 (count, replies)" by (rule roll_call.listen_rule [OF run])
    then obtain c where c: "rad_air r1 = c @ rad_air r2"
        "map fst replies = filter (is_broadcast_reply env expected_cmd) (frames_in c)"
        "unat count = min 255 (length replies)"
      unfolding replies_complete_def by auto
    have "skip_channel ?spec = freq" by (simp add: skip_channel_def roll_call_listen_def)
    then have "rad_freq r2 \<noteq> freq" using listen_leaves_skip [OF run] by (simp add: roll_call_listen_def)
    then show ?thesis using t run c sent True
      by (intro exI [of _ count] exI [of _ replies] exI [of _ r2] exI [of _ "record_debug ''broadcast_collect_done'' 1 False l1"]
          exI [of _ c] conjI) (auto simp: collect_broadcast_responses_def)
  qed
qed

section \<open>Properties\<close>

text \<open>A concrete environment, a status request and an execute command, and a reply to them.\<close>

definition demo_env :: exchange_env where
  "demo_env = \<lparr>env_node_id = [1, 2, 3], env_system_key = replicate 16 7, env_tuning = default_tuning,
     env_chip = CHIP_SX1276, env_response_preamble = 12\<rparr>"

definition demo_request :: "u8 \<Rightarrow> io_frame" where
  "demo_request c = snd (set_cmd (addressed_2w True False False [1, 2, 3] [4, 5, 6]) c [0])"

definition demo_reply :: "u8 \<Rightarrow> bytes \<Rightarrow> reception" where
  "demo_reply c ps = \<lparr>rcv_elapsed_us = 20000,
     rcv_packet = Some (wire (snd (set_cmd (addressed_2w False True False [4, 5, 6] [1, 2, 3]) c ps))),
     rcv_rssi = -60, rcv_preamble = False\<rparr>"

definition demo_radio :: "reception list \<Rightarrow> radio" where
  "demo_radio air = \<lparr>rad_clock = 5000000, rad_freq = FREQ_CH2, rad_air = air, rad_tx = [], rad_noise = [],
     rad_preamble = False, rad_last_rssi = 0, rad_last_hop_us = 0, rad_sent = []\<rparr>"

definition demo_log :: engine_log where
  "demo_log = \<lparr>el_debug = \<lparr>dbg_stage = ''idle'', dbg_tries = 0, dbg_max_tries = 3, dbg_request_cmd = 0,
       dbg_saw_challenge = False\<rparr>,
     el_counters = \<lparr>ctr_lbt_retries = 0, ctr_retransmits = 0, ctr_challenge_round_trips = 0, ctr_parse_failures = 0\<rparr>,
     el_telemetry = None\<rparr>"

definition demo_air :: "reception list" where
  "demo_air = [demo_reply CMD_CHALLENGE_REQ [1, 2, 3, 4, 5, 6]]"

lemma length_try_sends: "try_sends env request freq preamble r r' u \<Longrightarrow> length u \<le> 2"
  by (auto simp: try_sends_def)

lemma length_concat_pairs: "\<forall>u \<in> set ts. length u \<le> 2 \<Longrightarrow> length (concat ts) \<le> 2 * length ts"
  by (induction ts) auto

lemma unanswered_tries:
  "\<forall>u \<in> set ts. try_sends env request freq preamble r r' u \<and> length u < 2 \<Longrightarrow>
   \<exists>k. k \<le> length ts \<and> concat ts = replicate k (request_on_air request freq preamble)"
proof (induction ts)
  case (Cons u ts)
  then have "\<forall>u \<in> set ts. try_sends env request freq preamble r r' u \<and> length u < 2" by simp
  from Cons.IH [OF this]
  obtain k where k: "k \<le> length ts" "concat ts = replicate k (request_on_air request freq preamble)" by blast
  have "u = [] \<or> u = [request_on_air request freq preamble]"
  proof -
    have "try_sends env request freq preamble r r' u" "length u < 2" using Cons.prems by simp_all
    then show ?thesis unfolding try_sends_def by auto
  qed
  then show ?case
  proof
    assume "u = []"
    then show ?thesis using k by (intro exI [of _ k]) simp
  next
    assume "u = [request_on_air request freq preamble]"
    then show ?thesis using k by (intro exI [of _ "Suc k"]) simp
  qed
qed simp

lemma tries_allowed_bounds: "1 \<le> tries_allowed n" "tries_allowed n \<le> 3"
  by (simp_all add: tries_allowed_def)

lemma exchange_sends:
  "\<exists>outcome response r' l' sent. send_and_receive env request freq max_tries r l = Some (outcome, response, r', l') \<and>
     rad_sent r' = rad_sent r @ sent \<and> length sent \<le> 2 * tries_allowed max_tries \<and>
     1 \<le> tries_allowed max_tries \<and> tries_allowed max_tries \<le> EXCHANGE_RETRY_COUNT"
proof -
  obtain outcome response r' l' where run: "send_and_receive env request freq max_tries r l = Some (outcome, response, r', l')"
    and con: "exchange_contract env request freq (request_preamble_for env request) (tries_allowed max_tries) False r outcome response r'"
    using send_and_receive_contract [of env request freq max_tries r l] by blast
  obtain ts where ts: "length ts \<le> tries_allowed max_tries" "rad_sent r' = rad_sent r @ concat ts"
      "\<forall>u \<in> set ts. try_sends env request freq (request_preamble_for env request) r r' u"
    using con unfolding exchange_contract_def by blast
  have "length (concat ts) \<le> 2 * length ts"
    using ts(3) length_try_sends by (intro length_concat_pairs) blast
  then show ?thesis using run ts(1,2) tries_allowed_bounds [of max_tries] by auto
qed


text \<open>C6. An exchange succeeds with a response exactly when it returns one, and the response is a frame that was
  taken from the air during the exchange, sent by the addressed device to the requesting node.\<close>

theorem exchange_response_genuine:
  assumes "send_and_receive env request freq max_tries r l = Some (outcome, response, r', l')"
  shows "(outcome = SUCCESS_WITH_RESPONSE \<longleftrightarrow> response \<noteq> None) \<and>
    (\<forall>rx. response = Some rx \<longrightarrow> heard r r' rx \<and> src rx = dst request \<and> dst rx = src request)"
proof -
  have "case response of None \<Rightarrow> outcome \<noteq> SUCCESS_WITH_RESPONSE
      | Some rx \<Rightarrow> outcome = SUCCESS_WITH_RESPONSE \<and> heard r r' rx \<and> frame_matches_exchange_endpoints request rx"
    using send_and_receive_obeys [OF assms] unfolding exchange_contract_def by blast
  then show ?thesis
    by (auto simp: frame_matches_exchange_endpoints_def frame_matches_nodes_def split: option.splits)
qed

theorem exchange_response_genuine_witness:
  "\<exists>rx r' l'. send_and_receive demo_env (demo_request CMD_EXECUTE) FREQ_CH2 3
       (demo_radio [demo_reply CMD_PRIVATE_RESP [1, 2]]) demo_log = Some (SUCCESS_WITH_RESPONSE, Some rx, r', l') \<and>
     heard (demo_radio [demo_reply CMD_PRIVATE_RESP [1, 2]]) r' rx \<and> src rx = [4, 5, 6] \<and> dst rx = [1, 2, 3]"
proof -
  let ?run = "send_and_receive demo_env (demo_request CMD_EXECUTE) FREQ_CH2 3
       (demo_radio [demo_reply CMD_PRIVATE_RESP [1, 2]]) demo_log"
  have "?run \<noteq> None \<and> fst (the ?run) = SUCCESS_WITH_RESPONSE" by code_simp
  then obtain response r' l' where run: "?run = Some (SUCCESS_WITH_RESPONSE, response, r', l')" by auto
  have "dst (demo_request CMD_EXECUTE) = [4, 5, 6]" "src (demo_request CMD_EXECUTE) = [1, 2, 3]" by code_simp+
  then show ?thesis using exchange_response_genuine [OF run] run by auto
qed

text \<open>C1. A movement command is never executed twice: an execute exchange puts copies of the request on air,
  at most one per try, and nothing after its first answer to a challenge. That answer, if there is one,
  is computed for a challenge heard from the addressed device.\<close>

theorem exchange_executes_once:
  assumes "send_and_receive env request freq max_tries r l = Some (outcome, response, r', l')"
    and "cmd request = CMD_EXECUTE"
  shows "\<exists>k answer. k \<le> tries_allowed max_tries \<and>
    rad_sent r' = rad_sent r @ replicate k (request_on_air request freq (request_preamble_for env request)) @ answer \<and>
    (answer = [] \<or> (\<exists>x. answer = [x] \<and> answers env request freq r r' x))"
proof -
  let ?p = "request_preamble_for env request"
  obtain ts where ts: "length ts \<le> tries_allowed max_tries" "rad_sent r' = rad_sent r @ concat ts"
      "\<forall>u \<in> set ts. try_sends env request freq ?p r r' u" "\<forall>u \<in> set (butlast ts). length u < 2"
    using send_and_receive_obeys [OF assms(1)] assms(2) unfolding exchange_contract_def by blast
  show ?thesis
  proof (cases "ts = []")
    case True
    then show ?thesis using ts(2) by (intro exI [of _ 0] exI [of _ "[]"]) simp
  next
    case False
    then have split: "ts = butlast ts @ [last ts]" by simp
    have sub: "set (butlast ts) \<subseteq> set ts" by (auto dest: in_set_butlastD)
    then obtain k where k: "k \<le> length (butlast ts)" "concat (butlast ts) = replicate k (request_on_air request freq ?p)"
      using unanswered_tries [of "butlast ts" env request freq ?p r r'] ts(3,4) by blast
    have len: "length (butlast ts) < tries_allowed max_tries" using ts(1) False by (cases ts) auto
    have all: "rad_sent r' = rad_sent r @ replicate k (request_on_air request freq ?p) @ last ts"
      using ts(2) k(2) by (metis append_assoc append_butlast_last_id False concat_append concat.simps append_Nil2)
    have "try_sends env request freq ?p r r' (last ts)" using ts(3) False by simp
    then consider "last ts = []" | "last ts = [request_on_air request freq ?p]"
      | x where "last ts = [request_on_air request freq ?p, x]" "answers env request freq r r' x"
      unfolding try_sends_def by blast
    then show ?thesis
    proof cases
      case 1
      then show ?thesis using all k(1) len by (intro exI [of _ k] exI [of _ "[]"]) simp
    next
      case 2
      then show ?thesis using all k(1) len
        by (intro exI [of _ "Suc k"] exI [of _ "[]"]) (simp add: replicate_append_same)
    next
      case 3
      then show ?thesis using all k(1) len
        by (intro exI [of _ "Suc k"] exI [of _ "[x]"]) (simp flip: replicate_append_same)
    qed
  qed
qed

theorem exchange_executes_once_witness:
  "\<exists>outcome response r' l' k answer.
     send_and_receive demo_env (demo_request CMD_EXECUTE) FREQ_CH2 3 (demo_radio demo_air) demo_log =
       Some (outcome, response, r', l') \<and>
     rad_sent r' = replicate k (request_on_air (demo_request CMD_EXECUTE) FREQ_CH2 32) @ answer \<and> k \<le> 3 \<and> length answer \<le> 1"
proof -
  obtain outcome response r' l' where run: "send_and_receive demo_env (demo_request CMD_EXECUTE) FREQ_CH2 3
      (demo_radio demo_air) demo_log = Some (outcome, response, r', l')"
    using send_and_receive_contract [of demo_env "demo_request CMD_EXECUTE" FREQ_CH2 3 "demo_radio demo_air" demo_log] by blast
  have "cmd (demo_request CMD_EXECUTE) = CMD_EXECUTE" "request_preamble_for demo_env (demo_request CMD_EXECUTE) = 32"
    by code_simp+
  moreover have "rad_sent (demo_radio demo_air) = []" "tries_allowed 3 = 3" by (simp_all add: demo_radio_def tries_allowed_def)
  ultimately show ?thesis
    using exchange_executes_once [OF run] run by (auto 0 4)
qed

text \<open>C26. The outcome does not lie about authentication. An unconfirmed success means that a challenge of the
  addressed device was answered during the exchange; a failure means that none was, only copies of the
  request went out.\<close>

theorem exchange_outcome_truthful:
  assumes "send_and_receive env request freq max_tries r l = Some (outcome, response, r', l')"
    and "rad_sent r' = rad_sent r @ sent"
  shows "(outcome = SUCCESS_UNCONFIRMED \<longrightarrow> (\<exists>x \<in> set sent. answers env request freq r r' x)) \<and>
    (outcome = EX_FAILED \<longrightarrow> (\<forall>x \<in> set sent. x = request_on_air request freq (request_preamble_for env request)))"
proof -
  let ?p = "request_preamble_for env request"
  obtain ts where ts: "rad_sent r' = rad_sent r @ concat ts" "\<forall>u \<in> set ts. try_sends env request freq ?p r r' u"
      "outcome = SUCCESS_UNCONFIRMED \<longrightarrow> answered ts" "outcome = EX_FAILED \<longrightarrow> \<not> answered ts"
    using send_and_receive_obeys [OF assms(1)] unfolding exchange_contract_def by blast
  have sent: "sent = concat ts" using assms(2) ts(1) by simp
  have "\<exists>x \<in> set sent. answers env request freq r r' x" if ans: "answered ts"
  proof -
    obtain u where "u \<in> set ts" "length u = 2" using ans unfolding answered_def by blast
    moreover from this obtain x where "u = [request_on_air request freq ?p, x]" "answers env request freq r r' x"
      using ts(2) by (auto simp: try_sends_def)
    ultimately show ?thesis unfolding sent by (intro bexI [of _ x]) (auto intro!: bexI [of _ u])
  qed
  moreover have "\<forall>x \<in> set sent. x = request_on_air request freq ?p" if "\<not> answered ts"
    using that ts(2) unfolding sent answered_def try_sends_def by fastforce
  ultimately show ?thesis using ts(3,4) by blast
qed

theorem exchange_outcome_truthful_witness:
  "\<exists>outcome response r' l' sent.
     send_and_receive demo_env (demo_request CMD_EXECUTE) FREQ_CH2 3 (demo_radio demo_air) demo_log =
       Some (outcome, response, r', l') \<and> rad_sent r' = sent \<and>
     (outcome = SUCCESS_UNCONFIRMED \<longrightarrow>
       (\<exists>x \<in> set sent. answers demo_env (demo_request CMD_EXECUTE) FREQ_CH2 (demo_radio demo_air) r' x))"
proof -
  obtain outcome response r' l' where run: "send_and_receive demo_env (demo_request CMD_EXECUTE) FREQ_CH2 3
      (demo_radio demo_air) demo_log = Some (outcome, response, r', l')"
    using send_and_receive_contract [of demo_env "demo_request CMD_EXECUTE" FREQ_CH2 3 "demo_radio demo_air" demo_log] by blast
  have "rad_sent r' = rad_sent (demo_radio demo_air) @ rad_sent r'" by (simp add: demo_radio_def)
  then show ?thesis using exchange_outcome_truthful [OF run] run by blast
qed

lemma authenticated_frame:
  assumes "authenticate_request env random request freq r l = (True, r', l')"
    and "length random = HMAC_SIZE" and "length (env_node_id env) = NODE_ID_SIZE" and "length (src request) = NODE_ID_SIZE"
    and "length (env_system_key env) = AES_KEY_SIZE"
  shows "\<exists>challenge rx. create_challenge_req (src request) (env_node_id env) random = (True, challenge) \<and>
    rad_sent r' = rad_sent r @ [(serialize challenge FRAME_MAX_WIRE_SIZE, freq, SHORT_PREAMBLE)] \<and>
    heard r r' rx \<and> cmd rx = CMD_CHALLENGE_RESP \<and>
    take HMAC_SIZE (data rx) = create_hmac (cmd request # payload request) random (env_system_key env)"
proof -
  obtain built challenge where c: "create_challenge_req (src request) (env_node_id env) random = (built, challenge)"
    by fastforce
  note ch = challenge_request_data [OF c assms(4,3,2)]
  obtain ok r1 l1 where t: "transmit_frame env challenge freq SHORT_PREAMBLE r
      (record_debug (inbound_stage_name TX_CHALLENGE) 1 True l) = (ok, r1, l1)" by (metis surj_pair)
  note sent = transmit_frame_sent [OF t]
  obtain got r2 where w: "wait_for_packet (ucast (exchange_response_wait_ms (env_tuning env))) r1 = (got, r2)" by fastforce
  have run: "built" "ok" "r' = r2"
    and "\<exists>p rx. got = Some p \<and> parse p = Some rx \<and> cmd rx = CMD_CHALLENGE_RESP \<and>
      verify_hmac (cmd request # payload request) (data rx) (take 6 (data challenge)) (env_system_key env)"
    using assms(1) c t w by (auto simp: authenticate_request_def Let_def split: if_splits option.splits bool.splits)
  then obtain p rx where p: "got = Some p" "parse p = Some rx" "cmd rx = CMD_CHALLENGE_RESP"
    and v: "verify_hmac (cmd request # payload request) (data rx) random (env_system_key env)"
    using ch by auto
  have "heard r1 r2 rx" using wait_heard [OF w [unfolded p(1)] p(2)] .
  moreover have "later r r1" using sent by (simp add: later_same_air)
  ultimately have "heard r r2 rx" using heard_later by blast
  moreover have "length (data rx) = 23"
    using parse_Some(1) [OF p(2)] by (simp add: frame_ok_def frame_shape_def)
  then have "take 6 (data rx) = create_hmac (cmd request # payload request) random (env_system_key env)"
    using v assms(5) by (simp add: verify_hmac_def constant_time_equal_take)
  moreover have "rad_sent r2 = rad_sent r1" using wait_for_packet_frame(4) [of _ r1] w by (metis snd_conv)
  ultimately show ?thesis using run p(3) c sent by auto
qed

text \<open>C14. Inbound authentication is sound: when it accepts a frame, a challenge with the given random bytes went
  out to the sender of the frame, and a heard challenge response carries the authenticator of exactly
  that frame under the system key for exactly those random bytes.\<close>

theorem authenticate_request_sound:
  assumes "authenticate_request env random request freq r l = (True, r', l')"
    and "length random = HMAC_SIZE" and "length (env_node_id env) = NODE_ID_SIZE" and "length (src request) = NODE_ID_SIZE"
    and "length (env_system_key env) = AES_KEY_SIZE"
  shows "\<exists>challenge rx. create_challenge_req (src request) (env_node_id env) random = (True, challenge) \<and>
    rad_sent r' = rad_sent r @ [(serialize challenge FRAME_MAX_WIRE_SIZE, freq, SHORT_PREAMBLE)] \<and>
    heard r r' rx \<and> cmd rx = CMD_CHALLENGE_RESP \<and>
    take HMAC_SIZE (data rx) = create_hmac (cmd request # payload request) random (env_system_key env)"
  by (rule authenticated_frame [OF assms])

lemma transmit_succeeds:
  assumes "rad_tx r = []" and "serialize f FRAME_MAX_WIRE_SIZE \<noteq> []"
  obtains r' l' where "transmit_frame env f freq preamble r l = (True, r', l')" and "rad_air r' = rad_air r"
proof -
  obtain r1 l1 where lbt: "lbt_loop (unat (lbt_max_retries (env_tuning env)))
      (sint (lbt_rssi_threshold_dbm (env_tuning env))) r l = (r1, l1)" by fastforce
  then have "rad_tx r1 = []" "rad_air r1 = rad_air r" using lbt_loop_frame [OF lbt] assms(1) by simp_all
  then show ?thesis
    using that lbt assms(2) by (simp add: transmit_frame_def send_packet_def Let_def)
qed

text \<open>The converse: the right answer in time is accepted.\<close>

lemma authenticate_accepts:
  assumes "length random = 6" and "length (env_node_id env) = 3" and "length (src request) = 3"
    and "length (env_system_key env) = 16"
    and "rad_tx r = []" and "rad_air r = e # air" and "rcv_packet e = Some packet" and "parse packet = Some g"
    and "cmd g = CMD_CHALLENGE_RESP"
    and "take 6 (data g) = create_hmac (cmd request # payload request) random (env_system_key env)"
  obtains r' l' where "authenticate_request env random request freq r l = (True, r', l')"
proof -
  obtain built challenge where c: "create_challenge_req (src request) (env_node_id env) random = (built, challenge)"
    by fastforce
  note ch = challenge_request_data [OF c assms(3,2,1)]
  have b: "blank (addressed_2w False False False (env_node_id env) (src request))" using assms(2,3) by (simp add: wf_rules)
  have "transmittable (set_cmd (addressed_2w False False False (env_node_id env) (src request)) CMD_CHALLENGE_REQ random)"
    using assms(1) by (intro transmittable_set_cmd [OF b]) simp
  then have "transmittable (built, challenge)"
    using c by (simp add: create_challenge_req_def create_challenge_req_framed_def)
  then have "serialize challenge FRAME_MAX_WIRE_SIZE \<noteq> []" by (simp add: transmittable_def)
  then obtain r1 l1 where t: "transmit_frame env challenge freq SHORT_PREAMBLE r
      (record_debug (inbound_stage_name TX_CHALLENGE) 1 True l) = (True, r1, l1)" and a: "rad_air r1 = rad_air r"
    by (rule transmit_succeeds [OF assms(5)])
  have "length (data g) = 23" using parse_Some(1) [OF assms(8)] by (simp add: frame_ok_def frame_shape_def)
  then have "verify_hmac (cmd request # payload request) (data g) random (env_system_key env)"
    using assms(4,10) by (simp add: verify_hmac_def constant_time_equal_take)
  moreover obtain r2 where "wait_for_packet (ucast (exchange_response_wait_ms (env_tuning env))) r1 = (Some packet, r2)"
    using a assms(6,7) by (simp add: wait_for_packet_def)
  ultimately show ?thesis
    using that c t ch assms(8,9) by (simp add: authenticate_request_def Let_def)
qed

lemma demo_reply_parses:
  assumes "length ps \<le> 23"
  obtains packet g where "rcv_packet (demo_reply c ps) = Some packet" "parse packet = Some g" "cmd g = c"
    "take (length ps) (data g) = ps"
proof -
  let ?f = "addressed_2w False True False [4, 5, 6] [1, 2, 3]"
  let ?g = "snd (set_cmd ?f c ps)"
  have b: "blank ?f" by (simp add: wf_rules)
  have "parse (wire ?g) = Some ?g" using parse_wire [OF set_cmd_blank(2) [OF b assms]] set_cmd_blank(3) [OF b assms] by simp
  then show ?thesis
    using that [of "wire ?g" ?g] set_cmd_blank(5) [OF b assms] take_data_set_cmd [OF b assms order_refl]
    by (simp add: demo_reply_def)
qed

definition demo_status_update :: io_frame where
  "demo_status_update = snd (set_cmd (addressed_2w True False False [4, 5, 6] [1, 2, 3]) CMD_STATUS_UPDATE [0])"

theorem authenticate_request_sound_witness:
  "\<exists>r' l' (rx :: io_frame). authenticate_request demo_env (replicate 6 9) demo_status_update FREQ_CH2
       (demo_radio [demo_reply CMD_CHALLENGE_RESP
          (create_hmac (cmd demo_status_update # payload demo_status_update) (replicate 6 9) (replicate 16 7))])
       demo_log = (True, r', l') \<and>
     cmd rx = CMD_CHALLENGE_RESP \<and>
     take HMAC_SIZE (data rx) = create_hmac (cmd demo_status_update # payload demo_status_update) (replicate 6 9) (replicate 16 7)"
proof -
  let ?h = "create_hmac (cmd demo_status_update # payload demo_status_update) (replicate 6 9) (replicate 16 7)"
  let ?r = "demo_radio [demo_reply CMD_CHALLENGE_RESP ?h]"
  obtain packet g where g: "rcv_packet (demo_reply CMD_CHALLENGE_RESP ?h) = Some packet" "parse packet = Some g"
      "cmd g = CMD_CHALLENGE_RESP" "take (length ?h) (data g) = ?h"
    by (rule demo_reply_parses [of ?h CMD_CHALLENGE_RESP]) simp
  have env: "env_node_id demo_env = [1, 2, 3]" "env_system_key demo_env = replicate 16 7" by (simp_all add: demo_env_def)
  have air: "rad_tx ?r = []" "rad_air ?r = [demo_reply CMD_CHALLENGE_RESP ?h]" by (simp_all add: demo_radio_def)
  have src: "src demo_status_update = [4, 5, 6]" by code_simp
  obtain r' l' where run: "authenticate_request demo_env (replicate 6 9) demo_status_update FREQ_CH2 ?r demo_log = (True, r', l')"
    by (rule authenticate_accepts [of "replicate 6 9" demo_env demo_status_update ?r _ _ packet g FREQ_CH2 demo_log])
       (use g env air src in simp_all)
  have "length (replicate 6 (9 :: u8)) = HMAC_SIZE" "length (env_node_id demo_env) = NODE_ID_SIZE"
    "length (src demo_status_update) = NODE_ID_SIZE" "length (env_system_key demo_env) = AES_KEY_SIZE"
    by (simp_all add: env src)
  from authenticate_request_sound [OF run this]
  obtain rx :: io_frame where "cmd rx = CMD_CHALLENGE_RESP" "take HMAC_SIZE (data rx) = ?h" unfolding env by blast
  then show ?thesis using run by blast
qed

text \<open>C33. The roll-call loses nothing it hears. With a non-zero dwell it returns, and the replies handed to the
  caller are exactly the frames of the consumed air that carry the expected command and are addressed to
  the node, in their order; the count is their number, saturated at 255. It never comes to rest on the
  request channel.\<close>

theorem roll_call_exact:
  assumes "hop_dwell_ms (env_chip env) (env_tuning env) \<noteq> 0"
  shows "\<exists>count replies r' l' c.
    collect_broadcast_responses env request freq expected_cmd window_ms r l = Some (count, replies, r', l') \<and>
    rad_air r = c @ rad_air r' \<and>
    map fst replies = filter (is_broadcast_reply env expected_cmd) (frames_in c) \<and>
    unat count = min 255 (length replies) \<and>
    (rad_sent r' \<noteq> rad_sent r \<longrightarrow> rad_freq r' \<noteq> freq)"
  by (rule roll_call_collects [OF assms])

theorem roll_call_exact_witness:
  "\<exists>count replies r' l'.
    collect_broadcast_responses demo_env (demo_request CMD_PRIVATE) FREQ_CH2 CMD_PRIVATE_RESP 100
      (demo_radio [demo_reply CMD_PRIVATE_RESP [1, 2]]) demo_log = Some (count, replies, r', l') \<and>
    unat count = min 255 (length replies)"
  using roll_call_exact [of demo_env "demo_request CMD_PRIVATE" FREQ_CH2 CMD_PRIVATE_RESP 100
      "demo_radio [demo_reply CMD_PRIVATE_RESP [1, 2]]" demo_log]
  by (auto simp: demo_env_def default_tuning_def)

end
