(* ===== verification/Pairing.thy ===== *)
theory Pairing
  imports Exchange Registry
begin

text \<open>
  The pairing engine (\<open>pairing_engine.cpp\<close>, \<open>pairing_engine.h\<close>, \<open>hub_pairing.h\<close>): discovery, the
  authenticated key exchange and the final configuration, on top of the exchange engine, the telemetry
  and the device registry. The telemetry that the engine attaches for the duration of an attempt is the
  telemetry in the engine's log. The nonces of special discovery requests are an argument; log lines are
  left out.
\<close>

abbreviation (input) PAIRING_DISCOVERY_MAX_ATTEMPTS :: nat where "PAIRING_DISCOVERY_MAX_ATTEMPTS \<equiv> 3"
abbreviation (input) PAIRING_KEY_CHALLENGE_TIMEOUT_MS :: u32 where "PAIRING_KEY_CHALLENGE_TIMEOUT_MS \<equiv> 500"
abbreviation (input) PAIRING_KEY_CONFIRM_TIMEOUT_MS :: u32 where "PAIRING_KEY_CONFIRM_TIMEOUT_MS \<equiv> 500"

record pairing_context =
  pc_state :: pairing_state
  pc_device :: io_device
  pc_req :: io_frame
  pc_resp :: io_frame
  pc_rx :: io_frame
  pc_key_init :: io_frame
  pc_device_id :: string
  pc_metadata_complete :: bool
  pc_low_power :: bool

definition new_pairing_context :: pairing_context where
  "new_pairing_context =
     \<lparr>pc_state = PS_IDLE, pc_device = new_device, pc_req = empty_frame, pc_resp = empty_frame, pc_rx = empty_frame,
      pc_key_init = empty_frame, pc_device_id = [], pc_metadata_complete = False, pc_low_power = False\<rparr>"

definition frame_is_key_confirm :: "io_frame \<Rightarrow> bool" where
  "frame_is_key_confirm f \<longleftrightarrow> cmd f = CMD_KEY_CONFIRM"

text \<open>Every stage is entered by the same three writes: context, debug snapshot, telemetry.\<close>

definition enter_stage ::
  "pairing_state \<Rightarrow> nat \<Rightarrow> bool \<Rightarrow> radio \<Rightarrow> pairing_context \<Rightarrow> engine_log \<Rightarrow> pairing_context \<times> engine_log" where
  "enter_stage stage tries saw r ctx l =
     (ctx\<lparr>pc_state := stage\<rparr>, tell (set_phase (millis r) stage) (record_debug (pairing_stage_name stage) tries saw l))"

section \<open>The waiters\<close>

definition discovery_listen :: "u32 \<Rightarrow> listen_spec" where
  "discovery_listen window =
     (holding_listen window)\<lparr>ls_policy := ROTATE_SKIPPING_REQUEST, ls_request_freq := FREQ_CH2,
        ls_linger_on_preamble := True, ls_linger_dwell_ms := PREAMBLE_LINGER_DWELL_MS\<rparr>"

definition record_discovery_rx_telemetry :: "io_frame \<Rightarrow> bool \<Rightarrow> radio \<Rightarrow> engine_log \<Rightarrow> engine_log" where
  "record_discovery_rx_telemetry f accepted r l =
     (if accepted then tell (record_rx (millis r) f (rad_last_rssi r)) l
      else tell (record_rx_reject (millis r) f (rad_last_rssi r)) l)"

definition discovery_handler :: "exchange_env \<Rightarrow> (bool \<times> engine_log) reply_handler" where
  "discovery_handler env parsed packet r s =
     (case parsed of
        None \<Rightarrow> (RD_IGNORE, True, snd s)
      | Some f \<Rightarrow>
          let accepted = (classify_pairing_discovery_response f (env_node_id env) = PD_ACCEPT)
          in (if accepted then RD_ACCEPT else RD_IGNORE, True, record_discovery_rx_telemetry f accepted r (snd s)))"

definition discovery_hop :: "(bool \<times> engine_log) hop_handler" where
  "discovery_hop r s = (fst s, tell (record_hop (millis r)) (snd s))"

definition wait_for_discovery_response ::
  "exchange_env \<Rightarrow> u32 \<Rightarrow> io_frame \<Rightarrow> radio \<Rightarrow> engine_log \<Rightarrow>
   (pairing_discovery_disposition \<times> io_frame \<times> radio \<times> engine_log) option" where
  "wait_for_discovery_response env timeout_ms rx r l = do {
     (outcome, rx, r, saw_traffic, l) \<leftarrow> listen env (discovery_listen timeout_ms) rx (discovery_handler env) discovery_hop r (False, l);
     Some (if outcome = LO_ACCEPTED then PD_ACCEPT else if saw_traffic then PD_INVALID else PD_NO_RESPONSE, rx, r, l)
   }"

definition key_challenge_handler :: "exchange_env \<Rightarrow> node_id \<Rightarrow> engine_log reply_handler" where
  "key_challenge_handler env device_node_id parsed packet r l =
     (case parsed of
        None \<Rightarrow> (RD_IGNORE, l)
      | Some f \<Rightarrow>
          if cmd f = CMD_KEY_CONFIRM \<and> src f = device_node_id \<and> dst f = env_node_id env
          then (RD_ACCEPT, tell (record_rx (millis r) f (rad_last_rssi r)) l)
          else if classify_pairing_key_challenge f device_node_id (env_node_id env) \<noteq> PK_ACCEPT
          then (RD_IGNORE, tell (record_rx_reject (millis r) f (rad_last_rssi r)) l)
          else (RD_ACCEPT, tell (record_rx (millis r) f (rad_last_rssi r)) l))"

definition wait_for_key_challenge ::
  "exchange_env \<Rightarrow> u32 \<Rightarrow> node_id \<Rightarrow> io_frame \<Rightarrow> radio \<Rightarrow> engine_log \<Rightarrow> (bool \<times> io_frame \<times> radio \<times> engine_log) option" where
  "wait_for_key_challenge env timeout_ms device_node_id rx r l = do {
     (outcome, rx, r, l) \<leftarrow> listen env (holding_listen timeout_ms) rx (key_challenge_handler env device_node_id) (\<lambda>r h. h) r l;
     Some (outcome = LO_ACCEPTED, rx, r, l)
   }"

definition key_confirm_handler :: "io_frame \<Rightarrow> engine_log reply_handler" where
  "key_confirm_handler req parsed packet r l =
     (case parsed of
        None \<Rightarrow> (RD_IGNORE, l)
      | Some f \<Rightarrow>
          if \<not> frame_matches_exchange_endpoints req f then (RD_IGNORE, l)
          else if frame_is_key_confirm f then (RD_ACCEPT, tell (record_rx (millis r) f (rad_last_rssi r)) l)
          else (RD_ABORT, tell (record_rx_reject (millis r) f (rad_last_rssi r)) l))"

fun key_confirm_loop ::
  "exchange_env \<Rightarrow> nat \<Rightarrow> nat \<Rightarrow> pairing_context \<Rightarrow> radio \<Rightarrow> engine_log \<Rightarrow>
   (bool \<times> pairing_context \<times> radio \<times> engine_log) option" where
  "key_confirm_loop env 0 tries ctx r l = Some (False, ctx, r, l)"
| "key_confirm_loop env (Suc n) tries ctx r l =
     (let r = (if tries > 0 then delay_ms EXCHANGE_RETRY_DELAY_MS r else r) in
      case transmit_frame env (pc_req ctx) FREQ_CH2 (env_response_preamble env) r l of
        (False, r, l) \<Rightarrow> key_confirm_loop env n (tries + 1) ctx r l
      | (True, r, l) \<Rightarrow> do {
          (outcome, resp, r, l) \<leftarrow> listen env (holding_listen PAIRING_KEY_CONFIRM_TIMEOUT_MS) (pc_resp ctx)
             (key_confirm_handler (pc_req ctx)) (\<lambda>r h. h) r l;
          let ctx = ctx\<lparr>pc_resp := resp\<rparr> in
          if outcome = LO_ACCEPTED then Some (True, ctx, r, l)
          else if outcome = LO_ABORTED then Some (False, ctx, r, l)
          else key_confirm_loop env n (tries + 1) ctx r l
        })"

definition wait_for_key_confirm ::
  "exchange_env \<Rightarrow> pairing_context \<Rightarrow> radio \<Rightarrow> engine_log \<Rightarrow> (bool \<times> pairing_context \<times> radio \<times> engine_log) option" where
  "wait_for_key_confirm env ctx r l = key_confirm_loop env EXCHANGE_RETRY_COUNT 0 ctx r l"

section \<open>The three phases\<close>

definition transfer_key_and_wait_confirm ::
  "exchange_env \<Rightarrow> pairing_context \<Rightarrow> radio \<Rightarrow> engine_log \<Rightarrow> (bool \<times> pairing_context \<times> radio \<times> engine_log) option" where
  "transfer_key_and_wait_confirm env ctx r l =
     (let (ctx, l) = enter_stage PS_TX_KEY_TRANSFER 1 True r ctx l;
          (built, req) = create_key_transfer (pc_key_init ctx) (dev_node_id (pc_device ctx)) (env_node_id env)
                           (env_system_key env) (take HMAC_SIZE (data (pc_rx ctx)));
          ctx = ctx\<lparr>pc_req := req\<rparr>
      in if \<not> built then Some (False, ctx, r, l)
         else
           let (ctx, l) = enter_stage PS_WAIT_KEY_CONFIRM 1 True r ctx l
           in if has_fast_tx_rx_turnaround (env_chip env)
              then do {
                (outcome, resp, r, l) \<leftarrow> send_and_receive env (pc_req ctx) FREQ_CH2 (of_nat EXCHANGE_RETRY_COUNT) r l;
                let ctx = (case resp of Some f \<Rightarrow> ctx\<lparr>pc_resp := f\<rparr> | None \<Rightarrow> ctx) in
                Some (outcome = SUCCESS_WITH_RESPONSE \<and> frame_is_key_confirm (pc_resp ctx), ctx, r, l)
              }
              else wait_for_key_confirm env ctx r l)"

definition discovery_power_save_mode :: "u8 \<Rightarrow> u8" where
  "discovery_power_save_mode flags = flags AND DISCOVERY_FLAGS_POWER_SAVE_MASK"

definition parse_device_from_discovery ::
  "io_frame \<Rightarrow> io_device \<Rightarrow> discovery_response_info \<times> io_device \<times> string" where
  "parse_device_from_discovery f device = decode_discovery_response f device"

text \<open>
  The attempts of one discovery command. \<open>Inl\<close> ends the phase with a disposition; \<open>Inr\<close> goes on to the
  next command and carries whether an invalid response was seen.
\<close>

fun discovery_attempts ::
  "exchange_env \<Rightarrow> (nat \<Rightarrow> bytes) \<Rightarrow> u8 \<Rightarrow> nat \<Rightarrow> nat \<Rightarrow> bool \<Rightarrow> pairing_context \<Rightarrow> radio \<Rightarrow> engine_log \<Rightarrow>
   ((pairing_discovery_disposition + bool) \<times> pairing_context \<times> radio \<times> engine_log) option" where
  "discovery_attempts env nonce command 0 attempt saw_invalid ctx r l = Some (Inr saw_invalid, ctx, r, l)"
| "discovery_attempts env nonce command (Suc n) attempt saw_invalid ctx r l =
     (let t = env_tuning env;
          (ctx, l) = enter_stage PS_TX_DISCOVER attempt False r ctx (tell increment_discovery_attempt l);
          destination = resolve_discovery_destination command (pairing_discovery_destination_auto t) (pairing_discovery_destination t);
          (built, req) = create_discovery_request (env_node_id env) command destination (pairing_discovery_low_power t)
                           (pairing_discovery_payload_enabled t) (pairing_discovery_payload t)
                           (Some (env_system_key env)) (nonce attempt);
          ctx = ctx\<lparr>pc_req := req\<rparr>
      in if \<not> built then Some (Inl PD_NO_RESPONSE, ctx, r, l)
         else case transmit_frame env req FREQ_CH2 LONG_PREAMBLE r l of
           (False, r, l) \<Rightarrow> Some (Inl PD_NO_RESPONSE, ctx, r, l)
         | (True, r, l) \<Rightarrow>
             (let (ctx, l) = enter_stage PS_WAIT_DISCOVER_RESPONSE attempt False r ctx l in do {
                (result, rx, r, l) \<leftarrow> wait_for_discovery_response env (ucast (pairing_discovery_wait_ms t)) (pc_rx ctx) r l;
                let ctx = ctx\<lparr>pc_rx := rx\<rparr> in
                if result = PD_ACCEPT
                then (case parse_device_from_discovery rx (pc_device ctx) of (info, device, device_id) \<Rightarrow>
                  Some (Inl PD_ACCEPT,
                    ctx\<lparr>pc_device := device, pc_device_id := device_id,
                        pc_metadata_complete := unat (data_len rx) \<ge> DEVICE_METADATA_SIZE,
                        pc_low_power := dri_has_extended info \<and>
                          discovery_power_save_mode (dri_flags info) = POWER_SAVE_LOW_POWER\<rparr>, r, l))
                else discovery_attempts env nonce command n (attempt + 1) (saw_invalid \<or> result = PD_INVALID) ctx r l
              }))"

fun discovery_commands ::
  "exchange_env \<Rightarrow> (nat \<Rightarrow> nat \<Rightarrow> bytes) \<Rightarrow> nat \<Rightarrow> discovery_command list \<Rightarrow> bool \<Rightarrow> pairing_context \<Rightarrow> radio \<Rightarrow> engine_log \<Rightarrow>
   (pairing_discovery_disposition \<times> pairing_context \<times> radio \<times> engine_log) option" where
  "discovery_commands env nonce i [] saw_invalid ctx r l =
     Some (if saw_invalid then PD_INVALID else PD_NO_RESPONSE, ctx, r, l)"
| "discovery_commands env nonce i (command # commands) saw_invalid ctx r l = do {
     (res, ctx, r, l) \<leftarrow> discovery_attempts env (nonce i) (discovery_command_byte command) PAIRING_DISCOVERY_MAX_ATTEMPTS 1
        saw_invalid ctx r l;
     case res of
       Inl disp \<Rightarrow> Some (disp, ctx, r, l)
     | Inr saw_invalid \<Rightarrow> discovery_commands env nonce (i + 1) commands saw_invalid ctx r l
   }"

definition run_discovery_phase ::
  "exchange_env \<Rightarrow> (nat \<Rightarrow> nat \<Rightarrow> bytes) \<Rightarrow> pairing_context \<Rightarrow> radio \<Rightarrow> engine_log \<Rightarrow>
   (pairing_discovery_disposition \<times> pairing_context \<times> radio \<times> engine_log) option" where
  "run_discovery_phase env nonce ctx r l =
     (let dwell = unat (pairing_discovery_initial_dwell_ms (env_tuning env));
          r = (if dwell > 0 then delay_ms dwell r else r)
      in discovery_commands env nonce 0 (pairing_discovery_commands (env_tuning env)) False ctx r l)"

text \<open>The re-triggers of a slow-turnaround radio after a missed confirmation.\<close>

fun retrigger_loop ::
  "exchange_env \<Rightarrow> nat \<Rightarrow> bool \<Rightarrow> pairing_context \<Rightarrow> radio \<Rightarrow> engine_log \<Rightarrow>
   (bool \<times> pairing_context \<times> radio \<times> engine_log) option" where
  "retrigger_loop env 0 key_ok ctx r l = Some (key_ok, ctx, r, l)"
| "retrigger_loop env (Suc n) key_ok ctx r l =
     (if key_ok then Some (True, ctx, r, l)
      else case transmit_frame env (pc_key_init ctx) FREQ_CH2 LONG_PREAMBLE (delay_ms EXCHANGE_RETRY_DELAY_MS r) l of
        (False, r, l) \<Rightarrow> retrigger_loop env n False ctx r l
      | (True, r, l) \<Rightarrow> do {
          (got, rx, r, l) \<leftarrow> wait_for_key_challenge env PAIRING_KEY_CHALLENGE_TIMEOUT_MS
             (dev_node_id (pc_device ctx)) (pc_rx ctx) r l;
          let ctx = ctx\<lparr>pc_rx := rx\<rparr> in
          if \<not> got then retrigger_loop env n False ctx r l
          else if cmd rx = CMD_KEY_CONFIRM then retrigger_loop env n True ctx r l
          else do {
            (key_ok, ctx, r, l) \<leftarrow> transfer_key_and_wait_confirm env ctx r l;
            retrigger_loop env n key_ok ctx r l
          }
        })"

definition run_key_exchange_phase ::
  "exchange_env \<Rightarrow> pairing_context \<Rightarrow> radio \<Rightarrow> engine_log \<Rightarrow> (bool \<times> pairing_context \<times> radio \<times> engine_log) option" where
  "run_key_exchange_phase env ctx r l =
     (let (ctx, l) = enter_stage PS_TX_KEY_INIT 1 False r ctx l;
          (built, key_init) = create_key_init (env_node_id env) (dev_node_id (pc_device ctx));
          ctx = ctx\<lparr>pc_key_init := key_init\<rparr>
      in if \<not> built then Some (False, ctx, r, l)
         else case transmit_frame env key_init FREQ_CH2 LONG_PREAMBLE r l of
           (False, r, l) \<Rightarrow> Some (False, ctx, r, l)
         | (True, r, l) \<Rightarrow>
             (let (ctx, l) = enter_stage PS_WAIT_KEY_CHALLENGE 1 True r ctx l in do {
                (got, rx, r, l) \<leftarrow> wait_for_key_challenge env PAIRING_KEY_CHALLENGE_TIMEOUT_MS
                   (dev_node_id (pc_device ctx)) (pc_rx ctx) r l;
                let ctx = ctx\<lparr>pc_rx := rx\<rparr> in
                if \<not> got then Some (False, ctx, r, l)
                else if cmd rx = CMD_KEY_CONFIRM then Some (True, ctx\<lparr>pc_resp := rx\<rparr>, r, l)
                else do {
                  (key_ok, ctx, r, l) \<leftarrow> transfer_key_and_wait_confirm env ctx r l;
                  if has_fast_tx_rx_turnaround (env_chip env) then Some (key_ok, ctx, r, l)
                  else retrigger_loop env 2 key_ok ctx r l
                }
              }))"

fun key_exchange_attempts ::
  "exchange_env \<Rightarrow> nat \<Rightarrow> nat \<Rightarrow> pairing_context \<Rightarrow> radio \<Rightarrow> engine_log \<Rightarrow>
   (bool \<times> pairing_context \<times> radio \<times> engine_log) option" where
  "key_exchange_attempts env 0 attempt ctx r l = Some (False, ctx, r, l)"
| "key_exchange_attempts env (Suc n) attempt ctx r l = do {
     (ok, ctx, r, l) \<leftarrow> run_key_exchange_phase env ctx (if attempt > 0 then delay_ms EXCHANGE_RETRY_DELAY_MS r else r) l;
     if ok then Some (True, ctx, r, l) else key_exchange_attempts env n (attempt + 1) ctx r l
   }"

definition finalize_pairing_configuration ::
  "exchange_env \<Rightarrow> pairing_context \<Rightarrow> radio \<Rightarrow> engine_log \<Rightarrow> (bool \<times> pairing_context \<times> radio \<times> engine_log) option" where
  "finalize_pairing_configuration env ctx r l =
     (let (built, req) = create_set_config1 (env_node_id env) (dev_node_id (pc_device ctx));
          ctx = ctx\<lparr>pc_req := req\<rparr>
      in if \<not> built then Some (False, ctx, r, l)
         else do {
           (outcome, resp, r, l) \<leftarrow> send_and_receive env req FREQ_CH2 (of_nat EXCHANGE_RETRY_COUNT) r l;
           let ctx = (case resp of Some f \<Rightarrow> ctx\<lparr>pc_resp := f\<rparr> | None \<Rightarrow> ctx) in
           Some (outcome \<noteq> EX_FAILED, ctx, r, l)
         })"

section \<open>The orchestrator\<close>

text \<open>The result of an attempt: success, the finished telemetry, the context and registry, the radio and the log
  with the telemetry detached. The printed YAML snippet is a function of the context.\<close>

definition finish_pairing_attempt ::
  "exchange_env \<Rightarrow> pairing_outcome \<Rightarrow> radio \<Rightarrow> engine_log \<Rightarrow> telemetry \<times> engine_log" where
  "finish_pairing_attempt env outcome r l =
     (let t = set_outcome (millis r) outcome (the (el_telemetry l))
      in (set_advice_codes (advice_codes_text (analyze_pairing_telemetry t (env_node_id env))) t,
          l\<lparr>el_telemetry := None\<rparr>))"

definition pairing_snippet :: "pairing_context \<Rightarrow> string" where
  "pairing_snippet ctx =
     build_device_yaml_snippet (dev_type (pc_device ctx)) (dev_subtype (pc_device ctx)) (pc_device_id ctx)
       (pc_metadata_complete ctx) (dev_inverted (pc_device ctx)) (pc_low_power ctx)"

definition discover_and_pair ::
  "exchange_env \<Rightarrow> (nat \<Rightarrow> nat \<Rightarrow> bytes) \<Rightarrow> registry \<Rightarrow> radio \<Rightarrow> engine_log \<Rightarrow>
   (bool \<times> telemetry \<times> pairing_context \<times> registry \<times> radio \<times> engine_log) option" where
  "discover_and_pair env nonce reg r l = do {
     (disp, ctx, r, l) \<leftarrow> run_discovery_phase env nonce new_pairing_context r (l\<lparr>el_telemetry := Some (tel_begin (millis r))\<rparr>);
     if disp \<noteq> PD_ACCEPT
     then (case finish_pairing_attempt env (if disp = PD_INVALID then PO_INVALID_RESPONSE else PO_NO_RESPONSE) r l of
             (t, l) \<Rightarrow> Some (False, t, ctx, reg, r, l))
     else do {
       (key_exchanged, ctx, r, l) \<leftarrow> key_exchange_attempts env (unat (pairing_key_exchange_retries (env_tuning env))) 0 ctx r l;
       if \<not> key_exchanged
       then (case finish_pairing_attempt env PO_KEY_EXCHANGE_FAILED r l of
               (t, l) \<Rightarrow> Some (False, t, ctx, reg, r, l))
       else do {
         (config_ok, ctx, r, l) \<leftarrow> finalize_pairing_configuration env ctx r l;
         let (ctx, l) = enter_stage PS_REGISTER_DEVICE 1 True r ctx l;
             reg = reg_put (pc_device_id ctx) (pc_device ctx) reg;
             l = tell (set_paired_device (dev_node_id (pc_device ctx)) (dev_type (pc_device ctx))) l;
             (ctx, l) = enter_stage PS_COMPLETE 1 True r ctx l;
             (t, l) = finish_pairing_attempt env (if config_ok then PO_PAIRED else PO_CONFIG_FAILED) r l
         in Some (True, t, ctx, reg, r, l)
       }
     }
   }"

section \<open>What pairing may send\<close>

text \<open>The device has sent this node a frame with the command \<open>k\<close>, and it was heard between the two radio states.\<close>

definition told :: "exchange_env \<Rightarrow> u8 \<Rightarrow> node_id \<Rightarrow> radio \<Rightarrow> radio \<Rightarrow> bool" where
  "told env k device r0 r \<longleftrightarrow> (\<exists>f. heard r0 r f \<and> cmd f = k \<and> src f = device \<and> dst f = env_node_id env)"

lemma told_before: "told env k device r0 r \<Longrightarrow> later r r' \<Longrightarrow> told env k device r0 r'"
  unfolding told_def using heard_before by blast

text \<open>
  Relative to the start of the attempt: discovery, key-init and configuration frames, a key transfer
  that wraps the system key under a challenge heard from its destination, which has answered the
  discovery before, and answers to challenges.
\<close>

definition pairing_frame :: "exchange_env \<Rightarrow> radio \<Rightarrow> radio \<Rightarrow> bytes \<times> u32 \<times> u16 \<Rightarrow> bool" where
  "pairing_frame env r0 r x \<longleftrightarrow> (\<exists>f p. x = (serialize f FRAME_MAX_WIRE_SIZE, FREQ_CH2, p) \<and>
     (cmd f \<in> {CMD_DISCOVER_REQ, CMD_DISCOVER_SPE_REQ, CMD_DISCOVER_ALT_REQ, CMD_KEY_INIT, CMD_SET_CONFIG1} \<or>
      cmd f = CMD_KEY_TRANSFER \<and> told env CMD_DISCOVER_RESP (dst f) r0 r \<and> (\<exists>ch. heard r0 r ch \<and> cmd ch = CMD_CHALLENGE_REQ \<and> src ch = dst f \<and>
         dst ch = env_node_id env \<and> payload f = crypt_key [CMD_KEY_INIT] (take HMAC_SIZE (data ch)) (env_system_key env)) \<or>
      cmd f = CMD_CHALLENGE_RESP \<and> (\<exists>ch req. heard r0 r ch \<and> cmd ch = CMD_CHALLENGE_REQ \<and> src ch = dst f \<and>
         payload f = create_hmac (cmd req # payload req) (take HMAC_SIZE (data ch)) (env_system_key env))))"

text \<open>The discovery responses \<open>ds\<close> have been heard, and all that went on air is allowed.\<close>

definition pairing_run :: "exchange_env \<Rightarrow> io_frame set \<Rightarrow> radio \<Rightarrow> radio \<Rightarrow> bool" where
  "pairing_run env ds r0 r \<longleftrightarrow> later r0 r \<and>
     (\<forall>f \<in> ds. heard r0 r f \<and> cmd f = CMD_DISCOVER_RESP \<and> dst f = env_node_id env) \<and>
     (\<exists>t. rad_sent r = rad_sent r0 @ t \<and> (\<forall>x \<in> set t. pairing_frame env r0 r x))"

lemma pairing_frame_before: "pairing_frame env r0 r x \<Longrightarrow> later r r' \<Longrightarrow> pairing_frame env r0 r' x"
  unfolding pairing_frame_def using heard_before told_before by blast

lemma pairing_run_start [simp]: "pairing_run env {} r r"
  by (simp add: pairing_run_def)

lemma pairing_run_found:
  "pairing_run env ds r0 r \<Longrightarrow> heard r0 r f \<Longrightarrow> cmd f = CMD_DISCOVER_RESP \<Longrightarrow> dst f = env_node_id env \<Longrightarrow>
   pairing_run env (insert f ds) r0 r"
  by (simp add: pairing_run_def)

lemma pairing_run_extend:
  assumes "pairing_run env ds r0 r" and "later r r'" and "rad_sent r' = rad_sent r @ u"
    and "\<forall>x \<in> set u. pairing_frame env r0 r' x"
  shows "pairing_run env ds r0 r'"
proof -
  obtain t where t: "rad_sent r = rad_sent r0 @ t" "\<forall>x \<in> set t. pairing_frame env r0 r x"
    using assms(1) by (auto simp: pairing_run_def)
  have "later r0 r'" using assms(1,2) later_trans by (auto simp: pairing_run_def)
  moreover have "rad_sent r' = rad_sent r0 @ (t @ u)" using t(1) assms(3) by simp
  moreover have "\<forall>x \<in> set (t @ u). pairing_frame env r0 r' x"
    using t(2) assms(2,4) pairing_frame_before by auto
  moreover have "\<forall>f \<in> ds. heard r0 r' f \<and> cmd f = CMD_DISCOVER_RESP \<and> dst f = env_node_id env"
    using assms(1,2) heard_before by (auto simp: pairing_run_def)
  ultimately show ?thesis unfolding pairing_run_def by blast
qed

lemma pairing_run_quiet:
  "pairing_run env ds r0 r \<Longrightarrow> later r r' \<Longrightarrow> rad_sent r' = rad_sent r \<Longrightarrow> pairing_run env ds r0 r'"
  by (rule pairing_run_extend [of env ds r0 r r' "[]"]) auto

lemma pairing_run_later: "pairing_run env ds r0 r \<Longrightarrow> later r0 r"
  by (simp add: pairing_run_def)

lemma delay_later [simp]: "later r (delay_ms n r)"
  by (rule later_same_air) (simp_all add: delay_ms_def)

lemma pairing_run_delay: "pairing_run env ds r0 r \<Longrightarrow> pairing_run env ds r0 (delay_ms n r)"
  by (erule pairing_run_quiet [OF _ delay_later]) (simp add: delay_ms_def)

lemma pairing_run_transmit:
  assumes "pairing_run env ds r0 r" and "transmit_frame env f FREQ_CH2 p r l = (ok, r', l')"
    and "pairing_frame env r0 r (serialize f FRAME_MAX_WIRE_SIZE, FREQ_CH2, p)"
  shows "pairing_run env ds r0 r'" and "later r r'"
proof -
  note sent = transmit_frame_sent [OF assms(2)]
  show lat: "later r r'" using sent by (simp add: later_same_air)
  show "pairing_run env ds r0 r'"
  proof (cases ok)
    case True
    then show ?thesis
      using pairing_run_extend [OF assms(1) lat, of "[(serialize f FRAME_MAX_WIRE_SIZE, FREQ_CH2, p)]"]
        sent pairing_frame_before [OF assms(3) lat] by auto
  next
    case False
    then show ?thesis using pairing_run_quiet [OF assms(1) lat] sent by simp
  qed
qed

text \<open>Frames built on \<open>addressed_2w\<close> whatever the lengths of the addresses.\<close>

lemma set_cmd_addressed:
  assumes "set_cmd (addressed_2w a b c own target) k ps = (ok, f)" and "length ps \<le> 23"
  shows "ok \<and> cmd f = k \<and> dst f = target \<and> src f = own \<and> payload f = ps"
proof -
  have d: "data (addressed_2w a b c own target) = replicate 23 0"
    by (simp add: addressed_2w_def set_dst_def set_src_def init_frame_arrays)
  have n: "unat (of_nat (length ps) :: u8) = length ps" using assms(2) by (simp add: unat_of_nat)
  show ?thesis
    using assms set_cmd_fits [of ps "addressed_2w a b c own target" k]
    by (auto simp: payload_def d n blit_def addr_2w)
qed

lemma length_create_hmac_le: "length (create_hmac bs challenge key) \<le> 6"
  by (simp add: create_hmac_def)

lemma challenge_answer_frame:
  assumes "create_challenge_resp target own ch request key = (True, f)"
  shows "cmd f = CMD_CHALLENGE_RESP \<and> dst f = target \<and> payload f = create_hmac (cmd request # payload request) ch key"
  using set_cmd_addressed [of False False True own target CMD_CHALLENGE_RESP "create_hmac (cmd request # payload request) ch key" True f]
    assms length_create_hmac_le [of "cmd request # payload request" ch key]
  by (simp add: create_challenge_resp_def create_challenge_resp_framed_def)

lemma answers_pairing_frame:
  assumes "answers env request FREQ_CH2 r r' x" and "later r0 r"
  shows "pairing_frame env r0 r' x"
proof -
  obtain ch f where a: "heard r r' ch" "cmd ch = CMD_CHALLENGE_REQ" "frame_matches_exchange_endpoints request ch"
      "create_challenge_resp (dst request) (env_node_id env) (take HMAC_SIZE (data ch)) request (env_system_key env) = (True, f)"
      "x = (serialize f FRAME_MAX_WIRE_SIZE, FREQ_CH2, env_response_preamble env)"
    using assms(1) unfolding answers_def by blast
  have "src ch = dst f" using challenge_answer_frame [OF a(4)] a(3)
    by (simp add: frame_matches_exchange_endpoints_def frame_matches_nodes_def)
  then show ?thesis
    unfolding pairing_frame_def
    using a challenge_answer_frame [OF a(4)] heard_later [OF assms(2) a(1)]
    by (intro exI [of _ f] exI [of _ "env_response_preamble env"]) auto
qed

lemma pairing_run_exchange:
  assumes "pairing_run env ds r0 r"
    and "\<And>p. pairing_frame env r0 r (serialize request FRAME_MAX_WIRE_SIZE, FREQ_CH2, p)"
  obtains outcome response r' l' where
    "send_and_receive env request FREQ_CH2 m r l = Some (outcome, response, r', l')" and "pairing_run env ds r0 r'" and "later r r'"
    and "outcome = SUCCESS_WITH_RESPONSE \<longrightarrow> (\<exists>rx. response = Some rx \<and> heard r0 r' rx \<and> frame_matches_exchange_endpoints request rx)"
proof -
  obtain outcome response r' l' where run: "send_and_receive env request FREQ_CH2 m r l = Some (outcome, response, r', l')"
    and con: "exchange_contract env request FREQ_CH2 (request_preamble_for env request) (tries_allowed m) False r outcome response r'"
    using send_and_receive_contract [of env request FREQ_CH2 m r l] by blast
  have lat: "later r r'" using con by (simp add: exchange_contract_def)
  obtain ts where ts: "rad_sent r' = rad_sent r @ concat ts"
      "\<forall>u \<in> set ts. try_sends env request FREQ_CH2 (request_preamble_for env request) r r' u"
    using con unfolding exchange_contract_def by blast
  have req: "pairing_frame env r0 r' (request_on_air request FREQ_CH2 p)" for p
    using pairing_frame_before [OF assms(2) lat] by (simp add: request_on_air_def)
  have "\<forall>x \<in> set u. pairing_frame env r0 r' x" if "u \<in> set ts" for u
  proof -
    have "try_sends env request FREQ_CH2 (request_preamble_for env request) r r' u" using ts(2) that by blast
    then show ?thesis
      using req answers_pairing_frame [OF _ pairing_run_later [OF assms(1)]] unfolding try_sends_def by auto
  qed
  then have "pairing_run env ds r0 r'" by (intro pairing_run_extend [OF assms(1) lat ts(1)]) auto
  moreover have "outcome = SUCCESS_WITH_RESPONSE \<longrightarrow>
      (\<exists>rx. response = Some rx \<and> heard r0 r' rx \<and> frame_matches_exchange_endpoints request rx)"
  proof -
    have "case response of None \<Rightarrow> outcome \<noteq> SUCCESS_WITH_RESPONSE
        | Some rx \<Rightarrow> outcome = SUCCESS_WITH_RESPONSE \<and> heard r r' rx \<and> frame_matches_exchange_endpoints request rx"
      using con unfolding exchange_contract_def by blast
    then show ?thesis using heard_later [OF pairing_run_later [OF assms(1)]] by (auto split: option.splits)
  qed
  ultimately show ?thesis using that run lat by blast
qed

section \<open>The waits of pairing\<close>

interpretation discovery_wait: listener "discovery_handler env" discovery_hop spec
  "\<lambda>frame r s. later r0 r"
  "\<lambda>out frame r s. later r0 r \<and> (out = LO_ACCEPTED \<longrightarrow> heard r0 r frame \<and>
      classify_pairing_discovery_response frame (env_node_id env) = PD_ACCEPT)"
  for env spec r0
proof (unfold_locales, goal_cases)
  case (1 frame r h t r1)
  then show ?case using wait_later later_trans by blast
next
  case (2 frame r h t packet r1 frame1 h1)
  then show ?case using wait_later later_trans by blast
next
  case (3 frame r h)
  then show ?case by (simp add: later_def)
next
  case (4 frame r h t packet r1 outcome frame1 h1)
  then have "later r0 r1" using wait_later later_trans by blast
  then show ?case
    using 4 heard_later [OF 4(1) wait_heard [OF 4(2)]]
    by (auto simp: dispatch_received_packet_def discovery_handler_def Let_def split: option.splits if_splits)
qed simp

interpretation key_challenge_wait: listener "key_challenge_handler env device" "\<lambda>r h. h" "holding_listen window"
  "\<lambda>frame r s. later r0 r"
  "\<lambda>out frame r s. later r0 r \<and> (out = LO_ACCEPTED \<longrightarrow> heard r0 r frame \<and> src frame = device \<and>
      dst frame = env_node_id env \<and> (cmd frame = CMD_KEY_CONFIRM \<or> cmd frame = CMD_CHALLENGE_REQ))"
  for env device window r0
proof (unfold_locales, goal_cases)
  case (1 frame r h t r1)
  then show ?case using wait_later later_trans by blast
next
  case (2 frame r h t packet r1 frame1 h1)
  then show ?case using wait_later later_trans by blast
next
  case (4 frame r h t packet r1 outcome frame1 h1)
  then have "later r0 r1" using wait_later later_trans by blast
  then show ?case
    using 4 heard_later [OF 4(1) wait_heard [OF 4(2)]]
    by (auto simp: dispatch_received_packet_def key_challenge_handler_def classify_pairing_key_challenge_def
        frame_matches_nodes_def Let_def split: option.splits if_splits)
qed (simp_all add: rotating_def holding_listen_def)

interpretation key_confirm_wait: listener "key_confirm_handler req" "\<lambda>r h. h" "holding_listen window"
  "\<lambda>frame r s. later r0 r"
  "\<lambda>out frame r s. later r0 r \<and> (out = LO_ACCEPTED \<longrightarrow> heard r0 r frame \<and>
      frame_matches_exchange_endpoints req frame \<and> frame_is_key_confirm frame)"
  for req window r0
proof (unfold_locales, goal_cases)
  case (1 frame r h t r1)
  then show ?case using wait_later later_trans by blast
next
  case (2 frame r h t packet r1 frame1 h1)
  then show ?case using wait_later later_trans by blast
next
  case (4 frame r h t packet r1 outcome frame1 h1)
  then have "later r0 r1" using wait_later later_trans by blast
  then show ?case
    using 4 heard_later [OF 4(1) wait_heard [OF 4(2)]]
    by (auto simp: dispatch_received_packet_def key_confirm_handler_def Let_def split: option.splits if_splits)
qed (simp_all add: rotating_def holding_listen_def)

lemma key_challenge_spec:
  assumes "pairing_run env ds r0 r"
  obtains got rx' r' l' where "wait_for_key_challenge env w device rx r l = Some (got, rx', r', l')"
    "pairing_run env ds r0 r'" "later r r'"
    "got \<longrightarrow> heard r0 r' rx' \<and> src rx' = device \<and> dst rx' = env_node_id env \<and>
       (cmd rx' = CMD_KEY_CONFIRM \<or> cmd rx' = CMD_CHALLENGE_REQ)"
proof -
  obtain outcome rx' r' l' where run: "listen env (holding_listen w) rx (key_challenge_handler env device) (\<lambda>r h. h) r l
      = Some (outcome, rx', r', l')" by (rule holding_listen_returns)
  note spec = key_challenge_wait.listen_rule [OF run later_refl]
  have "pairing_run env ds r0 r'"
    using pairing_run_quiet [OF assms] spec listen_transmits_nothing [OF run] by (simp add: same_transmissions_def)
  then show ?thesis
    using that [of "outcome = LO_ACCEPTED" rx' r' l'] spec run heard_later [OF pairing_run_later [OF assms]]
    by (simp add: wait_for_key_challenge_def)
qed

text \<open>What the key exchange leaves alone in the context.\<close>

definition same_device :: "pairing_context \<Rightarrow> pairing_context \<Rightarrow> bool" where
  "same_device c d \<longleftrightarrow> pc_device d = pc_device c \<and> pc_device_id d = pc_device_id c \<and>
     pc_metadata_complete d = pc_metadata_complete c \<and> pc_low_power d = pc_low_power c"

definition same_session :: "pairing_context \<Rightarrow> pairing_context \<Rightarrow> bool" where
  "same_session c d \<longleftrightarrow> same_device c d \<and> pc_key_init d = pc_key_init c"

lemma same_refl [simp]: "same_device c c" "same_session c c"
  by (simp_all add: same_device_def same_session_def)

lemma same_trans:
  "same_device c d \<Longrightarrow> same_device d e \<Longrightarrow> same_device c e"
  "same_session c d \<Longrightarrow> same_session d e \<Longrightarrow> same_session c e"
  by (simp_all add: same_device_def same_session_def)

lemma key_confirm_loop_spec:
  assumes "pairing_run env ds r0 r"
    and "\<And>p. pairing_frame env r0 r (serialize (pc_req ctx) FRAME_MAX_WIRE_SIZE, FREQ_CH2, p)"
    and "src (pc_req ctx) = env_node_id env"
  shows "\<exists>ok ctx' r' l'. key_confirm_loop env n tries ctx r l = Some (ok, ctx', r', l') \<and> pairing_run env ds r0 r' \<and>
    same_session ctx ctx' \<and> (ok \<longrightarrow> told env CMD_KEY_CONFIRM (dst (pc_req ctx)) r0 r')"
  using assms
proof (induction n arbitrary: tries ctx r l)
  case (Suc n)
  let ?r = "if tries > 0 then delay_ms EXCHANGE_RETRY_DELAY_MS r else r"
  have run0: "pairing_run env ds r0 ?r" using Suc.prems(1) pairing_run_delay by simp
  have frame0: "pairing_frame env r0 ?r (serialize (pc_req ctx) FRAME_MAX_WIRE_SIZE, FREQ_CH2, p)" for p
    using pairing_frame_before [OF Suc.prems(2)] by simp
  obtain ok r1 l1 where tx: "transmit_frame env (pc_req ctx) FREQ_CH2 (env_response_preamble env) ?r l = (ok, r1, l1)"
    by (metis surj_pair)
  note t = pairing_run_transmit [OF run0 tx frame0]
  have frame1: "pairing_frame env r0 r1 (serialize (pc_req ctx) FRAME_MAX_WIRE_SIZE, FREQ_CH2, p)" for p
    using pairing_frame_before [OF frame0 t(2)] .
  show ?case
  proof (cases ok)
    case False
    then show ?thesis
      using tx Suc.IH [OF t(1) frame1 Suc.prems(3), of "tries + 1" l1] by (simp add: Let_def)
  next
    case True
    obtain outcome resp r2 l2 where wait: "listen env (holding_listen PAIRING_KEY_CONFIRM_TIMEOUT_MS) (pc_resp ctx)
        (key_confirm_handler (pc_req ctx)) (\<lambda>r h. h) r1 l1 = Some (outcome, resp, r2, l2)"
      by (rule holding_listen_returns)
    note spec = key_confirm_wait.listen_rule [OF wait later_refl]
    have run2: "pairing_run env ds r0 r2"
      using pairing_run_quiet [OF t(1)] spec listen_transmits_nothing [OF wait] by (simp add: same_transmissions_def)
    have frame2: "pairing_frame env r0 r2 (serialize (pc_req (ctx\<lparr>pc_resp := resp\<rparr>)) FRAME_MAX_WIRE_SIZE, FREQ_CH2, p)" for p
      using pairing_frame_before [OF frame1] spec by simp
    have same: "same_session ctx (ctx\<lparr>pc_resp := resp\<rparr>)" by (simp add: same_session_def same_device_def)
    show ?thesis
    proof (cases outcome)
      case LO_ACCEPTED
      then have "heard r0 r2 resp" "frame_matches_exchange_endpoints (pc_req ctx) resp" "cmd resp = CMD_KEY_CONFIRM"
        using spec heard_later [OF pairing_run_later [OF t(1)]] by (auto simp: frame_is_key_confirm_def)
      then have "told env CMD_KEY_CONFIRM (dst (pc_req ctx)) r0 r2"
        using Suc.prems(3) unfolding told_def
        by (intro exI [of _ resp]) (simp add: frame_matches_exchange_endpoints_def frame_matches_nodes_def)
      then show ?thesis using tx True wait LO_ACCEPTED run2 same by (auto simp: Let_def)
    next
      case LO_ABORTED
      then show ?thesis using tx True wait run2 same by (auto simp: Let_def)
    next
      case LO_TIMED_OUT
      obtain ok' ctx' r' l' where "key_confirm_loop env n (tries + 1) (ctx\<lparr>pc_resp := resp\<rparr>) r2 l2 = Some (ok', ctx', r', l')"
        "pairing_run env ds r0 r'" "same_session (ctx\<lparr>pc_resp := resp\<rparr>) ctx'" "ok' \<longrightarrow> told env CMD_KEY_CONFIRM (dst (pc_req ctx)) r0 r'"
        using Suc.IH [OF run2 frame2, of "tries + 1" l2] Suc.prems(3) by auto
      then show ?thesis using tx True wait LO_TIMED_OUT same_trans(2) [OF same] by (simp add: Let_def)
    qed
  qed
qed auto

lemma enter_stage_same:
  "enter_stage st n saw r ctx l = (ctx', l') \<Longrightarrow> same_session ctx ctx' \<and> pc_rx ctx' = pc_rx ctx \<and> pc_req ctx' = pc_req ctx"
  by (auto simp: enter_stage_def same_session_def same_device_def)

section \<open>The key exchange\<close>

lemma transfer_key_spec:
  assumes run: "pairing_run env ds r0 r" and heard: "heard r0 r (pc_rx ctx)"
    and ch: "cmd (pc_rx ctx) = CMD_CHALLENGE_REQ" "src (pc_rx ctx) = dev_node_id (pc_device ctx)" "dst (pc_rx ctx) = env_node_id env"
    and init: "cmd (pc_key_init ctx) = CMD_KEY_INIT" and key: "length (env_system_key env) = AES_KEY_SIZE"
    and dev_found: "dev_node_id (pc_device ctx) \<in> src ` ds"
  shows "\<exists>ok ctx' r' l'. transfer_key_and_wait_confirm env ctx r l = Some (ok, ctx', r', l') \<and> pairing_run env ds r0 r' \<and>
    same_session ctx ctx' \<and> (ok \<longrightarrow> told env CMD_KEY_CONFIRM (dev_node_id (pc_device ctx)) r0 r')"
proof -
  obtain ctx1 l1 where e1: "enter_stage PS_TX_KEY_TRANSFER 1 True r ctx l = (ctx1, l1)" by fastforce
  note s1 = enter_stage_same [OF e1]
  obtain built req where c: "create_key_transfer (pc_key_init ctx) (dev_node_id (pc_device ctx)) (env_node_id env)
      (env_system_key env) (take 6 (data (pc_rx ctx))) = (built, req)" by fastforce
  have "length (crypt_key [cmd (pc_key_init ctx)] (take 6 (data (pc_rx ctx))) (env_system_key env)) \<le> 23"
    using key by (simp add: crypt_key_def xor_with_encrypted_iv_def)
  then have req: "built \<and> cmd req = CMD_KEY_TRANSFER \<and> dst req = dev_node_id (pc_device ctx) \<and> src req = env_node_id env \<and>
      payload req = crypt_key [CMD_KEY_INIT] (take 6 (data (pc_rx ctx))) (env_system_key env)"
    using set_cmd_addressed c init unfolding create_key_transfer_def by metis
  have found: "told env CMD_DISCOVER_RESP (dev_node_id (pc_device ctx)) r0 r"
    using run dev_found by (auto simp: pairing_run_def told_def)
  have frame: "pairing_frame env r0 r (serialize req FRAME_MAX_WIRE_SIZE, FREQ_CH2, p)" for p
    unfolding pairing_frame_def using heard ch req found by (intro exI [of _ req] exI [of _ p]) auto
  let ?ctx = "ctx1\<lparr>pc_req := req\<rparr>"
  obtain ctx2 l2 where e2: "enter_stage PS_WAIT_KEY_CONFIRM 1 True r ?ctx l1 = (ctx2, l2)" by fastforce
  note s2 = enter_stage_same [OF e2]
  have same: "same_session ctx ctx2" using s1 s2 by (auto simp: same_session_def same_device_def)
  have req2: "pc_req ctx2 = req" using s2 by simp
  have dev: "pc_rx ctx1 = pc_rx ctx" "pc_device ctx1 = pc_device ctx" "pc_key_init ctx1 = pc_key_init ctx"
    using s1 by (auto simp: same_session_def same_device_def)
  show ?thesis
  proof (cases "has_fast_tx_rx_turnaround (env_chip env)")
    case True
    obtain outcome response r' l' where ex: "send_and_receive env req FREQ_CH2 3 r l2 = Some (outcome, response, r', l')"
      and run': "pairing_run env ds r0 r'"
      and resp: "outcome = SUCCESS_WITH_RESPONSE \<longrightarrow>
        (\<exists>rx. response = Some rx \<and> heard r0 r' rx \<and> frame_matches_exchange_endpoints req rx)"
      by (rule pairing_run_exchange [OF run frame, of 3 l2])
    let ?ctx3 = "case response of Some f \<Rightarrow> ctx2\<lparr>pc_resp := f\<rparr> | None \<Rightarrow> ctx2"
    have "same_session ctx ?ctx3" using same by (auto simp: same_session_def same_device_def split: option.split)
    moreover have "told env CMD_KEY_CONFIRM (dev_node_id (pc_device ctx)) r0 r'"
      if "outcome = SUCCESS_WITH_RESPONSE \<and> frame_is_key_confirm (pc_resp ?ctx3)"
      using that resp req unfolding told_def
      by (auto simp: frame_is_key_confirm_def frame_matches_exchange_endpoints_def frame_matches_nodes_def)
    ultimately show ?thesis
      using e1 c req e2 True ex run' req2 dev by (simp add: transfer_key_and_wait_confirm_def Let_def)
  next
    case False
    have "pairing_frame env r0 r (serialize (pc_req ctx2) FRAME_MAX_WIRE_SIZE, FREQ_CH2, p)" for p
      using frame req2 by simp
    from key_confirm_loop_spec [OF run this, of 3 0 l2]
    obtain ok ctx' r' l' where loop: "key_confirm_loop env 3 0 ctx2 r l2 = Some (ok, ctx', r', l')"
      and "pairing_run env ds r0 r'" "same_session ctx2 ctx'" "ok \<longrightarrow> told env CMD_KEY_CONFIRM (dst req) r0 r'"
      using req req2 by auto
    then show ?thesis
      using e1 c req e2 False dev same_trans(2) [OF same]
      by (simp add: transfer_key_and_wait_confirm_def wait_for_key_confirm_def Let_def)
  qed
qed


lemma key_init_frame:
  "cmd f = CMD_KEY_INIT \<Longrightarrow> pairing_frame env r0 r (serialize f FRAME_MAX_WIRE_SIZE, FREQ_CH2, p)"
  unfolding pairing_frame_def by blast

lemma retrigger_loop_spec:
  assumes "pairing_run env ds r0 r" and "cmd (pc_key_init ctx) = CMD_KEY_INIT"
    and "length (env_system_key env) = AES_KEY_SIZE"
    and "dev_node_id (pc_device ctx) \<in> src ` ds"
    and "key_ok \<longrightarrow> told env CMD_KEY_CONFIRM (dev_node_id (pc_device ctx)) r0 r"
  shows "\<exists>ok ctx' r' l'. retrigger_loop env n key_ok ctx r l = Some (ok, ctx', r', l') \<and> pairing_run env ds r0 r' \<and>
    same_session ctx ctx' \<and> (ok \<longrightarrow> told env CMD_KEY_CONFIRM (dev_node_id (pc_device ctx)) r0 r')"
  using assms
proof (induction n arbitrary: key_ok ctx r l)
  case 0
  then show ?case by auto
next
  case (Suc n)
  let ?dev = "dev_node_id (pc_device ctx)"
  show ?case
  proof (cases key_ok)
    case True
    then show ?thesis using Suc.prems by auto
  next
    case key_missing: False
    have run0: "pairing_run env ds r0 (delay_ms EXCHANGE_RETRY_DELAY_MS r)" using Suc.prems(1) pairing_run_delay by blast
    obtain sent r1 l1 where tx: "transmit_frame env (pc_key_init ctx) FREQ_CH2 LONG_PREAMBLE
        (delay_ms EXCHANGE_RETRY_DELAY_MS r) l = (sent, r1, l1)"
      by (metis surj_pair)
    note run1 = pairing_run_transmit(1) [OF run0 tx key_init_frame [OF Suc.prems(2)]]
    obtain got rx r2 l2 where wait: "wait_for_key_challenge env PAIRING_KEY_CHALLENGE_TIMEOUT_MS ?dev (pc_rx ctx) r1 l1
        = Some (got, rx, r2, l2)"
      and run2: "pairing_run env ds r0 r2"
      and got: "got \<longrightarrow> heard r0 r2 rx \<and> src rx = ?dev \<and> dst rx = env_node_id env \<and>
         (cmd rx = CMD_KEY_CONFIRM \<or> cmd rx = CMD_CHALLENGE_REQ)"
      by (rule key_challenge_spec [OF run1])
    let ?ctx = "ctx\<lparr>pc_rx := rx\<rparr>"
    have same: "same_session ctx ?ctx" by (simp add: same_session_def same_device_def)
    consider (unsent) "\<not> sent" | (silent) "sent" "\<not> got" | (confirm) "sent" "got" "cmd rx = CMD_KEY_CONFIRM"
      | (challenge) "sent" "got" "cmd rx \<noteq> CMD_KEY_CONFIRM" by blast
    then show ?thesis
    proof cases
      case unsent
      then show ?thesis
        using tx key_missing Suc.IH [OF run1 Suc.prems(2,3,4), of False l1] by simp
    next
      case silent
      have "\<exists>ok ctx' r' l'. retrigger_loop env n False ?ctx r2 l2 = Some (ok, ctx', r', l') \<and> pairing_run env ds r0 r' \<and>
          same_session ?ctx ctx' \<and> (ok \<longrightarrow> told env CMD_KEY_CONFIRM ?dev r0 r')"
        using Suc.IH [OF run2, of ?ctx False l2] Suc.prems by simp
      then show ?thesis using tx key_missing wait silent same_trans(2) [OF same] by (auto simp: Let_def)
    next
      case confirm
      then have "told env CMD_KEY_CONFIRM ?dev r0 r2" using got unfolding told_def by blast
      then have "\<exists>ok ctx' r' l'. retrigger_loop env n True ?ctx r2 l2 = Some (ok, ctx', r', l') \<and> pairing_run env ds r0 r' \<and>
          same_session ?ctx ctx' \<and> (ok \<longrightarrow> told env CMD_KEY_CONFIRM ?dev r0 r')"
        using Suc.IH [OF run2, of ?ctx True l2] Suc.prems by simp
      then show ?thesis using tx key_missing wait confirm same_trans(2) [OF same] by (auto simp: Let_def)
    next
      case challenge
      then have ch: "heard r0 r2 (pc_rx ?ctx)" "cmd (pc_rx ?ctx) = CMD_CHALLENGE_REQ"
          "src (pc_rx ?ctx) = dev_node_id (pc_device ?ctx)" "dst (pc_rx ?ctx) = env_node_id env"
        using got by auto
      obtain ok3 ctx3 r3 l3 where transfer: "transfer_key_and_wait_confirm env ?ctx r2 l2 = Some (ok3, ctx3, r3, l3)"
        and run3: "pairing_run env ds r0 r3" and same3: "same_session ?ctx ctx3"
        and ok3: "ok3 \<longrightarrow> told env CMD_KEY_CONFIRM ?dev r0 r3"
        using transfer_key_spec [OF run2 ch _ Suc.prems(3), of l2] Suc.prems(2,4) by auto
      have same': "same_session ctx ctx3" using same_trans(2) [OF same same3] .
      then have "dev_node_id (pc_device ctx3) = ?dev" "pc_key_init ctx3 = pc_key_init ctx"
        by (simp_all add: same_session_def same_device_def)
      then have "\<exists>ok ctx' r' l'. retrigger_loop env n ok3 ctx3 r3 l3 = Some (ok, ctx', r', l') \<and> pairing_run env ds r0 r' \<and>
          same_session ctx3 ctx' \<and> (ok \<longrightarrow> told env CMD_KEY_CONFIRM ?dev r0 r')"
        using Suc.IH [OF run3, of ctx3 ok3 l3] Suc.prems(2,3,4) ok3 by simp
      then show ?thesis
        using tx key_missing wait challenge transfer same_trans(2) [OF same'] by (auto simp: Let_def)
    qed
  qed
qed

lemma key_exchange_phase_spec:
  assumes "pairing_run env ds r0 r" and "length (env_system_key env) = AES_KEY_SIZE" and "dev_node_id (pc_device ctx) \<in> src ` ds"
  shows "\<exists>ok ctx' r' l'. run_key_exchange_phase env ctx r l = Some (ok, ctx', r', l') \<and> pairing_run env ds r0 r' \<and>
    same_device ctx ctx' \<and> (ok \<longrightarrow> told env CMD_KEY_CONFIRM (dev_node_id (pc_device ctx)) r0 r')"
proof -
  let ?dev = "dev_node_id (pc_device ctx)"
  obtain ctx1 l1 where e1: "enter_stage PS_TX_KEY_INIT 1 False r ctx l = (ctx1, l1)" by fastforce
  note s1 = enter_stage_same [OF e1]
  obtain built ki where c: "create_key_init (env_node_id env) ?dev = (built, ki)" by fastforce
  have ki: "built \<and> cmd ki = CMD_KEY_INIT"
    using set_cmd_addressed c unfolding create_key_init_def by (metis list.size(3) le0)
  let ?ctx1 = "ctx1\<lparr>pc_key_init := ki\<rparr>"
  obtain sent r2 l2 where tx: "transmit_frame env ki FREQ_CH2 LONG_PREAMBLE r l1 = (sent, r2, l2)"
    by (metis surj_pair)
  have run2: "pairing_run env ds r0 r2" using pairing_run_transmit(1) [OF assms(1) tx key_init_frame] ki by blast
  obtain ctx2 l3 where e2: "enter_stage PS_WAIT_KEY_CHALLENGE 1 True r2 ?ctx1 l2 = (ctx2, l3)" by fastforce
  note s2 = enter_stage_same [OF e2]
  have dev: "pc_device ctx1 = pc_device ctx" "pc_device ctx2 = pc_device ctx" "pc_key_init ctx2 = ki"
    and same1: "same_device ctx ?ctx1" and same2: "same_device ctx ctx2"
    using s1 s2 by (auto simp: same_session_def same_device_def)
  obtain got rx r3 l4 where wait: "wait_for_key_challenge env PAIRING_KEY_CHALLENGE_TIMEOUT_MS ?dev (pc_rx ctx2) r2 l3
      = Some (got, rx, r3, l4)"
    and run3: "pairing_run env ds r0 r3"
    and got: "got \<longrightarrow> heard r0 r3 rx \<and> src rx = ?dev \<and> dst rx = env_node_id env \<and>
       (cmd rx = CMD_KEY_CONFIRM \<or> cmd rx = CMD_CHALLENGE_REQ)"
    by (rule key_challenge_spec [OF run2])
  let ?ctx3 = "ctx2\<lparr>pc_rx := rx\<rparr>"
  have same3: "same_device ctx ?ctx3" using same2 by (simp add: same_device_def)
  consider (unsent) "\<not> sent" | (silent) "sent" "\<not> got" | (confirm) "sent" "got" "cmd rx = CMD_KEY_CONFIRM"
    | (challenge) "sent" "got" "cmd rx \<noteq> CMD_KEY_CONFIRM" by blast
  then show ?thesis
  proof cases
    case unsent
    then show ?thesis using e1 c ki tx run2 same1 dev by (auto simp: run_key_exchange_phase_def Let_def)
  next
    case silent
    then show ?thesis using e1 c ki tx e2 wait run3 same3 dev by (auto simp: run_key_exchange_phase_def Let_def)
  next
    case confirm
    then have "told env CMD_KEY_CONFIRM ?dev r0 r3" using got unfolding told_def by blast
    moreover have "same_device ctx (?ctx3\<lparr>pc_resp := rx\<rparr>)" using same2 by (simp add: same_device_def)
    ultimately show ?thesis
      using confirm e1 c ki tx e2 wait run3 dev by (auto simp: run_key_exchange_phase_def Let_def)
  next
    case challenge
    then have ch: "heard r0 r3 (pc_rx ?ctx3)" "cmd (pc_rx ?ctx3) = CMD_CHALLENGE_REQ"
        "src (pc_rx ?ctx3) = dev_node_id (pc_device ?ctx3)" "dst (pc_rx ?ctx3) = env_node_id env"
      using got dev by auto
    obtain ok4 ctx4 r4 l5 where transfer: "transfer_key_and_wait_confirm env ?ctx3 r3 l4 = Some (ok4, ctx4, r4, l5)"
      and run4: "pairing_run env ds r0 r4" and same4: "same_session ?ctx3 ctx4" and ok4: "ok4 \<longrightarrow> told env CMD_KEY_CONFIRM ?dev r0 r4"
      using transfer_key_spec [OF run3 ch _ assms(2), of l4] ki dev assms(3) by auto
    have "same_device ?ctx3 ctx4" using same4 by (simp add: same_session_def)
    then have same: "same_device ctx ctx4" using same_trans(1) [OF same3] by blast
    have s4: "pc_key_init ctx4 = ki" "dev_node_id (pc_device ctx4) = ?dev"
      using same4 same dev by (simp_all add: same_session_def same_device_def)
    obtain ok5 ctx5 r5 l6 where again: "retrigger_loop env 2 ok4 ctx4 r4 l5 = Some (ok5, ctx5, r5, l6)"
      and run5: "pairing_run env ds r0 r5" and same5: "same_session ctx4 ctx5" and ok5: "ok5 \<longrightarrow> told env CMD_KEY_CONFIRM ?dev r0 r5"
      using retrigger_loop_spec [OF run4 _ assms(2), of ctx4 ok4 2 l5] s4 ki ok4 assms(3) by auto
    have "same_device ctx4 ctx5" using same5 by (simp add: same_session_def)
    then have same': "same_device ctx ctx5" using same_trans(1) [OF same] by blast
    show ?thesis
      using challenge e1 c ki tx e2 wait transfer again run4 run5 same same' ok4 ok5 dev
      by (cases "has_fast_tx_rx_turnaround (env_chip env)") (auto simp: run_key_exchange_phase_def Let_def)
  qed
qed

lemma key_exchange_attempts_spec:
  assumes "pairing_run env ds r0 r" and "length (env_system_key env) = AES_KEY_SIZE" and "dev_node_id (pc_device ctx) \<in> src ` ds"
  shows "\<exists>ok ctx' r' l'. key_exchange_attempts env n a ctx r l = Some (ok, ctx', r', l') \<and> pairing_run env ds r0 r' \<and>
    same_device ctx ctx' \<and> (ok \<longrightarrow> told env CMD_KEY_CONFIRM (dev_node_id (pc_device ctx)) r0 r')"
  using assms
proof (induction n arbitrary: a ctx r l)
  case (Suc n)
  let ?r = "if a > 0 then delay_ms EXCHANGE_RETRY_DELAY_MS r else r"
  have run0: "pairing_run env ds r0 ?r" using Suc.prems(1) pairing_run_delay by simp
  obtain ok1 ctx1 r1 l1 where phase: "run_key_exchange_phase env ctx ?r l = Some (ok1, ctx1, r1, l1)"
    and run1: "pairing_run env ds r0 r1" and same1: "same_device ctx ctx1"
    and ok1: "ok1 \<longrightarrow> told env CMD_KEY_CONFIRM (dev_node_id (pc_device ctx)) r0 r1"
    using key_exchange_phase_spec [OF run0 Suc.prems(2,3)] by blast
  show ?case
  proof (cases ok1)
    case True
    then show ?thesis using phase run1 same1 ok1 by auto
  next
    case False
    have "dev_node_id (pc_device ctx1) = dev_node_id (pc_device ctx)" using same1 by (simp add: same_device_def)
    then show ?thesis
      using phase False Suc.IH [OF run1 Suc.prems(2), of ctx1 "a + 1" l1] Suc.prems(3) same_trans(1) [OF same1] by auto
  qed
qed auto

section \<open>Discovery and configuration\<close>

lemma set_cmd_command: "set_cmd f k ps = (True, f') \<Longrightarrow> cmd f' = k"
  by (auto simp: set_cmd_def Let_def split: if_splits)

lemma discovery_request_frame:
  assumes "create_discovery_request own k target lp pe pb key nonce = (True, f)"
  shows "pairing_frame env r0 r (serialize f FRAME_MAX_WIRE_SIZE, FREQ_CH2, p)"
proof -
  have "cmd f \<in> {CMD_DISCOVER_REQ, CMD_DISCOVER_SPE_REQ, CMD_DISCOVER_ALT_REQ}"
    using assms set_cmd_command by (auto simp: create_discovery_request_def Let_def split: if_splits option.splits)
  then show ?thesis unfolding pairing_frame_def by blast
qed

lemma wait_for_discovery_spec:
  assumes "wait_for_discovery_response env w rx r l = Some (disp, rx', r', l')"
  shows "later r r'" "rad_sent r' = rad_sent r"
    "disp = PD_ACCEPT \<longrightarrow> heard r r' rx' \<and> cmd rx' = CMD_DISCOVER_RESP \<and> dst rx' = env_node_id env"
proof -
  obtain outcome r1 saw l1 where run: "listen env (discovery_listen w) rx (discovery_handler env) discovery_hop r (False, l)
      = Some (outcome, rx', r', saw, l')"
    and disp: "disp = (if outcome = LO_ACCEPTED then PD_ACCEPT else if saw then PD_INVALID else PD_NO_RESPONSE)"
    using assms by (auto simp: wait_for_discovery_response_def bind_eq_Some_conv)
  note spec = discovery_wait.listen_rule [OF run later_refl]
  show "later r r'" using spec by simp
  show "rad_sent r' = rad_sent r" using listen_transmits_nothing [OF run] by (simp add: same_transmissions_def)
  show "disp = PD_ACCEPT \<longrightarrow> heard r r' rx' \<and> cmd rx' = CMD_DISCOVER_RESP \<and> dst rx' = env_node_id env"
    using spec disp by (auto simp: classify_pairing_discovery_response_def split: if_splits)
qed

lemma wait_for_discovery_returns:
  assumes "hop_dwell_ms (env_chip env) (env_tuning env) \<noteq> 0"
  obtains disp rx' r' l' where "wait_for_discovery_response env w rx r l = Some (disp, rx', r', l')"
proof -
  have "resolve_dwell_ms (discovery_listen w) env \<noteq> 0"
    using dwell_positive [OF assms] by (simp add: resolve_dwell_ms_def discovery_listen_def rotating_def holding_listen_def)
  then obtain res where "listen env (discovery_listen w) rx (discovery_handler env) discovery_hop r (False, l) = Some res"
    using listen_returns [of "discovery_listen w" env rx "discovery_handler env" discovery_hop r "(False, l)"] by auto
  then show ?thesis using that by (cases res) (auto simp: wait_for_discovery_response_def)
qed

text \<open>The context holds the device that a discovery response describes.\<close>

definition describes :: "exchange_env \<Rightarrow> radio \<Rightarrow> radio \<Rightarrow> io_device \<Rightarrow> pairing_context \<Rightarrow> bool" where
  "describes env r0 r start ctx \<longleftrightarrow> (\<exists>f. heard r0 r f \<and> cmd f = CMD_DISCOVER_RESP \<and> dst f = env_node_id env \<and>
     (pc_device ctx, pc_device_id ctx) = snd (parse_device_from_discovery f start))"

lemma parsed_device:
  "snd (parse_device_from_discovery f d) = (device, device_id) \<Longrightarrow>
     dev_node_id device = src f \<and> device_id = node_id_to_string (src f)"
  by (auto simp: parse_device_from_discovery_def decode_discovery_response_def Let_def)

lemma discovery_attempts_spec:
  assumes "pairing_run env ds r0 r" and "discovery_attempts env nonce k n a saw ctx r l = Some (res, ctx', r', l')"
  shows "pairing_run env ds r0 r' \<and>
    (case res of Inl disp \<Rightarrow> disp = PD_ACCEPT \<longrightarrow> describes env r0 r' (pc_device ctx) ctx'
               | Inr saw' \<Rightarrow> same_device ctx ctx')"
  using assms
proof (induction n arbitrary: a saw ctx r l)
  case (Suc n)
  let ?t = "env_tuning env"
  let ?dest = "resolve_discovery_destination k (pairing_discovery_destination_auto ?t) (pairing_discovery_destination ?t)"
  obtain ctx1 l1 where e1: "enter_stage PS_TX_DISCOVER a False r ctx (tell increment_discovery_attempt l) = (ctx1, l1)"
    by fastforce
  obtain built req where c: "create_discovery_request (env_node_id env) k ?dest (pairing_discovery_low_power ?t)
      (pairing_discovery_payload_enabled ?t) (pairing_discovery_payload ?t) (Some (env_system_key env)) (nonce a) = (built, req)"
    by fastforce
  let ?ctx1 = "ctx1\<lparr>pc_req := req\<rparr>"
  have run: "discovery_attempts env nonce k (Suc n) a saw ctx r l = Some (res, ctx', r', l')" by (rule Suc.prems(2))
  show ?case
  proof (cases built)
    case False
    then show ?thesis using run e1 c Suc.prems(1) by (auto simp: Let_def)
  next
    case built: True
    then have built_eq: "built = True" by simp
    obtain sent r2 l2 where tx: "transmit_frame env req FREQ_CH2 LONG_PREAMBLE r l1 = (sent, r2, l2)" by (metis surj_pair)
    note run2 = pairing_run_transmit(1) [OF Suc.prems(1) tx discovery_request_frame [OF c [unfolded built_eq]]]
    show ?thesis
    proof (cases sent)
      case False
      then show ?thesis using run e1 c built tx run2 by (auto simp: Let_def)
    next
      case sent: True
      obtain ctx2 l3 where e2: "enter_stage PS_WAIT_DISCOVER_RESPONSE a False r2 ?ctx1 l2 = (ctx2, l3)" by fastforce
      have dev: "pc_device ctx2 = pc_device ctx" and same: "same_device ctx ctx2"
        using enter_stage_same [OF e1] enter_stage_same [OF e2] by (auto simp: same_session_def same_device_def)
      obtain disp rx r3 l4 where wait: "wait_for_discovery_response env (ucast (pairing_discovery_wait_ms ?t)) (pc_rx ctx2) r2 l3
          = Some (disp, rx, r3, l4)"
        using run e1 c built tx sent e2 by (auto simp: Let_def bind_eq_Some_conv)
      note w = wait_for_discovery_spec [OF wait]
      have run3: "pairing_run env ds r0 r3" by (rule pairing_run_quiet [OF run2 w(1,2)])
      show ?thesis
      proof (cases "disp = PD_ACCEPT")
        case True
        obtain info device device_id where p: "parse_device_from_discovery rx (pc_device ctx) = (info, device, device_id)"
          by (metis surj_pair)
        have "heard r0 r3 rx" using True w(3) heard_later [OF pairing_run_later [OF run2]] by blast
        then have "describes env r0 r3 (pc_device ctx) (ctx2\<lparr>pc_device := device, pc_device_id := device_id\<rparr>)"
          unfolding describes_def using True p w(3) by (intro exI [of _ rx]) simp
        moreover have "res = Inl PD_ACCEPT \<and> pc_device ctx' = device \<and> pc_device_id ctx' = device_id \<and> r' = r3"
          using run e1 c built tx sent e2 wait True p dev by (auto simp: Let_def)
        ultimately show ?thesis using run3 by (simp add: describes_def)
      next
        case False
        let ?ctx3 = "ctx2\<lparr>pc_rx := rx\<rparr>"
        have "discovery_attempts env nonce k n (a + 1) (saw \<or> disp = PD_INVALID) ?ctx3 r3 l4 = Some (res, ctx', r', l')"
          using run e1 c built tx sent e2 wait False by (simp add: Let_def)
        note ih = Suc.IH [OF run3 this]
        have "same_device ctx ?ctx3" using same by (simp add: same_device_def)
        then show ?thesis using ih dev same_trans(1) [of ctx ?ctx3] by (auto split: sum.splits)
      qed
    qed
  qed
qed auto

lemma discovery_commands_spec:
  assumes "pairing_run env ds r0 r" and "discovery_commands env nonce i ks saw ctx r l = Some (disp, ctx', r', l')"
  shows "pairing_run env ds r0 r' \<and> (disp = PD_ACCEPT \<longrightarrow> describes env r0 r' (pc_device ctx) ctx')"
  using assms
proof (induction ks arbitrary: i saw ctx r l)
  case (Cons k ks)
  obtain res ctx1 r1 l1 where a: "discovery_attempts env (nonce i) (discovery_command_byte k) PAIRING_DISCOVERY_MAX_ATTEMPTS 1
      saw ctx r l = Some (res, ctx1, r1, l1)"
    using Cons.prems(2) by (auto simp: bind_eq_Some_conv)
  note spec = discovery_attempts_spec [OF Cons.prems(1) a]
  show ?case
  proof (cases res)
    case (Inl d)
    then show ?thesis using spec a Cons.prems(2) by auto
  next
    case (Inr s)
    then have "discovery_commands env nonce (i + 1) ks s ctx1 r1 l1 = Some (disp, ctx', r', l')"
      using a Cons.prems(2) by simp
    then show ?thesis using Cons.IH [of r1 "i + 1" s ctx1 l1] spec Inr by (simp add: same_device_def)
  qed
qed (auto split: if_splits)

lemma discovery_attempts_returns:
  assumes "hop_dwell_ms (env_chip env) (env_tuning env) \<noteq> 0"
  shows "discovery_attempts env nonce k n a saw ctx r l \<noteq> None"
proof (induction n arbitrary: a saw ctx r l)
  case (Suc n)
  have w: "wait_for_discovery_response env w rx r l \<noteq> None" for w rx r l
    by (metis wait_for_discovery_returns [OF assms] option.distinct(1))
  show ?case
    by (simp add: Let_def bind_eq_None_conv w Suc.IH split: prod.split bool.split del: not_None_eq)
qed simp

lemma discovery_commands_returns:
  assumes "hop_dwell_ms (env_chip env) (env_tuning env) \<noteq> 0"
  shows "discovery_commands env nonce i ks saw ctx r l \<noteq> None"
  by (induction ks arbitrary: i saw ctx r l)
     (simp_all add: bind_eq_None_conv discovery_attempts_returns [OF assms] split: prod.split sum.split del: not_None_eq)

lemma finalize_spec:
  assumes "pairing_run env ds r0 r"
  shows "\<exists>ok ctx' r' l'. finalize_pairing_configuration env ctx r l = Some (ok, ctx', r', l') \<and> pairing_run env ds r0 r' \<and>
    same_device ctx ctx' \<and> later r r'"
proof -
  obtain built req where c: "create_set_config1 (env_node_id env) (dev_node_id (pc_device ctx)) = (built, req)" by fastforce
  show ?thesis
  proof (cases built)
    case False
    then show ?thesis using assms c by (auto simp: finalize_pairing_configuration_def same_device_def)
  next
    case True
    then have "cmd req = CMD_SET_CONFIG1" using c set_cmd_command by (auto simp: create_set_config1_def)
    then have "pairing_frame env r0 r (serialize req FRAME_MAX_WIRE_SIZE, FREQ_CH2, p)" for p
      unfolding pairing_frame_def by blast
    then obtain outcome response r' l' where "send_and_receive env req FREQ_CH2 3 r l = Some (outcome, response, r', l')"
      "pairing_run env ds r0 r'" "later r r'"
      by (rule pairing_run_exchange [OF assms, of req 3 l])
    then show ?thesis using c True
      by (auto simp: finalize_pairing_configuration_def same_device_def Let_def split: option.split)
  qed
qed

section \<open>The orchestrator's contract\<close>

definition pairing_result ::
  "exchange_env \<Rightarrow> registry \<Rightarrow> radio \<Rightarrow> bool \<Rightarrow> telemetry \<Rightarrow> pairing_context \<Rightarrow> registry \<Rightarrow> radio \<Rightarrow> bool" where
  "pairing_result env reg r ok t ctx reg' r' \<longleftrightarrow> pairing_run env {} r r' \<and>
     (if ok then tel_outcome t \<in> {PO_PAIRED, PO_CONFIG_FAILED} \<and> describes env r r' new_device ctx \<and>
        told env CMD_KEY_CONFIRM (dev_node_id (pc_device ctx)) r r' \<and> reg' = reg_put (pc_device_id ctx) (pc_device ctx) reg
      else tel_outcome t \<in> {PO_INVALID_RESPONSE, PO_NO_RESPONSE, PO_KEY_EXCHANGE_FAILED} \<and> reg' = reg)"

lemma pairing_run_weaken: "pairing_run env ds r0 r \<Longrightarrow> pairing_run env {} r0 r"
  by (simp add: pairing_run_def)

lemma finish_spec:
  "finish_pairing_attempt env outcome r l = (t, l') \<Longrightarrow> tel_outcome t = outcome \<and> el_telemetry l' = None"
  by (auto simp: finish_pairing_attempt_def Let_def set_outcome_def set_advice_codes_def)

lemma discovery_phase_spec:
  assumes "run_discovery_phase env nonce new_pairing_context r l = Some (disp, ctx, r1, l1)"
  shows "pairing_run env {} r r1 \<and> (disp = PD_ACCEPT \<longrightarrow> describes env r r1 new_device ctx)"
proof -
  let ?dwell = "unat (pairing_discovery_initial_dwell_ms (env_tuning env))"
  have "pairing_run env {} r (if ?dwell > 0 then delay_ms ?dwell r else r)"
    using pairing_run_delay [OF pairing_run_start] by simp
  from discovery_commands_spec [OF this] show ?thesis
    using assms unfolding run_discovery_phase_def Let_def by (fastforce simp: new_pairing_context_def)
qed

lemma key_exchange_after_discovery:
  assumes "length (env_system_key env) = AES_KEY_SIZE" and "pairing_run env {} r r1"
    and f: "heard r r1 f" "cmd f = CMD_DISCOVER_RESP" "dst f = env_node_id env"
      "(pc_device ctx, pc_device_id ctx) = snd (parse_device_from_discovery f new_device)"
  shows "\<exists>ok ctx' r' l'. key_exchange_attempts env n 0 ctx r1 l = Some (ok, ctx', r', l') \<and> pairing_run env {f} r r' \<and>
    same_device ctx ctx' \<and> (ok \<longrightarrow> told env CMD_KEY_CONFIRM (dev_node_id (pc_device ctx)) r r')"
proof -
  have "dev_node_id (pc_device ctx) \<in> src ` {f}" using parsed_device [of f new_device] f(4) by (metis imageI insertI1)
  then show ?thesis using key_exchange_attempts_spec [OF pairing_run_found [OF assms(2) f(1-3)] assms(1)] by blast
qed

lemma pairing_obeys:
  assumes "length (env_system_key env) = AES_KEY_SIZE"
    and "discover_and_pair env nonce reg r l = Some (ok, t, ctx, reg', r', l')"
  shows "pairing_result env reg r ok t ctx reg' r' \<and> el_telemetry l' = None"
proof -
  let ?l = "l\<lparr>el_telemetry := Some (tel_begin (millis r))\<rparr>"
  obtain disp ctx1 r1 l1 where phase: "run_discovery_phase env nonce new_pairing_context r ?l = Some (disp, ctx1, r1, l1)"
    using assms(2) by (auto simp: discover_and_pair_def bind_eq_Some_conv)
  note found = discovery_phase_spec [OF phase]
  show ?thesis
  proof (cases "disp = PD_ACCEPT")
    case False
    then show ?thesis
      using assms(2) phase found by (auto simp: discover_and_pair_def pairing_result_def dest!: finish_spec split: prod.splits)
  next
    case accept: True
    let ?dev = "dev_node_id (pc_device ctx1)"
    obtain f where f: "heard r r1 f" "cmd f = CMD_DISCOVER_RESP" "dst f = env_node_id env"
        "(pc_device ctx1, pc_device_id ctx1) = snd (parse_device_from_discovery f new_device)"
      using found accept unfolding describes_def by blast
    obtain key_ok ctx2 r2 l2 where key: "key_exchange_attempts env (unat (pairing_key_exchange_retries (env_tuning env))) 0 ctx1 r1 l1
        = Some (key_ok, ctx2, r2, l2)"
      and run2: "pairing_run env {f} r r2" and same2: "same_device ctx1 ctx2"
      and confirmed: "key_ok \<longrightarrow> told env CMD_KEY_CONFIRM ?dev r r2"
      using key_exchange_after_discovery [OF assms(1) _ f] found by blast
    show ?thesis
    proof (cases key_ok)
      case False
      then show ?thesis using assms(2) phase accept key pairing_run_weaken [OF run2]
        by (auto simp: discover_and_pair_def pairing_result_def dest!: finish_spec split: prod.splits)
    next
      case True
      obtain config_ok ctx3 r3 l3 where config: "finalize_pairing_configuration env ctx2 r2 l2 = Some (config_ok, ctx3, r3, l3)"
        and run3: "pairing_run env {f} r r3" and same3: "same_device ctx2 ctx3" and lat: "later r2 r3"
        using finalize_spec [OF run2] by blast
      obtain ctx4 l4 where e4: "enter_stage PS_REGISTER_DEVICE 1 True r3 ctx3 l3 = (ctx4, l4)" by fastforce
      let ?l4 = "tell (set_paired_device (dev_node_id (pc_device ctx4)) (dev_type (pc_device ctx4))) l4"
      obtain ctx5 l5 where e5: "enter_stage PS_COMPLETE 1 True r3 ctx4 ?l4 = (ctx5, l5)" by fastforce
      obtain t6 l6 where fin: "finish_pairing_attempt env (if config_ok then PO_PAIRED else PO_CONFIG_FAILED) r3 l5 = (t6, l6)"
        by fastforce
      have dev: "pc_device ctx5 = pc_device ctx1" "pc_device_id ctx5 = pc_device_id ctx1"
          "pc_device ctx4 = pc_device ctx1" "pc_device_id ctx4 = pc_device_id ctx1"
        using same_trans(1) [OF same2 same3] enter_stage_same [OF e4] enter_stage_same [OF e5]
        by (auto simp: same_session_def same_device_def)
      have res: "ok = True" "t = t6" "ctx = ctx5" "reg' = reg_put (pc_device_id ctx1) (pc_device ctx1) reg" "r' = r3" "l' = l6"
        using assms(2) phase accept key True config e4 e5 fin dev by (simp_all add: discover_and_pair_def Let_def)
      have "describes env r r3 new_device ctx5"
        unfolding describes_def using run3 f(4) dev by (intro exI [of _ f]) (simp add: pairing_run_def)
      moreover have "told env CMD_KEY_CONFIRM (dev_node_id (pc_device ctx5)) r r3"
        using confirmed True told_before lat dev by simp
      moreover have "tel_outcome t6 \<in> {PO_PAIRED, PO_CONFIG_FAILED}" "el_telemetry l6 = None"
        using finish_spec [OF fin] by simp_all
      ultimately show ?thesis using res dev pairing_run_weaken [OF run3] by (simp add: pairing_result_def)
    qed
  qed
qed

lemma pairing_returns:
  assumes "length (env_system_key env) = AES_KEY_SIZE" and "hop_dwell_ms (env_chip env) (env_tuning env) \<noteq> 0"
  shows "discover_and_pair env nonce reg r l \<noteq> None"
proof -
  let ?l = "l\<lparr>el_telemetry := Some (tel_begin (millis r))\<rparr>"
  obtain disp ctx1 r1 l1 where phase: "run_discovery_phase env nonce new_pairing_context r ?l = Some (disp, ctx1, r1, l1)"
    using discovery_commands_returns [OF assms(2)] unfolding run_discovery_phase_def Let_def by fast
  note found = discovery_phase_spec [OF phase]
  show ?thesis
  proof (cases "disp = PD_ACCEPT")
    case False
    then show ?thesis using phase by (simp add: discover_and_pair_def split: prod.split del: not_None_eq)
  next
    case True
    then obtain f where f: "heard r r1 f" "cmd f = CMD_DISCOVER_RESP" "dst f = env_node_id env"
        "(pc_device ctx1, pc_device_id ctx1) = snd (parse_device_from_discovery f new_device)"
      using found unfolding describes_def by blast
    obtain key_ok ctx2 r2 l2 where key: "key_exchange_attempts env (unat (pairing_key_exchange_retries (env_tuning env))) 0 ctx1 r1 l1
        = Some (key_ok, ctx2, r2, l2)" and run2: "pairing_run env {f} r r2"
      using key_exchange_after_discovery [OF assms(1) _ f] found by blast
    obtain config_ok ctx3 r3 l3 where "finalize_pairing_configuration env ctx2 r2 l2 = Some (config_ok, ctx3, r3, l3)"
      using finalize_spec [OF run2] by blast
    then show ?thesis using phase True key
      by (cases key_ok) (simp_all add: discover_and_pair_def Let_def split: prod.split del: not_None_eq)
  qed
qed

section \<open>Properties\<close>

text \<open>A device that answers the discovery and confirms the key at once.\<close>

definition demo_pairing_radio :: radio where
  "demo_pairing_radio = demo_radio (map (\<lambda>x. x\<lparr>rcv_elapsed_us := 1000\<rparr>)
     [demo_reply CMD_DISCOVER_RESP [0, 0x42, 4, 5, 6, 2, 1, 0, 0], demo_reply CMD_KEY_CONFIRM []])"

definition demo_nonce :: "nat \<Rightarrow> nat \<Rightarrow> bytes" where
  "demo_nonce i a = [1, 2, 3, 4, 5, 6]"

definition demo_discovery :: "(pairing_discovery_disposition \<times> pairing_context \<times> radio \<times> engine_log) option" where
  "demo_discovery = run_discovery_phase demo_env demo_nonce new_pairing_context demo_pairing_radio
     (demo_log\<lparr>el_telemetry := Some (tel_begin (millis demo_pairing_radio))\<rparr>)"

definition demo_key_exchange :: "(bool \<times> pairing_context \<times> radio \<times> engine_log) option" where
  "demo_key_exchange = (case the demo_discovery of (disp, ctx, r, l) \<Rightarrow>
     key_exchange_attempts demo_env (unat (pairing_key_exchange_retries (env_tuning demo_env))) 0 ctx r l)"

lemma demo_phases:
  "demo_discovery \<noteq> None" "fst (the demo_discovery) = PD_ACCEPT" "demo_key_exchange \<noteq> None" "fst (the demo_key_exchange)"
  by code_simp+

lemma demo_pairing_succeeds:
  obtains t ctx reg' r' l' where "discover_and_pair demo_env demo_nonce empty_registry demo_pairing_radio demo_log
    = Some (True, t, ctx, reg', r', l')"
proof -
  obtain ctx1 r1 l1 where d: "demo_discovery = Some (PD_ACCEPT, ctx1, r1, l1)" 
    using demo_phases(1,2) by (metis option.collapse prod.collapse)
  obtain ctx2 r2 l2 where "demo_key_exchange = Some (True, ctx2, r2, l2)"
    using demo_phases(3,4) by (metis option.collapse prod.collapse)
  then have k: "key_exchange_attempts demo_env (unat (pairing_key_exchange_retries (env_tuning demo_env))) 0 ctx1 r1 l1
      = Some (True, ctx2, r2, l2)"
    by (simp only: demo_key_exchange_def d option.sel prod.case)
  obtain ok ctx3 r3 l3 where "finalize_pairing_configuration demo_env ctx2 r2 l2 = Some (ok, ctx3, r3, l3)"
    using finalize_spec [OF pairing_run_start, of demo_env ctx2 r2 l2] by blast
  then have "\<exists>t ctx reg' r' l'. discover_and_pair demo_env demo_nonce empty_registry demo_pairing_radio demo_log
      = Some (True, t, ctx, reg', r', l')"
    using d k unfolding demo_discovery_def discover_and_pair_def by (simp add: Let_def split: prod.split)
  then show ?thesis using that by blast
qed

text \<open>C2. Pairing registers exactly the device it talked to: an attempt that ends as paired, or as paired with a
  failed configuration, has heard a discovery response addressed to this node and a key confirmation from
  the same device, and puts under that device's address the device the response describes; every other
  attempt leaves the registry as it was. The telemetry is detached at the end of both.\<close>

theorem pairing_registers_discovered_device:
  assumes "length (env_system_key env) = AES_KEY_SIZE"
    and "discover_and_pair env nonce reg r l = Some (ok, t, ctx, reg', r', l')"
  shows "(ok \<longleftrightarrow> tel_outcome t \<in> {PO_PAIRED, PO_CONFIG_FAILED}) \<and> el_telemetry l' = None \<and>
    (if ok then \<exists>f c. heard r r' f \<and> cmd f = CMD_DISCOVER_RESP \<and> dst f = env_node_id env \<and>
         heard r r' c \<and> cmd c = CMD_KEY_CONFIRM \<and> src c = src f \<and> dst c = env_node_id env \<and>
         reg' = reg_put (node_id_to_string (src f)) (fst (snd (decode_discovery_response f new_device))) reg
     else reg' = reg)"
proof -
  note obeys = pairing_obeys [OF assms]
  show ?thesis
  proof (cases ok)
    case False
    then show ?thesis using obeys by (auto simp: pairing_result_def)
  next
    case True
    then obtain f where f: "heard r r' f" "cmd f = CMD_DISCOVER_RESP" "dst f = env_node_id env"
        "snd (parse_device_from_discovery f new_device) = (pc_device ctx, pc_device_id ctx)"
      using obeys unfolding pairing_result_def describes_def by (metis (no_types))
    note p = parsed_device [OF f(4)]
    obtain c where "heard r r' c" "cmd c = CMD_KEY_CONFIRM" "src c = src f" "dst c = env_node_id env"
      using obeys True p by (auto simp: pairing_result_def told_def)
    moreover have "reg' = reg_put (node_id_to_string (src f)) (fst (snd (decode_discovery_response f new_device))) reg"
      using obeys True p f(4) by (simp add: pairing_result_def parse_device_from_discovery_def)
    ultimately show ?thesis using True f obeys unfolding pairing_result_def by auto
  qed
qed

theorem pairing_registers_discovered_device_witness:
  "\<exists>t ctx reg' r' l' f. discover_and_pair demo_env demo_nonce empty_registry demo_pairing_radio demo_log
       = Some (True, t, ctx, reg', r', l') \<and>
     tel_outcome t \<in> {PO_PAIRED, PO_CONFIG_FAILED} \<and> heard demo_pairing_radio r' f \<and>
     reg' = reg_put (node_id_to_string (src f)) (fst (snd (decode_discovery_response f new_device))) empty_registry"
proof -
  obtain t ctx reg' r' l' where run: "discover_and_pair demo_env demo_nonce empty_registry demo_pairing_radio demo_log
      = Some (True, t, ctx, reg', r', l')" by (rule demo_pairing_succeeds)
  have "length (env_system_key demo_env) = AES_KEY_SIZE" by (simp add: demo_env_def)
  from pairing_registers_discovered_device [OF this run] run show ?thesis by auto
qed



text \<open>C20. Pairing always ends, whatever is heard, if the hop dwell of the chip is not zero.\<close>

theorem pairing_terminates:
  assumes "length (env_system_key env) = AES_KEY_SIZE" and "hop_dwell_ms (env_chip env) (env_tuning env) \<noteq> 0"
  shows "\<exists>ok t ctx reg' r' l'. discover_and_pair env nonce reg r l = Some (ok, t, ctx, reg', r', l')"
  using pairing_returns [OF assms, of nonce reg r l] by auto

theorem pairing_terminates_witness:
  "\<exists>ok t ctx reg' r' l'. discover_and_pair demo_env demo_nonce empty_registry (demo_radio []) demo_log
     = Some (ok, t, ctx, reg', r', l')"
  by (rule pairing_terminates) (simp_all add: demo_env_def default_tuning_def)

end
