(* ===== verification/Oneway.thy ===== *)
theory Oneway
  imports Sequence_Store Exchange
begin

text \<open>
  One-way controller identities and the transmitter that sends as them (\<open>oneway_controller.h\<close>,
  \<open>oneway_controller.cpp\<close>, \<open>oneway_transmitter.h\<close>, \<open>oneway_transmitter.cpp\<close>). As in the code, the
  transmitter is written against an injected way to put a frame on air: the functions \<open>transmit\<close> and
  \<open>pause\<close> over a radio of any type. The locale \<open>frame_port\<close> states what they promise; the transmission of
  the exchange engine is an instance. The outcomes of the flash writes behind the sequence counters
  are a script, one entry per reservation. Log lines are left out.
\<close>

section \<open>Controller identities\<close>

abbreviation (input) ONEWAY_POSITION_FULLY_OPEN :: u8 where "ONEWAY_POSITION_FULLY_OPEN \<equiv> 0"
abbreviation (input) ONEWAY_POSITION_FULLY_CLOSED :: u8 where "ONEWAY_POSITION_FULLY_CLOSED \<equiv> 100"

record oneway_controller_identity =
  oci_id :: string
  oci_node_id :: node_id
  oci_system_key :: bytes
  oci_manufacturer :: u8
  oci_type :: device_type
  oci_initial_sequence :: u16
  oci_node_id_derived :: bool
  oci_enrollment_with_mac :: bool
  oci_execute_acei :: u8
  oci_execute_broadcast_all :: bool
  oci_enrollment_classes :: "device_type list"

definition broadcast_address :: "oneway_controller_identity \<Rightarrow> node_id" where
  "broadcast_address c = encode_broadcast_address (oci_type c)"

datatype enroll_gesture = EG_SOMFY | EG_VELUX_KLI

record oneway_wire_profile =
  owp_execute_acei :: u8
  owp_is_a_guess :: bool
  owp_enroll_gesture :: enroll_gesture
  owp_enrollment_classes :: "device_type list"

definition VELUX_KLI_ENROLLMENT_CLASSES :: "device_type list" where
  "VELUX_KLI_ENROLLMENT_CLASSES = [DT_ROLLER_SHUTTER, DT_AWNING, DT_DUAL_SHUTTER]"

definition no_classes :: "device_type list" where
  "no_classes = [DT_UNKNOWN, DT_UNKNOWN, DT_UNKNOWN]"

definition resolve_oneway_wire_profile :: "u8 \<Rightarrow> oneway_wire_profile" where
  "resolve_oneway_wire_profile manufacturer =
     (if manufacturer = MANUFACTURER_VELUX
      then \<lparr>owp_execute_acei = ONEWAY_EXECUTE_ACEI_VELUX, owp_is_a_guess = False,
            owp_enroll_gesture = EG_VELUX_KLI, owp_enrollment_classes = VELUX_KLI_ENROLLMENT_CLASSES\<rparr>
      else if manufacturer = MANUFACTURER_SOMFY \<or> manufacturer = 0
      then \<lparr>owp_execute_acei = ONEWAY_EXECUTE_ACEI, owp_is_a_guess = False,
            owp_enroll_gesture = EG_SOMFY, owp_enrollment_classes = no_classes\<rparr>
      else \<lparr>owp_execute_acei = ONEWAY_EXECUTE_ACEI, owp_is_a_guess = True,
            owp_enroll_gesture = EG_SOMFY, owp_enrollment_classes = no_classes\<rparr>)"

definition effective_enrollment_classes :: "oneway_controller_identity \<Rightarrow> device_type list" where
  "effective_enrollment_classes c =
     (if oci_enrollment_classes c ! 0 \<noteq> DT_UNKNOWN \<or> oci_enrollment_classes c ! 1 \<noteq> DT_UNKNOWN \<or>
         oci_enrollment_classes c ! 2 \<noteq> DT_UNKNOWN
      then oci_enrollment_classes c
      else owp_enrollment_classes (resolve_oneway_wire_profile (oci_manufacturer c)))"

definition effective_execute_acei :: "oneway_controller_identity \<Rightarrow> u8" where
  "effective_execute_acei c =
     (if oci_execute_acei c \<noteq> 0 then oci_execute_acei c
      else owp_execute_acei (resolve_oneway_wire_profile (oci_manufacturer c)))"

definition has_execute_acei_override :: "oneway_controller_identity \<Rightarrow> bool" where
  "has_execute_acei_override c \<longleftrightarrow> oci_execute_acei c \<noteq> 0"

datatype oneway_button_action = OB_OPEN | OB_CLOSE | OB_STOP | OB_VENT | OB_FAVORITE

record oneway_action_encoding =
  oae_is_position :: bool
  oae_position :: u8
  oae_command :: cover_command

definition encode_oneway_action :: "oneway_button_action \<Rightarrow> oneway_action_encoding" where
  "encode_oneway_action action =
     (let encoding = \<lparr>oae_is_position = False, oae_position = 0, oae_command = CC_STOP\<rparr>
      in case action of
           OB_OPEN \<Rightarrow> encoding\<lparr>oae_is_position := True, oae_position := ONEWAY_POSITION_FULLY_OPEN\<rparr>
         | OB_CLOSE \<Rightarrow> encoding\<lparr>oae_is_position := True, oae_position := ONEWAY_POSITION_FULLY_CLOSED\<rparr>
         | OB_VENT \<Rightarrow> encoding\<lparr>oae_command := CC_VENT\<rparr>
         | OB_FAVORITE \<Rightarrow> encoding\<lparr>oae_command := CC_FAVORITE\<rparr>
         | OB_STOP \<Rightarrow> encoding\<lparr>oae_command := CC_STOP\<rparr>)"

fun oneway_button_action_name :: "oneway_button_action \<Rightarrow> string" where
  "oneway_button_action_name OB_OPEN = ''OPEN''"
| "oneway_button_action_name OB_CLOSE = ''CLOSE''"
| "oneway_button_action_name OB_VENT = ''VENT''"
| "oneway_button_action_name OB_FAVORITE = ''FAVORITE''"
| "oneway_button_action_name OB_STOP = ''STOP''"

definition get_identity :: "string \<Rightarrow> oneway_controller_identity list \<Rightarrow> oneway_controller_identity option" where
  "get_identity controller_id identities = find (\<lambda>c. oci_id c = controller_id) identities"

section \<open>The transmitter\<close>

record oneway_command_report =
  ocr_controller_id :: string
  ocr_intent :: string
  ocr_target_type :: device_type
  ocr_sequence :: u16
  ocr_sequence_reserved :: bool
  ocr_transmitted :: bool

text \<open>
  \<open>otx_reports\<close> is \<open>None\<close> without a report callback and otherwise what the callback has been given;
  \<open>otx_air\<close> is the radio behind the injected functions.
\<close>

record 'r oneway_transmitter =
  otx_identities :: "oneway_controller_identity list"
  otx_sequences :: seq_store
  otx_flash :: "persist_outcome list"
  otx_reports :: "oneway_command_report list option"
  otx_air :: 'r

type_synonym 'r transmit_fn = "io_frame \<Rightarrow> u32 \<Rightarrow> u16 \<Rightarrow> 'r \<Rightarrow> bool \<times> 'r"
type_synonym 'r pause_fn = "nat \<Rightarrow> 'r \<Rightarrow> 'r"
type_synonym frame_builder = "io_frame \<Rightarrow> oneway_controller_identity \<Rightarrow> u16 \<Rightarrow> bool \<times> io_frame"

definition oneway_add_identity :: "oneway_controller_identity \<Rightarrow> 'r oneway_transmitter \<Rightarrow> 'r oneway_transmitter" where
  "oneway_add_identity c t = t\<lparr>otx_identities := otx_identities t @ [c]\<rparr>"

definition oneway_setup :: "'r oneway_transmitter \<Rightarrow> 'r oneway_transmitter" where
  "oneway_setup t = t\<lparr>otx_sequences :=
     fold (\<lambda>c. add_identity (oci_node_id c) (oci_initial_sequence c)) (otx_identities t) (otx_sequences t)\<rparr>"

definition next_sequence :: "node_id \<Rightarrow> 'r oneway_transmitter \<Rightarrow> u16 option \<times> 'r oneway_transmitter" where
  "next_sequence node t =
     (let outcome = (case otx_flash t of [] \<Rightarrow> Persisted | x # _ \<Rightarrow> x);
          (v, s) = seq_next outcome node (otx_sequences t)
      in (v, t\<lparr>otx_sequences := s, otx_flash := tl (otx_flash t)\<rparr>))"

definition report_attempt ::
  "string \<Rightarrow> string \<Rightarrow> device_type \<Rightarrow> u16 \<Rightarrow> bool \<Rightarrow> bool \<Rightarrow> 'r oneway_transmitter \<Rightarrow> 'r oneway_transmitter" where
  "report_attempt controller_id intent target_type sequence sequence_reserved transmitted t =
     t\<lparr>otx_reports := map_option (\<lambda>rs. rs @
        [\<lparr>ocr_controller_id = controller_id, ocr_intent = intent, ocr_target_type = target_type,
          ocr_sequence = sequence, ocr_sequence_reserved = sequence_reserved, ocr_transmitted = transmitted\<rparr>])
        (otx_reports t)\<rparr>"

definition report_failure :: "string \<Rightarrow> u16 \<Rightarrow> bool \<Rightarrow> 'r oneway_transmitter \<Rightarrow> 'r oneway_transmitter" where
  "report_failure controller_id sequence sequence_reserved t =
     report_attempt controller_id [] DT_UNKNOWN sequence sequence_reserved False t"

fun burst_loop :: "'r transmit_fn \<Rightarrow> 'r pause_fn \<Rightarrow> io_frame \<Rightarrow> nat \<Rightarrow> nat \<Rightarrow> u8 \<Rightarrow> 'r \<Rightarrow> u8 \<times> 'r" where
  "burst_loop transmit pause frame 0 i sent r = (sent, r)"
| "burst_loop transmit pause frame (Suc n) i sent r =
     (case transmit frame FREQ_CH2 LONG_PREAMBLE (if i > 0 then pause (unat ONEWAY_BURST_INTERVAL_MS) r else r) of
        (ok, r) \<Rightarrow> burst_loop transmit pause frame n (Suc i) (if ok then sent + 1 else sent) r)"

definition send_burst ::
  "'r transmit_fn \<Rightarrow> 'r pause_fn \<Rightarrow> io_frame \<Rightarrow> 'r oneway_transmitter \<Rightarrow> bool \<times> 'r oneway_transmitter" where
  "send_burst transmit pause frame t =
     (case burst_loop transmit pause frame ONEWAY_BURST_REPEATS 0 0 (otx_air t) of
        (sent, r) \<Rightarrow> (sent > 0, t\<lparr>otx_air := r\<rparr>))"

definition oneway_send ::
  "'r transmit_fn \<Rightarrow> 'r pause_fn \<Rightarrow> string \<Rightarrow> frame_builder \<Rightarrow> string \<Rightarrow> 'r oneway_transmitter \<Rightarrow>
   bool \<times> 'r oneway_transmitter" where
  "oneway_send transmit pause controller_id build explicit_intent t =
     (case get_identity controller_id (otx_identities t) of
        None \<Rightarrow> (False, report_failure controller_id 0 False t)
      | Some c \<Rightarrow>
          (case next_sequence (oci_node_id c) t of
             (None, t) \<Rightarrow> (False, report_failure controller_id 0 False t)
           | (Some sequence, t) \<Rightarrow>
               (case build empty_frame c sequence of
                  (False, frame) \<Rightarrow> (False, report_failure controller_id sequence True t)
                | (True, frame) \<Rightarrow>
                    let (transmitted, t) = send_burst transmit pause frame t;
                        info = decode_1w_frame frame;
                        intent = (if explicit_intent = [] \<and> ofi_has_intent info then ofi_intent info
                                  else explicit_intent)
                    in (transmitted,
                        report_attempt controller_id intent (oci_type c) sequence True transmitted t))))"

text \<open>The five frame builders the commands pass to \<open>oneway_send\<close>.\<close>

definition command_builder :: "cover_command \<Rightarrow> frame_builder" where
  "command_builder command frame c sequence =
     create_1w_execute_command frame (oci_node_id c) (oci_type c) command sequence (oci_system_key c)
       (effective_execute_acei c) (oci_execute_broadcast_all c)"

definition position_builder :: "u8 \<Rightarrow> frame_builder" where
  "position_builder position frame c sequence =
     create_1w_execute_position frame (oci_node_id c) (oci_type c) position sequence (oci_system_key c)
       (effective_execute_acei c) (oci_execute_broadcast_all c)"

definition remove_builder :: "(oneway_controller_identity \<Rightarrow> device_type) \<Rightarrow> frame_builder" where
  "remove_builder target frame c sequence =
     create_1w_remove_controller (oci_node_id c) (target c) sequence (oci_system_key c)"

definition add_builder :: frame_builder where
  "add_builder frame c sequence =
     create_1w_add_controller (oci_node_id c) (oci_type c) (oci_manufacturer c) sequence (oci_system_key c)
       (oci_enrollment_with_mac c)"

definition send_command ::
  "'r transmit_fn \<Rightarrow> 'r pause_fn \<Rightarrow> string \<Rightarrow> cover_command \<Rightarrow> 'r oneway_transmitter \<Rightarrow> bool \<times> 'r oneway_transmitter" where
  "send_command transmit pause controller_id command t =
     oneway_send transmit pause controller_id (command_builder command) [] t"

definition send_position ::
  "'r transmit_fn \<Rightarrow> 'r pause_fn \<Rightarrow> string \<Rightarrow> u8 \<Rightarrow> 'r oneway_transmitter \<Rightarrow> bool \<times> 'r oneway_transmitter" where
  "send_position transmit pause controller_id position t =
     oneway_send transmit pause controller_id (position_builder position) [] t"

definition send_unenrollment ::
  "'r transmit_fn \<Rightarrow> 'r pause_fn \<Rightarrow> string \<Rightarrow> 'r oneway_transmitter \<Rightarrow> bool \<times> 'r oneway_transmitter" where
  "send_unenrollment transmit pause controller_id t =
     oneway_send transmit pause controller_id (remove_builder oci_type) ''UNENROLL'' t"

definition send_somfy_enrollment ::
  "'r transmit_fn \<Rightarrow> 'r pause_fn \<Rightarrow> oneway_controller_identity \<Rightarrow> 'r oneway_transmitter \<Rightarrow>
   bool \<times> 'r oneway_transmitter" where
  "send_somfy_enrollment transmit pause c t =
     (let (removed, t) = oneway_send transmit pause (oci_id c) (remove_builder oci_type) ''UNENROLL'' t
      in oneway_send transmit pause (oci_id c) add_builder ''ENROLL'' t)"

fun sweep_loop ::
  "'r transmit_fn \<Rightarrow> 'r pause_fn \<Rightarrow> oneway_controller_identity \<Rightarrow> u16 \<Rightarrow> device_type list \<Rightarrow> bool \<Rightarrow>
   'r oneway_transmitter \<Rightarrow> bool \<times> 'r oneway_transmitter" where
  "sweep_loop transmit pause c sequence [] any t = (any, t)"
| "sweep_loop transmit pause c sequence (target_type # classes) any t =
     (if target_type = DT_UNKNOWN then sweep_loop transmit pause c sequence classes any t
      else case create_1w_add_controller (oci_node_id c) target_type (oci_manufacturer c) sequence
                  (oci_system_key c) (oci_enrollment_with_mac c) of
        (False, frame) \<Rightarrow> sweep_loop transmit pause c sequence classes any t
      | (True, frame) \<Rightarrow>
          (case send_burst transmit pause frame t of
             (ok, t) \<Rightarrow> sweep_loop transmit pause c sequence classes (any \<or> ok) t))"

definition send_enroll_sweep ::
  "'r transmit_fn \<Rightarrow> 'r pause_fn \<Rightarrow> oneway_controller_identity \<Rightarrow> device_type list \<Rightarrow> 'r oneway_transmitter \<Rightarrow>
   bool \<times> 'r oneway_transmitter" where
  "send_enroll_sweep transmit pause c classes t =
     (case next_sequence (oci_node_id c) t of
        (None, t) \<Rightarrow> (False, report_failure (oci_id c) 0 False t)
      | (Some sequence, t) \<Rightarrow>
          (case sweep_loop transmit pause c sequence classes False t of
             (any, t) \<Rightarrow> (any, report_attempt (oci_id c) ''ENROLL'' (oci_type c) sequence True any t)))"

definition enroll_stop_builder :: "u8 \<Rightarrow> frame_builder" where
  "enroll_stop_builder acei frame c sequence =
     create_1w_execute_command frame (oci_node_id c) (oci_type c) CC_STOP sequence (oci_system_key c) acei True"

definition enroll_down_builder :: "u8 \<Rightarrow> frame_builder" where
  "enroll_down_builder acei frame c sequence =
     create_1w_execute_position frame (oci_node_id c) (oci_type c) ONEWAY_POSITION_FULLY_CLOSED sequence
       (oci_system_key c) acei True"

definition send_velux_kli_enrollment ::
  "'r transmit_fn \<Rightarrow> 'r pause_fn \<Rightarrow> oneway_controller_identity \<Rightarrow> 'r oneway_transmitter \<Rightarrow>
   bool \<times> 'r oneway_transmitter" where
  "send_velux_kli_enrollment transmit pause c t =
     (let (removed, t) = oneway_send transmit pause (oci_id c) (remove_builder (\<lambda>_. DT_UNKNOWN)) ''UNENROLL'' t;
          (enrolled, t) = send_enroll_sweep transmit pause c (effective_enrollment_classes c) t
      in if \<not> enrolled then (False, t)
         else
           let acei = effective_execute_acei c;
               (stopped, t) = oneway_send transmit pause (oci_id c) (enroll_stop_builder acei) ''ENROLL STOP'' t;
               (lowered, t) = oneway_send transmit pause (oci_id c) (enroll_down_builder acei) ''ENROLL DOWN'' t
           in (True, t))"

definition send_enrollment ::
  "'r transmit_fn \<Rightarrow> 'r pause_fn \<Rightarrow> string \<Rightarrow> 'r oneway_transmitter \<Rightarrow> bool \<times> 'r oneway_transmitter" where
  "send_enrollment transmit pause controller_id t =
     (case get_identity controller_id (otx_identities t) of
        None \<Rightarrow> (False, report_failure controller_id 0 False t)
      | Some c \<Rightarrow>
          if owp_enroll_gesture (resolve_oneway_wire_profile (oci_manufacturer c)) = EG_VELUX_KLI
          then send_velux_kli_enrollment transmit pause c t
          else send_somfy_enrollment transmit pause c t)"

section \<open>What the transmitter promises\<close>

definition on_air :: "io_frame \<Rightarrow> bytes \<times> u32 \<times> u16" where
  "on_air f = (serialize f FRAME_MAX_WIRE_SIZE, FREQ_CH2, LONG_PREAMBLE)"

text \<open>
  The effect of one logical command: which identity it resolves to, the value its reservation yields,
  the frame built for it, how many copies were put on air and what was reported.
\<close>

definition reported ::
  "oneway_command_report list option \<Rightarrow> oneway_command_report list option \<Rightarrow> string \<Rightarrow> u16 option \<Rightarrow> bool \<Rightarrow> bool" where
  "reported rs rs' cid v transmitted \<longleftrightarrow>
     (case rs of None \<Rightarrow> rs' = None
      | Some xs \<Rightarrow> \<exists>x. rs' = Some (xs @ [x]) \<and> ocr_controller_id x = cid \<and> ocr_transmitted x = transmitted \<and>
          ocr_sequence_reserved x = (v \<noteq> None) \<and> (\<forall>w. v = Some w \<longrightarrow> ocr_sequence x = w))"

definition command_effect ::
  "('r \<Rightarrow> (bytes \<times> u32 \<times> u16) list) \<Rightarrow> string \<Rightarrow> frame_builder \<Rightarrow> 'r oneway_transmitter \<Rightarrow> bool \<Rightarrow>
   'r oneway_transmitter \<Rightarrow> bool" where
  "command_effect sent cid build t ok t' \<longleftrightarrow> otx_identities t' = otx_identities t \<and>
     (case get_identity cid (otx_identities t) of
        None \<Rightarrow> \<not> ok \<and> otx_sequences t' = otx_sequences t \<and> sent (otx_air t') = sent (otx_air t) \<and>
          reported (otx_reports t) (otx_reports t') cid None False
      | Some c \<Rightarrow> \<exists>outcome v k. seq_next outcome (oci_node_id c) (otx_sequences t) = (v, otx_sequences t') \<and>
          k \<le> ONEWAY_BURST_REPEATS \<and> (ok \<longleftrightarrow> 0 < k) \<and> reported (otx_reports t) (otx_reports t') cid v ok \<and>
          (case v of
             None \<Rightarrow> k = 0 \<and> sent (otx_air t') = sent (otx_air t)
           | Some w \<Rightarrow> (0 < k \<longrightarrow> fst (build empty_frame c w)) \<and>
               sent (otx_air t') = sent (otx_air t) @ replicate k (on_air (snd (build empty_frame c w)))))"

lemma report_attempt_simps [simp]:
  "otx_identities (report_attempt cid i ty v b x t) = otx_identities t"
  "otx_sequences (report_attempt cid i ty v b x t) = otx_sequences t"
  "otx_flash (report_attempt cid i ty v b x t) = otx_flash t"
  "otx_air (report_attempt cid i ty v b x t) = otx_air t"
  "otx_identities (report_failure cid v b t) = otx_identities t"
  "otx_sequences (report_failure cid v b t) = otx_sequences t"
  "otx_flash (report_failure cid v b t) = otx_flash t"
  "otx_air (report_failure cid v b t) = otx_air t"
  by (simp_all add: report_attempt_def report_failure_def)

lemma reported_attempt:
  "reported (otx_reports t) (otx_reports (report_attempt cid i ty v True x t)) cid (Some v) x"
  "reported (otx_reports t) (otx_reports (report_failure cid v True t)) cid (Some v) False"
  "reported (otx_reports t) (otx_reports (report_failure cid v False t)) cid None False"
  by (auto simp: reported_def report_attempt_def report_failure_def split: option.split)

lemma next_sequence_spec:
  assumes "next_sequence node t = (v, t')"
  shows "\<exists>outcome. seq_next outcome node (otx_sequences t) = (v, otx_sequences t')"
    and "otx_identities t' = otx_identities t" and "otx_reports t' = otx_reports t" and "otx_air t' = otx_air t"
  using assms by (auto simp: next_sequence_def Let_def split: prod.splits)

lemma get_identity_own: "get_identity cid cs = Some c \<Longrightarrow> oci_id c = cid \<and> c \<in> set cs"
  by (auto simp: get_identity_def find_Some_iff)

lemma sweep_frame:
  "sweep_loop transmit pause c w classes b t = (ok, t') \<Longrightarrow>
   otx_identities t' = otx_identities t \<and> otx_sequences t' = otx_sequences t \<and> otx_reports t' = otx_reports t"
proof (induction classes arbitrary: b t)
  case (Cons ty classes)
  have burst: "send_burst transmit pause f t = (x, t1) \<Longrightarrow>
      otx_identities t1 = otx_identities t \<and> otx_sequences t1 = otx_sequences t \<and> otx_reports t1 = otx_reports t" for f x t1
    by (auto simp: send_burst_def split: prod.splits)
  show ?case
    using Cons.prems Cons.IH burst by (fastforce split: if_splits prod.splits bool.splits)
qed simp

locale frame_port =
  fixes transmit :: "'r transmit_fn" and pause :: "'r pause_fn" and sent :: "'r \<Rightarrow> (bytes \<times> u32 \<times> u16) list"
  assumes transmit_sent: "transmit f freq p r = (ok, r') \<Longrightarrow>
      sent r' = sent r @ (if ok then [(serialize f FRAME_MAX_WIRE_SIZE, freq, p)] else [])"
    and pause_sent: "sent (pause n r) = sent r"
begin

lemma burst_loop_sent:
  "burst_loop transmit pause f n i c r = (c', r') \<Longrightarrow> unat c + n < 256 \<Longrightarrow>
   \<exists>k. k \<le> n \<and> unat c' = unat c + k \<and> sent r' = sent r @ replicate k (on_air f)"
proof (induction n arbitrary: i c r)
  case (Suc n)
  obtain ok r1 where tx: "transmit f FREQ_CH2 LONG_PREAMBLE (if i > 0 then pause (unat ONEWAY_BURST_INTERVAL_MS) r else r) = (ok, r1)"
    by fastforce
  let ?c = "if ok then c + 1 else c"
  have c: "unat ?c = unat c + (if ok then 1 else 0)"
    using Suc.prems(2) unat_add_lem [of c 1] by auto
  have rest: "burst_loop transmit pause f n (Suc i) ?c r1 = (c', r')" using Suc.prems(1) tx by simp
  have "unat ?c + n < 256" using Suc.prems(2) c by auto
  from Suc.IH [OF rest this] obtain k where k: "k \<le> n" "unat c' = unat ?c + k"
    "sent r' = sent r1 @ replicate k (on_air f)" by blast
  have "sent r1 = sent r @ (if ok then [on_air f] else [])"
    using transmit_sent [OF tx] pause_sent by (simp add: on_air_def)
  then have "sent r' = sent r @ replicate (if ok then Suc k else k) (on_air f)"
    using k(3) by simp
  then show ?case using k(1,2) c by (intro exI [of _ "if ok then Suc k else k"]) simp
qed simp

lemma send_burst_sent:
  assumes "send_burst transmit pause f t = (ok, t')"
  obtains k where "k \<le> ONEWAY_BURST_REPEATS" and "ok \<longleftrightarrow> 0 < k"
    and "sent (otx_air t') = sent (otx_air t) @ replicate k (on_air f)"
    and "otx_identities t' = otx_identities t" and "otx_sequences t' = otx_sequences t"
    and "otx_reports t' = otx_reports t" and "otx_flash t' = otx_flash t"
proof -
  obtain c r where run: "burst_loop transmit pause f ONEWAY_BURST_REPEATS 0 0 (otx_air t) = (c, r)" by fastforce
  from burst_loop_sent [OF run] obtain k where "k \<le> 4" "unat c = k"
    "sent r = sent (otx_air t) @ replicate k (on_air f)" by auto
  moreover have "0 < c \<longleftrightarrow> 0 < k" using \<open>unat c = k\<close> by (simp add: word_less_nat_alt)
  ultimately show ?thesis using assms run that [of k] by (auto simp: send_burst_def)
qed

lemma oneway_send_effect:
  assumes "oneway_send transmit pause cid build intent t = (ok, t')"
  shows "command_effect sent cid build t ok t'"
proof (cases "get_identity cid (otx_identities t)")
  case None
  then show ?thesis
    using assms reported_attempt(3) [of t cid 0] by (auto simp: oneway_send_def command_effect_def)
next
  case (Some c)
  obtain v t1 where next_eq: "next_sequence (oci_node_id c) t = (v, t1)" by fastforce
  note nx = next_sequence_spec [OF next_eq]
  obtain outcome where seq: "seq_next outcome (oci_node_id c) (otx_sequences t) = (v, otx_sequences t1)" using nx(1) by blast
  show ?thesis
  proof (cases v)
    case None
    then have "t' = report_failure cid 0 False t1" "\<not> ok" using assms Some next_eq by (simp_all add: oneway_send_def)
    then show ?thesis
      using Some None seq nx reported_attempt(3) [of t1 cid 0] unfolding command_effect_def
      by (auto intro!: exI [of _ outcome])
  next
    case (Some w)
    obtain built f where b: "build empty_frame c w = (built, f)" by fastforce
    show ?thesis
    proof (cases built)
      case False
      then have "t' = report_failure cid w True t1" "\<not> ok"
        using assms \<open>get_identity cid _ = Some c\<close> next_eq Some b by (simp_all add: oneway_send_def)
      then show ?thesis
        using \<open>get_identity cid _ = Some c\<close> Some seq nx reported_attempt(2) [of t1 cid w] unfolding command_effect_def
        by (auto intro!: exI [of _ outcome] exI [of _ "Some w"])
    next
      case True
      obtain ok1 t2 where burst: "send_burst transmit pause f t1 = (ok1, t2)" by fastforce
      obtain k where k: "k \<le> 4" "ok1 \<longleftrightarrow> 0 < k" "sent (otx_air t2) = sent (otx_air t1) @ replicate k (on_air f)"
          "otx_identities t2 = otx_identities t1" "otx_sequences t2 = otx_sequences t1" "otx_reports t2 = otx_reports t1"
        using send_burst_sent [OF burst] by metis
      let ?i = "if intent = [] \<and> ofi_has_intent (decode_1w_frame f) then ofi_intent (decode_1w_frame f) else intent"
      have t': "t' = report_attempt cid ?i (oci_type c) w True ok1 t2" "ok = ok1"
        using assms \<open>get_identity cid _ = Some c\<close> next_eq Some b True burst
        by (auto simp: oneway_send_def Let_def split: if_splits)
      show ?thesis
        using t' k \<open>get_identity cid _ = Some c\<close> Some seq nx b True reported_attempt(1) [of t2 cid ?i "oci_type c" w ok1]
        unfolding command_effect_def by (auto intro!: exI [of _ outcome] exI [of _ "Some w"] exI [of _ k])
    qed
  qed
qed

lemma sweep_loop_sent:
  "sweep_loop transmit pause c w classes b t = (b', t') \<Longrightarrow>
   \<exists>adds. sent (otx_air t') = sent (otx_air t) @ adds \<and> (b' \<longleftrightarrow> b \<or> adds \<noteq> []) \<and>
     (\<forall>x \<in> set adds. \<exists>ty \<in> set classes. ty \<noteq> DT_UNKNOWN \<and> x = on_air (snd (create_1w_add_controller (oci_node_id c) ty
        (oci_manufacturer c) w (oci_system_key c) (oci_enrollment_with_mac c))))"
proof (induction classes arbitrary: b t)
  case (Cons ty classes)
  obtain built f where f: "create_1w_add_controller (oci_node_id c) ty (oci_manufacturer c) w (oci_system_key c)
      (oci_enrollment_with_mac c) = (built, f)" by fastforce
  obtain ok t1 where burst: "send_burst transmit pause f t = (ok, t1)" by fastforce
  show ?case
  proof (cases "ty = DT_UNKNOWN \<or> \<not> built")
    case True
    then have "sweep_loop transmit pause c w classes b t = (b', t')" using Cons.prems f by (auto split: if_splits)
    from Cons.IH [OF this] show ?thesis by auto
  next
    case False
    then have rest: "sweep_loop transmit pause c w classes (b \<or> ok) t1 = (b', t')" using Cons.prems f burst by simp
    obtain adds where adds: "sent (otx_air t') = sent (otx_air t1) @ adds" "b' \<longleftrightarrow> (b \<or> ok) \<or> adds \<noteq> []"
      "\<forall>x \<in> set adds. \<exists>ty \<in> set classes. ty \<noteq> DT_UNKNOWN \<and> x = on_air (snd (create_1w_add_controller (oci_node_id c) ty
        (oci_manufacturer c) w (oci_system_key c) (oci_enrollment_with_mac c)))"
      using Cons.IH [OF rest] by blast
    obtain k where k: "ok \<longleftrightarrow> 0 < k" "sent (otx_air t1) = sent (otx_air t) @ replicate k (on_air f)"
      using send_burst_sent [OF burst] by metis
    have "\<forall>x \<in> set (replicate k (on_air f)). ty \<noteq> DT_UNKNOWN \<and> x = on_air (snd (create_1w_add_controller (oci_node_id c) ty
        (oci_manufacturer c) w (oci_system_key c) (oci_enrollment_with_mac c)))"
      using False f by (simp add: set_replicate_conv_if)
    moreover have "b' \<longleftrightarrow> b \<or> replicate k (on_air f) @ adds \<noteq> []" using adds(2) k(1) by simp
    ultimately show ?thesis
      using adds(1,3) k(2) by (intro exI [of _ "replicate k (on_air f) @ adds"]) (simp add: ball_Un, blast)
  qed
qed simp

lemma enroll_sweep_sent:
  assumes "send_enroll_sweep transmit pause c classes t = (ok, t')"
  shows "\<exists>w adds. otx_identities t' = otx_identities t \<and> sent (otx_air t') = sent (otx_air t) @ adds \<and> (ok \<longleftrightarrow> adds \<noteq> []) \<and>
     (\<forall>x \<in> set adds. \<exists>ty \<in> set classes. ty \<noteq> DT_UNKNOWN \<and> x = on_air (snd (create_1w_add_controller (oci_node_id c) ty
        (oci_manufacturer c) w (oci_system_key c) (oci_enrollment_with_mac c))))"
proof -
  obtain v t1 where next_eq: "next_sequence (oci_node_id c) t = (v, t1)" by fastforce
  note nx = next_sequence_spec [OF next_eq]
  show ?thesis
  proof (cases v)
    case None
    then show ?thesis using assms next_eq nx by (auto simp: send_enroll_sweep_def)
  next
    case (Some w)
    obtain b t2 where sweep: "sweep_loop transmit pause c w classes False t1 = (b, t2)" by fastforce
    then show ?thesis
      using assms next_eq nx Some sweep_loop_sent [OF sweep] sweep_frame [OF sweep]
      by (intro exI [of _ w]) (auto simp: send_enroll_sweep_def)
  qed
qed

text \<open>What one command with the builder puts on air.\<close>

lemma send_sends:
  assumes "oneway_send transmit pause cid build intent t = (ok, t')" and "get_identity cid (otx_identities t) = Some c"
  shows "\<exists>w u. otx_identities t' = otx_identities t \<and> sent (otx_air t') = sent (otx_air t) @ u \<and>
    (\<forall>x \<in> set u. x = on_air (snd (build empty_frame c w)))"
proof -
  have eff: "command_effect sent cid build t ok t'" by (rule oneway_send_effect [OF assms(1)])
  then have ids: "otx_identities t' = otx_identities t" by (simp add: command_effect_def)
  obtain v k where v: "case v of None \<Rightarrow> sent (otx_air t') = sent (otx_air t)
      | Some w \<Rightarrow> sent (otx_air t') = sent (otx_air t) @ replicate k (on_air (snd (build empty_frame c w)))"
    using eff assms(2) unfolding command_effect_def by (force split: option.splits)
  show ?thesis
  proof (cases v)
    case None
    then show ?thesis using ids v by (intro exI [of _ 0] exI [of _ "[]"]) simp
  next
    case (Some w)
    then show ?thesis using ids v
      by (intro exI [of _ w] exI [of _ "replicate k (on_air (snd (build empty_frame c w)))"]) auto
  qed
qed

end

section \<open>The engine's transmission\<close>

text \<open>The hub injects its own \<open>transmit_frame_\<close>, which is the one of the exchange engine.\<close>

definition engine_transmit :: "exchange_env \<Rightarrow> (radio \<times> engine_log) transmit_fn" where
  "engine_transmit env f freq p s =
     (case transmit_frame env f freq p (fst s) (snd s) of (ok, r, l) \<Rightarrow> (ok, r, l))"

definition engine_pause :: "(radio \<times> engine_log) pause_fn" where
  "engine_pause n s = (delay_ms n (fst s), snd s)"

definition engine_sent :: "radio \<times> engine_log \<Rightarrow> (bytes \<times> u32 \<times> u16) list" where
  "engine_sent s = rad_sent (fst s)"

interpretation engine_port: frame_port "engine_transmit env" engine_pause engine_sent for env
proof
  fix f freq p and s s' :: "radio \<times> engine_log" and ok
  assume "engine_transmit env f freq p s = (ok, s')"
  then have "transmit_frame env f freq p (fst s) (snd s) = (ok, fst s', snd s')"
    by (auto simp: engine_transmit_def split: prod.splits)
  from transmit_frame_sent [OF this]
  show "engine_sent s' = engine_sent s @ (if ok then [(serialize f FRAME_MAX_WIRE_SIZE, freq, p)] else [])"
    by (simp add: engine_sent_def)
qed (simp add: engine_sent_def engine_pause_def delay_ms_def)

lemma seq_next_some:
  assumes "seq_next outcome n s = (Some w, s')"
  shows "seq_peek n s = Some w" and "seq_peek n s' = Some (w + 1)"
proof -
  obtain c where c: "find_counter (ss_counters s) n = Some c" "sc_next c = w"
    using assms by (auto simp: seq_next_def Let_def split: option.splits prod.splits if_splits)
  show "seq_peek n s = Some w" using c by (simp add: seq_peek_def)
  show "seq_peek n s' = Some (w + 1)"
    using assms c by (auto simp: seq_next_def Let_def seq_peek_def find_update_fields [OF c(1)] split: prod.splits if_splits)
qed

text \<open>With a radio whose transmissions succeed, a burst of a frame that serializes succeeds.\<close>

lemma burst_succeeds:
  assumes "rad_tx (fst (otx_air t)) = []" and "serialize f FRAME_MAX_WIRE_SIZE \<noteq> []"
  obtains t' where "send_burst (engine_transmit env) engine_pause f t = (True, t')"
proof -
  obtain r l where "transmit_frame env f FREQ_CH2 LONG_PREAMBLE (fst (otx_air t)) (snd (otx_air t)) = (True, r, l)"
    using transmit_succeeds [OF assms] by metis
  then have tx: "engine_transmit env f FREQ_CH2 LONG_PREAMBLE (otx_air t) = (True, r, l)" by (simp add: engine_transmit_def)
  obtain c s where rest: "burst_loop (engine_transmit env) engine_pause f 3 (Suc 0) 1 (r, l) = (c, s)"
    by (rule prod.exhaust)
  from engine_port.burst_loop_sent [OF this] have "0 < c" by (auto simp: word_less_nat_alt)
  moreover have "burst_loop (engine_transmit env) engine_pause f 4 0 0 (otx_air t) = (c, s)"
    using tx rest by (simp add: eval_nat_numeral)
  ultimately show ?thesis using that by (simp add: send_burst_def)
qed

section \<open>Histories of the transmitter\<close>

text \<open>
  Any mix of commands through the hub's wiring, with reboots in between: a reboot keeps the flash and the
  configured identities and opens the counters again. The reports are what an observer keeps.
\<close>

datatype oneway_call =
    OW_Command string cover_command | OW_Position string u8 | OW_Enroll string | OW_Unenroll string | OW_Reboot

fun oneway_step ::
  "exchange_env \<Rightarrow> oneway_call \<Rightarrow> (radio \<times> engine_log) oneway_transmitter \<Rightarrow> (radio \<times> engine_log) oneway_transmitter" where
  "oneway_step env (OW_Command cid command) t = snd (send_command (engine_transmit env) engine_pause cid command t)"
| "oneway_step env (OW_Position cid position) t = snd (send_position (engine_transmit env) engine_pause cid position t)"
| "oneway_step env (OW_Enroll cid) t = snd (send_enrollment (engine_transmit env) engine_pause cid t)"
| "oneway_step env (OW_Unenroll cid) t = snd (send_unenrollment (engine_transmit env) engine_pause cid t)"
| "oneway_step env OW_Reboot t = oneway_setup (t\<lparr>otx_sequences := (otx_sequences t)\<lparr>ss_counters := []\<rparr>\<rparr>)"

definition oneway_config :: "oneway_controller_identity list \<Rightarrow> seq_config" where
  "oneway_config cs = map (\<lambda>c. (oci_node_id c, oci_initial_sequence c)) cs"

definition oneway_start ::
  "oneway_controller_identity list \<Rightarrow> persist_outcome list \<Rightarrow> radio \<times> engine_log \<Rightarrow> (radio \<times> engine_log) oneway_transmitter" where
  "oneway_start cs flash s = oneway_setup
     \<lparr>otx_identities = cs, otx_sequences = \<lparr>ss_counters = [], ss_flash = Map.empty\<rparr>, otx_flash = flash,
      otx_reports = Some [], otx_air = s\<rparr>"

text \<open>The sequences that the reports attribute to the identities with a node address.\<close>

definition spent_by :: "oneway_controller_identity list \<Rightarrow> oneway_command_report \<Rightarrow> (node_id \<times> u16) option" where
  "spent_by cs x = (if ocr_sequence_reserved x
     then map_option (\<lambda>c. (oci_node_id c, ocr_sequence x)) (get_identity (ocr_controller_id x) cs) else None)"

definition spent :: "oneway_controller_identity list \<Rightarrow> oneway_command_report list \<Rightarrow> (node_id \<times> u16) list" where
  "spent cs xs = List.map_filter (spent_by cs) xs"

lemma spent_simps [simp]:
  "spent cs [] = []"
  "spent cs (xs @ [x]) = spent cs xs @ (case spent_by cs x of Some y \<Rightarrow> [y] | None \<Rightarrow> [])"
  by (simp_all add: spent_def List.map_filter_def split: option.split)

definition mirrors ::
  "oneway_controller_identity list \<Rightarrow> (radio \<times> engine_log) oneway_transmitter \<Rightarrow> seq_store \<times> (node_id \<times> u16) list \<Rightarrow> bool" where
  "mirrors cs t st \<longleftrightarrow> otx_identities t = cs \<and> otx_sequences t = fst st \<and>
     (\<exists>xs. otx_reports t = Some xs \<and> spent cs xs = snd st)"

definition sends :: "nat \<Rightarrow> seq_event list \<Rightarrow> bool" where
  "sends n es \<longleftrightarrow> length es \<le> n \<and> list_all event_node_ok es \<and> reboots es = 0"

text \<open>One logical command is at most one event of the sequence store.\<close>

lemma reservation_mirrors:
  assumes "mirrors cs t (s, hist)" and "get_identity cid cs = Some c" and "length (oci_node_id c) = NODE_ID_SIZE"
    and "otx_identities t' = cs" and "seq_next outcome (oci_node_id c) (otx_sequences t) = (v, otx_sequences t')"
    and "reported (otx_reports t) (otx_reports t') cid v ok"
  shows "mirrors cs t' (seq_exec (oneway_config cs) (Next outcome (oci_node_id c)) (s, hist))"
proof -
  obtain xs where xs: "otx_reports t = Some xs" "spent cs xs = hist" "otx_sequences t = s"
    using assms(1) by (auto simp: mirrors_def)
  then obtain x where x: "otx_reports t' = Some (xs @ [x])" "ocr_controller_id x = cid"
      "ocr_sequence_reserved x = (v \<noteq> None)" "\<forall>w. v = Some w \<longrightarrow> ocr_sequence x = w"
    using assms(6) by (auto simp: reported_def)
  have "spent_by cs x = map_option (\<lambda>w. (oci_node_id c, w)) v"
    using x assms(2) by (cases v) (auto simp: spent_by_def)
  then show ?thesis
    using xs x(1) assms(4,5) by (cases v) (auto simp: mirrors_def)
qed

lemma unresolved_mirrors:
  assumes "mirrors cs t st" and "otx_identities t' = cs" and "otx_sequences t' = otx_sequences t"
    and "reported (otx_reports t) (otx_reports t') cid None ok"
  shows "mirrors cs t' st"
proof -
  obtain xs where xs: "otx_reports t = Some xs" "spent cs xs = snd st" using assms(1) by (auto simp: mirrors_def)
  then obtain x where "otx_reports t' = Some (xs @ [x])" "\<not> ocr_sequence_reserved x"
    using assms(4) by (auto simp: reported_def)
  then show ?thesis using assms xs by (auto simp: mirrors_def spent_by_def)
qed

definition nodes_ok :: "oneway_controller_identity list \<Rightarrow> bool" where
  "nodes_ok cs \<longleftrightarrow> (\<forall>c \<in> set cs. length (oci_node_id c) = NODE_ID_SIZE)"

lemma effect_mirrors:
  assumes "mirrors cs t st" and "nodes_ok cs" and "command_effect sent cid build t ok t'"
  shows "\<exists>es. sends 1 es \<and> mirrors cs t' (fold (seq_exec (oneway_config cs)) es st)"
proof (cases "get_identity cid cs")
  case None
  then have "otx_identities t' = cs" "otx_sequences t' = otx_sequences t" "reported (otx_reports t) (otx_reports t') cid None False"
    using assms(1,3) by (auto simp: command_effect_def mirrors_def)
  from unresolved_mirrors [OF assms(1) this] show ?thesis
    by (intro exI [of _ "[]"]) (simp add: sends_def reboots_def)
next
  case (Some c)
  have cs: "otx_identities t = cs" using assms(1) by (simp add: mirrors_def)
  obtain outcome v where "otx_identities t' = cs"
    "seq_next outcome (oci_node_id c) (otx_sequences t) = (v, otx_sequences t')"
    "reported (otx_reports t) (otx_reports t') cid v ok"
    using assms(3) Some cs unfolding command_effect_def by auto
  moreover have len: "length (oci_node_id c) = NODE_ID_SIZE"
    using assms(2) get_identity_own [OF Some] by (simp add: nodes_ok_def)
  ultimately have "mirrors cs t' (seq_exec (oneway_config cs) (Next outcome (oci_node_id c)) (fst st, snd st))"
    using reservation_mirrors [of cs t "fst st" "snd st", OF _ Some] assms(1) by simp
  then show ?thesis using len
    by (intro exI [of _ "[Next outcome (oci_node_id c)]"]) (simp add: sends_def reboots_def)
qed

text \<open>Two parts of one call, one after the other.\<close>

lemma mirrors_trans:
  assumes "\<exists>es. sends m es \<and> mirrors cs t1 (fold f es st)"
    and "\<And>st. mirrors cs t1 st \<Longrightarrow> \<exists>es. sends n es \<and> mirrors cs t2 (fold f es st)"
  shows "\<exists>es. sends (m + n) es \<and> mirrors cs t2 (fold f es st)"
proof -
  obtain es where "sends m es" "mirrors cs t1 (fold f es st)" using assms(1) by blast
  moreover obtain es' where "sends n es'" "mirrors cs t2 (fold f es' (fold f es st))" using assms(2) calculation(2) by blast
  ultimately show ?thesis by (intro exI [of _ "es @ es'"]) (simp add: sends_def reboots_def)
qed

lemma mirrors_mono:
  "\<exists>es. sends m es \<and> mirrors cs t (fold f es st) \<Longrightarrow> m \<le> n \<Longrightarrow> \<exists>es. sends n es \<and> mirrors cs t (fold f es st)"
  by (auto simp: sends_def intro: order_trans)

lemma sweep_mirrors:
  assumes "mirrors cs t st" and "nodes_ok cs" and "get_identity (oci_id c) cs = Some c"
    and "send_enroll_sweep transmit pause c classes t = (ok, t')"
  shows "\<exists>es. sends 1 es \<and> mirrors cs t' (fold (seq_exec (oneway_config cs)) es st)"
proof -
  obtain v t1 where next_eq: "next_sequence (oci_node_id c) t = (v, t1)" by fastforce
  note nx = next_sequence_spec [OF next_eq]
  obtain outcome where seq: "seq_next outcome (oci_node_id c) (otx_sequences t) = (v, otx_sequences t1)" using nx(1) by blast
  have "otx_identities t' = cs \<and> otx_sequences t' = otx_sequences t1 \<and> reported (otx_reports t) (otx_reports t') (oci_id c) v ok"
  proof (cases v)
    case None
    then show ?thesis
      using assms(1,4) next_eq nx reported_attempt(3) [of t1 "oci_id c" 0] by (auto simp: send_enroll_sweep_def mirrors_def)
  next
    case (Some w)
    obtain b t2 where sweep: "sweep_loop transmit pause c w classes False t1 = (b, t2)" by fastforce
    then show ?thesis
      using assms(1,4) next_eq nx Some sweep_frame [OF sweep] reported_attempt(1) [of t2 "oci_id c" "''ENROLL''" "oci_type c" w b]
      by (auto simp: send_enroll_sweep_def mirrors_def)
  qed
  moreover have "length (oci_node_id c) = NODE_ID_SIZE"
    using assms(2) get_identity_own [OF assms(3)] by (simp add: nodes_ok_def)
  ultimately have "mirrors cs t' (seq_exec (oneway_config cs) (Next outcome (oci_node_id c)) (fst st, snd st))"
    using assms(1) seq by (intro reservation_mirrors [OF _ assms(3), of t _ _ t' outcome v ok]) auto
  then show ?thesis using \<open>length _ = _\<close>
    by (intro exI [of _ "[Next outcome (oci_node_id c)]"]) (simp add: sends_def reboots_def)
qed

text \<open>Every call is at most four events of the store, a reboot exactly its reboot.\<close>

lemma send_mirrors:
  assumes "mirrors cs t st" and "nodes_ok cs"
    and "oneway_send (engine_transmit env) engine_pause cid build intent t = (ok, t')"
  shows "\<exists>es. sends 1 es \<and> mirrors cs t' (fold (seq_exec (oneway_config cs)) es st)"
  by (rule effect_mirrors [OF assms(1,2) engine_port.oneway_send_effect [OF assms(3)]])

lemma somfy_mirrors:
  assumes "mirrors cs t st" and "nodes_ok cs" and "send_somfy_enrollment (engine_transmit env) engine_pause c t = (ok, t')"
  shows "\<exists>es. sends 2 es \<and> mirrors cs t' (fold (seq_exec (oneway_config cs)) es st)"
proof -
  obtain a t1 where s1: "oneway_send (engine_transmit env) engine_pause (oci_id c) (remove_builder oci_type) ''UNENROLL'' t = (a, t1)"
    by fastforce
  have s2: "oneway_send (engine_transmit env) engine_pause (oci_id c) add_builder ''ENROLL'' t1 = (ok, t')"
    using assms(3) s1 by (simp add: send_somfy_enrollment_def)
  show ?thesis
    using mirrors_trans [OF send_mirrors [OF assms(1,2) s1] send_mirrors [OF _ assms(2) s2]] by (simp add: numeral_2_eq_2)
qed

lemma velux_mirrors:
  assumes "mirrors cs t st" and "nodes_ok cs" and "get_identity (oci_id c) cs = Some c"
    and "send_velux_kli_enrollment (engine_transmit env) engine_pause c t = (ok, t')"
  shows "\<exists>es. sends 4 es \<and> mirrors cs t' (fold (seq_exec (oneway_config cs)) es st)"
proof -
  let ?send = "oneway_send (engine_transmit env) engine_pause (oci_id c)"
  obtain a t1 where s1: "?send (remove_builder (\<lambda>_. DT_UNKNOWN)) ''UNENROLL'' t = (a, t1)" by fastforce
  obtain b t2 where s2: "send_enroll_sweep (engine_transmit env) engine_pause c (effective_enrollment_classes c) t1 = (b, t2)" by fastforce
  obtain d t3 where s3: "?send (enroll_stop_builder (effective_execute_acei c)) ''ENROLL STOP'' t2 = (d, t3)" by fastforce
  obtain e t4 where s4: "?send (enroll_down_builder (effective_execute_acei c)) ''ENROLL DOWN'' t3 = (e, t4)" by fastforce
  note m12 = mirrors_trans [OF send_mirrors [OF assms(1,2) s1] sweep_mirrors [OF _ assms(2,3) s2]]
  show ?thesis
  proof (cases b)
    case False
    then have "t' = t2" using assms(4) s1 s2 by (simp add: send_velux_kli_enrollment_def)
    then show ?thesis using mirrors_mono [OF m12, of 4] by simp
  next
    case True
    then have "t' = t4" using assms(4) s1 s2 s3 s4 by (simp add: send_velux_kli_enrollment_def Let_def)
    then show ?thesis
      using mirrors_trans [OF mirrors_trans [OF m12 send_mirrors [OF _ assms(2) s3]] send_mirrors [OF _ assms(2) s4]]
      by (simp add: eval_nat_numeral)
  qed
qed

lemma step_mirrors:
  assumes "mirrors cs t st" and "nodes_ok cs"
  shows "\<exists>es. mirrors cs (oneway_step env call t) (fold (seq_exec (oneway_config cs)) es st) \<and> length es \<le> 4 \<and>
    list_all event_node_ok es \<and> reboots es = (if call = OW_Reboot then 1 else 0)"
proof -
  have one: "\<exists>es. mirrors cs (snd (oneway_send (engine_transmit env) engine_pause cid build intent t))
      (fold (seq_exec (oneway_config cs)) es st) \<and> length es \<le> 4 \<and> list_all event_node_ok es \<and> reboots es = 0"
    for cid build intent
    using mirrors_mono [OF send_mirrors [OF assms surjective_pairing], of 4 env cid build intent] by (auto simp: sends_def)
  show ?thesis
  proof (cases call)
    case (OW_Command cid command)
    then show ?thesis using one by (simp add: send_command_def)
  next
    case (OW_Position cid position)
    then show ?thesis using one by (simp add: send_position_def)
  next
    case (OW_Unenroll cid)
    then show ?thesis using one by (simp add: send_unenrollment_def)
  next
    case OW_Reboot
    have "otx_sequences (oneway_step env call t) = boot (oneway_config cs) (fst st)"
      using assms(1) OW_Reboot by (simp add: oneway_setup_def boot_def oneway_config_def mirrors_def fold_map comp_def)
    then have "mirrors cs (oneway_step env call t) (seq_exec (oneway_config cs) Reboot st)"
      using assms(1) OW_Reboot by (cases st) (auto simp: mirrors_def oneway_setup_def)
    then show ?thesis using OW_Reboot by (intro exI [of _ "[Reboot]"]) (simp add: reboots_def)
  next
    case (OW_Enroll cid)
    have cs: "otx_identities t = cs" using assms(1) by (simp add: mirrors_def)
    let ?t = "oneway_step env call t"
    have "\<exists>es. sends 4 es \<and> mirrors cs ?t (fold (seq_exec (oneway_config cs)) es st)"
    proof (cases "get_identity cid cs")
      case None
      then have "otx_identities ?t = cs" "otx_sequences ?t = otx_sequences t"
          "reported (otx_reports t) (otx_reports ?t) cid None False"
        using OW_Enroll cs reported_attempt(3) [of t cid 0] by (simp_all add: send_enrollment_def)
      from unresolved_mirrors [OF assms(1) this] show ?thesis
        by (intro exI [of _ "[]"]) (simp add: sends_def reboots_def)
    next
      case (Some c)
      have own: "get_identity (oci_id c) cs = Some c" using get_identity_own [OF Some] Some by simp
      show ?thesis
      proof (cases "owp_enroll_gesture (resolve_oneway_wire_profile (oci_manufacturer c)) = EG_VELUX_KLI")
        case True
        then have "?t = snd (send_velux_kli_enrollment (engine_transmit env) engine_pause c t)"
          using OW_Enroll Some cs by (simp add: send_enrollment_def)
        then show ?thesis using velux_mirrors [OF assms own surjective_pairing] by metis
      next
        case False
        then have "?t = snd (send_somfy_enrollment (engine_transmit env) engine_pause c t)"
          using OW_Enroll Some cs by (simp add: send_enrollment_def)
        then show ?thesis using mirrors_mono [OF somfy_mirrors [OF assms surjective_pairing], of 4] by auto
      qed
    qed
    then show ?thesis using OW_Enroll by (auto simp: sends_def)
  qed
qed

lemma history_mirrors:
  assumes "mirrors cs t st" and "nodes_ok cs"
  shows "\<exists>es. mirrors cs (fold (oneway_step env) calls t) (fold (seq_exec (oneway_config cs)) es st) \<and>
    length es \<le> 4 * length calls \<and> list_all event_node_ok es \<and> reboots es = length (filter (\<lambda>c. c = OW_Reboot) calls)"
  using assms(1)
proof (induction calls arbitrary: t st)
  case Nil
  then show ?case by (intro exI [of _ "[]"]) (simp add: reboots_def)
next
  case (Cons call calls)
  obtain es where es: "mirrors cs (oneway_step env call t) (fold (seq_exec (oneway_config cs)) es st)"
    "length es \<le> 4" "list_all event_node_ok es" "reboots es = (if call = OW_Reboot then 1 else 0)"
    using step_mirrors [OF Cons.prems assms(2)] by blast
  obtain es' where "mirrors cs (fold (oneway_step env) calls (oneway_step env call t))
      (fold (seq_exec (oneway_config cs)) es' (fold (seq_exec (oneway_config cs)) es st))"
    "length es' \<le> 4 * length calls" "list_all event_node_ok es'" "reboots es' = length (filter (\<lambda>c. c = OW_Reboot) calls)"
    using Cons.IH [OF es(1)] by blast
  then show ?case using es
    by (intro exI [of _ "es @ es'"]) (auto simp: reboots_def)
qed

lemma start_mirrors:
  "mirrors cs (oneway_start cs flash s) (boot (oneway_config cs) \<lparr>ss_counters = [], ss_flash = Map.empty\<rparr>, [])"
  by (simp add: mirrors_def oneway_start_def oneway_setup_def boot_def oneway_config_def fold_map comp_def)

section \<open>Properties\<close>

definition demo_controller :: "u8 \<Rightarrow> oneway_controller_identity" where
  "demo_controller manufacturer =
     \<lparr>oci_id = ''awning'', oci_node_id = [1, 2, 3], oci_system_key = replicate 16 7, oci_manufacturer = manufacturer,
      oci_type = DT_AWNING, oci_initial_sequence = 100, oci_node_id_derived = False, oci_enrollment_with_mac = False,
      oci_execute_acei = 0, oci_execute_broadcast_all = False, oci_enrollment_classes = no_classes\<rparr>"



text \<open>A one-way command is one sequence and one frame. A command that succeeds spends exactly the next sequence
  of its identity, and puts between one and four identical copies of the frame built with that sequence on
  air and nothing else; a command that fails puts nothing on air.\<close>

theorem oneway_command_spends_one_sequence:
  assumes "oneway_send (engine_transmit env) engine_pause cid build intent t = (ok, t')"
  shows "if ok then \<exists>c w k. get_identity cid (otx_identities t) = Some c \<and>
       seq_peek (oci_node_id c) (otx_sequences t) = Some w \<and> seq_peek (oci_node_id c) (otx_sequences t') = Some (w + 1) \<and>
       fst (build empty_frame c w) \<and> 1 \<le> k \<and> k \<le> ONEWAY_BURST_REPEATS \<and>
       engine_sent (otx_air t') = engine_sent (otx_air t) @ replicate k (on_air (snd (build empty_frame c w)))
     else engine_sent (otx_air t') = engine_sent (otx_air t)"
proof -
  have eff: "command_effect engine_sent cid build t ok t'" by (rule engine_port.oneway_send_effect [OF assms])
  show ?thesis
  proof (cases ok)
    case False
    then show ?thesis using eff by (auto simp: command_effect_def split: option.splits)
  next
    case True
    then obtain c outcome v k where c: "get_identity cid (otx_identities t) = Some c"
      and seq: "seq_next outcome (oci_node_id c) (otx_sequences t) = (v, otx_sequences t')" and k: "0 < k" "k \<le> 4"
      and v: "case v of None \<Rightarrow> k = 0 | Some w \<Rightarrow> fst (build empty_frame c w) \<and>
          engine_sent (otx_air t') = engine_sent (otx_air t) @ replicate k (on_air (snd (build empty_frame c w)))"
      using eff by (auto simp: command_effect_def split: option.splits)
    then obtain w where w: "v = Some w" by (cases v) auto
    have "seq_peek (oci_node_id c) (otx_sequences t) = Some w" "seq_peek (oci_node_id c) (otx_sequences t') = Some (w + 1)"
      using seq_next_some [of outcome "oci_node_id c" "otx_sequences t" w "otx_sequences t'"] seq w by simp_all
    then show ?thesis using True c k v w
      by (intro iffD2 [OF if_P] exI [of _ c] exI [of _ w] exI [of _ k]) auto
  qed
qed

theorem oneway_command_spends_one_sequence_witness:
  "\<exists>ok t'. send_position (engine_transmit demo_env) engine_pause ''awning'' 100
       (oneway_start [demo_controller 2] [] (demo_radio [], demo_log)) = (ok, t') \<and>
     (ok \<longrightarrow> seq_peek [1, 2, 3] (otx_sequences t') = Some 101)"
proof -
  let ?t = "oneway_start [demo_controller 2] [] (demo_radio [], demo_log)"
  obtain ok t' where run: "send_position (engine_transmit demo_env) engine_pause ''awning'' 100 ?t = (ok, t')" by fastforce
  have ids: "get_identity ''awning'' (otx_identities ?t) = Some (demo_controller 2)"
    by (simp add: oneway_start_def oneway_setup_def get_identity_def demo_controller_def)
  have peek: "seq_peek [1, 2, 3] (otx_sequences ?t) = Some 100"
    by (simp add: oneway_start_def oneway_setup_def seq_peek_def add_identity_def demo_controller_def find_counter_def)
  have "oci_node_id (demo_controller 2) = [1, 2, 3]" by (simp add: demo_controller_def)
  then show ?thesis
    using oneway_command_spends_one_sequence [OF run [unfolded send_position_def]] run ids peek by (auto split: if_splits)
qed

text \<open>A one-way position reaches every listener unchanged. Whatever a position command puts on air parses at a
  receiver, comes from the identity's address, resolves to the commanded position except for the value that
  shares its byte with force-open, and carries the authenticator of the identity's own key over the next
  sequence.\<close>

theorem oneway_position_reaches_listener:
  assumes "send_position (engine_transmit env) engine_pause cid position t = (True, t')"
    and "get_identity cid (otx_identities t) = Some c" and "length (oci_node_id c) = NODE_ID_SIZE"
    and "length (oci_system_key c) = AES_KEY_SIZE" and "device_type_ok (oci_type c)" and "position \<le> POSITION_PERCENT_MAX"
  shows "\<exists>w f k. seq_peek (oci_node_id c) (otx_sequences t) = Some w \<and> 1 \<le> k \<and>
    engine_sent (otx_air t') = engine_sent (otx_air t) @ replicate k (on_air f) \<and>
    parse (serialize f FRAME_MAX_WIRE_SIZE) = Some f \<and> src f = oci_node_id c \<and>
    oneway_intent_to_target (ofi_main0 (decode_1w_frame f)) (ofi_main1 (decode_1w_frame f)) =
      (if position = 50 then None else Some (of_nat (unat position))) \<and>
    drop 8 (payload f) = create_1w_hmac (cmd f # take 6 (payload f)) w (oci_system_key c)"
proof -
  have eff: "command_effect engine_sent cid (position_builder position) t True t'"
    using engine_port.oneway_send_effect assms(1) by (simp add: send_position_def)
  then obtain outcome w k where seq: "seq_next outcome (oci_node_id c) (otx_sequences t) = (Some w, otx_sequences t')"
    and k: "0 < k" "engine_sent (otx_air t') = engine_sent (otx_air t) @ replicate k (on_air (snd (position_builder position empty_frame c w)))"
    using assms(2) by (auto simp: command_effect_def split: option.splits)
  obtain ok f where b: "position_builder position empty_frame c w = (ok, f)" by fastforce
  let ?type = "if oci_execute_broadcast_all c then DT_UNKNOWN else oci_type c"
  have type: "device_type_ok ?type" using assms(5) by (simp add: device_type_ok_def)
  have pos: "\<not> position > 100" using assms(6) by simp
  have built: "create_1w_execute_position empty_frame (oci_node_id c) ?type position w (oci_system_key c)
      (effective_execute_acei c) False = (ok, f)"
    using b pos by (simp add: position_builder_def create_1w_execute_position_def build_1w_execute_def Let_def)
  note d = oneway_position_decodes [OF assms(3,4,6) type built]
  have "transmittable (ok, f)"
    using oneway_transmittable(1) [OF assms(3,4,6)] built by metis
  then have "parse (serialize f FRAME_MAX_WIRE_SIZE) = Some f" by (simp add: transmittable_def)
  moreover have "src f = oci_node_id c" using d by (simp add: decode_1w_frame_def Let_def split: if_splits)
  ultimately show ?thesis
    using d k b seq_next_some(1) [OF seq] by (intro exI [of _ w] exI [of _ f] exI [of _ k]) auto
qed

theorem oneway_position_reaches_listener_witness:
  "\<exists>t'. send_position (engine_transmit demo_env) engine_pause ''awning'' 100
       (oneway_start [demo_controller 2] [] (demo_radio [], demo_log)) = (True, t') \<and>
     (\<exists>f. parse (serialize f FRAME_MAX_WIRE_SIZE) = Some f \<and> src f = [1, 2, 3] \<and>
        oneway_intent_to_target (ofi_main0 (decode_1w_frame f)) (ofi_main1 (decode_1w_frame f)) = Some 100)"
proof -
  let ?c = "demo_controller 2" and ?t = "oneway_start [demo_controller 2] [] (demo_radio [], demo_log)"
  have c: "length (oci_node_id ?c) = 3" "length (oci_system_key ?c) = 16" "device_type_ok (oci_type ?c)" "oci_node_id ?c = [1, 2, 3]"
    by (simp_all add: demo_controller_def device_type_ok_def)
  have ids: "get_identity ''awning'' (otx_identities ?t) = Some ?c"
    by (simp add: oneway_start_def oneway_setup_def get_identity_def demo_controller_def)
  obtain w s where seq: "seq_next Persisted [1, 2, 3] (otx_sequences ?t) = (Some w, s)"
    by (simp add: oneway_start_def oneway_setup_def seq_next_def add_identity_def demo_controller_def find_counter_def)
  let ?t1 = "?t\<lparr>otx_sequences := s, otx_flash := tl (otx_flash ?t)\<rparr>"
  have nx: "next_sequence (oci_node_id ?c) ?t = (Some w, ?t1)"
    using seq by (simp add: next_sequence_def c(4) oneway_start_def oneway_setup_def)
  have tr: "transmittable (position_builder 100 empty_frame ?c w)"
    using oneway_transmittable(1) [OF c(1,2)] by (simp add: position_builder_def)
  then obtain f where f: "position_builder 100 empty_frame ?c w = (True, f)" "serialize f FRAME_MAX_WIRE_SIZE \<noteq> []"
    by (cases "position_builder 100 empty_frame ?c w") (auto simp: transmittable_def)
  have "rad_tx (fst (otx_air ?t1)) = []" by (simp add: oneway_start_def oneway_setup_def demo_radio_def)
  then obtain t2 where "send_burst (engine_transmit demo_env) engine_pause f ?t1 = (True, t2)"
    by (rule burst_succeeds [OF _ f(2)])
  then obtain t' where run: "send_position (engine_transmit demo_env) engine_pause ''awning'' 100 ?t = (True, t')"
    using ids nx f(1) by (simp add: send_position_def oneway_send_def Let_def)
  from oneway_position_reaches_listener [OF run ids c(1,2,3)] obtain g where
    "parse (serialize g FRAME_MAX_WIRE_SIZE) = Some g" "src g = oci_node_id ?c"
    "oneway_intent_to_target (ofi_main0 (decode_1w_frame g)) (ofi_main1 (decode_1w_frame g)) = Some 100" by auto
  then show ?thesis using run c(4) by auto
qed

text \<open>The VELUX enrollment closes nothing it has not registered. The gesture puts a removal on air, then the
  add-controller sweep, then STOP and DOWN, and these last two, which move every device that holds the key,
  only when at least one frame of the sweep went out before them. All frames of the sweep carry one sequence
  and go to the effective classes, and the result is true exactly if one was sent.\<close>

theorem velux_follow_up_only_after_sweep:
  assumes "send_enrollment (engine_transmit env) engine_pause cid t = (ok, t')"
    and "get_identity cid (otx_identities t) = Some c" and "oci_manufacturer c = MANUFACTURER_VELUX"
  shows "\<exists>removal sweep follow_up w1 w2 w3 w4.
    engine_sent (otx_air t') = engine_sent (otx_air t) @ removal @ sweep @ follow_up \<and>
    (\<forall>x \<in> set removal. x = on_air (snd (create_1w_remove_controller (oci_node_id c) DT_UNKNOWN w1 (oci_system_key c)))) \<and>
    (\<forall>x \<in> set sweep. \<exists>ty \<in> set (effective_enrollment_classes c). ty \<noteq> DT_UNKNOWN \<and> x = on_air (snd (create_1w_add_controller
        (oci_node_id c) ty (oci_manufacturer c) w2 (oci_system_key c) (oci_enrollment_with_mac c)))) \<and>
    (\<forall>x \<in> set follow_up. x = on_air (snd (enroll_stop_builder (effective_execute_acei c) empty_frame c w3)) \<or>
        x = on_air (snd (enroll_down_builder (effective_execute_acei c) empty_frame c w4))) \<and>
    (ok \<longleftrightarrow> sweep \<noteq> []) \<and> (sweep = [] \<longrightarrow> follow_up = [])"
proof -
  let ?send = "oneway_send (engine_transmit env) engine_pause (oci_id c)"
  let ?sent = "\<lambda>t. engine_sent (otx_air t)"
  have own: "get_identity (oci_id c) (otx_identities t) = Some c" using get_identity_own [OF assms(2)] assms(2) by simp
  have gesture: "send_velux_kli_enrollment (engine_transmit env) engine_pause c t = (ok, t')"
    using assms by (simp add: send_enrollment_def resolve_oneway_wire_profile_def)
  obtain a t1 where s1: "?send (remove_builder (\<lambda>_. DT_UNKNOWN)) ''UNENROLL'' t = (a, t1)" by fastforce
  obtain b t2 where s2: "send_enroll_sweep (engine_transmit env) engine_pause c (effective_enrollment_classes c) t1 = (b, t2)" by fastforce
  obtain d t3 where s3: "?send (enroll_stop_builder (effective_execute_acei c)) ''ENROLL STOP'' t2 = (d, t3)" by fastforce
  obtain e t4 where s4: "?send (enroll_down_builder (effective_execute_acei c)) ''ENROLL DOWN'' t3 = (e, t4)" by fastforce
  obtain w1 u1 where p1: "otx_identities t1 = otx_identities t" "?sent t1 = ?sent t @ u1"
      "\<forall>x \<in> set u1. x = on_air (snd (remove_builder (\<lambda>_. DT_UNKNOWN) empty_frame c w1))"
    using engine_port.send_sends [OF s1 own] by blast
  obtain w2 u2 where p2: "otx_identities t2 = otx_identities t1" "?sent t2 = ?sent t1 @ u2" "b \<longleftrightarrow> u2 \<noteq> []"
      "\<forall>x \<in> set u2. \<exists>ty \<in> set (effective_enrollment_classes c). ty \<noteq> DT_UNKNOWN \<and> x = on_air (snd (create_1w_add_controller
        (oci_node_id c) ty (oci_manufacturer c) w2 (oci_system_key c) (oci_enrollment_with_mac c)))"
    using engine_port.enroll_sweep_sent [OF s2] by blast
  have own2: "get_identity (oci_id c) (otx_identities t2) = Some c" using own p1(1) p2(1) by simp
  obtain w3 u3 where p3: "otx_identities t3 = otx_identities t2" "?sent t3 = ?sent t2 @ u3"
      "\<forall>x \<in> set u3. x = on_air (snd (enroll_stop_builder (effective_execute_acei c) empty_frame c w3))"
    using engine_port.send_sends [OF s3 own2] by blast
  have own3: "get_identity (oci_id c) (otx_identities t3) = Some c" using own2 p3(1) by simp
  obtain w4 u4 where p4: "?sent t4 = ?sent t3 @ u4"
      "\<forall>x \<in> set u4. x = on_air (snd (enroll_down_builder (effective_execute_acei c) empty_frame c w4))"
    using engine_port.send_sends [OF s4 own3] by blast
  have removal: "\<forall>x \<in> set u1. x = on_air (snd (create_1w_remove_controller (oci_node_id c) DT_UNKNOWN w1 (oci_system_key c)))"
    using p1(3) by (simp add: remove_builder_def)
  show ?thesis
  proof (cases b)
    case False
    then have "t' = t2" "\<not> ok" using gesture s1 s2 by (simp_all add: send_velux_kli_enrollment_def)
    then show ?thesis using False p1 p2 removal
      by (intro exI [of _ u1] exI [of _ u2] exI [of _ "[]"] exI [of _ w1] exI [of _ w2]) simp
  next
    case True
    then have "t' = t4" "ok" using gesture s1 s2 s3 s4 by (simp_all add: send_velux_kli_enrollment_def Let_def)
    moreover have "?sent t4 = ?sent t @ u1 @ u2 @ u3 @ u4" using p1(2) p2(2) p3(2) p4(1) by simp
    moreover have "\<forall>x \<in> set (u3 @ u4). x = on_air (snd (enroll_stop_builder (effective_execute_acei c) empty_frame c w3)) \<or>
        x = on_air (snd (enroll_down_builder (effective_execute_acei c) empty_frame c w4))"
      unfolding set_append using p3(3) p4(2) by blast
    ultimately show ?thesis using True p2(3,4) removal by blast
  qed
qed

theorem velux_follow_up_only_after_sweep_witness:
  "\<exists>ok t' removal sweep follow_up. send_enrollment (engine_transmit demo_env) engine_pause ''awning''
       (oneway_start [demo_controller 1] [] (demo_radio [], demo_log)) = (ok, t') \<and>
     engine_sent (otx_air t') = removal @ sweep @ follow_up \<and> (ok \<longleftrightarrow> sweep \<noteq> []) \<and> (sweep = [] \<longrightarrow> follow_up = [])"
proof -
  let ?t = "oneway_start [demo_controller 1] [] (demo_radio [], demo_log)"
  obtain ok t' where run: "send_enrollment (engine_transmit demo_env) engine_pause ''awning'' ?t = (ok, t')" by fastforce
  have ids: "get_identity ''awning'' (otx_identities ?t) = Some (demo_controller 1)"
    by (simp add: oneway_start_def oneway_setup_def get_identity_def demo_controller_def)
  have "oci_manufacturer (demo_controller 1) = MANUFACTURER_VELUX" by (simp add: demo_controller_def)
  from velux_follow_up_only_after_sweep [OF run ids this] obtain removal sweep follow_up where
    "engine_sent (otx_air t') = engine_sent (otx_air ?t) @ removal @ sweep @ follow_up"
    "ok \<longleftrightarrow> sweep \<noteq> []" "sweep = [] \<longrightarrow> follow_up = []" by blast
  moreover have "engine_sent (otx_air ?t) = []"
    by (simp add: oneway_start_def oneway_setup_def engine_sent_def demo_radio_def)
  ultimately show ?thesis using run by auto
qed

end
