(* ===== verification/Key_Extraction.thy ===== *)
theory Key_Extraction
  imports Exchange Registry
begin

text \<open>
  The device-role responder that recovers the system key of a foreign hub: its pure decisions
  (\<open>pairing_responder.h\<close>, \<open>pairing_responder.cpp\<close>) and the hub's wiring around them
  (\<open>hub_key_extraction.cpp\<close>, \<open>hub_core.h\<close>, \<open>hub_internal.h\<close>) with its two timers, the channel hold and
  the report. Timers are deadlines on the unbounded clock; scheduling one replaces the pending one of
  the same name. Random numbers (throwaway addresses, challenges) are arguments. Log lines other than
  the report of the key are left out.
\<close>

section \<open>The responder's decisions\<close>

datatype responder_state =
    RS_DISARMED | RS_ARMED_IDLE | RS_SENT_DISCOVER_RESP | RS_SENT_CONFIRM_ACK | RS_SENT_CHALLENGE | RS_EXTRACTED
  | RS_SENT_ADDRESS_RESP

fun responder_stage_name :: "responder_state \<Rightarrow> string" where
  "responder_stage_name RS_DISARMED = ''disarmed''"
| "responder_stage_name RS_ARMED_IDLE = ''armed_idle''"
| "responder_stage_name RS_SENT_DISCOVER_RESP = ''sent_discover_resp''"
| "responder_stage_name RS_SENT_CONFIRM_ACK = ''sent_confirm_ack''"
| "responder_stage_name RS_SENT_CHALLENGE = ''sent_challenge''"
| "responder_stage_name RS_EXTRACTED = ''extracted''"
| "responder_stage_name RS_SENT_ADDRESS_RESP = ''sent_address_resp''"

record responder_context =
  rc_state :: responder_state
  rc_throwaway_id :: node_id
  rc_advertised_type :: device_type
  rc_advertised_subtype :: u8
  rc_challenge :: bytes
  rc_hub_node_id :: node_id
  rc_recovered_key :: bytes

definition new_responder_context :: responder_context where
  "new_responder_context =
     \<lparr>rc_state = RS_DISARMED, rc_throwaway_id = [0, 0, 0], rc_advertised_type = DT_UNKNOWN, rc_advertised_subtype = 0,
      rc_challenge = replicate HMAC_SIZE 0, rc_hub_node_id = [0, 0, 0], rc_recovered_key = replicate AES_KEY_SIZE 0\<rparr>"

definition on_discover_request :: "responder_context \<Rightarrow> node_id \<Rightarrow> bool \<times> responder_context" where
  "on_discover_request ctx hub =
     (if rc_state ctx = RS_ARMED_IDLE \<or> rc_state ctx = RS_SENT_DISCOVER_RESP
      then (True, ctx\<lparr>rc_state := RS_SENT_DISCOVER_RESP\<rparr>)
      else if rc_state ctx = RS_EXTRACTED \<or> rc_state ctx = RS_SENT_ADDRESS_RESP
      then (if hub \<noteq> rc_hub_node_id ctx then (False, ctx) else (True, ctx\<lparr>rc_state := RS_SENT_DISCOVER_RESP\<rparr>))
      else (False, ctx))"

definition on_discover_confirm :: "responder_context \<Rightarrow> bool \<times> responder_context" where
  "on_discover_confirm ctx =
     (if rc_state ctx \<noteq> RS_SENT_DISCOVER_RESP \<and> rc_state ctx \<noteq> RS_SENT_CONFIRM_ACK then (False, ctx)
      else (True, ctx\<lparr>rc_state := RS_SENT_CONFIRM_ACK\<rparr>))"

definition on_key_init :: "responder_context \<Rightarrow> bytes \<Rightarrow> node_id \<Rightarrow> bool \<times> responder_context" where
  "on_key_init ctx challenge hub =
     (if rc_state ctx = RS_SENT_DISCOVER_RESP \<or> rc_state ctx = RS_SENT_CONFIRM_ACK
      then (True, ctx\<lparr>rc_challenge := challenge, rc_hub_node_id := hub, rc_state := RS_SENT_CHALLENGE\<rparr>)
      else (rc_state ctx = RS_SENT_CHALLENGE, ctx))"

text \<open>Recovering a key from a 16-byte payload cannot fail.\<close>

definition on_key_transfer :: "responder_context \<Rightarrow> bytes \<Rightarrow> bool \<times> responder_context" where
  "on_key_transfer ctx transfer_payload =
     (if rc_state ctx \<noteq> RS_SENT_CHALLENGE then (False, ctx)
      else (True, ctx\<lparr>rc_recovered_key := recover_system_key_from_transfer transfer_payload (rc_challenge ctx),
                      rc_state := RS_EXTRACTED\<rparr>))"

definition on_address_req :: "responder_context \<Rightarrow> bool \<times> responder_context" where
  "on_address_req ctx =
     (if rc_state ctx \<noteq> RS_EXTRACTED \<and> rc_state ctx \<noteq> RS_SENT_ADDRESS_RESP then (False, ctx)
      else (True, ctx\<lparr>rc_state := RS_SENT_ADDRESS_RESP\<rparr>))"

definition on_address_challenge :: "responder_context \<Rightarrow> bool" where
  "on_address_challenge ctx \<longleftrightarrow> rc_state ctx = RS_SENT_ADDRESS_RESP"

section \<open>The hub's wiring\<close>

abbreviation (input) KEY_EXTRACTION_AUTO_OFF_MS :: nat where "KEY_EXTRACTION_AUTO_OFF_MS \<equiv> 600000"
abbreviation (input) KEY_EXTRACTION_MID_ATTEMPT_TIMEOUT_MS :: u32 where "KEY_EXTRACTION_MID_ATTEMPT_TIMEOUT_MS \<equiv> 5000"
abbreviation (input) KEY_EXTRACTION_POST_EXTRACT_GRACE_MS :: u32 where "KEY_EXTRACTION_POST_EXTRACT_GRACE_MS \<equiv> 60000"
abbreviation (input) KEY_EXTRACTION_ID_GEN_MAX_ATTEMPTS :: nat where "KEY_EXTRACTION_ID_GEN_MAX_ATTEMPTS \<equiv> 16"
abbreviation (input) KEY_EXTRACTION_MANUFACTURER_ID :: u8 where "KEY_EXTRACTION_MANUFACTURER_ID \<equiv> MANUFACTURER_SOMFY"
abbreviation (input) KEY_EXTRACTION_ADVERTISED_TYPE :: device_type where "KEY_EXTRACTION_ADVERTISED_TYPE \<equiv> DT_ROLLER_SHUTTER"
abbreviation (input) KEY_EXTRACTION_ADVERTISED_SUBTYPE :: u8 where "KEY_EXTRACTION_ADVERTISED_SUBTYPE \<equiv> 0"

text \<open>
  The hub's part of the state: the context, the deadline of the channel hold, the two pending timers
  (microseconds), what the switch callback and the key report have been given.
\<close>

record key_extraction =
  kx_ctx :: responder_context
  kx_hold_deadline :: u32
  kx_auto_off :: "int option"
  kx_grace :: "int option"
  kx_switch :: "bool list"
  kx_reports :: "(node_id \<times> bytes) list"

definition new_key_extraction :: key_extraction where
  "new_key_extraction =
     \<lparr>kx_ctx = new_responder_context, kx_hold_deadline = 0, kx_auto_off = None, kx_grace = None, kx_switch = [], kx_reports = []\<rparr>"

definition stored_node_id_is_valid :: "node_id \<Rightarrow> bool" where
  "stored_node_id_is_valid n \<longleftrightarrow> \<not> list_all (\<lambda>b. b = 0) n \<and> \<not> list_all (\<lambda>b. b = 0xFF) n"

definition throwaway_id_ok :: "exchange_env \<Rightarrow> registry \<Rightarrow> node_id \<Rightarrow> bool" where
  "throwaway_id_ok env reg out \<longleftrightarrow>
     stored_node_id_is_valid out \<and> out \<noteq> env_node_id env \<and> out \<noteq> BROADCAST_DISCOVER \<and>
     out \<noteq> BROADCAST_DISCOVER_ALT \<and> reg_get (node_id_to_string out) reg = None"

fun throwaway_id_loop :: "exchange_env \<Rightarrow> registry \<Rightarrow> (nat \<Rightarrow> node_id) \<Rightarrow> nat \<Rightarrow> nat \<Rightarrow> node_id \<Rightarrow> node_id" where
  "throwaway_id_loop env reg random 0 i out = out"
| "throwaway_id_loop env reg random (Suc n) i out =
     (if throwaway_id_ok env reg (random i) then random i
      else throwaway_id_loop env reg random n (Suc i) (random i))"

definition generate_throwaway_id :: "exchange_env \<Rightarrow> registry \<Rightarrow> (nat \<Rightarrow> node_id) \<Rightarrow> node_id" where
  "generate_throwaway_id env reg random =
     throwaway_id_loop env reg random KEY_EXTRACTION_ID_GEN_MAX_ATTEMPTS 0 [0, 0, 0]"

definition disarm_key_extraction :: "key_extraction \<Rightarrow> key_extraction" where
  "disarm_key_extraction kx =
     (if rc_state (kx_ctx kx) = RS_DISARMED then kx
      else kx\<lparr>kx_ctx := new_responder_context, kx_switch := kx_switch kx @ [False]\<rparr>)"

definition arm_key_extraction ::
  "exchange_env \<Rightarrow> registry \<Rightarrow> (nat \<Rightarrow> node_id) \<Rightarrow> radio \<Rightarrow> key_extraction \<Rightarrow> key_extraction" where
  "arm_key_extraction env reg random r kx =
     kx\<lparr>kx_ctx := new_responder_context\<lparr>rc_throwaway_id := generate_throwaway_id env reg random,
          rc_advertised_type := KEY_EXTRACTION_ADVERTISED_TYPE, rc_advertised_subtype := KEY_EXTRACTION_ADVERTISED_SUBTYPE,
          rc_state := RS_ARMED_IDLE\<rparr>,
        kx_auto_off := Some (rad_clock r + 1000 * int KEY_EXTRACTION_AUTO_OFF_MS),
        kx_switch := kx_switch kx @ [True]\<rparr>"

definition set_key_extraction_armed ::
  "exchange_env \<Rightarrow> registry \<Rightarrow> (nat \<Rightarrow> node_id) \<Rightarrow> radio \<Rightarrow> bool \<Rightarrow> key_extraction \<Rightarrow> key_extraction" where
  "set_key_extraction_armed env reg random r armed kx =
     (if \<not> armed then disarm_key_extraction kx else arm_key_extraction env reg random r kx)"

text \<open>The two timer callbacks; a fired timer is no longer pending.\<close>

definition auto_off_fires :: "key_extraction \<Rightarrow> key_extraction" where
  "auto_off_fires kx =
     (let kx = kx\<lparr>kx_auto_off := None\<rparr>
      in if rc_state (kx_ctx kx) = RS_DISARMED then kx else disarm_key_extraction kx)"

definition grace_fires :: "key_extraction \<Rightarrow> key_extraction" where
  "grace_fires kx =
     (let kx = kx\<lparr>kx_grace := None\<rparr>
      in if rc_state (kx_ctx kx) \<noteq> RS_EXTRACTED \<and> rc_state (kx_ctx kx) \<noteq> RS_SENT_ADDRESS_RESP then kx
         else disarm_key_extraction kx)"

definition arm_post_extraction_grace :: "radio \<Rightarrow> key_extraction \<Rightarrow> key_extraction" where
  "arm_post_extraction_grace r kx =
     kx\<lparr>kx_grace := Some (rad_clock r + 1000 * int (unat KEY_EXTRACTION_POST_EXTRACT_GRACE_MS)),
        kx_hold_deadline := millis r + KEY_EXTRACTION_POST_EXTRACT_GRACE_MS\<rparr>"

definition key_extraction_awaiting_reply :: "radio \<Rightarrow> key_extraction \<Rightarrow> bool" where
  "key_extraction_awaiting_reply r kx \<longleftrightarrow>
     rc_state (kx_ctx kx) \<noteq> RS_DISARMED \<and> rc_state (kx_ctx kx) \<noteq> RS_ARMED_IDLE \<and> millis r < kx_hold_deadline kx"

section \<open>Replies and reports\<close>

definition broadcast_key_extraction_reply ::
  "exchange_env \<Rightarrow> io_frame \<Rightarrow> radio \<Rightarrow> engine_log \<Rightarrow> radio \<times> engine_log" where
  "broadcast_key_extraction_reply env frame r l =
     (let preamble = (if is_start frame then cold_broadcast_reply_preamble (env_tuning env) else env_response_preamble env);
          (a, r, l) = transmit_frame env frame FREQ_CH1 preamble r l;
          (b, r, l) = transmit_frame env frame FREQ_CH3 preamble r l;
          (c, r, l) = transmit_frame env frame FREQ_CH2 preamble r l
      in (r, l))"

definition log_key_extraction_result :: "key_extraction \<Rightarrow> key_extraction" where
  "log_key_extraction_result kx =
     kx\<lparr>kx_reports := kx_reports kx @ [(rc_hub_node_id (kx_ctx kx), rc_recovered_key (kx_ctx kx))]\<rparr>"

section \<open>The frame handlers\<close>

type_synonym kx_step = "radio \<Rightarrow> engine_log \<Rightarrow> key_extraction \<Rightarrow> key_extraction \<times> radio \<times> engine_log"

text \<open>The tail the three pre-extraction handlers share: reply and hold the channel, unless the builder failed.\<close>

definition reply_and_hold :: "exchange_env \<Rightarrow> bool \<times> io_frame \<Rightarrow> kx_step" where
  "reply_and_hold env built r l kx =
     (if \<not> fst built then (kx, r, l)
      else let (r, l) = broadcast_key_extraction_reply env (snd built) r l
           in (kx\<lparr>kx_hold_deadline := millis r + KEY_EXTRACTION_MID_ATTEMPT_TIMEOUT_MS\<rparr>, r, l))"

definition handle_kx_discover :: "exchange_env \<Rightarrow> io_frame \<Rightarrow> kx_step" where
  "handle_kx_discover env frame r l kx =
     (case on_discover_request (kx_ctx kx) (src frame) of
        (False, ctx) \<Rightarrow> (kx\<lparr>kx_ctx := ctx\<rparr>, r, l)
      | (True, ctx) \<Rightarrow> reply_and_hold env (create_discover_resp (rc_throwaway_id ctx) (src frame) (rc_advertised_type ctx)
            (rc_advertised_subtype ctx) KEY_EXTRACTION_MANUFACTURER_ID) r l (kx\<lparr>kx_ctx := ctx\<rparr>))"

definition handle_kx_discover_confirm :: "exchange_env \<Rightarrow> io_frame \<Rightarrow> kx_step" where
  "handle_kx_discover_confirm env frame r l kx =
     (case on_discover_confirm (kx_ctx kx) of
        (False, ctx) \<Rightarrow> (kx\<lparr>kx_ctx := ctx\<rparr>, r, l)
      | (True, ctx) \<Rightarrow> reply_and_hold env (create_discover_confirm_ack (rc_throwaway_id ctx) (src frame)) r l (kx\<lparr>kx_ctx := ctx\<rparr>))"

definition handle_kx_key_init :: "exchange_env \<Rightarrow> bytes \<Rightarrow> io_frame \<Rightarrow> kx_step" where
  "handle_kx_key_init env challenge frame r l kx =
     (case on_key_init (kx_ctx kx) challenge (src frame) of
        (False, ctx) \<Rightarrow> (kx\<lparr>kx_ctx := ctx\<rparr>, r, l)
      | (True, ctx) \<Rightarrow> reply_and_hold env
            (create_challenge_req_device_role (src frame) (rc_throwaway_id ctx) (rc_challenge ctx)) r l (kx\<lparr>kx_ctx := ctx\<rparr>))"

definition handle_kx_key_transfer :: "exchange_env \<Rightarrow> io_frame \<Rightarrow> kx_step" where
  "handle_kx_key_transfer env frame r l kx =
     (if unat (data_len frame) < AES_KEY_SIZE then (kx, r, l)
      else case on_key_transfer (kx_ctx kx) (take AES_KEY_SIZE (data frame)) of
        (False, ctx) \<Rightarrow> (kx\<lparr>kx_ctx := ctx\<rparr>, r, l)
      | (True, ctx) \<Rightarrow>
          (let (built, resp) = create_key_confirm (rc_throwaway_id ctx) (src frame);
               (r, l) = (if built then broadcast_key_extraction_reply env resp r l else (r, l));
               kx = log_key_extraction_result (kx\<lparr>kx_ctx := ctx\<rparr>)
           in (arm_post_extraction_grace r kx, r, l)))"

definition handle_kx_address_req :: "exchange_env \<Rightarrow> io_frame \<Rightarrow> kx_step" where
  "handle_kx_address_req env frame r l kx =
     (if src frame \<noteq> rc_hub_node_id (kx_ctx kx) then (kx, r, l)
      else case on_address_req (kx_ctx kx) of
        (False, ctx) \<Rightarrow> (kx\<lparr>kx_ctx := ctx\<rparr>, r, l)
      | (True, ctx) \<Rightarrow>
          (let kx = kx\<lparr>kx_ctx := ctx\<rparr>;
               (built, resp) = create_address_resp_device_role (rc_throwaway_id ctx) (src frame)
           in if \<not> built then (kx, r, l)
              else let (r, l) = broadcast_key_extraction_reply env resp r l
                   in (arm_post_extraction_grace r kx, r, l)))"

definition handle_kx_address_challenge :: "exchange_env \<Rightarrow> io_frame \<Rightarrow> kx_step" where
  "handle_kx_address_challenge env frame r l kx =
     (let ctx = kx_ctx kx in
      if src frame \<noteq> rc_hub_node_id ctx then (kx, r, l)
      else if unat (data_len frame) < HMAC_SIZE then (kx, r, l)
      else if \<not> on_address_challenge ctx then (kx, r, l)
      else case create_address_resp_device_role (rc_throwaway_id ctx) (src frame) of
        (False, our_address_resp) \<Rightarrow> (kx, r, l)
      | (True, our_address_resp) \<Rightarrow>
          (case create_challenge_resp_device_role (src frame) (rc_throwaway_id ctx) (take HMAC_SIZE (data frame))
                  our_address_resp (rc_recovered_key ctx) of
             (False, resp) \<Rightarrow> (kx, r, l)
           | (True, resp) \<Rightarrow>
               let (r, l) = broadcast_key_extraction_reply env resp r l
               in (arm_post_extraction_grace r kx, r, l)))"

definition try_handle_key_extraction_frame ::
  "exchange_env \<Rightarrow> bytes \<Rightarrow> io_frame \<Rightarrow> radio \<Rightarrow> engine_log \<Rightarrow> key_extraction \<Rightarrow> bool \<times> key_extraction \<times> radio \<times> engine_log" where
  "try_handle_key_extraction_frame env challenge frame r l kx =
     (if rc_state (kx_ctx kx) = RS_DISARMED then (False, kx, r, l)
      else if cmd frame = CMD_DISCOVER_REQ then (True, handle_kx_discover env frame r l kx)
      else if dst frame \<noteq> rc_throwaway_id (kx_ctx kx) then (False, kx, r, l)
      else if cmd frame = CMD_DISCOVER_CONFIRM then (True, handle_kx_discover_confirm env frame r l kx)
      else if cmd frame = CMD_KEY_INIT then (True, handle_kx_key_init env challenge frame r l kx)
      else if cmd frame = CMD_KEY_TRANSFER then (True, handle_kx_key_transfer env frame r l kx)
      else if cmd frame = CMD_ADDRESS_REQ then (True, handle_kx_address_req env frame r l kx)
      else if cmd frame = CMD_CHALLENGE_REQ then (True, handle_kx_address_challenge env frame r l kx)
      else (False, kx, r, l))"

section \<open>Throwaway addresses\<close>

lemma throwaway_loop_ok:
  "\<lbrakk>i \<le> j; j < i + n; throwaway_id_ok env reg (random j)\<rbrakk>
     \<Longrightarrow> throwaway_id_ok env reg (throwaway_id_loop env reg random n i out)"
proof (induction env reg random n i out rule: throwaway_id_loop.induct)
  case (2 env reg random n i out)
  then show ?case by (cases "j = i") auto
qed simp

lemma throwaway_id_acceptable:
  assumes "j < 16" and "throwaway_id_ok env reg (random j)"
  shows "throwaway_id_ok env reg (generate_throwaway_id env reg random)"
  unfolding generate_throwaway_id_def by (rule throwaway_loop_ok [of 0 j]) (use assms in simp_all)

section \<open>The responder as a machine of events\<close>

lemmas responder_defs = on_discover_request_def on_discover_confirm_def on_key_init_def on_key_transfer_def on_address_req_def

lemmas handler_defs =
  handle_kx_discover_def handle_kx_discover_confirm_def handle_kx_key_init_def handle_kx_key_transfer_def
  handle_kx_address_req_def handle_kx_address_challenge_def

lemma lbt_loop_clock: "lbt_loop n threshold r l = (r', l') \<Longrightarrow> rad_clock r \<le> rad_clock r'"
  by (induction n threshold r l rule: lbt_loop.induct)
     (fastforce simp: read_rssi_def delay_ms_def split: list.splits if_splits prod.splits)+

text \<open>Radio calls take time and never turn the clock back (the script of transmissions holds durations).\<close>

definition tx_ok :: "radio \<Rightarrow> bool" where
  "tx_ok r \<longleftrightarrow> (\<forall>x\<in>set (rad_tx r). 0 \<le> snd x)"

lemma transmit_frame_clock:
  assumes "transmit_frame env f freq preamble r l = (ok, r', l')" and "tx_ok r"
  shows "rad_clock r \<le> rad_clock r' \<and> tx_ok r'"
proof (cases "serialize f FRAME_MAX_WIRE_SIZE = []")
  case True
  then show ?thesis using assms by (simp add: transmit_frame_def)
next
  case False
  obtain r1 l1 where lbt: "lbt_loop (unat (lbt_max_retries (env_tuning env)))
      (sint (lbt_rssi_threshold_dbm (env_tuning env))) r l = (r1, l1)" by fastforce
  have "rad_tx r1 = rad_tx r" using lbt_loop_frame [OF lbt] by simp
  with lbt_loop_clock [OF lbt] False lbt assms show ?thesis
    by (cases "rad_tx r") (auto simp: transmit_frame_def send_packet_def tx_ok_def Let_def split: prod.splits if_splits)
qed

lemma broadcast_reply_clock:
  assumes "broadcast_key_extraction_reply env f r l = (r', l')" and "tx_ok r"
  shows "rad_clock r \<le> rad_clock r' \<and> tx_ok r'"
proof -
  let ?p = "if is_start f then cold_broadcast_reply_preamble (env_tuning env) else env_response_preamble env"
  obtain a r1 l1 where 1: "transmit_frame env f FREQ_CH1 ?p r l = (a, r1, l1)" by (rule prod_cases3)
  obtain b r2 l2 where 2: "transmit_frame env f FREQ_CH3 ?p r1 l1 = (b, r2, l2)" by (rule prod_cases3)
  obtain c r3 l3 where 3: "transmit_frame env f FREQ_CH2 ?p r2 l2 = (c, r3, l3)" by (rule prod_cases3)
  have "r' = r3" using assms(1) 1 2 3 by (simp add: broadcast_key_extraction_reply_def Let_def split: if_splits)
  with transmit_frame_clock [OF 1 assms(2)] transmit_frame_clock [OF 2] transmit_frame_clock [OF 3]
  show ?thesis by auto
qed

text \<open>
  What can happen to the hub's key extraction: the switch is turned, a frame arrives, a timer that is
  due fires, or time passes while the hub does something else with its radio.
\<close>

type_synonym kx_world = "radio \<times> engine_log \<times> key_extraction"

inductive kx_event :: "exchange_env \<Rightarrow> registry \<Rightarrow> kx_world \<Rightarrow> kx_world \<Rightarrow> bool" for env reg where
  kx_switched: "kx_event env reg (r, l, kx) (r, l, set_key_extraction_armed env reg random r armed kx)"
| kx_received: "try_handle_key_extraction_frame env challenge f r l kx = (handled, kx', r', l')
     \<Longrightarrow> kx_event env reg (r, l, kx) (r', l', kx')"
| kx_auto_off_due: "kx_auto_off kx = Some due \<Longrightarrow> due \<le> rad_clock r
     \<Longrightarrow> kx_event env reg (r, l, kx) (r, l, auto_off_fires kx)"
| kx_grace_due: "kx_grace kx = Some due \<Longrightarrow> due \<le> rad_clock r
     \<Longrightarrow> kx_event env reg (r, l, kx) (r, l, grace_fires kx)"
| kx_elsewhere: "rad_clock r \<le> rad_clock r' \<Longrightarrow> tx_ok r' \<Longrightarrow> kx_event env reg (r, l, kx) (r', l', kx)"

inductive kx_reachable :: "exchange_env \<Rightarrow> registry \<Rightarrow> kx_world \<Rightarrow> bool" for env reg where
  kx_boot: "tx_ok r \<Longrightarrow> kx_reachable env reg (r, l, new_key_extraction)"
| kx_next: "kx_reachable env reg w \<Longrightarrow> kx_event env reg w w' \<Longrightarrow> kx_reachable env reg w'"

inductive_cases kx_eventE: "kx_event env reg w w'"

abbreviation kx_state :: "key_extraction \<Rightarrow> responder_state" where
  "kx_state kx \<equiv> rc_state (kx_ctx kx)"

abbreviation extracted :: "key_extraction \<Rightarrow> bool" where
  "extracted kx \<equiv> kx_state kx = RS_EXTRACTED \<or> kx_state kx = RS_SENT_ADDRESS_RESP"

definition due_within :: "int option \<Rightarrow> radio \<Rightarrow> int \<Rightarrow> bool" where
  "due_within timer r seconds \<longleftrightarrow> (case timer of None \<Rightarrow> False | Some due \<Rightarrow> due \<le> rad_clock r + 1000000 * seconds)"

lemma due_within_later: "due_within timer r seconds \<Longrightarrow> rad_clock r \<le> rad_clock r' \<Longrightarrow> due_within timer r' seconds"
  by (auto simp: due_within_def split: option.splits)

text \<open>
  The invariant: disarmed, nothing of an attempt is kept; armed, the auto-off timer is pending; after an
  extraction the grace timer is pending too; the switch shows the state; and before an extraction the
  context holds no key.
\<close>

definition kx_ok :: "kx_world \<Rightarrow> bool" where
  "kx_ok w \<longleftrightarrow> (case w of (r, l, kx) \<Rightarrow>
     tx_ok r \<and>
     (kx_state kx = RS_DISARMED \<longrightarrow> kx_ctx kx = new_responder_context) \<and>
     (kx_state kx \<noteq> RS_DISARMED \<longrightarrow> due_within (kx_auto_off kx) r 600) \<and>
     (extracted kx \<longrightarrow> due_within (kx_grace kx) r 60) \<and>
     (kx_switch kx = [] \<longrightarrow> kx_state kx = RS_DISARMED) \<and>
     (kx_switch kx \<noteq> [] \<longrightarrow> last (kx_switch kx) = (kx_state kx \<noteq> RS_DISARMED)) \<and>
     (kx_state kx \<noteq> RS_DISARMED \<longrightarrow>
        rc_recovered_key (kx_ctx kx) = replicate 16 0 \<or> rc_recovered_key (kx_ctx kx) \<in> snd ` set (kx_reports kx)))"

text \<open>What a frame handler may change, in one relation between the states around it.\<close>

definition handled_ok :: "radio \<times> key_extraction \<Rightarrow> radio \<times> key_extraction \<Rightarrow> bool" where
  "handled_ok before after \<longleftrightarrow> (case (before, after) of ((r, kx), (r', kx')) \<Rightarrow>
     rad_clock r \<le> rad_clock r' \<and> tx_ok r' \<and> kx_state kx' \<noteq> RS_DISARMED \<and>
     kx_auto_off kx' = kx_auto_off kx \<and> kx_switch kx' = kx_switch kx \<and>
     (extracted kx' \<longrightarrow> extracted kx \<and> kx_grace kx' = kx_grace kx \<or> due_within (kx_grace kx') r' 60) \<and>
     set (kx_reports kx) \<subseteq> set (kx_reports kx') \<and>
     (rc_recovered_key (kx_ctx kx') = rc_recovered_key (kx_ctx kx) \<or>
      rc_recovered_key (kx_ctx kx') \<in> snd ` set (kx_reports kx')))"

lemma handled_ok_refl: "tx_ok r \<Longrightarrow> kx_state kx \<noteq> RS_DISARMED \<Longrightarrow> handled_ok (r, kx) (r, kx)"
  by (simp add: handled_ok_def)

lemma grace_armed: "due_within (kx_grace (arm_post_extraction_grace r kx)) r 60"
  by (simp add: due_within_def arm_post_extraction_grace_def)

lemma reply_and_hold_ok:
  assumes "reply_and_hold env built r l kx = (kx', r', l')" and "tx_ok r"
  shows "rad_clock r \<le> rad_clock r' \<and> tx_ok r' \<and> kx_ctx kx' = kx_ctx kx \<and> kx_auto_off kx' = kx_auto_off kx \<and>
    kx_grace kx' = kx_grace kx \<and> kx_switch kx' = kx_switch kx \<and> kx_reports kx' = kx_reports kx"
  using assms broadcast_reply_clock [of env "snd built" r l]
  by (auto simp: reply_and_hold_def split: if_splits prod.splits)

lemma pre_extraction_handlers_ok:
  assumes "tx_ok r" and "kx_state kx \<noteq> RS_DISARMED"
  shows "handle_kx_discover env f r l kx = (kx', r', l') \<Longrightarrow> handled_ok (r, kx) (r', kx')"
    and "handle_kx_discover_confirm env f r l kx = (kx', r', l') \<Longrightarrow> handled_ok (r, kx) (r', kx')"
    and "handle_kx_key_init env challenge f r l kx = (kx', r', l') \<Longrightarrow> handled_ok (r, kx) (r', kx')"
  using assms
  by (auto simp: handle_kx_discover_def handle_kx_discover_confirm_def handle_kx_key_init_def responder_defs handled_ok_def
        dest!: reply_and_hold_ok split: if_splits prod.splits bool.splits)

lemma armed_grace_ok:
  assumes "rad_clock r \<le> rad_clock r' \<and> tx_ok r'" and "kx_state kx' \<noteq> RS_DISARMED"
    and "kx_auto_off kx' = kx_auto_off kx" and "kx_switch kx' = kx_switch kx"
    and "set (kx_reports kx) \<subseteq> set (kx_reports kx')"
    and "rc_recovered_key (kx_ctx kx') = rc_recovered_key (kx_ctx kx) \<or> rc_recovered_key (kx_ctx kx') \<in> snd ` set (kx_reports kx')"
  shows "handled_ok (r, kx) (r', arm_post_extraction_grace r' kx')"
  using assms grace_armed [of r' kx'] by (simp add: handled_ok_def) (simp add: arm_post_extraction_grace_def)

lemma key_transfer_handler_ok:
  assumes "tx_ok r" and "kx_state kx \<noteq> RS_DISARMED" and h: "handle_kx_key_transfer env f r l kx = (kx', r', l')"
  shows "handled_ok (r, kx) (r', kx')"
proof (cases "unat (data_len f) < 16 \<or> kx_state kx \<noteq> RS_SENT_CHALLENGE")
  case True
  then have "kx' = kx \<and> r' = r"
    using h by (auto simp: handle_kx_key_transfer_def on_key_transfer_def split: if_splits)
  then show ?thesis using assms(1,2) by (simp add: handled_ok_refl)
next
  case False
  let ?ctx = "(kx_ctx kx)\<lparr>rc_recovered_key := recover_system_key_from_transfer (take 16 (data f)) (rc_challenge (kx_ctx kx)),
      rc_state := RS_EXTRACTED\<rparr>"
  obtain built resp where c: "create_key_confirm (rc_throwaway_id (kx_ctx kx)) (src f) = (built, resp)" by fastforce
  obtain r1 l1 where b: "(if built then broadcast_key_extraction_reply env resp r l else (r, l)) = (r1, l1)" by fastforce
  have "rad_clock r \<le> rad_clock r1 \<and> tx_ok r1"
    using b broadcast_reply_clock [of env resp r l r1 l1] assms(1) by (cases built) auto
  moreover have "kx' = arm_post_extraction_grace r1 (log_key_extraction_result (kx\<lparr>kx_ctx := ?ctx\<rparr>))" "r' = r1"
    using h False c b by (auto simp: handle_kx_key_transfer_def on_key_transfer_def Let_def)
  ultimately show ?thesis
    using armed_grace_ok [of r r1 "log_key_extraction_result (kx\<lparr>kx_ctx := ?ctx\<rparr>)" kx]
    by (simp add: log_key_extraction_result_def subset_insertI)
qed

lemma address_handlers_ok:
  assumes "tx_ok r" and "kx_state kx \<noteq> RS_DISARMED"
  shows "handle_kx_address_req env f r l kx = (kx', r', l') \<Longrightarrow> handled_ok (r, kx) (r', kx')"
    and "handle_kx_address_challenge env f r l kx = (kx', r', l') \<Longrightarrow> handled_ok (r, kx) (r', kx')"
proof -
  assume h: "handle_kx_address_req env f r l kx = (kx', r', l')"
  show "handled_ok (r, kx) (r', kx')"
  proof (cases "src f \<noteq> rc_hub_node_id (kx_ctx kx) \<or> \<not> extracted kx")
    case True
    then have "kx' = kx \<and> r' = r" using h by (auto simp: handle_kx_address_req_def on_address_req_def split: if_splits)
    then show ?thesis using assms by (simp add: handled_ok_refl)
  next
    case False
    let ?kx = "kx\<lparr>kx_ctx := (kx_ctx kx)\<lparr>rc_state := RS_SENT_ADDRESS_RESP\<rparr>\<rparr>"
    obtain built resp where c: "create_address_resp_device_role (rc_throwaway_id (kx_ctx kx)) (src f) = (built, resp)" by fastforce
    obtain r1 l1 where b: "broadcast_key_extraction_reply env resp r l = (r1, l1)" by fastforce
    have "(if built then (kx', r') = (arm_post_extraction_grace r1 ?kx, r1) else (kx', r') = (?kx, r))"
      using h False c b by (auto simp: handle_kx_address_req_def on_address_req_def Let_def)
    then show ?thesis
      using False assms broadcast_reply_clock [OF b assms(1)] armed_grace_ok [of r r1 ?kx kx]
      by (cases built) (auto simp: handled_ok_def)
  qed
next
  assume h: "handle_kx_address_challenge env f r l kx = (kx', r', l')"
  have "kx' = kx \<and> r' = r \<or> (\<exists>resp. broadcast_key_extraction_reply env resp r l = (r', l') \<and> kx' = arm_post_extraction_grace r' kx)"
    using h by (auto simp: handle_kx_address_challenge_def Let_def split: if_splits prod.splits bool.splits)
  then show "handled_ok (r, kx) (r', kx')"
    using assms broadcast_reply_clock [of env _ r l r' l'] armed_grace_ok [of r r' kx kx] by (auto simp: handled_ok_refl)
qed

lemma frame_handled_ok:
  assumes "try_handle_key_extraction_frame env challenge f r l kx = (handled, kx', r', l')" and "tx_ok r"
  shows "kx_state kx = RS_DISARMED \<and> kx' = kx \<and> r' = r \<or> kx_state kx \<noteq> RS_DISARMED \<and> handled_ok (r, kx) (r', kx')"
proof (cases "kx_state kx = RS_DISARMED")
  case True
  then show ?thesis using assms by (simp add: try_handle_key_extraction_frame_def)
next
  case False
  note ok = pre_extraction_handlers_ok [OF assms(2) False] key_transfer_handler_ok [OF assms(2) False]
    address_handlers_ok [OF assms(2) False]
  show ?thesis
    using assms False
    by (auto simp: try_handle_key_extraction_frame_def intro: ok handled_ok_refl split: if_splits)
qed

lemma disarm_ok: "kx_ok (r, l, kx) \<Longrightarrow> kx_ok (r, l, disarm_key_extraction kx)"
  by (simp add: kx_ok_def disarm_key_extraction_def new_responder_context_def)

lemma set_armed_ok:
  assumes "kx_ok (r, l, kx)"
  shows "kx_ok (r, l, set_key_extraction_armed env reg random r armed kx)"
proof (cases armed)
  case True
  then show ?thesis using assms
    by (simp add: kx_ok_def set_key_extraction_armed_def arm_key_extraction_def due_within_def new_responder_context_def)
qed (use disarm_ok [OF assms] in \<open>simp add: set_key_extraction_armed_def\<close>)

lemma timers_ok:
  assumes "kx_ok (r, l, kx)"
  shows "kx_ok (r, l, auto_off_fires kx)" and "kx_ok (r, l, grace_fires kx)"
proof -
  have 1: "kx_ok (r, l, kx\<lparr>kx_auto_off := None\<rparr>)" if "kx_state kx = RS_DISARMED"
    using assms that by (simp add: kx_ok_def)
  have 2: "kx_ok (r, l, disarm_key_extraction (kx\<lparr>kx_auto_off := None\<rparr>))" if "kx_state kx \<noteq> RS_DISARMED"
    using assms that by (simp add: kx_ok_def disarm_key_extraction_def new_responder_context_def)
  show "kx_ok (r, l, auto_off_fires kx)" using 1 2 by (simp add: auto_off_fires_def Let_def)
  have 3: "kx_ok (r, l, kx\<lparr>kx_grace := None\<rparr>)" if "\<not> extracted kx"
    using assms that by (simp add: kx_ok_def)
  have 4: "kx_ok (r, l, disarm_key_extraction (kx\<lparr>kx_grace := None\<rparr>))" if "extracted kx"
    using assms that by (auto simp add: kx_ok_def disarm_key_extraction_def new_responder_context_def)
  show "kx_ok (r, l, grace_fires kx)" using 3 4 by (simp add: grace_fires_def Let_def)
qed

lemma handled_keeps_ok:
  assumes "handled_ok (r, kx) (r', kx')" and "kx_ok (r, l, kx)" and "kx_state kx \<noteq> RS_DISARMED"
  shows "kx_ok (r', l', kx')"
proof -
  have h: "rad_clock r \<le> rad_clock r'" "tx_ok r'" "kx_state kx' \<noteq> RS_DISARMED"
      "kx_auto_off kx' = kx_auto_off kx" "kx_switch kx' = kx_switch kx"
      "extracted kx' \<Longrightarrow> extracted kx \<and> kx_grace kx' = kx_grace kx \<or> due_within (kx_grace kx') r' 60"
      "set (kx_reports kx) \<subseteq> set (kx_reports kx')"
      "rc_recovered_key (kx_ctx kx') = rc_recovered_key (kx_ctx kx) \<or>
       rc_recovered_key (kx_ctx kx') \<in> snd ` set (kx_reports kx')"
    using assms(1) by (auto simp add: handled_ok_def)
  have k: "due_within (kx_auto_off kx) r 600" "extracted kx \<Longrightarrow> due_within (kx_grace kx) r 60"
      "kx_switch kx \<noteq> []" "last (kx_switch kx)"
      "rc_recovered_key (kx_ctx kx) = replicate 16 0 \<or> rc_recovered_key (kx_ctx kx) \<in> snd ` set (kx_reports kx)"
    using assms(2,3) by (auto simp add: kx_ok_def)
  have "due_within (kx_auto_off kx') r' 600" using k(1) h(1,4) due_within_later by simp
  moreover have "extracted kx' \<longrightarrow> due_within (kx_grace kx') r' 60" using h(1,6) k(2) due_within_later by metis
  moreover have "rc_recovered_key (kx_ctx kx') = replicate 16 0 \<or> rc_recovered_key (kx_ctx kx') \<in> snd ` set (kx_reports kx')"
    using h(7,8) k(5) by (metis image_mono subsetD)
  ultimately show ?thesis using h(2,3,5) k(3,4) unfolding kx_ok_def prod.case by simp
qed

lemma kx_ok_event:
  assumes "kx_event env reg w w'" and "kx_ok w"
  shows "kx_ok w'"
  using assms
proof (cases rule: kx_event.cases)
  case (kx_received challenge f r l kx handled kx' r' l')
  show ?thesis
  proof (cases "kx_state kx = RS_DISARMED")
    case True
    then show ?thesis
      using kx_received assms(2) frame_handled_ok [OF kx_received(3)] by (auto simp: kx_ok_def)
  next
    case False
    with frame_handled_ok [OF kx_received(3)] kx_received assms(2) have h: "handled_ok (r, kx) (r', kx')"
      by (auto simp: kx_ok_def)
    with False kx_received(1,2) assms(2) show ?thesis by (simp add: handled_keeps_ok [of r kx r' kx' l l'])
  qed
next
  case (kx_elsewhere r r' l kx l')
  then show ?thesis using assms(2) by (auto simp: kx_ok_def intro: due_within_later)
next
  case (kx_switched r l kx random armed)
  then show ?thesis using assms(2) by (simp add: set_armed_ok)
next
  case (kx_auto_off_due kx due r l)
  then show ?thesis using assms(2) by (simp add: timers_ok)
next
  case (kx_grace_due kx due r l)
  then show ?thesis using assms(2) by (simp add: timers_ok)
qed

lemma kx_reachable_ok: "kx_reachable env reg w \<Longrightarrow> kx_ok w"
proof (induction rule: kx_reachable.induct)
  case (kx_boot r l)
  then show ?case by (simp add: kx_ok_def new_key_extraction_def new_responder_context_def)
qed (rule kx_ok_event)

section \<open>Properties\<close>

text \<open>C25. Arming is bounded. In every state the hub can reach by switching, received frames, due
  timers and time passing, an armed responder has a pending auto-off timer due within ten minutes, and a
  responder that has extracted a key has a grace timer due within one; when that timer fires the
  responder is disarmed, forgets the whole attempt, the key included, and the switch is told.\<close>

theorem armed_extraction_ends:
  assumes "kx_reachable env reg (r, l, kx)" and "rc_state (kx_ctx kx) \<noteq> RS_DISARMED"
  shows "(\<exists>due. kx_auto_off kx = Some due \<and> due \<le> rad_clock r + 1000000 * 600) \<and>
    kx_ctx (auto_off_fires kx) = new_responder_context \<and> last (kx_switch (auto_off_fires kx)) = False \<and>
    (rc_state (kx_ctx kx) = RS_EXTRACTED \<or> rc_state (kx_ctx kx) = RS_SENT_ADDRESS_RESP \<longrightarrow>
       (\<exists>due. kx_grace kx = Some due \<and> due \<le> rad_clock r + 1000000 * 60) \<and>
       kx_ctx (grace_fires kx) = new_responder_context \<and> last (kx_switch (grace_fires kx)) = False)"
proof -
  have ok: "due_within (kx_auto_off kx) r 600" "extracted kx \<longrightarrow> due_within (kx_grace kx) r 60"
    using kx_reachable_ok [OF assms(1)] assms(2) by (simp_all add: kx_ok_def)
  have w: "due_within timer r s \<longleftrightarrow> (\<exists>due. timer = Some due \<and> due \<le> rad_clock r + 1000000 * s)" for timer s
    by (auto simp: due_within_def split: option.splits)
  show ?thesis using ok assms(2) unfolding w
    by (auto simp: auto_off_fires_def grace_fires_def disarm_key_extraction_def)
qed

theorem armed_extraction_ends_witness:
  "\<exists>kx. kx_reachable demo_env empty_registry (demo_radio [], demo_log, kx) \<and> kx_state kx = RS_ARMED_IDLE \<and>
     kx_ctx (auto_off_fires kx) = new_responder_context"
proof -
  let ?kx = "set_key_extraction_armed demo_env empty_registry (\<lambda>i. [9, 9, 9]) (demo_radio []) True new_key_extraction"
  have "kx_reachable demo_env empty_registry (demo_radio [], demo_log, new_key_extraction)"
    by (rule kx_boot) (simp add: tx_ok_def demo_radio_def)
  then have r: "kx_reachable demo_env empty_registry (demo_radio [], demo_log, ?kx)"
    by (rule kx_next) (rule kx_switched)
  have s: "kx_state ?kx = RS_ARMED_IDLE" by (simp add: set_key_extraction_armed_def arm_key_extraction_def)
  then have "kx_ctx (auto_off_fires ?kx) = new_responder_context" using armed_extraction_ends [OF r] by simp
  with r s show ?thesis by blast
qed

lemmas kx_simps = key_extraction.simps responder_context.simps io_frame.simps new_key_extraction_def new_responder_context_def

text \<open>C15. The responder recovers the key. Armed and idle, it hears a hub's discovery request and the
  hub's key initiation, answers the latter with a challenge, and hears the key transfer that the hub
  builds from that challenge: it then holds the hub's own system key, reports it under the hub's
  address, and its grace period runs. The outcome does not depend on the channel, on the noise, or on
  whether the replies could be sent.\<close>

theorem key_extraction_recovers_key:
  assumes "rc_state (kx_ctx kx) = RS_ARMED_IDLE" and "length (rc_throwaway_id (kx_ctx kx)) = NODE_ID_SIZE"
    and "length hub = NODE_ID_SIZE" and "length key = AES_KEY_SIZE" and "length challenge = HMAC_SIZE"
    and "cmd discover = CMD_DISCOVER_REQ" and "src discover = hub"
    and "create_key_init hub (rc_throwaway_id (kx_ctx kx)) = (True, key_init)"
    and "create_challenge_req_device_role hub (rc_throwaway_id (kx_ctx kx)) challenge = (True, request)"
    and "create_key_transfer key_init (rc_throwaway_id (kx_ctx kx)) hub key (payload request) = (True, transfer)"
    and "try_handle_key_extraction_frame env other discover r l kx = (h1, kx1, r1, l1)"
    and "try_handle_key_extraction_frame env challenge key_init r1 l1 kx1 = (h2, kx2, r2, l2)"
    and "try_handle_key_extraction_frame env other transfer r2 l2 kx2 = (h3, kx3, r3, l3)"
  shows "h1 \<and> h2 \<and> h3 \<and> rc_state (kx_ctx kx3) = RS_EXTRACTED \<and> rc_recovered_key (kx_ctx kx3) = key \<and>
    kx_reports kx3 = kx_reports kx @ [(hub, key)] \<and>
    kx_grace kx3 = Some (rad_clock r3 + 60000000)"
proof -
  let ?own = "rc_throwaway_id (kx_ctx kx)"
  have hold: "kx_ctx kx' = kx_ctx k \<and> kx_reports kx' = kx_reports k"
    if "reply_and_hold env built ra la k = (kx', rb, lb)" for built ra la k kx' rb lb
    using that by (auto simp: reply_and_hold_def split: if_splits prod.splits)
  have 1: "h1 \<and> kx_ctx kx1 = (kx_ctx kx)\<lparr>rc_state := RS_SENT_DISCOVER_RESP\<rparr> \<and> kx_reports kx1 = kx_reports kx"
    using assms(1,6,11)
    by (auto simp: try_handle_key_extraction_frame_def handle_kx_discover_def on_discover_request_def dest: hold)
  have k: "blank (addressed_2w True False True hub ?own)" using assms(2,3) by (simp add: wf_rules)
  have init: "cmd key_init = CMD_KEY_INIT" "src key_init = hub" "dst key_init = ?own"
    using set_cmd_blank(5-7) [OF k, of "[]" CMD_KEY_INIT] assms(8) by (simp_all add: create_key_init_def)
  have 2: "h2 \<and> kx_ctx kx2 = (kx_ctx kx)\<lparr>rc_challenge := challenge, rc_hub_node_id := hub, rc_state := RS_SENT_CHALLENGE\<rparr> \<and>
      kx_reports kx2 = kx_reports kx"
    using assms(12) 1 init
    by (auto simp: try_handle_key_extraction_frame_def handle_kx_key_init_def on_key_init_def dest: hold)
  have c: "blank (addressed_2w False False False ?own hub)" using assms(2,3) by (simp add: wf_rules)
  have "payload request = challenge"
    using set_cmd_blank(4) [OF c, of challenge CMD_CHALLENGE_REQ] assms(5,9)
    by (simp add: create_challenge_req_device_role_def create_challenge_req_framed_def)
  then have "create_key_transfer key_init ?own hub key challenge = (True, transfer)" using assms(10) by simp
  note tr = key_transfer_frame [OF assms(3,2,4,5) init(1) this]
  show ?thesis
    using assms(13) 1 2 tr
    by (auto simp: try_handle_key_extraction_frame_def handle_kx_key_transfer_def on_key_transfer_def Let_def
        arm_post_extraction_grace_def log_key_extraction_result_def split: prod.splits)
qed

theorem key_extraction_recovers_key_witness:
  "\<exists>(kx :: key_extraction) (r :: radio). rc_state (kx_ctx kx) = RS_EXTRACTED \<and> rc_recovered_key (kx_ctx kx) = replicate 16 7 \<and>
     kx_reports kx = [([1, 2, 3], replicate 16 7)] \<and> kx_grace kx = Some (rad_clock r + 60000000)"
proof -
  let ?own = "[9, 9, 9]" and ?hub = "[1, 2, 3]" and ?key = "replicate 16 (7 :: u8)" and ?ch = "replicate 6 (5 :: u8)"
  let ?kx = "new_key_extraction\<lparr>kx_ctx := new_responder_context\<lparr>rc_state := RS_ARMED_IDLE, rc_throwaway_id := ?own\<rparr>\<rparr>"
  let ?d = "empty_frame\<lparr>cmd := CMD_DISCOVER_REQ, src := ?hub\<rparr>"
  have b: "blank (addressed_2w s e p ?own ?hub)" "blank (addressed_2w s e p ?hub ?own)" for s e p by (simp_all add: wf_rules)
  have pair: "\<exists>x. p = (True, x)" if "fst p" for p :: "bool \<times> io_frame" using that by (cases p) simp
  obtain f1 where f1: "create_key_init ?hub ?own = (True, f1)"
    using pair [OF set_cmd_blank(1) [OF b(2), of "[]" True False True CMD_KEY_INIT]] by (auto simp: create_key_init_def)
  have ch: "length ?ch \<le> 23" by simp
  obtain f2 where f2: "create_challenge_req_device_role ?hub ?own ?ch = (True, f2)"
    using pair [OF set_cmd_blank(1) [OF b(1) ch, of False False False CMD_CHALLENGE_REQ]]
    unfolding create_challenge_req_device_role_def create_challenge_req_framed_def by blast
  have "payload f2 = ?ch"
    using set_cmd_blank(4) [OF b(1) ch, of False False False CMD_CHALLENGE_REQ] f2
    unfolding create_challenge_req_device_role_def create_challenge_req_framed_def by simp
  then have "length (crypt_key [cmd f1] (payload f2) ?key) = 16" by (simp add: wf_rules del: replicate.simps)
  then have "length (crypt_key [cmd f1] (payload f2) ?key) \<le> 23" by linarith
  then obtain f3 where f3: "create_key_transfer f1 ?own ?hub ?key (payload f2) = (True, f3)"
    using pair [OF set_cmd_blank(1) [OF b(2), of _ False False True CMD_KEY_TRANSFER]]
    unfolding create_key_transfer_def by blast
  obtain h1 k1 r1 l1 where 1: "try_handle_key_extraction_frame demo_env ?ch ?d (demo_radio []) demo_log ?kx = (h1, k1, r1, l1)"
    by (rule prod_cases4)
  obtain h2 k2 r2 l2 where 2: "try_handle_key_extraction_frame demo_env ?ch f1 r1 l1 k1 = (h2, k2, r2, l2)"
    by (rule prod_cases4)
  obtain h3 k3 r3 l3 where 3: "try_handle_key_extraction_frame demo_env ?ch f3 r2 l2 k2 = (h3, k3, r3, l3)"
    by (rule prod_cases4)
  have f2': "create_challenge_req_device_role ?hub (rc_throwaway_id (kx_ctx ?kx)) ?ch = (True, f2)"
    and f1': "create_key_init ?hub (rc_throwaway_id (kx_ctx ?kx)) = (True, f1)"
    and f3': "create_key_transfer f1 (rc_throwaway_id (kx_ctx ?kx)) ?hub ?key (payload f2) = (True, f3)"
    using f1 f2 f3 by (simp_all only: kx_simps)
  have "h1 \<and> h2 \<and> h3 \<and> rc_state (kx_ctx k3) = RS_EXTRACTED \<and> rc_recovered_key (kx_ctx k3) = ?key \<and>
    kx_reports k3 = kx_reports ?kx @ [(?hub, ?key)] \<and> kx_grace k3 = Some (rad_clock r3 + 60000000)"
    by (rule key_extraction_recovers_key [OF _ _ _ _ _ _ _ f1' f2' f3' 1 2 3]) (simp_all only: kx_simps, simp_all)
  then have "rc_state (kx_ctx k3) = RS_EXTRACTED \<and> rc_recovered_key (kx_ctx k3) = ?key \<and>
    kx_reports k3 = [(?hub, ?key)] \<and> kx_grace k3 = Some (rad_clock r3 + 60000000)"
    by (simp only: kx_simps append_Nil simp_thms)
  then show ?thesis by blast
qed

text \<open>Once a key is extracted, nothing another controller sends reaches the responder: a frame from
  any address but the hub's leaves its state, its timers, its reports and the channel as they were.\<close>

theorem extraction_serves_one_hub:
  assumes "rc_state (kx_ctx kx) = RS_EXTRACTED \<or> rc_state (kx_ctx kx) = RS_SENT_ADDRESS_RESP"
    and "src f \<noteq> rc_hub_node_id (kx_ctx kx)"
  shows "snd (try_handle_key_extraction_frame env challenge f r l kx) = (kx, r, l)"
  using assms by (auto simp: try_handle_key_extraction_frame_def handler_defs responder_defs)

theorem extraction_serves_one_hub_witness:
  "snd (try_handle_key_extraction_frame demo_env [] (empty_frame\<lparr>cmd := CMD_DISCOVER_REQ, src := [4, 4, 4]\<rparr>) (demo_radio []) demo_log
     (new_key_extraction\<lparr>kx_ctx := new_responder_context\<lparr>rc_state := RS_EXTRACTED, rc_hub_node_id := [1, 2, 3]\<rparr>\<rparr>)) =
   (new_key_extraction\<lparr>kx_ctx := new_responder_context\<lparr>rc_state := RS_EXTRACTED, rc_hub_node_id := [1, 2, 3]\<rparr>\<rparr>, demo_radio [], demo_log)"
  by (rule extraction_serves_one_hub) simp_all

text \<open>Before the extraction that protection is missing: a key transfer of a second controller, built
  from the challenge given to the hub, is accepted, and its key is reported under the address of the
  hub that was challenged.\<close>

theorem key_attributed_to_wrong_hub:
  assumes "rc_state (kx_ctx kx) = RS_SENT_CHALLENGE" and "length (rc_throwaway_id (kx_ctx kx)) = NODE_ID_SIZE"
    and "length (rc_challenge (kx_ctx kx)) = HMAC_SIZE" and "length second = NODE_ID_SIZE" and "length key = AES_KEY_SIZE"
    and "second \<noteq> rc_hub_node_id (kx_ctx kx)" and "cmd key_init = CMD_KEY_INIT"
    and "create_key_transfer key_init (rc_throwaway_id (kx_ctx kx)) second key (rc_challenge (kx_ctx kx)) = (ok, transfer)"
    and "try_handle_key_extraction_frame env other transfer r l kx = (h, kx', r', l')"
  shows "h \<and> rc_state (kx_ctx kx') = RS_EXTRACTED \<and>
    kx_reports kx' = kx_reports kx @ [(rc_hub_node_id (kx_ctx kx), key)] \<and> src transfer = second"
proof -
  note tr = key_transfer_frame [OF assms(4,2,5,3,7,8)]
  show ?thesis
    using assms(1,9) tr
    by (auto simp: try_handle_key_extraction_frame_def handle_kx_key_transfer_def on_key_transfer_def Let_def
        arm_post_extraction_grace_def log_key_extraction_result_def split: prod.splits)
qed

theorem key_attributed_to_wrong_hub_witness:
  "\<exists>kx :: key_extraction. kx_reports kx = [([1, 2, 3], replicate 16 8)] \<and> rc_state (kx_ctx kx) = RS_EXTRACTED"
proof -
  let ?kx = "new_key_extraction\<lparr>kx_ctx := new_responder_context\<lparr>rc_state := RS_SENT_CHALLENGE, rc_throwaway_id := [9, 9, 9],
      rc_hub_node_id := [1, 2, 3]\<rparr>\<rparr>"
  obtain ok f where f: "create_key_transfer (empty_frame\<lparr>cmd := CMD_KEY_INIT\<rparr>) [9, 9, 9] [4, 4, 4] (replicate 16 8) (replicate 6 0) = (ok, f)"
    by fastforce
  obtain h k r l where 1: "try_handle_key_extraction_frame demo_env [] f (demo_radio []) demo_log ?kx = (h, k, r, l)"
    by (rule prod_cases4)
  have "h \<and> rc_state (kx_ctx k) = RS_EXTRACTED \<and> kx_reports k = kx_reports ?kx @ [([1, 2, 3], replicate 16 8)] \<and> src f = [4, 4, 4]"
    using key_attributed_to_wrong_hub [of ?kx "[4, 4, 4]" "replicate 16 8" "empty_frame\<lparr>cmd := CMD_KEY_INIT\<rparr>" ok f, OF _ _ _ _ _ _ _ _ 1] f
    by (simp add: new_responder_context_def)
  then show ?thesis by (intro exI [of _ k]) (simp add: new_key_extraction_def)
qed

end
