(* ===== verification/Hub_Support.thy ===== *)
theory Hub_Support
  imports Registry Codecs
begin

text \<open>
  The helpers the hub's implementation files share (\<open>hub_internal.h\<close>): which commands a device type
  accepts, the Home Assistant event of a one-way sender, the reports of a recovered key and how they are
  split into log calls, and what every received frame or failed exchange does to a device's record.
  The formatting of single log lines is left out.
\<close>

section \<open>Percentages and device profiles\<close>

abbreviation (input) ONEWAY_DEDUP_WINDOW_MS :: u32 where "ONEWAY_DEDUP_WINDOW_MS \<equiv> 2000"
abbreviation (input) HUB_BINARY_ON_POSITION :: u8 where "HUB_BINARY_ON_POSITION \<equiv> 0"
abbreviation (input) HUB_BINARY_OFF_POSITION :: u8 where "HUB_BINARY_OFF_POSITION \<equiv> 100"

text \<open>\<open>std::lround\<close> rounds half away from zero; fractions are rationals.\<close>

definition lround :: "rat \<Rightarrow> int" where
  "lround x = (if x < 0 then \<lceil>x - 1 / 2\<rceil> else \<lfloor>x + 1 / 2\<rfloor>)"

definition round_percent :: "rat \<Rightarrow> u8" where
  "round_percent fraction = word_of_int (lround (fraction * 100))"

definition is_binary_entity_position :: "u8 \<Rightarrow> bool" where
  "is_binary_entity_position position \<longleftrightarrow> position = HUB_BINARY_ON_POSITION \<or> position = HUB_BINARY_OFF_POSITION"

definition known_device_matches_entity_class :: "io_device \<Rightarrow> capability_class \<Rightarrow> bool" where
  "known_device_matches_entity_class dev expected \<longleftrightarrow>
     dev_type dev = DT_UNKNOWN \<or> device_capability_class (dev_type dev) = expected"

definition known_device_supports_status_requests :: "io_device \<Rightarrow> bool" where
  "known_device_supports_status_requests dev \<longleftrightarrow>
     dev_type dev = DT_UNKNOWN \<or> device_supports_status_requests (dev_type dev)"

definition known_device_accepts_execute_position :: "io_device \<Rightarrow> u8 \<Rightarrow> bool" where
  "known_device_accepts_execute_position dev position =
     (if dev_type dev = DT_UNKNOWN then True
      else if device_supports_position_control (dev_type dev) then True
      else if device_capability_class (dev_type dev) = CAP_LIGHT then position \<le> HUB_BINARY_OFF_POSITION
      else is_binary_entity_position position \<and>
             (device_supports_binary_control (dev_type dev) \<or> device_supports_lock_control (dev_type dev)))"

definition known_device_accepts_execute_tilt :: "io_device \<Rightarrow> bool" where
  "known_device_accepts_execute_tilt dev \<longleftrightarrow> dev_type dev \<noteq> DT_UNKNOWN \<and> device_supports_tilt (dev_type dev)"

section \<open>The event of a one-way sender\<close>

definition is_exposed_sender :: "string list \<Rightarrow> string \<Rightarrow> bool" where
  "is_exposed_sender exposed_senders sender_id = List.member exposed_senders sender_id"

abbreviation (input) NAME_AND_HEX_BUFFER_SIZE :: nat where "NAME_AND_HEX_BUFFER_SIZE \<equiv> 40"

text \<open>\<open>snprintf\<close> keeps what fits before the terminating zero.\<close>

definition format_name_and_hex :: "string \<Rightarrow> u8 \<Rightarrow> string" where
  "format_name_and_hex name value =
     take (NAME_AND_HEX_BUFFER_SIZE - 1) (name @ ''(0x'' @ hex_byte value @ '')'')"

definition describe_learned_device_type :: "device_type \<Rightarrow> string" where
  "describe_learned_device_type type =
     (case yaml_device_type_name type of
        Some name \<Rightarrow> ''io_device_type: '' @ quoted name
      | None \<Rightarrow> ''io_device_type: 0x'' @ hex_byte (device_type_raw type))"

definition build_sender_event_data :: "oneway_frame_info \<Rightarrow> bool \<Rightarrow> (string \<times> string) list" where
  "build_sender_event_data info linked =
     [(''remote_id'', node_id_to_string (ofi_src info)),
      (''target_class'', address_class_name (ofi_address_class info)),
      (''target_type'', device_type_name (ofi_target_type info)),
      (''cmd'', format_name_and_hex (command_name (ofi_cmd info)) (ofi_cmd info)),
      (''intent'', ofi_intent info),
      (''originator'', originator_name (ofi_originator info)),
      (''acei_level'', acei_level_name (ofi_acei_level info)),
      (''linked'', if linked then ''true'' else ''false'')]"

section \<open>Reports of a recovered key\<close>

definition format_key_hex :: "bytes \<Rightarrow> string" where
  "format_key_hex key = concat (map hex_byte (take AES_KEY_SIZE key))"

text \<open>The lines a message is logged in, one call each; a trailing line break opens no further line.\<close>

function log_lines :: "string \<Rightarrow> string list" where
  "log_lines message =
     (case dropWhile (\<lambda>c. c \<noteq> CHR 0x0A) message of
        [] \<Rightarrow> [message]
      | [_] \<Rightarrow> [takeWhile (\<lambda>c. c \<noteq> CHR 0x0A) message]
      | _ # x # xs \<Rightarrow> takeWhile (\<lambda>c. c \<noteq> CHR 0x0A) message # log_lines (x # xs))"
  by pat_completeness auto
termination
proof (relation "measure length", goal_cases)
  case (2 message c x xs)
  have "length (dropWhile (\<lambda>c. c \<noteq> CHR 0x0A) message) \<le> length message" by (rule length_dropWhile_le)
  with 2 show ?case by simp
qed simp

declare log_lines.simps [simp del]

definition log_multiline_result :: "bool \<Rightarrow> string \<Rightarrow> string \<Rightarrow> (bool \<times> string) list" where
  "log_multiline_result is_warning prefix message =
     (case log_lines message of
        [] \<Rightarrow> []
      | line # rest \<Rightarrow> map (Pair is_warning) ((prefix @ line) # rest))"

fun oneway_mac_status_name :: "oneway_mac_status \<Rightarrow> string" where
  "oneway_mac_status_name MAC_VERIFIED = ''VERIFIED''"
| "oneway_mac_status_name MAC_FAILED = ''FAILED''"
| "oneway_mac_status_name MAC_NOT_PRESENT = ''not present''"

text \<open>\<open>std::tolower\<close> on a text of hexadecimal digits.\<close>

definition lower_hex :: "string \<Rightarrow> string" where
  "lower_hex s = map (\<lambda>c. if CHR ''A'' \<le> c \<and> c \<le> CHR ''Z'' then char_of (of_char c + 32 :: nat) else c) s"

definition mac_status_line :: "oneway_mac_status \<Rightarrow> string" where
  "mac_status_line status =
     (case status of
        MAC_VERIFIED \<Rightarrow>
          ''MAC VERIFIED: this frame's MAC checked out under the recovered key -- the strongest evidence '' @
          ''available on the spot that it is correct.''
      | MAC_FAILED \<Rightarrow>
          ''MAC FAILED: this frame's MAC did NOT check out under the recovered key -- it is probably wrong. '' @
          ''Re-arm and repeat the key-copy gesture closer to the hub.''
      | MAC_NOT_PRESENT \<Rightarrow>
          ''MAC not present: this frame carried no MAC trailer to verify against -- treat this key as '' @
          ''unconfirmed until tested.'')"

definition observed_type_lines :: "bool \<Rightarrow> device_type \<Rightarrow> string" where
  "observed_type_lines observed_type_known observed_type =
     (if observed_type_known
      then text_line (''    io_device_type: '' @ format_device_type_for_yaml observed_type @
             ''      # observed from this sender's traffic; verify'')
      else text_line ''    # io_device_type: unknown -- no other 1W traffic was observed from this sender while armed;'' @
           text_line (''    #   check the DEBUG '' @ quoted ''rx 1W remote ...'' @
             '' log line once you see this sender transmit again.''))"

definition build_oneway_adoption_report :: "oneway_adopted_key \<Rightarrow> bool \<Rightarrow> device_type \<Rightarrow> string" where
  "build_oneway_adoption_report adopted observed_type_known observed_type =
     (let sender_hex_lower = lower_hex (node_id_to_string (oak_sender_node adopted));
          key_hex = format_key_hex (oak_system_key adopted);
          mac_line = mac_status_line (oak_mac_status adopted);
          manufacturer_line = take 31 (''    manufacturer: 0x'' @ hex_byte (oak_manufacturer adopted));
          type_lines = observed_type_lines observed_type_known observed_type
      in mac_line @
         nl @ text_line (''The hub always transmits under its own node_id, never the sender's -- copying the sender's address '' @
           ''would hijack its rolling sequence counter and break its existing remote.'') @
         text_line ''Copy the block below into your hub's YAML.'' @
         text_line ''oneway_controllers:'' @
         text_line ''  # node_id omitted -> derived from your hub node_id; see the boot log'' @
         text_line (''  - id: adopted_'' @ sender_hex_lower) @
         text_line (''    system_key: '' @ quoted key_hex) @
         text_line manufacturer_line @ type_lines @
         ''    commands: [open, close, stop]'')"

definition build_key_extraction_report :: "node_id \<Rightarrow> bytes \<Rightarrow> string" where
  "build_key_extraction_report node_id key =
     text_line ''SYSTEM KEY EXTRACTED -- DO NOT SHARE YOUR SYSTEM KEY'' @
     text_line ''Anyone with this key and node_id can control every device on this installation.'' @
     text_line ''This exchange has not been independently confirmed against your specific hub -- test'' @
     text_line ''this key (e.g. by controlling a device with it) before relying on it.'' @
     text_line ''Copy the block below into a new hub's YAML.'' @
     text_line ''home_io_control:'' @
     text_line (''  node_id: '' @ quoted (node_id_to_string node_id)) @
     ''  system_key: '' @ quoted (format_key_hex key)"

section \<open>What a frame or a failed exchange does to a device record\<close>

definition normalize_stopped_state :: "io_device \<Rightarrow> io_device" where
  "normalize_stopped_state dev =
     (if dev_is_stopped dev \<and> dev_target dev \<noteq> UNKNOWN_POSITION \<and> dev_position dev \<noteq> UNKNOWN_POSITION \<and>
         \<not> has_reached_target_position (dev_target dev) (dev_position dev)
      then dev\<lparr>dev_is_stopped := False\<rparr> else dev)"

text \<open>\<open>static_cast<int16_t>\<close>.\<close>

definition to_int16 :: "int \<Rightarrow> int" where
  "to_int16 i = signed_take_bit 15 i"

text \<open>
  The radio's last capture is its signal strength, when there is a radio and its capture is valid.
\<close>

definition update_link_health :: "u32 \<Rightarrow> int option \<Rightarrow> io_device \<Rightarrow> io_device" where
  "update_link_health now capture dev =
     (let dev = dev\<lparr>dev_last_seen_ms := now\<rparr> in
      case capture of
        None \<Rightarrow> dev
      | Some rssi_dbm \<Rightarrow>
          (let dev = dev\<lparr>dev_last_rssi_dbm := rssi_dbm\<rparr> in
           if dev_rssi_ema_scaled dev = RSSI_UNKNOWN_DBM
           then dev\<lparr>dev_rssi_ema_scaled := to_int16 (rssi_dbm * RSSI_EMA_SCALE)\<rparr>
           else dev\<lparr>dev_rssi_ema_scaled :=
                  to_int16 (dev_rssi_ema_scaled dev + rssi_dbm - rssi_scaled_to_dbm (dev_rssi_ema_scaled dev))\<rparr>))"

definition record_exchange_timeout :: "u8 \<Rightarrow> io_device \<Rightarrow> io_device" where
  "record_exchange_timeout tries dev =
     (let dev = (if dev_exchange_timeout_count dev < 0xFFFF
                 then dev\<lparr>dev_exchange_timeout_count := dev_exchange_timeout_count dev + 1\<rparr> else dev)
      in dev\<lparr>dev_exchange_attempt_count :=
           ucast (min ((ucast (dev_exchange_attempt_count dev) :: u32) + ucast tries) 0xFFFF)\<rparr>)"

abbreviation (input) STATUS_UPDATE_ORIGINATOR_OFFSET :: nat where "STATUS_UPDATE_ORIGINATOR_OFFSET \<equiv> 14"

definition describe_status_update_originator :: "io_frame \<Rightarrow> string" where
  "describe_status_update_originator frame =
     (if unat (data_len frame) \<le> STATUS_UPDATE_ORIGINATOR_OFFSET then []
      else let originator = data frame ! STATUS_UPDATE_ORIGINATOR_OFFSET
           in format_name_and_hex (originator_name originator) originator)"

definition record_command_result :: "u32 \<Rightarrow> u8 \<Rightarrow> io_device \<Rightarrow> io_device" where
  "record_command_result now result dev = dev\<lparr>dev_last_result_code := result, dev_last_result_at_ms := now\<rparr>"

definition clear_command_result :: "io_device \<Rightarrow> io_device" where
  "clear_command_result dev = dev\<lparr>dev_last_result_code := 0, dev_last_result_at_ms := 0\<rparr>"

section \<open>Lines and reports\<close>

definition one_line :: "string \<Rightarrow> bool" where
  "one_line s \<longleftrightarrow> CHR 0x0A \<notin> set s"

fun join_lines :: "string list \<Rightarrow> string" where
  "join_lines [] = []"
| "join_lines [l] = l"
| "join_lines (l # ls) = text_line l @ join_lines ls"

lemma dropWhile_one_line: "one_line s \<Longrightarrow> dropWhile (\<lambda>c. c \<noteq> CHR 0x0A) (s @ xs) = dropWhile (\<lambda>c. c \<noteq> CHR 0x0A) xs"
  by (induction s) (auto simp: one_line_def)

lemma takeWhile_one_line: "one_line s \<Longrightarrow> takeWhile (\<lambda>c. c \<noteq> CHR 0x0A) (s @ CHR 0x0A # xs) = s"
  by (induction s) (auto simp: one_line_def)

lemma log_lines_one:
  assumes "one_line s"
  shows "log_lines s = [s]"
proof -
  have d: "dropWhile (\<lambda>c. c \<noteq> CHR 0x0A) s = []" using dropWhile_one_line [OF assms, of "[]"] by simp
  show ?thesis by (subst log_lines.simps) (simp only: d list.case)
qed

lemma log_lines_not_empty: "log_lines s \<noteq> []"
proof (cases "dropWhile (\<lambda>c. c \<noteq> CHR 0x0A) s")
  case Nil
  then show ?thesis by (subst log_lines.simps) (simp only: list.case list.distinct not_False_eq_True)
next
  case (Cons c cs)
  then show ?thesis by (cases cs; subst log_lines.simps) (simp_all only: list.case list.distinct not_False_eq_True)
qed

lemma log_lines_cons: "one_line s \<Longrightarrow> rest \<noteq> [] \<Longrightarrow> log_lines (text_line s @ rest) = s # log_lines rest"
  by (subst log_lines.simps)
     (auto simp: text_line_def nl_def dropWhile_one_line takeWhile_one_line neq_Nil_conv)

lemma join_lines_not_empty: "ls \<noteq> [] \<Longrightarrow> last ls \<noteq> [] \<Longrightarrow> join_lines ls \<noteq> []"
  by (induction ls rule: join_lines.induct) (auto simp: text_line_def nl_def)

lemma log_lines_join:
  "\<lbrakk>ls \<noteq> []; list_all one_line ls; last ls \<noteq> []\<rbrakk> \<Longrightarrow> log_lines (join_lines ls) = ls"
proof (induction ls rule: join_lines.induct)
  case (3 l l' ls)
  then show ?case using join_lines_not_empty [of "l' # ls"] by (simp add: log_lines_cons)
qed (simp_all add: log_lines_one)

text \<open>The lines the adoption report is made of.\<close>

definition adoption_report_lines :: "oneway_adopted_key \<Rightarrow> bool \<Rightarrow> device_type \<Rightarrow> string list" where
  "adoption_report_lines adopted known type =
     [mac_status_line (oak_mac_status adopted),
      ''The hub always transmits under its own node_id, never the sender's -- copying the sender's address '' @
        ''would hijack its rolling sequence counter and break its existing remote.'',
      ''Copy the block below into your hub's YAML.'', ''oneway_controllers:'',
      ''  # node_id omitted -> derived from your hub node_id; see the boot log'',
      ''  - id: adopted_'' @ lower_hex (node_id_to_string (oak_sender_node adopted)),
      ''    system_key: '' @ quoted (format_key_hex (oak_system_key adopted)),
      ''    manufacturer: 0x'' @ hex_byte (oak_manufacturer adopted)] @
     (if known
      then [''    io_device_type: '' @ format_device_type_for_yaml type @ ''      # observed from this sender's traffic; verify'']
      else [''    # io_device_type: unknown -- no other 1W traffic was observed from this sender while armed;'',
            ''    #   check the DEBUG '' @ quoted ''rx 1W remote ...'' @ '' log line once you see this sender transmit again.'']) @
     [''    commands: [open, close, stop]'']"

lemma hex_digit_one_line: "n < 16 \<Longrightarrow> hex_digit n \<noteq> CHR 0x0A"
proof -
  assume "n < 16"
  then have "(of_char (hex_digit n) :: nat) \<noteq> 10" by (simp add: hex_digit_def)
  then show ?thesis by auto
qed

lemma hex_byte_one_line [simp]: "one_line (hex_byte b)"
proof -
  have "unat b div 16 < 16" using unat_u8_less [of b] by (simp add: less_mult_imp_div_less)
  then show ?thesis using hex_digit_one_line [of "unat b div 16"] hex_digit_one_line [of "unat b mod 16"]
    by (simp add: one_line_def hex_byte_def eq_commute)
qed

lemma one_line_append [simp]: "one_line (a @ b) \<longleftrightarrow> one_line a \<and> one_line b"
  by (auto simp: one_line_def)

lemma one_line_quoted [simp]: "one_line (quoted s) \<longleftrightarrow> one_line s"
  by (auto simp: one_line_def quoted_def)

lemma one_line_node_id [simp]: "one_line (node_id_to_string n)"
  by (simp add: node_id_to_string_def)

lemma one_line_key_hex [simp]: "one_line (format_key_hex key)"
  using hex_byte_one_line by (auto simp: format_key_hex_def one_line_def)

lemma lower_char_not_nl:
  assumes "CHR ''A'' \<le> c" and "c \<le> CHR ''Z''"
  shows "char_of (of_char c + 32 :: nat) \<noteq> CHR 0x0A"
proof
  have "65 \<le> (of_char c :: nat)" "of_char c \<le> (90 :: nat)" using assms by (simp_all add: less_eq_char_def)
  then have "(of_char (char_of (of_char c + 32 :: nat)) :: nat) = of_char c + 32" by simp
  moreover assume "char_of (of_char c + 32 :: nat) = CHR 0x0A"
  then have "(of_char (char_of (of_char c + 32 :: nat)) :: nat) = of_char (CHR 0x0A)" by (rule arg_cong)
  ultimately show False using \<open>65 \<le> (of_char c :: nat)\<close> by simp
qed

lemma one_line_lower_hex [simp]: "one_line s \<Longrightarrow> one_line (lower_hex s)"
  unfolding one_line_def lower_hex_def set_map image_iff by (metis lower_char_not_nl)

lemma yaml_type_text: "length (format_device_type_for_yaml type) \<le> 40 \<and> one_line (format_device_type_for_yaml type)"
  by (cases type) (simp_all add: format_device_type_for_yaml_def format_device_type_hex_def one_line_def quoted_def
      hex_byte_one_line [unfolded one_line_def])

lemma length_key_hex [simp]: "length key = AES_KEY_SIZE \<Longrightarrow> length (format_key_hex key) = 32"
proof -
  have "length (concat (map hex_byte xs)) = 2 * length xs" for xs by (induction xs) simp_all
  then show "length key = AES_KEY_SIZE \<Longrightarrow> ?thesis" by (simp add: format_key_hex_def)
qed

lemma adoption_report_join: "build_oneway_adoption_report adopted known type = join_lines (adoption_report_lines adopted known type)"
  by (simp add: build_oneway_adoption_report_def adoption_report_lines_def observed_type_lines_def text_line_def Let_def)

lemma mac_status_line_text: "one_line (mac_status_line s) \<and> length (mac_status_line s) \<le> 180"
  by (cases s) (simp_all add: mac_status_line_def one_line_def)

lemma adoption_report_lines_ok:
  "list_all one_line (adoption_report_lines adopted known type)" "last (adoption_report_lines adopted known type) \<noteq> []"
  using mac_status_line_text yaml_type_text
  by (simp_all add: adoption_report_lines_def)
     (simp_all add: one_line_def quoted_def hex_byte_one_line [unfolded one_line_def] one_line_key_hex [unfolded one_line_def]
        one_line_lower_hex [OF one_line_node_id, unfolded one_line_def])

lemma log_lines_adoption_report:
  "log_lines (build_oneway_adoption_report adopted known type) = adoption_report_lines adopted known type"
  unfolding adoption_report_join
  by (rule log_lines_join [OF _ adoption_report_lines_ok]) (simp add: adoption_report_lines_def)

section \<open>The running average of the signal strength\<close>

lemma rounded_near: "8 * rssi_scaled_to_dbm s \<le> s + 4 \<and> s - 4 \<le> 8 * rssi_scaled_to_dbm s"
  unfolding rssi_scaled_to_dbm_def Let_def signed_divide_int_def sgn_if by (auto; linarith)

lemma to_int16_id [simp]: "- 32768 \<le> i \<Longrightarrow> i < 32768 \<Longrightarrow> to_int16 i = i"
  unfolding to_int16_def by (rule signed_take_bit_int_eq_self) simp_all

definition ema_error :: "int \<Rightarrow> int \<Rightarrow> int" where
  "ema_error x s = s - 8 * x"

lemma ema_step:
  assumes "- 4000 \<le> x" "x \<le> 4000" "- 32000 \<le> s" "s \<le> 32000"
  defines "s' \<equiv> s + x - rssi_scaled_to_dbm s"
  shows "- 32000 \<le> s' \<and> s' \<le> 32000" and "rssi_scaled_to_dbm s = x \<Longrightarrow> s' = s"
    and "rssi_scaled_to_dbm s \<noteq> x \<Longrightarrow> \<bar>ema_error x s'\<bar> < \<bar>ema_error x s\<bar>"
  using assms rounded_near [of s] unfolding ema_error_def s'_def by linarith+

lemma link_health_sample:
  assumes "- 4000 \<le> x" "x \<le> 4000" "- 32000 \<le> dev_rssi_ema_scaled dev" "dev_rssi_ema_scaled dev \<le> 32000"
  shows "dev_rssi_ema_scaled (update_link_health now (Some x) dev) =
    dev_rssi_ema_scaled dev + x - rssi_scaled_to_dbm (dev_rssi_ema_scaled dev)"
proof -
  note b = ema_step(1) [OF assms]
  have "dev_rssi_ema_scaled dev \<noteq> - 32768" using assms(3) by linarith
  then have "dev_rssi_ema_scaled (update_link_health now (Some x) dev) =
      to_int16 (dev_rssi_ema_scaled dev + x - rssi_scaled_to_dbm (dev_rssi_ema_scaled dev))"
    by (simp add: update_link_health_def Let_def)
  also have "\<dots> = dev_rssi_ema_scaled dev + x - rssi_scaled_to_dbm (dev_rssi_ema_scaled dev)"
    by (rule to_int16_id) (use b in linarith)+
  finally show ?thesis .
qed

definition steady_signal :: "int \<Rightarrow> u32 list \<Rightarrow> io_device \<Rightarrow> io_device" where
  "steady_signal x = fold (\<lambda>now. update_link_health now (Some x))"

lemma steady_signal_converges:
  assumes "- 4000 \<le> x" "x \<le> 4000"
  shows "\<lbrakk>- 32000 \<le> dev_rssi_ema_scaled dev; dev_rssi_ema_scaled dev \<le> 32000;
      \<bar>ema_error x (dev_rssi_ema_scaled dev)\<bar> \<le> int (length stamps)\<rbrakk>
    \<Longrightarrow> - 32000 \<le> dev_rssi_ema_scaled (steady_signal x stamps dev) \<and>
      rssi_scaled_to_dbm (dev_rssi_ema_scaled (steady_signal x stamps dev)) = x"
proof (induction stamps arbitrary: dev)
  case Nil
  have "rssi_scaled_to_dbm (8 * x) = x" using rounded_near [of "8 * x"] by linarith
  moreover have "dev_rssi_ema_scaled dev = 8 * x" using Nil.prems(3) by (simp add: ema_error_def)
  ultimately show ?case using assms by (simp add: steady_signal_def)
next
  case (Cons now stamps)
  let ?s = "dev_rssi_ema_scaled dev" and ?dev = "update_link_health now (Some x) dev"
  note s = link_health_sample [OF assms Cons.prems(1,2), of now]
  note e = ema_step [OF assms Cons.prems(1,2)]
  show ?case
  proof (cases "rssi_scaled_to_dbm ?s = x")
    case True
    have "dev_rssi_ema_scaled (steady_signal x ts d) = ?s" if "dev_rssi_ema_scaled d = ?s" for ts d
      using that
    proof (induction ts arbitrary: d)
      case (Cons t ts)
      then have "dev_rssi_ema_scaled (update_link_health t (Some x) d) = ?s"
        using link_health_sample [OF assms, of d t] True \<open>- 32000 \<le> ?s\<close> \<open>?s \<le> 32000\<close> by simp
      then show ?case using Cons.IH by (simp add: steady_signal_def)
    qed (simp add: steady_signal_def)
    then have "dev_rssi_ema_scaled (steady_signal x (now # stamps) dev) = ?s" by blast
    with True Cons.prems(1) show ?thesis by simp
  next
    case False
    have "\<bar>ema_error x (dev_rssi_ema_scaled ?dev)\<bar> \<le> int (length stamps)"
      unfolding s using e(3) [OF False] Cons.prems(3) by simp
    then show ?thesis using Cons.IH [of ?dev] e(1) unfolding s [symmetric] by (simp add: steady_signal_def)
  qed
qed

section \<open>Properties\<close>

text \<open>The signal strength shown for a device settles on a steady signal: from any record whose average
  is in range, after as many frames as the average is off (in eighths of a decibel) the average shown is
  the strength received, exactly; a device heard for the first time shows it at once.\<close>

theorem rssi_average_converges:
  assumes "- 4000 \<le> x" and "x \<le> 4000" and "stamps \<noteq> []"
    and "dev_rssi_ema_scaled dev = RSSI_UNKNOWN_DBM \<or>
      (- 32000 \<le> dev_rssi_ema_scaled dev \<and> dev_rssi_ema_scaled dev \<le> 32000 \<and>
       \<bar>dev_rssi_ema_scaled dev - 8 * x\<bar> \<le> int (length stamps))"
  shows "device_rssi_ema_dbm (fold (\<lambda>now. update_link_health now (Some x)) stamps dev) = x"
proof -
  obtain now ts where t: "stamps = now # ts" using assms(3) by (cases stamps) auto
  have "- 32000 \<le> dev_rssi_ema_scaled (steady_signal x stamps dev) \<and>
      rssi_scaled_to_dbm (dev_rssi_ema_scaled (steady_signal x stamps dev)) = x"
  proof (cases "dev_rssi_ema_scaled dev = RSSI_UNKNOWN_DBM")
    case True
    then have "dev_rssi_ema_scaled (update_link_health now (Some x) dev) = to_int16 (x * 8)"
      by (simp add: update_link_health_def Let_def)
    also have "\<dots> = 8 * x" using assms(1,2) by simp
    finally show ?thesis
      using steady_signal_converges [OF assms(1,2), of "update_link_health now (Some x) dev" ts] assms(1,2)
      by (simp add: t steady_signal_def ema_error_def)
  next
    case False
    then show ?thesis using steady_signal_converges [OF assms(1,2)] assms(4) by (simp add: ema_error_def)
  qed
  then show ?thesis by (auto simp: steady_signal_def device_rssi_ema_dbm_def)
qed

theorem rssi_average_converges_witness:
  "device_rssi_ema_dbm (fold (\<lambda>now. update_link_health now (Some (- 70))) [1, 2, 3] new_device) = - 70"
  by (rule rssi_average_converges) (simp_all add: new_device_def)

text \<open>Nothing of the adoption report is lost to the logger's 512-byte buffer: logged line by line, no
  line exceeds 180 characters, whatever was adopted, and one of them is the YAML line that carries the
  whole key.\<close>

theorem adoption_report_fits_log:
  assumes "length (oak_system_key adopted) = AES_KEY_SIZE"
  shows "list_all (\<lambda>(warn, l). warn \<and> length l \<le> 180)
      (log_multiline_result True [] (build_oneway_adoption_report adopted known type)) \<and>
    List.member (log_multiline_result True [] (build_oneway_adoption_report adopted known type))
      (True, ''    system_key: '' @ quoted (concat (map hex_byte (oak_system_key adopted))))"
proof -
  have lower: "length (lower_hex (node_id_to_string n)) = 6" for n by (simp add: lower_hex_def node_id_to_string_def)
  have yaml: "length (format_device_type_for_yaml type) \<le> 40" using yaml_type_text by blast
  have mac: "length (mac_status_line s) \<le> 180" for s using mac_status_line_text by blast
  have q: "length (quoted s) = length s + 2" for s by (simp add: quoted_def)
  have "list_all (\<lambda>l. length l \<le> 180) (adoption_report_lines adopted known type)"
    using yaml mac assms by (simp add: adoption_report_lines_def lower q)
  moreover have "''    system_key: '' @ quoted (concat (map hex_byte (oak_system_key adopted))) \<in>
      set (adoption_report_lines adopted known type)"
    using assms by (simp add: adoption_report_lines_def format_key_hex_def)
  moreover have "log_multiline_result True [] (build_oneway_adoption_report adopted known type) =
      map (Pair True) (adoption_report_lines adopted known type)"
    unfolding log_multiline_result_def log_lines_adoption_report by (simp add: adoption_report_lines_def)
  ultimately show ?thesis by (auto simp: list_all_iff)
qed

theorem adoption_report_fits_log_witness:
  "list_all (\<lambda>(warn, l). length l \<le> 180) (log_multiline_result True []
     (build_oneway_adoption_report \<lparr>oak_system_key = replicate 16 5, oak_manufacturer = 2, oak_sender_node = [1, 2, 3],
        oak_sequence = 7, oak_mac_status = MAC_VERIFIED\<rparr> True DT_AWNING))"
  using adoption_report_fits_log [of "\<lparr>oak_system_key = replicate 16 5, oak_manufacturer = 2, oak_sender_node = [1, 2, 3],
        oak_sequence = 7, oak_mac_status = MAC_VERIFIED\<rparr>" True DT_AWNING]
  by (simp add: list_all_iff split_beta del: replicate.simps)

text \<open>Logging by lines is faithful: joined by line breaks, the logged lines are the message, without
  the line break it may end in, and no logged line contains one.\<close>

theorem log_lines_reassemble:
  "join_lines (log_lines message) = (if message \<noteq> [] \<and> last message = CHR 0x0A then butlast message else message) \<and>
   list_all one_line (log_lines message)"
proof (induction message rule: log_lines.induct)
  case (1 message)
  let ?l = "takeWhile (\<lambda>c. c \<noteq> CHR 0x0A) message" and ?d = "dropWhile (\<lambda>c. c \<noteq> CHR 0x0A) message"
  have m: "message = ?l @ ?d" and l: "one_line ?l" by (simp_all add: one_line_def) (auto dest: set_takeWhileD)
  have c: "\<exists>xs. ?d = CHR 0x0A # xs" if "?d \<noteq> []"
    using hd_dropWhile [OF that] that by (metis list.collapse)
  consider (none) "?d = []" | (final) "?d = [CHR 0x0A]" | (more) x xs where "?d = CHR 0x0A # x # xs"
    using c by (metis neq_Nil_conv)
  then show ?case
  proof cases
    case none
    then have o: "one_line message" using l m by (metis append_Nil2)
    then have "message = [] \<or> last message \<noteq> CHR 0x0A" by (metis last_in_set one_line_def)
    with o show ?thesis by (auto simp: log_lines_one)
  next
    case final
    then have "log_lines message = [?l]" by (subst log_lines.simps) simp
    moreover have "message = ?l @ [CHR 0x0A]" using m final by simp
    then have "butlast message = ?l" "last message = CHR 0x0A" "message \<noteq> []" by (metis butlast_snoc, metis last_snoc, metis snoc_eq_iff_butlast)
    ultimately show ?thesis using l by simp
  next
    case more
    then have e: "log_lines message = ?l # log_lines (x # xs)" by (subst log_lines.simps) simp
    obtain y ys where y: "log_lines (x # xs) = y # ys"
      using log_lines_not_empty [of "x # xs"] by (meson neq_Nil_conv)
    have j: "join_lines (log_lines message) = ?l @ CHR 0x0A # join_lines (log_lines (x # xs))"
      unfolding e y by (simp add: text_line_def nl_def)
    have m': "message = ?l @ CHR 0x0A # x # xs" using m more by simp
    have ne: "message \<noteq> []" and la: "last message = last (x # xs)"
      and bl: "butlast message = ?l @ CHR 0x0A # butlast (x # xs)"
      by (metis m' append_is_Nil_conv list.distinct(1), metis m' last_appendR last_ConsR list.distinct(1),
          metis m' butlast_append butlast.simps(2) list.distinct(1))
    have ih: "join_lines (log_lines (x # xs)) = (if last (x # xs) = CHR 0x0A then butlast (x # xs) else x # xs)"
        "list_all one_line (log_lines (x # xs))"
      using 1 [OF more] by simp_all
    have "join_lines (log_lines message) = (if last message = CHR 0x0A then butlast message else message)"
      unfolding j ih(1) la [symmetric] bl by (subst (4) m') simp
    then show ?thesis using ne ih(2) l unfolding e by simp
  qed
qed

end
