(* ===== verification/Key_Adoption.thy ===== *)
theory Key_Adoption
  imports Hub_Support Commands
begin

text \<open>
  The receive-only adoption of a one-way controller key (\<open>hub_oneway_key_adoption.cpp\<close>, its state in
  \<open>hub_core.h\<close>): arming with its ten-minute timer, the one-slot memory of a sender's device class, and
  the adoption of an overheard add-controller frame with its report. Timers are deadlines on the
  unbounded clock (microseconds). Of the log, the reports are kept.
\<close>

section \<open>State and operations\<close>

abbreviation (input) ONEWAY_KEY_ADOPTION_AUTO_OFF_MS :: nat where "ONEWAY_KEY_ADOPTION_AUTO_OFF_MS \<equiv> 600000"

record oneway_observed_class =
  ooc_node :: node_id
  ooc_type :: device_type
  ooc_valid :: bool

definition nothing_observed :: oneway_observed_class where
  "nothing_observed = \<lparr>ooc_node = [0, 0, 0], ooc_type = DT_UNKNOWN, ooc_valid = False\<rparr>"

record key_adoption =
  ka_armed :: bool
  ka_observed :: oneway_observed_class
  ka_auto_off :: "int option"
  ka_switch :: "bool list"
  ka_reports :: "(bool \<times> string) list list"

definition new_key_adoption :: key_adoption where
  "new_key_adoption = \<lparr>ka_armed = False, ka_observed = nothing_observed, ka_auto_off = None, ka_switch = [], ka_reports = []\<rparr>"

definition set_oneway_key_adoption_armed :: "int \<Rightarrow> bool \<Rightarrow> key_adoption \<Rightarrow> key_adoption" where
  "set_oneway_key_adoption_armed now armed ka =
     (if \<not> armed
      then (if \<not> ka_armed ka then ka else ka\<lparr>ka_armed := False, ka_switch := ka_switch ka @ [False]\<rparr>)
      else ka\<lparr>ka_armed := True, ka_observed := nothing_observed,
              ka_auto_off := Some (now + 1000 * int ONEWAY_KEY_ADOPTION_AUTO_OFF_MS),
              ka_switch := ka_switch ka @ [True]\<rparr>)"

text \<open>The timer callback; a fired timer is no longer pending.\<close>

definition adoption_auto_off_fires :: "int \<Rightarrow> key_adoption \<Rightarrow> key_adoption" where
  "adoption_auto_off_fires now ka =
     (let ka = ka\<lparr>ka_auto_off := None\<rparr>
      in if \<not> ka_armed ka then ka else set_oneway_key_adoption_armed now False ka)"

definition record_oneway_observed_class :: "oneway_frame_info \<Rightarrow> key_adoption \<Rightarrow> key_adoption" where
  "record_oneway_observed_class info ka =
     (if \<not> ka_armed ka then ka
      else if ofi_target_type info = DT_UNKNOWN then ka
      else ka\<lparr>ka_observed := \<lparr>ooc_node = ofi_src info, ooc_type = ofi_target_type info, ooc_valid = True\<rparr>\<rparr>)"

text \<open>The log calls that announce an adopted key: a rule, a heading, the report, a rule.\<close>

definition rule_line :: string where
  "rule_line = replicate 40 CHR ''=''"

definition adoption_announcement :: "oneway_adopted_key \<Rightarrow> bool \<Rightarrow> device_type \<Rightarrow> (bool \<times> string) list" where
  "adoption_announcement adopted observed_known observed_type =
     [(True, rule_line),
      (True, ''1W CONTROLLER KEY ADOPTED FROM '' @ node_id_to_string (oak_sender_node adopted) @ '' -- DO NOT SHARE THIS KEY'')] @
     log_multiline_result True [] (build_oneway_adoption_report adopted observed_known observed_type) @
     [(True, rule_line)]"

definition try_adopt_oneway_key :: "int \<Rightarrow> io_frame \<Rightarrow> key_adoption \<Rightarrow> key_adoption" where
  "try_adopt_oneway_key now frame ka =
     (if \<not> ka_armed ka then ka
      else if cmd frame \<noteq> CMD_ONEWAY_ADD_CONTROLLER then ka
      else case decode_1w_add_controller frame of
        Inl error \<Rightarrow> ka
      | Inr adopted \<Rightarrow>
          (let observed = ka_observed ka;
               observed_known = (ooc_valid observed \<and> ooc_node observed = oak_sender_node adopted);
               observed_type = (if observed_known then ooc_type observed else DT_UNKNOWN);
               ka = ka\<lparr>ka_reports := ka_reports ka @ [adoption_announcement adopted observed_known observed_type]\<rparr>
           in set_oneway_key_adoption_armed now False ka))"

text \<open>The two calls the hub makes for every one-way frame it receives, in its order.\<close>

definition adoption_hears :: "int \<Rightarrow> io_frame \<Rightarrow> key_adoption \<Rightarrow> key_adoption" where
  "adoption_hears now frame ka =
     try_adopt_oneway_key now frame (record_oneway_observed_class (decode_1w_frame frame) ka)"

section \<open>Adoption as a machine of events\<close>

datatype adoption_event = Ev_switch bool | Ev_hears io_frame | Ev_auto_off

fun adoption_step :: "adoption_event \<times> int \<Rightarrow> key_adoption \<Rightarrow> key_adoption" where
  "adoption_step (Ev_switch armed, now) ka = set_oneway_key_adoption_armed now armed ka"
| "adoption_step (Ev_hears frame, now) ka = adoption_hears now frame ka"
| "adoption_step (Ev_auto_off, now) ka = adoption_auto_off_fires now ka"

abbreviation armings :: "key_adoption \<Rightarrow> nat" where
  "armings ka \<equiv> length (filter id (ka_switch ka))"

definition adoption_ok :: "key_adoption \<Rightarrow> bool" where
  "adoption_ok ka \<longleftrightarrow>
     length (ka_reports ka) + (if ka_armed ka then 1 else 0) \<le> armings ka \<and>
     (ka_switch ka = [] \<longrightarrow> \<not> ka_armed ka) \<and> (ka_switch ka \<noteq> [] \<longrightarrow> last (ka_switch ka) = ka_armed ka) \<and>
     (ka_armed ka \<longrightarrow> ka_auto_off ka \<noteq> None) \<and>
     (ooc_valid (ka_observed ka) \<longrightarrow> ooc_type (ka_observed ka) \<noteq> DT_UNKNOWN)"

lemma adoption_ok_switch [wf_rules]: "adoption_ok ka \<Longrightarrow> adoption_ok (set_oneway_key_adoption_armed now armed ka)"
  by (auto simp: adoption_ok_def set_oneway_key_adoption_armed_def nothing_observed_def)

lemma adoption_ok_auto_off [wf_rules]: "adoption_ok ka \<Longrightarrow> adoption_ok (adoption_auto_off_fires now ka)"
  by (auto simp: adoption_ok_def adoption_auto_off_fires_def set_oneway_key_adoption_armed_def Let_def)

lemma adoption_ok_hears [wf_rules]:
  assumes "adoption_ok ka"
  shows "adoption_ok (adoption_hears now frame ka)"
proof -
  have 1: "adoption_ok (record_oneway_observed_class info ka)" for info
    using assms by (auto simp: adoption_ok_def record_oneway_observed_class_def)
  have 2: "adoption_ok (try_adopt_oneway_key now frame k)" if "adoption_ok k" for k
    using that by (auto simp: adoption_ok_def try_adopt_oneway_key_def set_oneway_key_adoption_armed_def Let_def
        split: sum.split)
  show ?thesis unfolding adoption_hears_def by (rule 2 [OF 1])
qed

lemma adoption_ok_step [wf_rules]: "adoption_ok ka \<Longrightarrow> adoption_ok (adoption_step ev ka)"
  by (cases ev; cases "fst ev") (auto intro: wf_rules)

interpretation adoption: machine new_key_adoption adoption_step adoption_ok
  by unfold_locales (simp_all add: adoption_ok_step, simp add: adoption_ok_def new_key_adoption_def nothing_observed_def)

text \<open>Only frames of a class broadcast touch the memory of the last observed class.\<close>

abbreviation class_of :: "io_frame \<Rightarrow> device_type" where
  "class_of frame \<equiv> ofi_target_type (decode_1w_frame frame)"

definition typed_frames :: "io_frame list \<Rightarrow> io_frame list" where
  "typed_frames fs = filter (\<lambda>f. class_of f \<noteq> DT_UNKNOWN) fs"

definition listens :: "int \<Rightarrow> io_frame list \<Rightarrow> key_adoption \<Rightarrow> key_adoption" where
  "listens now fs = fold (adoption_hears now) fs"

lemma src_decode_1w [simp]: "ofi_src (decode_1w_frame f) = src f"
  by (simp add: decode_1w_frame_def Let_def)

lemma hears_other_commands:
  assumes "cmd f \<noteq> CMD_ONEWAY_ADD_CONTROLLER"
  shows "adoption_hears now f ka = record_oneway_observed_class (decode_1w_frame f) ka"
  using assms by (simp add: adoption_hears_def try_adopt_oneway_key_def)

lemma listening_remembers_last:
  "\<lbrakk>ka_armed ka; list_all (\<lambda>f. cmd f \<noteq> CMD_ONEWAY_ADD_CONTROLLER) fs\<rbrakk> \<Longrightarrow>
   listens now fs ka = (if typed_frames fs = [] then ka else
     let f = last (typed_frames fs) in ka\<lparr>ka_observed := \<lparr>ooc_node = src f, ooc_type = class_of f, ooc_valid = True\<rparr>\<rparr>)"
proof (induction fs rule: rev_induct)
  case (snoc f fs)
  have "listens now (fs @ [f]) ka = record_oneway_observed_class (decode_1w_frame f) (listens now fs ka)"
    using snoc.prems(2) by (simp add: listens_def hears_other_commands)
  with snoc show ?case
    by (auto simp: typed_frames_def record_oneway_observed_class_def Let_def)
qed (simp add: listens_def typed_frames_def)

section \<open>Properties\<close>

text \<open>One adoption per arming. In every run of switching, received frames and timers, the number of
  reports never exceeds the number of times the listener was armed, and while it is armed it stays
  strictly below: the window is spent by the first key recovered. An armed listener always has its
  auto-off timer pending, and the switch shows the state.\<close>

theorem one_adoption_per_arming:
  "(case fold adoption_step events new_key_adoption of ka \<Rightarrow>
     length (ka_reports ka) + (if ka_armed ka then 1 else 0) \<le> length (filter id (ka_switch ka)) \<and>
     (ka_switch ka \<noteq> [] \<longrightarrow> last (ka_switch ka) = ka_armed ka) \<and> (ka_armed ka \<longrightarrow> ka_auto_off ka \<noteq> None))"
  using adoption.inv_history [of events] by (simp add: adoption_ok_def)

theorem one_adoption_per_arming_witness:
  "length (ka_reports (fold adoption_step [(Ev_switch True, 0), (Ev_hears empty_frame, 5), (Ev_auto_off, 600000000)] new_key_adoption)) \<le> 1"
  using one_adoption_per_arming [of "[(Ev_switch True, 0), (Ev_hears empty_frame, 5), (Ev_auto_off, 600000000)]"]
  by (simp add: adoption_hears_def record_oneway_observed_class_def decode_1w_frame_def try_adopt_oneway_key_def
      set_oneway_key_adoption_armed_def adoption_auto_off_fires_def new_key_adoption_def Let_def empty_frame_def)

text \<open>The key-copy gesture is adopted. When the armed listener receives the add-controller broadcast
  another controller builds for its key, it logs exactly one report, made of lines that fit a log call,
  which names the sender and carries the sender's key as YAML, and it disarms and tells the switch.
  The device class in the report is the frame's own, if it names one; else that of the last class
  broadcast heard while armed when it came from that sender; else unknown.\<close>

theorem gesture_is_adopted:
  assumes "length source = NODE_ID_SIZE" and "length key = AES_KEY_SIZE"
    and "create_1w_add_controller source type manufacturer sequence key with_mac = (ok, f)"
    and "parse (serialize f FRAME_MAX_WIRE_SIZE) = Some heard_frame" and "ka_armed ka"
  defines "seen \<equiv>
      (if ofi_target_type (decode_1w_frame heard_frame) \<noteq> DT_UNKNOWN then (True, ofi_target_type (decode_1w_frame heard_frame))
       else if ooc_valid (ka_observed ka) \<and> ooc_node (ka_observed ka) = source then (True, ooc_type (ka_observed ka))
       else (False, DT_UNKNOWN))"
  shows "ka_reports (adoption_hears now heard_frame ka) = ka_reports ka @
      [adoption_announcement \<lparr>oak_system_key = key, oak_manufacturer = manufacturer, oak_sender_node = source,
        oak_sequence = sequence, oak_mac_status = (if with_mac then MAC_VERIFIED else MAC_NOT_PRESENT)\<rparr>
        (fst seen) (snd seen)] \<and>
    \<not> ka_armed (adoption_hears now heard_frame ka) \<and> last (ka_switch (adoption_hears now heard_frame ka)) = False"
proof -
  note r = add_controller_recovered [OF assms(1-3)]
  then have h: "heard_frame = f" using assms(4) by simp
  have c: "cmd f = CMD_ONEWAY_ADD_CONTROLLER" and s: "src f = source"
    using add_controller_frame(4,6) [OF assms(1) [simplified] assms(2) [simplified] assms(3)] by simp_all
  show ?thesis
    unfolding h adoption_hears_def try_adopt_oneway_key_def record_oneway_observed_class_def
    using assms(5) c r s by (cases "ooc_valid (ka_observed ka) \<and> ooc_node (ka_observed ka) = source")
       (auto simp: Let_def set_oneway_key_adoption_armed_def seen_def h)
qed

theorem gesture_is_adopted_witness:
  "\<exists>f ka. ka = adoption_hears 9 f (set_oneway_key_adoption_armed 0 True new_key_adoption) \<and> \<not> ka_armed ka \<and>
     length (ka_reports ka) = 1"
proof -
  let ?ka = "set_oneway_key_adoption_armed 0 True new_key_adoption"
  obtain ok f where f: "create_1w_add_controller [1, 2, 3] DT_AWNING 2 7 (replicate 16 5) True = (ok, f)" by fastforce
  have p: "parse (serialize f FRAME_MAX_WIRE_SIZE) = Some f"
    using add_controller_recovered [OF _ _ f] by simp
  have "ka_armed ?ka" "ka_reports ?ka = []" by (simp_all add: set_oneway_key_adoption_armed_def new_key_adoption_def)
  with gesture_is_adopted [OF _ _ f p, of ?ka 9]
  have "\<not> ka_armed (adoption_hears 9 f ?ka)" "length (ka_reports (adoption_hears 9 f ?ka)) = 1" by auto
  then show ?thesis by blast
qed

text \<open>The memory of the sender's class has one slot. When, after the sender's own class broadcast, any
  other controller's is overheard, the sender's is forgotten: the report of the sender's key then says
  that none of its traffic was observed.\<close>

theorem observed_class_forgotten:
  assumes "ka_armed ka" and "list_all (\<lambda>g. cmd g \<noteq> CMD_ONEWAY_ADD_CONTROLLER) fs"
    and "typed_frames fs \<noteq> []" and "src (last (typed_frames fs)) \<noteq> src f"
    and "cmd f = CMD_ONEWAY_ADD_CONTROLLER" and "class_of f = DT_UNKNOWN" and "decode_1w_add_controller f = Inr adopted"
  shows "ka_reports (adoption_hears now f (listens now fs ka)) = ka_reports ka @ [adoption_announcement adopted False DT_UNKNOWN]"
proof -
  let ?k = "listens now fs ka" and ?g = "last (typed_frames fs)"
  have k: "?k = ka\<lparr>ka_observed := \<lparr>ooc_node = src ?g, ooc_type = class_of ?g, ooc_valid = True\<rparr>\<rparr>"
    using listening_remembers_last [OF assms(1,2), of now] assms(3) by (simp add: Let_def)
  have s: "oak_sender_node adopted = src f"
    using assms(7) by (auto simp: decode_1w_add_controller_def Let_def split: if_splits)
  have o: "record_oneway_observed_class (decode_1w_frame f) ?k = ?k"
    using assms(6) by (simp add: record_oneway_observed_class_def)
  show ?thesis
    unfolding adoption_hears_def o unfolding k try_adopt_oneway_key_def
    using assms(1,4,5,7) s by (simp add: Let_def set_oneway_key_adoption_armed_def)
qed

theorem observed_class_forgotten_witness:
  "\<exists>f g h. ofi_target_type (decode_1w_frame g) = DT_AWNING \<and> src g = src f \<and>
     (\<exists>adopted. oak_sender_node adopted = src f \<and>
        ka_reports (adoption_hears 9 f (listens 9 [g, h] (set_oneway_key_adoption_armed 0 True new_key_adoption))) =
        [adoption_announcement adopted False DT_UNKNOWN])"
proof -
  let ?ka = "set_oneway_key_adoption_armed 0 True new_key_adoption"
  let ?g = "empty_frame\<lparr>dst := [0, 0, 0xFF], src := [1, 2, 3]\<rparr>" and ?h = "empty_frame\<lparr>dst := [0, 0, 0xBF], src := [4, 5, 6]\<rparr>"
  let ?f = "empty_frame\<lparr>ctrl0 := 0x20, cmd := CMD_ONEWAY_ADD_CONTROLLER, dst := [0, 0xFF, 0x3F], src := [1, 2, 3], data_len := 20\<rparr>"
  have c: "class_of ?g = DT_AWNING" "class_of ?h = DT_ROLLER_SHUTTER" "class_of ?f = DT_UNKNOWN"
    by code_simp+
  have a: "ka_armed ?ka" "ka_reports ?ka = []" by (simp_all add: set_oneway_key_adoption_armed_def new_key_adoption_def)
  have t: "typed_frames [?g, ?h] = [?g, ?h]" using c by (simp add: typed_frames_def)
  obtain adopted where d: "decode_1w_add_controller ?f = Inr adopted" and s: "oak_sender_node adopted = [1, 2, 3]"
    by (simp add: decode_1w_add_controller_def Let_def empty_frame_def)
  have "ka_reports (adoption_hears 9 ?f (listens 9 [?g, ?h] ?ka)) = [adoption_announcement adopted False DT_UNKNOWN]"
    using observed_class_forgotten [OF a(1), of "[?g, ?h]" ?f adopted 9] t c d a(2) by (simp add: empty_frame_def)
  then show ?thesis using c s by (intro exI [of _ ?f] exI [of _ ?g] exI [of _ ?h] conjI exI [of _ adopted]) simp_all
qed

end
