(* ===== verification/Hub_Status.thy ===== *)
theory Hub_Status
  imports Key_Extraction Key_Adoption Poll_Policy Operation_Queue Decisions Oneway
begin

text \<open>
  The receive side of the hub (\<open>hub_status.cpp\<close>, with its state and the one-way deferral of
  \<open>hub_core.h\<close>): decoding a status-bearing frame into a device's record, deciding when passive traffic
  starts follow-up polls, and the dispatch of every received packet. A pending named timeout
  \<open>remote_poll_<device>\<close> is the deadline of that device in \<open>hub_timers\<close>; events for Home Assistant are
  collected in \<open>hub_events\<close>. Log lines are left out. The radio's capture of the last frame is valid
  unless it was cleared, when it reads 0 dBm.
\<close>

section \<open>The hub's state\<close>

record hub =
  hub_registry :: registry
  hub_policy :: poll_policy
  hub_queue :: op_queue
  hub_radio :: radio
  hub_engine :: engine_log
  hub_extraction :: key_extraction
  hub_adoption :: key_adoption
  hub_oneway :: "(radio \<times> engine_log) oneway_transmitter"
  hub_pairing_result :: "telemetry option"
  hub_last_1w_logged :: oneway_dedup_state
  hub_first_1w_activity_ms :: u32
  hub_last_1w_activity_ms :: u32
  hub_timers :: "(string, int) omap"
  hub_events :: "(string \<times> string) list list"
  hub_exposed_senders :: "string list"
  hub_connected :: bool
  hub_initialized :: bool
  hub_radio_test_mode :: bool

abbreviation hub_millis :: "hub \<Rightarrow> u32" where
  "hub_millis h \<equiv> millis (hub_radio h)"

definition last_capture :: "radio \<Rightarrow> int option" where
  "last_capture r = (if rad_last_rssi r = 0 then None else Some (rad_last_rssi r))"

definition get_device :: "string \<Rightarrow> hub \<Rightarrow> io_device option" where
  "get_device device_id h = reg_get device_id (hub_registry h)"

definition put_device :: "string \<Rightarrow> io_device \<Rightarrow> hub \<Rightarrow> hub" where
  "put_device device_id dev h = h\<lparr>hub_registry := reg_put device_id dev (hub_registry h)\<rparr>"

definition notify_device_update :: "string \<Rightarrow> hub \<Rightarrow> hub" where
  "notify_device_update device_id h = h\<lparr>hub_registry := reg_notify device_id (hub_registry h)\<rparr>"

section \<open>Decoding status fields\<close>

abbreviation (input) PRIVATE_RESPONSE_MIN_DATA_LEN :: u8 where "PRIVATE_RESPONSE_MIN_DATA_LEN \<equiv> 6"
abbreviation (input) STATUS_UPDATE_MIN_DATA_LEN :: u8 where "STATUS_UPDATE_MIN_DATA_LEN \<equiv> 11"
abbreviation (input) GET_NAME_RESPONSE_MIN_DATA_LEN :: u8 where "GET_NAME_RESPONSE_MIN_DATA_LEN \<equiv> 1"
abbreviation (input) GET_INFO2_RESPONSE_MIN_DATA_LEN :: u8 where "GET_INFO2_RESPONSE_MIN_DATA_LEN \<equiv> 12"
abbreviation (input) ERROR_RESPONSE_MIN_DATA_LEN :: u8 where "ERROR_RESPONSE_MIN_DATA_LEN \<equiv> 1"
abbreviation (input) EXTENDED_TILT_RESPONSE_MIN_DATA_LEN :: u8 where "EXTENDED_TILT_RESPONSE_MIN_DATA_LEN \<equiv> 15"
abbreviation (input) STATUS_STOPPED_FLAGS_OFFSET :: nat where "STATUS_STOPPED_FLAGS_OFFSET \<equiv> 0"
abbreviation (input) PRIVATE_RESPONSE_DELAY_HINT_OFFSET :: nat where "PRIVATE_RESPONSE_DELAY_HINT_OFFSET \<equiv> 7"
abbreviation (input) PRIVATE_RESPONSE_TARGET_OFFSET :: nat where "PRIVATE_RESPONSE_TARGET_OFFSET \<equiv> 2"
abbreviation (input) PRIVATE_RESPONSE_CURRENT_OFFSET :: nat where "PRIVATE_RESPONSE_CURRENT_OFFSET \<equiv> 4"
abbreviation (input) STATUS_UPDATE_TARGET_OFFSET :: nat where "STATUS_UPDATE_TARGET_OFFSET \<equiv> 5"
abbreviation (input) STATUS_UPDATE_CURRENT_OFFSET :: nat where "STATUS_UPDATE_CURRENT_OFFSET \<equiv> 7"
abbreviation (input) GET_INFO2_TYPE_OFFSET :: nat where "GET_INFO2_TYPE_OFFSET \<equiv> 10"
abbreviation (input) GET_INFO2_TYPE_SUBTYPE_OFFSET :: nat where "GET_INFO2_TYPE_SUBTYPE_OFFSET \<equiv> 11"
abbreviation (input) EXTENDED_TILT_SELECTOR_OFFSET :: nat where "EXTENDED_TILT_SELECTOR_OFFSET \<equiv> 12"
abbreviation (input) EXTENDED_TILT_MSB_OFFSET :: nat where "EXTENDED_TILT_MSB_OFFSET \<equiv> 13"
abbreviation (input) EXTENDED_TILT_LSB_OFFSET :: nat where "EXTENDED_TILT_LSB_OFFSET \<equiv> 14"
abbreviation (input) PRIVATE_RESPONSE_HINT_UNUSED :: u8 where "PRIVATE_RESPONSE_HINT_UNUSED \<equiv> 0xFF"
abbreviation (input) PRIVATE_RESPONSE_HINT_ZERO :: u8 where "PRIVATE_RESPONSE_HINT_ZERO \<equiv> 0x00"
abbreviation (input) PRIVATE_RESPONSE_HINT_SCALE_MS :: u32 where "PRIVATE_RESPONSE_HINT_SCALE_MS \<equiv> 1000"
abbreviation (input) PRIVATE_RESPONSE_HINT_BIAS_MS :: u32 where "PRIVATE_RESPONSE_HINT_BIAS_MS \<equiv> 1000"

definition be16_at :: "io_frame \<Rightarrow> nat \<Rightarrow> u16" where
  "be16_at frame offset = be16 (data frame ! offset) (data frame ! (offset + 1))"

definition decode_status_fields :: "io_frame \<Rightarrow> nat \<Rightarrow> nat \<Rightarrow> bool \<Rightarrow> io_device \<Rightarrow> io_device" where
  "decode_status_fields frame target_offset current_offset allow_tilt_from_extended_response dev =
     (let (target, position) = decode_position_report (be16_at frame target_offset) (be16_at frame current_offset) (dev_is_stopped dev);
          dev = normalize_stopped_state (dev\<lparr>dev_target := target, dev_position := position\<rparr>);
          dev = dev\<lparr>dev_optimistic := optimistic_clear_position (dev_optimistic dev)\<rparr>
      in if allow_tilt_from_extended_response \<and> device_supports_tilt (dev_type dev) \<and>
            data_len frame \<ge> EXTENDED_TILT_RESPONSE_MIN_DATA_LEN \<and>
            data frame ! EXTENDED_TILT_SELECTOR_OFFSET = STATUS_TILT_SELECTOR
         then dev\<lparr>dev_tilt := decode_tilt_report (be16 (data frame ! EXTENDED_TILT_MSB_OFFSET) (data frame ! EXTENDED_TILT_LSB_OFFSET)),
                  dev_optimistic := optimistic_clear_tilt (dev_optimistic dev)\<rparr>
         else dev)"

definition compute_private_response_delay_ms :: "io_device \<Rightarrow> io_frame \<Rightarrow> poll_policy \<Rightarrow> string \<Rightarrow> u32" where
  "compute_private_response_delay_ms dev frame policy device_id =
     (if effective_is_stopped dev then 0
      else let hint = data frame ! PRIVATE_RESPONSE_DELAY_HINT_OFFSET;
               hint_delay_ms =
                 (if unat (data_len frame) > PRIVATE_RESPONSE_DELAY_HINT_OFFSET \<and>
                     hint \<noteq> PRIVATE_RESPONSE_HINT_UNUSED \<and> hint \<noteq> PRIVATE_RESPONSE_HINT_ZERO
                  then ucast hint * PRIVATE_RESPONSE_HINT_SCALE_MS + PRIVATE_RESPONSE_HINT_BIAS_MS else 0)
           in settle_delay_ms (get_interval device_id policy) hint_delay_ms False)"

definition compute_status_update_delay_ms :: "io_device \<Rightarrow> poll_policy \<Rightarrow> string \<Rightarrow> u32" where
  "compute_status_update_delay_ms dev policy device_id =
     (if effective_is_stopped dev then 0 else settle_delay_ms (get_interval device_id policy) 0 False)"

definition apply_private_response_status ::
  "string \<Rightarrow> u32 \<Rightarrow> io_frame \<Rightarrow> bool \<Rightarrow> io_device \<Rightarrow> poll_policy \<Rightarrow> io_device \<times> poll_policy" where
  "apply_private_response_status device_id now frame trust_position dev policy =
     (let dev = dev\<lparr>dev_is_stopped := (data frame ! STATUS_STOPPED_FLAGS_OFFSET AND STATUS_STOPPED \<noteq> 0), dev_last_status := now\<rparr>;
          dev = (if trust_position
                 then decode_status_fields frame PRIVATE_RESPONSE_TARGET_OFFSET PRIVATE_RESPONSE_CURRENT_OFFSET True dev
                 else normalize_stopped_state dev)
      in if effective_is_stopped dev \<or> \<not> is_tracking_active device_id (dev_last_status dev) policy
         then (dev, poll_clear device_id policy)
         else let new_deadline = dev_last_status dev + compute_private_response_delay_ms dev frame policy device_id;
                  existing_deadline = get_next_update device_id policy
              in (dev, set_next_update device_id
                    (if existing_deadline \<noteq> 0 \<and> existing_deadline < new_deadline then existing_deadline else new_deadline) policy))"

definition apply_unsolicited_status_update ::
  "string \<Rightarrow> u32 \<Rightarrow> io_frame \<Rightarrow> io_device \<Rightarrow> poll_policy \<Rightarrow> io_device \<times> poll_policy" where
  "apply_unsolicited_status_update device_id now frame dev policy =
     (let dev = dev\<lparr>dev_is_stopped := (data frame ! STATUS_STOPPED_FLAGS_OFFSET AND STATUS_STOPPED \<noteq> 0), dev_last_status := now\<rparr>;
          dev = decode_status_fields frame STATUS_UPDATE_TARGET_OFFSET STATUS_UPDATE_CURRENT_OFFSET False dev
      in if effective_is_stopped dev \<or> \<not> is_tracking_active device_id (dev_last_status dev) policy
         then (dev, poll_clear device_id policy)
         else (dev, set_next_update device_id
                 (dev_last_status dev + compute_status_update_delay_ms dev policy device_id) policy))"

definition apply_info2_response :: "io_frame \<Rightarrow> io_device \<Rightarrow> io_device" where
  "apply_info2_response frame dev =
     (if dev_type dev \<noteq> DT_UNKNOWN then dev
      else let dev = dev\<lparr>dev_type := decode_packed_device_type (data frame ! GET_INFO2_TYPE_OFFSET)
                          (data frame ! GET_INFO2_TYPE_SUBTYPE_OFFSET),
                        dev_subtype := decode_packed_device_subtype (data frame ! GET_INFO2_TYPE_SUBTYPE_OFFSET)\<rparr>
           in if default_inverted_for_type (dev_type dev) then dev\<lparr>dev_inverted := True\<rparr> else dev)"

text \<open>The name buffer is read up to its first zero byte.\<close>

definition apply_name_response :: "io_frame \<Rightarrow> io_device \<Rightarrow> io_device" where
  "apply_name_response frame dev =
     dev\<lparr>dev_name := takeWhile (\<lambda>b. b \<noteq> 0) (decode_device_name_payload (payload frame))\<rparr>"

section \<open>Follow-up polls\<close>

definition begin_status_poll_tracking :: "string \<Rightarrow> u32 \<Rightarrow> hub \<Rightarrow> hub" where
  "begin_status_poll_tracking device_id initial_delay_ms h =
     (if get_device device_id h = None then h
      else h\<lparr>hub_policy := begin_tracking device_id initial_delay_ms (hub_millis h) (hub_policy h)\<rparr>)"

text \<open>A timeout of the same name replaces the pending one; its callback queues a status request.\<close>

definition schedule_status_poll :: "string \<Rightarrow> u32 \<Rightarrow> hub \<Rightarrow> hub" where
  "schedule_status_poll device_id delay h =
     h\<lparr>hub_timers := om_put device_id (rad_clock (hub_radio h) + 1000 * int (unat delay)) (hub_timers h)\<rparr>"

definition schedule_device_polls :: "string list \<Rightarrow> u32 \<Rightarrow> hub \<Rightarrow> hub" where
  "schedule_device_polls device_ids delay =
     fold (\<lambda>device_id h. schedule_status_poll device_id delay (begin_status_poll_tracking device_id 0 h)) device_ids"

definition schedule_linked_remote_polls :: "string \<Rightarrow> u32 \<Rightarrow> hub \<Rightarrow> hub" where
  "schedule_linked_remote_polls remote_id delay h =
     (case reg_linked_devices remote_id (hub_registry h) of
        None \<Rightarrow> h
      | Some linked \<Rightarrow> schedule_device_polls linked delay h)"

text \<open>The devices of the class are appended one by one unless already present.\<close>

definition resolve_1w_target_devices :: "oneway_frame_info \<Rightarrow> string \<Rightarrow> registry \<Rightarrow> string list" where
  "resolve_1w_target_devices info src_id reg =
     (let devices = (case reg_linked_devices src_id reg of Some id_linked \<Rightarrow> id_linked | None \<Rightarrow> [])
      in if ofi_address_class info = BROADCAST_TYPE \<and> ofi_target_type info \<noteq> DT_UNKNOWN
         then (case reg_linked_devices_for_class (ofi_target_type info) reg of
                 None \<Rightarrow> devices
               | Some class_linked \<Rightarrow>
                   fold (\<lambda>device_id ds. if List.member ds device_id then ds else ds @ [device_id]) class_linked devices)
         else devices)"

definition apply_optimistic_linked_device :: "oneway_frame_info \<Rightarrow> bool \<Rightarrow> rat option \<Rightarrow> string \<Rightarrow> registry \<Rightarrow> registry" where
  "apply_optimistic_linked_device info is_stop target device_id reg =
     (case reg_get device_id reg of
        Some dev \<Rightarrow>
          if ofi_target_type info \<noteq> DT_UNKNOWN \<and> dev_type dev \<noteq> DT_UNKNOWN \<and> dev_type dev \<noteq> ofi_target_type info then reg
          else if is_stop then snd (apply_optimistic_stop device_id reg)
          else (case target of Some t \<Rightarrow> snd (apply_optimistic_target device_id t reg) | None \<Rightarrow> reg)
      | None \<Rightarrow>
          if is_stop then snd (apply_optimistic_stop device_id reg)
          else (case target of Some t \<Rightarrow> snd (apply_optimistic_target device_id t reg) | None \<Rightarrow> reg))"

definition apply_optimistic_linked_state :: "oneway_frame_info \<Rightarrow> string list \<Rightarrow> registry \<Rightarrow> bool \<times> registry" where
  "apply_optimistic_linked_state info device_ids reg =
     (if \<not> ofi_has_intent info then (False, reg)
      else let is_stop = (ofi_main0 info = POS_STOP);
               target = (if is_stop then None else oneway_intent_to_target (ofi_main0 info) (ofi_main1 info))
           in (is_stop, fold (apply_optimistic_linked_device info is_stop target) device_ids reg))"

definition maybe_fire_sender_event :: "oneway_frame_info \<Rightarrow> bool \<Rightarrow> string \<Rightarrow> hub \<Rightarrow> hub" where
  "maybe_fire_sender_event info linked src_id h =
     (if \<not> ofi_has_intent info then h
      else if \<not> hub_connected h then h
      else if \<not> is_exposed_sender (hub_exposed_senders h) src_id then h
      else h\<lparr>hub_events := hub_events h @ [build_sender_event_data info linked]\<rparr>)"

section \<open>Status-bearing frames\<close>

definition update_device_status :: "io_frame \<Rightarrow> bool \<Rightarrow> hub \<Rightarrow> hub" where
  "update_device_status frame trust_position h =
     (let device_id = node_id_to_string (src frame) in
      case get_device device_id h of
        None \<Rightarrow> h
      | Some dev \<Rightarrow>
          (let dev = update_link_health (hub_millis h) (last_capture (hub_radio h)) dev;
               h = put_device device_id dev h
           in if cmd frame = CMD_PRIVATE_RESP
              then (if data_len frame < PRIVATE_RESPONSE_MIN_DATA_LEN then h
                    else case apply_private_response_status device_id (hub_millis h) frame trust_position dev (hub_policy h) of
                      (dev, policy) \<Rightarrow>
                        notify_device_update device_id (put_device device_id (clear_command_result dev) (h\<lparr>hub_policy := policy\<rparr>)))
              else if cmd frame = CMD_STATUS_UPDATE
              then (if data_len frame < STATUS_UPDATE_MIN_DATA_LEN then h
                    else case apply_unsolicited_status_update device_id (hub_millis h) frame dev (hub_policy h) of
                      (dev, policy) \<Rightarrow>
                        notify_device_update device_id (put_device device_id (clear_command_result dev) (h\<lparr>hub_policy := policy\<rparr>)))
              else if cmd frame = CMD_GET_NAME_RESP
              then (if data_len frame < GET_NAME_RESPONSE_MIN_DATA_LEN then h
                    else notify_device_update device_id (put_device device_id (apply_name_response frame dev) h))
              else if cmd frame = CMD_GET_INFO2_RESP
              then (if data_len frame < GET_INFO2_RESPONSE_MIN_DATA_LEN then h
                    else put_device device_id (apply_info2_response frame dev) h)
              else if cmd frame = CMD_ERROR_RESP
              then (if data_len frame < ERROR_RESPONSE_MIN_DATA_LEN then h
                    else notify_device_update device_id
                           (put_device device_id (record_command_result (hub_millis h) (data frame ! 0) dev) h))
              else h))"

definition record_1w_activity :: "u32 \<Rightarrow> hub \<Rightarrow> hub" where
  "record_1w_activity now h =
     (let h = (if oneway_burst_started_fresh (hub_last_1w_activity_ms h) now ONEWAY_QUIET_PERIOD_MS
               then h\<lparr>hub_first_1w_activity_ms := now\<rparr> else h)
      in h\<lparr>hub_last_1w_activity_ms := now\<rparr>)"

section \<open>The dispatch of a received packet\<close>

text \<open>
  The branches of \<open>process_received_packet_\<close>, in its order. A received packet carries its bytes and the
  channel it was heard on; the two random challenges that may be drawn while it is handled are arguments.
\<close>

definition process_oneway_frame :: "io_frame \<Rightarrow> hub \<Rightarrow> hub" where
  "process_oneway_frame frame h =
     (let src_id = node_id_to_string (src frame);
          now = hub_millis h;
          h = record_1w_activity now h;
          info = decode_1w_frame frame;
          h = h\<lparr>hub_adoption := adoption_hears (rad_clock (hub_radio h)) frame (hub_adoption h)\<rparr>;
          incoming = \<lparr>odd_src_id = src_id, odd_cmd = cmd frame, odd_has_intent = ofi_has_intent info,
                      odd_main0 = ofi_main0 info, odd_main1 = ofi_main1 info, odd_timestamp = now\<rparr>
      in if is_duplicate_1w_frame (hub_last_1w_logged h) incoming ONEWAY_DEDUP_WINDOW_MS then h
         else
           let h = h\<lparr>hub_last_1w_logged := incoming\<rparr>;
               linked = reg_linked_devices src_id (hub_registry h);
               h = maybe_fire_sender_event info (linked \<noteq> None \<and> linked \<noteq> Some []) src_id h;
               target_devices = resolve_1w_target_devices info src_id (hub_registry h);
               (is_stop, reg) = apply_optimistic_linked_state info target_devices (hub_registry h);
               h = h\<lparr>hub_registry := reg\<rparr>
           in schedule_device_polls target_devices (if is_stop then 0 else REMOTE_ACTIVITY_STATUS_POLL_DELAY_MS) h)"

definition process_status_update :: "exchange_env \<Rightarrow> bytes \<Rightarrow> io_frame \<Rightarrow> u32 \<Rightarrow> hub \<Rightarrow> hub" where
  "process_status_update env random frame freq h =
     (case authenticate_request env random frame freq (hub_radio h) (hub_engine h) of
        (False, r, l) \<Rightarrow> h\<lparr>hub_radio := r, hub_engine := l\<rparr>
      | (True, r, l) \<Rightarrow>
          (case create_status_update_resp (env_node_id env) (src frame) of
             (False, resp) \<Rightarrow> h\<lparr>hub_radio := r, hub_engine := l\<rparr>
           | (True, resp) \<Rightarrow>
               (let (ok1, r, l) = transmit_frame env resp FREQ_CH1 SHORT_PREAMBLE r l;
                    (ok2, r, l) = transmit_frame env resp FREQ_CH2 SHORT_PREAMBLE r l;
                    (ok3, r, l) = transmit_frame env resp FREQ_CH3 SHORT_PREAMBLE r l
                in update_device_status frame True (h\<lparr>hub_radio := r, hub_engine := l\<rparr>))))"

definition process_frame :: "exchange_env \<Rightarrow> bytes \<Rightarrow> bytes \<Rightarrow> io_frame \<Rightarrow> u32 \<Rightarrow> hub \<Rightarrow> hub" where
  "process_frame env kx_challenge random frame freq h =
     (case try_handle_key_extraction_frame env kx_challenge frame (hub_radio h) (hub_engine h) (hub_extraction h) of
        (True, kx, r, l) \<Rightarrow> h\<lparr>hub_extraction := kx, hub_radio := r, hub_engine := l\<rparr>
      | (False, _) \<Rightarrow>
          if is_exchange_internal_command (cmd frame) then h
          else if ctrl0 frame AND CTRL0_PROTOCOL_1W \<noteq> 0 then process_oneway_frame frame h
          else if cmd frame = CMD_STATUS_UPDATE \<and> dst frame = env_node_id env
          then process_status_update env random frame freq h
          else if cmd frame = CMD_PRIVATE_RESP \<or> cmd frame = CMD_STATUS_UPDATE then h
          else let dst_id = node_id_to_string (dst frame); src_id = node_id_to_string (src frame)
               in if get_device dst_id h \<noteq> None \<and> src frame \<noteq> env_node_id env
                  then schedule_status_poll dst_id REMOTE_ACTIVITY_STATUS_POLL_DELAY_MS (begin_status_poll_tracking dst_id 0 h)
                  else if reg_linked_devices src_id (hub_registry h) \<noteq> None
                  then schedule_linked_remote_polls src_id REMOTE_ACTIVITY_STATUS_POLL_DELAY_MS h
                  else h)"

definition process_received_packet :: "exchange_env \<Rightarrow> bytes \<Rightarrow> bytes \<Rightarrow> bytes \<Rightarrow> u32 \<Rightarrow> hub \<Rightarrow> hub" where
  "process_received_packet env kx_challenge random packet freq h =
     (case parse packet of
        None \<Rightarrow> h
      | Some frame \<Rightarrow> process_frame env kx_challenge random frame freq h)"

section \<open>What the handlers leave alone\<close>

lemma get_device_simps [simp]:
  "get_device d (put_device d' dev h) = (if d = d' then Some dev else get_device d h)"
  "get_device d (notify_device_update d' h) = get_device d h"
  by (simp_all add: get_device_def put_device_def notify_device_update_def)

lemma hub_helpers_frame [simp]:
  "hub_radio (put_device d dev h) = hub_radio h" "hub_radio (notify_device_update d h) = hub_radio h"
  "hub_policy (put_device d dev h) = hub_policy h" "hub_policy (notify_device_update d h) = hub_policy h"
  "hub_queue (put_device d dev h) = hub_queue h" "hub_queue (notify_device_update d h) = hub_queue h"
  "hub_registry (begin_status_poll_tracking d u h) = hub_registry h" "hub_radio (begin_status_poll_tracking d u h) = hub_radio h"
  "hub_registry (schedule_status_poll d u h) = hub_registry h" "hub_radio (schedule_status_poll d u h) = hub_radio h"
  "hub_registry (record_1w_activity now h) = hub_registry h" "hub_radio (record_1w_activity now h) = hub_radio h"
  "hub_registry (maybe_fire_sender_event info linked s h) = hub_registry h"
  "hub_radio (maybe_fire_sender_event info linked s h) = hub_radio h"
  by (simp_all add: put_device_def notify_device_update_def begin_status_poll_tracking_def schedule_status_poll_def
      record_1w_activity_def maybe_fire_sender_event_def Let_def)

lemma schedule_device_polls_frame [simp]:
  "hub_registry (schedule_device_polls ds u h) = hub_registry h" "hub_radio (schedule_device_polls ds u h) = hub_radio h"
  unfolding schedule_device_polls_def by (induction ds arbitrary: h) simp_all

lemma schedule_linked_remote_polls_frame [simp]:
  "hub_registry (schedule_linked_remote_polls s u h) = hub_registry h"
  "hub_radio (schedule_linked_remote_polls s u h) = hub_radio h"
  by (simp_all add: schedule_linked_remote_polls_def split: option.split)

lemma optimistic_linked_observed:
  "map_option observed (reg_get d (snd (apply_optimistic_linked_state info ds reg))) = map_option observed (reg_get d reg)"
proof -
  have "map_option observed (reg_get d (apply_optimistic_linked_device info stop target e r)) = map_option observed (reg_get d r)"
    for stop target e r
    by (auto simp: apply_optimistic_linked_device_def apply_optimistic_target_def apply_optimistic_stop_def observed_def
        split: option.split)
  then have "map_option observed (reg_get d (fold (apply_optimistic_linked_device info stop target) ds r)) =
      map_option observed (reg_get d r)" for stop target r
    by (induction ds arbitrary: r) simp_all
  then show ?thesis by (simp add: apply_optimistic_linked_state_def Let_def)
qed

lemma process_oneway_observed:
  "map_option observed (get_device d (process_oneway_frame frame h)) = map_option observed (get_device d h)"
  using optimistic_linked_observed [of d]
  by (simp add: process_oneway_frame_def get_device_def Let_def split_beta)

lemma update_device_status_other:
  "d \<noteq> node_id_to_string (src frame) \<Longrightarrow> get_device d (update_device_status frame trust h) = get_device d h"
  by (simp add: update_device_status_def Let_def get_device_def put_device_def notify_device_update_def split_beta split: option.split)

lemma update_device_status_radio [simp]: "hub_radio (update_device_status frame trust h) = hub_radio h"
  by (simp add: update_device_status_def Let_def split_beta split: option.split)

section \<open>Only authenticated frames are believed\<close>

text \<open>A frame is authentic when the hub, on hearing it, challenged its sender and was answered correctly.\<close>

definition authentic :: "exchange_env \<Rightarrow> bytes \<Rightarrow> io_frame \<Rightarrow> radio \<Rightarrow> radio \<Rightarrow> bool" where
  "authentic env random f r r' \<longleftrightarrow>
     (\<exists>challenge rx freq. create_challenge_req (src f) (env_node_id env) random = (True, challenge) \<and>
        (serialize challenge FRAME_MAX_WIRE_SIZE, freq, SHORT_PREAMBLE) \<in> set (rad_sent r') \<and>
        heard r r' rx \<and> cmd rx = CMD_CHALLENGE_RESP \<and>
        take HMAC_SIZE (data rx) = create_hmac (cmd f # payload f) random (env_system_key env))"

lemma acknowledged:
  assumes "transmit_frame env f freq p r l = (ok, r', l')"
  shows "later r r' \<and> set (rad_sent r) \<subseteq> set (rad_sent r')"
  using transmit_frame_sent [OF assms] by (auto simp: later_same_air)

lemma status_update_authentic:
  assumes "map_option observed (get_device d (process_status_update env random f freq h)) \<noteq> map_option observed (get_device d h)"
    and "length random = HMAC_SIZE" "length (env_node_id env) = NODE_ID_SIZE" "length (src f) = NODE_ID_SIZE"
    and "length (env_system_key env) = AES_KEY_SIZE"
  shows "d = node_id_to_string (src f) \<and> authentic env random f (hub_radio h) (hub_radio (process_status_update env random f freq h))"
proof -
  obtain ok r l where a: "authenticate_request env random f freq (hub_radio h) (hub_engine h) = (ok, r, l)" by (rule prod_cases3)
  obtain ok' resp where c: "create_status_update_resp (env_node_id env) (src f) = (ok', resp)" by fastforce
  obtain k1 r1 l1 where 1: "transmit_frame env resp FREQ_CH1 SHORT_PREAMBLE r l = (k1, r1, l1)" by (rule prod_cases3)
  obtain k2 r2 l2 where 2: "transmit_frame env resp FREQ_CH2 SHORT_PREAMBLE r1 l1 = (k2, r2, l2)" by (rule prod_cases3)
  obtain k3 r3 l3 where 3: "transmit_frame env resp FREQ_CH3 SHORT_PREAMBLE r2 l2 = (k3, r3, l3)" by (rule prod_cases3)
  have ok: "ok" "ok'"
    using assms(1) a c by (auto simp: process_status_update_def get_device_def split: bool.splits)
  then have p: "process_status_update env random f freq h =
      update_device_status f True (h\<lparr>hub_radio := r3, hub_engine := l3\<rparr>)"
    using a c 1 2 3 by (simp add: process_status_update_def Let_def)
  have "get_device d (h\<lparr>hub_radio := r3, hub_engine := l3\<rparr>) = get_device d h" by (simp add: get_device_def)
  then have d: "d = node_id_to_string (src f)"
    using assms(1) update_device_status_other [of d f True "h\<lparr>hub_radio := r3, hub_engine := l3\<rparr>"] unfolding p by metis
  obtain challenge rx where au: "create_challenge_req (src f) (env_node_id env) random = (True, challenge)"
      "rad_sent r = rad_sent (hub_radio h) @ [(serialize challenge FRAME_MAX_WIRE_SIZE, freq, SHORT_PREAMBLE)]"
      "heard (hub_radio h) r rx" "cmd rx = CMD_CHALLENGE_RESP"
      "take HMAC_SIZE (data rx) = create_hmac (cmd f # payload f) random (env_system_key env)"
    using authenticated_frame [of env random f freq "hub_radio h" "hub_engine h" r l] a ok(1) assms(2-5) by auto
  have "later r r3" "set (rad_sent r) \<subseteq> set (rad_sent r3)"
    using acknowledged [OF 1] acknowledged [OF 2] acknowledged [OF 3] later_trans by blast+
  then have "authentic env random f (hub_radio h) r3"
    using au(1,4,5) heard_before [OF au(3)] au(2) unfolding authentic_def
    by (intro exI [of _ challenge] exI [of _ rx] exI [of _ freq]) auto
  with d p show ?thesis by simp
qed

text \<open>Every frame the hub dispatches.\<close>

lemma process_frame_observed:
  assumes "map_option observed (get_device d (process_frame env kx_challenge random f freq h)) \<noteq> map_option observed (get_device d h)"
    and "length random = HMAC_SIZE" "length (env_node_id env) = NODE_ID_SIZE" "length (src f) = NODE_ID_SIZE"
    and "length (env_system_key env) = AES_KEY_SIZE"
  shows "cmd f = CMD_STATUS_UPDATE \<and> dst f = env_node_id env \<and> d = node_id_to_string (src f) \<and>
    authentic env random f (hub_radio h) (hub_radio (process_frame env kx_challenge random f freq h))"
proof -
  obtain taken kx r l where k: "try_handle_key_extraction_frame env kx_challenge f (hub_radio h) (hub_engine h) (hub_extraction h) =
      (taken, kx, r, l)" by (rule prod_cases4)
  let ?su = "cmd f = CMD_STATUS_UPDATE \<and> dst f = env_node_id env \<and> \<not> taken \<and> \<not> is_exchange_internal_command (cmd f) \<and>
    ctrl0 f AND CTRL0_PROTOCOL_1W = 0"
  show ?thesis
  proof (cases ?su)
    case True
    then have p: "process_frame env kx_challenge random f freq h = process_status_update env random f freq h"
      using k by (simp add: process_frame_def is_exchange_internal_command_def)
    then show ?thesis using status_update_authentic [OF assms(1) [unfolded p] assms(2-5)] True unfolding p by simp
  next
    case False
    then have "map_option observed (get_device d (process_frame env kx_challenge random f freq h)) = map_option observed (get_device d h)"
      using k process_oneway_observed [of d f h] unfolding process_frame_def
      by (cases taken) (simp_all add: get_device_def Let_def is_exchange_internal_command_def)
    with assms(1) show ?thesis by simp
  qed
qed

section \<open>Properties\<close>

text \<open>C3. The hub believes only authenticated frames. Whatever packet it receives - from another
  controller, a remote, another hub that is pairing, or an attacker who knows the addresses -, a device's
  record, its optimistic predictions apart, changes only if the packet is a status update of that device
  addressed to this hub and the hub's challenge for exactly that frame was answered with the authenticator
  under the system key.\<close>

theorem only_authenticated_frames_believed:
  assumes "length random = HMAC_SIZE" and "length (env_node_id env) = NODE_ID_SIZE" and "length (env_system_key env) = AES_KEY_SIZE"
    and "map_option observed (get_device d (process_received_packet env kx_challenge random packet freq h)) \<noteq>
         map_option observed (get_device d h)"
  shows "\<exists>f challenge rx sent_freq. parse packet = Some f \<and> cmd f = CMD_STATUS_UPDATE \<and> dst f = env_node_id env \<and>
    d = node_id_to_string (src f) \<and>
    create_challenge_req (src f) (env_node_id env) random = (True, challenge) \<and>
    (serialize challenge FRAME_MAX_WIRE_SIZE, sent_freq, SHORT_PREAMBLE) \<in>
      set (rad_sent (hub_radio (process_received_packet env kx_challenge random packet freq h))) \<and>
    heard (hub_radio h) (hub_radio (process_received_packet env kx_challenge random packet freq h)) rx \<and>
    cmd rx = CMD_CHALLENGE_RESP \<and>
    take HMAC_SIZE (data rx) = create_hmac (cmd f # payload f) random (env_system_key env)"
proof -
  obtain f where f: "parse packet = Some f"
    using assms(4) by (auto simp: process_received_packet_def split: option.splits)
  have p: "process_received_packet env kx_challenge random packet freq h = process_frame env kx_challenge random f freq h"
    using f by (simp add: process_received_packet_def)
  have "length (src f) = NODE_ID_SIZE"
    using parse_Some(1) [OF f] by (simp add: frame_ok_def frame_shape_def)
  from process_frame_observed [OF assms(4) [unfolded p] assms(1,2) this assms(3)] f show ?thesis
    unfolding p authentic_def by blast
qed

text \<open>A hub with one registered device, and that device's status update: moving, target and position open.\<close>

definition demo_hub :: "radio \<Rightarrow> hub" where
  "demo_hub r = \<lparr>hub_registry = reg_add ''040506'' default_config empty_registry, hub_policy = [], hub_queue = [],
     hub_radio = r, hub_engine = demo_log, hub_extraction = new_key_extraction, hub_adoption = new_key_adoption,
     hub_oneway = oneway_start [] [] (r, demo_log), hub_pairing_result = None,
     hub_last_1w_logged = \<lparr>odd_src_id = [], odd_cmd = 0, odd_has_intent = False, odd_main0 = 0, odd_main1 = 0, odd_timestamp = 0\<rparr>,
     hub_first_1w_activity_ms = 0, hub_last_1w_activity_ms = 0, hub_timers = [], hub_events = [],
     hub_exposed_senders = [], hub_connected = True, hub_initialized = True, hub_radio_test_mode = False\<rparr>"

definition demo_update :: io_frame where
  "demo_update = snd (set_cmd (addressed_2w True False False [4, 5, 6] [1, 2, 3]) CMD_STATUS_UPDATE (replicate 11 0))"

lemma demo_update_facts:
  "cmd demo_update = CMD_STATUS_UPDATE" "src demo_update = [4, 5, 6]" "dst demo_update = [1, 2, 3]" "data_len demo_update = 11"
  "data demo_update = replicate 23 0" "ctrl0 demo_update AND CTRL0_PROTOCOL_1W = 0" "parse (wire demo_update) = Some demo_update"
proof -
  let ?f = "addressed_2w True False False [4, 5, 6] [1, 2, 3]"
  have b: "blank ?f" and l: "length (replicate 11 (0 :: u8)) \<le> FRAME_MAX_DATA_SIZE" by (simp_all add: wf_rules)
  note sc = set_cmd_blank [OF b l, of CMD_STATUS_UPDATE, folded demo_update_def]
  show "cmd demo_update = CMD_STATUS_UPDATE" "src demo_update = [4, 5, 6]" "dst demo_update = [1, 2, 3]" "data_len demo_update = 11"
    using sc(5-7,9) by simp_all
  show "data demo_update = replicate 23 0" unfolding sc(10) by code_simp
  show "ctrl0 demo_update AND CTRL0_PROTOCOL_1W = 0" unfolding sc(11) by code_simp
  show "parse (wire demo_update) = Some demo_update" using parse_wire [OF sc(2)] sc(3) by simp
qed

lemma demo_update_applied:
  assumes "get_device ''040506'' h = Some dev" and "dev_type dev = DT_UNKNOWN"
  shows "map_option dev_position (get_device ''040506'' (update_device_status demo_update True h)) = Some 0"
proof -
  have i: "node_id_to_string [4, 5, 6] = ''040506''" by code_simp
  have p: "decode_position_report 0 0 b = (0, 0)" for b by (simp add: decode_position_report_def raw_percent_def)
  have z: "be16_at demo_update n = 0" if "n < 22" for n
    using that by (simp add: be16_at_def demo_update_facts be16_def)
  have n: "dev_position (normalize_stopped_state x) = dev_position x" for x by (simp add: normalize_stopped_state_def)
  have "dev_position (fst (apply_unsolicited_status_update d now demo_update x pol)) = 0" for d now x pol
    by (simp add: apply_unsolicited_status_update_def decode_status_fields_def z p n Let_def)
  then show ?thesis using assms(1)
    by (simp add: update_device_status_def demo_update_facts i Let_def split_beta clear_command_result_def)
qed

theorem only_authenticated_frames_believed_witness:
  "\<exists>h packet d (rx :: io_frame). map_option observed (get_device d (process_received_packet demo_env [] (replicate 6 9) packet FREQ_CH2 h)) \<noteq>
      map_option observed (get_device d h) \<and> cmd rx = CMD_CHALLENGE_RESP \<and>
    take HMAC_SIZE (data rx) = create_hmac (cmd demo_update # payload demo_update) (replicate 6 9) (env_system_key demo_env)"
proof -
  let ?m = "create_hmac (cmd demo_update # payload demo_update) (replicate 6 9) (replicate 16 7)"
  let ?r = "demo_radio [demo_reply CMD_CHALLENGE_RESP ?m]"
  let ?h = "demo_hub ?r" and ?h' = "process_received_packet demo_env [] (replicate 6 9) (wire demo_update) FREQ_CH2 (demo_hub ?r)"
  obtain packet g where g: "rcv_packet (demo_reply CMD_CHALLENGE_RESP ?m) = Some packet" "parse packet = Some g"
      "cmd g = CMD_CHALLENGE_RESP" "take (length ?m) (data g) = ?m"
    by (rule demo_reply_parses [of ?m CMD_CHALLENGE_RESP]) simp
  have env: "env_node_id demo_env = [1, 2, 3]" "env_system_key demo_env = replicate 16 7" by (simp_all add: demo_env_def)
  have air: "rad_tx ?r = []" "rad_air ?r = [demo_reply CMD_CHALLENGE_RESP ?m]" by (simp_all add: demo_radio_def)
  obtain r l where a: "authenticate_request demo_env (replicate 6 9) demo_update FREQ_CH2 ?r demo_log = (True, r, l)"
    by (rule authenticate_accepts [of "replicate 6 9" demo_env demo_update ?r _ _ packet g FREQ_CH2 demo_log])
       (use g env air demo_update_facts(2) in simp_all)
  have "fst (create_status_update_resp [1, 2, 3] [4, 5, 6])" by code_simp
  then obtain resp where c: "create_status_update_resp [1, 2, 3] [4, 5, 6] = (True, resp)"
    by (cases "create_status_update_resp [1, 2, 3] [4, 5, 6]") simp
  obtain k1 r1 l1 where 1: "transmit_frame demo_env resp FREQ_CH1 SHORT_PREAMBLE r l = (k1, r1, l1)" by (rule prod_cases3)
  obtain k2 r2 l2 where 2: "transmit_frame demo_env resp FREQ_CH2 SHORT_PREAMBLE r1 l1 = (k2, r2, l2)" by (rule prod_cases3)
  obtain k3 r3 l3 where 3: "transmit_frame demo_env resp FREQ_CH3 SHORT_PREAMBLE r2 l2 = (k3, r3, l3)" by (rule prod_cases3)
  have "?h' = update_device_status demo_update True (?h\<lparr>hub_radio := r3, hub_engine := l3\<rparr>)"
    using a c 1 2 3
    by (simp add: process_received_packet_def process_frame_def process_status_update_def demo_update_facts
        try_handle_key_extraction_frame_def is_exchange_internal_command_def demo_hub_def new_key_extraction_def
        new_responder_context_def env Let_def)
  moreover have dev: "get_device ''040506'' ?h = Some (new_device\<lparr>dev_node_id := [4, 5, 6]\<rparr>)"
    unfolding get_device_def demo_hub_def hub.simps by code_simp
  ultimately have pos: "map_option dev_position (get_device ''040506'' ?h') = Some 0"
    using demo_update_applied [of "?h\<lparr>hub_radio := r3, hub_engine := l3\<rparr>" "new_device\<lparr>dev_node_id := [4, 5, 6]\<rparr>"]
    by (simp add: get_device_def new_device_def)
  have changed: "map_option observed (get_device ''040506'' ?h') \<noteq> map_option observed (get_device ''040506'' ?h)"
  proof -
    have o: "map_option dev_position x = map_option dev_position (map_option observed x)" for x
      by (cases x) (simp_all add: observed_def)
    have "map_option dev_position (get_device ''040506'' ?h') \<noteq> map_option dev_position (get_device ''040506'' ?h)"
      unfolding pos dev by (simp add: new_device_def)
    then show ?thesis using o [of "get_device ''040506'' ?h'"] o [of "get_device ''040506'' ?h"] by metis
  qed
  have len: "length (replicate 6 (9 :: u8)) = HMAC_SIZE" "length (env_node_id demo_env) = NODE_ID_SIZE"
    "length (env_system_key demo_env) = AES_KEY_SIZE" by (simp_all add: env)
  obtain rx :: io_frame where "cmd rx = CMD_CHALLENGE_RESP"
      "take HMAC_SIZE (data rx) = create_hmac (cmd demo_update # payload demo_update) (replicate 6 9) (env_system_key demo_env)"
    using only_authenticated_frames_believed [OF len changed] demo_update_facts(7) by auto
  with changed show ?thesis by blast
qed

lemma private_response_applied:
  assumes "get_device (node_id_to_string (src f)) h = Some dev"
    and "cmd f = CMD_PRIVATE_RESP" and "PRIVATE_RESPONSE_MIN_DATA_LEN \<le> data_len f"
    and "get_device (node_id_to_string (src f)) (update_device_status f trust h) = Some dev'"
  shows "dev_last_status dev' = hub_millis h \<and> dev_last_seen_ms dev' = hub_millis h \<and> dev_last_result_code dev' = 0 \<and>
    (if trust
     then (dev_target dev', dev_position dev') =
            decode_position_report (be16_at f 2) (be16_at f 4) (data f ! 0 AND STATUS_STOPPED \<noteq> 0) \<and>
          effective_target dev' = dev_target dev' \<and> effective_is_stopped dev' = dev_is_stopped dev'
     else dev_target dev' = dev_target dev \<and> dev_position dev' = dev_position dev \<and> dev_tilt dev' = dev_tilt dev \<and>
          dev_optimistic dev' = dev_optimistic dev)"
proof -
  let ?dev = "update_link_health (hub_millis h) (last_capture (hub_radio h)) dev"
  obtain dev2 pol where a: "apply_private_response_status (node_id_to_string (src f)) (hub_millis h) f trust ?dev (hub_policy h) = (dev2, pol)"
    by fastforce
  have "\<not> data_len f < 6" using assms(3) by (simp add: not_less)
  then have d': "dev' = clear_command_result dev2"
    using assms a by (simp add: update_device_status_def Let_def)
  have l: "dev_target ?dev = dev_target dev" "dev_position ?dev = dev_position dev" "dev_tilt ?dev = dev_tilt dev"
      "dev_optimistic ?dev = dev_optimistic dev" "dev_last_seen_ms ?dev = hub_millis h"
    by (simp_all add: update_link_health_def Let_def split: option.split)
  have n: "dev_target (normalize_stopped_state x) = dev_target x" "dev_position (normalize_stopped_state x) = dev_position x"
      "dev_tilt (normalize_stopped_state x) = dev_tilt x" "dev_optimistic (normalize_stopped_state x) = dev_optimistic x"
      "dev_last_status (normalize_stopped_state x) = dev_last_status x"
      "dev_last_seen_ms (normalize_stopped_state x) = dev_last_seen_ms x" for x
    by (simp_all add: normalize_stopped_state_def)
  obtain target position where r: "decode_position_report (be16_at f 2) (be16_at f 4) (data f ! 0 AND STATUS_STOPPED \<noteq> 0) = (target, position)"
    by fastforce
  have "dev2 = (let dev = ?dev\<lparr>dev_is_stopped := (data f ! 0 AND STATUS_STOPPED \<noteq> 0), dev_last_status := hub_millis h\<rparr>
      in if trust then decode_status_fields f 2 4 True dev else normalize_stopped_state dev)"
    using a by (auto simp: apply_private_response_status_def Let_def split: if_splits)
  then show ?thesis
    unfolding d' using r l
    by (auto simp: Let_def n clear_command_result_def decode_status_fields_def optimistic_clear_position_def
        optimistic_clear_tilt_def effective_target_def effective_is_stopped_def)
qed

text \<open>The answer to a command is not believed about positions. A private response handled as the reply to
  the hub's own command leaves target, position and slat angle of the device as last reported, keeps the
  prediction of the movement, and updates only whether it is moving, when it was heard and the cleared
  result; handled as the answer to a poll, it settles the predictions: what is shown is what was reported.\<close>

theorem command_reply_keeps_position:
  assumes "get_device (node_id_to_string (src f)) h = Some dev"
    and "cmd f = CMD_PRIVATE_RESP" and "PRIVATE_RESPONSE_MIN_DATA_LEN \<le> data_len f"
    and "get_device (node_id_to_string (src f)) (update_device_status f trust h) = Some dev'"
  shows "dev_last_status dev' = hub_millis h \<and> dev_last_seen_ms dev' = hub_millis h \<and> dev_last_result_code dev' = 0 \<and>
    (if trust
     then (dev_target dev', dev_position dev') =
            decode_position_report (be16_at f 2) (be16_at f 4) (data f ! 0 AND STATUS_STOPPED \<noteq> 0) \<and>
          effective_target dev' = dev_target dev' \<and> effective_is_stopped dev' = dev_is_stopped dev'
     else dev_target dev' = dev_target dev \<and> dev_position dev' = dev_position dev \<and> dev_tilt dev' = dev_tilt dev \<and>
          dev_optimistic dev' = dev_optimistic dev)"
  by (rule private_response_applied [OF assms])

theorem command_reply_keeps_position_witness:
  "\<exists>dev'. get_device ''040506'' (update_device_status (demo_update\<lparr>cmd := CMD_PRIVATE_RESP\<rparr>) False (demo_hub (demo_radio []))) = Some dev' \<and>
     dev_position dev' = UNKNOWN_POSITION"
proof -
  let ?f = "demo_update\<lparr>cmd := CMD_PRIVATE_RESP\<rparr>" and ?h = "demo_hub (demo_radio [])"
  have i: "node_id_to_string [4, 5, 6] = ''040506''" by code_simp
  have dev: "get_device ''040506'' ?h = Some (new_device\<lparr>dev_node_id := [4, 5, 6]\<rparr>)"
    unfolding get_device_def demo_hub_def hub.simps by code_simp
  obtain dev' where d: "get_device ''040506'' (update_device_status ?f False ?h) = Some dev'"
    using dev by (simp add: update_device_status_def demo_update_facts i Let_def split_beta)
  with command_reply_keeps_position [of ?f ?h _ False dev'] dev show ?thesis
    by (simp add: demo_update_facts i new_device_def)
qed

end
