(* ===== verification/Hub_Operations.thy ===== *)
theory Hub_Operations
  imports Hub_Status Pairing
begin

text \<open>
  The send side of the hub (\<open>hub_operations.cpp\<close>, with the thin wrappers of \<open>hub_core.h\<close>,
  \<open>hub_core.cpp\<close> and \<open>hub_pairing.cpp\<close>): the execute-family commands with their optimistic
  rollback, status and name requests, the queue-time guards, the dispatch of one queued operation and one
  pass of the main loop. An operation that runs an exchange or a pairing attempt is an option, \<open>None\<close>
  when the underlying listen loop does not return. The \<open>busy_\<close> flag is set only while a blocking call
  runs, so it is false in every state the model shows. Log lines are left out.
\<close>

section \<open>Labels and guards\<close>

abbreviation (input) FORCE_OPEN_WIRE_POSITION :: u8 where "FORCE_OPEN_WIRE_POSITION \<equiv> 0"
abbreviation (input) FORCE_OPEN_WIRE_POSITION_INVERTED :: u8 where "FORCE_OPEN_WIRE_POSITION_INVERTED \<equiv> 100"

definition position_command_action :: "io_device \<Rightarrow> u8 \<Rightarrow> string" where
  "position_command_action dev position =
     (if position = POS_STOP then ''stop''
      else if \<not> is_binary_entity_position position then ''set position''
      else let active_state = (position = HUB_BINARY_ON_POSITION) in
        case device_capability_class (dev_type dev) of
          CAP_LIGHT \<Rightarrow> if active_state then ''turn on'' else ''turn off''
        | CAP_SWITCH \<Rightarrow> if active_state then ''turn on'' else ''turn off''
        | CAP_LOCK \<Rightarrow> if active_state then ''unlock'' else ''lock''
        | _ \<Rightarrow> if active_state then ''open'' else ''close'')"

definition operation_profile_name :: "io_device \<Rightarrow> string" where
  "operation_profile_name dev =
     (if dev_dimmable dev \<and> device_capability_class (dev_type dev) = CAP_LIGHT then ''dimmable_light''
      else device_operation_profile_name (dev_type dev))"

definition position_rejection_profile :: "io_device \<Rightarrow> u8 \<Rightarrow> string" where
  "position_rejection_profile dev position =
     (if device_capability_class (dev_type dev) = CAP_LIGHT then ''0-100''
      else if is_binary_entity_position position then ''cover_position or binary_on_off'' else ''cover_position'')"

record queue_guard =
  qg_accepts :: "io_device \<Rightarrow> bool"
  qg_rejection_noun :: string
  qg_expected :: string

definition QUEUE_GUARD_COVER :: queue_guard where
  "QUEUE_GUARD_COVER = \<lparr>qg_accepts = (\<lambda>d. known_device_matches_entity_class d CAP_COVER),
     qg_rejection_noun = ''queued cover command'', qg_expected = ''cover entity''\<rparr>"

definition QUEUE_GUARD_TILT :: queue_guard where
  "QUEUE_GUARD_TILT = \<lparr>qg_accepts = known_device_accepts_execute_tilt,
     qg_rejection_noun = ''queued tilt command'', qg_expected = ''tilt-capable cover''\<rparr>"

definition QUEUE_GUARD_POSITION_AND_TILT :: queue_guard where
  "QUEUE_GUARD_POSITION_AND_TILT = \<lparr>qg_accepts = known_device_accepts_execute_tilt,
     qg_rejection_noun = ''queued position+tilt command'', qg_expected = ''tilt-capable cover''\<rparr>"

definition QUEUE_GUARD_LIGHT :: queue_guard where
  "QUEUE_GUARD_LIGHT = \<lparr>qg_accepts = (\<lambda>d. known_device_matches_entity_class d CAP_LIGHT),
     qg_rejection_noun = ''queued light command'', qg_expected = ''light entity''\<rparr>"

definition QUEUE_GUARD_LOCK :: queue_guard where
  "QUEUE_GUARD_LOCK = \<lparr>qg_accepts = (\<lambda>d. known_device_matches_entity_class d CAP_LOCK),
     qg_rejection_noun = ''queued lock command'', qg_expected = ''lock entity''\<rparr>"

definition QUEUE_GUARD_SWITCH :: queue_guard where
  "QUEUE_GUARD_SWITCH = \<lparr>qg_accepts = (\<lambda>d. known_device_matches_entity_class d CAP_SWITCH),
     qg_rejection_noun = ''queued switch command'', qg_expected = ''switch entity''\<rparr>"

definition QUEUE_GUARD_STATUS :: queue_guard where
  "QUEUE_GUARD_STATUS = \<lparr>qg_accepts = known_device_supports_status_requests,
     qg_rejection_noun = ''queued status request'', qg_expected = ''status-capable actuator''\<rparr>"

definition queue_guard_rejects :: "hub \<Rightarrow> string \<Rightarrow> queue_guard \<Rightarrow> bool" where
  "queue_guard_rejects h device_id guard =
     (case get_device device_id h of None \<Rightarrow> False | Some dev \<Rightarrow> \<not> qg_accepts guard dev)"

section \<open>Exchanges\<close>

definition hub_rollback :: "string \<Rightarrow> hub \<Rightarrow> hub" where
  "hub_rollback device_id h = h\<lparr>hub_registry := snd (rollback_optimistic device_id (hub_registry h))\<rparr>"

definition schedule_background_poll_backoff :: "string \<Rightarrow> bool \<Rightarrow> hub \<Rightarrow> hub" where
  "schedule_background_poll_backoff device_id auth_like h =
     h\<lparr>hub_policy := snd (on_exchange_failed device_id auth_like (hub_millis h) (hub_policy h))\<rparr>"

definition arm_execute_confirmation_poll :: "string \<Rightarrow> bool \<Rightarrow> hub \<Rightarrow> hub" where
  "arm_execute_confirmation_poll device_id for_stop h =
     (let existing = get_next_update device_id (hub_policy h);
          delay = settle_delay_ms (get_interval device_id (hub_policy h)) 0 for_stop;
          h = begin_status_poll_tracking device_id delay h
      in if existing \<noteq> 0 \<and> existing < hub_millis h + delay
         then h\<lparr>hub_policy := set_next_update device_id existing (hub_policy h)\<rparr> else h)"

text \<open>Changing a registered device and telling the subscribers; nothing happens to an unknown one.\<close>

definition change_device :: "string \<Rightarrow> (io_device \<Rightarrow> io_device) \<Rightarrow> hub \<Rightarrow> hub" where
  "change_device device_id f h =
     (case get_device device_id h of
        None \<Rightarrow> h
      | Some dev \<Rightarrow> notify_device_update device_id (put_device device_id (f dev) h))"

definition handle_error_response :: "string \<Rightarrow> io_frame \<Rightarrow> u32 \<Rightarrow> hub \<Rightarrow> bool \<times> hub" where
  "handle_error_response device_id response retry_after_fail_ms h =
     (let h = change_device device_id (\<lambda>dev.
            let dev = update_link_health (hub_millis h) (last_capture (hub_radio h)) dev
            in if data_len response = 0 then dev
               else record_command_result (hub_millis h) (data response ! 0) dev) h
      in (False, if retry_after_fail_ms \<noteq> 0
                 then schedule_background_poll_backoff device_id (dbg_saw_challenge (el_debug (hub_engine h))) h else h))"

definition exchange_failed_for :: "string \<Rightarrow> u32 \<Rightarrow> hub \<Rightarrow> hub" where
  "exchange_failed_for device_id retry_after_fail_ms h =
     (let dbg = el_debug (hub_engine h);
          h = change_device device_id (record_exchange_timeout (of_nat (dbg_tries dbg))) h
      in if retry_after_fail_ms \<noteq> 0 then schedule_background_poll_backoff device_id (dbg_saw_challenge dbg) h else h)"

definition exchange_unconfirmed_for :: "string \<Rightarrow> u32 \<Rightarrow> hub \<Rightarrow> hub" where
  "exchange_unconfirmed_for device_id retry_after_fail_ms h =
     (let h = (if retry_after_fail_ms \<noteq> 0
               then h\<lparr>hub_policy := clear_failure_streaks device_id (hub_policy h)\<rparr> else h)
      in change_device device_id (update_link_health (hub_millis h) (last_capture (hub_radio h))) h)"

definition execute_request_and_update ::
  "exchange_env \<Rightarrow> string \<Rightarrow> io_frame \<Rightarrow> u32 \<Rightarrow> u8 \<Rightarrow> hub \<Rightarrow> (bool \<times> hub) option" where
  "execute_request_and_update env device_id request retry_after_fail_ms max_tries h = do {
     (outcome, response, r, l) \<leftarrow> send_and_receive env request FREQ_CH2 max_tries (hub_radio h) (hub_engine h);
     let h = h\<lparr>hub_radio := r, hub_engine := l\<rparr>;
         unconfirmed_counts_as_success = (cmd request = CMD_EXECUTE)
     in if outcome = EX_FAILED \<or> (outcome = SUCCESS_UNCONFIRMED \<and> \<not> unconfirmed_counts_as_success)
        then Some (False, exchange_failed_for device_id retry_after_fail_ms h)
        else if outcome = SUCCESS_UNCONFIRMED
        then Some (True, exchange_unconfirmed_for device_id retry_after_fail_ms h)
        else case response of
          None \<Rightarrow> None
        | Some rx \<Rightarrow>
            if cmd rx = CMD_ERROR_RESP then Some (handle_error_response device_id rx retry_after_fail_ms h)
            else let h = (if retry_after_fail_ms \<noteq> 0
                          then h\<lparr>hub_policy := clear_failure_streaks device_id (hub_policy h)\<rparr> else h)
                 in Some (True, update_device_status rx (cmd request \<noteq> CMD_EXECUTE) h)
   }"

section \<open>Commands\<close>

text \<open>What an execute-family operation supplies: its guard and its frame builder.\<close>

definition try_execute_operation ::
  "exchange_env \<Rightarrow> string \<Rightarrow> bool \<Rightarrow> (io_device \<Rightarrow> bool) \<Rightarrow> (io_device \<Rightarrow> bool \<times> io_frame) \<Rightarrow> hub \<Rightarrow> (bool \<times> hub) option" where
  "try_execute_operation env device_id settle_as_stop accepts build h =
     (case get_device device_id h of
        None \<Rightarrow> Some (False, h)
      | Some dev \<Rightarrow>
          if \<not> hub_initialized h then Some (False, h)
          else if \<not> accepts dev then Some (False, h)
          else let h = begin_status_poll_tracking device_id (get_interval device_id (hub_policy h)) h
               in case build dev of
                    (False, request) \<Rightarrow> Some (False, h\<lparr>hub_policy := poll_clear device_id (hub_policy h)\<rparr>)
                  | (True, request) \<Rightarrow> do {
                      (accepted, h) \<leftarrow> execute_request_and_update env device_id request 0 (of_nat EXCHANGE_RETRY_COUNT) h;
                      if \<not> accepted
                      then Some (False, schedule_background_poll_backoff device_id (dbg_saw_challenge (el_debug (hub_engine h))) h)
                      else Some (True, arm_execute_confirmation_poll device_id settle_as_stop h)
                    })"

definition run_execute_operation ::
  "exchange_env \<Rightarrow> string \<Rightarrow> bool \<Rightarrow> (io_device \<Rightarrow> bool) \<Rightarrow> (io_device \<Rightarrow> bool \<times> io_frame) \<Rightarrow> hub \<Rightarrow> (bool \<times> hub) option" where
  "run_execute_operation env device_id settle_as_stop accepts build h = do {
     (accepted, h) \<leftarrow> try_execute_operation env device_id settle_as_stop accepts build h;
     Some (accepted, if \<not> accepted then hub_rollback device_id h else h)
   }"

definition set_device_position :: "exchange_env \<Rightarrow> string \<Rightarrow> u8 \<Rightarrow> hub \<Rightarrow> (bool \<times> hub) option" where
  "set_device_position env device_id position h =
     (case get_device device_id h of
        None \<Rightarrow> Some (False, h)
      | Some dev \<Rightarrow>
          run_execute_operation env device_id (position = POS_STOP)
            (\<lambda>d. known_device_accepts_execute_position d position)
            (\<lambda>d. create_execute_position empty_frame (env_node_id env) (dev_node_id d) (dev_low_power d) position (dev_silent d)) h)"

definition execute_device_command :: "exchange_env \<Rightarrow> string \<Rightarrow> cover_command \<Rightarrow> hub \<Rightarrow> (bool \<times> hub) option" where
  "execute_device_command env device_id c =
     run_execute_operation env device_id (c = CC_STOP)
       (\<lambda>d. known_device_matches_entity_class d CAP_COVER)
       (\<lambda>d. if c = CC_FORCE_OPEN
            then create_force_open (env_node_id env) (dev_node_id d) (dev_low_power d)
                   (if dev_inverted d then FORCE_OPEN_WIRE_POSITION_INVERTED else FORCE_OPEN_WIRE_POSITION)
            else create_execute_command empty_frame (env_node_id env) (dev_node_id d) (dev_low_power d) c (dev_silent d))"

definition set_device_tilt :: "exchange_env \<Rightarrow> string \<Rightarrow> u8 \<Rightarrow> hub \<Rightarrow> (bool \<times> hub) option" where
  "set_device_tilt env device_id tilt_percent =
     run_execute_operation env device_id False known_device_accepts_execute_tilt
       (\<lambda>d. create_execute_tilt (env_node_id env) (dev_node_id d) (dev_low_power d) tilt_percent)"

definition set_device_position_and_tilt :: "exchange_env \<Rightarrow> string \<Rightarrow> u8 \<Rightarrow> u8 \<Rightarrow> hub \<Rightarrow> (bool \<times> hub) option" where
  "set_device_position_and_tilt env device_id position tilt_percent =
     run_execute_operation env device_id False known_device_accepts_execute_tilt
       (\<lambda>d. create_execute_position_and_tilt empty_frame (env_node_id env) (dev_node_id d) (dev_low_power d) position tilt_percent)"

definition request_device_status :: "exchange_env \<Rightarrow> string \<Rightarrow> hub \<Rightarrow> (bool \<times> hub) option" where
  "request_device_status env device_id h =
     (case get_device device_id h of
        None \<Rightarrow> Some (False, h)
      | Some dev \<Rightarrow>
          if \<not> hub_initialized h then Some (False, h)
          else if \<not> known_device_supports_status_requests dev then Some (False, h)
          else case (if device_supports_tilt (dev_type dev)
                     then create_get_status_tilt (env_node_id env) (dev_node_id dev) (dev_low_power dev)
                     else create_get_status (env_node_id env) (dev_node_id dev) (dev_low_power dev)) of
            (False, request) \<Rightarrow> Some (False, h)
          | (True, request) \<Rightarrow>
              (let scheduler_managed = is_tracking_active device_id (hub_millis h) (hub_policy h)
               in execute_request_and_update env device_id request
                    (if scheduler_managed then STATUS_RETRY_AFTER_FAIL_MS else 0)
                    (if scheduler_managed then of_nat SCHEDULED_POLL_MAX_TRIES else of_nat EXCHANGE_RETRY_COUNT) h))"

definition request_device_name :: "exchange_env \<Rightarrow> string \<Rightarrow> hub \<Rightarrow> (bool \<times> hub) option" where
  "request_device_name env device_id h =
     (case get_device device_id h of
        None \<Rightarrow> Some (False, h)
      | Some dev \<Rightarrow>
          if \<not> hub_initialized h then Some (False, h)
          else case create_get_name (env_node_id env) (dev_node_id dev) (dev_low_power dev) of
            (False, request) \<Rightarrow> Some (False, h)
          | (True, request) \<Rightarrow> execute_request_and_update env device_id request 0 (of_nat EXCHANGE_RETRY_COUNT) h)"

text \<open>The light, switch and lock wrappers share one guard shape before the position command.\<close>

definition set_position_as :: "capability_class \<Rightarrow> exchange_env \<Rightarrow> string \<Rightarrow> u8 \<Rightarrow> hub \<Rightarrow> (bool \<times> hub) option" where
  "set_position_as class env device_id position h =
     (case get_device device_id h of
        None \<Rightarrow> Some (False, h)
      | Some dev \<Rightarrow>
          if \<not> hub_initialized h then Some (False, h)
          else if \<not> known_device_matches_entity_class dev class then Some (False, h)
          else set_device_position env device_id position h)"

definition set_light_position :: "exchange_env \<Rightarrow> string \<Rightarrow> u8 \<Rightarrow> hub \<Rightarrow> (bool \<times> hub) option" where
  "set_light_position = set_position_as CAP_LIGHT"

definition set_light_state :: "exchange_env \<Rightarrow> string \<Rightarrow> bool \<Rightarrow> hub \<Rightarrow> (bool \<times> hub) option" where
  "set_light_state env device_id turn_on =
     set_light_position env device_id (if turn_on then HUB_BINARY_ON_POSITION else HUB_BINARY_OFF_POSITION)"

definition set_switch_state :: "exchange_env \<Rightarrow> string \<Rightarrow> bool \<Rightarrow> hub \<Rightarrow> (bool \<times> hub) option" where
  "set_switch_state env device_id turn_on =
     set_position_as CAP_SWITCH env device_id (if turn_on then HUB_BINARY_ON_POSITION else HUB_BINARY_OFF_POSITION)"

definition set_lock_state :: "exchange_env \<Rightarrow> string \<Rightarrow> bool \<Rightarrow> hub \<Rightarrow> (bool \<times> hub) option" where
  "set_lock_state env device_id locked =
     set_position_as CAP_LOCK env device_id (if locked then HUB_BINARY_OFF_POSITION else HUB_BINARY_ON_POSITION)"

section \<open>Queueing\<close>

definition with_queue :: "(op_queue \<Rightarrow> op_queue) \<Rightarrow> hub \<Rightarrow> hub" where
  "with_queue f h = h\<lparr>hub_queue := f (hub_queue h)\<rparr>"

definition queue_set_device_position :: "string \<Rightarrow> u8 \<Rightarrow> hub \<Rightarrow> hub" where
  "queue_set_device_position device_id position h =
     (if queue_guard_rejects h device_id QUEUE_GUARD_COVER then hub_rollback device_id h
      else with_queue (\<lambda>q. snd (enqueue_set_position device_id position q)) h)"

definition queue_device_command :: "string \<Rightarrow> cover_command \<Rightarrow> hub \<Rightarrow> bool \<times> hub" where
  "queue_device_command device_id c h =
     (case get_device device_id h of
        None \<Rightarrow> (False, hub_rollback device_id h)
      | Some dev \<Rightarrow>
          if \<not> hub_initialized h then (False, hub_rollback device_id h)
          else if \<not> known_device_matches_entity_class dev CAP_COVER then (False, hub_rollback device_id h)
          else (True, with_queue (enqueue_device_command device_id c) h))"

definition queue_set_device_tilt :: "string \<Rightarrow> u8 \<Rightarrow> hub \<Rightarrow> hub" where
  "queue_set_device_tilt device_id tilt_percent h =
     (if queue_guard_rejects h device_id QUEUE_GUARD_TILT then hub_rollback device_id h
      else with_queue (\<lambda>q. snd (enqueue_set_tilt device_id tilt_percent q)) h)"

definition queue_set_device_position_and_tilt :: "string \<Rightarrow> u8 \<Rightarrow> u8 \<Rightarrow> hub \<Rightarrow> hub" where
  "queue_set_device_position_and_tilt device_id position tilt_percent h =
     (if queue_guard_rejects h device_id QUEUE_GUARD_POSITION_AND_TILT then hub_rollback device_id h
      else with_queue (enqueue_set_position_and_tilt device_id position tilt_percent) h)"

definition queue_request_device_status :: "string \<Rightarrow> hub \<Rightarrow> hub" where
  "queue_request_device_status device_id h =
     (if queue_guard_rejects h device_id QUEUE_GUARD_STATUS then h
      else with_queue (\<lambda>q. snd (enqueue_request_status device_id q)) h)"

definition queue_request_device_name :: "string \<Rightarrow> hub \<Rightarrow> hub" where
  "queue_request_device_name device_id h =
     (if get_device device_id h = None then h else with_queue (\<lambda>q. snd (enqueue_request_name device_id q)) h)"

definition queue_discover_and_pair :: "hub \<Rightarrow> hub" where
  "queue_discover_and_pair = with_queue (\<lambda>q. snd (enqueue_discover_and_pair q))"

definition queue_set_light_position :: "string \<Rightarrow> u8 \<Rightarrow> hub \<Rightarrow> hub" where
  "queue_set_light_position device_id position h =
     (if queue_guard_rejects h device_id QUEUE_GUARD_LIGHT then h
      else with_queue (enqueue_set_light_position device_id position) h)"

definition queue_set_light_state :: "string \<Rightarrow> bool \<Rightarrow> hub \<Rightarrow> hub" where
  "queue_set_light_state device_id turn_on =
     queue_set_light_position device_id (if turn_on then HUB_BINARY_ON_POSITION else HUB_BINARY_OFF_POSITION)"

definition queue_set_lock_state :: "string \<Rightarrow> bool \<Rightarrow> hub \<Rightarrow> hub" where
  "queue_set_lock_state device_id locked h =
     (if queue_guard_rejects h device_id QUEUE_GUARD_LOCK then h
      else with_queue (enqueue_set_lock_state device_id locked) h)"

definition queue_set_switch_state :: "string \<Rightarrow> bool \<Rightarrow> hub \<Rightarrow> hub" where
  "queue_set_switch_state device_id turn_on h =
     (if queue_guard_rejects h device_id QUEUE_GUARD_SWITCH then h
      else with_queue (enqueue_set_switch_state device_id turn_on) h)"

definition send_oneway_command :: "string \<Rightarrow> cover_command \<Rightarrow> hub \<Rightarrow> hub" where
  "send_oneway_command controller_id c = with_queue (enqueue_oneway_command controller_id c)"

definition send_oneway_position :: "string \<Rightarrow> u8 \<Rightarrow> hub \<Rightarrow> hub" where
  "send_oneway_position controller_id position = with_queue (enqueue_oneway_position controller_id position)"

definition send_oneway_enroll :: "string \<Rightarrow> hub \<Rightarrow> hub" where
  "send_oneway_enroll controller_id = with_queue (enqueue_oneway_enroll controller_id)"

definition send_oneway_unenroll :: "string \<Rightarrow> hub \<Rightarrow> hub" where
  "send_oneway_unenroll controller_id = with_queue (enqueue_oneway_unenroll controller_id)"

definition send_oneway_action :: "string \<Rightarrow> oneway_button_action \<Rightarrow> hub \<Rightarrow> hub" where
  "send_oneway_action controller_id action =
     (let encoding = encode_oneway_action action
      in if oae_is_position encoding then send_oneway_position controller_id (oae_position encoding)
         else send_oneway_command controller_id (oae_command encoding))"

section \<open>Dispatch\<close>

text \<open>A one-way transmission runs on the hub's radio and counts as one-way activity.\<close>

definition execute_oneway ::
  "((radio \<times> engine_log) oneway_transmitter \<Rightarrow> bool \<times> (radio \<times> engine_log) oneway_transmitter) \<Rightarrow> hub \<Rightarrow> hub" where
  "execute_oneway send h =
     (let t = snd (send ((hub_oneway h)\<lparr>otx_air := (hub_radio h, hub_engine h)\<rparr>));
          h = h\<lparr>hub_oneway := t, hub_radio := fst (otx_air t), hub_engine := snd (otx_air t)\<rparr>
      in record_1w_activity (hub_millis h) h)"

definition hub_discover_and_pair :: "exchange_env \<Rightarrow> (nat \<Rightarrow> nat \<Rightarrow> bytes) \<Rightarrow> hub \<Rightarrow> (bool \<times> hub) option" where
  "hub_discover_and_pair env nonce h =
     (if \<not> hub_initialized h then Some (False, h)
      else do {
        (ok, t, ctx, reg, r, l) \<leftarrow> discover_and_pair env nonce (hub_registry h) (hub_radio h) (hub_engine h);
        Some (ok, h\<lparr>hub_registry := reg, hub_radio := r, hub_engine := l, hub_pairing_result := Some t\<rparr>)
      })"

definition dispatch_operation :: "exchange_env \<Rightarrow> (nat \<Rightarrow> nat \<Rightarrow> bytes) \<Rightarrow> pending_operation \<Rightarrow> hub \<Rightarrow> hub option" where
  "dispatch_operation env nonce operation h =
     (let device_id = op_device_id operation; position = op_position operation in
      case op_type operation of
        SET_POSITION \<Rightarrow> map_option snd (set_device_position env device_id position h)
      | SET_TILT \<Rightarrow> map_option snd (set_device_tilt env device_id position h)
      | SET_POSITION_AND_TILT \<Rightarrow> map_option snd (set_device_position_and_tilt env device_id position (op_tilt operation) h)
      | DEVICE_COMMAND \<Rightarrow> map_option snd (execute_device_command env device_id (op_command operation) h)
      | SET_LIGHT_STATE \<Rightarrow> map_option snd (set_light_position env device_id position h)
      | SET_LOCK_STATE \<Rightarrow> map_option snd (set_lock_state env device_id (position = HUB_BINARY_OFF_POSITION) h)
      | SET_SWITCH_STATE \<Rightarrow> map_option snd (set_switch_state env device_id (position = HUB_BINARY_ON_POSITION) h)
      | ONEWAY_COMMAND \<Rightarrow> Some (execute_oneway (send_command (engine_transmit env) engine_pause device_id (op_command operation)) h)
      | ONEWAY_POSITION \<Rightarrow> Some (execute_oneway (send_position (engine_transmit env) engine_pause device_id position) h)
      | ONEWAY_ENROLL \<Rightarrow> Some (execute_oneway (send_enrollment (engine_transmit env) engine_pause device_id) h)
      | ONEWAY_UNENROLL \<Rightarrow> Some (execute_oneway (send_unenrollment (engine_transmit env) engine_pause device_id) h)
      | REQUEST_STATUS \<Rightarrow> map_option snd (request_device_status env device_id h)
      | REQUEST_NAME \<Rightarrow> map_option snd (request_device_name env device_id h)
      | DISCOVER_AND_PAIR \<Rightarrow> map_option snd (hub_discover_and_pair env nonce h))"

definition process_pending_operation :: "exchange_env \<Rightarrow> (nat \<Rightarrow> nat \<Rightarrow> bytes) \<Rightarrow> hub \<Rightarrow> hub option" where
  "process_pending_operation env nonce h =
     (case pop (hub_queue h) of
        None \<Rightarrow> Some h
      | Some (operation, q) \<Rightarrow> dispatch_operation env nonce operation (h\<lparr>hub_queue := q\<rparr>))"

definition defer_background_poll :: "hub \<Rightarrow> bool" where
  "defer_background_poll h =
     (let next_op_is_background = (case hub_queue h of [] \<Rightarrow> False | operation # _ \<Rightarrow> is_background_op (op_type operation))
      in if next_op_is_background \<and> key_extraction_awaiting_reply (hub_radio h) (hub_extraction h) then True
         else defer_background_poll_for_1w_activity next_op_is_background (hub_first_1w_activity_ms h)
                (hub_last_1w_activity_ms h) (hub_millis h) ONEWAY_QUIET_PERIOD_MS ONEWAY_POLL_DEFER_CAP_MS)"

text \<open>
  One pass of \<open>loop()\<close>. What the radio has received by then (with channel and strength), the two random
  challenges, the nonces of a pairing attempt and whether a reception is in progress are arguments.
\<close>

definition hub_hop :: "bool \<Rightarrow> hub \<Rightarrow> hub" where
  "hub_hop reception_in_progress h =
     (if key_extraction_awaiting_reply (hub_radio h) (hub_extraction h)
      then (if rad_freq (hub_radio h) \<noteq> FREQ_CH2 \<and> \<not> reception_in_progress
            then h\<lparr>hub_radio := change_frequency FREQ_CH2 (hub_radio h)\<rparr> else h)
      else h\<lparr>hub_radio := maybe_hop reception_in_progress (hub_radio h)\<rparr>)"

definition poll_due_device :: "hub \<Rightarrow> hub" where
  "poll_due_device h =
     (case pop_due_device (hub_millis h) (hub_policy h) of
        (None, p) \<Rightarrow> h\<lparr>hub_policy := p\<rparr>
      | (Some device_id, p) \<Rightarrow> queue_request_device_status device_id (h\<lparr>hub_policy := p\<rparr>))"

definition hub_loop ::
  "exchange_env \<Rightarrow> bytes \<Rightarrow> bytes \<Rightarrow> (nat \<Rightarrow> nat \<Rightarrow> bytes) \<Rightarrow> (bytes \<times> u32 \<times> int) option \<Rightarrow> bool \<Rightarrow> hub \<Rightarrow> hub option" where
  "hub_loop env kx_challenge random nonce received reception_in_progress h =
     (if \<not> hub_initialized h \<or> hub_radio_test_mode h then Some h
      else do {
        let h = (case received of
                   None \<Rightarrow> h
                 | Some (packet, freq, rssi) \<Rightarrow> process_received_packet env kx_challenge random packet freq
                     (h\<lparr>hub_radio := (hub_radio h)\<lparr>rad_last_rssi := rssi\<rparr>\<rparr>));
        h \<leftarrow> (if defer_background_poll h then Some h else process_pending_operation env nonce h);
        Some (poll_due_device (hub_hop reception_in_progress h))
      })"

section \<open>Operations return\<close>

lemma execute_request_outcome:
  obtains outcome response r l where
    "send_and_receive env request freq max_tries (hub_radio h) (hub_engine h) = Some (outcome, response, r, l)"
    and "outcome = SUCCESS_WITH_RESPONSE \<longleftrightarrow> response \<noteq> None"
    and "\<forall>rx. response = Some rx \<longrightarrow> heard (hub_radio h) r rx \<and> src rx = dst request \<and> dst rx = src request"
proof -
  obtain outcome response r l where run: "send_and_receive env request freq max_tries (hub_radio h) (hub_engine h) = Some (outcome, response, r, l)"
    and con: "exchange_contract env request freq (request_preamble_for env request) (tries_allowed max_tries) False (hub_radio h) outcome response r"
    using send_and_receive_contract [of env request freq max_tries "hub_radio h" "hub_engine h"] by blast
  show ?thesis
    by (rule that [OF run])
       (use con in \<open>auto simp: exchange_contract_def frame_matches_exchange_endpoints_def frame_matches_nodes_def split: option.splits\<close>)
qed

lemma execute_request_returns: "\<exists>b h'. execute_request_and_update env device_id request retry max_tries h = Some (b, h')"
proof -
  obtain outcome response r l where run: "send_and_receive env request FREQ_CH2 max_tries (hub_radio h) (hub_engine h) = Some (outcome, response, r, l)"
    and s: "outcome = SUCCESS_WITH_RESPONSE \<longleftrightarrow> response \<noteq> None"
    by (rule execute_request_outcome [of env request FREQ_CH2 max_tries h])
  have "execute_request_and_update env device_id request retry max_tries h \<noteq> None"
    using s unfolding execute_request_and_update_def run by (cases outcome; cases response) (auto simp: Let_def)
  then show ?thesis by auto
qed

lemma try_execute_returns: "\<exists>b h'. try_execute_operation env device_id stop accepts build h = Some (b, h')"
proof (cases "get_device device_id h")
  case (Some dev)
  obtain ok request where b: "build dev = (ok, request)" by fastforce
  obtain b h' where run: "execute_request_and_update env device_id request 0 (of_nat EXCHANGE_RETRY_COUNT)
      (begin_status_poll_tracking device_id (get_interval device_id (hub_policy h)) h) = Some (b, h')"
    using execute_request_returns by blast
  have "try_execute_operation env device_id stop accepts build h \<noteq> None"
    using Some b run by (cases ok; cases b) (auto simp: try_execute_operation_def Let_def)
  then show ?thesis by auto
qed (auto simp: try_execute_operation_def)

lemma run_execute_returns: "\<exists>b h'. run_execute_operation env device_id stop accepts build h = Some (b, h')"
  using try_execute_returns [of env device_id stop accepts build h] by (auto simp: run_execute_operation_def)

lemma set_device_position_returns: "\<exists>b h'. set_device_position env device_id position h = Some (b, h')"
  by (cases "get_device device_id h") (auto simp: set_device_position_def run_execute_returns)

lemma set_position_as_returns: "\<exists>b h'. set_position_as c env device_id position h = Some (b, h')"
  by (cases "get_device device_id h") (auto simp: set_position_as_def set_device_position_returns)

lemma status_request_returns: "\<exists>b h'. request_device_status env device_id h = Some (b, h')"
proof (cases "get_device device_id h")
  case (Some dev)
  then show ?thesis
    by (auto simp: request_device_status_def Let_def execute_request_returns split: bool.split prod.split)
qed (auto simp: request_device_status_def)

lemma name_request_returns: "\<exists>b h'. request_device_name env device_id h = Some (b, h')"
proof (cases "get_device device_id h")
  case (Some dev)
  then show ?thesis
    by (auto simp: request_device_name_def Let_def execute_request_returns split: bool.split prod.split)
qed (auto simp: request_device_name_def)

lemma pairing_operation_returns:
  assumes "length (env_system_key env) = AES_KEY_SIZE" and "hop_dwell_ms (env_chip env) (env_tuning env) \<noteq> 0"
  shows "\<exists>b h'. hub_discover_and_pair env nonce h = Some (b, h')"
  using pairing_returns [OF assms, of nonce "hub_registry h" "hub_radio h" "hub_engine h"]
  by (auto simp: hub_discover_and_pair_def)

lemma returns_dispatch: "\<exists>b h'. x = Some (b, h') \<Longrightarrow> \<exists>h'. map_option snd x = Some h'"
  by auto

lemmas operations_return =
  run_execute_returns set_device_position_returns set_position_as_returns status_request_returns name_request_returns

lemma dispatch_returns:
  assumes "length (env_system_key env) = AES_KEY_SIZE" and "hop_dwell_ms (env_chip env) (env_tuning env) \<noteq> 0"
  shows "\<exists>h'. dispatch_operation env nonce operation h = Some h'"
proof -
  have w: "\<exists>b h'. set_light_position env d x h = Some (b, h')" "\<exists>b h'. set_lock_state env d y h = Some (b, h')"
    "\<exists>b h'. set_switch_state env d y h = Some (b, h')" "\<exists>b h'. set_device_tilt env d x h = Some (b, h')"
    "\<exists>b h'. set_device_position_and_tilt env d x z h = Some (b, h')" "\<exists>b h'. execute_device_command env d c h = Some (b, h')"
    for d x y z c
    unfolding set_light_position_def set_lock_state_def set_switch_state_def set_device_tilt_def
      set_device_position_and_tilt_def execute_device_command_def by (rule operations_return)+
  show ?thesis
    by (cases "op_type operation";
        simp only: dispatch_operation_def Let_def pending_operation_type.case;
        (rule exI, rule refl | rule returns_dispatch, rule w operations_return pairing_operation_returns [OF assms]))
qed

lemma process_pending_returns:
  assumes "length (env_system_key env) = AES_KEY_SIZE" and "hop_dwell_ms (env_chip env) (env_tuning env) \<noteq> 0"
  shows "\<exists>h'. process_pending_operation env nonce h = Some h'"
  using dispatch_returns [OF assms] by (cases "pop (hub_queue h)") (auto simp: process_pending_operation_def)

section \<open>Properties\<close>



section \<open>What a failed operation leaves\<close>

text \<open>What the actuator has reported of its movement.\<close>

definition reported_motion :: "io_device \<Rightarrow> rat \<times> rat \<times> rat \<times> bool" where
  "reported_motion dev = (dev_target dev, dev_position dev, dev_tilt dev, dev_is_stopped dev)"

lemma bookkeeping_keeps_motion [simp]:
  "reported_motion (update_link_health now capture dev) = reported_motion dev"
  "reported_motion (record_exchange_timeout tries dev) = reported_motion dev"
  "reported_motion (record_command_result now result dev) = reported_motion dev"
  "reported_motion (dev\<lparr>dev_optimistic := opt\<rparr>) = reported_motion dev"
  by (simp_all add: reported_motion_def update_link_health_def record_exchange_timeout_def record_command_result_def Let_def
      split: option.split)

lemma backoff_devices [simp]: "get_device d (schedule_background_poll_backoff d' a h) = get_device d h"
  by (simp add: schedule_background_poll_backoff_def get_device_def)

lemma change_device_motion:
  assumes "\<And>dev. reported_motion (f dev) = reported_motion dev"
  shows "map_option reported_motion (get_device d (change_device d' f h)) = map_option reported_motion (get_device d h)"
  using assms by (auto simp: change_device_def split: option.split)

lemma failed_exchange_motion:
  "map_option reported_motion (get_device d (exchange_failed_for d' retry h)) = map_option reported_motion (get_device d h)"
proof -
  have "reported_motion (record_exchange_timeout t dev) = reported_motion dev" for t dev by simp
  from change_device_motion [OF this] show ?thesis by (simp add: exchange_failed_for_def Let_def)
qed

lemma error_response_motion:
  "map_option reported_motion (get_device d (snd (handle_error_response d' response retry h))) =
     map_option reported_motion (get_device d h)"
proof -
  have "reported_motion (let dev = update_link_health now cap dev
            in if data_len response = 0 then dev else record_command_result now (data response ! 0) dev) = reported_motion dev"
    for now cap dev by (simp add: Let_def)
  from change_device_motion [OF this] show ?thesis by (simp add: handle_error_response_def Let_def)
qed

lemma failed_request_motion:
  assumes "execute_request_and_update env device_id request retry max_tries h = Some (False, h')"
  shows "map_option reported_motion (get_device d h') = map_option reported_motion (get_device d h)"
proof -
  obtain outcome response r l where run: "send_and_receive env request FREQ_CH2 max_tries (hub_radio h) (hub_engine h) = Some (outcome, response, r, l)"
    by (rule execute_request_outcome [of env request FREQ_CH2 max_tries h])
  have same: "get_device d (h\<lparr>hub_radio := r, hub_engine := l\<rparr>) = get_device d h" by (simp add: get_device_def)
  have "h' = exchange_failed_for device_id retry (h\<lparr>hub_radio := r, hub_engine := l\<rparr>) \<or>
      (\<exists>rx. h' = snd (handle_error_response device_id rx retry (h\<lparr>hub_radio := r, hub_engine := l\<rparr>)))"
    using assms unfolding execute_request_and_update_def run
    by (auto simp: Let_def split: if_splits option.splits) (metis snd_conv)+
  then show ?thesis by (auto simp: failed_exchange_motion error_response_motion same)
qed

lemma tracking_devices [simp]: "get_device d (begin_status_poll_tracking d' u h) = get_device d h"
  by (simp add: get_device_def)

lemma failed_operation_motion:
  assumes "try_execute_operation env device_id stop accepts build h = Some (False, h')"
  shows "map_option reported_motion (get_device d h') = map_option reported_motion (get_device d h)"
proof (cases "get_device device_id h")
  case (Some dev)
  let ?k = "begin_status_poll_tracking device_id (get_interval device_id (hub_policy h)) h"
  have same: "get_device d (k\<lparr>hub_policy := p\<rparr>) = get_device d k" for k p by (simp add: get_device_def)
  show ?thesis
  proof (cases "hub_initialized h \<and> accepts dev \<and> fst (build dev)")
    case True
    obtain request where b: "build dev = (True, request)" using True by (cases "build dev") auto
    obtain b k where run: "execute_request_and_update env device_id request 0 (of_nat EXCHANGE_RETRY_COUNT) ?k = Some (b, k)"
      using execute_request_returns by blast
    have "\<not> b" "get_device d h' = get_device d k"
      using assms Some True b run by (cases b; simp add: try_execute_operation_def Let_def; metis backoff_devices)+
    then show ?thesis using failed_request_motion [of env device_id request 0 _ ?k k d] run by simp
  next
    case False
    then have "get_device d h' = get_device d h"
      using assms Some by (cases "build dev") (auto simp: try_execute_operation_def Let_def same split: if_splits)
    then show ?thesis by simp
  qed
qed (use assms in \<open>simp add: try_execute_operation_def\<close>)

lemma empty_is_no_prediction: "optimistic_empty opt \<longleftrightarrow> opt = no_prediction"
  by (cases opt) (auto simp: optimistic_empty_def no_prediction_def)

lemma rolled_back_device:
  "get_device device_id (hub_rollback d h) =
     (if d = device_id then map_option (\<lambda>dev. dev\<lparr>dev_optimistic := no_prediction\<rparr>) (get_device device_id h)
      else get_device device_id h)"
proof (cases "get_device d h")
  case None
  then show ?thesis by (auto simp: get_device_def hub_rollback_def rollback_optimistic_def)
next
  case (Some dev)
  have "dev\<lparr>dev_optimistic := no_prediction\<rparr> = dev" if "dev_optimistic dev = no_prediction"
    using that by (cases dev) simp
  then show ?thesis using Some
    by (auto simp: get_device_def hub_rollback_def rollback_optimistic_def optimistic_clear_def empty_is_no_prediction)
qed

text \<open>C17. A command that fails withdraws what was predicted for it and believes nothing. When an operation of
  the execute family fails - no such device, the wrong class, a frame that cannot be built, no answer in
  any try, or an error response -, the prediction for its device is cleared and the reported target,
  position, slat angle and movement of every device are what they were before.\<close>

theorem failed_command_withdraws_prediction:
  assumes "run_execute_operation env device_id stop accepts build h = Some (False, h')"
  shows "(\<forall>dev. get_device device_id h' = Some dev \<longrightarrow> optimistic_empty (dev_optimistic dev)) \<and>
    (\<forall>d. map_option reported_motion (get_device d h') = map_option reported_motion (get_device d h))"
proof -
  obtain k where k: "try_execute_operation env device_id stop accepts build h = Some (False, k)" and h': "h' = hub_rollback device_id k"
    using assms try_execute_returns [of env device_id stop accepts build h] by (auto simp: run_execute_operation_def)
  have "map_option reported_motion (get_device d h') = map_option reported_motion (get_device d k)" for d
    by (cases "get_device d k") (simp_all add: h' rolled_back_device)
  moreover have "optimistic_empty (dev_optimistic dev)" if "get_device device_id h' = Some dev" for dev
    using that by (auto simp: h' rolled_back_device empty_is_no_prediction)
  ultimately show ?thesis using failed_operation_motion [OF k] by simp
qed

theorem failed_command_withdraws_prediction_witness:
  "\<exists>h'. run_execute_operation demo_env ''040506'' False (\<lambda>d. True) (\<lambda>d. (False, empty_frame))
       (put_device ''040506'' (new_device\<lparr>dev_optimistic := no_prediction\<lparr>opt_motion := MOTION_MOVING\<rparr>\<rparr>) (demo_hub (demo_radio []))) = Some (False, h') \<and>
     map_option (\<lambda>dev. optimistic_empty (dev_optimistic dev)) (get_device ''040506'' h') = Some True"
proof -
  let ?h = "put_device ''040506'' (new_device\<lparr>dev_optimistic := no_prediction\<lparr>opt_motion := MOTION_MOVING\<rparr>\<rparr>) (demo_hub (demo_radio []))"
  let ?run = "run_execute_operation demo_env ''040506'' False (\<lambda>d. True) (\<lambda>d. (False, empty_frame)) ?h"
  obtain b h' where run: "?run = Some (b, h')" using run_execute_returns by blast
  have dev: "get_device ''040506'' ?h \<noteq> None" by simp
  have b: "b = False" using run dev
    by (auto simp: run_execute_operation_def try_execute_operation_def Let_def split: if_splits)
  note run' = run [unfolded b]
  have "map_option reported_motion (get_device ''040506'' h') = map_option reported_motion (get_device ''040506'' ?h)"
    using failed_command_withdraws_prediction [OF run'] by blast
  then obtain dev' where "get_device ''040506'' h' = Some dev'" using dev by (cases "get_device ''040506'' h'") auto
  then show ?thesis using failed_command_withdraws_prediction [OF run'] run' by auto
qed



end
