(* ===== verification/Chip_Updater.thy ===== *)
theory Chip_Updater
  imports Prelude
begin

text \<open>
  The LR1121 in its bootloader (\<open>radio_lr1121_firmware_updater.h\<close>, \<open>.cpp\<close>): the BUSY wait, the SPI
  commands with and without a reply, entry into the bootloader, erasing, the chunked image write, and the
  commands of the loader firmware. The chip is the environment: how long BUSY stays high at each wait and
  the bytes of each reply are scripted in the state of the bus, and everything the hub does to the chip is
  appended to its log. Feeding the watchdog and the stored pin flags are left out.
\<close>

section \<open>The bus\<close>

datatype chip_event =
    Radio_standby | Radio_init | Esp_reboot
  | Strap_entry                 \<comment> \<open>BUSY driven low over a reset pulse: the chip starts its bootloader\<close>
  | Spi_command u16 bytes       \<comment> \<open>opcode and parameters\<close>
  | Spi_reply bytes             \<comment> \<open>the bytes read after the status byte\<close>

record chip_bus =
  bus_time :: u32
  bus_busy :: "u32 list"
  bus_replies :: "bytes list"
  bus_log :: "chip_event list"

definition tell_chip :: "chip_event \<Rightarrow> chip_bus \<Rightarrow> chip_bus" where
  "tell_chip e b = b\<lparr>bus_log := bus_log b @ [e]\<rparr>"

definition chip_delay :: "u32 \<Rightarrow> chip_bus \<Rightarrow> chip_bus" where
  "chip_delay ms b = b\<lparr>bus_time := bus_time b + ms\<rparr>"

section \<open>Constants\<close>

abbreviation (input) LR1121_UPDATER_CMD_GET_VERSION :: u16 where "LR1121_UPDATER_CMD_GET_VERSION \<equiv> 0x0101"
abbreviation (input) LR1121_UPDATER_CMD_ERASE_FLASH :: u16 where "LR1121_UPDATER_CMD_ERASE_FLASH \<equiv> 0x8000"
abbreviation (input) LR1121_UPDATER_CMD_WRITE_FLASH_ENCRYPTED :: u16 where "LR1121_UPDATER_CMD_WRITE_FLASH_ENCRYPTED \<equiv> 0x8003"
abbreviation (input) LR1121_UPDATER_CMD_GET_HASH :: u16 where "LR1121_UPDATER_CMD_GET_HASH \<equiv> 0x8004"
abbreviation (input) LR1121_UPDATER_CMD_REBOOT :: u16 where "LR1121_UPDATER_CMD_REBOOT \<equiv> 0x8005"
abbreviation (input) LR1121_UPDATER_CMD_UPDATE_BOOTLOADER :: u16 where "LR1121_UPDATER_CMD_UPDATE_BOOTLOADER \<equiv> 0x8100"
abbreviation (input) LR1121_UPDATER_CMD_VERIFY_BOOTLOADER :: u16 where "LR1121_UPDATER_CMD_VERIFY_BOOTLOADER \<equiv> 0x8101"
abbreviation (input) LR1121_UPDATER_CMD_UPDATER_REBOOT :: u16 where "LR1121_UPDATER_CMD_UPDATER_REBOOT \<equiv> 0x8102"
abbreviation (input) LR1121_UPDATER_BOOTLOADER_TYPE :: u8 where "LR1121_UPDATER_BOOTLOADER_TYPE \<equiv> 0xDF"
abbreviation (input) LR1121_UPDATER_LOADER_DEVICE_TYPE :: u8 where "LR1121_UPDATER_LOADER_DEVICE_TYPE \<equiv> 0xDE"
abbreviation (input) LR1121_UPDATER_HASH_LENGTH :: nat where "LR1121_UPDATER_HASH_LENGTH \<equiv> 16"
abbreviation (input) LR1121_UPDATER_FLASH_CHUNK_WORDS :: nat where "LR1121_UPDATER_FLASH_CHUNK_WORDS \<equiv> 64"
abbreviation (input) LR1121_UPDATER_BUSY_TIMEOUT_MS :: u32 where "LR1121_UPDATER_BUSY_TIMEOUT_MS \<equiv> 3000"
abbreviation (input) LR1121_UPDATER_ERASE_BUSY_TIMEOUT_MS :: u32 where "LR1121_UPDATER_ERASE_BUSY_TIMEOUT_MS \<equiv> 30000"
abbreviation (input) LR1121_UPDATER_BOOTLOADER_UPDATE_BUSY_TIMEOUT_MS :: u32 where
  "LR1121_UPDATER_BOOTLOADER_UPDATE_BUSY_TIMEOUT_MS \<equiv> LR1121_UPDATER_ERASE_BUSY_TIMEOUT_MS"
abbreviation (input) LR1121_UPDATER_RESET_PULSE_MS :: u32 where "LR1121_UPDATER_RESET_PULSE_MS \<equiv> 10"
abbreviation (input) LR1121_UPDATER_BOOTLOADER_ENTRY_WAIT_MS :: u32 where "LR1121_UPDATER_BOOTLOADER_ENTRY_WAIT_MS \<equiv> 500"
abbreviation (input) LR1121_UPDATER_POST_ENTRY_SETTLE_MS :: u32 where "LR1121_UPDATER_POST_ENTRY_SETTLE_MS \<equiv> 100"
abbreviation (input) LR1121_UPDATER_POST_REBOOT_SETTLE_MS :: u32 where "LR1121_UPDATER_POST_REBOOT_SETTLE_MS \<equiv> 50"

section \<open>Commands\<close>

text \<open>BUSY is polled until it is low or more than the timeout has passed.\<close>

definition wait_busy :: "u32 \<Rightarrow> chip_bus \<Rightarrow> bool \<times> chip_bus" where
  "wait_busy timeout_ms b =
     (let high = (case bus_busy b of [] \<Rightarrow> 0 | d # _ \<Rightarrow> d)
      in (high \<le> timeout_ms, b\<lparr>bus_time := bus_time b + min high (timeout_ms + 1), bus_busy := tl (bus_busy b)\<rparr>))"

definition write_command :: "u16 \<Rightarrow> bytes \<Rightarrow> u32 \<Rightarrow> chip_bus \<Rightarrow> bool \<times> chip_bus" where
  "write_command opcode params busy_timeout_ms b =
     (case wait_busy busy_timeout_ms b of
        (False, b) \<Rightarrow> (False, b)
      | (True, b) \<Rightarrow> (True, tell_chip (Spi_command opcode params) b))"

text \<open>One read transaction; a chip that drives nothing is read as zero bytes.\<close>

definition chip_read :: "nat \<Rightarrow> chip_bus \<Rightarrow> bytes \<times> chip_bus" where
  "chip_read n b =
     (let reply = take n ((case bus_replies b of [] \<Rightarrow> [] | r # _ \<Rightarrow> r) @ replicate n 0)
      in (reply, tell_chip (Spi_reply reply) (b\<lparr>bus_replies := tl (bus_replies b)\<rparr>)))"

definition read_command :: "u16 \<Rightarrow> bytes \<Rightarrow> nat \<Rightarrow> u32 \<Rightarrow> chip_bus \<Rightarrow> bytes option \<times> chip_bus" where
  "read_command opcode params out_len busy_timeout_ms b =
     (case write_command opcode params busy_timeout_ms b of
        (False, b) \<Rightarrow> (None, b)
      | (True, b) \<Rightarrow>
          (case wait_busy busy_timeout_ms b of
             (False, b) \<Rightarrow> (None, b)
           | (True, b) \<Rightarrow> (let (reply, b) = chip_read out_len b in (Some reply, b))))"

definition read_normal_version :: "chip_bus \<Rightarrow> (u8 \<times> u8 \<times> u8) option \<times> chip_bus" where
  "read_normal_version b =
     (let (resp, b) = read_command LR1121_UPDATER_CMD_GET_VERSION [] 4 LR1121_UPDATER_BUSY_TIMEOUT_MS b
      in (map_option (\<lambda>r. (r ! 1, r ! 2, r ! 3)) resp, b))"

definition read_bootloader_version :: "chip_bus \<Rightarrow> (u8 \<times> u16) option \<times> chip_bus" where
  "read_bootloader_version b =
     (let (resp, b) = read_command LR1121_UPDATER_CMD_GET_VERSION [] 4 LR1121_UPDATER_BUSY_TIMEOUT_MS b
      in (map_option (\<lambda>r. (r ! 1, be16 (r ! 2) (r ! 3))) resp, b))"

definition enter_bootloader :: "chip_bus \<Rightarrow> (u8 \<times> u16) option \<times> chip_bus" where
  "enter_bootloader b =
     read_bootloader_version (chip_delay LR1121_UPDATER_POST_ENTRY_SETTLE_MS
       (chip_delay (LR1121_UPDATER_RESET_PULSE_MS + LR1121_UPDATER_BOOTLOADER_ENTRY_WAIT_MS) (tell_chip Strap_entry b)))"

definition erase_flash :: "chip_bus \<Rightarrow> bool \<times> chip_bus" where
  "erase_flash b =
     (case write_command LR1121_UPDATER_CMD_ERASE_FLASH [] LR1121_UPDATER_BUSY_TIMEOUT_MS b of
        (False, b) \<Rightarrow> (False, b)
      | (True, b) \<Rightarrow> wait_busy LR1121_UPDATER_ERASE_BUSY_TIMEOUT_MS b)"

definition chunk_params :: "u32 list \<Rightarrow> nat \<Rightarrow> nat \<Rightarrow> bytes" where
  "chunk_params ws written chunk_words =
     be32 (of_nat (written * 4)) @ concat (map be32 (take chunk_words (drop written ws)))"

function write_chunks :: "u32 list \<Rightarrow> nat \<Rightarrow> chip_bus \<Rightarrow> bool \<times> chip_bus" where
  "write_chunks ws written b =
     (if written < length ws
      then let chunk_words = min LR1121_UPDATER_FLASH_CHUNK_WORDS (length ws - written) in
           case write_command LR1121_UPDATER_CMD_WRITE_FLASH_ENCRYPTED (chunk_params ws written chunk_words)
                  LR1121_UPDATER_BUSY_TIMEOUT_MS b of
             (False, b) \<Rightarrow> (False, b)
           | (True, b) \<Rightarrow> write_chunks ws (written + chunk_words) b
      else (True, b))"
  by pat_completeness auto

termination write_chunks
  by (relation "measure (\<lambda>(ws, written, b). length ws - written)") auto

declare write_chunks.simps [simp del]

definition write_image :: "u32 list \<Rightarrow> chip_bus \<Rightarrow> bool \<times> chip_bus" where
  "write_image ws b = write_chunks ws 0 b"

definition read_hash :: "nat \<Rightarrow> chip_bus \<Rightarrow> bytes option \<times> chip_bus" where
  "read_hash out_len b =
     (if out_len < LR1121_UPDATER_HASH_LENGTH then (None, b)
      else read_command LR1121_UPDATER_CMD_GET_HASH [] LR1121_UPDATER_HASH_LENGTH LR1121_UPDATER_BUSY_TIMEOUT_MS b)"

definition reboot_param :: "bool \<Rightarrow> u8" where
  "reboot_param stay_in_bootloader = (if stay_in_bootloader then 0x03 else 0x00)"

definition chip_reboot :: "bool \<Rightarrow> chip_bus \<Rightarrow> bool \<times> chip_bus" where
  "chip_reboot stay_in_bootloader b =
     (case write_command LR1121_UPDATER_CMD_REBOOT [reboot_param stay_in_bootloader] LR1121_UPDATER_BUSY_TIMEOUT_MS b of
        (False, b) \<Rightarrow> (False, b)
      | (True, b) \<Rightarrow> (True, chip_delay LR1121_UPDATER_POST_REBOOT_SETTLE_MS b))"

section \<open>The loader firmware\<close>

definition update_bootloader :: "chip_bus \<Rightarrow> bool \<times> chip_bus" where
  "update_bootloader b =
     (case write_command LR1121_UPDATER_CMD_UPDATE_BOOTLOADER [] LR1121_UPDATER_BUSY_TIMEOUT_MS b of
        (False, b) \<Rightarrow> (False, b)
      | (True, b) \<Rightarrow> wait_busy LR1121_UPDATER_BOOTLOADER_UPDATE_BUSY_TIMEOUT_MS b)"

record updater_status =
  us_command_status :: u8
  us_interrupt_active :: bool
  us_running_from_flash :: bool
  us_chip_mode :: u8
  us_reset_status :: u8
  us_irq_status :: u32

definition decode_updater_status :: "bytes \<Rightarrow> updater_status" where
  "decode_updater_status d =
     \<lparr>us_command_status = drop_bit 1 (d ! 0), us_interrupt_active = ((d ! 0) AND 0x01 \<noteq> 0),
      us_running_from_flash = ((d ! 1) AND 0x01 \<noteq> 0), us_chip_mode = drop_bit 1 ((d ! 1) AND 0x0F),
      us_reset_status = drop_bit 4 ((d ! 1) AND 0xF0),
      us_irq_status = push_bit 24 (ucast (d ! 2)) OR push_bit 16 (ucast (d ! 3)) OR push_bit 8 (ucast (d ! 4)) OR ucast (d ! 5)\<rparr>"

definition read_updater_status :: "chip_bus \<Rightarrow> updater_status option \<times> chip_bus" where
  "read_updater_status b =
     (case wait_busy LR1121_UPDATER_BUSY_TIMEOUT_MS b of
        (False, b) \<Rightarrow> (None, b)
      | (True, b) \<Rightarrow> (let (d, b) = chip_read 6 b in (Some (decode_updater_status d), b)))"

record bootloader_verification =
  bv_signature_verified :: bool
  bv_version_verified :: bool
  bv_use_case_verified :: bool
  bv_version_major_verified :: bool
  bv_version_minor_verified :: bool
  bv_anti_rollback_verified :: bool
  bv_use_case :: u8
  bv_version_major :: u8
  bv_version_minor :: u8

definition all_checks_passed :: "bootloader_verification \<Rightarrow> bool" where
  "all_checks_passed v \<longleftrightarrow> bv_signature_verified v \<and> bv_version_verified v \<and> bv_use_case_verified v \<and>
     bv_version_major_verified v \<and> bv_version_minor_verified v \<and> bv_anti_rollback_verified v"

definition decode_verification :: "bytes \<Rightarrow> bootloader_verification" where
  "decode_verification r =
     \<lparr>bv_signature_verified = ((r ! 0) AND 0x01 \<noteq> 0), bv_version_verified = ((r ! 0) AND 0x02 \<noteq> 0),
      bv_use_case_verified = ((r ! 0) AND 0x04 \<noteq> 0), bv_version_major_verified = ((r ! 0) AND 0x08 \<noteq> 0),
      bv_version_minor_verified = ((r ! 0) AND 0x10 \<noteq> 0), bv_anti_rollback_verified = ((r ! 0) AND 0x20 \<noteq> 0),
      bv_use_case = r ! 1, bv_version_major = r ! 2, bv_version_minor = r ! 3\<rparr>"

definition verify_bootloader :: "chip_bus \<Rightarrow> bootloader_verification option \<times> chip_bus" where
  "verify_bootloader b =
     (let (resp, b) = read_command LR1121_UPDATER_CMD_VERIFY_BOOTLOADER [] 4 LR1121_UPDATER_BUSY_TIMEOUT_MS b
      in (map_option decode_verification resp, b))"

definition updater_reboot :: "bool \<Rightarrow> chip_bus \<Rightarrow> bool \<times> chip_bus" where
  "updater_reboot stay_in_bootloader b =
     (case write_command LR1121_UPDATER_CMD_UPDATER_REBOOT [reboot_param stay_in_bootloader] LR1121_UPDATER_BUSY_TIMEOUT_MS b of
        (False, b) \<Rightarrow> (False, b)
      | (True, b) \<Rightarrow> (True, chip_delay LR1121_UPDATER_POST_REBOOT_SETTLE_MS b))"

section \<open>What a command puts on the bus\<close>

lemma bus_simps [simp]:
  "bus_log (tell_chip e b) = bus_log b @ [e]" "bus_log (chip_delay ms b) = bus_log b" "bus_replies (chip_delay ms b) = bus_replies b"
  "bus_replies (tell_chip e b) = bus_replies b" "bus_busy (tell_chip e b) = bus_busy b" "bus_busy (chip_delay ms b) = bus_busy b"
  by (simp_all add: tell_chip_def chip_delay_def)

lemma wait_busy_log: "wait_busy n b = (ok, b') \<Longrightarrow> bus_log b' = bus_log b"
  by (auto simp: wait_busy_def Let_def)

lemma write_command_log:
  "write_command opcode ps n b = (ok, b') \<Longrightarrow> bus_log b' = bus_log b @ (if ok then [Spi_command opcode ps] else [])"
  by (auto simp: write_command_def dest!: wait_busy_log split: prod.splits bool.splits)

lemma read_command_log:
  assumes "read_command opcode ps k n b = (r, b')"
  obtains es where "bus_log b' = bus_log b @ es" and "set es \<subseteq> {Spi_command opcode ps} \<union> range Spi_reply"
    and "\<forall>d. r = Some d \<longrightarrow> length d = k \<and> es = [Spi_command opcode ps, Spi_reply d]"
proof -
  obtain ok b1 where w: "write_command opcode ps n b = (ok, b1)" by fastforce
  obtain ok2 b2 where v: "wait_busy n b1 = (ok2, b2)" by fastforce
  note logs = write_command_log [OF w] wait_busy_log [OF v]
  show ?thesis
    by (rule that [of "drop (length (bus_log b)) (bus_log b')"])
       (use assms w v logs in \<open>auto simp: read_command_def chip_read_def Let_def split: if_splits bool.splits\<close>)
qed

lemma version_read_log:
  assumes "read_bootloader_version b = (r, b')"
  obtains es where "bus_log b' = bus_log b @ es" and "set es \<subseteq> {Spi_command LR1121_UPDATER_CMD_GET_VERSION []} \<union> range Spi_reply"
    and "\<forall>ty v. r = Some (ty, v) \<longrightarrow> (\<exists>d. length d = 4 \<and> es = [Spi_command LR1121_UPDATER_CMD_GET_VERSION [], Spi_reply d] \<and>
           ty = d ! 1 \<and> v = be16 (d ! 2) (d ! 3))"
proof -
  obtain x b1 where x: "read_command LR1121_UPDATER_CMD_GET_VERSION [] 4 LR1121_UPDATER_BUSY_TIMEOUT_MS b = (x, b1)" by fastforce
  show ?thesis
    by (rule read_command_log [OF x], rule that) (use assms x in \<open>auto simp: read_bootloader_version_def\<close>)
qed

lemma normal_version_log:
  assumes "read_normal_version b = (r, b')"
  obtains es where "bus_log b' = bus_log b @ es" and "set es \<subseteq> {Spi_command LR1121_UPDATER_CMD_GET_VERSION []} \<union> range Spi_reply"
    and "\<forall>ty x y. r = Some (ty, x, y) \<longrightarrow> (\<exists>d. length d = 4 \<and> es = [Spi_command LR1121_UPDATER_CMD_GET_VERSION [], Spi_reply d] \<and>
           ty = d ! 1 \<and> x = d ! 2 \<and> y = d ! 3)"
proof -
  obtain x b1 where x: "read_command LR1121_UPDATER_CMD_GET_VERSION [] 4 LR1121_UPDATER_BUSY_TIMEOUT_MS b = (x, b1)" by fastforce
  show ?thesis
    by (rule read_command_log [OF x], rule that) (use assms x in \<open>auto simp: read_normal_version_def\<close>)
qed

lemma enter_bootloader_log:
  assumes "enter_bootloader b = (r, b')"
  obtains es where "bus_log b' = bus_log b @ Strap_entry # es"
    and "set es \<subseteq> {Spi_command LR1121_UPDATER_CMD_GET_VERSION []} \<union> range Spi_reply"
    and "\<forall>ty v. r = Some (ty, v) \<longrightarrow> (\<exists>d. length d = 4 \<and> es = [Spi_command LR1121_UPDATER_CMD_GET_VERSION [], Spi_reply d] \<and>
           ty = d ! 1 \<and> v = be16 (d ! 2) (d ! 3))"
proof -
  obtain es where "bus_log b' = bus_log b @ Strap_entry # es"
    and "set es \<subseteq> {Spi_command LR1121_UPDATER_CMD_GET_VERSION []} \<union> range Spi_reply"
    and "\<forall>ty v. r = Some (ty, v) \<longrightarrow> (\<exists>d. length d = 4 \<and> es = [Spi_command LR1121_UPDATER_CMD_GET_VERSION [], Spi_reply d] \<and>
           ty = d ! 1 \<and> v = be16 (d ! 2) (d ! 3))"
    by (rule version_read_log [OF assms [unfolded enter_bootloader_def]]) auto
  then show ?thesis by (rule that)
qed

lemma chip_reboot_log:
  "chip_reboot stay b = (ok, b') \<Longrightarrow>
     bus_log b' = bus_log b @ (if ok then [Spi_command LR1121_UPDATER_CMD_REBOOT [reboot_param stay]] else [])"
  by (auto simp: chip_reboot_def dest!: write_command_log split: prod.splits bool.splits)

lemma updater_reboot_log:
  "updater_reboot stay b = (ok, b') \<Longrightarrow>
     bus_log b' = bus_log b @ (if ok then [Spi_command LR1121_UPDATER_CMD_UPDATER_REBOOT [reboot_param stay]] else [])"
  by (auto simp: updater_reboot_def dest!: write_command_log split: prod.splits bool.splits)

lemma erase_flash_log:
  assumes "erase_flash b = (ok, b')"
  shows "bus_log b' = bus_log b \<and> \<not> ok \<or> bus_log b' = bus_log b @ [Spi_command LR1121_UPDATER_CMD_ERASE_FLASH []]"
  using assms by (auto simp: erase_flash_def dest!: write_command_log wait_busy_log split: prod.splits bool.splits)

lemma update_bootloader_log:
  assumes "update_bootloader b = (ok, b')"
  shows "bus_log b' = bus_log b \<and> \<not> ok \<or> bus_log b' = bus_log b @ [Spi_command LR1121_UPDATER_CMD_UPDATE_BOOTLOADER []]"
  using assms by (auto simp: update_bootloader_def dest!: write_command_log wait_busy_log split: prod.splits bool.splits)

section \<open>What the flash holds\<close>

lemma length_image_bytes [simp]: "length (concat (map be32 ws)) = 4 * length ws"
  by (induction ws) simp_all

text \<open>The transceiver flash as the commands leave it: erasing empties it, a write puts bytes at an offset.\<close>

fun flash_step :: "chip_event \<Rightarrow> bytes \<Rightarrow> bytes" where
  "flash_step (Spi_command opcode ps) mem =
     (if opcode = LR1121_UPDATER_CMD_ERASE_FLASH then []
      else if opcode = LR1121_UPDATER_CMD_WRITE_FLASH_ENCRYPTED
      then let off = unat (read32 ps) in
           take off mem @ replicate (off - length mem) 0xFF @ drop 4 ps @ drop (off + length (drop 4 ps)) mem
      else mem)"
| "flash_step _ mem = mem"

definition flash_after :: "chip_event list \<Rightarrow> bytes" where
  "flash_after es = fold flash_step es []"

lemma flash_after_snoc [simp]: "flash_after (es @ [e]) = flash_step e (flash_after es)"
  by (simp add: flash_after_def)

lemma chunk_programs:
  assumes "flash_after es = concat (map be32 (take written ws))" and "written \<le> length ws" and "4 * length ws < 2 ^ 32"
  shows "flash_after (es @ [Spi_command LR1121_UPDATER_CMD_WRITE_FLASH_ENCRYPTED (chunk_params ws written n)]) =
    concat (map be32 (take (written + n) ws))"
proof -
  have off: "unat (of_nat (written * 4) :: u32) = 4 * written"
    unfolding unat_of_nat using assms(2,3) by simp
  have "flash_after (es @ [Spi_command LR1121_UPDATER_CMD_WRITE_FLASH_ENCRYPTED (chunk_params ws written n)]) =
      flash_step (Spi_command LR1121_UPDATER_CMD_WRITE_FLASH_ENCRYPTED (chunk_params ws written n)) (concat (map be32 (take written ws)))"
    using assms(1) by simp
  also have "\<dots> = concat (map be32 (take written ws)) @ concat (map be32 (take n (drop written ws)))"
    using off assms(2) by (simp add: chunk_params_def Let_def min_def)
  also have "\<dots> = concat (map be32 (take (written + n) ws))"
    by (simp add: take_add)
  finally show ?thesis .
qed

lemma chunks_program:
  assumes "write_chunks ws written b = (ok, b')"
  shows "\<exists>es. bus_log b' = bus_log b @ es \<and> set es \<subseteq> range (Spi_command LR1121_UPDATER_CMD_WRITE_FLASH_ENCRYPTED) \<and>
    (flash_after (bus_log b) = concat (map be32 (take written ws)) \<and> written \<le> length ws \<and> 4 * length ws < 2 ^ 32 \<longrightarrow>
       (\<exists>k. flash_after (bus_log b') = concat (map be32 (take k ws)) \<and> (ok \<longrightarrow> k = length ws)))"
  using assms
proof (induction ws written b rule: write_chunks.induct)
  case (1 ws written b)
  show ?case
  proof (cases "written < length ws")
    case False
    then have "ok" "b' = b" using "1.prems" by (simp_all add: write_chunks.simps)
    then show ?thesis using False by (intro exI [of _ "[]"]) (auto intro: exI [of _ "length ws"])
  next
    case True
    let ?n = "min LR1121_UPDATER_FLASH_CHUNK_WORDS (length ws - written)"
    let ?e = "Spi_command LR1121_UPDATER_CMD_WRITE_FLASH_ENCRYPTED (chunk_params ws written ?n)"
    obtain sent b1 where w: "write_command LR1121_UPDATER_CMD_WRITE_FLASH_ENCRYPTED (chunk_params ws written ?n)
        LR1121_UPDATER_BUSY_TIMEOUT_MS b = (sent, b1)" by fastforce
    note l = write_command_log [OF w]
    show ?thesis
    proof (cases sent)
      case False
      then have "\<not> ok" "bus_log b' = bus_log b"
        using "1.prems" True w l by (auto simp: write_chunks.simps [of ws written b] Let_def)
      then show ?thesis by (intro exI [of _ "[]"]) (auto intro: exI [of _ written])
    next
      case sent: True
      have rec: "write_chunks ws (written + ?n) b1 = (ok, b')"
        using "1.prems" True w sent by (simp add: write_chunks.simps [of ws written b] Let_def)
      obtain es where es: "bus_log b' = bus_log b1 @ es" "set es \<subseteq> range (Spi_command LR1121_UPDATER_CMD_WRITE_FLASH_ENCRYPTED)"
          "flash_after (bus_log b1) = concat (map be32 (take (written + ?n) ws)) \<and> written + ?n \<le> length ws \<and> 4 * length ws < 2 ^ 32 \<longrightarrow>
            (\<exists>k. flash_after (bus_log b') = concat (map be32 (take k ws)) \<and> (ok \<longrightarrow> k = length ws))"
        using "1.IH" [OF True refl w [symmetric] _ rec] sent by blast
      have "\<exists>k. flash_after (bus_log b') = concat (map be32 (take k ws)) \<and> (ok \<longrightarrow> k = length ws)"
        if "flash_after (bus_log b) = concat (map be32 (take written ws))" "written \<le> length ws" "4 * length ws < 2 ^ 32"
        using chunk_programs [OF that, of ?n] es(3) l sent that(3) True by simp
      then show ?thesis using l sent es(1,2) by (intro exI [of _ "?e # es"]) auto
    qed
  qed
qed

end
