(* ===== verification/Firmware_Update.thy ===== *)
theory Firmware_Update
  imports Chip_Updater Frame
begin

text \<open>
  The LR1121 firmware update (\<open>lr1121_firmware_decisions.h\<close>, \<open>hub_lr1121_firmware_update.cpp\<close>): the pure
  decisions on versions and chip identity, the boot-time excursion into the bootloader, the two-press
  confirmation, the flash sequence and the three-stage rewrite of the bootloader. The images and their
  versions are generated at build time and are a parameter (\<open>fw_config\<close>); the chip is the environment of
  \<open>Chip_Updater\<close>. Log lines are left out, except the texts that functions of the source return.
\<close>

section \<open>Decisions\<close>

abbreviation (input) LR1121_DEVICE_TYPE_FOR_FIRMWARE_DECISIONS :: u8 where "LR1121_DEVICE_TYPE_FOR_FIRMWARE_DECISIONS \<equiv> 0x03"
abbreviation (input) LR1110_DEVICE_TYPE_FOR_FIRMWARE_DECISIONS :: u8 where "LR1110_DEVICE_TYPE_FOR_FIRMWARE_DECISIONS \<equiv> 0x01"
abbreviation (input) LR1120_DEVICE_TYPE_FOR_FIRMWARE_DECISIONS :: u8 where "LR1120_DEVICE_TYPE_FOR_FIRMWARE_DECISIONS \<equiv> 0x02"
abbreviation (input) LR1121_BOOTLOADER_TYPE_FOR_FIRMWARE_DECISIONS :: u8 where "LR1121_BOOTLOADER_TYPE_FOR_FIRMWARE_DECISIONS \<equiv> 0xDF"
abbreviation (input) LR1121_BOOTLOADER_2100 :: u16 where "LR1121_BOOTLOADER_2100 \<equiv> 0x2100"
abbreviation (input) LR1121_BOOTLOADER_2101 :: u16 where "LR1121_BOOTLOADER_2101 \<equiv> 0x2101"
abbreviation (input) LR1120_BOOTLOADER_2000 :: u16 where "LR1120_BOOTLOADER_2000 \<equiv> 0x2000"
abbreviation (input) LR1120_BOOTLOADER_2001 :: u16 where "LR1120_BOOTLOADER_2001 \<equiv> 0x2001"
abbreviation (input) LR1110_BOOTLOADER_6500 :: u16 where "LR1110_BOOTLOADER_6500 \<equiv> 0x6500"
abbreviation (input) LR1110_BOOTLOADER_1001 :: u16 where "LR1110_BOOTLOADER_1001 \<equiv> 0x1001"
abbreviation (input) LR1121_LOADER_2100 :: u16 where "LR1121_LOADER_2100 \<equiv> 0x2100"

definition lr1121_bootloader_is_lr1121 :: "u16 \<Rightarrow> bool" where
  "lr1121_bootloader_is_lr1121 bootloader_version \<longleftrightarrow>
     bootloader_version = LR1121_BOOTLOADER_2100 \<or> bootloader_version = LR1121_BOOTLOADER_2101"

definition lr1121_chip_family_for_bootloader :: "u16 \<Rightarrow> string" where
  "lr1121_chip_family_for_bootloader bootloader_version =
     (if bootloader_version = LR1120_BOOTLOADER_2000 \<or> bootloader_version = LR1120_BOOTLOADER_2001 then ''an LR1120''
      else if bootloader_version = LR1110_BOOTLOADER_6500 \<or> bootloader_version = LR1110_BOOTLOADER_1001 then ''an LR1110''
      else ''an unrecognized chip'')"

definition lr1121_chip_family_for_device_type :: "u8 \<Rightarrow> string" where
  "lr1121_chip_family_for_device_type device_type =
     (if device_type = LR1110_DEVICE_TYPE_FOR_FIRMWARE_DECISIONS then ''an LR1110''
      else if device_type = LR1120_DEVICE_TYPE_FOR_FIRMWARE_DECISIONS then ''an LR1120''
      else ''an unrecognized chip'')"

definition LR1121_KNOWN_BOOTLOADER_REQUIREMENTS :: "(u16 \<times> u16) list" where
  "LR1121_KNOWN_BOOTLOADER_REQUIREMENTS =
     [(0x0101, LR1121_BOOTLOADER_2100), (0x0102, LR1121_BOOTLOADER_2100),
      (0x0103, LR1121_BOOTLOADER_2100), (0x0104, LR1121_BOOTLOADER_2101)]"

datatype bootloader_support = BS_SUPPORTED | BS_UNSUPPORTED | BS_UNKNOWN_TARGET

definition lr1121_bootloader_supports_target :: "u16 \<Rightarrow> u16 \<Rightarrow> bootloader_support" where
  "lr1121_bootloader_supports_target target_fw bootloader_version =
     (case map_of LR1121_KNOWN_BOOTLOADER_REQUIREMENTS target_fw of
        None \<Rightarrow> BS_UNKNOWN_TARGET
      | Some required \<Rightarrow> if required = bootloader_version then BS_SUPPORTED else BS_UNSUPPORTED)"

definition lr1121_required_bootloader_for :: "u16 \<Rightarrow> u16" where
  "lr1121_required_bootloader_for target_fw =
     (case map_of LR1121_KNOWN_BOOTLOADER_REQUIREMENTS target_fw of None \<Rightarrow> 0 | Some required \<Rightarrow> required)"

datatype bootloader_mismatch = BM_NONE | TARGET_NEEDS_NEWER | TARGET_NEEDS_OLDER

definition lr1121_bootloader_mismatch_kind :: "u16 \<Rightarrow> u16 \<Rightarrow> bootloader_mismatch" where
  "lr1121_bootloader_mismatch_kind target_fw bootloader_version =
     (let required = lr1121_required_bootloader_for target_fw
      in if required = 0 \<or> required = bootloader_version then BM_NONE
         else if required > bootloader_version then TARGET_NEEDS_NEWER else TARGET_NEEDS_OLDER)"

datatype bootloader_upgrade_path = NOT_APPLICABLE | AVAILABLE | BLOCKED_UNKNOWN_TARGET | BLOCKED_BOOTLOADER_NEWER

definition lr1121_bootloader_upgrade_path :: "bool \<Rightarrow> bool \<Rightarrow> u16 \<Rightarrow> u16 \<Rightarrow> u16 \<Rightarrow> bootloader_upgrade_path" where
  "lr1121_bootloader_upgrade_path block_present bootloader_version_known bootloader_version loader_fw target_fw =
     (if \<not> block_present then NOT_APPLICABLE
      else if \<not> bootloader_version_known then NOT_APPLICABLE
      else if \<not> lr1121_bootloader_is_lr1121 bootloader_version then NOT_APPLICABLE
      else if loader_fw \<noteq> bootloader_version then NOT_APPLICABLE
      else let required = lr1121_required_bootloader_for target_fw in
           if required = 0 then BLOCKED_UNKNOWN_TARGET
           else if required = bootloader_version then NOT_APPLICABLE
           else if required > bootloader_version then AVAILABLE
           else BLOCKED_BOOTLOADER_NEWER)"

datatype flash_decision = FD_PROCEED | ALREADY_INSTALLED | NEEDS_CONFIRMATION | REJECT_WRONG_CHIP | REJECT_BOOTLOADER_TOO_OLD

definition lr1121_flash_decision :: "u8 \<Rightarrow> u8 \<Rightarrow> u16 \<Rightarrow> u16 \<Rightarrow> u16 \<Rightarrow> bool \<Rightarrow> flash_decision" where
  "lr1121_flash_decision device_type bootloader_chip_type bootloader_version installed_fw target_fw already_confirmed =
     (let ask = (if already_confirmed then FD_PROCEED else NEEDS_CONFIRMATION) in
      if bootloader_version = 0 then ask
      else if bootloader_chip_type \<noteq> LR1121_BOOTLOADER_TYPE_FOR_FIRMWARE_DECISIONS \<or>
              \<not> lr1121_bootloader_is_lr1121 bootloader_version then REJECT_WRONG_CHIP
      else if device_type = 0 then ask
      else if device_type \<noteq> LR1121_DEVICE_TYPE_FOR_FIRMWARE_DECISIONS then REJECT_WRONG_CHIP
      else let support = lr1121_bootloader_supports_target target_fw bootloader_version in
           if support = BS_UNSUPPORTED then REJECT_BOOTLOADER_TOO_OLD
           else if support = BS_UNKNOWN_TARGET then ask
           else if installed_fw = 0 then ask
           else if target_fw = installed_fw then (if already_confirmed then FD_PROCEED else ALREADY_INSTALLED)
           else if target_fw > installed_fw then FD_PROCEED
           else ask)"

section \<open>Checks and texts\<close>

datatype lr1121_sanity_result = SR_OK | SR_WRONG_TYPE | SR_VERSION_MISMATCH | SR_WRONG_CHIP_FAMILY

definition lr1121_check_bootloader_sanity :: "bool \<Rightarrow> u16 \<Rightarrow> u8 \<Rightarrow> u16 \<Rightarrow> lr1121_sanity_result" where
  "lr1121_check_bootloader_sanity known known_bootloader_version sanity_type sanity_bootloader_version =
     (if sanity_type \<noteq> LR1121_UPDATER_BOOTLOADER_TYPE then SR_WRONG_TYPE
      else if known then
        (if sanity_bootloader_version \<noteq> known_bootloader_version then SR_VERSION_MISMATCH else SR_OK)
      else if \<not> lr1121_bootloader_is_lr1121 sanity_bootloader_version then SR_WRONG_CHIP_FAMILY
      else SR_OK)"

definition format_lr1121_fw_version :: "u16 \<Rightarrow> string" where
  "format_lr1121_fw_version version =
     (if version = 0 then ''unknown'' else dec_string (unat (hi8 version)) @ ''.'' @ dec_string (unat (lo8 version)))"

definition format_hex16 :: "u16 \<Rightarrow> string" where
  "format_hex16 value = ''0x'' @ hex_byte (hi8 value) @ hex_byte (lo8 value)"

definition format_hex8 :: "u8 \<Rightarrow> string" where
  "format_hex8 value = ''0x'' @ hex_byte value"

definition format_lr1121_bootloader_version :: "u16 \<Rightarrow> string" where
  "format_lr1121_bootloader_version version = (if version = 0 then ''unknown'' else format_hex16 version)"

definition lr1121_sanity_failure_reason :: "lr1121_sanity_result \<Rightarrow> u16 \<Rightarrow> string" where
  "lr1121_sanity_failure_reason sanity sanity_bootloader_version =
     (case sanity of
        SR_WRONG_TYPE \<Rightarrow> ''wrong type''
      | SR_WRONG_CHIP_FAMILY \<Rightarrow>
          ''bootloader version '' @ format_hex16 sanity_bootloader_version @ '' identifies '' @
          lr1121_chip_family_for_bootloader sanity_bootloader_version @ '', not an LR1121''
      | _ \<Rightarrow> ''bootloader version changed since boot'')"

definition lr1121_needs_confirmation_reason :: "u8 \<Rightarrow> u16 \<Rightarrow> u16 \<Rightarrow> u16 \<Rightarrow> string" where
  "lr1121_needs_confirmation_reason device_type bootloader_version installed_fw target_fw =
     (if bootloader_version = 0
      then ''the bootloader version could not be read at boot, so chip identity and bootloader compatibility '' @
           ''cannot be verified''
      else if device_type = 0
      then ''the installed firmware version could not be read (radio failed to initialize, or the read itself '' @ ''failed)''
      else if target_fw = 0 then ''no target firmware version could be determined for the configured image''
      else if lr1121_bootloader_supports_target target_fw bootloader_version = BS_UNKNOWN_TARGET
      then ''target firmware '' @ format_lr1121_fw_version target_fw @
           '' is not in this build's known bootloader-compatibility table (unverified, not refused)''
      else if installed_fw = 0 then ''the installed firmware version is unknown''
      else ''target firmware '' @ format_lr1121_fw_version target_fw @ '' is not newer than the installed '' @
           format_lr1121_fw_version installed_fw)"

section \<open>State\<close>

text \<open>What the build fixes: the target version and image, and the loader of the \<open>bootloader:\<close> block if there is one.\<close>

record fw_config =
  fc_target :: u16
  fc_words :: "u32 list"
  fc_rewrite_block :: bool
  fc_loader_fw :: u16
  fc_loader_words :: "u32 list"

record fw_hub =
  fw_bus :: chip_bus
  fw_updater :: bool                       \<comment> \<open>\<open>lr1121_firmware_updater_\<close> was allocated\<close>
  fw_radio :: bool                         \<comment> \<open>\<open>radio_\<close> is not null\<close>
  fw_busy :: bool
  fw_type :: u8                            \<comment> \<open>\<open>lr1121_bootloader_chip_type_\<close>\<close>
  fw_version :: u16                        \<comment> \<open>\<open>lr1121_bootloader_version_\<close>\<close>
  fw_known :: bool                         \<comment> \<open>\<open>lr1121_bootloader_version_known_\<close>\<close>
  fw_device_type :: u8                     \<comment> \<open>\<open>lr1121_installed_device_type_\<close>\<close>
  fw_installed :: u16                      \<comment> \<open>\<open>lr1121_installed_fw_\<close>\<close>
  fw_verdict :: "flash_decision option"
  fw_confirm_due :: "u32 option"           \<comment> \<open>the confirmation window is open until then\<close>
  fw_rewrite_allowed :: bool

definition fresh_fw :: "chip_bus \<Rightarrow> fw_hub" where
  "fresh_fw b = \<lparr>fw_bus = b, fw_updater = False, fw_radio = True, fw_busy = False, fw_type = 0, fw_version = 0,
     fw_known = False, fw_device_type = 0, fw_installed = 0, fw_verdict = None, fw_confirm_due = None, fw_rewrite_allowed = False\<rparr>"

definition describe_lr1121_flash_verdict :: "fw_config \<Rightarrow> fw_hub \<Rightarrow> string" where
  "describe_lr1121_flash_verdict cfg fw =
     (let target = fc_target cfg;
          prefix = ''Firmware update target: '' @ format_lr1121_fw_version target @ '' -- ''
      in case fw_verdict fw of
           Some REJECT_WRONG_CHIP \<Rightarrow>
             if fw_type fw \<noteq> LR1121_BOOTLOADER_TYPE_FOR_FIRMWARE_DECISIONS \<or> \<not> lr1121_bootloader_is_lr1121 (fw_version fw)
             then prefix @ ''CANNOT PROCEED: bootloader version '' @ format_hex16 (fw_version fw) @ '' identifies '' @
                  lr1121_chip_family_for_bootloader (fw_version fw) @ '', not an LR1121''
             else prefix @ ''CANNOT PROCEED: normal-mode chip identity byte '' @ format_hex8 (fw_device_type fw) @
                  '' identifies '' @ lr1121_chip_family_for_device_type (fw_device_type fw) @ '', not an LR1121''
         | Some REJECT_BOOTLOADER_TOO_OLD \<Rightarrow>
             (let required = lr1121_required_bootloader_for target in
              if lr1121_bootloader_mismatch_kind target (fw_version fw) = TARGET_NEEDS_OLDER
              then prefix @ ''CANNOT PROCEED: this chip's bootloader '' @ format_hex16 (fw_version fw) @
                   '' is newer than this firmware supports (needs '' @ format_hex16 required @
                   '') -- there is no downgrade path''
              else prefix @ ''CANNOT PROCEED: needs bootloader '' @ format_hex16 required @ '', this chip has '' @
                   format_hex16 (fw_version fw) @
                   (if fc_rewrite_block cfg then []
                    else '' -- add a bootloader: sub-block to lr1121_firmware_update: to enable the (irreversible) upgrade '' @
                         ''path''))
         | Some ALREADY_INSTALLED \<Rightarrow> prefix @ ''already running the configured firmware, nothing to do''
         | Some NEEDS_CONFIRMATION \<Rightarrow>
             prefix @ lr1121_needs_confirmation_reason (fw_device_type fw) (fw_version fw) (fw_installed fw) target @
             '' (bootloader version '' @ format_lr1121_bootloader_version (fw_version fw) @ '')''
         | _ \<Rightarrow> prefix @ ''ready to flash (press '' @ quoted ''Flash LR1121 Radio Firmware'' @ '')'')"

definition rewrite_path :: "fw_config \<Rightarrow> fw_hub \<Rightarrow> bootloader_upgrade_path" where
  "rewrite_path cfg fw =
     lr1121_bootloader_upgrade_path True (fw_known fw) (fw_version fw) (fc_loader_fw cfg) (fc_target cfg)"

definition describe_lr1121_bootloader_refusal :: "fw_config \<Rightarrow> fw_hub \<Rightarrow> bootloader_upgrade_path \<Rightarrow> string" where
  "describe_lr1121_bootloader_refusal cfg fw p =
     (let target_text = format_lr1121_fw_version (fc_target cfg);
          chip_text = format_hex16 (fw_version fw);
          required_text = format_hex16 (lr1121_required_bootloader_for (fc_target cfg));
          prefix = ''LR1121 firmware update: nothing was done, the radio was not touched. ''
      in case p of
           AVAILABLE \<Rightarrow>
             prefix @ ''Firmware '' @ target_text @ '' needs bootloader '' @ required_text @ '' and this chip has '' @ chip_text @
             '', so the bootloader has to be rewritten first. To do that, turn on the '' @
             quoted ''Allow LR1121 Bootloader Rewrite (Irreversible)'' @
             '' switch and press this button again. A bootloader rewrite cannot be undone.''
         | BLOCKED_UNKNOWN_TARGET \<Rightarrow>
             prefix @ ''This build does not recognise firmware '' @ target_text @
             '', so it cannot tell which bootloader that image needs. The bootloader rewrite stays disabled rather '' @
             ''than risk an irreversible write on a guess.''
         | BLOCKED_BOOTLOADER_NEWER \<Rightarrow>
             prefix @ ''This chip's bootloader '' @ chip_text @ '' is already newer than firmware '' @ target_text @
             '' supports (that image needs '' @ required_text @ ''), and there is no way back to an older bootloader.''
         | NOT_APPLICABLE \<Rightarrow> describe_lr1121_flash_verdict cfg fw)"

definition lr1121_firmware_update_debug_lines :: "fw_config \<Rightarrow> fw_hub \<Rightarrow> string list" where
  "lr1121_firmware_update_debug_lines cfg fw =
     [if fw_known fw then ''LR1121 bootloader version: '' @ format_hex16 (fw_version fw)
      else ''LR1121 firmware update: bootloader version could not be read at boot''] @
     (if fw_verdict fw = None then [] else [describe_lr1121_flash_verdict cfg fw]) @
     (if \<not> fc_rewrite_block cfg then []
      else case rewrite_path cfg fw of
        AVAILABLE \<Rightarrow>
          [''LR1121 bootloader rewrite: AVAILABLE -- needs bootloader '' @
           format_hex16 (lr1121_required_bootloader_for (fc_target cfg)) @ '', this chip has '' @ format_hex16 (fw_version fw) @
           ''. A bootloader rewrite cannot be undone.'']
      | BLOCKED_UNKNOWN_TARGET \<Rightarrow>
          [''LR1121 bootloader rewrite: configured, but inert -- this build does not know what bootloader the '' @
           ''configured target requires, so it will not gamble an irreversible write on it.'']
      | BLOCKED_BOOTLOADER_NEWER \<Rightarrow>
          [''LR1121 bootloader rewrite: configured, but inert -- this chip's bootloader is already newer than '' @
           ''the configured target needs; there is no downgrade path.'']
      | NOT_APPLICABLE \<Rightarrow> [])"

section \<open>Boot\<close>

definition run_lr1121_boot_time_bootloader_read :: "bool \<Rightarrow> fw_hub \<Rightarrow> fw_hub" where
  "run_lr1121_boot_time_bootloader_read allocated fw =
     (if \<not> allocated then fw
      else let (got, b) = enter_bootloader (fw_bus fw);
               fw = fw\<lparr>fw_updater := True, fw_bus := b\<rparr>
           in case got of
                None \<Rightarrow> fw
              | Some (type, bootloader_version) \<Rightarrow>
                  fw\<lparr>fw_type := type, fw_version := bootloader_version, fw_known := True,
                     fw_bus := snd (chip_reboot False b)\<rparr>)"

definition cache_lr1121_flash_verdict :: "fw_config \<Rightarrow> fw_hub \<Rightarrow> fw_hub" where
  "cache_lr1121_flash_verdict cfg fw =
     (let (got, b) = (if fw_radio fw \<and> fw_updater fw then read_normal_version (fw_bus fw) else (None, fw_bus fw));
          (device_type, installed_fw) = (case got of None \<Rightarrow> (0, 0) | Some (ty, major, minor) \<Rightarrow> (ty, be16 major minor))
      in fw\<lparr>fw_bus := b, fw_device_type := device_type, fw_installed := installed_fw,
            fw_verdict := Some (lr1121_flash_decision device_type (fw_type fw) (fw_version fw) installed_fw (fc_target cfg) False)\<rparr>)"

text \<open>The part of \<open>setup()\<close> around the radio: the excursion, the initialization of the radio (whose
  outcome is an argument), the verdict.\<close>

definition setup_lr1121 :: "fw_config \<Rightarrow> bool \<Rightarrow> bool \<Rightarrow> chip_bus \<Rightarrow> fw_hub" where
  "setup_lr1121 cfg allocated init_ok b =
     (let fw = run_lr1121_boot_time_bootloader_read allocated (fresh_fw b)
      in cache_lr1121_flash_verdict cfg (fw\<lparr>fw_bus := tell_chip Radio_init (fw_bus fw), fw_radio := init_ok\<rparr>))"

section \<open>The flash sequence\<close>

definition lr1121_erase_and_write_image :: "u32 list \<Rightarrow> chip_bus \<Rightarrow> bool \<times> chip_bus" where
  "lr1121_erase_and_write_image ws b =
     (case erase_flash b of (False, b) \<Rightarrow> (False, b) | (True, b) \<Rightarrow> write_image ws b)"

definition lr1121_log_post_write_hash :: "chip_bus \<Rightarrow> chip_bus" where
  "lr1121_log_post_write_hash b = snd (read_hash LR1121_UPDATER_HASH_LENGTH b)"

text \<open>The end of both sequences: fingerprint, reboot into the image, version read-back.\<close>

definition finish_flash :: "chip_bus \<Rightarrow> chip_bus" where
  "finish_flash b =
     (case chip_reboot False (lr1121_log_post_write_hash b) of
        (False, b) \<Rightarrow> b
      | (True, b) \<Rightarrow> snd (read_normal_version b))"

definition start_sequence :: "fw_hub \<Rightarrow> fw_hub" where
  "start_sequence fw =
     fw\<lparr>fw_busy := True, fw_bus := if fw_radio fw then tell_chip Radio_standby (fw_bus fw) else fw_bus fw\<rparr>"

definition safe_reboot :: "fw_hub \<Rightarrow> fw_hub" where
  "safe_reboot fw = fw\<lparr>fw_bus := tell_chip Esp_reboot (fw_bus fw)\<rparr>"

definition run_lr1121_flash_sequence :: "fw_config \<Rightarrow> fw_hub \<Rightarrow> fw_hub" where
  "run_lr1121_flash_sequence cfg fw =
     (let fw = start_sequence fw in
      case enter_bootloader (fw_bus fw) of
        (None, b) \<Rightarrow> safe_reboot (fw\<lparr>fw_bus := b\<rparr>)
      | (Some (sanity_type, sanity_version), b) \<Rightarrow>
          if lr1121_check_bootloader_sanity (fw_known fw) (fw_version fw) sanity_type sanity_version \<noteq> SR_OK
          then safe_reboot (fw\<lparr>fw_bus := snd (chip_reboot False b)\<rparr>)
          else let fw = (if fw_known fw then fw
                         else fw\<lparr>fw_type := sanity_type, fw_version := sanity_version, fw_known := True\<rparr>)
               in case lr1121_erase_and_write_image (fc_words cfg) b of
                    (False, b) \<Rightarrow> safe_reboot (fw\<lparr>fw_bus := b\<rparr>)
                  | (True, b) \<Rightarrow> safe_reboot (fw\<lparr>fw_bus := finish_flash b\<rparr>))"

section \<open>The rewrite of the bootloader\<close>

text \<open>Each stage answers whether the sequence goes on.\<close>

definition rewrite_stage_1a :: "fw_config \<Rightarrow> fw_hub \<Rightarrow> chip_bus \<Rightarrow> bool \<times> chip_bus" where
  "rewrite_stage_1a cfg fw b =
     (case enter_bootloader b of
        (None, b) \<Rightarrow> (False, b)
      | (Some (sanity_type, sanity_version), b) \<Rightarrow>
          if lr1121_check_bootloader_sanity (fw_known fw) (fw_version fw) sanity_type sanity_version \<noteq> SR_OK
          then (False, snd (chip_reboot False b))
          else lr1121_erase_and_write_image (fc_loader_words cfg) b)"

definition rewrite_stage_1b :: "chip_bus \<Rightarrow> bool \<times> chip_bus" where
  "rewrite_stage_1b b =
     (case chip_reboot False b of
        (False, b) \<Rightarrow> (False, b)
      | (True, b) \<Rightarrow>
          (case read_normal_version b of
             (None, b) \<Rightarrow> (False, b)
           | (Some (loader_type, major, minor), b) \<Rightarrow>
               (loader_type = LR1121_UPDATER_LOADER_DEVICE_TYPE \<and> be16 major minor = LR1121_LOADER_2100, b)))"

definition rewrite_stage_2 :: "chip_bus \<Rightarrow> (u8 \<times> u16) option \<times> chip_bus" where
  "rewrite_stage_2 b =
     (case update_bootloader b of
        (False, b) \<Rightarrow> (None, b)
      | (True, b) \<Rightarrow>
          (case verify_bootloader (snd (read_updater_status b)) of
             (None, b) \<Rightarrow> (None, b)
           | (Some verification, b) \<Rightarrow>
               if \<not> all_checks_passed verification then (None, b)
               else case updater_reboot False b of
                 (False, b) \<Rightarrow> (None, b)
               | (True, b) \<Rightarrow>
                   (case read_bootloader_version b of
                      (None, b) \<Rightarrow> (None, b)
                    | (Some (type, version), b) \<Rightarrow>
                        if type \<noteq> LR1121_UPDATER_BOOTLOADER_TYPE \<or> version \<noteq> LR1121_BOOTLOADER_2101 then (None, b)
                        else (Some (type, version), b))))"

definition rewrite_stage_3 :: "fw_config \<Rightarrow> chip_bus \<Rightarrow> (u8 \<times> u16) option \<times> chip_bus" where
  "rewrite_stage_3 cfg b =
     (case enter_bootloader b of
        (None, b) \<Rightarrow> (None, b)
      | (Some (type, version), b) \<Rightarrow>
          if type \<noteq> LR1121_UPDATER_BOOTLOADER_TYPE \<or> version \<noteq> LR1121_BOOTLOADER_2101 then (None, b)
          else case lr1121_erase_and_write_image (fc_words cfg) b of
            (False, b) \<Rightarrow> (Some (type, version), b)
          | (True, b) \<Rightarrow> (Some (type, version), finish_flash b))"

text \<open>What a stage read of the bootloader is recorded.\<close>

definition adopt_reading :: "(u8 \<times> u16) option \<Rightarrow> fw_hub \<Rightarrow> fw_hub" where
  "adopt_reading got fw = (case got of None \<Rightarrow> fw | Some (type, version) \<Rightarrow> fw\<lparr>fw_type := type, fw_version := version\<rparr>)"

definition run_lr1121_bootloader_upgrade_sequence :: "fw_config \<Rightarrow> fw_hub \<Rightarrow> fw_hub" where
  "run_lr1121_bootloader_upgrade_sequence cfg fw =
     (let fw = start_sequence fw in
      case rewrite_stage_1a cfg fw (fw_bus fw) of
        (False, b) \<Rightarrow> safe_reboot (fw\<lparr>fw_bus := b\<rparr>)
      | (True, b) \<Rightarrow>
          (case rewrite_stage_1b b of
             (False, b) \<Rightarrow> safe_reboot (fw\<lparr>fw_bus := b\<rparr>)
           | (True, b) \<Rightarrow>
               (case rewrite_stage_2 b of
                  (None, b) \<Rightarrow> safe_reboot (fw\<lparr>fw_bus := b\<rparr>)
                | (Some got, b) \<Rightarrow>
                    (case rewrite_stage_3 cfg b of
                       (got3, b) \<Rightarrow> safe_reboot (adopt_reading got3 (adopt_reading (Some got) (fw\<lparr>fw_bus := b\<rparr>)))))))"

section \<open>The button and its confirmation window\<close>

abbreviation (input) LR1121_FLASH_CONFIRM_WINDOW_MS :: u32 where "LR1121_FLASH_CONFIRM_WINDOW_MS \<equiv> 60000"

definition arm_lr1121_flash_confirmation :: "fw_hub \<Rightarrow> fw_hub" where
  "arm_lr1121_flash_confirmation fw = fw\<lparr>fw_confirm_due := Some (bus_time (fw_bus fw) + LR1121_FLASH_CONFIRM_WINDOW_MS)\<rparr>"

definition confirmation_expires :: "fw_hub \<Rightarrow> fw_hub" where
  "confirmation_expires fw = fw\<lparr>fw_confirm_due := None\<rparr>"

definition set_bootloader_rewrite_allowed :: "bool \<Rightarrow> fw_hub \<Rightarrow> fw_hub" where
  "set_bootloader_rewrite_allowed allowed fw = fw\<lparr>fw_rewrite_allowed := allowed\<rparr>"

definition trigger_lr1121_firmware_update :: "fw_config \<Rightarrow> fw_hub \<Rightarrow> fw_hub" where
  "trigger_lr1121_firmware_update cfg fw =
     (if fw_busy fw then fw
      else if \<not> fw_updater fw then fw
      else case fw_verdict fw of
        None \<Rightarrow> fw
      | Some REJECT_WRONG_CHIP \<Rightarrow> fw
      | Some REJECT_BOOTLOADER_TOO_OLD \<Rightarrow>
          if fc_rewrite_block cfg \<and> rewrite_path cfg fw = AVAILABLE \<and> fw_rewrite_allowed fw
          then run_lr1121_bootloader_upgrade_sequence cfg fw
          else fw
      | Some verdict \<Rightarrow>
          if verdict \<noteq> FD_PROCEED \<and> fw_confirm_due fw = None then arm_lr1121_flash_confirmation fw
          else run_lr1121_flash_sequence cfg (fw\<lparr>fw_confirm_due := None\<rparr>))"

section \<open>What each part puts on the bus\<close>

abbreviation (input) ERASE :: chip_event where "ERASE \<equiv> Spi_command LR1121_UPDATER_CMD_ERASE_FLASH []"
abbreviation (input) REWRITE :: chip_event where "REWRITE \<equiv> Spi_command LR1121_UPDATER_CMD_UPDATE_BOOTLOADER []"
abbreviation (input) GET_VERSION :: chip_event where "GET_VERSION \<equiv> Spi_command LR1121_UPDATER_CMD_GET_VERSION []"

lemma erase_and_write_log:
  assumes "lr1121_erase_and_write_image ws b = (ok, b')"
  obtains es where "bus_log b' = bus_log b @ es"
    and "set es \<subseteq> insert ERASE (range (Spi_command LR1121_UPDATER_CMD_WRITE_FLASH_ENCRYPTED))"
    and "4 * length ws < 2 ^ 32 \<longrightarrow> (es = [] \<and> \<not> ok) \<or>
           (\<exists>k. flash_after (bus_log b') = concat (map be32 (take k ws)) \<and> (ok \<longrightarrow> k = length ws))"
proof -
  obtain erased b1 where e: "erase_flash b = (erased, b1)" by fastforce
  note le = erase_flash_log [OF e]
  show ?thesis
  proof (cases erased)
    case False
    then have r: "\<not> ok" "b' = b1" using assms e by (simp_all add: lr1121_erase_and_write_image_def)
    show ?thesis
      by (rule that [of "drop (length (bus_log b)) (bus_log b')"])
         (use le r in \<open>auto simp: intro: exI [of _ 0]\<close>)
  next
    case True
    then have w: "write_chunks ws 0 b1 = (ok, b')"
      using assms e by (simp add: lr1121_erase_and_write_image_def write_image_def)
    have l1: "bus_log b1 = bus_log b @ [ERASE]" "flash_after (bus_log b1) = []" using le True by auto
    obtain es where es: "bus_log b' = bus_log b1 @ es" "set es \<subseteq> range (Spi_command LR1121_UPDATER_CMD_WRITE_FLASH_ENCRYPTED)"
        "4 * length ws < 2 ^ 32 \<longrightarrow> (\<exists>k. flash_after (bus_log b') = concat (map be32 (take k ws)) \<and> (ok \<longrightarrow> k = length ws))"
    proof -
      have z: "flash_after (bus_log b1) = concat (map be32 (take 0 ws))" using l1(2) by simp
      show ?thesis using that chunks_program [OF w] z by blast
    qed
    show ?thesis
    proof (rule that [of "ERASE # es"])
      show "bus_log b' = bus_log b @ ERASE # es" using es(1) l1(1) by simp
      show "set (ERASE # es) \<subseteq> insert ERASE (range (Spi_command LR1121_UPDATER_CMD_WRITE_FLASH_ENCRYPTED))" using es(2) by auto
    qed (use es(3) in blast)
  qed
qed

lemma finish_flash_log:
  obtains es where "bus_log (finish_flash b) = bus_log b @ es" and "ERASE \<notin> set es" and "REWRITE \<notin> set es" and "Strap_entry \<notin> set es"
proof -
  obtain h b1 where h: "read_command LR1121_UPDATER_CMD_GET_HASH [] LR1121_UPDATER_HASH_LENGTH LR1121_UPDATER_BUSY_TIMEOUT_MS b = (h, b1)"
    by fastforce
  obtain ok b2 where r: "chip_reboot False b1 = (ok, b2)" by fastforce
  obtain v b3 where v: "read_normal_version b2 = (v, b3)" by fastforce
  obtain es1 where 1: "bus_log b1 = bus_log b @ es1" "set es1 \<subseteq> {Spi_command LR1121_UPDATER_CMD_GET_HASH []} \<union> range Spi_reply"
    by (rule read_command_log [OF h]) blast
  obtain es3 where 3: "bus_log b3 = bus_log b2 @ es3" "set es3 \<subseteq> {GET_VERSION} \<union> range Spi_reply"
    by (rule normal_version_log [OF v]) blast
  have f: "finish_flash b = (if ok then b3 else b2)"
    using h r v by (simp add: finish_flash_def lr1121_log_post_write_hash_def read_hash_def)
  show ?thesis
    by (rule that [of "drop (length (bus_log b)) (bus_log (finish_flash b))"])
       (use 1 3 chip_reboot_log [OF r] f in auto)
qed

text \<open>An attempt that erases: the chip was reset into its bootloader and read there first, with a reading that
  passed the check.\<close>

definition checked_first :: "(u8 \<Rightarrow> u16 \<Rightarrow> bool) \<Rightarrow> chip_event list \<Rightarrow> bool" where
  "checked_first passed es \<longleftrightarrow> (\<exists>a d c. es = a @ [Strap_entry, GET_VERSION, Spi_reply d] @ c \<and> ERASE \<notin> set a \<and>
     length d = 4 \<and> passed (d ! 1) (be16 (d ! 2) (d ! 3)))"

lemma start_sequence_log:
  "\<exists>s. set s \<subseteq> {Radio_standby} \<and> bus_log (fw_bus (start_sequence fw)) = bus_log (fw_bus fw) @ s"
  by (auto simp: start_sequence_def)

lemma start_sequence_fields [simp]:
  "fw_known (start_sequence fw) = fw_known fw" "fw_version (start_sequence fw) = fw_version fw"
  by (simp_all add: start_sequence_def)

lemma safe_reboot_log [simp]: "bus_log (fw_bus (safe_reboot fw)) = bus_log (fw_bus fw) @ [Esp_reboot]"
  by (simp add: safe_reboot_def)

abbreviation sane :: "fw_hub \<Rightarrow> u8 \<Rightarrow> u16 \<Rightarrow> bool" where
  "sane fw ty v \<equiv> lr1121_check_bootloader_sanity (fw_known fw) (fw_version fw) ty v = SR_OK"

lemma flash_sequence_log:
  obtains es where "bus_log (fw_bus (run_lr1121_flash_sequence cfg fw)) = bus_log (fw_bus fw) @ es @ [Esp_reboot]"
    and "REWRITE \<notin> set es" and "ERASE \<in> set es \<longrightarrow> checked_first (sane fw) es"
proof -
  let ?fw = "start_sequence fw" and ?fw' = "run_lr1121_flash_sequence cfg fw"
  obtain s where s: "set s \<subseteq> {Radio_standby}" "bus_log (fw_bus ?fw) = bus_log (fw_bus fw) @ s"
    using start_sequence_log by blast
  obtain got b1 where e: "enter_bootloader (fw_bus ?fw) = (got, b1)" by fastforce
  obtain es1 where 1: "bus_log b1 = bus_log (fw_bus ?fw) @ Strap_entry # es1" "set es1 \<subseteq> {GET_VERSION} \<union> range Spi_reply"
    "\<forall>ty v. got = Some (ty, v) \<longrightarrow> (\<exists>d. length d = 4 \<and> es1 = [GET_VERSION, Spi_reply d] \<and> ty = d ! 1 \<and> v = be16 (d ! 2) (d ! 3))"
    by (rule enter_bootloader_log [OF e])
  show ?thesis
  proof (cases "\<exists>ty v. got = Some (ty, v) \<and> sane fw ty v")
    case False
    have "bus_log (fw_bus ?fw') = bus_log (fw_bus fw) @ (s @ Strap_entry # es1 @
        (if got = None then [] else if fst (chip_reboot False b1) then [Spi_command LR1121_UPDATER_CMD_REBOOT [reboot_param False]] else []))
        @ [Esp_reboot]"
      using False e 1(1) s(2) chip_reboot_log [of False b1 "fst (chip_reboot False b1)" "snd (chip_reboot False b1)"]
      by (cases got) (auto simp: run_lr1121_flash_sequence_def Let_def)
    then show ?thesis by (rule that) (use s(1) 1(2) in auto)
  next
    case True
    then obtain ty v where g: "got = Some (ty, v)" "sane fw ty v" by blast
    obtain d where d: "length d = 4" "es1 = [GET_VERSION, Spi_reply d]" "ty = d ! 1" "v = be16 (d ! 2) (d ! 3)"
      using 1(3) g(1) by blast
    obtain ok b2 where w: "lr1121_erase_and_write_image (fc_words cfg) b1 = (ok, b2)" by fastforce
    obtain es2 where 2: "bus_log b2 = bus_log b1 @ es2"
        "set es2 \<subseteq> insert ERASE (range (Spi_command LR1121_UPDATER_CMD_WRITE_FLASH_ENCRYPTED))"
      by (rule erase_and_write_log [OF w])
    obtain es3 where 3: "bus_log (finish_flash b2) = bus_log b2 @ es3" "ERASE \<notin> set es3" "REWRITE \<notin> set es3"
      by (rule finish_flash_log)
    have "bus_log (fw_bus ?fw') = bus_log (fw_bus fw) @ (s @ [Strap_entry, GET_VERSION, Spi_reply d] @ es2 @ (if ok then es3 else [])) @ [Esp_reboot]"
      using e g w 1(1) d(2) 2(1) 3(1) s(2) by (cases ok) (auto simp: run_lr1121_flash_sequence_def Let_def)
    then show ?thesis
    proof (rule that)
      show "REWRITE \<notin> set (s @ [Strap_entry, GET_VERSION, Spi_reply d] @ es2 @ (if ok then es3 else []))"
        using s(1) 2(2) 3(3) by auto
      show "ERASE \<in> set (s @ [Strap_entry, GET_VERSION, Spi_reply d] @ es2 @ (if ok then es3 else [])) \<longrightarrow>
          checked_first (sane fw) (s @ [Strap_entry, GET_VERSION, Spi_reply d] @ es2 @ (if ok then es3 else []))"
        unfolding checked_first_def using s(1) d(1,3,4) g(2) by (intro impI exI [of _ s] exI [of _ d] exI [of _ "es2 @ (if ok then es3 else [])"]) auto
    qed
  qed
qed

section \<open>The stages of the rewrite\<close>

lemma stage_1a_log:
  assumes "rewrite_stage_1a cfg fw b = (ok, b')"
  obtains es where "bus_log b' = bus_log b @ Strap_entry # es" and "REWRITE \<notin> set es"
    and "ok \<or> ERASE \<in> set es \<longrightarrow> checked_first (sane fw) (Strap_entry # es)"
    and "ok \<and> 4 * length (fc_loader_words cfg) < 2 ^ 32 \<longrightarrow> flash_after (bus_log b') = concat (map be32 (fc_loader_words cfg))"
proof -
  obtain got b1 where e: "enter_bootloader b = (got, b1)" by fastforce
  obtain es1 where 1: "bus_log b1 = bus_log b @ Strap_entry # es1" "set es1 \<subseteq> {GET_VERSION} \<union> range Spi_reply"
    "\<forall>ty v. got = Some (ty, v) \<longrightarrow> (\<exists>d. length d = 4 \<and> es1 = [GET_VERSION, Spi_reply d] \<and> ty = d ! 1 \<and> v = be16 (d ! 2) (d ! 3))"
    by (rule enter_bootloader_log [OF e])
  show ?thesis
  proof (cases "\<exists>ty v. got = Some (ty, v) \<and> sane fw ty v")
    case False
    have r: "\<not> ok" "bus_log b' = bus_log b @ Strap_entry # (es1 @
        (if got = None then [] else if fst (chip_reboot False b1) then [Spi_command LR1121_UPDATER_CMD_REBOOT [reboot_param False]] else []))"
      using False assms e 1(1) chip_reboot_log [of False b1 "fst (chip_reboot False b1)" "snd (chip_reboot False b1)"]
      by (cases got; auto simp: rewrite_stage_1a_def)+
    show ?thesis by (rule that [OF r(2)]) (use r(1) 1(2) in auto)
  next
    case True
    then obtain ty v where g: "got = Some (ty, v)" "sane fw ty v" by blast
    obtain d where d: "length d = 4" "es1 = [GET_VERSION, Spi_reply d]" "ty = d ! 1" "v = be16 (d ! 2) (d ! 3)"
      using 1(3) g(1) by blast
    have w: "lr1121_erase_and_write_image (fc_loader_words cfg) b1 = (ok, b')"
      using assms e g by (simp add: rewrite_stage_1a_def)
    obtain es2 where 2: "bus_log b' = bus_log b1 @ es2"
        "set es2 \<subseteq> insert ERASE (range (Spi_command LR1121_UPDATER_CMD_WRITE_FLASH_ENCRYPTED))"
        "4 * length (fc_loader_words cfg) < 2 ^ 32 \<longrightarrow> (es2 = [] \<and> \<not> ok) \<or>
           (\<exists>k. flash_after (bus_log b') = concat (map be32 (take k (fc_loader_words cfg))) \<and> (ok \<longrightarrow> k = length (fc_loader_words cfg)))"
      by (rule erase_and_write_log [OF w])
    show ?thesis
    proof (rule that [of "[GET_VERSION, Spi_reply d] @ es2"])
      show "bus_log b' = bus_log b @ Strap_entry # [GET_VERSION, Spi_reply d] @ es2" using 1(1) 2(1) d(2) by simp
      show "REWRITE \<notin> set ([GET_VERSION, Spi_reply d] @ es2)" using 2(2) by auto
      show "ok \<or> ERASE \<in> set ([GET_VERSION, Spi_reply d] @ es2) \<longrightarrow> checked_first (sane fw) (Strap_entry # [GET_VERSION, Spi_reply d] @ es2)"
        unfolding checked_first_def using d(1,3,4) g(2) by (intro impI exI [of _ "[]"] exI [of _ d] exI [of _ es2]) auto
    qed (use 2(3) in auto)
  qed
qed

lemma be16_split: "be16 a b = w \<longleftrightarrow> a = hi8 w \<and> b = lo8 w"
  by (metis be16_hi_lo hi8_be16 lo8_be16)

lemma flash_after_quiet:
  assumes "\<And>e mem. e \<in> set es \<Longrightarrow> flash_step e mem = mem"
  shows "flash_after (xs @ es) = flash_after xs"
proof -
  have "fold flash_step es mem = mem" for mem using assms by (induction es arbitrary: mem) auto
  then show ?thesis by (simp add: flash_after_def)
qed

text \<open>The checkpoint before the irreversible command: the loader, and not the bootloader, has answered.\<close>

abbreviation loader_answers :: "chip_event list \<Rightarrow> bool" where
  "loader_answers es \<equiv> \<exists>a x. es = a @ [GET_VERSION, Spi_reply [x, LR1121_UPDATER_LOADER_DEVICE_TYPE, 0x21, 0x00]]"

lemma stage_1b_log:
  assumes "rewrite_stage_1b b = (ok, b')"
  obtains es where "bus_log b' = bus_log b @ es" and "REWRITE \<notin> set es" and "ERASE \<notin> set es"
    and "flash_after (bus_log b') = flash_after (bus_log b)" and "ok \<longrightarrow> loader_answers es"
proof -
  obtain sent b1 where r: "chip_reboot False b = (sent, b1)" by fastforce
  obtain got b2 where v: "read_normal_version b1 = (got, b2)" by fastforce
  obtain es2 where 2: "bus_log b2 = bus_log b1 @ es2" "set es2 \<subseteq> {GET_VERSION} \<union> range Spi_reply"
    "\<forall>ty x y. got = Some (ty, x, y) \<longrightarrow> (\<exists>d. length d = 4 \<and> es2 = [GET_VERSION, Spi_reply d] \<and> ty = d ! 1 \<and> x = d ! 2 \<and> y = d ! 3)"
    by (rule normal_version_log [OF v])
  let ?es = "(if sent then Spi_command LR1121_UPDATER_CMD_REBOOT [reboot_param False] # es2 else [])"
  have l: "bus_log b' = bus_log b @ ?es"
    using assms r v 2(1) chip_reboot_log [OF r]
    by (cases sent; cases got) (auto simp: rewrite_stage_1b_def)
  show ?thesis
  proof (rule that [OF l])
    show "flash_after (bus_log b') = flash_after (bus_log b)"
      unfolding l by (rule flash_after_quiet) (use 2(2) in \<open>auto split: if_splits\<close>)
    have "loader_answers ?es" if fine: ok
    proof -
      obtain ty x y where g: "sent" "got = Some (ty, x, y)" "ty = LR1121_UPDATER_LOADER_DEVICE_TYPE" "be16 x y = LR1121_LOADER_2100"
        using assms r v fine by (cases sent; cases got) (auto simp: rewrite_stage_1b_def)
      obtain d where d: "length d = 4" "es2 = [GET_VERSION, Spi_reply d]" "ty = d ! 1" "x = d ! 2" "y = d ! 3"
        using 2(3) g(2) by blast
      have "hi8 0x2100 = 0x21" "lo8 0x2100 = 0" by code_simp+
      then have "d = [d ! 0, LR1121_UPDATER_LOADER_DEVICE_TYPE, 0x21, 0x00]"
        using d g(3,4) unfolding be16_split
        by (intro nth_equalityI) (auto simp: less_Suc_eq numeral_eq_Suc)
      then show ?thesis using g(1) d(2)
        by (intro exI [of _ "[Spi_command LR1121_UPDATER_CMD_REBOOT [reboot_param False]]"] exI [of _ "d ! 0"]) simp
    qed
    then show "ok \<longrightarrow> loader_answers ?es" by blast
  qed (use 2(2) in auto)
qed

lemma updater_status_log: "\<exists>es. set es \<subseteq> range Spi_reply \<and> bus_log (snd (read_updater_status b)) = bus_log b @ es"
proof -
  obtain ok b1 where w: "wait_busy LR1121_UPDATER_BUSY_TIMEOUT_MS b = (ok, b1)" by fastforce
  have "bus_log (snd (read_updater_status b)) = bus_log b \<or> (\<exists>d. bus_log (snd (read_updater_status b)) = bus_log b @ [Spi_reply d])"
    using w wait_busy_log [OF w] by (cases ok) (auto simp: read_updater_status_def chip_read_def Let_def)
  then show ?thesis by (metis append.right_neutral empty_iff empty_subsetI insert_subset list.set rangeI)
qed

lemma stage_2_log:
  assumes "rewrite_stage_2 b = (r, b')"
  obtains es where "bus_log b' = bus_log b @ es" and "ERASE \<notin> set es"
    and "es = [] \<or> (\<exists>c. es = REWRITE # c \<and> REWRITE \<notin> set c)"
proof -
  obtain ok b1 where u: "update_bootloader b = (ok, b1)" by fastforce
  note l1 = update_bootloader_log [OF u]
  obtain es2 where 2: "set es2 \<subseteq> range Spi_reply" "bus_log (snd (read_updater_status b1)) = bus_log b1 @ es2"
    using updater_status_log by blast
  obtain x b3 where v: "read_command LR1121_UPDATER_CMD_VERIFY_BOOTLOADER [] 4 LR1121_UPDATER_BUSY_TIMEOUT_MS (snd (read_updater_status b1)) = (x, b3)"
    by fastforce
  obtain es3 where 3: "bus_log b3 = bus_log (snd (read_updater_status b1)) @ es3"
      "set es3 \<subseteq> {Spi_command LR1121_UPDATER_CMD_VERIFY_BOOTLOADER []} \<union> range Spi_reply"
    by (rule read_command_log [OF v])
  obtain ok4 b4 where r: "updater_reboot False b3 = (ok4, b4)" by fastforce
  note l4 = updater_reboot_log [OF r]
  obtain y b5 where n: "read_bootloader_version b4 = (y, b5)" by fastforce
  obtain es5 where 5: "bus_log b5 = bus_log b4 @ es5" "set es5 \<subseteq> {GET_VERSION} \<union> range Spi_reply"
    by (rule version_read_log [OF n])
  have quiet: "REWRITE \<notin> set es2" "REWRITE \<notin> set es3" "REWRITE \<notin> set es5" "ERASE \<notin> set es2" "ERASE \<notin> set es3" "ERASE \<notin> set es5"
    using 2(1) 3(2) 5(2) by auto
  have "b' = b1 \<or> ok \<and> (b' = b3 \<or> b' = b4 \<or> b' = b5)"
    using assms u v r n
    by (cases ok; cases x; cases ok4; cases y)
       (auto simp: rewrite_stage_2_def verify_bootloader_def Let_def split: if_splits)
  then have "bus_log b' = bus_log b1 \<or> ok \<and> (\<exists>c. bus_log b' = bus_log b1 @ c \<and> REWRITE \<notin> set c \<and> ERASE \<notin> set c)"
    using quiet 2(2) 3(1) l4 5(1) by (elim disjE conjE; cases ok4) auto
  then have "bus_log b' = bus_log b \<or> (\<exists>c. bus_log b' = bus_log b @ REWRITE # c \<and> REWRITE \<notin> set c \<and> ERASE \<notin> set c)"
    using l1 by auto
  then show ?thesis using that [of "[]"] that by (elim disjE exE conjE) auto
qed

lemma stage_3_log:
  assumes "rewrite_stage_3 cfg b = (r, b')"
  obtains es where "bus_log b' = bus_log b @ es" and "REWRITE \<notin> set es"
proof -
  obtain got b1 where e: "enter_bootloader b = (got, b1)" by fastforce
  obtain es1 where 1: "bus_log b1 = bus_log b @ Strap_entry # es1" "set es1 \<subseteq> {GET_VERSION} \<union> range Spi_reply"
    by (rule enter_bootloader_log [OF e])
  obtain ok b2 where w: "lr1121_erase_and_write_image (fc_words cfg) b1 = (ok, b2)" by fastforce
  obtain es2 where 2: "bus_log b2 = bus_log b1 @ es2"
      "set es2 \<subseteq> insert ERASE (range (Spi_command LR1121_UPDATER_CMD_WRITE_FLASH_ENCRYPTED))"
    by (rule erase_and_write_log [OF w])
  obtain es3 where 3: "bus_log (finish_flash b2) = bus_log b2 @ es3" "REWRITE \<notin> set es3"
    by (rule finish_flash_log)
  have quiet: "REWRITE \<notin> set es1" "REWRITE \<notin> set es2" using 1(2) 2(2) by auto
  have "b' = b1 \<or> b' = b2 \<or> b' = finish_flash b2"
    using assms e w by (auto simp: rewrite_stage_3_def split: bool.splits option.splits prod.splits if_splits)
  then have "\<exists>es. bus_log b' = bus_log b @ es \<and> REWRITE \<notin> set es"
    using quiet 1(1) 2(1) 3 by auto
  then show ?thesis using that by blast
qed

text \<open>The irreversible command, if it is sent: once, with the loader image written and the loader running.\<close>

definition rewrites_once :: "bytes \<Rightarrow> chip_event list \<Rightarrow> chip_event list \<Rightarrow> bool" where
  "rewrites_once loader past es \<longleftrightarrow>
     (\<exists>a c. es = a @ REWRITE # c \<and> REWRITE \<notin> set a \<and> REWRITE \<notin> set c \<and> flash_after (past @ a) = loader \<and> loader_answers a)"

lemma checked_first_append: "checked_first passed es \<Longrightarrow> \<forall>s \<in> set xs. s \<noteq> ERASE \<Longrightarrow> checked_first passed (xs @ es @ ys)"
  unfolding checked_first_def by (metis UnE append.assoc set_append)

lemma upgrade_sequence_log:
  obtains es where "bus_log (fw_bus (run_lr1121_bootloader_upgrade_sequence cfg fw)) = bus_log (fw_bus fw) @ es @ [Esp_reboot]"
    and "ERASE \<in> set es \<longrightarrow> checked_first (sane fw) es"
    and "REWRITE \<in> set es \<and> 4 * length (fc_loader_words cfg) < 2 ^ 32 \<longrightarrow> rewrites_once (concat (map be32 (fc_loader_words cfg))) (bus_log (fw_bus fw)) es"
proof -
  let ?fw = "start_sequence fw" and ?fw' = "run_lr1121_bootloader_upgrade_sequence cfg fw"
  let ?loader = "concat (map be32 (fc_loader_words cfg))" and ?past = "bus_log (fw_bus fw)"
  obtain s where s: "set s \<subseteq> {Radio_standby}" "bus_log (fw_bus ?fw) = ?past @ s"
    using start_sequence_log by blast
  obtain ok1 b1 where r1: "rewrite_stage_1a cfg ?fw (fw_bus ?fw) = (ok1, b1)" by fastforce
  obtain ok2 b2 where r2: "rewrite_stage_1b b1 = (ok2, b2)" by fastforce
  obtain g3 b3 where r3: "rewrite_stage_2 b2 = (g3, b3)" by fastforce
  obtain g4 b4 where r4: "rewrite_stage_3 cfg b3 = (g4, b4)" by fastforce
  obtain e1 where 1: "bus_log b1 = bus_log (fw_bus ?fw) @ Strap_entry # e1" "REWRITE \<notin> set e1"
    "ok1 \<or> ERASE \<in> set e1 \<longrightarrow> checked_first (sane fw) (Strap_entry # e1)" "ok1 \<and> 4 * length (fc_loader_words cfg) < 2 ^ 32 \<longrightarrow> flash_after (bus_log b1) = ?loader"
    by (rule stage_1a_log [OF r1]) simp
  obtain e2 where 2: "bus_log b2 = bus_log b1 @ e2" "REWRITE \<notin> set e2" "ERASE \<notin> set e2"
    "flash_after (bus_log b2) = flash_after (bus_log b1)" "ok2 \<longrightarrow> loader_answers e2"
    by (rule stage_1b_log [OF r2])
  obtain e3 where 3: "bus_log b3 = bus_log b2 @ e3" "ERASE \<notin> set e3" "e3 = [] \<or> (\<exists>c. e3 = REWRITE # c \<and> REWRITE \<notin> set c)"
    by (rule stage_2_log [OF r3])
  obtain e4 where 4: "bus_log b4 = bus_log b3 @ e4" "REWRITE \<notin> set e4"
    by (rule stage_3_log [OF r4])
  have sl: "\<forall>x \<in> set s. x \<noteq> ERASE" "REWRITE \<notin> set s" using s(1) by auto
  let ?tail = "if \<not> ok1 then [] else if \<not> ok2 then e2 else if g3 = None then e2 @ e3 else e2 @ e3 @ e4"
  have l: "bus_log (fw_bus ?fw') = ?past @ (s @ (Strap_entry # e1) @ ?tail) @ [Esp_reboot]"
    using r1 r2 r3 r4 s(2) 1(1) 2(1) 3(1) 4(1)
    by (cases ok1; cases ok2; cases g3)
       (auto simp: run_lr1121_bootloader_upgrade_sequence_def Let_def adopt_reading_def split: option.split)
  show ?thesis
  proof (rule that [OF l])
    have "ok1 \<or> ERASE \<in> set e1" if "ERASE \<in> set (s @ (Strap_entry # e1) @ ?tail)"
      using that sl(1) by (cases ok1) auto
    then show "ERASE \<in> set (s @ (Strap_entry # e1) @ ?tail) \<longrightarrow> checked_first (sane fw) (s @ (Strap_entry # e1) @ ?tail)"
      using checked_first_append [OF _ sl(1), of "sane fw" "Strap_entry # e1" ?tail] 1(3) by blast
    show "REWRITE \<in> set (s @ (Strap_entry # e1) @ ?tail) \<and> 4 * length (fc_loader_words cfg) < 2 ^ 32 \<longrightarrow> rewrites_once ?loader ?past (s @ (Strap_entry # e1) @ ?tail)"
    proof
      assume sent: "REWRITE \<in> set (s @ (Strap_entry # e1) @ ?tail) \<and> 4 * length (fc_loader_words cfg) < 2 ^ 32"
      then have ok: ok1 ok2 and c: "\<exists>c. e3 = REWRITE # c \<and> REWRITE \<notin> set c"
        using sl(2) 1(2) 2(2) 3(3) 4(2) by (auto split: if_splits)
      then obtain c where c: "e3 = REWRITE # c" "REWRITE \<notin> set c" by blast
      have tail: "?tail = e2 @ REWRITE # (if g3 = None then c else c @ e4)" using ok c(1) by simp
      have "flash_after (?past @ s @ (Strap_entry # e1) @ e2) = ?loader"
        using 2(1,4) 1(1,4) s(2) ok sent by simp
      moreover have "loader_answers (s @ (Strap_entry # e1) @ e2)" using 2(5) ok by (metis append.assoc)
      ultimately show "rewrites_once ?loader ?past (s @ (Strap_entry # e1) @ ?tail)"
        unfolding rewrites_once_def tail using sl(2) 1(2) 2(2) c(2) 4(2)
        by (intro exI [of _ "s @ (Strap_entry # e1) @ e2"] exI [of _ "if g3 = None then c else c @ e4"]) auto
    qed
  qed
qed

section \<open>The life of the hub\<close>

text \<open>Restarts (with the outcome of the allocation and of the radio's initialization), presses of the button,
  the end of the confirmation window and the permission switch, in any order.\<close>

datatype fw_event = Fw_restart bool bool | Fw_press | Fw_window_ends | Fw_allow bool

fun fw_step :: "fw_config \<Rightarrow> fw_event \<Rightarrow> fw_hub \<Rightarrow> fw_hub" where
  "fw_step cfg (Fw_restart allocated init_ok) fw = setup_lr1121 cfg allocated init_ok (fw_bus fw)"
| "fw_step cfg Fw_press fw = trigger_lr1121_firmware_update cfg fw"
| "fw_step cfg Fw_window_ends fw = confirmation_expires fw"
| "fw_step cfg (Fw_allow allowed) fw = set_bootloader_rewrite_allowed allowed fw"

text \<open>Every excursion into the bootloader is followed by an initialization of the radio or a restart.\<close>

fun excursions_closed :: "chip_event list \<Rightarrow> bool" where
  "excursions_closed [] = True"
| "excursions_closed (e # es) =
     ((e = Strap_entry \<longrightarrow> Radio_init \<in> set es \<or> Esp_reboot \<in> set es) \<and> excursions_closed es)"

lemma excursions_closed_end: "excursions_closed (es @ [Esp_reboot])"
  by (induction es) auto

lemma excursions_closed_quiet: "Strap_entry \<notin> set ys \<Longrightarrow> excursions_closed (xs @ Radio_init # ys)"
proof (induction xs)
  case Nil
  then show ?case by (induction ys) auto
qed auto

definition fw_ok :: "fw_config \<Rightarrow> fw_hub \<Rightarrow> bool" where
  "fw_ok cfg fw \<longleftrightarrow> excursions_closed (bus_log (fw_bus fw)) \<and>
     (\<not> fw_busy fw \<and> fw_verdict fw \<noteq> None \<longrightarrow>
        fw_verdict fw = Some (lr1121_flash_decision (fw_device_type fw) (fw_type fw) (fw_version fw) (fw_installed fw) (fc_target cfg) False)) \<and>
     (\<not> fw_busy fw \<and> \<not> fw_known fw \<longrightarrow> fw_version fw = 0)"

lemma start_sequence_busy [simp]: "fw_busy (start_sequence fw)" "fw_busy (safe_reboot fw) = fw_busy fw"
  by (simp_all add: start_sequence_def safe_reboot_def)

lemma sequences_busy: "fw_busy (run_lr1121_flash_sequence cfg fw)" "fw_busy (run_lr1121_bootloader_upgrade_sequence cfg fw)"
  by (auto simp: run_lr1121_flash_sequence_def run_lr1121_bootloader_upgrade_sequence_def adopt_reading_def Let_def
      split: prod.split option.split bool.split)

lemma flash_sequence_ok: "fw_ok cfg (run_lr1121_flash_sequence cfg fw)"
proof -
  obtain es where "bus_log (fw_bus (run_lr1121_flash_sequence cfg fw)) = bus_log (fw_bus fw) @ es @ [Esp_reboot]"
    by (rule flash_sequence_log)
  then show ?thesis using excursions_closed_end [of "bus_log (fw_bus fw) @ es"] sequences_busy by (simp add: fw_ok_def)
qed

lemma setup_log:
  obtains es ys where "bus_log (fw_bus (setup_lr1121 cfg allocated init_ok b)) = bus_log b @ es @ Radio_init # ys"
    and "Strap_entry \<notin> set ys"
proof -
  let ?fw1 = "run_lr1121_boot_time_bootloader_read allocated (fresh_fw b)"
  let ?fw2 = "?fw1\<lparr>fw_bus := tell_chip Radio_init (fw_bus ?fw1), fw_radio := init_ok\<rparr>"
  obtain got b1 where e: "enter_bootloader b = (got, b1)" by fastforce
  obtain es1 where 1: "bus_log b1 = bus_log b @ Strap_entry # es1" by (rule enter_bootloader_log [OF e])
  obtain ok b2 where r: "chip_reboot False b1 = (ok, b2)" by fastforce
  have "\<exists>es. bus_log (fw_bus ?fw1) = bus_log b @ es"
    using e 1 r chip_reboot_log [OF r]
    by (cases got) (auto simp: run_lr1121_boot_time_bootloader_read_def fresh_fw_def Let_def)
  then obtain es where es: "bus_log (fw_bus ?fw1) = bus_log b @ es" by blast
  obtain v b3 where v: "read_normal_version (fw_bus ?fw2) = (v, b3)" by fastforce
  obtain es3 where 3: "bus_log b3 = bus_log (fw_bus ?fw2) @ es3" "set es3 \<subseteq> {GET_VERSION} \<union> range Spi_reply"
    by (rule normal_version_log [OF v])
  have "bus_log (fw_bus (cache_lr1121_flash_verdict cfg ?fw2)) = bus_log (fw_bus ?fw2) @
      (if fw_radio ?fw2 \<and> fw_updater ?fw2 then es3 else [])"
    using v 3(1) by (auto simp: cache_lr1121_flash_verdict_def Let_def split: prod.split)
  then show ?thesis
    by (intro that [of es "if fw_radio ?fw2 \<and> fw_updater ?fw2 then es3 else []"])
       (use es 3(2) in \<open>auto simp: setup_lr1121_def Let_def\<close>)
qed

lemma setup_ok: "fw_ok cfg (setup_lr1121 cfg allocated init_ok b)"
proof -
  obtain es ys where "bus_log (fw_bus (setup_lr1121 cfg allocated init_ok b)) = bus_log b @ es @ Radio_init # ys"
      "Strap_entry \<notin> set ys"
    by (rule setup_log)
  then have "excursions_closed (bus_log (fw_bus (setup_lr1121 cfg allocated init_ok b)))"
    using excursions_closed_quiet [of ys "bus_log b @ es"] by simp
  moreover have "fw_verdict (setup_lr1121 cfg allocated init_ok b) = Some (lr1121_flash_decision (fw_device_type (setup_lr1121 cfg allocated init_ok b))
      (fw_type (setup_lr1121 cfg allocated init_ok b)) (fw_version (setup_lr1121 cfg allocated init_ok b))
      (fw_installed (setup_lr1121 cfg allocated init_ok b)) (fc_target cfg) False)"
    by (simp add: setup_lr1121_def cache_lr1121_flash_verdict_def Let_def split: prod.split)
  moreover have "fw_version (setup_lr1121 cfg allocated init_ok b) = 0" if "\<not> fw_known (setup_lr1121 cfg allocated init_ok b)"
    using that by (auto simp: setup_lr1121_def cache_lr1121_flash_verdict_def run_lr1121_boot_time_bootloader_read_def
        fresh_fw_def Let_def split: prod.splits option.splits if_splits)
  ultimately show ?thesis by (simp add: fw_ok_def)
qed

text \<open>A press is one of four things, decided by the versions and the confirmation.\<close>

definition confirmed_decision :: "fw_config \<Rightarrow> fw_hub \<Rightarrow> flash_decision" where
  "confirmed_decision cfg fw = lr1121_flash_decision (fw_device_type fw) (fw_type fw) (fw_version fw) (fw_installed fw)
     (fc_target cfg) (fw_confirm_due fw \<noteq> None)"

lemma confirmed_after_unconfirmed:
  "lr1121_flash_decision d t v i target True =
     (case lr1121_flash_decision d t v i target False of
        REJECT_WRONG_CHIP \<Rightarrow> REJECT_WRONG_CHIP
      | REJECT_BOOTLOADER_TOO_OLD \<Rightarrow> REJECT_BOOTLOADER_TOO_OLD
      | _ \<Rightarrow> FD_PROCEED)"
  by (simp add: lr1121_flash_decision_def Let_def)

lemma press_cases:
  assumes "fw_ok cfg fw" and "\<not> fw_busy fw" and "fw_updater fw" and "fw_verdict fw \<noteq> None"
  shows "trigger_lr1121_firmware_update cfg fw =
    (case confirmed_decision cfg fw of
       FD_PROCEED \<Rightarrow> run_lr1121_flash_sequence cfg (fw\<lparr>fw_confirm_due := None\<rparr>)
     | REJECT_WRONG_CHIP \<Rightarrow> fw
     | REJECT_BOOTLOADER_TOO_OLD \<Rightarrow>
         if fc_rewrite_block cfg \<and> rewrite_path cfg fw = AVAILABLE \<and> fw_rewrite_allowed fw
         then run_lr1121_bootloader_upgrade_sequence cfg fw else fw
     | _ \<Rightarrow> arm_lr1121_flash_confirmation fw)"
proof -
  have v: "fw_verdict fw = Some (lr1121_flash_decision (fw_device_type fw) (fw_type fw) (fw_version fw) (fw_installed fw) (fc_target cfg) False)"
    using assms by (simp add: fw_ok_def)
  show ?thesis
    by (cases "lr1121_flash_decision (fw_device_type fw) (fw_type fw) (fw_version fw) (fw_installed fw) (fc_target cfg) False";
        cases "fw_confirm_due fw")
       (simp_all add: trigger_lr1121_firmware_update_def assms(2,3) v confirmed_decision_def confirmed_after_unconfirmed)
qed

lemma upgrade_sequence_ok: "fw_ok cfg (run_lr1121_bootloader_upgrade_sequence cfg fw)"
proof -
  obtain es where "bus_log (fw_bus (run_lr1121_bootloader_upgrade_sequence cfg fw)) = bus_log (fw_bus fw) @ es @ [Esp_reboot]"
    by (rule upgrade_sequence_log)
  then show ?thesis using excursions_closed_end [of "bus_log (fw_bus fw) @ es"] sequences_busy by (simp add: fw_ok_def)
qed

lemma press_ok: "fw_ok cfg fw \<Longrightarrow> fw_ok cfg (trigger_lr1121_firmware_update cfg fw)"
proof -
  assume ok: "fw_ok cfg fw"
  have "trigger_lr1121_firmware_update cfg fw \<in> {fw, arm_lr1121_flash_confirmation fw, run_lr1121_bootloader_upgrade_sequence cfg fw,
      run_lr1121_flash_sequence cfg (fw\<lparr>fw_confirm_due := None\<rparr>)}"
    by (auto simp: trigger_lr1121_firmware_update_def split: option.split flash_decision.split)
  moreover have "fw_ok cfg (arm_lr1121_flash_confirmation fw)"
    using ok by (simp add: fw_ok_def arm_lr1121_flash_confirmation_def)
  ultimately show ?thesis using ok flash_sequence_ok upgrade_sequence_ok by auto
qed

interpretation firmware: machine "fresh_fw (b\<lparr>bus_log := []\<rparr>)" "fw_step cfg" "fw_ok cfg" for b cfg
proof
  show "fw_ok cfg (fresh_fw (b\<lparr>bus_log := []\<rparr>))" by (simp add: fw_ok_def fresh_fw_def)
next
  fix fw e
  assume "fw_ok cfg fw"
  then show "fw_ok cfg (fw_step cfg e fw)"
    by (cases e) (auto simp: setup_ok press_ok, auto simp: fw_ok_def confirmation_expires_def set_bootloader_rewrite_allowed_def)
qed

abbreviation fw_history :: "fw_config \<Rightarrow> chip_bus \<Rightarrow> fw_event list \<Rightarrow> fw_hub" where
  "fw_history cfg b events \<equiv> fold (fw_step cfg) events (fresh_fw (b\<lparr>bus_log := []\<rparr>))"

lemma active_press:
  assumes "bus_log (fw_bus (trigger_lr1121_firmware_update cfg fw)) = bus_log (fw_bus fw) @ es" and "es \<noteq> []"
  shows "\<not> fw_busy fw" and "fw_updater fw" and "fw_verdict fw \<noteq> None"
  using assms by (cases "fw_verdict fw"; auto simp: trigger_lr1121_firmware_update_def split: if_splits)+

text \<open>A small chip and its answers: the boot reading of a 0x2100 bootloader, then the whole rewrite.\<close>

definition demo_fw_config :: fw_config where
  "demo_fw_config = \<lparr>fc_target = 0x0104, fc_words = [1, 2, 3], fc_rewrite_block = True, fc_loader_fw = 0x2100, fc_loader_words = [7]\<rparr>"

definition demo_bus :: "bytes list \<Rightarrow> chip_bus" where
  "demo_bus replies = \<lparr>bus_time = 0, bus_busy = [], bus_replies = replies, bus_log = []\<rparr>"

definition demo_rewrite_replies :: "bytes list" where
  "demo_rewrite_replies =
     [[0, 0xDF, 0x21, 0x00], [0, 3, 1, 3], [0, 0xDF, 0x21, 0x00], [0, 0xDE, 0x21, 0x00], [4, 0, 0, 0, 0, 0], [0x3F, 0, 0, 0],
      [0, 0xDF, 0x21, 0x01], [0, 0xDF, 0x21, 0x01], replicate 16 9, [0, 3, 1, 4]]"

section \<open>Properties\<close>

text \<open>C21. No dead radio. Over any history of restarts, presses, expiring confirmations and switch changes, and
  whatever the chip answers or fails to answer, every excursion of the chip into its bootloader is
  followed by an initialization of the radio or a restart of the controller.\<close>

theorem firmware_excursions_end:
  "excursions_closed (bus_log (fw_bus (fold (fw_step cfg) events (fresh_fw (b\<lparr>bus_log := []\<rparr>)))))"
  using firmware.inv_history [of cfg events b] by (simp add: fw_ok_def)

text \<open>C31. Only an identified chip is erased. Whenever a press erases the flash, the chip was reset into its
  bootloader and read before the first erasure, and the reading has the bootloader type and a bootloader
  version of the LR1121 - or version zero, if the boot reading was that very zero.\<close>

theorem erase_identifies_chip:
  assumes "fw = fold (fw_step cfg) events (fresh_fw (b\<lparr>bus_log := []\<rparr>))"
    and "bus_log (fw_bus (trigger_lr1121_firmware_update cfg fw)) = bus_log (fw_bus fw) @ es" and "ERASE \<in> set es"
  shows "\<exists>before d rest. es = before @ [Strap_entry, GET_VERSION, Spi_reply d] @ rest \<and> ERASE \<notin> set before \<and>
    d ! 1 = LR1121_UPDATER_BOOTLOADER_TYPE \<and>
    (lr1121_bootloader_is_lr1121 (be16 (d ! 2) (d ! 3)) \<or> be16 (d ! 2) (d ! 3) = 0 \<and> fw_known fw \<and> fw_version fw = 0)"
proof -
  have ok: "fw_ok cfg fw" unfolding assms(1) by (rule firmware.inv_history)
  have "es \<noteq> []" using assms(3) by auto
  note act = active_press [OF assms(2) this]
  note press = press_cases [OF ok act]
  consider (flash) "confirmed_decision cfg fw = FD_PROCEED"
        "trigger_lr1121_firmware_update cfg fw = run_lr1121_flash_sequence cfg (fw\<lparr>fw_confirm_due := None\<rparr>)"
    | (rewrite) "rewrite_path cfg fw = AVAILABLE"
        "trigger_lr1121_firmware_update cfg fw = run_lr1121_bootloader_upgrade_sequence cfg fw"
    using press assms(2,3) by (cases "confirmed_decision cfg fw") (auto simp: arm_lr1121_flash_confirmation_def split: if_splits)
  then have "checked_first (sane fw) es \<and> (fw_version fw = 0 \<or> lr1121_bootloader_is_lr1121 (fw_version fw))"
  proof cases
    case flash
    obtain es' where "bus_log (fw_bus (run_lr1121_flash_sequence cfg (fw\<lparr>fw_confirm_due := None\<rparr>))) = bus_log (fw_bus fw) @ es' @ [Esp_reboot]"
        "ERASE \<in> set es' \<longrightarrow> checked_first (sane fw) es'"
      by (rule flash_sequence_log [of cfg "fw\<lparr>fw_confirm_due := None\<rparr>"]) simp
    then have "checked_first (sane fw) es"
      using assms(2,3) flash(2) checked_first_append [of "sane fw" es' "[]" "[Esp_reboot]"] by auto
    moreover have "fw_version fw = 0 \<or> lr1121_bootloader_is_lr1121 (fw_version fw)"
      using flash(1) by (auto simp: confirmed_decision_def lr1121_flash_decision_def Let_def split: if_splits)
    ultimately show ?thesis by blast
  next
    case rewrite
    obtain es' where "bus_log (fw_bus (run_lr1121_bootloader_upgrade_sequence cfg fw)) = bus_log (fw_bus fw) @ es' @ [Esp_reboot]"
        "ERASE \<in> set es' \<longrightarrow> checked_first (sane fw) es'"
      by (rule upgrade_sequence_log)
    then have "checked_first (sane fw) es"
      using assms(2,3) rewrite(2) checked_first_append [of "sane fw" es' "[]" "[Esp_reboot]"] by auto
    moreover have "lr1121_bootloader_is_lr1121 (fw_version fw)"
      using rewrite(1) by (auto simp: rewrite_path_def lr1121_bootloader_upgrade_path_def split: if_splits)
    ultimately show ?thesis by blast
  qed
  then obtain a d c where "es = a @ [Strap_entry, GET_VERSION, Spi_reply d] @ c" "ERASE \<notin> set a"
      and s: "sane fw (d ! 1) (be16 (d ! 2) (d ! 3))" "fw_version fw = 0 \<or> lr1121_bootloader_is_lr1121 (fw_version fw)"
    unfolding checked_first_def by blast
  moreover have "d ! 1 = LR1121_UPDATER_BOOTLOADER_TYPE \<and>
      (lr1121_bootloader_is_lr1121 (be16 (d ! 2) (d ! 3)) \<or> be16 (d ! 2) (d ! 3) = 0 \<and> fw_known fw \<and> fw_version fw = 0)"
    using s by (auto simp: lr1121_check_bootloader_sanity_def split: if_splits)
  ultimately show ?thesis by blast
qed

theorem erase_identifies_chip_witness:
  "\<exists>es. bus_log (fw_bus (trigger_lr1121_firmware_update demo_fw_config
        (fold (fw_step demo_fw_config) [Fw_restart True True, Fw_allow True] (fresh_fw (demo_bus demo_rewrite_replies))))) =
      bus_log (fw_bus (fold (fw_step demo_fw_config) [Fw_restart True True, Fw_allow True] (fresh_fw (demo_bus demo_rewrite_replies)))) @ es \<and>
    (\<exists>before d rest. es = before @ [Strap_entry, GET_VERSION, Spi_reply d] @ rest \<and> d ! 1 = 0xDF)"
proof -
  let ?h = "fold (fw_step demo_fw_config) [Fw_restart True True, Fw_allow True] (fresh_fw (demo_bus demo_rewrite_replies))"
  let ?old = "bus_log (fw_bus ?h)" and ?new = "bus_log (fw_bus (trigger_lr1121_firmware_update demo_fw_config ?h))"
  let ?es = "drop (length ?old) ?new"
  have "?new = ?old @ ?es" and e: "ERASE \<in> set ?es" by code_simp+
  moreover have b: "demo_bus demo_rewrite_replies = (demo_bus demo_rewrite_replies)\<lparr>bus_log := []\<rparr>" by (simp add: demo_bus_def)
  ultimately show ?thesis
    using erase_identifies_chip [of ?h demo_fw_config "[Fw_restart True True, Fw_allow True]" "demo_bus demo_rewrite_replies" ?es]
    by (metis (no_types, lifting))
qed





text \<open>A press does what the decision with the confirmation says. In every reachable state in which the hub can
  act, a press runs the flash sequence exactly if the decision function proceeds when it is told whether
  the confirmation window is open; it does nothing on a wrong chip, rewrites the bootloader only through
  the gate, and otherwise opens the window.\<close>

theorem press_follows_decision:
  assumes "fw = fold (fw_step cfg) events (fresh_fw (b\<lparr>bus_log := []\<rparr>))"
    and "\<not> fw_busy fw" and "fw_updater fw" and "fw_verdict fw \<noteq> None"
  shows "trigger_lr1121_firmware_update cfg fw =
    (case lr1121_flash_decision (fw_device_type fw) (fw_type fw) (fw_version fw) (fw_installed fw) (fc_target cfg)
        (fw_confirm_due fw \<noteq> None) of
       FD_PROCEED \<Rightarrow> run_lr1121_flash_sequence cfg (fw\<lparr>fw_confirm_due := None\<rparr>)
     | REJECT_WRONG_CHIP \<Rightarrow> fw
     | REJECT_BOOTLOADER_TOO_OLD \<Rightarrow>
         if fc_rewrite_block cfg \<and> rewrite_path cfg fw = AVAILABLE \<and> fw_rewrite_allowed fw
         then run_lr1121_bootloader_upgrade_sequence cfg fw else fw
     | _ \<Rightarrow> arm_lr1121_flash_confirmation fw)"
proof -
  have "fw_ok cfg fw" unfolding assms(1) by (rule firmware.inv_history)
  from press_cases [OF this assms(2-4)] show ?thesis by (simp add: confirmed_decision_def)
qed

theorem press_follows_decision_witness:
  "\<exists>fw. fw = fold (fw_step demo_fw_config) [Fw_restart True True] (fresh_fw (demo_bus [[0, 0xDF, 0x21, 0x01], [0, 3, 1, 4]])) \<and>
     trigger_lr1121_firmware_update demo_fw_config fw = arm_lr1121_flash_confirmation fw"
proof -
  let ?h = "fold (fw_step demo_fw_config) [Fw_restart True True] (fresh_fw (demo_bus [[0, 0xDF, 0x21, 0x01], [0, 3, 1, 4]]))"
  have s: "\<not> fw_busy ?h" "fw_updater ?h" "fw_verdict ?h \<noteq> None" by code_simp+
  have d: "lr1121_flash_decision (fw_device_type ?h) (fw_type ?h) (fw_version ?h) (fw_installed ?h) (fc_target demo_fw_config)
      (fw_confirm_due ?h \<noteq> None) = ALREADY_INSTALLED" by code_simp
  have b: "?h = fold (fw_step demo_fw_config) [Fw_restart True True] (fresh_fw ((demo_bus [[0, 0xDF, 0x21, 0x01], [0, 3, 1, 4]])\<lparr>bus_log := []\<rparr>))"
    by (simp add: demo_bus_def)
  show ?thesis using press_follows_decision [OF b s] d by simp
qed

text \<open>The exception in the identification is reachable: after a boot reading of version zero, which the decision
  treats as unknown, the confirming press erases a chip whose version is zero again, since the check before
  the erasure only compares the two readings. No LR1121 has that version.\<close>

theorem zero_version_is_erased:
  assumes "fw_known fw" and "fw_version fw = 0" and "fw_updater fw" and "\<not> fw_busy fw"
    and "fw_verdict fw = Some NEEDS_CONFIRMATION" and "fw_confirm_due fw \<noteq> None"
    and "enter_bootloader (fw_bus (start_sequence fw)) = (Some (LR1121_UPDATER_BOOTLOADER_TYPE, 0), chip)"
    and "bus_busy chip = []"
  shows "\<not> lr1121_bootloader_is_lr1121 0 \<and>
    (\<exists>es. bus_log (fw_bus (trigger_lr1121_firmware_update cfg fw)) = bus_log (fw_bus fw) @ es \<and> ERASE \<in> set es)"
proof -
  let ?fw = "fw\<lparr>fw_confirm_due := None\<rparr>"
  have t: "trigger_lr1121_firmware_update cfg fw = run_lr1121_flash_sequence cfg ?fw"
    using assms(3-6) by (auto simp: trigger_lr1121_firmware_update_def)
  have e: "enter_bootloader (fw_bus (start_sequence ?fw)) = (Some (LR1121_UPDATER_BOOTLOADER_TYPE, 0), chip)"
    using assms(7) by (auto simp: start_sequence_def split: if_splits)
  obtain ok b2 where w: "lr1121_erase_and_write_image (fc_words cfg) chip = (ok, b2)" by fastforce
  obtain c where c: "bus_log b2 = bus_log chip @ ERASE # c"
  proof -
    have "\<exists>b1. erase_flash chip = (True, b1) \<and> bus_log b1 = bus_log chip @ [ERASE]"
      using assms(8) by (simp add: erase_flash_def write_command_def wait_busy_def Let_def)
    then obtain b1 where b1: "erase_flash chip = (True, b1)" "bus_log b1 = bus_log chip @ [ERASE]" by blast
    then have "write_chunks (fc_words cfg) 0 b1 = (ok, b2)" using w by (simp add: lr1121_erase_and_write_image_def write_image_def)
    from chunks_program [OF this] show ?thesis using that b1(2) by auto
  qed
  obtain s where s: "bus_log (fw_bus (start_sequence ?fw)) = bus_log (fw_bus fw) @ s" using start_sequence_log [of ?fw] by auto
  obtain es1 where 1: "bus_log chip = bus_log (fw_bus (start_sequence ?fw)) @ Strap_entry # es1"
    by (rule enter_bootloader_log [OF e])
  obtain es3 where 3: "bus_log (finish_flash b2) = bus_log b2 @ es3" by (rule finish_flash_log)
  have "bus_log (fw_bus (run_lr1121_flash_sequence cfg ?fw)) =
      bus_log (fw_bus fw) @ s @ Strap_entry # es1 @ ERASE # c @ (if ok then es3 else []) @ [Esp_reboot]"
    using e w assms(1,2) s 1 3 c by (cases ok) (simp_all add: run_lr1121_flash_sequence_def lr1121_check_bootloader_sanity_def Let_def)
  then show ?thesis unfolding t by (auto simp: lr1121_bootloader_is_lr1121_def)
qed

theorem zero_version_is_erased_witness:
  "\<exists>es. bus_log (fw_bus (trigger_lr1121_firmware_update demo_fw_config
       ((fresh_fw (demo_bus [[0, 0xDF, 0, 0]]))\<lparr>fw_updater := True, fw_known := True, fw_verdict := Some NEEDS_CONFIRMATION, fw_confirm_due := Some 60000\<rparr>))) = es \<and>
     ERASE \<in> set es"
proof -
  let ?fw = "(fresh_fw (demo_bus [[0, 0xDF, 0, 0]]))\<lparr>fw_updater := True, fw_known := True, fw_verdict := Some NEEDS_CONFIRMATION, fw_confirm_due := Some 60000\<rparr>"
  let ?e = "enter_bootloader (fw_bus (start_sequence ?fw))"
  have "fst ?e = Some (0xDF, 0)" "bus_busy (snd ?e) = []" by code_simp+
  then obtain chip where e: "?e = (Some (0xDF, 0), chip)" "bus_busy chip = []" by (cases ?e) auto
  show ?thesis using zero_version_is_erased [OF _ _ _ _ _ _ e] by (fastforce simp: fresh_fw_def demo_bus_def)
qed

end
