(* ===== verification/Frame_Log.thy ===== *)
theory Frame_Log
  imports Frame
begin

text \<open>
  What frames look like in logs and reports (\<open>log_frame.h\<close>, \<open>redaction.h\<close>): the hexadecimal rendering
  into a buffer of bounded size, and the rule that the payload of a frame which carries key material
  is masked. A rendering is the text in the buffer up to its terminator.
\<close>

abbreviation (input) FRAME_LOG_HEX_BUFFER_SIZE :: nat where
  "FRAME_LOG_HEX_BUFFER_SIZE \<equiv> 220"

abbreviation (input) FRAME_LOG_FLAGS_BUFFER_SIZE :: nat where
  "FRAME_LOG_FLAGS_BUFFER_SIZE \<equiv> 32"

section \<open>Redaction\<close>

definition command_carries_key_material :: "u8 \<Rightarrow> bool" where
  "command_carries_key_material c \<longleftrightarrow>
     c = CMD_KEY_TRANSFER \<or> c = CMD_CHALLENGE_REQ \<or> c = CMD_CHALLENGE_RESP \<or> c = CMD_ONEWAY_ADD_CONTROLLER"

fun contains_key_material :: "bytes \<Rightarrow> bytes \<Rightarrow> bool" where
  "contains_key_material [] system_key = False"
| "contains_key_material (b # buf) system_key =
     (AES_KEY_SIZE \<le> length (b # buf) \<and>
      (take AES_KEY_SIZE (b # buf) = system_key \<or> contains_key_material buf system_key))"

section \<open>Rendering\<close>

text \<open>\<open>bytes_to_hex\<close> stops when fewer than five bytes of the buffer are left.\<close>

fun hex_spaced :: "bytes \<Rightarrow> nat \<Rightarrow> nat \<Rightarrow> string" where
  "hex_spaced [] pos out_size = []"
| "hex_spaced (b # bs) pos out_size =
     (if pos + 4 < out_size then hex_byte b @ '' '' @ hex_spaced bs (pos + 3) out_size else [])"

definition bytes_to_hex :: "bytes \<Rightarrow> nat \<Rightarrow> string" where
  "bytes_to_hex bs out_size = hex_spaced bs 0 out_size"

text \<open>\<open>snprintf\<close> into a buffer keeps all but one of its bytes for the text.\<close>

definition snprintf :: "nat \<Rightarrow> string \<Rightarrow> string" where
  "snprintf out_size text = take (out_size - 1) text"

definition decode_ctrl1_flags :: "u8 \<Rightarrow> string" where
  "decode_ctrl1_flags c =
     (if c AND CTRL1_ACK \<noteq> 0 then ''[ACK]'' else []) @
     (if c AND CTRL1_LOW_POWER \<noteq> 0 then ''[LPM]'' else []) @
     (if c AND CTRL1_PRIORITY \<noteq> 0 then ''[PRIO]'' else []) @
     (if c AND CTRL1_ROUTED \<noteq> 0 then ''[R]'' else []) @
     (if c AND CTRL1_BEACON \<noteq> 0 then ''[B]'' else [])"

definition masked :: "bytes \<Rightarrow> bool" where
  "masked buf \<longleftrightarrow> FRAME_MIN_SIZE \<le> length buf \<and> command_carries_key_material (buf ! FRAME_CMD_OFFSET)"

definition render_frame_hex_redacted :: "bytes \<Rightarrow> nat \<Rightarrow> string" where
  "render_frame_hex_redacted buf out_size =
     (if out_size = 0 then []
      else if masked buf
      then snprintf out_size (bytes_to_hex (take FRAME_MIN_SIZE buf) (FRAME_MIN_SIZE * 3 + 4) @
             ''['' @ dec_string (length buf - FRAME_MIN_SIZE) @ '' bytes masked]'')
      else bytes_to_hex buf out_size)"

section \<open>Lemmas\<close>

lemma hex_spaced_fits: "pos < out_size \<Longrightarrow> pos + length (hex_spaced bs pos out_size) < out_size"
  by (induction bs pos out_size rule: hex_spaced.induct) auto

lemma hex_spaced_all: "pos + 3 * length bs + 1 < out_size \<or> bs = [] \<Longrightarrow>
    hex_spaced bs pos out_size = concat (map (\<lambda>b. hex_byte b @ '' '') bs)"
  by (induction bs pos out_size rule: hex_spaced.induct) auto

lemma bytes_to_hex_all: "3 * length bs + 1 < out_size \<Longrightarrow> bytes_to_hex bs out_size = concat (map (\<lambda>b. hex_byte b @ '' '') bs)"
  unfolding bytes_to_hex_def by (rule hex_spaced_all) simp

lemma contains_key_material_iff:
  "length system_key = AES_KEY_SIZE \<Longrightarrow>
   contains_key_material buf system_key \<longleftrightarrow> (\<exists>before after. buf = before @ system_key @ after)"
proof (induction buf)
  case Nil
  then show ?case by auto
next
  case (Cons b buf)
  show ?case
  proof
    assume c: "contains_key_material (b # buf) system_key"
    show "\<exists>before after. b # buf = before @ system_key @ after"
    proof (cases "take AES_KEY_SIZE (b # buf) = system_key")
      case True
      then have "b # buf = [] @ system_key @ drop AES_KEY_SIZE (b # buf)"
        by (metis append_take_drop_id append_Nil)
      then show ?thesis by blast
    next
      case False
      then obtain x y where "buf = x @ system_key @ y" using c Cons by auto
      then show ?thesis by (intro exI [of _ "b # x"] exI [of _ y]) simp
    qed
  next
    assume "\<exists>before after. b # buf = before @ system_key @ after"
    then obtain x y where e: "b # buf = x @ system_key @ y" by blast
    show "contains_key_material (b # buf) system_key"
    proof (cases x)
      case Nil
      then have "take AES_KEY_SIZE (b # buf) = system_key" using e Cons.prems by simp
      moreover have "AES_KEY_SIZE \<le> length (b # buf)" using e Nil Cons.prems by simp
      ultimately show ?thesis by simp
    next
      case (Cons x0 xs)
      then have b: "buf = xs @ system_key @ y" using e by simp
      then have "contains_key_material buf system_key" using Cons.IH Cons.prems by blast
      moreover have "AES_KEY_SIZE \<le> length (b # buf)" using b Cons.prems by simp
      ultimately show ?thesis by simp
    qed
  qed
qed

section \<open>Properties\<close>

text \<open>No key material in a rendering. The rendering of a frame whose command carries key material is a
  function of its nine header bytes and its length: two frames that differ only in their payloads, and
  so in the key they carry, are rendered alike.\<close>

theorem rendering_hides_payload:
  assumes "length a = length b" and "take FRAME_MIN_SIZE a = take FRAME_MIN_SIZE b"
    and "FRAME_MIN_SIZE \<le> length a" and "command_carries_key_material (a ! FRAME_CMD_OFFSET)"
  shows "render_frame_hex_redacted a n = render_frame_hex_redacted b n"
proof -
  have "b ! FRAME_CMD_OFFSET = take FRAME_MIN_SIZE b ! FRAME_CMD_OFFSET" by simp
  also have "\<dots> = a ! FRAME_CMD_OFFSET" unfolding assms(2) [symmetric] by simp
  finally show ?thesis using assms by (simp add: render_frame_hex_redacted_def masked_def)
qed

theorem rendering_hides_payload_witness:
  "render_frame_hex_redacted (replicate 8 0 @ [CMD_KEY_TRANSFER] @ replicate 16 1) 220 =
   render_frame_hex_redacted (replicate 8 0 @ [CMD_KEY_TRANSFER] @ replicate 16 2) 220"
  by (rule rendering_hides_payload) (simp_all add: command_carries_key_material_def nth_append)

end
