(* ===== verification/Probe_Arguments.thy ===== *)
theory Probe_Arguments
  imports Tuning
begin

text \<open>
  The arguments of the management actions (\<open>management_actions.cpp\<close>): trimming and upper-casing of device
  addresses, and the parser of the probe indices over \<open>strtoul\<close>.
\<close>

section \<open>Texts\<close>

text \<open>A C++ string is bytes; the texts of the model are characters.\<close>

definition text_bytes :: "string \<Rightarrow> bytes" where
  "text_bytes s = map of_char s"

definition bytes_text :: "bytes \<Rightarrow> string" where
  "bytes_text bs = map (\<lambda>b. char_of (unat b)) bs"

definition trim_text :: "string \<Rightarrow> string" where
  "trim_text s = bytes_text (trim_ascii_whitespace (text_bytes s))"

definition upper_char :: "char \<Rightarrow> char" where
  "upper_char c = (if 97 \<le> (of_char c :: nat) \<and> (of_char c :: nat) \<le> 122 then char_of ((of_char c :: nat) - 32) else c)"

definition normalize_device_id_argument :: "string \<Rightarrow> string" where
  "normalize_device_id_argument device_id = map upper_char (trim_text device_id)"

definition bool_to_string :: "bool \<Rightarrow> string" where
  "bool_to_string b = (if b then ''true'' else ''false'')"

definition format_hex_byte :: "u8 \<Rightarrow> string" where
  "format_hex_byte b = hex_byte b"

text \<open>
  \<open>strtoul\<close> with base 0 on the 32-bit \<open>unsigned long\<close> of the target: white space, a sign, then hexadecimal
  after \<open>0x\<close>, octal after \<open>0\<close>, decimal otherwise. The value, the text behind the number (the whole text
  if there are no digits) and whether the number was out of range.
\<close>

definition digit_in :: "nat \<Rightarrow> char \<Rightarrow> nat option" where
  "digit_in base c =
     (let n = of_char c :: nat;
          d = (if 48 \<le> n \<and> n \<le> 57 then Some (n - 48)
               else if 97 \<le> n \<and> n \<le> 122 then Some (n - 87)
               else if 65 \<le> n \<and> n \<le> 90 then Some (n - 55)
               else None)
      in case d of None \<Rightarrow> None | Some v \<Rightarrow> if v < base then Some v else None)"

definition digits_value :: "nat \<Rightarrow> string \<Rightarrow> int" where
  "digits_value base ds = foldl (\<lambda>acc c. acc * int base + int (the (digit_in base c))) 0 ds"

definition strtoul_auto :: "string \<Rightarrow> u32 \<times> string \<times> bool" where
  "strtoul_auto text =
     (let s = dropWhile is_space_char text;
          negative = (s \<noteq> [] \<and> hd s = CHR 0x2D);
          s = (if s \<noteq> [] \<and> (hd s = CHR 0x2D \<or> hd s = CHR 0x2B) then tl s else s);
          hex_prefix = (take 2 s = ''0x'' \<or> take 2 s = ''0X'');
          base = (if hex_prefix then 16 else if s \<noteq> [] \<and> hd s = CHR ''0'' then 8 else 10);
          s = (if hex_prefix then drop 2 s else s);
          ds = takeWhile (\<lambda>c. digit_in base c \<noteq> None) s;
          v = digits_value base ds
      in if ds = [] then (0, text, False)
         else if v \<ge> 2 ^ 32 then (0xFFFFFFFF, drop (length ds) s, True)
         else (if negative then - word_of_int v else word_of_int v, drop (length ds) s, False))"

definition parse_probe_index :: "string \<Rightarrow> u8 option" where
  "parse_probe_index text =
     (if text = [] then None
      else if length text > 1 \<and> text ! 0 = CHR ''0'' \<and> text ! 1 \<noteq> CHR ''x'' \<and> text ! 1 \<noteq> CHR ''X'' then None
      else case strtoul_auto text of (v, behind, range_error) \<Rightarrow>
        if behind \<noteq> [] then None
        else if range_error \<or> v > 0xFF then None
        else Some (ucast v))"

section \<open>Lemmas: numbers\<close>

lemma digit_codes:
  assumes "c \<in> digit_set"
  shows "48 \<le> (of_char c :: nat) \<and> (of_char c :: nat) \<le> 57"
  using assms unfolding digit_set_def by (simp, elim disjE) simp_all

lemma digit_in_digit_set: "c \<in> digit_set \<Longrightarrow> digit_in 10 c = Some (of_char c - 48)"
  using digit_codes [of c] by (auto simp: digit_in_def Let_def)

lemma unat_of_char: "unat (of_char c :: u8) = of_char c"
proof -
  have "(of_char c :: u8) = of_nat (of_char c)" by (simp only: of_nat_of_char)
  then have "unat (of_char c :: u8) = of_char c mod 2 ^ LENGTH(8)" by (simp only: unat_of_nat)
  then show ?thesis by simp
qed

lemma char_of_of_char [simp]: "char_of (unat (of_char c :: u8)) = c"
  by (simp add: unat_of_char)

lemma is_space_char_codes: "is_space_char c \<longleftrightarrow> (of_char c :: nat) = 32 \<or> 9 \<le> (of_char c :: nat) \<and> (of_char c :: nat) \<le> 13"
  by (simp add: is_space_char_def is_space_def word_le_nat_alt word_unat_eq_iff unat_of_char)

lemma digit_in_char: "k < 10 \<Longrightarrow> digit_in 10 (char_of (48 + k)) = Some k"
  using digit_char [of k] digit_in_digit_set [of "char_of (48 + k)"] by simp

lemma digits_value_snoc: "digits_value base (ds @ [c]) = digits_value base ds * int base + int (the (digit_in base c))"
  by (simp add: digits_value_def)

lemma digits_value_dec_string: "digits_value 10 (dec_string n) = int n"
proof (induction n rule: dec_string.induct)
  case (1 n)
  show ?case
  proof (cases "n < 10")
    case True
    then have "digits_value 10 (dec_string n) = digits_value 10 ([] @ [char_of (48 + n)])" by (subst dec_string.simps) simp
    also have "\<dots> = int n" using True by (simp only: digits_value_snoc digit_in_char) (simp add: digits_value_def)
    finally show ?thesis .
  next
    case False
    then have "digits_value 10 (dec_string n) = digits_value 10 (dec_string (n div 10) @ [char_of (48 + n mod 10)])"
      by (subst dec_string.simps) simp
    also have "\<dots> = int (n div 10) * 10 + int (n mod 10)"
      using 1 False digit_in_char [of "n mod 10"] by (simp add: digits_value_snoc)
    finally show ?thesis by presburger
  qed
qed

lemma dec_string_all_digits: "c \<in> set (dec_string n) \<Longrightarrow> digit_in 10 c \<noteq> None \<and> \<not> is_space_char c"
proof -
  assume "c \<in> set (dec_string n)"
  then have c: "c \<in> digit_set" using dec_string_digits by blast
  then have "\<not> is_space_char c" using digit_codes [OF c] by (simp add: is_space_char_codes)
  then show ?thesis using digit_in_digit_set [OF c] by simp
qed

lemma dec_string_head: "0 < n \<Longrightarrow> hd (dec_string n) \<noteq> CHR ''0''"
proof (induction n rule: dec_string.induct)
  case (1 n)
  show ?case
  proof (cases "n < 10")
    case True
    then have "digit_in 10 (char_of (48 + n)) = Some n" by (rule digit_in_char)
    moreover have "digit_in 10 (CHR ''0'') = Some 0" by code_simp
    ultimately have "char_of (48 + n) \<noteq> CHR ''0''" using 1(2) by auto
    then show ?thesis using True by (subst dec_string.simps) simp
  next
    case False
    then show ?thesis using 1 dec_string_digits [of "n div 10"] by (subst dec_string.simps) simp
  qed
qed


lemma unat_ucast_u8_u32: "unat (ucast (b :: u8) :: u32) = unat b"
proof -
  have "unat b < 4294967296" by (rule less_trans [OF unat_u8_less]) simp
  then show ?thesis by (simp add: unsigned_ucast_eq unsigned_take_bit_eq take_bit_eq_mod)
qed

lemma takeWhile_dec_string:
  assumes "behind = [] \<or> digit_in 10 (hd behind) = None"
  shows "takeWhile (\<lambda>c. digit_in 10 c \<noteq> None) (dec_string n @ behind) = dec_string n"
  using assms dec_string_all_digits by (cases behind) (auto simp: takeWhile_append)

lemma parse_probe_index_dec: "parse_probe_index (dec_string (unat b)) = Some b"
proof -
  let ?s = "dec_string (unat b)"
  obtain c cs where s: "?s = c # cs" using dec_string_digits [of "unat b"] by (cases ?s) auto
  have c: "c \<in> digit_set" using dec_string_digits [of "unat b"] s by auto
  have "\<not> is_space_char c" using dec_string_all_digits [of c "unat b"] s by simp
  then have trim: "dropWhile is_space_char ?s = ?s" using s by simp
  have sign: "c \<noteq> CHR 0x2D" "c \<noteq> CHR 0x2B" using digit_codes [OF c] by auto
  have lead: "c \<noteq> CHR ''0'' \<or> ?s = ''0''"
  proof (cases "unat b = 0")
    case True
    then show ?thesis by (simp add: dec_string.simps digit_chars)
  next
    case False
    then show ?thesis using dec_string_head [of "unat b"] s by simp
  qed
  have all: "takeWhile (\<lambda>c. digit_in 10 c \<noteq> None) ?s = ?s" using takeWhile_dec_string [of "[]" "unat b"] by simp
  have prefix: "take 2 ?s \<noteq> ''0x'' \<and> take 2 ?s \<noteq> ''0X''" using lead s by auto
  have small: "uint b < 256" using unsigned_less [of b, where 'a = int] by simp
  have w: "word_of_int (int (unat b)) = (ucast b :: u32)" by simp
  have w2: "ucast (ucast b :: u32) = b" by (rule bit_word_eqI) (simp add: bit_simps)
  have "unat b \<le> 255" using unat_u8_less [of b] by linarith
  then have w3: "(ucast b :: u32) \<le> 0xFF" by (simp add: word_le_nat_alt unat_ucast_u8_u32)
  show ?thesis
  proof (cases "c = CHR ''0''")
    case True
    then have "?s = ''0''" using lead by simp
    moreover from this have "b = 0" using dec_string_inj [of "unat b" 0] by (simp add: dec_string.simps [of 0] digit_chars word_unat_eq_iff)
    moreover have "parse_probe_index ''0'' = Some 0" by code_simp
    ultimately show ?thesis by simp
  next
    case False
    have "digits_value 10 (c # cs) = int (unat b)" using digits_value_dec_string [of "unat b"] s by simp
    then have "strtoul_auto ?s = (ucast b, [], False)"
      using False trim sign s all prefix small w by (simp add: strtoul_auto_def digits_value_dec_string Let_def)
    then show ?thesis using False s w2 w3 by (auto simp: parse_probe_index_def)
  qed
qed

lemma parse_probe_index_hex: "parse_probe_index (''0x'' @ hex_byte b) = Some b"
proof -
  have dig: "digit_in 16 (hex_digit k) = Some k" if "k < 16" for k
  proof -
    have "k < 10 \<or> k = 10 \<or> k = 11 \<or> k = 12 \<or> k = 13 \<or> k = 14 \<or> k = 15" using that by arith
    then consider "k < 10" | "k \<in> {10, 11, 12, 13, 14, 15}" by blast
    then show ?thesis
    proof cases
      case 1
      then show ?thesis using digit_char [of k] digit_codes [of "char_of (48 + k)"] by (auto simp: hex_digit_def digit_in_def Let_def)
    next
      case 2
      then show ?thesis by (auto simp: hex_digit_def digit_in_def Let_def)
    qed
  qed
  have b: "unat b div 16 < 16" "unat b mod 16 < 16" using unat_u8_less [of b] by linarith+
  have v: "digits_value 16 (hex_byte b) = int (unat b)"
  proof -
    have "digits_value 16 (hex_byte b) = int (unat b div 16) * 16 + int (unat b mod 16)"
      using dig b by (simp add: hex_byte_def digits_value_def)
    also have "\<dots> = int (unat b div 16 * 16 + unat b mod 16)" by (simp only: of_nat_add of_nat_mult of_nat_numeral)
    finally show ?thesis by (simp only: div_mult_mod_eq)
  qed
  have t: "takeWhile (\<lambda>c. digit_in 16 c \<noteq> None) (hex_byte b) = hex_byte b" using dig b by (simp add: hex_byte_def)
  have small: "uint b < 256" using unsigned_less [of b, where 'a = int] by simp
  have w: "word_of_int (int (unat b)) = (ucast b :: u32)" by simp
  have w2: "ucast (ucast b :: u32) = b" by (rule bit_word_eqI) (simp add: bit_simps)
  have "unat b \<le> 255" using unat_u8_less [of b] by linarith
  then have w3: "(ucast b :: u32) \<le> 0xFF" by (simp add: word_le_nat_alt unat_ucast_u8_u32)
  have z: "\<not> is_space_char (CHR ''0'')" by code_simp
  have n: "hex_byte b \<noteq> []" by (simp add: hex_byte_def)
  have "strtoul_auto (''0x'' @ hex_byte b) = (ucast b, [], False)"
    using z v small w n by (simp add: strtoul_auto_def Let_def t del: not_None_eq)
  then show ?thesis using w2 w3 by (simp add: parse_probe_index_def)
qed

section \<open>Properties\<close>

text \<open>Both documented forms of an index are read back: for every byte, its decimal text and its hexadecimal text
  after \<open>0x\<close> parse to that byte.\<close>

theorem probe_index_roundtrip:
  "parse_probe_index (dec_string (unat b)) = Some b \<and> parse_probe_index (''0x'' @ hex_byte b) = Some b"
  using parse_probe_index_dec [of b] parse_probe_index_hex [of b] by blast

text \<open>Other forms are read too: \<open>strtoul\<close> skips white space and takes a sign before the check for a leading zero
  could see it, so an octal text and a negative number are accepted as an index.\<close>

theorem probe_index_octal:
  "parse_probe_index ''010'' = None \<and> parse_probe_index '' 010'' = Some 8 \<and> parse_probe_index ''+010'' = Some 8 \<and>
   parse_probe_index ''-4294967041'' = Some 255"
  by code_simp

end
