(* ===== verification/Management.thy ===== *)
theory Management
  imports Hub_Operations Frame_Log Probe_Arguments
begin

text \<open>
  The management actions of the hub (\<open>management_actions.h\<close>, \<open>management_actions.cpp\<close>): rename, identify,
  forced opening, the roll-call scan, the one-way actions and the diagnostic probes, each a function of
  the hub that returns the result it publishes. Whether \<open>diagnostic_probes\<close> was configured and the nonces
  of the roll-call requests are arguments. An exchange that does not return (a hop dwell of zero) is
  \<open>None\<close>. Texts of the protocol are \<open>string\<close>s, device names are UTF-8 \<open>bytes\<close>. The registration of the
  actions keeps what a call checks before it runs; the encoding of the service list is ESPHome's.
\<close>

section \<open>Probes\<close>

abbreviation (input) PROBE_EXT_FUNCTION_ID_06 :: u8 where "PROBE_EXT_FUNCTION_ID_06 \<equiv> 0x06"
abbreviation (input) PROBE_EXT_FUNCTION_ID_09 :: u8 where "PROBE_EXT_FUNCTION_ID_09 \<equiv> 0x09"
abbreviation (input) PROBE_PRIVATE_FN_SUB_FUNCTION_ID :: u8 where "PROBE_PRIVATE_FN_SUB_FUNCTION_ID \<equiv> 0x09"
abbreviation (input) PROBE_STATUS_EXT_SELECTOR :: u8 where "PROBE_STATUS_EXT_SELECTOR \<equiv> 0x80"
abbreviation (input) PROBE_SWEEP_MAX_INDICES :: int where "PROBE_SWEEP_MAX_INDICES \<equiv> 16"
abbreviation (input) PROBE_SWEEP_DELAY_MS :: nat where "PROBE_SWEEP_DELAY_MS \<equiv> 1000"

type_synonym probe_builder = "node_id \<Rightarrow> node_id \<Rightarrow> u8 \<Rightarrow> bool \<Rightarrow> bool \<times> io_frame"

definition build_probe_private_fn :: probe_builder where
  "build_probe_private_fn own target index low_power = create_private_function own target low_power index 0x00"

definition build_probe_private_fn_sub :: probe_builder where
  "build_probe_private_fn_sub own target index low_power =
     create_private_function own target low_power PROBE_PRIVATE_FN_SUB_FUNCTION_ID index"

definition build_probe_status_ext :: probe_builder where
  "build_probe_status_ext own target index low_power =
     create_get_status_extended own target low_power PROBE_STATUS_EXT_SELECTOR index PRIVATE_GET_POSITION_STATUS"

definition build_probe_status_ext_fn6 :: probe_builder where
  "build_probe_status_ext_fn6 own target index low_power =
     create_get_status_extended own target low_power PROBE_STATUS_EXT_SELECTOR index PROBE_EXT_FUNCTION_ID_06"

definition build_probe_status_ext_fn9 :: probe_builder where
  "build_probe_status_ext_fn9 own target index low_power =
     create_get_status_extended own target low_power PROBE_STATUS_EXT_SELECTOR index PROBE_EXT_FUNCTION_ID_09"

definition build_probe_get_info1 :: probe_builder where
  "build_probe_get_info1 own target index low_power = create_get_info1 own target low_power"

definition build_probe_get_info2 :: probe_builder where
  "build_probe_get_info2 own target index low_power = create_get_info2 own target low_power"

definition build_probe_general_info3 :: probe_builder where
  "build_probe_general_info3 own target index low_power = create_general_info3 own target low_power"

definition build_probe_private2_long :: probe_builder where
  "build_probe_private2_long own target index low_power = create_private2_read own target index True low_power"

definition build_probe_private2_short :: probe_builder where
  "build_probe_private2_short own target index low_power = create_private2_read own target index False low_power"

text \<open>The rows of the probe table: name, whether an index is needed, builder.\<close>

record probe_descriptor =
  pd_name :: string
  pd_needs_index :: bool
  pd_builder :: probe_builder

definition PROBE_TABLE :: "probe_descriptor list" where
  "PROBE_TABLE =
     [\<lparr>pd_name = ''private_fn'', pd_needs_index = True, pd_builder = build_probe_private_fn\<rparr>,
      \<lparr>pd_name = ''private_fn_sub'', pd_needs_index = True, pd_builder = build_probe_private_fn_sub\<rparr>,
      \<lparr>pd_name = ''status_ext'', pd_needs_index = True, pd_builder = build_probe_status_ext\<rparr>,
      \<lparr>pd_name = ''status_ext_fn6'', pd_needs_index = True, pd_builder = build_probe_status_ext_fn6\<rparr>,
      \<lparr>pd_name = ''status_ext_fn9'', pd_needs_index = True, pd_builder = build_probe_status_ext_fn9\<rparr>,
      \<lparr>pd_name = ''get_info1'', pd_needs_index = False, pd_builder = build_probe_get_info1\<rparr>,
      \<lparr>pd_name = ''get_info2'', pd_needs_index = False, pd_builder = build_probe_get_info2\<rparr>,
      \<lparr>pd_name = ''general_info3'', pd_needs_index = False, pd_builder = build_probe_general_info3\<rparr>,
      \<lparr>pd_name = ''private2'', pd_needs_index = True, pd_builder = build_probe_private2_long\<rparr>,
      \<lparr>pd_name = ''private2_short'', pd_needs_index = True, pd_builder = build_probe_private2_short\<rparr>]"

definition find_probe_descriptor :: "string \<Rightarrow> probe_descriptor option" where
  "find_probe_descriptor probe = find (\<lambda>d. pd_name d = probe) PROBE_TABLE"

definition unknown_probe_message :: "string \<Rightarrow> string" where
  "unknown_probe_message probe =
     ''unknown probe '' @ quoted probe @ '' (expected '' @
     concat (map (\<lambda>(i, d). (if i = 0 then [] else if i + 1 = length PROBE_TABLE then '', or '' else '', '') @ pd_name d)
       (enumerate 0 PROBE_TABLE)) @ '')''"

section \<open>Results\<close>

record management_action_result =
  mr_success :: bool
  mr_verified :: bool
  mr_result_code :: "u8 option"
  mr_action :: string
  mr_device_id :: string
  mr_message :: string
  mr_requested_name :: bytes
  mr_applied_name :: bytes
  mr_probe_name :: string
  mr_probe_index :: string
  mr_response_cmd :: "u8 option"
  mr_response_hex :: string
  mr_terminal_refusal :: bool

definition make_management_result :: "string \<Rightarrow> string \<Rightarrow> management_action_result" where
  "make_management_result action device_id =
     \<lparr>mr_success = False, mr_verified = False, mr_result_code = None, mr_action = action, mr_device_id = device_id,
      mr_message = [], mr_requested_name = [], mr_applied_name = [], mr_probe_name = [], mr_probe_index = [],
      mr_response_cmd = None, mr_response_hex = [], mr_terminal_refusal = False\<rparr>"

definition apply_error_response :: "io_frame \<Rightarrow> management_action_result \<Rightarrow> bool \<times> management_action_result" where
  "apply_error_response response result =
     (if data_len response = 0 then (False, result\<lparr>mr_message := ''device returned an empty error response''\<rparr>)
      else (True, result\<lparr>mr_result_code := Some (data response ! 0)\<rparr>))"

definition resolve_probe_descriptor ::
  "string \<Rightarrow> management_action_result \<Rightarrow> probe_descriptor option \<times> management_action_result" where
  "resolve_probe_descriptor probe result =
     (case find_probe_descriptor probe of
        None \<Rightarrow> (None, result\<lparr>mr_message := unknown_probe_message probe\<rparr>)
      | Some d \<Rightarrow> (Some d, result))"

definition resolve_device ::
  "string \<Rightarrow> string \<Rightarrow> hub \<Rightarrow> io_device option \<times> management_action_result" where
  "resolve_device action device_id h =
     (let normalized = normalize_device_id_argument device_id;
          result = make_management_result action normalized
      in if \<not> hub_initialized h then (None, result\<lparr>mr_message := ''hub is not initialized''\<rparr>)
         else if hex_to_bytes normalized NODE_ID_SIZE = None
         then (None, result\<lparr>mr_message := ''device ID must be exactly 6 hexadecimal characters''\<rparr>)
         else case get_device normalized h of
           None \<Rightarrow> (None, result\<lparr>mr_message := ''device is not registered on this hub''\<rparr>)
         | Some dev \<Rightarrow> (Some dev, result))"

definition send_authenticated_request ::
  "exchange_env \<Rightarrow> io_frame \<Rightarrow> string \<Rightarrow> management_action_result \<Rightarrow> hub \<Rightarrow>
   (io_frame option \<times> management_action_result \<times> hub) option" where
  "send_authenticated_request env request action_verb result h = do {
     (outcome, response, r, l) \<leftarrow> send_and_receive env request FREQ_CH2 (of_nat EXCHANGE_RETRY_COUNT) (hub_radio h) (hub_engine h);
     let h = h\<lparr>hub_radio := r, hub_engine := l\<rparr> in
     if outcome = SUCCESS_WITH_RESPONSE then Some (response, result, h)
     else Some (None, result\<lparr>mr_message :=
       (if outcome = SUCCESS_UNCONFIRMED
        then ''device accepted the '' @ action_verb @ '' request but sent no response''
        else ''no valid response to '' @ action_verb @ '' request'')\<rparr>, h)
   }"

section \<open>Publishing\<close>

text \<open>The log lines with their level, and the fields of the event in the order of the \<open>std::map\<close>.\<close>

definition result_event_data :: "management_action_result \<Rightarrow> (string \<times> string) list" where
  "result_event_data result =
     [(''action'', mr_action result)] @
     (if mr_applied_name result \<noteq> [] then [(''applied_name'', bytes_text (mr_applied_name result))] else []) @
     [(''device_id'', mr_device_id result)] @
     (if mr_probe_name result \<noteq> [] \<and> mr_probe_index result \<noteq> [] then [(''index'', mr_probe_index result)] else []) @
     [(''message'', mr_message result)] @
     (if mr_probe_name result \<noteq> [] then [(''probe'', mr_probe_name result)] else []) @
     (if mr_requested_name result \<noteq> [] then [(''requested_name'', bytes_text (mr_requested_name result))] else []) @
     (case mr_response_cmd result of None \<Rightarrow> []
      | Some c \<Rightarrow> [(''response_cmd'', format_hex_byte c), (''response_cmd_name'', command_name c)]) @
     (if mr_response_hex result \<noteq> [] then [(''response_hex'', mr_response_hex result)] else []) @
     (case mr_result_code result of None \<Rightarrow> []
      | Some c \<Rightarrow> [(''result_code'', format_hex_byte c), (''result_code_name'', command_result_name c)]) @
     [(''success'', bool_to_string (mr_success result)), (''verified'', bool_to_string (mr_verified result))]"

definition publish_result ::
  "management_action_result \<Rightarrow> hub \<Rightarrow> (bool \<times> string) list \<times> (string \<times> (string \<times> string) list) option" where
  "publish_result result h =
     (let prefix = ''Management action '' @ mr_action result @
            (if mr_device_id result \<noteq> [] then '' for device '' @ mr_device_id result else []) @
            (if mr_success result then '': '' else '' failed: '')
      in (log_multiline_result (\<not> mr_success result) prefix (mr_message result),
          if hub_connected h then Some (''esphome.home_io_control_action_result'', result_event_data result) else None))"

section \<open>Actions on one device\<close>

definition error_text :: "u8 \<Rightarrow> string" where
  "error_text code = command_result_name code @ '': '' @ command_result_description code"

text \<open>The verification of an acknowledged rename, the exchange, and the action with its checks.\<close>

definition confirm_rename ::
  "exchange_env \<Rightarrow> bytes \<Rightarrow> management_action_result \<Rightarrow> hub \<Rightarrow> (management_action_result \<times> hub) option" where
  "confirm_rename env normalized_name result h = do {
     (read_back, h) \<leftarrow> request_device_name env (mr_device_id result) h;
     let result = result\<lparr>mr_success := True\<rparr>
     in if \<not> read_back
        then Some (result\<lparr>mr_message := ''rename acknowledged but verification readback failed''\<rparr>, h)
        else let result = (case get_device (mr_device_id result) h of
                   None \<Rightarrow> result | Some dev \<Rightarrow> result\<lparr>mr_applied_name := dev_name dev\<rparr>)
             in Some (if mr_applied_name result = normalized_name
                      then result\<lparr>mr_verified := True, mr_message := ''rename verified by device readback''\<rparr>
                      else result\<lparr>mr_message := ''rename acknowledged but readback did not match the requested name''\<rparr>, h)
   }"

definition rename_exchange ::
  "exchange_env \<Rightarrow> io_frame \<Rightarrow> bytes \<Rightarrow> management_action_result \<Rightarrow> hub \<Rightarrow> (management_action_result \<times> hub) option" where
  "rename_exchange env request normalized_name result h = do {
     (response, result, h) \<leftarrow> send_authenticated_request env request ''rename'' result h;
     case response of
       None \<Rightarrow> Some (result, h)
     | Some rx \<Rightarrow>
         if cmd rx = CMD_ERROR_RESP
         then (case apply_error_response rx result of
                 (False, result) \<Rightarrow> Some (result, h)
               | (True, result) \<Rightarrow> Some (result\<lparr>mr_message := error_text (data rx ! 0)\<rparr>, h))
         else if cmd rx \<noteq> CMD_SET_NAME_RESP
         then Some (result\<lparr>mr_message := ''unexpected rename response 0x'' @ hex_byte (cmd rx)\<rparr>, h)
         else confirm_rename env normalized_name result h
   }"

definition rename_device ::
  "exchange_env \<Rightarrow> string \<Rightarrow> bytes \<Rightarrow> hub \<Rightarrow> (management_action_result \<times> hub) option" where
  "rename_device env device_id new_name h =
     (case resolve_device ''rename_device'' device_id h of
        (None, result) \<Rightarrow> Some (result, h)
      | (Some dev, result) \<Rightarrow>
          (case encode_device_name_payload new_name of (name_error, name_payload, normalized_name) \<Rightarrow>
             let result = result\<lparr>mr_requested_name :=
                   (if normalized_name = [] then trim_ascii_whitespace new_name else normalized_name)\<rparr>
             in if name_error \<noteq> NAME_NONE
                then Some (result\<lparr>mr_message := device_name_validation_error_description name_error\<rparr>, h)
                else case create_set_name (env_node_id env) (dev_node_id dev) (dev_low_power dev) name_payload of
                  (False, request) \<Rightarrow> Some (result\<lparr>mr_message := ''failed to build rename request''\<rparr>, h)
                | (True, request) \<Rightarrow> rename_exchange env request normalized_name result h))"

definition identify_device ::
  "exchange_env \<Rightarrow> string \<Rightarrow> hub \<Rightarrow> (management_action_result \<times> hub) option" where
  "identify_device env device_id h =
     (case resolve_device ''identify_device'' device_id h of
        (None, result) \<Rightarrow> Some (result, h)
      | (Some dev, result) \<Rightarrow>
          (case create_identify (env_node_id env) (dev_node_id dev) (dev_low_power dev) of
             (False, request) \<Rightarrow> Some (result\<lparr>mr_message := ''failed to build identify request''\<rparr>, h)
           | (True, request) \<Rightarrow> do {
               (response, result, h) \<leftarrow> send_authenticated_request env request ''identify'' result h;
               case response of
                 None \<Rightarrow> Some (result, h)
               | Some rx \<Rightarrow>
                   let result = result\<lparr>mr_success := True\<rparr>
                   in if cmd rx = CMD_ERROR_RESP
                      then (case apply_error_response rx result of
                              (True, result) \<Rightarrow> Some (result\<lparr>mr_message :=
                                ''identify triggered (device reported '' @ error_text (data rx ! 0) @ '')''\<rparr>, h)
                            | (False, result) \<Rightarrow> Some (result\<lparr>mr_message :=
                                ''identify triggered (device returned an empty error response)''\<rparr>, h))
                      else Some (result\<lparr>mr_message := ''identify acknowledged by device''\<rparr>, h)
             }))"

definition force_open_device :: "string \<Rightarrow> hub \<Rightarrow> management_action_result \<times> hub" where
  "force_open_device device_id h =
     (case resolve_device ''force_open_device'' device_id h of
        (None, result) \<Rightarrow> (result, h)
      | (Some dev, result) \<Rightarrow>
          (case queue_device_command (mr_device_id result) CC_FORCE_OPEN h of
             (False, h) \<Rightarrow> (result\<lparr>mr_message := ''device does not accept cover commands''\<rparr>, h)
           | (True, h) \<Rightarrow> (result\<lparr>mr_success := True, mr_message :=
               ''force open queued (elevated-priority open; wind/rain lock bypass unconfirmed; movement result arrives via cover state)''\<rparr>, h)))"

section \<open>One-way actions\<close>

definition oneway_set_position :: "string \<Rightarrow> string \<Rightarrow> hub \<Rightarrow> management_action_result \<times> hub" where
  "oneway_set_position controller_id position h =
     (let result = make_management_result ''oneway_set_position'' controller_id;
          trimmed = trim_text position
      in if get_identity controller_id (otx_identities (hub_oneway h)) = None
         then (result\<lparr>mr_message := ''no oneway_controllers identity with that id''\<rparr>, h)
         else if trimmed = [] \<or> list_ex (\<lambda>c. digit_in 10 c = None) trimmed
         then (result\<lparr>mr_message := ''position must be a whole number between 0 and 100''\<rparr>, h)
         else let parsed = min (2 ^ 32 - 1) (digits_value 10 trimmed)
              in if parsed > int (unat ONEWAY_POSITION_FULLY_CLOSED)
                 then (result\<lparr>mr_message := ''position must be between 0 and 100''\<rparr>, h)
                 else (result\<lparr>mr_success := True, mr_message := ''1W position command queued''\<rparr>,
                       send_oneway_position controller_id (word_of_int parsed) h))"

definition oneway_remove_controller :: "string \<Rightarrow> hub \<Rightarrow> management_action_result \<times> hub" where
  "oneway_remove_controller controller_id h =
     (let result = make_management_result ''oneway_remove_controller'' controller_id
      in if get_identity controller_id (otx_identities (hub_oneway h)) = None
         then (result\<lparr>mr_message := ''no oneway_controllers identity with that id''\<rparr>, h)
         else (result\<lparr>mr_success := True, mr_message := ''1W remove-controller (0x39) queued''\<rparr>,
               send_oneway_unenroll controller_id h))"

section \<open>The roll-call scan\<close>

abbreviation (input) SCAN_MAX_REPLIES :: nat where "SCAN_MAX_REPLIES \<equiv> 24"

record scan_responder =
  sr_src :: node_id
  sr_type :: device_type
  sr_subtype :: u8
  sr_inverted :: bool
  sr_rssi_dbm :: int
  sr_manufacturer :: u8
  sr_flags :: u8
  sr_has_extended :: bool
  sr_metadata_complete :: bool

definition SCAN_CHANNELS :: "u32 list" where
  "SCAN_CHANNELS = [FREQ_CH2, FREQ_CH1, FREQ_CH3]"

definition manufacturer_name :: "u8 \<Rightarrow> string" where
  "manufacturer_name code = switch_on [
     (MANUFACTURER_VELUX, ''VELUX''),
     (MANUFACTURER_SOMFY, ''Somfy''),
     (MANUFACTURER_HONEYWELL, ''Honeywell''),
     (MANUFACTURER_HORMANN, ''H'' @ [CHR 0xC3, CHR 0xB6] @ ''rmann''),
     (MANUFACTURER_ASSA_ABLOY, ''ASSA ABLOY''),
     (MANUFACTURER_NIKO, ''Niko''),
     (MANUFACTURER_WINDOW_MASTER, ''WINDOW MASTER''),
     (MANUFACTURER_RENSON, ''Renson''),
     (MANUFACTURER_CIAT, ''CIAT''),
     (MANUFACTURER_SECUYOU, ''Secuyou''),
     (MANUFACTURER_OVERKIZ, ''OVERKIZ''),
     (MANUFACTURER_ATLANTIC_GROUP, ''Atlantic Group'')] ''unknown'' code"

definition discovery_att_class :: "u8 \<Rightarrow> u8" where
  "discovery_att_class flags = drop_bit DISCOVERY_FLAGS_ATT_SHIFT (flags AND DISCOVERY_FLAGS_ATT_MASK)"

definition format_scan_reply_line :: "scan_responder \<Rightarrow> string \<Rightarrow> bool \<Rightarrow> string" where
  "format_scan_reply_line responder device_id known =
     (let line = ''  '' @ device_id @ '': '' @ device_type_name (sr_type responder) @ '' subtype='' @
            dec_string (unat (sr_subtype responder)) @ '' rssi='' @ dec_int (sr_rssi_dbm responder) @ ''dBm'' @
            (if sr_has_extended responder
             then '' manufacturer='' @ manufacturer_name (sr_manufacturer responder) @
                  '' turnaround='' @ att_class_name (discovery_att_class (sr_flags responder)) @
                  '' power_save='' @ power_save_mode_name (discovery_power_save_mode (sr_flags responder))
             else []) @ text_line (if known then '' [known]'' else '' [unknown]'')
      in if known then line
         else let low_power = (sr_has_extended responder \<and>
                    discovery_power_save_mode (sr_flags responder) = POWER_SAVE_LOW_POWER);
                  snippet = build_device_yaml_snippet (sr_type responder) (sr_subtype responder) device_id
                    (sr_metadata_complete responder) (sr_inverted responder) low_power
              in if snippet \<noteq> [] then line @ text_line ''    Paste this into your YAML to register it:'' @ snippet
                 else line @ text_line (''    no ready-to-paste YAML: no ESPHome platform for io_device_type: '' @
                   format_device_type_for_yaml (sr_type responder)))"

datatype scan_add_result = SA_ADDED | SA_DUPLICATE | SA_FULL

definition add_scan_responder ::
  "scan_responder list \<Rightarrow> nat \<Rightarrow> io_frame \<Rightarrow> int \<Rightarrow> scan_add_result \<times> scan_responder list" where
  "add_scan_responder responders capacity frame rssi_dbm =
     (if list_ex (\<lambda>e. sr_src e = src frame) responders then (SA_DUPLICATE, responders)
      else if length responders \<ge> capacity then (SA_FULL, responders)
      else case decode_discovery_response frame new_device of (info, device, unused_device_id) \<Rightarrow>
        (SA_ADDED, responders @
           [\<lparr>sr_src = src frame, sr_type = dev_type device, sr_subtype = dev_subtype device,
             sr_inverted = dev_inverted device, sr_rssi_dbm = rssi_dbm, sr_manufacturer = dri_manufacturer info,
             sr_flags = dri_flags info, sr_has_extended = dri_has_extended info,
             sr_metadata_complete = dri_metadata_complete info\<rparr>]))"

text \<open>What the callback of an attempt does with one reply, and the attempts, one per channel.\<close>

definition scan_reply :: "io_frame \<times> int \<Rightarrow> scan_responder list \<times> bool \<Rightarrow> scan_responder list \<times> bool" where
  "scan_reply reply state =
     (case (reply, state) of ((frame, rssi_dbm), responders, truncated) \<Rightarrow>
        (case add_scan_responder responders SCAN_MAX_REPLIES frame rssi_dbm of
           (added, responders) \<Rightarrow> (responders, truncated \<or> added = SA_FULL)))"

fun scan_attempts ::
  "exchange_env \<Rightarrow> (nat \<Rightarrow> bytes) \<Rightarrow> nat \<Rightarrow> u32 list \<Rightarrow> scan_responder list \<times> bool \<Rightarrow> hub \<Rightarrow>
   ((scan_responder list \<times> bool) option \<times> hub) option" where
  "scan_attempts env nonce attempt [] state h = Some (Some state, h)"
| "scan_attempts env nonce attempt (freq # freqs) state h =
     (case create_discovery_request (env_node_id env) CMD_DISCOVER_SPE_REQ BROADCAST_DISCOVER False False 0
             (Some (env_system_key env)) (nonce attempt) of
        (False, request) \<Rightarrow> Some (None, h)
      | (True, request) \<Rightarrow> do {
          (count, replies, r, l) \<leftarrow> collect_broadcast_responses env request freq CMD_DISCOVER_SPE_RESP
             (ucast (pairing_discovery_wait_ms (env_tuning env))) (hub_radio h) (hub_engine h);
          scan_attempts env nonce (attempt + 1) freqs (fold scan_reply replies state) (h\<lparr>hub_radio := r, hub_engine := l\<rparr>)
        })"

definition scan_report :: "hub \<Rightarrow> scan_responder list \<Rightarrow> bool \<Rightarrow> string" where
  "scan_report h responders truncated =
     (let known = (\<lambda>e. get_device (node_id_to_string (sr_src e)) h \<noteq> None);
          line = (\<lambda>e. format_scan_reply_line e (node_id_to_string (sr_src e)) (known e));
          known_body = concat (map line (filter known responders));
          unknown_body = concat (map line (filter (\<lambda>e. \<not> known e) responders));
          count = length responders;
          unknown_count = length (filter (\<lambda>e. \<not> known e) responders)
      in text_line (''Roll-call: '' @ dec_string count @ '' device'' @ (if count = 1 then [] else ''s'') @
           '' detected ('' @ dec_string (count - unknown_count) @ '' known, '' @ dec_string unknown_count @ '' unknown)'') @
         (if truncated
          then text_line (''NOTE: more than '' @ dec_string SCAN_MAX_REPLIES @
             '' devices answered; the list below is truncated. Re-run to see whether other devices '' @
             ''appear, and raise SCAN_MAX_REPLIES if this install really is larger.'')
          else []) @
         (if known_body \<noteq> [] then text_line ''Known:'' @ known_body else []) @
         (if unknown_body \<noteq> [] then text_line ''Unknown:'' @ unknown_body else []))"

definition scan_paired_devices ::
  "exchange_env \<Rightarrow> (nat \<Rightarrow> bytes) \<Rightarrow> hub \<Rightarrow> (management_action_result \<times> hub) option" where
  "scan_paired_devices env nonce h =
     (let result = make_management_result ''scan_paired_devices'' [] in
      if \<not> hub_initialized h then Some (result\<lparr>mr_message := ''hub is not initialized''\<rparr>, h)
      else do {
        (scanned, h) \<leftarrow> scan_attempts env nonce 0 SCAN_CHANNELS ([], False) h;
        Some (case scanned of
            None \<Rightarrow> (result\<lparr>mr_message := ''failed to build roll-call request''\<rparr>, h)
          | Some (responders, truncated) \<Rightarrow>
              (result\<lparr>mr_success := True, mr_message := scan_report h responders truncated\<rparr>, h))
      })"

section \<open>Diagnostic probes\<close>

definition probe_reply :: "string \<Rightarrow> io_frame \<Rightarrow> management_action_result \<Rightarrow> management_action_result" where
  "probe_reply probe response result =
     (let raw = serialize response FRAME_MAX_SIZE;
          hex = render_frame_hex_redacted raw FRAME_LOG_HEX_BUFFER_SIZE;
          result = result\<lparr>mr_success := True, mr_response_cmd := Some (cmd response), mr_response_hex := hex,
            mr_message := ''probe '' @ quoted probe @ '' reply cmd=0x'' @ format_hex_byte (cmd response) @ '' ('' @
              command_name (cmd response) @ '') hex='' @ hex\<rparr>
      in if cmd response = CMD_ERROR_RESP
         then (case apply_error_response response result of
                 (True, result) \<Rightarrow> result\<lparr>mr_message := mr_message result @ '' ['' @ error_text (data response ! 0) @ '']''\<rparr>
               | (False, result) \<Rightarrow> result)
         else result)"

definition probe_exchange ::
  "exchange_env \<Rightarrow> string \<Rightarrow> io_frame \<Rightarrow> management_action_result \<Rightarrow> hub \<Rightarrow> (management_action_result \<times> hub) option" where
  "probe_exchange env probe request result h = do {
     (outcome, response, r, l) \<leftarrow> send_and_receive env request FREQ_CH2 (of_nat EXCHANGE_RETRY_COUNT) (hub_radio h) (hub_engine h);
     let h = h\<lparr>hub_radio := r, hub_engine := l\<rparr> in
     if outcome \<noteq> SUCCESS_WITH_RESPONSE
     then Some (result\<lparr>mr_message :=
       (if outcome = SUCCESS_UNCONFIRMED then ''device accepted the probe request but sent no response''
        else ''no reply after '' @ dec_string EXCHANGE_RETRY_COUNT @
          '' attempts (device asleep, unreachable, or silently ignoring this opcode)'')\<rparr>, h)
     else case response of None \<Rightarrow> None | Some rx \<Rightarrow> Some (probe_reply probe rx result, h)
   }"

definition probe_device ::
  "exchange_env \<Rightarrow> bool \<Rightarrow> string \<Rightarrow> string \<Rightarrow> string \<Rightarrow> hub \<Rightarrow> (management_action_result \<times> hub) option" where
  "probe_device env probes_enabled device_id probe index h =
     (case resolve_device ''probe_device'' device_id h of
        (None, result) \<Rightarrow> Some (result\<lparr>mr_probe_name := probe, mr_probe_index := index\<rparr>, h)
      | (Some dev, result) \<Rightarrow>
          let result = result\<lparr>mr_probe_name := probe, mr_probe_index := index\<rparr>
          in if \<not> probes_enabled
             then Some (result\<lparr>mr_message := ''diagnostic probes are not enabled; set diagnostic_probes: true in YAML'',
                               mr_terminal_refusal := True\<rparr>, h)
             else if \<not> effective_is_stopped dev
             then Some (result\<lparr>mr_message := ''device is moving; refusing to probe mid-transaction'',
                               mr_terminal_refusal := True\<rparr>, h)
             else case resolve_probe_descriptor probe result of
               (None, result) \<Rightarrow> Some (result, h)
             | (Some descriptor, result) \<Rightarrow>
                 (case (if pd_needs_index descriptor then parse_probe_index index else Some 0) of
                    None \<Rightarrow> Some (result\<lparr>mr_message := ''index must be a decimal or 0x-prefixed byte value (0-255)''\<rparr>, h)
                  | Some index_byte \<Rightarrow>
                      (case pd_builder descriptor (env_node_id env) (dev_node_id dev) index_byte (dev_low_power dev) of
                         (False, request) \<Rightarrow> Some (result\<lparr>mr_message := ''failed to build probe request''\<rparr>, h)
                       | (True, request) \<Rightarrow> probe_exchange env probe request result h)))"

text \<open>The loop of a sweep over the indices that are left.\<close>

definition sweep_line :: "int \<Rightarrow> management_action_result \<Rightarrow> string" where
  "sweep_line idx step =
     ''index=0x'' @ format_hex_byte (word_of_int idx) @ '': '' @
     text_line (if mr_success step
                then ''cmd=0x'' @ format_hex_byte (the (mr_response_cmd step)) @ '' hex='' @ mr_response_hex step
                else mr_message step)"

fun sweep_steps ::
  "exchange_env \<Rightarrow> bool \<Rightarrow> string \<Rightarrow> string \<Rightarrow> int \<Rightarrow> int list \<Rightarrow> nat \<Rightarrow> string \<Rightarrow> hub \<Rightarrow> (nat \<times> string \<times> bool \<times> hub) option" where
  "sweep_steps env probes_enabled device_id probe begin_index [] n_answered report h = Some (n_answered, report, False, h)"
| "sweep_steps env probes_enabled device_id probe begin_index (idx # rest) n_answered report h = do {
     let h = (if idx \<noteq> begin_index then h\<lparr>hub_radio := delay_ms PROBE_SWEEP_DELAY_MS (hub_radio h)\<rparr> else h);
     (step, h) \<leftarrow> probe_device env probes_enabled device_id probe (dec_string (nat idx)) h;
     let n_answered = (if mr_success step then n_answered + 1 else n_answered);
     let report = report @ sweep_line idx step;
     if mr_terminal_refusal step
     then Some (n_answered, report @ text_line (''(stopping sweep: '' @ mr_message step @ '')''), True, h)
     else sweep_steps env probes_enabled device_id probe begin_index rest n_answered report h
   }"

definition sweep_range :: "u8 \<Rightarrow> u8 \<Rightarrow> string" where
  "sweep_range lo hi = ''0x'' @ format_hex_byte lo @ ''-0x'' @ format_hex_byte hi"

definition probe_sweep ::
  "exchange_env \<Rightarrow> bool \<Rightarrow> string \<Rightarrow> string \<Rightarrow> string \<Rightarrow> string \<Rightarrow> hub \<Rightarrow> (management_action_result \<times> hub) option" where
  "probe_sweep env probes_enabled device_id probe first_index last_index h =
     (let result = (make_management_result ''probe_sweep'' (normalize_device_id_argument device_id))\<lparr>mr_probe_name := probe\<rparr> in
      case resolve_device ''probe_sweep'' device_id h of
        (None, resolve_result) \<Rightarrow> Some (result\<lparr>mr_message := mr_message resolve_result\<rparr>, h)
      | (Some dev, resolve_result) \<Rightarrow>
          (case resolve_probe_descriptor probe result of
             (None, result) \<Rightarrow> Some (result, h)
           | (Some descriptor, result) \<Rightarrow>
               if \<not> pd_needs_index descriptor
               then Some (result\<lparr>mr_message := ''probe '' @ quoted probe @ '' takes no index; use probe_device''\<rparr>, h)
               else case (parse_probe_index first_index, parse_probe_index last_index) of
                 (Some lo, Some hi) \<Rightarrow>
                   if hi < lo then Some (result\<lparr>mr_message := ''last_index must be >= first_index''\<rparr>, h)
                   else let sweep_width = uint hi - uint lo + 1
                        in if sweep_width > PROBE_SWEEP_MAX_INDICES
                           then Some (result\<lparr>mr_message := ''sweep range too wide: '' @ dec_int sweep_width @ '' indices, max '' @
                                  dec_int PROBE_SWEEP_MAX_INDICES\<rparr>, h)
                           else do {
                             (n_answered, report, stopped_early, h) \<leftarrow>
                                sweep_steps env probes_enabled device_id probe (uint lo) [uint lo..uint hi] 0 [] h;
                             Some (result\<lparr>mr_success := \<not> stopped_early, mr_probe_index := sweep_range lo hi,
                                mr_message := text_line (''Sweep '' @ quoted probe @ '' over [0x'' @ format_hex_byte lo @ '',0x'' @
                                  format_hex_byte hi @ '']: '' @ dec_string n_answered @ '' answered'') @ report\<rparr>, h)
                           }
               | _ \<Rightarrow> Some (result\<lparr>mr_message := ''first_index/last_index must be decimal or 0x-prefixed byte values (0-255)''\<rparr>, h)))"

section \<open>The registered actions\<close>

text \<open>
  Each registered action: its name, its arguments, whether it needs \<open>diagnostic_probes\<close>, and what it
  does with the argument texts. A call is executed only with the number of arguments of the action.
\<close>

datatype management_call =
    Call_rename string bytes | Call_identify string | Call_force_open string | Call_scan
  | Call_oneway_set_position string string | Call_oneway_remove_controller string
  | Call_probe_device string string string | Call_probe_sweep string string string string

definition action_table :: "(string \<times> string list \<times> bool) list" where
  "action_table =
     [(''rename_device'', [''device_id'', ''new_name''], False),
      (''identify_device'', [''device_id''], False),
      (''force_open_device'', [''device_id''], False),
      (''scan_paired_devices'', [], False),
      (''oneway_set_position'', [''controller_id'', ''position''], False),
      (''oneway_remove_controller'', [''controller_id''], False),
      (''probe_device'', [''device_id'', ''probe'', ''index''], True),
      (''probe_sweep'', [''device_id'', ''probe'', ''first_index'', ''last_index''], True)]"

definition register_actions :: "bool \<Rightarrow> (string \<times> string list) list" where
  "register_actions probes_enabled =
     map (\<lambda>(name, args, diagnostic_only). (name, args))
       (filter (\<lambda>(name, args, diagnostic_only). \<not> diagnostic_only \<or> probes_enabled) action_table)"

definition decode_call :: "string \<Rightarrow> string list \<Rightarrow> management_call option" where
  "decode_call name args =
     (if name = ''rename_device'' then (case args of [d, n] \<Rightarrow> Some (Call_rename d (text_bytes n)) | _ \<Rightarrow> None)
      else if name = ''identify_device'' then (case args of [d] \<Rightarrow> Some (Call_identify d) | _ \<Rightarrow> None)
      else if name = ''force_open_device'' then (case args of [d] \<Rightarrow> Some (Call_force_open d) | _ \<Rightarrow> None)
      else if name = ''scan_paired_devices'' then (case args of [] \<Rightarrow> Some Call_scan | _ \<Rightarrow> None)
      else if name = ''oneway_set_position'' then (case args of [c, p] \<Rightarrow> Some (Call_oneway_set_position c p) | _ \<Rightarrow> None)
      else if name = ''oneway_remove_controller'' then (case args of [c] \<Rightarrow> Some (Call_oneway_remove_controller c) | _ \<Rightarrow> None)
      else if name = ''probe_device'' then (case args of [d, p, i] \<Rightarrow> Some (Call_probe_device d p i) | _ \<Rightarrow> None)
      else if name = ''probe_sweep'' then (case args of [d, p, a, b] \<Rightarrow> Some (Call_probe_sweep d p a b) | _ \<Rightarrow> None)
      else None)"

definition run_call ::
  "exchange_env \<Rightarrow> (nat \<Rightarrow> bytes) \<Rightarrow> bool \<Rightarrow> management_call \<Rightarrow> hub \<Rightarrow> (management_action_result \<times> hub) option" where
  "run_call env nonce probes_enabled call h =
     (case call of
        Call_rename d n \<Rightarrow> rename_device env d n h
      | Call_identify d \<Rightarrow> identify_device env d h
      | Call_force_open d \<Rightarrow> Some (force_open_device d h)
      | Call_scan \<Rightarrow> scan_paired_devices env nonce h
      | Call_oneway_set_position c p \<Rightarrow> Some (oneway_set_position c p h)
      | Call_oneway_remove_controller c \<Rightarrow> Some (oneway_remove_controller c h)
      | Call_probe_device d p i \<Rightarrow> probe_device env probes_enabled d p i h
      | Call_probe_sweep d p a b \<Rightarrow> probe_sweep env probes_enabled d p a b h)"

text \<open>A service request names an action by the hash of its name; unknown and unregistered actions are refused.\<close>

definition execute_service ::
  "exchange_env \<Rightarrow> (nat \<Rightarrow> bytes) \<Rightarrow> bool \<Rightarrow> string \<Rightarrow> string list \<Rightarrow> hub \<Rightarrow> (management_action_result option \<times> hub) option" where
  "execute_service env nonce probes_enabled name args h =
     (case map_of (register_actions probes_enabled) name of
        None \<Rightarrow> Some (None, h)
      | Some arg_names \<Rightarrow>
          if length args \<noteq> length arg_names then Some (None, h)
          else case decode_call name args of
            None \<Rightarrow> Some (None, h)
          | Some call \<Rightarrow> map_option (\<lambda>(result, h). (Some result, h)) (run_call env nonce probes_enabled call h))"

section \<open>Lemmas: the scan\<close>

text \<open>Every sender once, in the order in which it was first heard.\<close>

definition first_seen :: "'a list \<Rightarrow> 'a list" where
  "first_seen xs = rev (remdups (rev xs))"

lemma first_seen_simps [simp]:
  "first_seen [] = []"
  "first_seen (xs @ [x]) = (if x \<in> set xs then first_seen xs else first_seen xs @ [x])"
  "set (first_seen xs) = set xs" "distinct (first_seen xs)"
  by (simp_all add: first_seen_def)

lemma scan_reply_step:
  obtains (again) "list_ex (\<lambda>e. sr_src e = src frame) rs" "scan_reply (frame, rssi) (rs, tr) = (rs, tr)"
    | (full) "\<not> list_ex (\<lambda>e. sr_src e = src frame) rs" "SCAN_MAX_REPLIES \<le> length rs" "scan_reply (frame, rssi) (rs, tr) = (rs, True)"
    | (fresh) e where "\<not> list_ex (\<lambda>e. sr_src e = src frame) rs" "length rs < SCAN_MAX_REPLIES"
        "sr_src e = src frame" "scan_reply (frame, rssi) (rs, tr) = (rs @ [e], tr)"
proof -
  consider "list_ex (\<lambda>e. sr_src e = src frame) rs" | "\<not> list_ex (\<lambda>e. sr_src e = src frame) rs" "SCAN_MAX_REPLIES \<le> length rs"
    | "\<not> list_ex (\<lambda>e. sr_src e = src frame) rs" "length rs < SCAN_MAX_REPLIES" by linarith
  then show ?thesis
  proof cases
    case 3
    obtain info device i where d: "decode_discovery_response frame new_device = (info, device, i)" by (metis surj_pair)
    show ?thesis by (rule fresh [OF 3]) (use 3 d in \<open>simp_all add: scan_reply_def add_scan_responder_def\<close>)
  qed (use again full in \<open>simp_all add: scan_reply_def add_scan_responder_def\<close>)
qed

lemma fold_scan_reply:
  "map sr_src (fst (fold scan_reply replies ([], False))) = take SCAN_MAX_REPLIES (first_seen (map (\<lambda>a. src (fst a)) replies)) \<and>
   snd (fold scan_reply replies ([], False)) = (SCAN_MAX_REPLIES < length (first_seen (map (\<lambda>a. src (fst a)) replies)))"
proof (induction replies rule: rev_induct)
  case (snoc reply replies)
  obtain frame rssi where r: "reply = (frame, rssi)" by (cases reply)
  obtain rs tr where s: "fold scan_reply replies ([], False) = (rs, tr)" by fastforce
  let ?seen = "first_seen (map (\<lambda>a. src (fst a)) replies)"
  have rs: "map sr_src rs = take SCAN_MAX_REPLIES ?seen" and tr: "tr = (SCAN_MAX_REPLIES < length ?seen)"
    using snoc s by simp_all
  have ex: "list_ex (\<lambda>e. sr_src e = src frame) rs \<longleftrightarrow> src frame \<in> set (take SCAN_MAX_REPLIES ?seen)"
    unfolding rs [symmetric] list_ex_iff set_map by (metis imageE image_eqI)
  have len: "length rs = min SCAN_MAX_REPLIES (length ?seen)" using arg_cong [OF rs, of length] by (simp add: min.commute)
  have all: "src frame \<in> set ?seen \<longleftrightarrow> src frame \<in> set (map (\<lambda>a. src (fst a)) replies)" by simp
  show ?case
  proof (cases rule: scan_reply_step [of frame rs rssi tr])
    case again
    then have "src frame \<in> set (map (\<lambda>a. src (fst a)) replies)" using ex all by (metis in_set_takeD)
    then show ?thesis using again rs tr by (simp add: s r)
  next
    case full
    have "SCAN_MAX_REPLIES < length ?seen \<or> src frame \<notin> set ?seen"
      using full ex len by (cases "length ?seen = SCAN_MAX_REPLIES") auto
    then show ?thesis using full ex rs tr len all by (auto simp: s r)
  next
    case (fresh e)
    then have "src frame \<notin> set (map (\<lambda>a. src (fst a)) replies)" using ex all len by simp
    moreover have "length ?seen < SCAN_MAX_REPLIES" using fresh(2) len by (simp add: min_def split: if_splits)
    ultimately show ?thesis using fresh rs tr len by (simp add: s r)
  qed
qed simp

lemma frames_in_append: "frames_in (a @ b) = frames_in a @ frames_in b"
  by (simp add: frames_in_def List.map_filter_def)

lemma discovery_request_built:
  assumes "length n = 6"
  obtains request where "create_discovery_request own CMD_DISCOVER_SPE_REQ target low_power False 0 (Some key) n = (True, request)"
  using set_cmd_addressed [of True True low_power own target CMD_DISCOVER_SPE_REQ "n @ create_hmac [CMD_DISCOVER_SPE_REQ] n key"]
    length_create_hmac_le [of "[CMD_DISCOVER_SPE_REQ]" n key] assms that
  by (cases "create_discovery_request own CMD_DISCOVER_SPE_REQ target low_power False 0 (Some key) n")
     (auto simp: create_discovery_request_def Let_def)

lemma scan_attempts_collects:
  assumes "hop_dwell_ms (env_chip env) (env_tuning env) \<noteq> 0" and "\<forall>k. length (nonce k) = 6"
  shows "\<exists>c replies r' l'. scan_attempts env nonce attempt freqs state h =
      Some (Some (fold scan_reply replies state), h\<lparr>hub_radio := r', hub_engine := l'\<rparr>) \<and>
    rad_air (hub_radio h) = c @ rad_air r' \<and>
    map fst replies = filter (is_broadcast_reply env CMD_DISCOVER_SPE_RESP) (frames_in c)"
proof (induction freqs arbitrary: attempt state h)
  case Nil
  show ?case by (intro exI [of _ "[]"] exI [of _ "hub_radio h"] exI [of _ "hub_engine h"]) simp
next
  case (Cons freq freqs)
  obtain request where q: "create_discovery_request (env_node_id env) CMD_DISCOVER_SPE_REQ BROADCAST_DISCOVER False False 0
      (Some (env_system_key env)) (nonce attempt) = (True, request)"
    by (rule discovery_request_built) (use assms(2) in auto)
  obtain count replies1 r1 l1 c1 where one: "collect_broadcast_responses env request freq CMD_DISCOVER_SPE_RESP
        (ucast (pairing_discovery_wait_ms (env_tuning env))) (hub_radio h) (hub_engine h) = Some (count, replies1, r1, l1)"
      "rad_air (hub_radio h) = c1 @ rad_air r1"
      "map fst replies1 = filter (is_broadcast_reply env CMD_DISCOVER_SPE_RESP) (frames_in c1)"
    using roll_call_collects [OF assms(1)] by blast
  obtain c2 replies2 r2 l2 where two: "scan_attempts env nonce (attempt + 1) freqs (fold scan_reply replies1 state)
        (h\<lparr>hub_radio := r1, hub_engine := l1\<rparr>) =
      Some (Some (fold scan_reply replies2 (fold scan_reply replies1 state)), h\<lparr>hub_radio := r2, hub_engine := l2\<rparr>)"
      "rad_air r1 = c2 @ rad_air r2"
      "map fst replies2 = filter (is_broadcast_reply env CMD_DISCOVER_SPE_RESP) (frames_in c2)"
    using Cons.IH [of "attempt + 1" "fold scan_reply replies1 state" "h\<lparr>hub_radio := r1, hub_engine := l1\<rparr>"] by auto
  show ?case
    by (rule exI [of _ "c1 @ c2"], rule exI [of _ "replies1 @ replies2"], rule exI [of _ r2], rule exI [of _ l2])
       (use q one two in \<open>simp add: frames_in_append\<close>)
qed

lemma scan_report_radio [simp]: "scan_report (h\<lparr>hub_radio := r, hub_engine := l\<rparr>) = scan_report h"
  by (intro ext) (simp add: scan_report_def get_device_def)

section \<open>Lemmas: what an update does to the name\<close>

lemma dev_name_updates [simp]:
  "dev_name (update_link_health now rssi dev) = dev_name dev"
  "dev_name (normalize_stopped_state dev) = dev_name dev"
  "dev_name (clear_command_result dev) = dev_name dev"
  "dev_name (record_command_result now c dev) = dev_name dev"
  "dev_name (apply_info2_response rx dev) = dev_name dev"
  by (simp_all add: update_link_health_def normalize_stopped_state_def clear_command_result_def record_command_result_def
      apply_info2_response_def Let_def split: option.split)

lemma dev_name_decode_status [simp]: "dev_name (decode_status_fields rx t c tilt dev) = dev_name dev"
  by (simp add: decode_status_fields_def Let_def split_beta)

lemma dev_name_status [simp]:
  "dev_name (fst (apply_private_response_status d now rx trust dev policy)) = dev_name dev"
  "dev_name (fst (apply_unsolicited_status_update d now rx dev policy)) = dev_name dev"
  by (simp_all add: apply_private_response_status_def apply_unsolicited_status_update_def Let_def)

lemma name_after_update:
  assumes "src rx = dev_node_id dev" and "node_id_to_string (dev_node_id dev) = device_id"
    and "get_device device_id h = Some dev"
  shows "\<exists>dev'. get_device device_id (update_device_status rx trust h) = Some dev' \<and>
     dev_name dev' = (if cmd rx = CMD_GET_NAME_RESP \<and> data_len rx \<noteq> 0
           then takeWhile (\<lambda>b. b \<noteq> 0) (decode_device_name_payload (payload rx)) else dev_name dev)"
proof -
  have s: "node_id_to_string (src rx) = device_id" using assms by simp
  have n: "dev_name (apply_name_response rx k) = takeWhile (\<lambda>b. b \<noteq> 0) (decode_device_name_payload (payload rx))" for k
    by (simp add: apply_name_response_def)
  show ?thesis
    using assms(3) n by (simp add: update_device_status_def s Let_def split_beta linorder_not_less)
qed

section \<open>Lemmas: exchanges of the actions\<close>

lemma resolve_device_some:
  assumes "resolve_device action device_id h = (Some dev, result)"
  shows "hub_initialized h" and "get_device (normalize_device_id_argument device_id) h = Some dev"
    and "result = make_management_result action (normalize_device_id_argument device_id)"
  using assms by (auto simp: resolve_device_def Let_def split: if_splits option.splits)

lemma no_payload_addressed:
  assumes "create_no_payload_request own target low_power c = (ok, request)"
  shows "cmd request = c \<and> src request = own \<and> dst request = target"
  using assms set_cmd_addressed [of True False low_power own target c "[]"] by (auto simp: create_no_payload_request_def)

text \<open>An exchange of an action: what it returns was heard from the addressed device.\<close>

lemma send_authenticated_request_heard:
  assumes "send_authenticated_request env request verb result h = Some (Some rx, result', h')"
  shows "result' = result" and "heard (hub_radio h) (hub_radio h') rx" and "src rx = dst request" and "dst rx = src request"
    and "h' = h\<lparr>hub_radio := hub_radio h', hub_engine := hub_engine h'\<rparr>"
proof -
  obtain outcome response r l where run: "send_and_receive env request FREQ_CH2 (of_nat EXCHANGE_RETRY_COUNT) (hub_radio h) (hub_engine h) =
      Some (outcome, response, r, l)"
    and g: "\<forall>rx. response = Some rx \<longrightarrow> heard (hub_radio h) r rx \<and> src rx = dst request \<and> dst rx = src request"
    by (rule execute_request_outcome)
  have "response = Some rx" "result' = result" "h' = h\<lparr>hub_radio := r, hub_engine := l\<rparr>"
    using assms run by (auto simp: send_authenticated_request_def Let_def split: if_splits)
  then show "result' = result" "heard (hub_radio h) (hub_radio h') rx" "src rx = dst request" "dst rx = src request"
      "h' = h\<lparr>hub_radio := hub_radio h', hub_engine := hub_engine h'\<rparr>"
    using g by simp_all
qed

text \<open>A name that was read back: the device record after a successful name request.\<close>

lemma request_device_name_read:
  assumes "request_device_name env device_id h = Some (True, h')"
    and "get_device device_id h = Some dev" and "node_id_to_string (dev_node_id dev) = device_id"
  obtains rx dev' where "heard (hub_radio h) (hub_radio h') rx" and "src rx = dev_node_id dev" and "dst rx = env_node_id env"
    and "cmd rx \<noteq> CMD_ERROR_RESP" and "get_device device_id h' = Some dev'"
    and "dev_name dev' = (if cmd rx = CMD_GET_NAME_RESP \<and> data_len rx \<noteq> 0
           then takeWhile (\<lambda>b. b \<noteq> 0) (decode_device_name_payload (payload rx)) else dev_name dev)"
proof -
  obtain ok request where b: "create_get_name (env_node_id env) (dev_node_id dev) (dev_low_power dev) = (ok, request)" by fastforce
  note req = no_payload_addressed [OF b [unfolded create_get_name_def]]
  have ex: "execute_request_and_update env device_id request 0 (of_nat EXCHANGE_RETRY_COUNT) h = Some (True, h')"
    using assms(1,2) b by (auto simp: request_device_name_def split: if_splits bool.splits)
  obtain outcome response r l where sr: "send_and_receive env request FREQ_CH2 (of_nat EXCHANGE_RETRY_COUNT) (hub_radio h) (hub_engine h) =
      Some (outcome, response, r, l)"
    and o: "outcome = SUCCESS_WITH_RESPONSE \<longleftrightarrow> response \<noteq> None"
    and g: "\<forall>rx. response = Some rx \<longrightarrow> heard (hub_radio h) r rx \<and> src rx = dst request \<and> dst rx = src request"
    by (rule execute_request_outcome)
  obtain rx where rx: "response = Some rx" "cmd rx \<noteq> CMD_ERROR_RESP"
      and h': "h' = update_device_status rx True (h\<lparr>hub_radio := r, hub_engine := l\<rparr>)"
    using ex o req unfolding execute_request_and_update_def sr
    by (cases outcome; cases response) (auto simp: Let_def handle_error_response_def split: if_splits)
  have src: "src rx = dev_node_id dev" "heard (hub_radio h) r rx" "dst rx = env_node_id env" using g rx(1) req by auto
  have at: "get_device device_id (h\<lparr>hub_radio := r, hub_engine := l\<rparr>) = Some dev" using assms(2) by (simp add: get_device_def)
  have "\<exists>dev'. get_device device_id h' = Some dev' \<and>
     dev_name dev' = (if cmd rx = CMD_GET_NAME_RESP \<and> data_len rx \<noteq> 0
           then takeWhile (\<lambda>b. b \<noteq> 0) (decode_device_name_payload (payload rx)) else dev_name dev)"
    unfolding h' by (rule name_after_update [OF src(1) assms(3) at])
  then show ?thesis using that src rx h' by auto
qed


lemma probe_exchange_effect:
  assumes "\<not> mr_terminal_refusal result"
  shows "\<exists>result' r' l' sent. probe_exchange env probe request result h = Some (result', h\<lparr>hub_radio := r', hub_engine := l'\<rparr>) \<and>
    \<not> mr_terminal_refusal result' \<and> rad_sent r' = rad_sent (hub_radio h) @ sent \<and> length sent \<le> 6 \<and>
    (mr_success result' \<longrightarrow> mr_success result \<or>
      (\<exists>rx. heard (hub_radio h) r' rx \<and> src rx = dst request \<and> dst rx = src request \<and> mr_response_cmd result' = Some (cmd rx)))"
proof -
  obtain outcome response r' l' sent where run: "send_and_receive env request FREQ_CH2 (of_nat EXCHANGE_RETRY_COUNT)
      (hub_radio h) (hub_engine h) = Some (outcome, response, r', l')"
    and s: "rad_sent r' = rad_sent (hub_radio h) @ sent" "length sent \<le> 2 * tries_allowed (of_nat EXCHANGE_RETRY_COUNT)"
    using exchange_sends by blast
  have g: "(outcome = SUCCESS_WITH_RESPONSE \<longleftrightarrow> response \<noteq> None) \<and>
      (\<forall>rx. response = Some rx \<longrightarrow> heard (hub_radio h) r' rx \<and> src rx = dst request \<and> dst rx = src request)"
    by (rule execute_request_outcome [of env request FREQ_CH2 "of_nat EXCHANGE_RETRY_COUNT" h]) (use run in auto)
  have l: "length sent \<le> 6" using s(2) tries_allowed_bounds(2) [of "of_nat EXCHANGE_RETRY_COUNT"] by linarith
  have t: "\<not> mr_terminal_refusal (probe_reply probe rx result) \<and> mr_response_cmd (probe_reply probe rx result) = Some (cmd rx)" for rx
    using assms by (simp add: probe_reply_def apply_error_response_def Let_def)
  show ?thesis
    using run s(1) l g t assms by (cases response) (auto simp: probe_exchange_def Let_def)
qed

lemma probe_device_cases:
  obtains (refused) result where "probe_device env probes_enabled device_id probe index h = Some (result, h)" "\<not> mr_success result"
    | (asked) dev d b request result where "probe_device env probes_enabled device_id probe index h = probe_exchange env probe request result h"
        "\<not> mr_terminal_refusal result" "\<not> mr_success result" "probes_enabled" "hub_initialized h" "effective_is_stopped dev"
        "get_device (normalize_device_id_argument device_id) h = Some dev" "find_probe_descriptor probe = Some d"
        "(if pd_needs_index d then parse_probe_index index else Some 0) = Some b"
        "pd_builder d (env_node_id env) (dev_node_id dev) b (dev_low_power dev) = (True, request)"
proof -
  obtain dev_opt result where res: "resolve_device ''probe_device'' device_id h = (dev_opt, result)" by fastforce
  have new: "\<not> mr_success result \<and> \<not> mr_terminal_refusal result"
    using res by (auto simp: resolve_device_def make_management_result_def Let_def split: if_splits option.splits)
  show ?thesis
  proof (cases dev_opt)
    case None
    then show ?thesis using res new by (intro refused) (auto simp: probe_device_def)
  next
    case (Some dev)
    note dev = resolve_device_some [OF res [unfolded Some]]
    consider "\<not> probes_enabled" | "probes_enabled" "\<not> effective_is_stopped dev"
      | "probes_enabled" "effective_is_stopped dev" "find_probe_descriptor probe = None"
      | d where "probes_enabled" "effective_is_stopped dev" "find_probe_descriptor probe = Some d" by auto
    then show ?thesis
    proof cases
      case (4 d)
      note known = this
      show ?thesis
      proof (cases "if pd_needs_index d then parse_probe_index index else Some 0")
        case None
        then show ?thesis using res Some new known
          by (intro refused [of "result\<lparr>mr_probe_name := probe, mr_probe_index := index,
               mr_message := ''index must be a decimal or 0x-prefixed byte value (0-255)''\<rparr>"])
             (simp_all add: probe_device_def resolve_probe_descriptor_def Let_def)
      next
        case (Some b)
        obtain ok request where q: "pd_builder d (env_node_id env) (dev_node_id dev) b (dev_low_power dev) = (ok, request)" by fastforce
        have p: "probe_device env probes_enabled device_id probe index h =
            (if ok then probe_exchange env probe request (result\<lparr>mr_probe_name := probe, mr_probe_index := index\<rparr>) h
             else Some (result\<lparr>mr_probe_name := probe, mr_probe_index := index, mr_message := ''failed to build probe request''\<rparr>, h))"
          using res \<open>dev_opt = Some dev\<close> known Some q by (simp add: probe_device_def resolve_probe_descriptor_def Let_def)
        show ?thesis
        proof (cases ok)
          case False
          then show ?thesis using p new by (intro refused) (auto simp: p)
        next
          case True
          show ?thesis by (rule asked [OF p [unfolded if_P [OF True]] _ _ known(1) dev(1) known(2) dev(2) known(3) Some])
              (use new q True in simp_all)
        qed
      qed
    qed (use res Some new in \<open>auto intro!: refused simp: probe_device_def resolve_probe_descriptor_def Let_def\<close>)
  qed
qed

lemma probe_device_effect:
  obtains result r' l' sent where
    "probe_device env probes_enabled device_id probe index h = Some (result, h\<lparr>hub_radio := r', hub_engine := l'\<rparr>)"
    and "rad_sent r' = rad_sent (hub_radio h) @ sent" and "length sent \<le> 6"
    and "sent = [] \<and> \<not> mr_success result \<or> probes_enabled \<and> hub_initialized h \<and>
      (\<exists>dev. get_device (normalize_device_id_argument device_id) h = Some dev \<and> effective_is_stopped dev)"
proof (cases rule: probe_device_cases [of env probes_enabled device_id probe index h])
  case (refused result)
  then show ?thesis by (intro that [of result "hub_engine h" "hub_radio h" "[]"]) simp_all
next
  case (asked dev d b request result)
  from probe_exchange_effect [OF asked(2), of env probe request h] show ?thesis
    using that asked by auto
qed

lemma sweep_steps_effect:
  "\<exists>n report early r' l' sent. sweep_steps env probes_enabled device_id probe begin_index idxs n0 report0 h =
       Some (n, report, early, h\<lparr>hub_radio := r', hub_engine := l'\<rparr>) \<and>
     rad_sent r' = rad_sent (hub_radio h) @ sent \<and> length sent \<le> 6 * length idxs"
proof (induction idxs arbitrary: n0 report0 h)
  case Nil
  show ?case by (intro exI [of _ n0] exI [of _ report0] exI [of _ False] exI [of _ "hub_radio h"] exI [of _ "hub_engine h"]
        exI [of _ "[]"]) simp
next
  case (Cons idx idxs)
  define k where "k = (if idx \<noteq> begin_index then h\<lparr>hub_radio := delay_ms PROBE_SWEEP_DELAY_MS (hub_radio h)\<rparr> else h)"
  have k: "rad_sent (hub_radio k) = rad_sent (hub_radio h)" "\<And>r l. k\<lparr>hub_radio := r, hub_engine := l\<rparr> = h\<lparr>hub_radio := r, hub_engine := l\<rparr>"
    by (simp_all add: k_def delay_ms_def)
  obtain step r1 l1 sent1 where one: "probe_device env probes_enabled device_id probe (dec_string (nat idx)) k =
        Some (step, k\<lparr>hub_radio := r1, hub_engine := l1\<rparr>)"
      "rad_sent r1 = rad_sent (hub_radio k) @ sent1" "length sent1 \<le> 6"
    by (rule probe_device_effect)
  let ?n = "if mr_success step then n0 + 1 else n0" and ?report = "report0 @ sweep_line idx step"
    and ?h = "h\<lparr>hub_radio := r1, hub_engine := l1\<rparr>"
  show ?case
  proof (cases "mr_terminal_refusal step")
    case True
    then show ?thesis using one k by (intro exI conjI) (auto simp: k_def [symmetric] Let_def)
  next
    case False
    obtain n report early r' l' sent2 where two: "sweep_steps env probes_enabled device_id probe begin_index idxs ?n ?report ?h =
         Some (n, report, early, ?h\<lparr>hub_radio := r', hub_engine := l'\<rparr>)"
        "rad_sent r' = rad_sent (hub_radio ?h) @ sent2" "length sent2 \<le> 6 * length idxs"
      using Cons.IH [of ?n ?report ?h] by blast
    have "sweep_steps env probes_enabled device_id probe begin_index (idx # idxs) n0 report0 h =
        Some (n, report, early, h\<lparr>hub_radio := r', hub_engine := l'\<rparr>)"
      using one two(1) k False by (simp add: k_def [symmetric] Let_def)
    moreover have "rad_sent r' = rad_sent (hub_radio h) @ (sent1 @ sent2)" using one two k by simp
    moreover have "length (sent1 @ sent2) \<le> 6 * length (idx # idxs)" using one two by simp
    ultimately show ?thesis by blast
  qed
qed

lemma trim_text_eq: "trim_text s = strip_end is_space_char (dropWhile is_space_char s)"
proof -
  have "(\<lambda>c. is_space (of_char c)) = is_space_char" by (intro ext) (simp add: is_space_char_def)
  then have "dropWhile is_space (text_bytes s) = text_bytes (dropWhile is_space_char s)"
      "strip_end is_space (text_bytes t) = text_bytes (strip_end is_space_char t)" for t
    by (simp_all add: text_bytes_def strip_end_def dropWhile_map comp_def rev_map)
  moreover have "bytes_text (text_bytes t) = t" for t by (simp add: bytes_text_def text_bytes_def comp_def)
  ultimately show ?thesis by (simp add: trim_text_def trim_ascii_whitespace_def)
qed

lemma trim_text_number:
  assumes "\<forall>c \<in> set before. is_space_char c" and "\<forall>c \<in> set after. is_space_char c"
  shows "trim_text (before @ dec_string n @ after) = dec_string n"
proof -
  have d: "c \<in> set (dec_string n) \<Longrightarrow> \<not> is_space_char c" for c using dec_string_all_digits by blast
  obtain c cs where s: "dec_string n = c # cs" using dec_string_digits [of n] by (cases "dec_string n") auto
  obtain z zs where z: "rev (dec_string n) = z # zs" using dec_string_digits [of n] by (cases "rev (dec_string n)") auto
  then have "z \<in> set (dec_string n)" by (metis list.set_intros(1) set_rev)
  then have "\<not> is_space_char c" "\<not> is_space_char z" using d s by auto
  then have "dropWhile is_space_char (before @ dec_string n @ after) = dec_string n @ after"
    "dropWhile is_space_char (rev after @ rev (dec_string n)) = rev (dec_string n)"
    using assms s z by (simp_all add: dropWhile_append)
  then show ?thesis by (simp add: trim_text_eq strip_end_def)
qed

lemma confirm_rename_verified:
  assumes "confirm_rename env name result h = Some (result', h')" and "mr_verified result'" and "\<not> mr_verified result"
    and "get_device (mr_device_id result) h = Some dev" and "node_id_to_string (dev_node_id dev) = mr_device_id result"
  obtains rx dev' where "heard (hub_radio h) (hub_radio h') rx" and "src rx = dev_node_id dev" and "cmd rx \<noteq> CMD_ERROR_RESP"
    and "get_device (mr_device_id result) h' = Some dev'" and "dev_name dev' = name" and "mr_requested_name result' = mr_requested_name result"
    and "cmd rx = CMD_GET_NAME_RESP \<and> data_len rx \<noteq> 0 \<longrightarrow>
           takeWhile (\<lambda>b. b \<noteq> 0) (decode_device_name_payload (payload rx)) = name"
proof -
  obtain read_back h1 where r: "request_device_name env (mr_device_id result) h = Some (read_back, h1)"
    using assms(1) by (auto simp: confirm_rename_def bind_eq_Some_conv)
  have b: "read_back" "h' = h1" using assms(1-3) r by (auto simp: confirm_rename_def Let_def split: if_splits)
  obtain rx dev' where rx: "heard (hub_radio h) (hub_radio h1) rx" "src rx = dev_node_id dev" "cmd rx \<noteq> CMD_ERROR_RESP"
      "get_device (mr_device_id result) h1 = Some dev'"
      "dev_name dev' = (if cmd rx = CMD_GET_NAME_RESP \<and> data_len rx \<noteq> 0
           then takeWhile (\<lambda>b. b \<noteq> 0) (decode_device_name_payload (payload rx)) else dev_name dev)"
    by (rule request_device_name_read [OF r [unfolded eqTrueI [OF b(1)]] assms(4,5)])
  have "dev_name dev' = name" "mr_requested_name result' = mr_requested_name result"
    using assms(1-3) r b rx(4) by (auto simp: confirm_rename_def Let_def split: if_splits)
  then show ?thesis using that [of rx dev'] rx b(2) by auto
qed

lemma rename_exchange_verified:
  assumes "rename_exchange env request name result h = Some (result', h')" and "mr_verified result'" and "\<not> mr_verified result"
  obtains ack h1 where "heard (hub_radio h) (hub_radio h1) ack" and "src ack = dst request" and "cmd ack = CMD_SET_NAME_RESP"
    and "h1 = h\<lparr>hub_radio := hub_radio h1, hub_engine := hub_engine h1\<rparr>" and "confirm_rename env name result h1 = Some (result', h')"
proof -
  obtain response mid h1 where s: "send_authenticated_request env request ''rename'' result h = Some (response, mid, h1)"
    using assms(1) by (auto simp: rename_exchange_def bind_eq_Some_conv)
  have mid: "\<not> mr_verified mid" using s assms(3) by (auto simp: send_authenticated_request_def bind_eq_Some_conv Let_def split: if_splits)
  then obtain ack where ack: "response = Some ack" using assms(1,2) s by (cases response) (auto simp: rename_exchange_def)
  note got = send_authenticated_request_heard [OF s [unfolded ack]]
  have "cmd ack = CMD_SET_NAME_RESP \<and> confirm_rename env name result h1 = Some (result', h')"
    using assms s ack got(1) by (auto simp: rename_exchange_def apply_error_response_def split: if_splits)
  then show ?thesis using that got(2,3,5) by blast
qed

section \<open>Properties\<close>

text \<open>C24. The scan reports the devices that answered. With a non-zero dwell it returns, it changes nothing of the hub
  but the radio and its log, and the responders it reports are the first twenty-four distinct senders of
  the discovery responses to the hub in the air of its three attempts, in the order they were first
  heard; it says that the list is cut off exactly if there were more.\<close>

theorem scan_reports_devices:
  assumes "hop_dwell_ms (env_chip env) (env_tuning env) \<noteq> 0" and "hub_initialized h" and "\<forall>k. length (nonce k) = 6"
  shows "\<exists>c responders truncated r' l'. scan_paired_devices env nonce h =
      Some ((make_management_result ''scan_paired_devices'' [])\<lparr>mr_success := True, mr_message := scan_report h responders truncated\<rparr>,
            h\<lparr>hub_radio := r', hub_engine := l'\<rparr>) \<and>
    rad_air (hub_radio h) = c @ rad_air r' \<and>
    (let senders = first_seen (map src (filter (is_broadcast_reply env CMD_DISCOVER_SPE_RESP) (frames_in c)))
     in map sr_src responders = take SCAN_MAX_REPLIES senders \<and> truncated = (SCAN_MAX_REPLIES < length senders))"
proof -
  obtain c replies r' l' where run: "scan_attempts env nonce 0 SCAN_CHANNELS ([], False) h =
      Some (Some (fold scan_reply replies ([], False)), h\<lparr>hub_radio := r', hub_engine := l'\<rparr>)"
    and c: "rad_air (hub_radio h) = c @ rad_air r'"
      "map fst replies = filter (is_broadcast_reply env CMD_DISCOVER_SPE_RESP) (frames_in c)"
    using scan_attempts_collects [OF assms(1,3), of 0 SCAN_CHANNELS "([], False)" h] by blast
  obtain rs tr where s: "fold scan_reply replies ([], False) = (rs, tr)" by fastforce
  have "map (\<lambda>a. src (fst a)) replies = map src (map fst replies)" by simp
  then have "map (\<lambda>a. src (fst a)) replies = map src (filter (is_broadcast_reply env CMD_DISCOVER_SPE_RESP) (frames_in c))"
    unfolding c(2) .
  then show ?thesis using fold_scan_reply [of replies] run c(1) s assms(2)
    by (intro exI [of _ c] exI [of _ rs] exI [of _ tr] exI [of _ r'] exI [of _ l'])
       (simp add: scan_paired_devices_def make_management_result_def Let_def)
qed


lemma digits_value_nonneg: "0 \<le> digits_value base ds"
  by (induction ds rule: rev_induct) (simp_all add: digits_value_snoc, simp add: digits_value_def)

text \<open>A probe only asks. Whatever its arguments, a probe returns and changes nothing of the hub but the radio and
  its log; it puts at most six frames on air, and none at all unless probes are enabled, the hub is
  initialized and the device is registered and standing still.\<close>

theorem probe_only_asks:
  "\<exists>result r' l' sent. probe_device env probes_enabled device_id probe index h = Some (result, h\<lparr>hub_radio := r', hub_engine := l'\<rparr>) \<and>
     rad_sent r' = rad_sent (hub_radio h) @ sent \<and> length sent \<le> 6 \<and>
     (sent \<noteq> [] \<longrightarrow> probes_enabled \<and> hub_initialized h \<and>
       (\<exists>dev. get_device (normalize_device_id_argument device_id) h = Some dev \<and> effective_is_stopped dev))"
  by (rule probe_device_effect [of env probes_enabled device_id probe index h]) blast

text \<open>C37. A sweep is bounded. Whatever its arguments, a sweep returns, changes nothing of the hub but the radio and its
  log, and puts at most ninety-six frames on air.\<close>

theorem sweep_bounded:
  "\<exists>result r' l' sent. probe_sweep env probes_enabled device_id probe first_index last_index h =
      Some (result, h\<lparr>hub_radio := r', hub_engine := l'\<rparr>) \<and>
    rad_sent r' = rad_sent (hub_radio h) @ sent \<and> length sent \<le> 96"
proof -
  have still: ?thesis if "\<exists>result. probe_sweep env probes_enabled device_id probe first_index last_index h = Some (result, h)"
  proof -
    from that obtain result where "probe_sweep env probes_enabled device_id probe first_index last_index h = Some (result, h)" by blast
    then show ?thesis by (intro exI [of _ result] exI [of _ "hub_radio h"] exI [of _ "hub_engine h"] exI [of _ "[]"]) simp
  qed
  note unfold = probe_sweep_def resolve_probe_descriptor_def Let_def
  obtain dev_opt start where res: "resolve_device ''probe_sweep'' device_id h = (dev_opt, start)" by fastforce
  consider "dev_opt = None" | dev where "dev_opt = Some dev" "find_probe_descriptor probe = None"
    | dev d where "dev_opt = Some dev" "find_probe_descriptor probe = Some d" "\<not> pd_needs_index d"
    | dev d where "dev_opt = Some dev" "find_probe_descriptor probe = Some d" "pd_needs_index d"
        "parse_probe_index first_index = None \<or> parse_probe_index last_index = None"
    | dev d lo hi where "dev_opt = Some dev" "find_probe_descriptor probe = Some d" "pd_needs_index d"
        "parse_probe_index first_index = Some lo" "parse_probe_index last_index = Some hi" by fastforce
  then show ?thesis
  proof cases
    case (5 dev d lo hi)
    consider "hi < lo" | "\<not> hi < lo" "uint hi - uint lo + 1 > PROBE_SWEEP_MAX_INDICES"
      | "\<not> hi < lo" "uint hi - uint lo + 1 \<le> PROBE_SWEEP_MAX_INDICES" by linarith
    then show ?thesis
    proof cases
      case 3
      obtain n report early r' l' sent where run: "sweep_steps env probes_enabled device_id probe (uint lo) [uint lo..uint hi] 0 [] h =
          Some (n, report, early, h\<lparr>hub_radio := r', hub_engine := l'\<rparr>)"
          "rad_sent r' = rad_sent (hub_radio h) @ sent" "length sent \<le> 6 * length [uint lo..uint hi]"
        using sweep_steps_effect [of env probes_enabled device_id probe "uint lo" "[uint lo..uint hi]" 0 "[]" h] by blast
      have "\<exists>result. probe_sweep env probes_enabled device_id probe first_index last_index h =
          Some (result, h\<lparr>hub_radio := r', hub_engine := l'\<rparr>)"
        using 3 5 res run(1) by (simp add: probe_sweep_def resolve_probe_descriptor_def Let_def)
      moreover have "length [uint lo..uint hi] \<le> 16" using 3(2) by simp
      then have "length sent \<le> 96" using run(3) by linarith
      ultimately show ?thesis using run(2) by blast
    next
      case 1
      then show ?thesis using 5 res by (intro still) (simp add: unfold)
    next
      case 2
      then show ?thesis using 5 res by (intro still) (simp add: unfold not_less)
    qed
  next
    case 4
    then show ?thesis using res by (intro still) (auto simp: unfold split: option.split)
  qed (use res in \<open>(intro still, simp add: unfold)+\<close>)
qed

text \<open>A one-way position is taken as written or refused. A whole number up to 100, with any white space around it, is
  queued as exactly that position; and whatever is queued for some text is the number the text consists
  of, so that nothing else can be read as position zero.\<close>

theorem oneway_position_as_written:
  assumes "get_identity controller_id (otx_identities (hub_oneway h)) \<noteq> None"
  shows "(n \<le> 100 \<and> (\<forall>c \<in> set (before @ after). is_space_char c) \<longrightarrow>
      snd (oneway_set_position controller_id (before @ dec_string n @ after) h) = send_oneway_position controller_id (of_nat n) h) \<and>
    (snd (oneway_set_position controller_id position h) \<noteq> h \<longrightarrow>
      (\<exists>k \<le> 100. trim_text position \<noteq> [] \<and> (\<forall>c \<in> set (trim_text position). digit_in 10 c \<noteq> None) \<and>
         digits_value 10 (trim_text position) = int k \<and>
         snd (oneway_set_position controller_id position h) = send_oneway_position controller_id (of_nat k) h))"
proof -
  define v where "v = digits_value 10 (trim_text position)"
  have nonneg: "0 \<le> v" unfolding v_def by (rule digits_value_nonneg)
  have run: "snd (oneway_set_position controller_id s h) =
      (if trim_text s = [] \<or> (\<exists>c \<in> set (trim_text s). digit_in 10 c = None) \<or> 100 < digits_value 10 (trim_text s) then h
       else send_oneway_position controller_id (word_of_int (digits_value 10 (trim_text s))) h)" for s
    using assms by (auto simp: oneway_set_position_def list_ex_iff Let_def min_def)
  have "snd (oneway_set_position controller_id (before @ dec_string n @ after) h) = send_oneway_position controller_id (of_nat n) h"
    if "n \<le> 100" "\<forall>c \<in> set (before @ after). is_space_char c"
  proof -
    have "trim_text (before @ dec_string n @ after) = dec_string n" by (rule trim_text_number) (use that(2) in auto)
    moreover have "dec_string n \<noteq> []" "\<forall>c \<in> set (dec_string n). digit_in 10 c \<noteq> None"
      using dec_string_digits dec_string_all_digits by blast+
    ultimately show ?thesis using that(1) unfolding run by (auto simp: digits_value_dec_string)
  qed
  moreover have "\<exists>k \<le> 100. trim_text position \<noteq> [] \<and> (\<forall>c \<in> set (trim_text position). digit_in 10 c \<noteq> None) \<and>
         digits_value 10 (trim_text position) = int k \<and>
         snd (oneway_set_position controller_id position h) = send_oneway_position controller_id (of_nat k) h"
    if "snd (oneway_set_position controller_id position h) \<noteq> h"
    using that nonneg unfolding run v_def [symmetric]
    by (intro exI [of _ "nat v"]) (auto split: if_splits)
  ultimately show ?thesis by blast
qed

text \<open>The inputs of the witnesses.\<close>

definition demo_rename_hub :: hub where
  "demo_rename_hub = demo_hub (demo_radio [demo_reply CMD_SET_NAME_RESP [], demo_reply CMD_GET_NAME_RESP [0x41, 0x42]])"

lemma demo_argument: "normalize_device_id_argument ''040506'' = ''040506''"
  by code_simp

lemma demo_device: "get_device ''040506'' (demo_hub r) = Some (new_device\<lparr>dev_node_id := [4, 5, 6]\<rparr>)"
  unfolding get_device_def demo_hub_def hub.simps by code_simp

theorem scan_reports_devices_witness:
  "\<exists>c responders truncated r' l'. scan_paired_devices demo_env (\<lambda>_. replicate 6 0)
      (demo_hub (demo_radio [demo_reply CMD_DISCOVER_SPE_RESP [1, 2]])) =
      Some ((make_management_result ''scan_paired_devices'' [])\<lparr>mr_success := True, mr_message :=
              scan_report (demo_hub (demo_radio [demo_reply CMD_DISCOVER_SPE_RESP [1, 2]])) responders truncated\<rparr>,
            (demo_hub (demo_radio [demo_reply CMD_DISCOVER_SPE_RESP [1, 2]]))\<lparr>hub_radio := r', hub_engine := l'\<rparr>) \<and>
    map sr_src responders = take 24 (first_seen (map src (filter (is_broadcast_reply demo_env CMD_DISCOVER_SPE_RESP) (frames_in c))))"
proof -
  let ?h = "demo_hub (demo_radio [demo_reply CMD_DISCOVER_SPE_RESP [1, 2]])"
  have "hop_dwell_ms (env_chip demo_env) (env_tuning demo_env) \<noteq> 0" "hub_initialized ?h"
    by (simp_all add: demo_env_def default_tuning_def demo_hub_def)
  from scan_reports_devices [OF this, of "\<lambda>_. replicate 6 0"] show ?thesis
    unfolding Let_def by (simp only: length_replicate simp_thms) blast
qed


theorem probe_only_asks_witness:
  "\<exists>result r' l' sent. probe_device demo_env True ''040506'' ''private_fn'' ''6''
       (demo_hub (demo_radio [demo_reply CMD_PRIVATE_RESP [1, 2]])) =
       Some (result, (demo_hub (demo_radio [demo_reply CMD_PRIVATE_RESP [1, 2]]))\<lparr>hub_radio := r', hub_engine := l'\<rparr>) \<and>
     rad_sent r' = sent \<and> sent \<noteq> [] \<and> length sent \<le> 6"
proof -
  let ?h = "demo_hub (demo_radio [demo_reply CMD_PRIVATE_RESP [1, 2]])"
  have "rad_sent (hub_radio (snd (the (probe_device demo_env True ''040506'' ''private_fn'' ''6'' ?h)))) \<noteq> []" by code_simp
  moreover have "rad_sent (hub_radio ?h) = []" by (simp add: demo_hub_def demo_radio_def)
  moreover obtain result r' l' sent where p: "probe_device demo_env True ''040506'' ''private_fn'' ''6'' ?h =
      Some (result, ?h\<lparr>hub_radio := r', hub_engine := l'\<rparr>)" "rad_sent r' = rad_sent (hub_radio ?h) @ sent" "length sent \<le> 6"
    using probe_only_asks [of demo_env True "''040506''" "''private_fn''" "''6''" ?h] by blast
  ultimately have "rad_sent r' = sent" "sent \<noteq> []" by simp_all
  then show ?thesis using p by blast
qed

theorem oneway_position_as_written_witness:
  "\<exists>h. snd (oneway_set_position ''C'' '' 42 '' h) = send_oneway_position ''C'' 42 h \<and> snd (oneway_set_position ''C'' ''4x'' h) = h"
proof -
  let ?c = "(demo_controller 2)\<lparr>oci_id := ''C''\<rparr>"
  let ?h = "(demo_hub (demo_radio []))\<lparr>hub_oneway := (hub_oneway (demo_hub (demo_radio [])))\<lparr>otx_identities := [?c]\<rparr>\<rparr>"
  have i: "get_identity ''C'' (otx_identities (hub_oneway ?h)) \<noteq> None" by (simp add: get_identity_def)
  have s: "is_space_char (CHR '' '')" "dec_string 42 = ''42''" "trim_text ''4x'' = ''4x''" "digit_in 10 (CHR ''x'') = None" by code_simp+
  from oneway_position_as_written [OF i, of 42 "'' ''" "'' ''" "''4x''"]
  show ?thesis using s by (intro exI [of _ ?h]) auto
qed

end
