(* ===== verification/Radio_Bus.thy ===== *)
theory Radio_Bus
  imports Soft_Phy Tuning
begin

text \<open>
  What the three radio drivers share (\<open>radio_interface.h\<close>, \<open>radio_interface.cpp\<close>, and the BUSY wait of
  \<open>radio_soft_phy_driver_base.cpp\<close>): the driver object with the chip behind it, the SPI frame, the
  interrupt latch, the capture record, the hop holdoff and the hardware reset. The chip is the
  environment: how long each SPI frame takes and what it answers, for how many polls BUSY stays high and
  when the interrupt line rises are scripts in the driver record; every frame the driver drives and
  every pin it writes is appended to a log. The clock counts microseconds since boot without a bound;
  \<open>millis()\<close> and \<open>micros()\<close> are its wrapping views. A frame takes at least one microsecond. Log messages,
  the watchdog and the pin levels that are only printed are left out.
\<close>

section \<open>The driver object\<close>

datatype radio_event =
    Spi bytes              \<comment> \<open>the bytes driven during one chip select\<close>
  | Reset_pin bool
  | Power_pin bool
  | Attach_interrupt

record capture_info =
  cap_valid :: bool
  cap_blocking_wait :: bool
  cap_rx_done :: bool
  cap_crc_error :: bool
  cap_timestamp_ms :: u32
  cap_freq_hz :: u32
  cap_rssi_dbm :: int
  cap_irq_status :: u16
  cap_irq_flags1 :: u8
  cap_irq_flags2 :: u8
  cap_packet_status :: u8
  cap_rx_offset :: u8
  cap_reported_len :: u8
  cap_raw :: bytes
  cap_frame :: bytes

definition no_capture :: capture_info where
  "no_capture = \<lparr>cap_valid = False, cap_blocking_wait = False, cap_rx_done = False, cap_crc_error = False,
     cap_timestamp_ms = 0, cap_freq_hz = 0, cap_rssi_dbm = 0, cap_irq_status = 0, cap_irq_flags1 = 0,
     cap_irq_flags2 = 0, cap_packet_status = 0, cap_rx_offset = 0, cap_reported_len = 0, cap_raw = [], cap_frame = []\<rparr>"

record rx_packet =
  pkt_freq_hz :: u32
  pkt_data :: bytes

record tx_config =
  txc_freq_hz :: u32
  txc_preamble_len :: u16

text \<open>
  The fields of \<open>RadioDriver\<close>, of \<open>SoftPhyDriverBase\<close> and of the three chip classes. \<open>drv_bandwidth\<close> is
  the register byte of the bandwidth selector.
\<close>

record driver =
  drv_clock :: int
  drv_busy :: "nat list list"
  drv_replies :: "(nat \<times> bytes) list"
  drv_edges :: "int list"
  drv_log :: "radio_event list"
  drv_dio_fired :: bool
  drv_failed :: bool
  drv_current_freq :: u32
  drv_last_capture :: capture_info
  drv_rx_hold_armed :: bool
  drv_rx_hold_since_us :: u32
  drv_response_preamble :: u16
  drv_post_tx_settle_us :: u16
  drv_busy_timeout_ms :: u32
  drv_preamble_latched :: bool
  drv_bandwidth :: u8
  drv_tx_power :: u8
  drv_tcxo :: u8
  drv_stat1 :: u8
  drv_pa_pin :: u8
  drv_sync_hold_since_us :: u32

section \<open>Time and the interrupt latch\<close>

definition drv_millis :: "driver \<Rightarrow> u32" where
  "drv_millis d = word_of_int (drv_clock d div 1000)"

definition drv_micros :: "driver \<Rightarrow> u32" where
  "drv_micros d = word_of_int (drv_clock d)"

text \<open>Time passes; a rising edge of the interrupt line in that time sets the latch.\<close>

definition mark_dio_fired_from_isr :: "driver \<Rightarrow> driver" where
  "mark_dio_fired_from_isr d = d\<lparr>drv_dio_fired := True\<rparr>"

definition pass_us :: "nat \<Rightarrow> driver \<Rightarrow> driver" where
  "pass_us us d =
     (let now = drv_clock d + int us;
          d' = d\<lparr>drv_clock := now, drv_edges := dropWhile (\<lambda>t. t \<le> now) (drv_edges d)\<rparr>
      in if drv_edges d' = drv_edges d then d' else mark_dio_fired_from_isr d')"

definition drv_delay :: "nat \<Rightarrow> driver \<Rightarrow> driver" where
  "drv_delay ms = pass_us (1000 * ms)"

definition clear_dio_fired :: "driver \<Rightarrow> driver" where
  "clear_dio_fired d = d\<lparr>drv_dio_fired := False\<rparr>"

section \<open>SPI and pins\<close>

definition tell_event :: "radio_event \<Rightarrow> driver \<Rightarrow> driver" where
  "tell_event e d = d\<lparr>drv_log := drv_log d @ [e]\<rparr>"

text \<open>
  One chip select: \<open>out\<close> is driven, then \<open>n\<close> bytes are clocked in with zeros driven. A chip that drives
  nothing is read as zeros.
\<close>

definition next_reply :: "driver \<Rightarrow> nat \<times> bytes" where
  "next_reply d = (case drv_replies d of [] \<Rightarrow> (0, []) | r # _ \<Rightarrow> r)"

definition spi_frame :: "bytes \<Rightarrow> nat \<Rightarrow> driver \<Rightarrow> bytes \<times> driver" where
  "spi_frame out n d =
     (take n (snd (next_reply d) @ replicate n 0),
      pass_us (Suc (fst (next_reply d)))
        (tell_event (Spi (out @ replicate n 0)) (d\<lparr>drv_replies := tl (drv_replies d)\<rparr>)))"

fun busy_loop :: "u32 \<Rightarrow> nat list \<Rightarrow> driver \<Rightarrow> driver" where
  "busy_loop start [] d = d"
| "busy_loop start (us # polls) d =
     (if drv_millis d - start > drv_busy_timeout_ms d then d\<lparr>drv_failed := True\<rparr>
      else busy_loop start polls (pass_us us d))"

definition wait_busy_line :: "driver \<Rightarrow> driver" where
  "wait_busy_line d =
     (if drv_failed d then d
      else busy_loop (drv_millis d) (case drv_busy d of [] \<Rightarrow> [] | polls # _ \<Rightarrow> polls)
             (d\<lparr>drv_busy := tl (drv_busy d)\<rparr>))"

abbreviation (input) RADIO_RESET_PULSE_DELAY_MS :: nat where "RADIO_RESET_PULSE_DELAY_MS \<equiv> 10"

text \<open>Every board gives the LR1121 and the SX1276 their reset pin; a missing one is not modelled.\<close>

definition reset_hardware :: "driver \<Rightarrow> driver" where
  "reset_hardware d =
     drv_delay RADIO_RESET_PULSE_DELAY_MS (tell_event (Reset_pin True)
       (drv_delay RADIO_RESET_PULSE_DELAY_MS (tell_event (Reset_pin False) d)))"

section \<open>Receptions\<close>

definition clear_last_capture :: "driver \<Rightarrow> driver" where
  "clear_last_capture d = d\<lparr>drv_last_capture := no_capture\<rparr>"

text \<open>The packet a receive function fills is its result; preparing it leaves the driver's part.\<close>

definition prepare_blocking_receive :: "driver \<Rightarrow> driver" where
  "prepare_blocking_receive d = clear_last_capture d"

definition prepare_nonblocking_receive :: "driver \<Rightarrow> driver" where
  "prepare_nonblocking_receive d = clear_dio_fired (clear_last_capture d)"

definition rssi_of_raw :: "u8 \<Rightarrow> int" where
  "rssi_of_raw raw = - (uint raw div 2)"

definition populate_capture_base :: "bool \<Rightarrow> int \<Rightarrow> bytes \<Rightarrow> bytes \<Rightarrow> driver \<Rightarrow> driver" where
  "populate_capture_base blocking_wait rssi_dbm raw frame d =
     d\<lparr>drv_last_capture := no_capture\<lparr>cap_valid := True, cap_blocking_wait := blocking_wait,
        cap_timestamp_ms := drv_millis d, cap_freq_hz := drv_current_freq d, cap_rssi_dbm := rssi_dbm,
        cap_raw := take RADIO_PACKET_BUFFER_SIZE raw, cap_frame := take RADIO_PACKET_BUFFER_SIZE frame\<rparr>\<rparr>"

section \<open>The hop holdoff\<close>

abbreviation (input) RX_HOP_HOLDOFF_US :: u32 where "RX_HOP_HOLDOFF_US \<equiv> 12000"

definition note_reception_in_progress :: "driver \<Rightarrow> driver" where
  "note_reception_in_progress d = d\<lparr>drv_rx_hold_armed := True, drv_rx_hold_since_us := drv_micros d\<rparr>"

definition clear_reception_in_progress :: "driver \<Rightarrow> driver" where
  "clear_reception_in_progress d = d\<lparr>drv_rx_hold_armed := False\<rparr>"

definition reception_in_progress :: "driver \<Rightarrow> bool \<times> driver" where
  "reception_in_progress d =
     (if \<not> drv_rx_hold_armed d then (False, d)
      else if drv_micros d - drv_rx_hold_since_us d \<ge> RX_HOP_HOLDOFF_US then (False, d\<lparr>drv_rx_hold_armed := False\<rparr>)
      else (True, d))"

section \<open>What a step on the bus leaves alone\<close>

text \<open>
  \<open>script_size\<close> counts what the chip still has to say; \<open>alarm\<close> counts the interrupts to come, the latch
  included. Between two states of the driver, \<open>bus_step\<close> says that only the bus was used: the software
  flags and the frequency are kept, the log only grows, and time passes, at most a millisecond of it once
  the chip's script has run out.
\<close>

definition script_size :: "driver \<Rightarrow> nat" where
  "script_size d = length (drv_replies d) + length (drv_busy d)"

definition alarm :: "driver \<Rightarrow> nat" where
  "alarm d = 2 * length (drv_edges d) + of_bool (drv_dio_fired d)"

definition bus_step :: "nat \<Rightarrow> driver \<Rightarrow> driver \<Rightarrow> bool" where
  "bus_step n d d' \<longleftrightarrow>
     (drv_rx_hold_armed d', drv_rx_hold_since_us d', drv_preamble_latched d', drv_post_tx_settle_us d') =
       (drv_rx_hold_armed d, drv_rx_hold_since_us d, drv_preamble_latched d, drv_post_tx_settle_us d) \<and>
     (\<exists>es. drv_log d' = drv_log d @ es) \<and>
     drv_clock d \<le> drv_clock d' \<and> script_size d' \<le> script_size d \<and> alarm d' \<le> alarm d \<and>
     (script_size d' = script_size d \<longrightarrow> drv_clock d' \<le> drv_clock d + int n)"

lemma bus_step_refl [simp]: "bus_step n d d"
  by (simp add: bus_step_def)

lemma bus_step_trans: "bus_step m d d' \<Longrightarrow> bus_step n d' d'' \<Longrightarrow> m + n \<le> k \<Longrightarrow> bus_step k d d''"
  unfolding bus_step_def by (auto simp: le_antisym)

lemma dropWhile_shorter: "dropWhile P xs \<noteq> xs \<Longrightarrow> Suc (length (dropWhile P xs)) \<le> length xs"
proof (cases xs)
  case (Cons a ys)
  then show "dropWhile P xs \<noteq> xs \<Longrightarrow> ?thesis" using length_dropWhile_le [of P ys] by (cases "P a") auto
qed simp

lemma pass_us_simps [simp]:
  "drv_clock (pass_us us d) = drv_clock d + int us" "drv_log (pass_us us d) = drv_log d"
  "drv_replies (pass_us us d) = drv_replies d" "drv_busy (pass_us us d) = drv_busy d"
  "drv_failed (pass_us us d) = drv_failed d" "drv_current_freq (pass_us us d) = drv_current_freq d"
  "drv_rx_hold_armed (pass_us us d) = drv_rx_hold_armed d" "drv_busy_timeout_ms (pass_us us d) = drv_busy_timeout_ms d"
  "drv_rx_hold_since_us (pass_us us d) = drv_rx_hold_since_us d" "drv_preamble_latched (pass_us us d) = drv_preamble_latched d"
  "drv_post_tx_settle_us (pass_us us d) = drv_post_tx_settle_us d" "drv_bandwidth (pass_us us d) = drv_bandwidth d"
  "script_size (pass_us us d) = script_size d" "drv_last_capture (pass_us us d) = drv_last_capture d"
  by (simp_all add: pass_us_def Let_def mark_dio_fired_from_isr_def script_size_def)

lemma alarm_pass_us [simp]: "alarm (pass_us us d) \<le> alarm d"
  using dropWhile_shorter [of "\<lambda>t. t \<le> drv_clock d + int us" "drv_edges d"]
  by (auto simp: alarm_def pass_us_def Let_def mark_dio_fired_from_isr_def)

lemma bus_step_pass: "us \<le> n \<Longrightarrow> bus_step n d (pass_us us d)"
  by (simp add: bus_step_def)

lemma busy_loop_keeps [simp]:
  "drv_rx_hold_armed (busy_loop s ps d) = drv_rx_hold_armed d" "drv_rx_hold_since_us (busy_loop s ps d) = drv_rx_hold_since_us d"
  "drv_preamble_latched (busy_loop s ps d) = drv_preamble_latched d" "drv_post_tx_settle_us (busy_loop s ps d) = drv_post_tx_settle_us d"
  "drv_log (busy_loop s ps d) = drv_log d" "drv_replies (busy_loop s ps d) = drv_replies d" "drv_busy (busy_loop s ps d) = drv_busy d"
  "drv_current_freq (busy_loop s ps d) = drv_current_freq d" "drv_bandwidth (busy_loop s ps d) = drv_bandwidth d"
  "drv_last_capture (busy_loop s ps d) = drv_last_capture d"
  by (induction s ps d rule: busy_loop.induct) simp_all

lemma busy_loop_time: "drv_clock d \<le> drv_clock (busy_loop s ps d) \<and> alarm (busy_loop s ps d) \<le> alarm d"
proof (induction s ps d rule: busy_loop.induct)
  case (2 s us ps d)
  show ?case
  proof (cases "drv_busy_timeout_ms d < drv_millis d - s")
    case True
    then show ?thesis by (simp add: alarm_def)
  next
    case False
    then show ?thesis using 2 alarm_pass_us [of us d] by (simp del: alarm_pass_us)
  qed
qed simp

lemma wait_busy_keeps [simp]:
  "drv_log (wait_busy_line d) = drv_log d" "drv_replies (wait_busy_line d) = drv_replies d"
  "drv_current_freq (wait_busy_line d) = drv_current_freq d" "drv_bandwidth (wait_busy_line d) = drv_bandwidth d"
  "drv_last_capture (wait_busy_line d) = drv_last_capture d"
  by (simp_all add: wait_busy_line_def)

lemma bus_step_wait_busy: "bus_step 0 d (wait_busy_line d)"
proof (cases "drv_failed d \<or> drv_busy d = []")
  case True
  then have "wait_busy_line d = d" by (cases "drv_busy d"; cases "drv_failed d") (simp_all add: wait_busy_line_def)
  then show ?thesis by simp
next
  case False
  then obtain ps bs where b: "drv_busy d = ps # bs" by (cases "drv_busy d") auto
  show ?thesis
    using busy_loop_time [of "d\<lparr>drv_busy := bs\<rparr>" "drv_millis d" ps] False
    by (simp add: wait_busy_line_def b bus_step_def script_size_def) (simp add: alarm_def)
qed

lemma spi_frame_parts:
  "length (fst (spi_frame out n d)) = n"
  "drv_log (snd (spi_frame out n d)) = drv_log d @ [Spi (out @ replicate n 0)]"
  "drv_current_freq (snd (spi_frame out n d)) = drv_current_freq d"
  "drv_bandwidth (snd (spi_frame out n d)) = drv_bandwidth d"
  unfolding spi_frame_def tell_event_def by simp_all

lemma spi_frame_keeps:
  assumes "spi_frame out n d = (r, d')"
  shows "length r = n" "drv_log d' = drv_log d @ [Spi (out @ replicate n 0)]"
    "drv_current_freq d' = drv_current_freq d" "drv_bandwidth d' = drv_bandwidth d"
  using spi_frame_parts [of out n d] unfolding assms by simp_all

lemma bus_step_spi:
  assumes "spi_frame out n d = (r, d')"
  shows "bus_step 1 d d'"
proof -
  let ?us = "fst (next_reply d)"
  let ?d = "tell_event (Spi (out @ replicate n 0)) (d\<lparr>drv_replies := tl (drv_replies d)\<rparr>)"
  have d': "d' = pass_us (Suc ?us) ?d" using assms by (simp add: spi_frame_def)
  have "alarm (pass_us (Suc ?us) ?d) \<le> alarm d"
    using alarm_pass_us [of "Suc ?us" ?d] by (simp add: alarm_def tell_event_def del: alarm_pass_us)
  moreover have "script_size ?d \<le> script_size d" "script_size ?d = script_size d \<longrightarrow> ?us = 0"
    by (cases "drv_replies d"; simp add: next_reply_def script_size_def tell_event_def)+
  moreover have "\<exists>es. drv_log ?d = drv_log d @ es" by (simp add: tell_event_def)
  moreover have "drv_clock ?d = drv_clock d" "drv_rx_hold_armed ?d = drv_rx_hold_armed d"
    "drv_rx_hold_since_us ?d = drv_rx_hold_since_us d" "drv_preamble_latched ?d = drv_preamble_latched d"
    "drv_post_tx_settle_us ?d = drv_post_tx_settle_us d"
    by (simp_all add: tell_event_def)
  ultimately show ?thesis
    unfolding d' bus_step_def by (simp del: alarm_pass_us)
qed

lemma bus_step_mono: "bus_step m d d' \<Longrightarrow> m \<le> n \<Longrightarrow> bus_step n d d'"
  using bus_step_trans [of m d d' 0 d' n] by simp

text \<open>One frame behind a BUSY wait.\<close>

lemma busy_frame:
  "bus_step 1 d (snd (spi_frame out n (wait_busy_line d)))"
  "drv_current_freq (snd (spi_frame out n (wait_busy_line d))) = drv_current_freq d"
  "drv_log (snd (spi_frame out n (wait_busy_line d))) = drv_log d @ [Spi (out @ replicate n 0)]"
  "length (fst (spi_frame out n (wait_busy_line d))) = n"
proof -
  obtain r d' where s: "spi_frame out n (wait_busy_line d) = (r, d')" by fastforce
  show "bus_step 1 d (snd (spi_frame out n (wait_busy_line d)))"
    using bus_step_trans [OF bus_step_wait_busy bus_step_spi [OF s], of 1] by (simp add: s)
qed (simp_all add: spi_frame_parts)

lemma bus_step_software [simp]:
  "bus_step n d (d'\<lparr>drv_last_capture := x\<rparr>) \<longleftrightarrow> bus_step n d d'"
  "bus_step n d (d'\<lparr>drv_current_freq := f\<rparr>) \<longleftrightarrow> bus_step n d d'"
  by (simp_all add: bus_step_def script_size_def alarm_def)

section \<open>Elapsed time\<close>

text \<open>The microseconds behind \<open>millis() - start\<close>; they add up until the counter has gone round.\<close>

definition elapsed_us :: "u32 \<Rightarrow> driver \<Rightarrow> int" where
  "elapsed_us start d = 1000 * uint (drv_millis d - start) + drv_clock d mod 1000"

lemma elapsed_us_le_iff: "drv_millis d - start \<le> limit \<longleftrightarrow> elapsed_us start d < 1000 * (uint limit + 1)"
  using pos_mod_bound [of 1000 "drv_clock d"] pos_mod_sign [of 1000 "drv_clock d"]
  by (auto simp: elapsed_us_def word_le_def)

lemma elapsed_us_gt_iff: "limit < drv_millis d - start \<longleftrightarrow> \<not> elapsed_us start d < 1000 * (uint limit + 1)"
  using elapsed_us_le_iff [of d start limit] by (simp only: linorder_not_less [symmetric] not_not) blast

lemma elapsed_us_start: "elapsed_us (drv_millis d) d < 1000"
  by (simp add: elapsed_us_def)

lemma elapsed_us_pass:
  assumes "elapsed_us start d < 3000000000000" and "drv_clock d' = drv_clock d + us" and "0 \<le> us" and "us \<le> 1000000"
  shows "elapsed_us start d' = elapsed_us start d + us"
proof -
  let ?t = "drv_clock d" and ?e = "drv_millis d - start"
  define k where "k = (?t + us) div 1000 - ?t div 1000"
  have k: "0 \<le> k" "k \<le> 1001" using assms(3,4) unfolding k_def by linarith+
  have e: "drv_millis d' - start = ?e + word_of_int k"
    by (simp add: drv_millis_def k_def assms(2))
  have "0 \<le> ?t mod 1000" by simp
  then have "uint ?e < 3000000000" using assms(1) unfolding elapsed_us_def by linarith
  then have "uint (drv_millis d' - start) = uint ?e + k"
    unfolding e using k by (simp add: uint_word_ariths uint_word_of_int)
  moreover have "1000 * ((?t + us) div 1000) + (?t + us) mod 1000 = ?t + us"
    "1000 * (?t div 1000) + ?t mod 1000 = ?t" by simp_all
  ultimately show ?thesis unfolding elapsed_us_def assms(2) k_def by linarith
qed

lemma elapsed_us_bound:
  assumes "limit < (0x80000000 :: u32)" and "elapsed_us start d < 1000 * (uint limit + 2)"
  shows "elapsed_us start d < 3000000000000"
proof -
  have "e < 3000000000000" if "n < 0x80000000" "e < 1000 * (n + 2)" for e n :: int using that by simp
  moreover have "uint limit < 0x80000000"
  proof -
    have "uint (0x80000000 :: u32) = 0x80000000" by simp
    then show ?thesis using assms(1) unfolding word_less_def by metis
  qed
  ultimately show ?thesis using assms(2) by blast
qed

end
