(* ===== verification/Soft_Phy_Driver.thy ===== *)
theory Soft_Phy_Driver
  imports Radio_Bus
begin

text \<open>
  The driver flow the two chips without hardware framing share (\<open>radio_soft_phy_driver_base.h\<close>, \<open>.cpp\<close>):
  the blocking and the polled reception, the length-driven early completion, the recovery of a frame from
  the raw bytes, transmission, and retuning. The virtual functions of \<open>SoftPhyDriverBase\<close> are the fields of
  \<open>soft_phy_ops\<close>; \<open>Radio_Sx1262\<close> and \<open>Radio_Lr1121\<close> fill them. The polling loops are partial: \<open>None\<close>
  stands for a loop that never ends, and the locale \<open>soft_radio\<close>, the contract of a chip, has the lemmas
  that they end. Diagnostic output under \<open>IOHOME_FRAME_LOG\<close> is left out.
\<close>

section \<open>Constants\<close>

abbreviation (input) SOFT_PHY_RX_PROBE_PACKET_LEN :: u8 where "SOFT_PHY_RX_PROBE_PACKET_LEN \<equiv> 48"
abbreviation (input) SOFT_PHY_EARLY_HEADER_RAW_BYTES :: u8 where "SOFT_PHY_EARLY_HEADER_RAW_BYTES \<equiv> 3"
abbreviation (input) SOFT_PHY_EARLY_READ_MARGIN_BYTES :: u8 where "SOFT_PHY_EARLY_READ_MARGIN_BYTES \<equiv> 2"
abbreviation (input) SOFT_PHY_EARLY_POLL_US :: nat where "SOFT_PHY_EARLY_POLL_US \<equiv> 100"
abbreviation (input) SOFT_PHY_EARLY_MIN_WINDOW_MS :: u32 where "SOFT_PHY_EARLY_MIN_WINDOW_MS \<equiv> 12"
abbreviation (input) SOFT_PHY_IDLE_RX_COMPLETION_BUDGET_MS :: u32 where "SOFT_PHY_IDLE_RX_COMPLETION_BUDGET_MS \<equiv> 20"
abbreviation (input) SOFT_PHY_LINE_RATE_BPS :: u32 where "SOFT_PHY_LINE_RATE_BPS \<equiv> 38400"
abbreviation (input) SOFT_PHY_US_PER_SECOND :: u32 where "SOFT_PHY_US_PER_SECOND \<equiv> 1000000"

definition soft_phy_air_time_us :: "u32 \<Rightarrow> u32" where
  "soft_phy_air_time_us raw_bytes =
     (let bit_periods = raw_bytes * 8 * SOFT_PHY_US_PER_SECOND
      in (bit_periods + SOFT_PHY_LINE_RATE_BPS - 1) div SOFT_PHY_LINE_RATE_BPS)"

section \<open>The chip as the shared flow sees it\<close>

record soft_phy_ops =
  op_read_irq_status :: "driver \<Rightarrow> u32 \<times> driver"
  op_clear_irq_status :: "u32 \<Rightarrow> driver \<Rightarrow> driver"
  op_sync_word_valid_bit :: u32
  op_rx_done_bit :: u32
  op_tx_done_bit :: u32
  op_preamble_detected_bit :: u32
  op_activity_irq_mask :: u32
  op_early_rx_read_offset :: int
  op_set_frequency_register :: "u32 \<Rightarrow> driver \<Rightarrow> driver"
  op_set_rx_packet_params :: "driver \<Rightarrow> driver"
  op_set_tx_packet_params :: "u16 \<Rightarrow> u8 \<Rightarrow> driver \<Rightarrow> driver"
  op_read_rssi_raw_byte :: "driver \<Rightarrow> u8 \<times> driver"
  op_write_tx_buffer :: "bytes \<Rightarrow> driver \<Rightarrow> driver"
  op_get_rx_buffer_status :: "driver \<Rightarrow> (u8 \<times> u8) \<times> driver"
  op_read_rx_buffer :: "u8 \<Rightarrow> nat \<Rightarrow> driver \<Rightarrow> bytes \<times> driver"
  op_start_tx :: "driver \<Rightarrow> driver"
  op_fill_capture_info :: "bool \<Rightarrow> u32 \<Rightarrow> u8 \<Rightarrow> u8 \<Rightarrow> bytes \<Rightarrow> bytes \<Rightarrow> driver \<Rightarrow> driver"
  op_before_tx_arm :: "driver \<Rightarrow> driver"
  op_configure_buffer_base :: "driver \<Rightarrow> driver"
  op_invalidate_stale_rx :: "driver \<Rightarrow> driver"
  op_set_mode_rx :: "driver \<Rightarrow> driver"
  op_set_mode_standby :: "driver \<Rightarrow> driver"

definition build_gfsk_packet_params :: "u16 \<Rightarrow> u8 \<Rightarrow> u8 \<Rightarrow> u8 \<Rightarrow> u8 \<Rightarrow> u8 \<Rightarrow> bytes" where
  "build_gfsk_packet_params preamble_bytes preamble_detector sync_word_param packet_type payload_len crc_type =
     (let preamble_bits = preamble_bytes * 8
      in [hi8 preamble_bits, lo8 preamble_bits, preamble_detector, sync_word_param, 0x00, packet_type,
          payload_len, crc_type, 0x00])"

section \<open>Re-arming the receiver\<close>

definition reset_rx_state :: "soft_phy_ops \<Rightarrow> bool \<Rightarrow> driver \<Rightarrow> driver" where
  "reset_rx_state c force_standby d =
     (let d = clear_reception_in_progress d;
          d = (if force_standby then op_set_mode_standby c d else d);
          d = op_clear_irq_status c 0xFFFFFFFF d;
          d = op_configure_buffer_base c d;
          d = op_set_rx_packet_params c d
      in op_set_mode_rx c d)"

definition rearm_rx_after_tx :: "soft_phy_ops \<Rightarrow> driver \<Rightarrow> driver" where
  "rearm_rx_after_tx c d =
     (let d = clear_reception_in_progress d;
          d = op_clear_irq_status c 0xFFFFFFFF d;
          d = op_invalidate_stale_rx c d;
          d = op_set_rx_packet_params c d
      in op_set_mode_rx c d)"

section \<open>Early completion\<close>

definition air_time_needed_us :: "u8 \<Rightarrow> u32" where
  "air_time_needed_us raw_bytes = soft_phy_air_time_us (ucast raw_bytes + ucast (SOFT_PHY_EARLY_READ_MARGIN_BYTES))"

lemma air_time_needed_bound: "uint (air_time_needed_us raw_bytes) < 0x80000000"
proof -
  let ?p = "(ucast raw_bytes + ucast (2 :: u8)) * 8 * 1000000 + 38400 - 1 :: u32"
  have "uint (?p div 38400) = uint ?p div 38400" by (simp add: uint_div)
  moreover have "uint ?p < 2 ^ 32" using uint_lt2p [of ?p] by simp
  ultimately show ?thesis by (simp add: air_time_needed_us_def soft_phy_air_time_us_def Let_def)
qed

function wait_for_air_time :: "u32 \<Rightarrow> u8 \<Rightarrow> u32 \<Rightarrow> u32 \<Rightarrow> driver \<Rightarrow> bool \<times> driver" where
  "wait_for_air_time sync_us raw_bytes start_ms timeout_ms d =
     (if drv_micros d - sync_us < air_time_needed_us raw_bytes
      then if drv_millis d - start_ms > timeout_ms then (False, d)
           else wait_for_air_time sync_us raw_bytes start_ms timeout_ms (pass_us SOFT_PHY_EARLY_POLL_US d)
      else (True, d))"
  by pat_completeness auto

termination wait_for_air_time
proof (relation "measure (\<lambda>(sync_us, raw_bytes, _, _, d). nat (uint (air_time_needed_us raw_bytes) - uint (drv_micros d - sync_us)))",
    goal_cases)
  case (2 sync_us raw_bytes start_ms timeout_ms d)
  let ?e = "drv_micros d - sync_us"
  have e: "uint ?e < uint (air_time_needed_us raw_bytes)" using 2(1) by (simp add: word_less_def)
  have "drv_micros (pass_us 100 d) - sync_us = ?e + 100" by (simp add: drv_micros_def algebra_simps)
  moreover have "uint (?e + 100) = uint ?e + 100"
    using e air_time_needed_bound [of raw_bytes] by (simp add: uint_word_ariths)
  ultimately have "uint (drv_micros (pass_us 100 d) - sync_us) = uint ?e + 100" by (simp only:)
  then show ?case using e by simp
qed simp

declare wait_for_air_time.simps [simp del]

definition probed_frame :: "uart_probe_result \<Rightarrow> bytes" where
  "probed_frame probe = sub_bytes (upr_frame_start probe) (upr_frame_len probe) (upr_decoded probe)"

text \<open>Three stages: learn the length from the first cell, wait for the frame and read it, let the CRC decide.\<close>

definition try_early_completion :: "soft_phy_ops \<Rightarrow> u32 \<Rightarrow> u32 \<Rightarrow> u32 \<Rightarrow> u32 \<Rightarrow> driver \<Rightarrow> rx_packet option \<times> driver" where
  "try_early_completion c sync_us irq_status start_ms timeout_ms d =
     (if op_early_rx_read_offset c < 0 then (None, d)
      else if timeout_ms < SOFT_PHY_EARLY_MIN_WINDOW_MS then (None, d)
      else
        let offset = word_of_int (op_early_rx_read_offset c);
            (arrived, d) = wait_for_air_time sync_us SOFT_PHY_EARLY_HEADER_RAW_BYTES start_ms timeout_ms d
        in if \<not> arrived then (None, d)
        else
          let (header, d) = op_read_rx_buffer c offset (unat (SOFT_PHY_EARLY_HEADER_RAW_BYTES)) d;
              frame_len = soft_phy_peek_frame_length header
          in if frame_len = 0 then (None, d)
          else
            let frame_raw_len = soft_phy_raw_bytes_for_frame (of_nat frame_len);
                (arrived, d) = wait_for_air_time sync_us frame_raw_len start_ms timeout_ms d
            in if \<not> arrived then (None, d)
            else
              let read_len = min (unat frame_raw_len + unat (SOFT_PHY_EARLY_READ_MARGIN_BYTES)) RADIO_PACKET_BUFFER_SIZE;
                  (raw, d) = op_read_rx_buffer c offset read_len d;
                  probe = find_uart_probe raw
              in if \<not> upr_valid probe then (None, d)
              else
                let packet = \<lparr>pkt_freq_hz = drv_current_freq d,
                              pkt_data = probed_frame probe\<rparr>;
                    d = op_fill_capture_info c True irq_status offset (of_nat read_len) raw (pkt_data packet) d;
                    d = clear_dio_fired d
                in (Some packet, reset_rx_state c True d))"

section \<open>Reading what the chip reports\<close>

text \<open>The scratch buffer holds 64 bytes; the probe is limited to the bytes read into it.\<close>

definition rx_probe_len :: "nat \<Rightarrow> nat" where
  "rx_probe_len reported_len =
     (if reported_len = unat (SOFT_PHY_RX_PROBE_PACKET_LEN) then unat (SOFT_PHY_RX_PROBE_PACKET_LEN)
      else if reported_len > 0 \<and> reported_len < 32 then RADIO_PACKET_BUFFER_SIZE
      else reported_len)"

definition recover_packet :: "nat \<Rightarrow> bytes \<Rightarrow> bytes" where
  "recover_packet reported_len rx_buf =
     (let probe = find_uart_probe rx_buf
      in if upr_valid probe then probed_frame probe else take (min reported_len FRAME_MAX_WIRE_SIZE) rx_buf)"

definition read_rx_packet :: "soft_phy_ops \<Rightarrow> bool \<Rightarrow> u32 \<Rightarrow> driver \<Rightarrow> rx_packet option \<times> driver" where
  "read_rx_packet c blocking_wait irq_status d =
     (let ((raw_reported_len, rx_offset), d) = op_get_rx_buffer_status c d;
          reported_len = min (unat raw_reported_len) RADIO_PACKET_BUFFER_SIZE;
          raw_probe_len = rx_probe_len reported_len;
          (rx_buf, d) = (if raw_probe_len > 0 then op_read_rx_buffer c rx_offset raw_probe_len d else ([], d));
          found = recover_packet reported_len rx_buf;
          packet = \<lparr>pkt_freq_hz = drv_current_freq d, pkt_data = found\<rparr>;
          d = op_fill_capture_info c blocking_wait irq_status rx_offset (of_nat reported_len) rx_buf found d;
          d = reset_rx_state c True d
      in (if found = [] then None else Some packet, d))"

definition finalize_receive :: "soft_phy_ops \<Rightarrow> u32 \<Rightarrow> driver \<Rightarrow> rx_packet option \<times> driver" where
  "finalize_receive c irq d =
     (if irq AND op_rx_done_bit c = 0
      then (None, reset_rx_state c True (op_fill_capture_info c True irq 0 0 [] [] d))
      else read_rx_packet c True irq d)"

section \<open>The blocking reception\<close>

partial_function (option) poll_until_activity :: "soft_phy_ops \<Rightarrow> u32 \<Rightarrow> u32 \<Rightarrow> driver \<Rightarrow> (u32 option \<times> driver) option" where
  "poll_until_activity c start timeout_ms d =
     (let d = (if drv_dio_fired d then clear_dio_fired d else d);
          (irq, d) = op_read_irq_status c d
      in if irq AND op_activity_irq_mask c \<noteq> 0
         then Some (Some irq, d\<lparr>drv_preamble_latched := False\<rparr>)
         else if drv_millis d - start > timeout_ms
         then Some (None, reset_rx_state c True (clear_dio_fired
                (d\<lparr>drv_preamble_latched := (irq AND op_preamble_detected_bit c \<noteq> 0)\<rparr>)))
         else poll_until_activity c start timeout_ms (drv_delay 1 d))"

partial_function (option) wait_rx_done :: "soft_phy_ops \<Rightarrow> u32 \<Rightarrow> u32 \<Rightarrow> driver \<Rightarrow> (u32 option \<times> driver) option" where
  "wait_rx_done c start timeout_ms d =
     (if drv_millis d - start > timeout_ms then Some (None, d)
      else if \<not> drv_dio_fired d
      then let (irq, d) = op_read_irq_status c d
           in if irq AND op_rx_done_bit c \<noteq> 0 then Some (Some irq, d)
              else wait_rx_done c start timeout_ms (drv_delay 1 d)
      else let (irq, d) = op_read_irq_status c (clear_dio_fired d)
           in if irq AND op_rx_done_bit c \<noteq> 0 then Some (Some irq, d)
              else wait_rx_done c start timeout_ms (if irq \<noteq> 0 then op_clear_irq_status c irq d else d))"

datatype sync_race = Race_timeout | Race_completed rx_packet | Race_settled u32

definition resolve_sync_race :: "soft_phy_ops \<Rightarrow> u32 \<Rightarrow> u32 \<Rightarrow> u32 \<Rightarrow> driver \<Rightarrow> (sync_race \<times> driver) option" where
  "resolve_sync_race c start timeout_ms irq d =
     (if irq AND op_sync_word_valid_bit c = 0 \<or> irq AND op_rx_done_bit c \<noteq> 0 then Some (Race_settled irq, d)
      else
        let sync_us = drv_micros d;
            d = op_clear_irq_status c (op_sync_word_valid_bit c) d
        in case try_early_completion c sync_us irq start timeout_ms d of
             (Some packet, d) \<Rightarrow> Some (Race_completed packet, d)
           | (None, d) \<Rightarrow>
               (case wait_rx_done c start timeout_ms d of
                  None \<Rightarrow> None
                | Some (None, d) \<Rightarrow> Some (Race_timeout, d)
                | Some (Some irq, d) \<Rightarrow> Some (Race_settled irq, d)))"

definition soft_wait_for_packet :: "soft_phy_ops \<Rightarrow> u32 \<Rightarrow> driver \<Rightarrow> (rx_packet option \<times> driver) option" where
  "soft_wait_for_packet c timeout_ms d =
     (let d = prepare_blocking_receive d;
          start = drv_millis d
      in case poll_until_activity c start timeout_ms d of
           None \<Rightarrow> None
         | Some (None, d) \<Rightarrow> Some (None, d)
         | Some (Some irq, d) \<Rightarrow>
             (case resolve_sync_race c start timeout_ms irq d of
                None \<Rightarrow> None
              | Some (Race_timeout, d) \<Rightarrow> Some (None, d)
              | Some (Race_completed packet, d) \<Rightarrow> Some (Some packet, d)
              | Some (Race_settled irq, d) \<Rightarrow> Some (finalize_receive c irq d)))"

section \<open>The polled reception\<close>

definition soft_check_for_packet :: "soft_phy_ops \<Rightarrow> driver \<Rightarrow> rx_packet option \<times> driver" where
  "soft_check_for_packet c d =
     (if \<not> drv_dio_fired d then (None, d)
      else
        let d = prepare_nonblocking_receive d;
            (irq, d) = op_read_irq_status c d
        in if irq AND op_activity_irq_mask c = 0
           then (None, if irq \<noteq> 0 then op_clear_irq_status c irq d else d)
           else if irq AND op_sync_word_valid_bit c \<noteq> 0 \<and> irq AND op_rx_done_bit c = 0
           then let sync_us = drv_micros d;
                    start_ms = drv_millis d;
                    d = note_reception_in_progress d;
                    d = op_clear_irq_status c (op_sync_word_valid_bit c) d;
                    (packet, d) = try_early_completion c sync_us irq start_ms SOFT_PHY_IDLE_RX_COMPLETION_BUDGET_MS d
                in (packet, if packet = None then note_reception_in_progress d else d)
           else if irq AND op_rx_done_bit c \<noteq> 0 then read_rx_packet c False irq d
           else (None, reset_rx_state c True (op_fill_capture_info c False irq 0 0 [] [] d)))"

section \<open>Transmission\<close>

abbreviation (input) SOFT_TX_TIMEOUT_MS :: u32 where "SOFT_TX_TIMEOUT_MS \<equiv> 4000"

partial_function (option) wait_tx_done :: "soft_phy_ops \<Rightarrow> u32 \<Rightarrow> driver \<Rightarrow> (bool \<times> driver) option" where
  "wait_tx_done c start d =
     (if \<not> drv_dio_fired d
      then if drv_millis d - start > SOFT_TX_TIMEOUT_MS then Some (False, op_set_mode_standby c d)
           else wait_tx_done c start (pass_us 100 d)
      else
        let (tx_irq, d) = op_read_irq_status c (clear_dio_fired d)
        in if tx_irq AND op_tx_done_bit c \<noteq> 0 then Some (True, d)
           else let d = (if tx_irq \<noteq> 0 then op_clear_irq_status c tx_irq d else d)
                in if drv_millis d - start > SOFT_TX_TIMEOUT_MS then Some (False, op_set_mode_standby c d)
                   else wait_tx_done c start d)"

definition soft_send_packet :: "soft_phy_ops \<Rightarrow> bytes \<Rightarrow> tx_config \<Rightarrow> driver \<Rightarrow> (bool \<times> driver) option" where
  "soft_send_packet c frame_bytes cfg d =
     (if frame_bytes = [] then Some (False, d)
      else
        let d = op_set_frequency_register c (txc_freq_hz cfg) (op_set_mode_standby c d);
            tx_buf = soft_phy_tx_buffer frame_bytes
        in if tx_buf = [] then Some (False, d)
        else
          let d = op_set_tx_packet_params c (txc_preamble_len cfg) (of_nat (length tx_buf)) d;
              d = op_clear_irq_status c 0xFFFFFFFF d;
              d = op_write_tx_buffer c tx_buf d;
              d = op_before_tx_arm c d;
              d = op_start_tx c (clear_dio_fired d)
          in case wait_tx_done c (drv_millis d) d of
               None \<Rightarrow> None
             | Some (False, d) \<Rightarrow> Some (False, d)
             | Some (True, d) \<Rightarrow>
                 (let d = rearm_rx_after_tx c (clear_dio_fired d)
                  in Some (True, pass_us (unat (drv_post_tx_settle_us d)) d)))"

section \<open>Frequency, signal strength and detection\<close>

definition soft_change_frequency :: "soft_phy_ops \<Rightarrow> u32 \<Rightarrow> driver \<Rightarrow> driver" where
  "soft_change_frequency c freq_hz d =
     (let d = op_set_frequency_register c freq_hz (op_set_mode_standby c d);
          d = clear_dio_fired (op_clear_irq_status c 0xFFFFFFFF d)
      in op_set_mode_rx c d)"

definition soft_read_rssi :: "soft_phy_ops \<Rightarrow> driver \<Rightarrow> int \<times> driver" where
  "soft_read_rssi c d = (let (raw, d) = op_read_rssi_raw_byte c d in (rssi_of_raw raw, d))"

definition soft_is_sync_detected :: "soft_phy_ops \<Rightarrow> driver \<Rightarrow> bool \<times> driver" where
  "soft_is_sync_detected c d =
     (let (irq, d) = op_read_irq_status c d in (irq AND op_sync_word_valid_bit c \<noteq> 0, d))"

definition soft_is_preamble_detected :: "soft_phy_ops \<Rightarrow> driver \<Rightarrow> bool \<times> driver" where
  "soft_is_preamble_detected c d =
     (if drv_preamble_latched d then (True, d\<lparr>drv_preamble_latched := False\<rparr>)
      else let (irq, d) = op_read_irq_status c d in (irq AND op_preamble_detected_bit c \<noteq> 0, d))"

section \<open>Sequences of calls\<close>

datatype radio_call = Call_wait u32 | Call_check | Call_hop u32 | Call_send bytes tx_config

fun soft_call :: "soft_phy_ops \<Rightarrow> radio_call \<Rightarrow> driver \<Rightarrow> driver option" where
  "soft_call c (Call_wait timeout_ms) d = map_option snd (soft_wait_for_packet c timeout_ms d)"
| "soft_call c Call_check d = Some (snd (soft_check_for_packet c d))"
| "soft_call c (Call_hop freq_hz) d = Some (soft_change_frequency c freq_hz d)"
| "soft_call c (Call_send frame_bytes cfg) d = map_option snd (soft_send_packet c frame_bytes cfg d)"

fun soft_calls :: "soft_phy_ops \<Rightarrow> radio_call list \<Rightarrow> driver \<Rightarrow> driver option" where
  "soft_calls c [] d = Some d"
| "soft_calls c (x # xs) d = (case soft_call c x d of None \<Rightarrow> None | Some d \<Rightarrow> soft_calls c xs d)"

section \<open>The contract of a chip\<close>

text \<open>
  What a chip has been told by the frames sent so far: its mode, its frequency register, the packet
  parameters, the front of its data buffer, and the transmissions started, each with the frequency, the
  preamble and the payload in force at that moment. \<open>cv_erratum\<close> says whether the register fix for the
  transmitter has been written since the mode was last changed. \<open>view\<close> is the reading of one chip; the
  laws say what each command does to it and that it uses the bus for a few frames only.
\<close>

datatype radio_mode = Standing_by | Listening | Sending

record emission =
  em_freq_word :: u32
  em_preamble_bits :: u16
  em_payload :: bytes
  em_erratum :: bool

record chip_view =
  cv_mode :: radio_mode
  cv_freq_word :: u32
  cv_preamble_bits :: u16
  cv_payload_len :: u8
  cv_memory :: bytes
  cv_erratum :: bool
  cv_air :: "emission list"

definition fresh_chip :: chip_view where
  "fresh_chip = \<lparr>cv_mode = Standing_by, cv_freq_word = 0, cv_preamble_bits = 0, cv_payload_len = 0,
     cv_memory = [], cv_erratum = False, cv_air = []\<rparr>"

definition overwrite :: "bytes \<Rightarrow> chip_view \<Rightarrow> chip_view" where
  "overwrite bs v = v\<lparr>cv_memory := bs @ drop (length bs) (cv_memory v)\<rparr>"

definition change_mode :: "radio_mode \<Rightarrow> chip_view \<Rightarrow> chip_view" where
  "change_mode m v = v\<lparr>cv_mode := m, cv_erratum := False\<rparr>"

definition set_packet :: "u16 \<Rightarrow> u8 \<Rightarrow> chip_view \<Rightarrow> chip_view" where
  "set_packet bits len v = v\<lparr>cv_preamble_bits := bits, cv_payload_len := len\<rparr>"

definition emit :: "chip_view \<Rightarrow> chip_view" where
  "emit v = change_mode Sending
     (v\<lparr>cv_air := cv_air v @ [\<lparr>em_freq_word = cv_freq_word v, em_preamble_bits = cv_preamble_bits v,
        em_payload = take (unat (cv_payload_len v)) (cv_memory v), em_erratum = cv_erratum v\<rparr>]\<rparr>)"

lemma soft_phy_tx_buffer_length: "length (soft_phy_tx_buffer frame_bytes) \<le> 64"
  by (simp add: soft_phy_tx_buffer_def uart_encode_packet_def Let_def)

lemma view_simps [simp]:
  "cv_mode (change_mode m v) = m" "cv_freq_word (change_mode m v) = cv_freq_word v" "cv_air (change_mode m v) = cv_air v"
  "cv_memory (change_mode m v) = cv_memory v" "cv_erratum (change_mode m v) = False"
  "cv_mode (set_packet bits len v) = cv_mode v" "cv_freq_word (set_packet bits len v) = cv_freq_word v"
  "cv_air (set_packet bits len v) = cv_air v" "cv_memory (set_packet bits len v) = cv_memory v"
  "cv_mode (overwrite bs v) = cv_mode v" "cv_freq_word (overwrite bs v) = cv_freq_word v" "cv_air (overwrite bs v) = cv_air v"
  "cv_mode (emit v) = Sending" "cv_freq_word (emit v) = cv_freq_word v" "cv_memory (emit v) = cv_memory v"
  by (simp_all add: change_mode_def set_packet_def overwrite_def emit_def)

definition packet_emission :: "(u32 \<Rightarrow> u32) \<Rightarrow> bytes \<Rightarrow> tx_config \<Rightarrow> emission" where
  "packet_emission freq_word buf cfg = \<lparr>em_freq_word = freq_word (txc_freq_hz cfg), em_preamble_bits = txc_preamble_len cfg * 8,
     em_payload = soft_phy_tx_buffer buf, em_erratum = True\<rparr>"

text \<open>What a sequence of calls puts on the air: one packet for each frame that can be encoded.\<close>

definition sent_by :: "(u32 \<Rightarrow> u32) \<Rightarrow> radio_call list \<Rightarrow> emission list" where
  "sent_by freq_word xs = concat (map (\<lambda>x. case x of
     Call_send buf cfg \<Rightarrow> if buf = [] \<or> soft_phy_tx_buffer buf = [] then [] else [packet_emission freq_word buf cfg]
   | _ \<Rightarrow> []) xs)"

definition chip_command :: "(radio_event list \<Rightarrow> chip_view) \<Rightarrow> u32 \<Rightarrow> chip_view \<Rightarrow> driver \<Rightarrow> driver \<Rightarrow> bool" where
  "chip_command view f v d d' \<longleftrightarrow> bus_step 8 d d' \<and> drv_current_freq d' = f \<and> view (drv_log d') = v"

abbreviation (input) viewed_command ::
  "(radio_event list \<Rightarrow> chip_view) \<Rightarrow> (chip_view \<Rightarrow> chip_view) \<Rightarrow> driver \<Rightarrow> driver \<Rightarrow> bool" where
  "viewed_command view g d d' \<equiv> chip_command view (drv_current_freq d) (g (view (drv_log d))) d d'"

abbreviation (input) plain_command :: "(radio_event list \<Rightarrow> chip_view) \<Rightarrow> driver \<Rightarrow> driver \<Rightarrow> bool" where
  "plain_command view d d' \<equiv> chip_command view (drv_current_freq d) (view (drv_log d)) d d'"

locale soft_radio =
  fixes c :: soft_phy_ops and view :: "radio_event list \<Rightarrow> chip_view"
    and freq_word :: "u32 \<Rightarrow> u32" and stale :: "chip_view \<Rightarrow> chip_view"
  assumes read_irq: "plain_command view d (snd (op_read_irq_status c d))"
    and clear_irq: "plain_command view d (op_clear_irq_status c bits d)"
    and rx_params: "viewed_command view (set_packet 64 48) d (op_set_rx_packet_params c d)"
    and tx_params: "viewed_command view (set_packet (pre * 8) len) d (op_set_tx_packet_params c pre len d)"
    and read_rssi: "plain_command view d (snd (op_read_rssi_raw_byte c d))"
    and write_tx: "viewed_command view (overwrite buf) d (op_write_tx_buffer c buf d)"
    and rx_status: "plain_command view d (snd (op_get_rx_buffer_status c d))"
    and read_rx: "plain_command view d (snd (op_read_rx_buffer c off n d))"
    and read_rx_length: "length (fst (op_read_rx_buffer c off n d)) = n"
    and fill_capture: "plain_command view d (op_fill_capture_info c blk irq off8 len8 raw frame d)"
    and before_tx: "viewed_command view (cv_erratum_update (\<lambda>_. True)) d (op_before_tx_arm c d)"
    and buffer_base: "plain_command view d (op_configure_buffer_base c d)"
    and invalidate: "viewed_command view stale d (op_invalidate_stale_rx c d)"
    and stale_keeps: "cv_mode (stale v) = cv_mode v" "cv_freq_word (stale v) = cv_freq_word v" "cv_air (stale v) = cv_air v"
    and set_frequency: "chip_command view f ((view (drv_log d))\<lparr>cv_freq_word := freq_word f\<rparr>) d (op_set_frequency_register c f d)"
    and start_tx: "viewed_command view emit d (op_start_tx c d)"
    and set_mode_rx: "viewed_command view (change_mode Listening) d (op_set_mode_rx c d)"
    and set_mode_standby: "viewed_command view (change_mode Standing_by) d (op_set_mode_standby c d)"
begin

lemmas commands = read_irq clear_irq rx_params tx_params read_rssi write_tx rx_status read_rx fill_capture
  before_tx buffer_base invalidate set_frequency start_tx set_mode_rx set_mode_standby

lemmas command_view [simp] = commands [unfolded chip_command_def, THEN conjunct2, THEN conjunct2]
lemmas command_freq [simp] = commands [unfolded chip_command_def, THEN conjunct2, THEN conjunct1]
lemmas command_step = commands [unfolded chip_command_def, THEN conjunct1]

lemma software_steps [simp]:
  "drv_log (clear_dio_fired d) = drv_log d" "drv_current_freq (clear_dio_fired d) = drv_current_freq d"
  "drv_log (clear_reception_in_progress d) = drv_log d" "drv_current_freq (clear_reception_in_progress d) = drv_current_freq d"
  "drv_log (note_reception_in_progress d) = drv_log d" "drv_current_freq (note_reception_in_progress d) = drv_current_freq d"
  "drv_log (drv_delay n d) = drv_log d" "drv_current_freq (drv_delay n d) = drv_current_freq d"
  "drv_log (prepare_blocking_receive d) = drv_log d" "drv_current_freq (prepare_blocking_receive d) = drv_current_freq d"
  "drv_log (prepare_nonblocking_receive d) = drv_log d" "drv_current_freq (prepare_nonblocking_receive d) = drv_current_freq d"
  by (simp_all add: clear_dio_fired_def clear_reception_in_progress_def note_reception_in_progress_def drv_delay_def
      prepare_blocking_receive_def prepare_nonblocking_receive_def clear_last_capture_def)

lemma air_time_keeps [simp]:
  "drv_log (snd (wait_for_air_time s r t l d)) = drv_log d"
  "drv_current_freq (snd (wait_for_air_time s r t l d)) = drv_current_freq d"
  by (induction s r t l d rule: wait_for_air_time.induct) (subst wait_for_air_time.simps, simp)+

text \<open>
  Receiving sends nothing and does not retune; \<open>relistened\<close> adds that the chip is left listening,
  \<open>still_tuned\<close> that its mode is the old one or listening.
\<close>

abbreviation (input) same_channel :: "driver \<Rightarrow> driver \<Rightarrow> bool" where
  "same_channel d d' \<equiv> drv_current_freq d' = drv_current_freq d \<and>
     cv_freq_word (view (drv_log d')) = cv_freq_word (view (drv_log d)) \<and> cv_air (view (drv_log d')) = cv_air (view (drv_log d))"

abbreviation (input) relistened :: "driver \<Rightarrow> driver \<Rightarrow> bool" where
  "relistened d d' \<equiv> same_channel d d' \<and> cv_mode (view (drv_log d')) = Listening"

abbreviation (input) still_tuned :: "driver \<Rightarrow> driver \<Rightarrow> bool" where
  "still_tuned d d' \<equiv> same_channel d d' \<and> cv_mode (view (drv_log d')) \<in> {cv_mode (view (drv_log d)), Listening}"

lemma rearmed: "relistened d (reset_rx_state c b d)" "relistened d (rearm_rx_after_tx c d)"
  by (simp_all add: reset_rx_state_def rearm_rx_after_tx_def Let_def stale_keeps)

lemmas rearmed_simps [simp] = rearmed(1) [THEN conjunct2] rearmed(2) [THEN conjunct2]
  rearmed(1) [THEN conjunct1, THEN conjunct1] rearmed(2) [THEN conjunct1, THEN conjunct1]
  rearmed(1) [THEN conjunct1, THEN conjunct2, THEN conjunct1] rearmed(2) [THEN conjunct1, THEN conjunct2, THEN conjunct1]
  rearmed(1) [THEN conjunct1, THEN conjunct2, THEN conjunct2] rearmed(2) [THEN conjunct1, THEN conjunct2, THEN conjunct2]

lemma early_completion_tuned: "still_tuned d (snd (try_early_completion c s irq t l d))"
  by (simp add: try_early_completion_def Let_def case_prod_beta)

lemma read_rx_packet_tuned: "relistened d (snd (read_rx_packet c blk irq d))"
  by (simp add: read_rx_packet_def Let_def case_prod_beta)

lemma finalize_tuned: "relistened d (snd (finalize_receive c irq d))"
  by (simp add: finalize_receive_def read_rx_packet_tuned)

lemma latch_cleared [simp]:
  "drv_log (d\<lparr>drv_preamble_latched := b\<rparr>) = drv_log d" "drv_current_freq (d\<lparr>drv_preamble_latched := b\<rparr>) = drv_current_freq d"
  by simp_all

lemma poll_tuned:
  assumes "poll_until_activity c start t d = Some r"
  shows "still_tuned d (snd r)"
proof -
  have "c' = c \<longrightarrow> still_tuned d (snd r)" if "poll_until_activity c' start t d = Some r" for c'
  proof (rule poll_until_activity.raw_induct [OF _ that], goal_cases)
    case (1 poll c' start t d r)
    show ?case
    proof
      assume c: "c' = c"
      let ?d0 = "if drv_dio_fired d then clear_dio_fired d else d"
      let ?d1 = "snd (op_read_irq_status c ?d0)"
      have d1: "view (drv_log ?d1) = view (drv_log d)" "drv_current_freq ?d1 = drv_current_freq d" by auto
      from 1(2) show "still_tuned d (snd r)"
        unfolding Let_def case_prod_beta c
        by (auto split: if_splits dest!: 1(1) simp: d1)
    qed
  qed
  with assms show ?thesis by blast
qed

lemma wait_rx_done_tuned:
  assumes "wait_rx_done c start t d = Some r"
  shows "still_tuned d (snd r)"
proof -
  have "c' = c \<longrightarrow> still_tuned d (snd r)" if "wait_rx_done c' start t d = Some r" for c'
  proof (rule wait_rx_done.raw_induct [OF _ that], goal_cases)
    case (1 wait c' start t d r)
    then show ?case
      unfolding Let_def case_prod_beta by (auto split: if_splits dest!: 1(1))
  qed
  with assms show ?thesis by blast
qed

text \<open>While a transmission is waited for, only the failure touches the chip.\<close>

abbreviation (input) tx_wait_end :: "driver \<Rightarrow> bool \<times> driver \<Rightarrow> bool" where
  "tx_wait_end d r \<equiv> drv_current_freq (snd r) = drv_current_freq d \<and>
     view (drv_log (snd r)) = (if fst r then view (drv_log d) else change_mode Standing_by (view (drv_log d)))"

lemma wait_tx_done_view:
  assumes "wait_tx_done c start d = Some r"
  shows "tx_wait_end d r"
proof -
  have "c' = c \<longrightarrow> tx_wait_end d r" if "wait_tx_done c' start d = Some r" for c'
  proof (rule wait_tx_done.raw_induct [OF _ that], goal_cases)
    case (1 wait c' start d r)
    then show ?case
      unfolding Let_def case_prod_beta by (auto split: if_splits dest!: 1(1))
  qed
  with assms show ?thesis by blast
qed

lemma resolve_tuned:
  assumes "resolve_sync_race c start t irq d = Some r"
  shows "still_tuned d (snd r)"
proof (cases "irq AND op_sync_word_valid_bit c = 0 \<or> irq AND op_rx_done_bit c \<noteq> 0")
  case True
  then show ?thesis using assms by (auto simp: resolve_sync_race_def)
next
  case False
  let ?d1 = "op_clear_irq_status c (op_sync_word_valid_bit c) d"
  obtain packet d2 where e: "try_early_completion c (drv_micros d) irq start t ?d1 = (packet, d2)" by fastforce
  have "still_tuned d d2" using early_completion_tuned [of "drv_micros d" irq start t ?d1] unfolding e by simp
  then show ?thesis
    using assms False by (auto simp: resolve_sync_race_def Let_def e split: option.splits dest!: wait_rx_done_tuned)
qed

lemma wait_for_packet_tuned:
  assumes "soft_wait_for_packet c t d = Some r"
  shows "still_tuned d (snd r)"
proof -
  let ?d0 = "prepare_blocking_receive d"
  obtain irq d1 where p: "poll_until_activity c (drv_millis ?d0) t ?d0 = Some (irq, d1)"
    using assms by (auto simp: soft_wait_for_packet_def Let_def split: option.splits)
  note d1 = poll_tuned [OF p, simplified]
  show ?thesis
  proof (cases irq)
    case None
    then show ?thesis using assms d1 by (auto simp: soft_wait_for_packet_def Let_def p)
  next
    case (Some i)
    obtain race d2 where q: "resolve_sync_race c (drv_millis ?d0) t i d1 = Some (race, d2)"
      using assms by (auto simp: soft_wait_for_packet_def Let_def p Some split: option.splits)
    note d2 = resolve_tuned [OF q, simplified]
    show ?thesis
      using assms d1 d2 finalize_tuned
      by (cases race) (auto simp: soft_wait_for_packet_def Let_def p Some q)
  qed
qed

lemma check_for_packet_tuned: "still_tuned d (snd (soft_check_for_packet c d))"
proof -
  define irq where "irq = fst (op_read_irq_status c (prepare_nonblocking_receive d))"
  define d1 where "d1 = snd (op_read_irq_status c (prepare_nonblocking_receive d))"
  have d1: "drv_current_freq d1 = drv_current_freq d" "view (drv_log d1) = view (drv_log d)" by (simp_all add: d1_def)
  show ?thesis
    using d1 read_rx_packet_tuned [of False irq d1]
      early_completion_tuned [of "drv_micros d1" irq "drv_millis d1" 20
        "op_clear_irq_status c (op_sync_word_valid_bit c) (note_reception_in_progress d1)"]
    unfolding soft_check_for_packet_def Let_def case_prod_beta irq_def [symmetric] d1_def [symmetric]
    by auto
qed

lemma change_frequency_tuned:
  "drv_current_freq (soft_change_frequency c f d) = f"
  "cv_freq_word (view (drv_log (soft_change_frequency c f d))) = freq_word f"
  "cv_mode (view (drv_log (soft_change_frequency c f d))) = Listening"
  "cv_air (view (drv_log (soft_change_frequency c f d))) = cv_air (view (drv_log d))"
  by (simp_all add: soft_change_frequency_def Let_def)

text \<open>
  A transmission emits one packet, the encoded frame on the asked-for frequency with the asked-for preamble,
  and leaves the chip listening when it was confirmed, standing by when it was not. A frame that does not fit
  is refused after the chip has been put into standby and retuned.
\<close>

lemma send_packet_view:
  assumes "soft_send_packet c buf cfg d = Some (ok, d')" and "buf \<noteq> []"
  shows "drv_current_freq d' = txc_freq_hz cfg \<and> cv_freq_word (view (drv_log d')) = freq_word (txc_freq_hz cfg) \<and>
    cv_mode (view (drv_log d')) = (if ok then Listening else Standing_by) \<and>
    cv_air (view (drv_log d')) = cv_air (view (drv_log d)) @
      (if soft_phy_tx_buffer buf = [] then [] else [packet_emission freq_word buf cfg]) \<and>
    (soft_phy_tx_buffer buf = [] \<longrightarrow> \<not> ok)"
proof (cases "soft_phy_tx_buffer buf = []")
  case True
  then show ?thesis using assms by (auto simp: soft_send_packet_def Let_def)
next
  case False
  let ?d = "op_start_tx c (clear_dio_fired (op_before_tx_arm c (op_write_tx_buffer c (soft_phy_tx_buffer buf)
    (op_clear_irq_status c 0xFFFFFFFF (op_set_tx_packet_params c (txc_preamble_len cfg)
      (of_nat (length (soft_phy_tx_buffer buf))) (op_set_frequency_register c (txc_freq_hz cfg) (op_set_mode_standby c d)))))))"
  have air: "cv_air (view (drv_log ?d)) = cv_air (view (drv_log d)) @ [packet_emission freq_word buf cfg]"
    using soft_phy_tx_buffer_length [of buf]
    by (simp add: emit_def packet_emission_def overwrite_def set_packet_def change_mode_def unat_of_nat)
  obtain w d1 where w: "wait_tx_done c (drv_millis ?d) ?d = Some (w, d1)"
    using assms False by (auto simp: soft_send_packet_def Let_def split: option.splits)
  note e = wait_tx_done_view [OF w]
  show ?thesis
  proof (cases w)
    case True
    then have "d' = pass_us (unat (drv_post_tx_settle_us (rearm_rx_after_tx c (clear_dio_fired d1)))) (rearm_rx_after_tx c (clear_dio_fired d1))"
      and "ok" using assms False by (simp_all add: soft_send_packet_def Let_def w)
    then show ?thesis using e True False air by simp
  next
    case False
    then have "d' = d1" "\<not> ok" using assms \<open>soft_phy_tx_buffer buf \<noteq> []\<close> by (simp_all add: soft_send_packet_def Let_def w)
    then show ?thesis using e False air \<open>soft_phy_tx_buffer buf \<noteq> []\<close> by simp
  qed
qed

text \<open>The chip is on the channel the driver believes it to be on, and only the calls' frames go on the air.\<close>

abbreviation (input) on_channel :: "driver \<Rightarrow> bool" where
  "on_channel d \<equiv> cv_freq_word (view (drv_log d)) = freq_word (drv_current_freq d)"

lemma call_view:
  assumes "soft_call c x d = Some d'" and "on_channel d"
  shows "on_channel d' \<and> cv_air (view (drv_log d')) = cv_air (view (drv_log d)) @ sent_by freq_word [x]"
proof (cases x)
  case (Call_wait t)
  then show ?thesis using assms by (auto simp: sent_by_def dest!: wait_for_packet_tuned)
next
  case Call_check
  then show ?thesis using assms check_for_packet_tuned [of d] by (auto simp: sent_by_def)
next
  case (Call_hop f)
  then show ?thesis using assms change_frequency_tuned [of f d] by (auto simp: sent_by_def)
next
  case (Call_send buf cfg)
  then obtain ok where s: "soft_send_packet c buf cfg d = Some (ok, d')" using assms(1) by auto
  show ?thesis
  proof (cases "buf = []")
    case True
    then show ?thesis using s assms(2) Call_send by (simp add: soft_send_packet_def sent_by_def)
  next
    case False
    then show ?thesis using send_packet_view [OF s False] Call_send by (simp add: sent_by_def)
  qed
qed

lemma calls_view:
  assumes "soft_calls c xs d = Some d'" and "on_channel d"
  shows "on_channel d' \<and> cv_air (view (drv_log d')) = cv_air (view (drv_log d)) @ sent_by freq_word xs"
  using assms
proof (induction xs arbitrary: d)
  case Nil
  then show ?case by (simp add: sent_by_def)
next
  case (Cons x xs)
  then obtain d1 where d1: "soft_call c x d = Some d1" "soft_calls c xs d1 = Some d'" by (auto split: option.splits)
  show ?case using call_view [OF d1(1) Cons.prems(2)] Cons.IH [OF d1(2)] by (auto simp: sent_by_def)
qed

lemma left_listening:
  assumes "cv_mode (view (drv_log d)) = Listening"
  shows "(\<forall>t r d'. soft_wait_for_packet c t d = Some (r, d') \<longrightarrow> cv_mode (view (drv_log d')) = Listening) \<and>
    cv_mode (view (drv_log (snd (soft_check_for_packet c d)))) = Listening \<and>
    (\<forall>f. cv_mode (view (drv_log (soft_change_frequency c f d))) = Listening) \<and>
    (\<forall>buf cfg d'. soft_send_packet c buf cfg d = Some (True, d') \<longrightarrow> cv_mode (view (drv_log d')) = Listening)"
proof (intro conjI allI impI)
  fix t r d' assume "soft_wait_for_packet c t d = Some (r, d')"
  from wait_for_packet_tuned [OF this] show "cv_mode (view (drv_log d')) = Listening" using assms by auto
next
  show "cv_mode (view (drv_log (snd (soft_check_for_packet c d)))) = Listening"
    using check_for_packet_tuned [of d] assms by auto
next
  fix f show "cv_mode (view (drv_log (soft_change_frequency c f d))) = Listening" by (rule change_frequency_tuned)
next
  fix buf cfg d' assume s: "soft_send_packet c buf cfg d = Some (True, d')"
  then have "buf \<noteq> []" by (auto simp: soft_send_packet_def)
  from send_packet_view [OF s this] show "cv_mode (view (drv_log d')) = Listening" by simp
qed

section \<open>The waits end\<close>

text \<open>
  Every pass through a loop uses up a piece of the chip's script or an interrupt to come, or it brings the
  timeout nearer.
\<close>

lemma software_measures [simp]:
  "script_size (clear_dio_fired d) = script_size d" "drv_clock (clear_dio_fired d) = drv_clock d"
  "alarm (clear_dio_fired d) \<le> alarm d" "drv_dio_fired d \<Longrightarrow> alarm (clear_dio_fired d) < alarm d"
  by (simp_all add: clear_dio_fired_def script_size_def alarm_def)

lemma bus_stepD:
  assumes "bus_step n d d'"
  shows "script_size d' \<le> script_size d" "alarm d' \<le> alarm d" "drv_clock d \<le> drv_clock d'"
    "script_size d' = script_size d \<Longrightarrow> drv_clock d' \<le> drv_clock d + int n"
  using assms by (auto simp: bus_step_def)

lemma poll_returns:
  assumes "t < 0x80000000" and "elapsed_us start d < 1000 * (uint t + 2)"
  shows "\<exists>r. poll_until_activity c start t d = Some r"
  using assms(2)
proof (induction d rule: wf_induct_rule [OF wf_measures [of "[script_size, \<lambda>d. nat (1000 * (uint t + 2) - elapsed_us start d)]"]])
  case (1 d)
  let ?d0 = "if drv_dio_fired d then clear_dio_fired d else d"
  obtain irq d1 where i: "op_read_irq_status c ?d0 = (irq, d1)" by fastforce
  have st: "bus_step 8 ?d0 d1" using command_step(1) [of ?d0] unfolding i by simp
  show ?case
  proof (cases "irq AND op_activity_irq_mask c \<noteq> 0 \<or> drv_millis d1 - start > t")
    case True
    then show ?thesis
      by (subst poll_until_activity.simps) (auto simp: Let_def i)
  next
    case False
    let ?d2 = "drv_delay 1 d1"
    have e1: "elapsed_us start d1 < 1000 * (uint t + 1)" using False unfolding elapsed_us_gt_iff by blast
    have e2: "elapsed_us start ?d2 = elapsed_us start d1 + 1000"
      by (rule elapsed_us_pass [OF elapsed_us_bound [OF assms(1)]]) (use e1 in \<open>simp_all add: drv_delay_def\<close>)
    have s2: "script_size ?d2 = script_size d1" by (simp add: drv_delay_def)
    have s1: "script_size d1 \<le> script_size d" using bus_stepD(1) [OF st] by (auto split: if_splits)
    have less: "elapsed_us start d \<le> elapsed_us start d1" if "script_size d1 = script_size d"
    proof -
      define u where "u = drv_clock d1 - drv_clock d"
      have u: "drv_clock d1 = drv_clock d + u" "0 \<le> u" "u \<le> 8"
        using bus_stepD(3,4) [OF st] that by (auto simp: u_def split: if_splits)
      then have "u \<le> 1000000" by simp
      from elapsed_us_pass [OF elapsed_us_bound [OF assms(1) 1(2)] u(1,2) this] show ?thesis using u(2) by linarith
    qed
    have "\<exists>r. poll_until_activity c start t ?d2 = Some r"
    proof (rule 1(1))
      show "elapsed_us start ?d2 < 1000 * (uint t + 2)" using e1 e2 by simp
      show "(?d2, d) \<in> measures [script_size, \<lambda>d. nat (1000 * (uint t + 2) - elapsed_us start d)]"
        using s1 s2 less e1 e2 1(2) by (cases "script_size d1 = script_size d") auto
    qed
    then show ?thesis using False by (subst poll_until_activity.simps) (simp add: Let_def i)
  qed
qed

lemma wait_rx_done_returns:
  assumes "t < 0x80000000"
  shows "\<exists>r. wait_rx_done c start t d = Some r"
proof (induction d rule: wf_induct_rule [OF wf_measures
      [of "[script_size, alarm, \<lambda>d. nat (1000 * (uint t + 1) - elapsed_us start d)]"]])
  case (1 d)
  show ?case
  proof (cases "drv_millis d - start > t")
    case True
    then show ?thesis by (subst wait_rx_done.simps) simp
  next
    case False
    then have e: "elapsed_us start d < 1000 * (uint t + 1)" unfolding elapsed_us_gt_iff by blast
    let ?d0 = "if drv_dio_fired d then clear_dio_fired d else d"
    obtain irq d1 where i: "op_read_irq_status c ?d0 = (irq, d1)" by fastforce
    have st: "bus_step 8 ?d0 d1" using command_step(1) [of ?d0] unfolding i by simp
    let ?d2 = "if drv_dio_fired d then if irq \<noteq> 0 then op_clear_irq_status c irq d1 else d1 else drv_delay 1 d1"
    have s: "script_size ?d2 \<le> script_size d1" "alarm ?d2 \<le> alarm d1"
      using bus_stepD(1,2) [OF command_step(2) [of d1 irq]] alarm_pass_us [of 1000 d1]
      by (auto simp: drv_delay_def)
    have s1: "script_size d1 \<le> script_size d" "alarm d1 \<le> alarm ?d0"
      using bus_stepD(1,2) [OF st] by (auto split: if_splits)
    have "(?d2, d) \<in> measures [script_size, alarm, \<lambda>d. nat (1000 * (uint t + 1) - elapsed_us start d)]"
    proof (cases "drv_dio_fired d")
      case True
      then have "alarm ?d0 < alarm d" by simp
      then have "alarm ?d2 < alarm d" "script_size ?d2 \<le> script_size d" using s s1 by linarith+
      then show ?thesis by (intro measures_lesseq measures_less)
    next
      case False
      show ?thesis
      proof (cases "script_size d1 = script_size d")
        case True
        define u where "u = drv_clock ?d2 - drv_clock d"
        have u: "drv_clock ?d2 = drv_clock d + u" "1000 \<le> u" "u \<le> 1008"
          using bus_stepD(3,4) [OF st] True False by (auto simp: u_def drv_delay_def)
        have "elapsed_us start ?d2 = elapsed_us start d + u"
          by (rule elapsed_us_pass [OF elapsed_us_bound [OF assms] u(1)]) (use e u in simp_all)
        then show ?thesis using s s1 e u False by auto
      next
        case False
        then show ?thesis using s s1 by simp
      qed
    qed
    from 1 [OF this] obtain r where "wait_rx_done c start t ?d2 = Some r" by blast
    then show ?thesis using False i by (subst wait_rx_done.simps) (auto simp: Let_def split: if_splits)
  qed
qed

lemma wait_tx_done_returns: "\<exists>r. wait_tx_done c start d = Some r"
proof (induction d rule: wf_induct_rule [OF wf_measures
      [of "[script_size, alarm, \<lambda>d. nat (4001000 - elapsed_us start d)]"]])
  case (1 d)
  have lim: "drv_millis d' - start > 4000 \<longleftrightarrow> \<not> elapsed_us start d' < 4001000" for d'
    using elapsed_us_gt_iff [of 4000 d' start] by simp
  show ?case
  proof (cases "drv_dio_fired d")
    case False
    let ?d = "pass_us 100 d"
    show ?thesis
    proof (cases "elapsed_us start d < 4001000")
      case True
      have "elapsed_us start ?d = elapsed_us start d + 100"
        by (rule elapsed_us_pass) (use True in simp_all)
      then have "(?d, d) \<in> measures [script_size, alarm, \<lambda>d. nat (4001000 - elapsed_us start d)]"
        using True alarm_pass_us [of 100 d] by (auto simp del: alarm_pass_us simp: order_le_less)
      from 1 [OF this] show ?thesis using False by (subst wait_tx_done.simps) (simp add: ex_bool_eq)
    next
      case past: False
      then show ?thesis using False lim by (subst wait_tx_done.simps) (simp add: ex_bool_eq)
    qed
  next
    case True
    obtain irq d1 where i: "op_read_irq_status c (clear_dio_fired d) = (irq, d1)" by fastforce
    let ?d2 = "if irq \<noteq> 0 then op_clear_irq_status c irq d1 else d1"
    have "bus_step 8 (clear_dio_fired d) d1" using command_step(1) [of "clear_dio_fired d"] unfolding i by simp
    note s1 = bus_stepD(1,2) [OF this]
    have s: "script_size ?d2 \<le> script_size d1" "alarm ?d2 \<le> alarm d1"
      using bus_stepD(1,2) [OF command_step(2) [of d1 irq]] by auto
    have "alarm (clear_dio_fired d) < alarm d" using True by simp
    then have "(?d2, d) \<in> measures [script_size, alarm, \<lambda>d. nat (4001000 - elapsed_us start d)]"
      using s s1 by auto
    from 1 [OF this] show ?thesis using True i by (subst wait_tx_done.simps) (auto simp: Let_def split: if_splits)
  qed
qed

lemma wait_for_packet_returns:
  assumes "t < 0x80000000"
  shows "\<exists>r. soft_wait_for_packet c t d = Some r"
proof -
  let ?d0 = "prepare_blocking_receive d"
  have "elapsed_us (drv_millis ?d0) ?d0 < 1000 * (uint t + 2)"
    by (rule order_less_le_trans [OF elapsed_us_start]) simp
  then obtain irq d1 where p: "poll_until_activity c (drv_millis ?d0) t ?d0 = Some (irq, d1)"
    using poll_returns [OF assms] by fastforce
  have "\<exists>r. resolve_sync_race c s t i d = Some r" for s i d
  proof -
    obtain packet d2 where e: "try_early_completion c (drv_micros d) i s t
        (op_clear_irq_status c (op_sync_word_valid_bit c) d) = (packet, d2)" by fastforce
    obtain w d3 where "wait_rx_done c s t d2 = Some (w, d3)" using wait_rx_done_returns [OF assms] by fastforce
    then show ?thesis by (cases packet; cases w) (simp_all add: resolve_sync_race_def Let_def e)
  qed
  note race = this
  show ?thesis
  proof (cases irq)
    case None
    then show ?thesis by (simp add: soft_wait_for_packet_def Let_def p)
  next
    case (Some i)
    obtain r d2 where "resolve_sync_race c (drv_millis ?d0) t i d1 = Some (r, d2)" using race by fastforce
    then show ?thesis by (cases r) (simp_all add: soft_wait_for_packet_def Let_def p Some)
  qed
qed

lemma send_packet_returns: "\<exists>r. soft_send_packet c buf cfg d = Some r"
proof -
  let ?d = "op_start_tx c (clear_dio_fired (op_before_tx_arm c (op_write_tx_buffer c (soft_phy_tx_buffer buf)
    (op_clear_irq_status c 0xFFFFFFFF (op_set_tx_packet_params c (txc_preamble_len cfg)
      (of_nat (length (soft_phy_tx_buffer buf))) (op_set_frequency_register c (txc_freq_hz cfg) (op_set_mode_standby c d)))))))"
  obtain ok d1 where "wait_tx_done c (drv_millis ?d) ?d = Some (ok, d1)" using wait_tx_done_returns by fastforce
  then show ?thesis by (cases ok) (auto simp add: soft_send_packet_def Let_def ex_bool_eq)
qed

end

end
