(* ===== verification/Radio_Sx1262.thy ===== *)
theory Radio_Sx1262
  imports Soft_Phy_Driver
begin

text \<open>
  The SX1262 (\<open>radio_sx1262.h\<close>, \<open>radio_sx1262.cpp\<close>): its opcode frames, the functions the shared driver
  flow calls, the configuration sequence and the start-up. The theory provides the instance
  \<open>sx1262_ops\<close> of the chip interface and interprets \<open>soft_radio\<close> on it. What \<open>init\<close> and \<open>dump_debug\<close>
  print is left out; the frames they send are not.
\<close>

section \<open>Constants\<close>

abbreviation (input) SX1262_SET_STANDBY :: u8 where "SX1262_SET_STANDBY \<equiv> 0x80"
abbreviation (input) SX1262_SET_RX :: u8 where "SX1262_SET_RX \<equiv> 0x82"
abbreviation (input) SX1262_SET_TX :: u8 where "SX1262_SET_TX \<equiv> 0x83"
abbreviation (input) SX1262_SET_RF_FREQUENCY :: u8 where "SX1262_SET_RF_FREQUENCY \<equiv> 0x86"
abbreviation (input) SX1262_SET_RX_TX_FALLBACK_MODE :: u8 where "SX1262_SET_RX_TX_FALLBACK_MODE \<equiv> 0x93"
abbreviation (input) SX1262_WRITE_BUFFER :: u8 where "SX1262_WRITE_BUFFER \<equiv> 0x0E"
abbreviation (input) SX1262_READ_BUFFER :: u8 where "SX1262_READ_BUFFER \<equiv> 0x1E"
abbreviation (input) SX1262_SET_DIO_IRQ_PARAMS :: u8 where "SX1262_SET_DIO_IRQ_PARAMS \<equiv> 0x08"
abbreviation (input) SX1262_GET_IRQ_STATUS :: u8 where "SX1262_GET_IRQ_STATUS \<equiv> 0x12"
abbreviation (input) SX1262_GET_PACKET_STATUS :: u8 where "SX1262_GET_PACKET_STATUS \<equiv> 0x14"
abbreviation (input) SX1262_GET_DEVICE_ERRORS :: u8 where "SX1262_GET_DEVICE_ERRORS \<equiv> 0x17"
abbreviation (input) SX1262_CLEAR_IRQ_STATUS :: u8 where "SX1262_CLEAR_IRQ_STATUS \<equiv> 0x02"
abbreviation (input) SX1262_CLEAR_DEVICE_ERRORS :: u8 where "SX1262_CLEAR_DEVICE_ERRORS \<equiv> 0x07"
abbreviation (input) SX1262_SET_PACKET_TYPE :: u8 where "SX1262_SET_PACKET_TYPE \<equiv> 0x8A"
abbreviation (input) SX1262_SET_MODULATION_PARAMS :: u8 where "SX1262_SET_MODULATION_PARAMS \<equiv> 0x8B"
abbreviation (input) SX1262_SET_PACKET_PARAMS :: u8 where "SX1262_SET_PACKET_PARAMS \<equiv> 0x8C"
abbreviation (input) SX1262_SET_BUFFER_BASE_ADDRESS :: u8 where "SX1262_SET_BUFFER_BASE_ADDRESS \<equiv> 0x8F"
abbreviation (input) SX1262_SET_PA_CONFIG :: u8 where "SX1262_SET_PA_CONFIG \<equiv> 0x95"
abbreviation (input) SX1262_SET_TX_PARAMS :: u8 where "SX1262_SET_TX_PARAMS \<equiv> 0x8E"
abbreviation (input) SX1262_SET_DIO2_AS_RF_SWITCH_CTRL :: u8 where "SX1262_SET_DIO2_AS_RF_SWITCH_CTRL \<equiv> 0x9D"
abbreviation (input) SX1262_SET_DIO3_AS_TCXO_CTRL :: u8 where "SX1262_SET_DIO3_AS_TCXO_CTRL \<equiv> 0x97"
abbreviation (input) SX1262_CALIBRATE :: u8 where "SX1262_CALIBRATE \<equiv> 0x89"
abbreviation (input) SX1262_CALIBRATE_IMAGE :: u8 where "SX1262_CALIBRATE_IMAGE \<equiv> 0x98"
abbreviation (input) SX1262_GET_RX_BUFFER_STATUS :: u8 where "SX1262_GET_RX_BUFFER_STATUS \<equiv> 0x13"
abbreviation (input) SX1262_GET_RSSI_INST :: u8 where "SX1262_GET_RSSI_INST \<equiv> 0x15"
abbreviation (input) SX1262_SET_REGULATOR_MODE :: u8 where "SX1262_SET_REGULATOR_MODE \<equiv> 0x96"
abbreviation (input) SX1262_GET_STATUS :: u8 where "SX1262_GET_STATUS \<equiv> 0xC0"
abbreviation (input) SX1262_WRITE_REGISTER :: u8 where "SX1262_WRITE_REGISTER \<equiv> 0x0D"
abbreviation (input) SX1262_READ_REGISTER :: u8 where "SX1262_READ_REGISTER \<equiv> 0x1D"
abbreviation (input) SX1262_IRQ_TX_DONE :: u16 where "SX1262_IRQ_TX_DONE \<equiv> 0x0001"
abbreviation (input) SX1262_IRQ_RX_DONE :: u16 where "SX1262_IRQ_RX_DONE \<equiv> 0x0002"
abbreviation (input) SX1262_IRQ_PREAMBLE_DETECTED :: u16 where "SX1262_IRQ_PREAMBLE_DETECTED \<equiv> 0x0004"
abbreviation (input) SX1262_IRQ_SYNC_WORD_VALID :: u16 where "SX1262_IRQ_SYNC_WORD_VALID \<equiv> 0x0008"
abbreviation (input) SX1262_IRQ_CRC_ERR :: u16 where "SX1262_IRQ_CRC_ERR \<equiv> 0x0040"
abbreviation (input) SX1262_IRQ_ACTIVITY_MASK :: u16 where
  "SX1262_IRQ_ACTIVITY_MASK \<equiv> SX1262_IRQ_TX_DONE OR SX1262_IRQ_RX_DONE OR SX1262_IRQ_SYNC_WORD_VALID OR SX1262_IRQ_CRC_ERR"
abbreviation (input) SX1262_REG_SYNC_WORD :: u16 where "SX1262_REG_SYNC_WORD \<equiv> 0x06C0"
abbreviation (input) SX1262_REG_RX_GAIN :: u16 where "SX1262_REG_RX_GAIN \<equiv> 0x08AC"
abbreviation (input) SX1262_REG_TX_CLAMP_CONFIG :: u16 where "SX1262_REG_TX_CLAMP_CONFIG \<equiv> 0x08D8"
abbreviation (input) SX1262_REG_TX_MODULATION :: u16 where "SX1262_REG_TX_MODULATION \<equiv> 0x0889"
abbreviation (input) SX1262_TX_MODULATION_GFSK_BIT :: u8 where "SX1262_TX_MODULATION_GFSK_BIT \<equiv> 0x04"
abbreviation (input) SX1262_TX_BUFFER_BASE :: u8 where "SX1262_TX_BUFFER_BASE \<equiv> 0x00"
abbreviation (input) SX1262_RX_BUFFER_BASE :: u8 where "SX1262_RX_BUFFER_BASE \<equiv> 0x80"
abbreviation (input) SX1262_GFSK_PACKET_TYPE_KNOWN_LENGTH :: u8 where "SX1262_GFSK_PACKET_TYPE_KNOWN_LENGTH \<equiv> 0x00"
abbreviation (input) SX1262_GFSK_CRC_OFF :: u8 where "SX1262_GFSK_CRC_OFF \<equiv> 0x01"
abbreviation (input) SX1262_FALLBACK_STDBY_XOSC :: u8 where "SX1262_FALLBACK_STDBY_XOSC \<equiv> 0x30"
abbreviation (input) SX1262_BUSY_TIMEOUT_MS :: u32 where "SX1262_BUSY_TIMEOUT_MS \<equiv> 10"
abbreviation (input) SX1262_SYNC_WORD_PARAM_24_BITS :: u8 where "SX1262_SYNC_WORD_PARAM_24_BITS \<equiv> 0x18"

section \<open>SPI communication\<close>

definition sx1262_write_opcode :: "u8 \<Rightarrow> bytes \<Rightarrow> driver \<Rightarrow> driver" where
  "sx1262_write_opcode opcode params d = snd (spi_frame (opcode # params) 0 (wait_busy_line d))"

definition sx1262_read_opcode :: "u8 \<Rightarrow> nat \<Rightarrow> driver \<Rightarrow> bytes \<times> driver" where
  "sx1262_read_opcode opcode len d = spi_frame [opcode, 0x00] len (wait_busy_line d)"

definition sx1262_read_irq_status_raw :: "driver \<Rightarrow> u32 \<times> driver" where
  "sx1262_read_irq_status_raw d =
     (let (irq_raw, d) = sx1262_read_opcode SX1262_GET_IRQ_STATUS 2 d
      in (push_bit 8 (ucast (irq_raw ! 0)) OR ucast (irq_raw ! 1), d))"

definition sx1262_write_register :: "u16 \<Rightarrow> bytes \<Rightarrow> driver \<Rightarrow> driver" where
  "sx1262_write_register addr bs d =
     snd (spi_frame ([SX1262_WRITE_REGISTER, hi8 addr, lo8 addr] @ bs) 0 (wait_busy_line d))"

definition sx1262_read_register :: "u16 \<Rightarrow> nat \<Rightarrow> driver \<Rightarrow> bytes \<times> driver" where
  "sx1262_read_register addr len d =
     spi_frame [SX1262_READ_REGISTER, hi8 addr, lo8 addr, 0x00] len (wait_busy_line d)"

definition sx1262_write_buffer :: "u8 \<Rightarrow> bytes \<Rightarrow> driver \<Rightarrow> driver" where
  "sx1262_write_buffer offset bs d = snd (spi_frame ([SX1262_WRITE_BUFFER, offset] @ bs) 0 (wait_busy_line d))"

definition sx1262_read_buffer :: "u8 \<Rightarrow> nat \<Rightarrow> driver \<Rightarrow> bytes \<times> driver" where
  "sx1262_read_buffer offset len d = spi_frame [SX1262_READ_BUFFER, offset, 0x00] len (wait_busy_line d)"

section \<open>What the shared flow calls\<close>

definition sx1262_set_packet_params :: "u16 \<Rightarrow> u8 \<Rightarrow> u8 \<Rightarrow> u8 \<Rightarrow> driver \<Rightarrow> driver" where
  "sx1262_set_packet_params preamble_len payload_len packet_type crc_type d =
     sx1262_write_opcode SX1262_SET_PACKET_PARAMS
       (build_gfsk_packet_params preamble_len 0x04 SX1262_SYNC_WORD_PARAM_24_BITS packet_type payload_len crc_type) d"

definition sx1262_set_rx_packet_params :: "driver \<Rightarrow> driver" where
  "sx1262_set_rx_packet_params d =
     sx1262_set_packet_params 8 SOFT_PHY_RX_PROBE_PACKET_LEN SX1262_GFSK_PACKET_TYPE_KNOWN_LENGTH SX1262_GFSK_CRC_OFF d"

definition sx1262_set_tx_packet_params :: "u16 \<Rightarrow> u8 \<Rightarrow> driver \<Rightarrow> driver" where
  "sx1262_set_tx_packet_params preamble_len payload_len d =
     sx1262_set_packet_params preamble_len payload_len SX1262_GFSK_PACKET_TYPE_KNOWN_LENGTH SX1262_GFSK_CRC_OFF d"

definition sx1262_write_modulation_params :: "driver \<Rightarrow> driver" where
  "sx1262_write_modulation_params d =
     sx1262_write_opcode SX1262_SET_MODULATION_PARAMS [0x00, 0x68, 0x2B, 0x0B, drv_bandwidth d, 0x00, 0x4E, 0xA5] d"

definition sx1262_clear_irq_status :: "u32 \<Rightarrow> driver \<Rightarrow> driver" where
  "sx1262_clear_irq_status irq_mask d =
     sx1262_write_opcode SX1262_CLEAR_IRQ_STATUS
       [ucast (drop_bit 8 irq_mask AND 0xFF), ucast (irq_mask AND 0xFF)] d"

definition sx1262_get_device_errors :: "driver \<Rightarrow> u16 \<times> driver" where
  "sx1262_get_device_errors d =
     (let (errors_raw, d) = sx1262_read_opcode SX1262_GET_DEVICE_ERRORS 2 d
      in (be16 (errors_raw ! 0) (errors_raw ! 1), d))"

definition sx1262_clear_device_errors :: "driver \<Rightarrow> driver" where
  "sx1262_clear_device_errors d = sx1262_write_opcode SX1262_CLEAR_DEVICE_ERRORS [0x00, 0x00] d"

definition sx1262_configure_buffer_base :: "driver \<Rightarrow> driver" where
  "sx1262_configure_buffer_base d =
     sx1262_write_opcode SX1262_SET_BUFFER_BASE_ADDRESS [SX1262_TX_BUFFER_BASE, SX1262_RX_BUFFER_BASE] d"

definition sx1262_fill_capture_info :: "bool \<Rightarrow> u32 \<Rightarrow> u8 \<Rightarrow> u8 \<Rightarrow> bytes \<Rightarrow> bytes \<Rightarrow> driver \<Rightarrow> driver" where
  "sx1262_fill_capture_info blocking_wait irq_status rx_offset reported_len raw frame d =
     (let (packet_status, d) = sx1262_read_opcode SX1262_GET_PACKET_STATUS 3 d;
          d = populate_capture_base blocking_wait (rssi_of_raw (packet_status ! 1)) raw frame d
      in d\<lparr>drv_last_capture := (drv_last_capture d)
            \<lparr>cap_rx_done := irq_status AND ucast (SX1262_IRQ_RX_DONE) \<noteq> 0,
             cap_crc_error := irq_status AND ucast (SX1262_IRQ_CRC_ERR) \<noteq> 0,
             cap_irq_status := ucast irq_status, cap_packet_status := packet_status ! 0,
             cap_rx_offset := rx_offset, cap_reported_len := reported_len\<rparr>\<rparr>)"

definition sx1262_read_rssi_raw_byte :: "driver \<Rightarrow> u8 \<times> driver" where
  "sx1262_read_rssi_raw_byte d =
     (let (raw, d) = sx1262_read_opcode SX1262_GET_RSSI_INST 1 d in (raw ! 0, d))"

definition sx1262_get_rx_buffer_status :: "driver \<Rightarrow> (u8 \<times> u8) \<times> driver" where
  "sx1262_get_rx_buffer_status d =
     (let (rx_status, d) = sx1262_read_opcode SX1262_GET_RX_BUFFER_STATUS 2 d
      in ((rx_status ! 0, rx_status ! 1), d))"

definition sx1262_apply_tx_modulation_workaround :: "driver \<Rightarrow> driver" where
  "sx1262_apply_tx_modulation_workaround d =
     (let (tx_modulation, d) = sx1262_read_register SX1262_REG_TX_MODULATION 1 d
      in sx1262_write_register SX1262_REG_TX_MODULATION [tx_modulation ! 0 OR SX1262_TX_MODULATION_GFSK_BIT] d)"

definition sx1262_start_tx :: "driver \<Rightarrow> driver" where
  "sx1262_start_tx d = sx1262_write_opcode SX1262_SET_TX [0x03, 0xE8, 0x00] d"

definition sx1262_set_mode_standby :: "driver \<Rightarrow> driver" where
  "sx1262_set_mode_standby d = sx1262_write_opcode SX1262_SET_STANDBY [0x01] d"

definition sx1262_set_mode_rx :: "driver \<Rightarrow> driver" where
  "sx1262_set_mode_rx d = sx1262_write_opcode SX1262_SET_RX [0xFF, 0xFF, 0xFF] d"

text \<open>
  \<open>(uint32_t) ((double) freq_hz * (1 << 25) / 32e6)\<close>: the product is exact in a double, and the quotient is a
  multiple of 1/15625 below 2 to the 33, so rounding it to a double cannot carry it to the next integer; the
  conversion is the integer division below.
\<close>

definition sx1262_freq_reg :: "u32 \<Rightarrow> u32" where
  "sx1262_freq_reg freq_hz = word_of_int (uint freq_hz * 2 ^ 25 div 32000000)"

definition sx1262_set_frequency_register :: "u32 \<Rightarrow> driver \<Rightarrow> driver" where
  "sx1262_set_frequency_register freq_hz d =
     (sx1262_write_opcode SX1262_SET_RF_FREQUENCY (be32 (sx1262_freq_reg freq_hz)) d)\<lparr>drv_current_freq := freq_hz\<rparr>"

definition sx1262_ops :: soft_phy_ops where
  "sx1262_ops = \<lparr>
     op_read_irq_status = sx1262_read_irq_status_raw,
     op_clear_irq_status = sx1262_clear_irq_status,
     op_sync_word_valid_bit = ucast (SX1262_IRQ_SYNC_WORD_VALID),
     op_rx_done_bit = ucast (SX1262_IRQ_RX_DONE),
     op_tx_done_bit = ucast (SX1262_IRQ_TX_DONE),
     op_preamble_detected_bit = ucast (SX1262_IRQ_PREAMBLE_DETECTED),
     op_activity_irq_mask = ucast (SX1262_IRQ_ACTIVITY_MASK),
     op_early_rx_read_offset = uint (SX1262_RX_BUFFER_BASE),
     op_set_frequency_register = sx1262_set_frequency_register,
     op_set_rx_packet_params = sx1262_set_rx_packet_params,
     op_set_tx_packet_params = sx1262_set_tx_packet_params,
     op_read_rssi_raw_byte = sx1262_read_rssi_raw_byte,
     op_write_tx_buffer = sx1262_write_buffer SX1262_TX_BUFFER_BASE,
     op_get_rx_buffer_status = sx1262_get_rx_buffer_status,
     op_read_rx_buffer = sx1262_read_buffer,
     op_start_tx = sx1262_start_tx,
     op_fill_capture_info = sx1262_fill_capture_info,
     op_before_tx_arm = sx1262_apply_tx_modulation_workaround,
     op_configure_buffer_base = sx1262_configure_buffer_base,
     op_invalidate_stale_rx = (\<lambda>d. d),
     op_set_mode_rx = sx1262_set_mode_rx,
     op_set_mode_standby = sx1262_set_mode_standby\<rparr>"

section \<open>Tuning\<close>

definition sx1262_set_rx_bandwidth :: "u8 \<Rightarrow> driver \<Rightarrow> driver" where
  "sx1262_set_rx_bandwidth bandwidth d = sx1262_write_modulation_params (d\<lparr>drv_bandwidth := bandwidth\<rparr>)"

definition sx1262_apply_tuning :: "tuning_config \<Rightarrow> driver \<Rightarrow> driver" where
  "sx1262_apply_tuning tuning d =
     (sx1262_set_rx_bandwidth (sx1262_rx_bandwidth tuning) d)
       \<lparr>drv_response_preamble := sx1262_response_preamble tuning,
        drv_post_tx_settle_us := sx1262_post_tx_settle_us tuning\<rparr>"

section \<open>Start-up\<close>

text \<open>The power is clamped as a signed byte.\<close>

definition sx1262_power :: "u8 \<Rightarrow> u8" where
  "sx1262_power tx_power = word_of_int (max (-9) (min 22 (sint tx_power)))"

definition sx1262_configure_radio :: "driver \<Rightarrow> driver" where
  "sx1262_configure_radio d =
     (let d = sx1262_write_opcode SX1262_SET_STANDBY [0x00] d;
          d = sx1262_write_opcode SX1262_SET_DIO3_AS_TCXO_CTRL [drv_tcxo d, 0x00, 0x01, 0x40] d;
          d = drv_delay 5 (sx1262_write_opcode SX1262_CALIBRATE [0x7F] d);
          d = sx1262_write_opcode SX1262_SET_STANDBY [0x01] d;
          d = sx1262_write_opcode SX1262_SET_REGULATOR_MODE [0x01] d;
          d = sx1262_write_opcode SX1262_SET_DIO2_AS_RF_SWITCH_CTRL [0x01] d;
          d = sx1262_write_opcode SX1262_SET_RX_TX_FALLBACK_MODE [SX1262_FALLBACK_STDBY_XOSC] d;
          d = sx1262_write_opcode SX1262_SET_PACKET_TYPE [0x00] d;
          d = sx1262_set_frequency_register FREQ_CH2 d;
          d = sx1262_write_opcode SX1262_CALIBRATE_IMAGE [0xD7, 0xDB] d;
          d = sx1262_write_register SX1262_REG_RX_GAIN [0x96] d;
          d = sx1262_write_modulation_params d;
          d = sx1262_set_rx_packet_params d;
          d = sx1262_write_register SX1262_REG_SYNC_WORD [0x57, 0xFD, 0x99, 0x00, 0x00, 0x00, 0x00, 0x00] d;
          d = sx1262_write_register 0x06BC [0x1D, 0x0F] d;
          d = sx1262_write_register 0x06BE [0x10, 0x21] d;
          d = sx1262_configure_buffer_base d;
          d = sx1262_write_opcode SX1262_SET_PA_CONFIG [0x04, 0x07, 0x00, 0x01] d;
          (tx_clamp, d) = sx1262_read_register SX1262_REG_TX_CLAMP_CONFIG 1 d;
          d = sx1262_write_register SX1262_REG_TX_CLAMP_CONFIG [tx_clamp ! 0 OR 0x1E] d;
          d = sx1262_write_opcode SX1262_SET_TX_PARAMS [sx1262_power (drv_tx_power d), 0x04] d;
          d = sx1262_write_opcode SX1262_SET_DIO_IRQ_PARAMS [0x00, 0x4F, 0x00, 0x4B, 0x00, 0x00, 0x00, 0x00] d;
          d = tell_event Attach_interrupt d;
          d = sx1262_clear_irq_status 0xFFFF d;
          (init_errors, d) = sx1262_get_device_errors d;
          d = sx1262_clear_device_errors d
      in sx1262_write_opcode SX1262_SET_RX [0xFF, 0xFF, 0xFF] d)"

text \<open>The status request as \<open>init\<close> and \<open>dump_debug\<close> send it.\<close>

definition sx1262_get_status :: "driver \<Rightarrow> u8 \<times> driver" where
  "sx1262_get_status d = (let (r, d) = spi_frame [SX1262_GET_STATUS] 1 (wait_busy_line d) in (r ! 0, d))"

text \<open>The BUSY wait of \<open>init\<close> has its own bound and a pause of a millisecond between polls.\<close>

fun init_busy_loop :: "u32 \<Rightarrow> nat list \<Rightarrow> driver \<Rightarrow> bool \<times> driver" where
  "init_busy_loop start [] d = (True, d)"
| "init_busy_loop start (us # polls) d =
     (if drv_millis d - start > 2000 then (False, d\<lparr>drv_failed := True\<rparr>)
      else init_busy_loop start polls (drv_delay 1 (pass_us us d)))"

definition sx1262_init :: "bool \<Rightarrow> driver \<Rightarrow> bool \<times> driver" where
  "sx1262_init has_power_pin d =
     (if \<not> has_power_pin then (False, d\<lparr>drv_failed := True\<rparr>)
      else
        let d = drv_delay 20 (tell_event (Power_pin False) d);
            d = drv_delay 100 (tell_event (Power_pin True) d);
            d = drv_delay 10 (tell_event (Reset_pin True) d);
            d = drv_delay 100 (tell_event (Reset_pin False) d);
            d = drv_delay 500 (tell_event (Reset_pin True) d);
            polls = (case drv_busy d of [] \<Rightarrow> [] | p # _ \<Rightarrow> p);
            (ready, d) = init_busy_loop (drv_millis d) polls (d\<lparr>drv_busy := tl (drv_busy d)\<rparr>)
        in if \<not> ready then (False, d)
        else
          let d = snd (sx1262_get_status d);
              d = drv_delay 10 (snd (sx1262_get_status d));
              d = drv_delay 10 (snd (sx1262_get_status d));
              d = drv_delay 10 (snd (sx1262_get_status d));
              d = sx1262_configure_radio d
          in if drv_failed d then (False, d)
             else (True, snd (sx1262_get_status d)))"

section \<open>The contract\<close>

text \<open>
  What the frames tell the chip, as the data sheet describes the opcodes the driver uses: the three mode
  commands, the frequency word, the packet parameters, the data buffer from offset 0 on, and the register of
  the transmitter erratum.
\<close>

definition sx1262_opcode_effect :: "u8 \<Rightarrow> bytes \<Rightarrow> chip_view \<Rightarrow> chip_view" where
  "sx1262_opcode_effect opcode ps v =
     (if opcode = SX1262_SET_STANDBY then change_mode Standing_by v
      else if opcode = SX1262_SET_RX then change_mode Listening v
      else if opcode = SX1262_SET_TX then emit v
      else if opcode = SX1262_SET_RF_FREQUENCY then v\<lparr>cv_freq_word := read32 ps\<rparr>
      else if opcode = SX1262_SET_PACKET_PARAMS then set_packet (be16 (ps ! 0) (ps ! 1)) (ps ! 6) v
      else if opcode = SX1262_WRITE_BUFFER \<and> hd ps = SX1262_TX_BUFFER_BASE then overwrite (tl ps) v
      else if opcode = SX1262_WRITE_REGISTER \<and> be16 (ps ! 0) (ps ! 1) = SX1262_REG_TX_MODULATION
      then v\<lparr>cv_erratum := (ps ! 2 AND SX1262_TX_MODULATION_GFSK_BIT \<noteq> 0)\<rparr>
      else v)"

fun sx1262_event_effect :: "radio_event \<Rightarrow> chip_view \<Rightarrow> chip_view" where
  "sx1262_event_effect (Spi (opcode # ps)) v = sx1262_opcode_effect opcode ps v"
| "sx1262_event_effect _ v = v"

definition sx1262_view :: "radio_event list \<Rightarrow> chip_view" where
  "sx1262_view es = fold sx1262_event_effect es fresh_chip"

lemma sx1262_view_append [simp]: "sx1262_view (es @ fs) = fold sx1262_event_effect fs (sx1262_view es)"
  by (simp add: sx1262_view_def)

lemmas sx1262_frames = sx1262_write_opcode_def sx1262_read_opcode_def sx1262_write_register_def
  sx1262_read_register_def sx1262_write_buffer_def sx1262_read_buffer_def

lemmas sx1262_commands = sx1262_frames sx1262_read_irq_status_raw_def sx1262_set_packet_params_def
  sx1262_set_rx_packet_params_def sx1262_set_tx_packet_params_def sx1262_clear_irq_status_def
  sx1262_configure_buffer_base_def sx1262_read_rssi_raw_byte_def sx1262_get_rx_buffer_status_def
  sx1262_start_tx_def sx1262_set_mode_standby_def sx1262_set_mode_rx_def

lemma sx1262_frame:
  assumes "v = sx1262_event_effect (Spi (out @ replicate n 0)) (sx1262_view (drv_log d))" and "f = drv_current_freq d"
  shows "chip_command sx1262_view f v d (snd (spi_frame out n (wait_busy_line d)))"
  using busy_frame(1) [of d out n] busy_frame(2-4) [of out n d] assms by (simp add: chip_command_def bus_step_mono [of 1])

lemma or_bit_set: "(b OR 0x04) AND 0x04 \<noteq> (0 :: u8)"
proof -
  have "bit ((b OR 4) AND 4) 2" by (simp add: bit_simps)
  then show ?thesis by (metis bit_0_eq bot_apply bot_bool_def)
qed

lemma sx1262_workaround:
  "viewed_command sx1262_view (cv_erratum_update (\<lambda>_. True)) d (sx1262_apply_tx_modulation_workaround d)"
proof -
  let ?d1 = "snd (spi_frame [SX1262_READ_REGISTER, hi8 SX1262_REG_TX_MODULATION, lo8 SX1262_REG_TX_MODULATION, 0x00] 1 (wait_busy_line d))"
  have "bus_step 8 d (snd (spi_frame out 0 (wait_busy_line ?d1)))" for out
    by (rule bus_step_trans [OF busy_frame(1) busy_frame(1)]) simp
  then show ?thesis
    by (simp add: sx1262_apply_tx_modulation_workaround_def sx1262_frames case_prod_beta chip_command_def busy_frame
        sx1262_opcode_effect_def or_bit_set)
qed

lemma sx1262_capture: "plain_command sx1262_view d (sx1262_fill_capture_info blk irq off len raw frame d)"
  by (simp add: sx1262_fill_capture_info_def sx1262_frames Let_def case_prod_beta populate_capture_base_def
      chip_command_def busy_frame bus_step_mono [OF busy_frame(1)] sx1262_opcode_effect_def)

lemma sx1262_frequency:
  "chip_command sx1262_view f ((sx1262_view (drv_log d))\<lparr>cv_freq_word := sx1262_freq_reg f\<rparr>) d (sx1262_set_frequency_register f d)"
  using read32_be32 [of "sx1262_freq_reg f" "[]"]
  by (simp add: sx1262_set_frequency_register_def sx1262_frames chip_command_def busy_frame
      bus_step_mono [OF busy_frame(1)] sx1262_opcode_effect_def)

interpretation sx1262: soft_radio sx1262_ops sx1262_view sx1262_freq_reg "\<lambda>v. v"
proof unfold_locales
qed (simp_all add: sx1262_ops_def sx1262_workaround sx1262_capture sx1262_frequency,
     (simp_all add: sx1262_commands case_prod_beta busy_frame sx1262_frame sx1262_opcode_effect_def build_gfsk_packet_params_def Let_def)?,
     simp_all add: chip_command_def)

section \<open>After the configuration\<close>

lemma sx1262_write_views:
  "sx1262_view (drv_log (sx1262_write_opcode opcode ps d)) = sx1262_opcode_effect opcode ps (sx1262_view (drv_log d))"
  "drv_current_freq (sx1262_write_opcode opcode ps d) = drv_current_freq d"
  "sx1262_view (drv_log (sx1262_write_register addr ps d)) =
     sx1262_opcode_effect SX1262_WRITE_REGISTER (hi8 addr # lo8 addr # ps) (sx1262_view (drv_log d))"
  "drv_current_freq (sx1262_write_register addr ps d) = drv_current_freq d"
  "sx1262_view (drv_log (snd (sx1262_read_register addr n d))) = sx1262_view (drv_log d)"
  "drv_current_freq (snd (sx1262_read_register addr n d)) = drv_current_freq d"
  "sx1262_view (drv_log (snd (sx1262_get_device_errors d))) = sx1262_view (drv_log d)"
  "drv_current_freq (snd (sx1262_get_device_errors d)) = drv_current_freq d"
  by (simp_all add: sx1262_frames sx1262_get_device_errors_def case_prod_beta busy_frame sx1262_opcode_effect_def)

text \<open>The chip listens on channel 2 and nothing has been sent, whatever it answered.\<close>

lemma sx1262_configured:
  "drv_current_freq (sx1262_configure_radio d) = FREQ_CH2 \<and>
   cv_freq_word (sx1262_view (drv_log (sx1262_configure_radio d))) = sx1262_freq_reg FREQ_CH2 \<and>
   cv_mode (sx1262_view (drv_log (sx1262_configure_radio d))) = Listening \<and>
   cv_air (sx1262_view (drv_log (sx1262_configure_radio d))) = cv_air (sx1262_view (drv_log d))"
proof -
  have quiet: "cv_air (sx1262_opcode_effect opcode ps v) = cv_air v" if "opcode \<noteq> SX1262_SET_TX" for opcode ps v
    using that by (simp add: sx1262_opcode_effect_def change_mode_def set_packet_def overwrite_def)
  have same: "cv_freq_word (sx1262_opcode_effect opcode ps v) = cv_freq_word v" if "opcode \<noteq> SX1262_SET_RF_FREQUENCY" for opcode ps v
    using that by (simp add: sx1262_opcode_effect_def change_mode_def set_packet_def overwrite_def emit_def)
  have set: "cv_freq_word (sx1262_opcode_effect SX1262_SET_RF_FREQUENCY (be32 w) v) = w" for w v
    using read32_be32 [of w "[]"] by (simp add: sx1262_opcode_effect_def)
  have rx: "cv_mode (sx1262_opcode_effect SX1262_SET_RX ps v) = Listening" for ps v
    by (simp add: sx1262_opcode_effect_def change_mode_def)
  have event: "drv_log (tell_event Attach_interrupt d) = drv_log d @ [Attach_interrupt]"
    "drv_current_freq (tell_event Attach_interrupt d) = drv_current_freq d" for d
    by (simp_all add: tell_event_def)
  show ?thesis
    by (simp add: sx1262_configure_radio_def Let_def case_prod_beta sx1262_write_views quiet same set rx event
        sx1262_set_packet_params_def sx1262_set_rx_packet_params_def sx1262_write_modulation_params_def
        sx1262_clear_irq_status_def sx1262_clear_device_errors_def sx1262_configure_buffer_base_def
        sx1262_set_frequency_register_def drv_delay_def)
qed

end
