(* ===== verification/Radio_Lr1121.thy ===== *)
theory Radio_Lr1121
  imports Soft_Phy_Driver
begin

text \<open>
  The LR1121 (\<open>radio_lr1121.h\<close>, \<open>radio_lr1121.cpp\<close>): its two-transaction commands, the functions the
  shared driver flow calls, the errata writes, the configuration sequence and the start-up. The theory
  provides the instance \<open>lr1121_ops\<close> of the chip interface and interprets \<open>soft_radio\<close> on it. What is
  printed about rejected commands, the firmware and the diagnostics is left out.
\<close>

section \<open>Constants\<close>

abbreviation (input) LR1121_CMD_GET_STATUS :: u16 where "LR1121_CMD_GET_STATUS \<equiv> 0x0100"
abbreviation (input) LR1121_CMD_GET_VERSION :: u16 where "LR1121_CMD_GET_VERSION \<equiv> 0x0101"
abbreviation (input) LR1121_CMD_GET_ERRORS :: u16 where "LR1121_CMD_GET_ERRORS \<equiv> 0x010D"
abbreviation (input) LR1121_CMD_CLEAR_ERRORS :: u16 where "LR1121_CMD_CLEAR_ERRORS \<equiv> 0x010E"
abbreviation (input) LR1121_CMD_WRITE_BUFFER :: u16 where "LR1121_CMD_WRITE_BUFFER \<equiv> 0x0109"
abbreviation (input) LR1121_CMD_READ_BUFFER :: u16 where "LR1121_CMD_READ_BUFFER \<equiv> 0x010A"
abbreviation (input) LR1121_CMD_WRITE_REG_MEM_MASK32 :: u16 where "LR1121_CMD_WRITE_REG_MEM_MASK32 \<equiv> 0x010C"
abbreviation (input) LR1121_CMD_CALIBRATE :: u16 where "LR1121_CMD_CALIBRATE \<equiv> 0x010F"
abbreviation (input) LR1121_CMD_CALIBRATE_IMAGE :: u16 where "LR1121_CMD_CALIBRATE_IMAGE \<equiv> 0x0111"
abbreviation (input) LR1121_CMD_SET_DIO_AS_RF_SWITCH :: u16 where "LR1121_CMD_SET_DIO_AS_RF_SWITCH \<equiv> 0x0112"
abbreviation (input) LR1121_CMD_SET_DIO_IRQ_PARAMS :: u16 where "LR1121_CMD_SET_DIO_IRQ_PARAMS \<equiv> 0x0113"
abbreviation (input) LR1121_CMD_CLEAR_IRQ :: u16 where "LR1121_CMD_CLEAR_IRQ \<equiv> 0x0114"
abbreviation (input) LR1121_CMD_SET_TCXO_MODE :: u16 where "LR1121_CMD_SET_TCXO_MODE \<equiv> 0x0117"
abbreviation (input) LR1121_CMD_SET_STANDBY :: u16 where "LR1121_CMD_SET_STANDBY \<equiv> 0x011C"
abbreviation (input) LR1121_CMD_GET_RX_BUFFER_STATUS :: u16 where "LR1121_CMD_GET_RX_BUFFER_STATUS \<equiv> 0x0203"
abbreviation (input) LR1121_CMD_GET_PKT_STATUS :: u16 where "LR1121_CMD_GET_PKT_STATUS \<equiv> 0x0204"
abbreviation (input) LR1121_CMD_GET_RSSI_INST :: u16 where "LR1121_CMD_GET_RSSI_INST \<equiv> 0x0205"
abbreviation (input) LR1121_CMD_SET_GFSK_SYNC_WORD :: u16 where "LR1121_CMD_SET_GFSK_SYNC_WORD \<equiv> 0x0206"
abbreviation (input) LR1121_CMD_SET_RX :: u16 where "LR1121_CMD_SET_RX \<equiv> 0x0209"
abbreviation (input) LR1121_CMD_SET_TX :: u16 where "LR1121_CMD_SET_TX \<equiv> 0x020A"
abbreviation (input) LR1121_CMD_SET_RF_FREQUENCY :: u16 where "LR1121_CMD_SET_RF_FREQUENCY \<equiv> 0x020B"
abbreviation (input) LR1121_CMD_SET_PACKET_TYPE :: u16 where "LR1121_CMD_SET_PACKET_TYPE \<equiv> 0x020E"
abbreviation (input) LR1121_CMD_SET_MODULATION_PARAMS :: u16 where "LR1121_CMD_SET_MODULATION_PARAMS \<equiv> 0x020F"
abbreviation (input) LR1121_CMD_SET_PACKET_PARAMS :: u16 where "LR1121_CMD_SET_PACKET_PARAMS \<equiv> 0x0210"
abbreviation (input) LR1121_CMD_SET_TX_PARAMS :: u16 where "LR1121_CMD_SET_TX_PARAMS \<equiv> 0x0211"
abbreviation (input) LR1121_CMD_SET_RX_TX_FALLBACK_MODE :: u16 where "LR1121_CMD_SET_RX_TX_FALLBACK_MODE \<equiv> 0x0213"
abbreviation (input) LR1121_CMD_SET_PA_CONFIG :: u16 where "LR1121_CMD_SET_PA_CONFIG \<equiv> 0x0215"
abbreviation (input) LR1121_IRQ_TX_DONE :: u32 where "LR1121_IRQ_TX_DONE \<equiv> 0x4"
abbreviation (input) LR1121_IRQ_RX_DONE :: u32 where "LR1121_IRQ_RX_DONE \<equiv> 0x8"
abbreviation (input) LR1121_IRQ_PREAMBLE_DETECTED :: u32 where "LR1121_IRQ_PREAMBLE_DETECTED \<equiv> 0x10"
abbreviation (input) LR1121_IRQ_SYNC_WORD_VALID :: u32 where "LR1121_IRQ_SYNC_WORD_VALID \<equiv> 0x20"
abbreviation (input) LR1121_IRQ_CRC_ERR :: u32 where "LR1121_IRQ_CRC_ERR \<equiv> 0x80"
abbreviation (input) LR1121_IRQ_TIMEOUT :: u32 where "LR1121_IRQ_TIMEOUT \<equiv> 0x400"
abbreviation (input) LR1121_IRQ_ACTIVITY_MASK :: u32 where
  "LR1121_IRQ_ACTIVITY_MASK \<equiv> LR1121_IRQ_TX_DONE OR LR1121_IRQ_RX_DONE OR LR1121_IRQ_SYNC_WORD_VALID OR LR1121_IRQ_CRC_ERR OR LR1121_IRQ_TIMEOUT"
abbreviation (input) LR1121_IRQ_DIO_ENABLE_MASK :: u32 where
  "LR1121_IRQ_DIO_ENABLE_MASK \<equiv> LR1121_IRQ_TX_DONE OR LR1121_IRQ_RX_DONE OR LR1121_IRQ_PREAMBLE_DETECTED OR LR1121_IRQ_SYNC_WORD_VALID OR LR1121_IRQ_TIMEOUT"
abbreviation (input) LR1121_DEVICE_TYPE :: u8 where "LR1121_DEVICE_TYPE \<equiv> 0x03"
abbreviation (input) LR1121_KNOWN_LATEST_FW_MAJOR :: u8 where "LR1121_KNOWN_LATEST_FW_MAJOR \<equiv> 0x01"
abbreviation (input) LR1121_KNOWN_LATEST_FW_MINOR :: u8 where "LR1121_KNOWN_LATEST_FW_MINOR \<equiv> 0x04"
abbreviation (input) LR1121_PACKET_TYPE_GFSK :: u8 where "LR1121_PACKET_TYPE_GFSK \<equiv> 0x01"
abbreviation (input) LR1121_GFSK_CRC_OFF :: u8 where "LR1121_GFSK_CRC_OFF \<equiv> 0x01"
abbreviation (input) LR1121_GFSK_PACKET_FIXED_LENGTH :: u8 where "LR1121_GFSK_PACKET_FIXED_LENGTH \<equiv> 0x00"
abbreviation (input) LR1121_PREAMBLE_DETECTOR_16_BIT :: u8 where "LR1121_PREAMBLE_DETECTOR_16_BIT \<equiv> 0x05"
abbreviation (input) LR1121_SYNC_WORD_PARAM_24_BITS :: u8 where "LR1121_SYNC_WORD_PARAM_24_BITS \<equiv> 0x18"
abbreviation (input) LR1121_CALIBRATE_ALL_BLOCKS :: u8 where "LR1121_CALIBRATE_ALL_BLOCKS \<equiv> 0x3F"
abbreviation (input) LR1121_FALLBACK_STDBY_XOSC :: u8 where "LR1121_FALLBACK_STDBY_XOSC \<equiv> 0x02"
abbreviation (input) LR1121_RX_BUFFER_BASE :: u8 where "LR1121_RX_BUFFER_BASE \<equiv> 0x00"
abbreviation (input) LR1121_REG_HIGH_ACP_WORKAROUND_ADDR :: u32 where "LR1121_REG_HIGH_ACP_WORKAROUND_ADDR \<equiv> 0x00F30054"
abbreviation (input) LR1121_REG_HIGH_ACP_WORKAROUND_MASK :: u32 where "LR1121_REG_HIGH_ACP_WORKAROUND_MASK \<equiv> 0x40000000"
abbreviation (input) LR1121_REG_HIGH_ACP_WORKAROUND_VALUE :: u32 where "LR1121_REG_HIGH_ACP_WORKAROUND_VALUE \<equiv> 0x00000000"
abbreviation (input) LR1121_REG_GFSK_WORKAROUND_1_ADDR :: u32 where "LR1121_REG_GFSK_WORKAROUND_1_ADDR \<equiv> 0x00F20344"
abbreviation (input) LR1121_REG_GFSK_WORKAROUND_1_MASK :: u32 where "LR1121_REG_GFSK_WORKAROUND_1_MASK \<equiv> 0x00000030"
abbreviation (input) LR1121_REG_GFSK_WORKAROUND_1_VALUE :: u32 where "LR1121_REG_GFSK_WORKAROUND_1_VALUE \<equiv> 0x00000010"
abbreviation (input) LR1121_REG_GFSK_WORKAROUND_2_ADDR :: u32 where "LR1121_REG_GFSK_WORKAROUND_2_ADDR \<equiv> 0x00F20348"
abbreviation (input) LR1121_REG_GFSK_WORKAROUND_2_MASK :: u32 where "LR1121_REG_GFSK_WORKAROUND_2_MASK \<equiv> 0x00000005"
abbreviation (input) LR1121_REG_GFSK_WORKAROUND_2_VALUE :: u32 where "LR1121_REG_GFSK_WORKAROUND_2_VALUE \<equiv> 0x00000001"
abbreviation (input) LR1121_REG_GFSK_WORKAROUND_3_ADDR :: u32 where "LR1121_REG_GFSK_WORKAROUND_3_ADDR \<equiv> 0x00F20244"
abbreviation (input) LR1121_REG_GFSK_WORKAROUND_3_MASK :: u32 where "LR1121_REG_GFSK_WORKAROUND_3_MASK \<equiv> 0x0001FF03"
abbreviation (input) LR1121_REG_GFSK_WORKAROUND_3_VALUE :: u32 where "LR1121_REG_GFSK_WORKAROUND_3_VALUE \<equiv> 0x00000A01"
abbreviation (input) LR1121_IMAGE_CAL_FREQ1 :: u8 where "LR1121_IMAGE_CAL_FREQ1 \<equiv> 0xD7"
abbreviation (input) LR1121_IMAGE_CAL_FREQ2 :: u8 where "LR1121_IMAGE_CAL_FREQ2 \<equiv> 0xDB"
abbreviation (input) LR1121_RFSWITCH_ENABLE_DIO5_DIO6 :: u8 where "LR1121_RFSWITCH_ENABLE_DIO5_DIO6 \<equiv> 0x03"
abbreviation (input) LR1121_RFSWITCH_STANDBY :: u8 where "LR1121_RFSWITCH_STANDBY \<equiv> 0x00"
abbreviation (input) LR1121_RFSWITCH_RX :: u8 where "LR1121_RFSWITCH_RX \<equiv> 0x01"
abbreviation (input) LR1121_RFSWITCH_TX :: u8 where "LR1121_RFSWITCH_TX \<equiv> 0x02"
abbreviation (input) LR1121_RFSWITCH_TX_HP :: u8 where "LR1121_RFSWITCH_TX_HP \<equiv> 0x02"
abbreviation (input) LR1121_RFSWITCH_TX_HF :: u8 where "LR1121_RFSWITCH_TX_HF \<equiv> 0x00"
abbreviation (input) LR1121_RFSWITCH_GNSS :: u8 where "LR1121_RFSWITCH_GNSS \<equiv> 0x00"
abbreviation (input) LR1121_RFSWITCH_WIFI :: u8 where "LR1121_RFSWITCH_WIFI \<equiv> 0x00"
abbreviation (input) LR1121_BUSY_TIMEOUT_MS :: u32 where "LR1121_BUSY_TIMEOUT_MS \<equiv> 3000"
abbreviation (input) LR1121_TCXO_STARTUP_DELAY_TICKS_MSB :: u8 where "LR1121_TCXO_STARTUP_DELAY_TICKS_MSB \<equiv> 0x00"
abbreviation (input) LR1121_TCXO_STARTUP_DELAY_TICKS_MID :: u8 where "LR1121_TCXO_STARTUP_DELAY_TICKS_MID \<equiv> 0x01"
abbreviation (input) LR1121_TCXO_STARTUP_DELAY_TICKS_LSB :: u8 where "LR1121_TCXO_STARTUP_DELAY_TICKS_LSB \<equiv> 0x40"

definition lr1121_firmware_is_outdated :: "u8 \<Rightarrow> u8 \<Rightarrow> bool" where
  "lr1121_firmware_is_outdated fw_major fw_minor \<longleftrightarrow>
     fw_major < LR1121_KNOWN_LATEST_FW_MAJOR \<or>
     fw_major = LR1121_KNOWN_LATEST_FW_MAJOR \<and> fw_minor < LR1121_KNOWN_LATEST_FW_MINOR"

section \<open>SPI communication\<close>

definition lr1121_write_command :: "u16 \<Rightarrow> bytes \<Rightarrow> driver \<Rightarrow> driver" where
  "lr1121_write_command opcode params d = snd (spi_frame ([hi8 opcode, lo8 opcode] @ params) 0 (wait_busy_line d))"

text \<open>The first byte clocked in is the command status.\<close>

definition lr1121_read_command :: "u16 \<Rightarrow> bytes \<Rightarrow> nat \<Rightarrow> driver \<Rightarrow> bytes \<times> driver" where
  "lr1121_read_command opcode params out_len d =
     (let d = lr1121_write_command opcode params d;
          (r, d) = spi_frame [] (Suc out_len) (wait_busy_line d)
      in (tl r, d\<lparr>drv_stat1 := hd r\<rparr>))"

text \<open>Whether the status says that the previous command failed or was not understood.\<close>

definition lr1121_command_rejected :: "u8 \<Rightarrow> bool" where
  "lr1121_command_rejected stat1 = (let cmd_status = drop_bit 1 stat1 AND 0x07 in cmd_status = 0x00 \<or> cmd_status = 0x01)"

definition lr1121_write_reg_mem_mask32 :: "u32 \<Rightarrow> u32 \<Rightarrow> u32 \<Rightarrow> driver \<Rightarrow> driver" where
  "lr1121_write_reg_mem_mask32 addr mask32 v d =
     lr1121_write_command LR1121_CMD_WRITE_REG_MEM_MASK32 (be32 addr @ be32 mask32 @ be32 v) d"

definition lr1121_apply_high_acp_workaround :: "driver \<Rightarrow> driver" where
  "lr1121_apply_high_acp_workaround d =
     lr1121_write_reg_mem_mask32 LR1121_REG_HIGH_ACP_WORKAROUND_ADDR LR1121_REG_HIGH_ACP_WORKAROUND_MASK
       LR1121_REG_HIGH_ACP_WORKAROUND_VALUE d"

definition lr1121_apply_gfsk_workaround :: "driver \<Rightarrow> driver" where
  "lr1121_apply_gfsk_workaround d =
     (let d = lr1121_write_reg_mem_mask32 LR1121_REG_GFSK_WORKAROUND_1_ADDR LR1121_REG_GFSK_WORKAROUND_1_MASK
                LR1121_REG_GFSK_WORKAROUND_1_VALUE d;
          d = lr1121_write_reg_mem_mask32 LR1121_REG_GFSK_WORKAROUND_2_ADDR LR1121_REG_GFSK_WORKAROUND_2_MASK
                LR1121_REG_GFSK_WORKAROUND_2_VALUE d
      in lr1121_write_reg_mem_mask32 LR1121_REG_GFSK_WORKAROUND_3_ADDR LR1121_REG_GFSK_WORKAROUND_3_MASK
           LR1121_REG_GFSK_WORKAROUND_3_VALUE d)"

definition lr1121_calibrate_image :: "driver \<Rightarrow> driver" where
  "lr1121_calibrate_image d = lr1121_write_command LR1121_CMD_CALIBRATE_IMAGE [LR1121_IMAGE_CAL_FREQ1, LR1121_IMAGE_CAL_FREQ2] d"

definition lr1121_write_buffer :: "bytes \<Rightarrow> driver \<Rightarrow> driver" where
  "lr1121_write_buffer bs d = lr1121_write_command LR1121_CMD_WRITE_BUFFER bs d"

definition lr1121_read_buffer :: "u8 \<Rightarrow> nat \<Rightarrow> driver \<Rightarrow> bytes \<times> driver" where
  "lr1121_read_buffer offset len d = lr1121_read_command LR1121_CMD_READ_BUFFER [offset, of_nat len] len d"

definition lr1121_read_irq_status_raw :: "driver \<Rightarrow> u32 \<times> driver" where
  "lr1121_read_irq_status_raw d =
     (let (resp, d) = lr1121_read_command LR1121_CMD_GET_STATUS [] 5 d
      in (read32 (drop 1 resp), d))"

section \<open>What the shared flow calls\<close>

definition lr1121_set_packet_params :: "u16 \<Rightarrow> u8 \<Rightarrow> u8 \<Rightarrow> u8 \<Rightarrow> driver \<Rightarrow> driver" where
  "lr1121_set_packet_params preamble_len payload_len packet_type crc_type d =
     lr1121_write_command LR1121_CMD_SET_PACKET_PARAMS
       (build_gfsk_packet_params preamble_len LR1121_PREAMBLE_DETECTOR_16_BIT LR1121_SYNC_WORD_PARAM_24_BITS
          packet_type payload_len crc_type) d"

definition lr1121_set_rx_packet_params :: "driver \<Rightarrow> driver" where
  "lr1121_set_rx_packet_params d =
     lr1121_set_packet_params 8 SOFT_PHY_RX_PROBE_PACKET_LEN LR1121_GFSK_PACKET_FIXED_LENGTH LR1121_GFSK_CRC_OFF d"

definition lr1121_set_tx_packet_params :: "u16 \<Rightarrow> u8 \<Rightarrow> driver \<Rightarrow> driver" where
  "lr1121_set_tx_packet_params preamble_len payload_len d =
     lr1121_set_packet_params preamble_len payload_len LR1121_GFSK_PACKET_FIXED_LENGTH LR1121_GFSK_CRC_OFF d"

definition lr1121_write_modulation_params :: "driver \<Rightarrow> driver" where
  "lr1121_write_modulation_params d =
     lr1121_apply_gfsk_workaround
       (lr1121_write_command LR1121_CMD_SET_MODULATION_PARAMS (be32 38400 @ [0x0B, drv_bandwidth d] @ be32 19200) d)"

definition lr1121_get_errors :: "driver \<Rightarrow> u16 \<times> driver" where
  "lr1121_get_errors d =
     (let (errors_raw, d) = lr1121_read_command LR1121_CMD_GET_ERRORS [] 2 d
      in (be16 (errors_raw ! 0) (errors_raw ! 1), d))"

definition lr1121_clear_errors :: "driver \<Rightarrow> driver" where
  "lr1121_clear_errors d = lr1121_write_command LR1121_CMD_CLEAR_ERRORS [] d"

definition lr1121_clear_irq_status :: "u32 \<Rightarrow> driver \<Rightarrow> driver" where
  "lr1121_clear_irq_status irq_mask d = lr1121_write_command LR1121_CMD_CLEAR_IRQ (be32 irq_mask) d"

definition lr1121_fill_capture_info :: "bool \<Rightarrow> u32 \<Rightarrow> u8 \<Rightarrow> u8 \<Rightarrow> bytes \<Rightarrow> bytes \<Rightarrow> driver \<Rightarrow> driver" where
  "lr1121_fill_capture_info blocking_wait irq_status rx_offset reported_len raw frame d =
     (let (pkt_status, d) = lr1121_read_command LR1121_CMD_GET_PKT_STATUS [] 4 d;
          d = populate_capture_base blocking_wait (rssi_of_raw (pkt_status ! 0)) raw frame d
      in d\<lparr>drv_last_capture := (drv_last_capture d)
            \<lparr>cap_rx_done := irq_status AND LR1121_IRQ_RX_DONE \<noteq> 0,
             cap_crc_error := irq_status AND LR1121_IRQ_CRC_ERR \<noteq> 0,
             cap_irq_status := ucast (drop_bit 2 irq_status AND 0x01FF), cap_packet_status := pkt_status ! 3,
             cap_rx_offset := rx_offset, cap_reported_len := reported_len\<rparr>\<rparr>)"

definition lr1121_read_rssi_raw_byte :: "driver \<Rightarrow> u8 \<times> driver" where
  "lr1121_read_rssi_raw_byte d =
     (let (raw, d) = lr1121_read_command LR1121_CMD_GET_RSSI_INST [] 1 d in (raw ! 0, d))"

definition lr1121_get_rx_buffer_status :: "driver \<Rightarrow> (u8 \<times> u8) \<times> driver" where
  "lr1121_get_rx_buffer_status d =
     (let (rx_status, d) = lr1121_read_command LR1121_CMD_GET_RX_BUFFER_STATUS [] 2 d
      in ((rx_status ! 0, rx_status ! 1), d))"

definition lr1121_start_tx :: "driver \<Rightarrow> driver" where
  "lr1121_start_tx d = lr1121_write_command LR1121_CMD_SET_TX [0x03, 0xE8, 0x00] d"

definition lr1121_set_mode_standby :: "driver \<Rightarrow> driver" where
  "lr1121_set_mode_standby d = lr1121_write_command LR1121_CMD_SET_STANDBY [0x01] d"

definition lr1121_set_mode_rx :: "driver \<Rightarrow> driver" where
  "lr1121_set_mode_rx d =
     lr1121_write_command LR1121_CMD_SET_RX [0xFF, 0xFF, 0xFF] (lr1121_apply_high_acp_workaround d)"

definition lr1121_set_frequency_register :: "u32 \<Rightarrow> driver \<Rightarrow> driver" where
  "lr1121_set_frequency_register freq_hz d =
     (lr1121_write_command LR1121_CMD_SET_RF_FREQUENCY (be32 freq_hz) d)\<lparr>drv_current_freq := freq_hz\<rparr>"

definition lr1121_invalidate_stale_rx_content_after_tx :: "driver \<Rightarrow> driver" where
  "lr1121_invalidate_stale_rx_content_after_tx d =
     lr1121_write_buffer (replicate (unat (SOFT_PHY_EARLY_HEADER_RAW_BYTES)) 0) d"

definition lr1121_ops :: soft_phy_ops where
  "lr1121_ops = \<lparr>
     op_read_irq_status = lr1121_read_irq_status_raw,
     op_clear_irq_status = lr1121_clear_irq_status,
     op_sync_word_valid_bit = LR1121_IRQ_SYNC_WORD_VALID,
     op_rx_done_bit = LR1121_IRQ_RX_DONE,
     op_tx_done_bit = LR1121_IRQ_TX_DONE,
     op_preamble_detected_bit = LR1121_IRQ_PREAMBLE_DETECTED,
     op_activity_irq_mask = LR1121_IRQ_ACTIVITY_MASK,
     op_early_rx_read_offset = uint (LR1121_RX_BUFFER_BASE),
     op_set_frequency_register = lr1121_set_frequency_register,
     op_set_rx_packet_params = lr1121_set_rx_packet_params,
     op_set_tx_packet_params = lr1121_set_tx_packet_params,
     op_read_rssi_raw_byte = lr1121_read_rssi_raw_byte,
     op_write_tx_buffer = lr1121_write_buffer,
     op_get_rx_buffer_status = lr1121_get_rx_buffer_status,
     op_read_rx_buffer = lr1121_read_buffer,
     op_start_tx = lr1121_start_tx,
     op_fill_capture_info = lr1121_fill_capture_info,
     op_before_tx_arm = lr1121_apply_high_acp_workaround,
     op_configure_buffer_base = (\<lambda>d. d),
     op_invalidate_stale_rx = lr1121_invalidate_stale_rx_content_after_tx,
     op_set_mode_rx = lr1121_set_mode_rx,
     op_set_mode_standby = lr1121_set_mode_standby\<rparr>"

section \<open>Tuning\<close>

definition lr1121_set_rx_bandwidth :: "u8 \<Rightarrow> driver \<Rightarrow> driver" where
  "lr1121_set_rx_bandwidth bandwidth d = lr1121_write_modulation_params (d\<lparr>drv_bandwidth := bandwidth\<rparr>)"

definition lr1121_apply_tuning :: "tuning_config \<Rightarrow> driver \<Rightarrow> driver" where
  "lr1121_apply_tuning tuning d =
     (lr1121_set_rx_bandwidth (lr1121_rx_bandwidth tuning) d)
       \<lparr>drv_response_preamble := lr1121_response_preamble tuning,
        drv_post_tx_settle_us := lr1121_post_tx_settle_us tuning\<rparr>"

section \<open>Start-up\<close>

definition lr1121_power :: "u8 \<Rightarrow> bool \<times> u8" where
  "lr1121_power tx_power =
     (let use_hp_pa = tx_power > 14;
          min_power = (if use_hp_pa then -9 else -17);
          max_power = (if use_hp_pa then 22 else 14)
      in (use_hp_pa, word_of_int (max min_power (min max_power (sint tx_power)))))"

definition lr1121_configure_radio :: "driver \<Rightarrow> driver" where
  "lr1121_configure_radio d =
     (let (version, d) = lr1121_read_command LR1121_CMD_GET_VERSION [] 4 d
      in if version ! 1 \<noteq> LR1121_DEVICE_TYPE then d\<lparr>drv_failed := True\<rparr>
      else
        let d = lr1121_write_command LR1121_CMD_SET_TCXO_MODE
                  [drv_tcxo d - 1, LR1121_TCXO_STARTUP_DELAY_TICKS_MSB, LR1121_TCXO_STARTUP_DELAY_TICKS_MID,
                   LR1121_TCXO_STARTUP_DELAY_TICKS_LSB] d;
            d = lr1121_clear_errors d;
            d = drv_delay 5 (lr1121_write_command LR1121_CMD_CALIBRATE [LR1121_CALIBRATE_ALL_BLOCKS] d);
            d = lr1121_calibrate_image d;
            d = lr1121_write_command LR1121_CMD_SET_DIO_AS_RF_SWITCH
                  [LR1121_RFSWITCH_ENABLE_DIO5_DIO6, LR1121_RFSWITCH_STANDBY, LR1121_RFSWITCH_RX, LR1121_RFSWITCH_TX,
                   LR1121_RFSWITCH_TX_HP, LR1121_RFSWITCH_TX_HF, LR1121_RFSWITCH_GNSS, LR1121_RFSWITCH_WIFI] d;
            d = lr1121_write_command LR1121_CMD_SET_PACKET_TYPE [LR1121_PACKET_TYPE_GFSK] d;
            d = lr1121_set_frequency_register FREQ_CH2 d;
            d = lr1121_write_modulation_params d;
            d = lr1121_set_rx_packet_params d;
            d = lr1121_write_command LR1121_CMD_SET_GFSK_SYNC_WORD [0x57, 0xFD, 0x99, 0x00, 0x00, 0x00, 0x00, 0x00] d;
            (use_hp_pa, power) = lr1121_power (drv_tx_power d);
            d = lr1121_write_command LR1121_CMD_SET_PA_CONFIG [of_bool use_hp_pa, of_bool use_hp_pa, 0x04, 0x07] d;
            d = lr1121_write_command LR1121_CMD_SET_TX_PARAMS [power, 0x0C] d;
            d = lr1121_write_command LR1121_CMD_SET_RX_TX_FALLBACK_MODE [LR1121_FALLBACK_STDBY_XOSC] d;
            d = lr1121_write_command LR1121_CMD_SET_DIO_IRQ_PARAMS (be32 (LR1121_IRQ_DIO_ENABLE_MASK) @ be32 0) d;
            d = tell_event Attach_interrupt d;
            d = lr1121_clear_irq_status 0xFFFFFFFF d;
            d = lr1121_clear_errors d
        in lr1121_set_mode_rx d)"

definition lr1121_init :: "driver \<Rightarrow> bool \<times> driver" where
  "lr1121_init d =
     (let d = wait_busy_line (reset_hardware d)
      in if drv_failed d then (False, d)
      else let d = lr1121_configure_radio d in (\<not> drv_failed d, d))"

section \<open>The contract\<close>

text \<open>
  What the frames tell the chip, as the data sheet describes the commands the driver uses. The data buffer is
  one area for both directions and is always written from its start; the erratum of the transmitter is the
  masked register write that clears bit 30.
\<close>

definition lr1121_command_effect :: "u16 \<Rightarrow> bytes \<Rightarrow> chip_view \<Rightarrow> chip_view" where
  "lr1121_command_effect opcode ps v =
     (if opcode = LR1121_CMD_SET_STANDBY then change_mode Standing_by v
      else if opcode = LR1121_CMD_SET_RX then change_mode Listening v
      else if opcode = LR1121_CMD_SET_TX then emit v
      else if opcode = LR1121_CMD_SET_RF_FREQUENCY then v\<lparr>cv_freq_word := read32 ps\<rparr>
      else if opcode = LR1121_CMD_SET_PACKET_PARAMS then set_packet (be16 (ps ! 0) (ps ! 1)) (ps ! 6) v
      else if opcode = LR1121_CMD_WRITE_BUFFER then overwrite ps v
      else if opcode = LR1121_CMD_WRITE_REG_MEM_MASK32 \<and>
              take 8 ps = be32 LR1121_REG_HIGH_ACP_WORKAROUND_ADDR @ be32 LR1121_REG_HIGH_ACP_WORKAROUND_MASK
      then v\<lparr>cv_erratum := (read32 (drop 8 ps) AND LR1121_REG_HIGH_ACP_WORKAROUND_MASK = 0)\<rparr>
      else v)"

fun lr1121_event_effect :: "radio_event \<Rightarrow> chip_view \<Rightarrow> chip_view" where
  "lr1121_event_effect (Spi (a # b # ps)) v = lr1121_command_effect (be16 a b) ps v"
| "lr1121_event_effect _ v = v"

definition lr1121_view :: "radio_event list \<Rightarrow> chip_view" where
  "lr1121_view es = fold lr1121_event_effect es fresh_chip"

lemma lr1121_view_append [simp]: "lr1121_view (es @ fs) = fold lr1121_event_effect fs (lr1121_view es)"
  by (simp add: lr1121_view_def)

text \<open>Zeros driven while a reply is read are no command.\<close>

lemma lr1121_reply_frame [simp]: "lr1121_event_effect (Spi (0 # replicate n 0)) v = v"
  by (cases n) (simp_all add: be16_def lr1121_command_effect_def)

text \<open>A command is one frame, a request two; the second drives zeros only.\<close>

lemma lr1121_write_frame:
  "bus_step 1 d (lr1121_write_command opcode params d)"
  "drv_current_freq (lr1121_write_command opcode params d) = drv_current_freq d"
  "drv_log (lr1121_write_command opcode params d) = drv_log d @ [Spi (hi8 opcode # lo8 opcode # params)]"
  by (simp_all add: lr1121_write_command_def busy_frame busy_frame(1) [simplified])

lemma lr1121_read_frame:
  "bus_step 2 d (snd (lr1121_read_command opcode params n d))"
  "drv_current_freq (snd (lr1121_read_command opcode params n d)) = drv_current_freq d"
  "drv_log (snd (lr1121_read_command opcode params n d)) =
     drv_log d @ [Spi (hi8 opcode # lo8 opcode # params), Spi (0 # replicate n 0)]"
  "length (fst (lr1121_read_command opcode params n d)) = n"
proof -
  have "bus_step 2 d (snd (spi_frame [] (Suc n) (wait_busy_line (lr1121_write_command opcode params d))))"
    by (rule bus_step_trans [OF lr1121_write_frame(1) busy_frame(1)]) simp
  moreover have "bus_step k a (b\<lparr>drv_stat1 := s\<rparr>) \<longleftrightarrow> bus_step k a b" for k a b s
    by (simp add: bus_step_def script_size_def alarm_def)
  ultimately show "bus_step 2 d (snd (lr1121_read_command opcode params n d))"
    by (simp add: lr1121_read_command_def Let_def case_prod_beta)
qed (simp_all add: lr1121_read_command_def Let_def case_prod_beta lr1121_write_frame busy_frame)

lemma lr1121_write_plain:
  assumes "f = drv_current_freq d"
    and "m = lr1121_event_effect (Spi (hi8 opcode # lo8 opcode # params)) (lr1121_view (drv_log d))"
  shows "chip_command lr1121_view f m d (lr1121_write_command opcode params d)"
  using assms by (simp add: chip_command_def lr1121_write_frame bus_step_mono [OF lr1121_write_frame(1)])

lemma lr1121_read_plain:
  assumes "f = drv_current_freq d"
    and "m = lr1121_event_effect (Spi (hi8 opcode # lo8 opcode # params)) (lr1121_view (drv_log d))"
  shows "chip_command lr1121_view f m d (snd (lr1121_read_command opcode params n d))"
  using assms by (simp add: chip_command_def lr1121_read_frame bus_step_mono [OF lr1121_read_frame(1)])

lemma lr1121_high_acp:
  "viewed_command lr1121_view (cv_erratum_update (\<lambda>_. True)) d (lr1121_apply_high_acp_workaround d)"
proof -
  have "read32 (be32 0) = 0" using read32_be32 [of 0 "[]"] by simp
  then show ?thesis
    by (simp add: chip_command_def lr1121_apply_high_acp_workaround_def lr1121_write_reg_mem_mask32_def
        lr1121_write_frame bus_step_mono [OF lr1121_write_frame(1)] lr1121_command_effect_def)
qed

lemma lr1121_listen: "viewed_command lr1121_view (change_mode Listening) d (lr1121_set_mode_rx d)"
proof -
  have "bus_step 8 d (lr1121_set_mode_rx d)"
    unfolding lr1121_set_mode_rx_def lr1121_apply_high_acp_workaround_def lr1121_write_reg_mem_mask32_def
    by (rule bus_step_trans [OF lr1121_write_frame(1) lr1121_write_frame(1)]) simp
  then show ?thesis
    using lr1121_high_acp [of d]
    by (simp add: chip_command_def lr1121_set_mode_rx_def lr1121_write_frame lr1121_command_effect_def change_mode_def)
qed

text \<open>The front of the data buffer after the residue of a transmission has been overwritten.\<close>

definition lr1121_stale :: "chip_view \<Rightarrow> chip_view" where
  "lr1121_stale v = overwrite [0, 0, 0] v"

lemma lr1121_capture: "plain_command lr1121_view d (lr1121_fill_capture_info blk irq off len raw frame d)"
  by (simp add: lr1121_fill_capture_info_def lr1121_command_effect_def Let_def case_prod_beta populate_capture_base_def
      chip_command_def lr1121_read_frame bus_step_mono [OF lr1121_read_frame(1)])

lemma lr1121_frequency:
  "chip_command lr1121_view f ((lr1121_view (drv_log d))\<lparr>cv_freq_word := f\<rparr>) d (lr1121_set_frequency_register f d)"
  using read32_be32 [of f "[]"]
  by (simp add: lr1121_set_frequency_register_def chip_command_def lr1121_write_frame
      bus_step_mono [OF lr1121_write_frame(1)] lr1121_command_effect_def)

lemma lr1121_invalidate: "viewed_command lr1121_view lr1121_stale d (lr1121_invalidate_stale_rx_content_after_tx d)"
proof -
  have "unat (SOFT_PHY_EARLY_HEADER_RAW_BYTES) = Suc (Suc (Suc 0))" by simp
  then have "replicate (unat (SOFT_PHY_EARLY_HEADER_RAW_BYTES)) (0 :: u8) = [0, 0, 0]" by (simp only: replicate.simps)
  then show ?thesis
    unfolding lr1121_invalidate_stale_rx_content_after_tx_def lr1121_write_buffer_def lr1121_stale_def
    by (simp only:) (simp add: chip_command_def lr1121_write_frame bus_step_mono [OF lr1121_write_frame(1)] lr1121_command_effect_def)
qed

lemma lr1121_stale_keeps:
  "cv_mode (lr1121_stale v) = cv_mode v" "cv_freq_word (lr1121_stale v) = cv_freq_word v" "cv_air (lr1121_stale v) = cv_air v"
  by (simp_all add: lr1121_stale_def)

lemmas lr1121_commands = lr1121_read_irq_status_raw_def lr1121_clear_irq_status_def lr1121_set_rx_packet_params_def
  lr1121_set_tx_packet_params_def lr1121_set_packet_params_def lr1121_read_rssi_raw_byte_def lr1121_write_buffer_def
  lr1121_get_rx_buffer_status_def lr1121_read_buffer_def lr1121_start_tx_def lr1121_set_mode_standby_def
  lr1121_apply_high_acp_workaround_def lr1121_write_reg_mem_mask32_def

interpretation lr1121: soft_radio lr1121_ops lr1121_view "\<lambda>f. f" lr1121_stale
proof unfold_locales
qed (simp_all add: lr1121_ops_def lr1121_listen lr1121_capture lr1121_frequency lr1121_high_acp lr1121_invalidate lr1121_stale_keeps,
     (simp_all add: lr1121_commands Let_def case_prod_beta lr1121_read_frame lr1121_write_plain lr1121_read_plain
        lr1121_command_effect_def build_gfsk_packet_params_def)?,
     simp_all add: chip_command_def)

section \<open>After the configuration\<close>

lemma lr1121_write_views:
  "lr1121_view (drv_log (lr1121_write_command opcode ps d)) = lr1121_command_effect opcode ps (lr1121_view (drv_log d))"
  "lr1121_view (drv_log (snd (lr1121_read_command opcode ps n d))) = lr1121_command_effect opcode ps (lr1121_view (drv_log d))"
  by (simp_all add: lr1121_write_frame lr1121_read_frame)

text \<open>A chip that identifies itself listens on channel 2 and nothing has been sent; any other is left alone.\<close>

lemma lr1121_configured:
  assumes "\<not> drv_failed (lr1121_configure_radio d)"
  shows "drv_current_freq (lr1121_configure_radio d) = FREQ_CH2 \<and>
    cv_freq_word (lr1121_view (drv_log (lr1121_configure_radio d))) = FREQ_CH2 \<and>
    cv_mode (lr1121_view (drv_log (lr1121_configure_radio d))) = Listening \<and>
    cv_air (lr1121_view (drv_log (lr1121_configure_radio d))) = cv_air (lr1121_view (drv_log d))"
proof -
  have identified: "fst (lr1121_read_command LR1121_CMD_GET_VERSION [] 4 d) ! 1 = LR1121_DEVICE_TYPE"
    using assms by (auto simp: lr1121_configure_radio_def Let_def case_prod_beta split: if_splits)
  have quiet: "cv_air (lr1121_command_effect opcode ps v) = cv_air v" if "opcode \<noteq> LR1121_CMD_SET_TX" for opcode ps v
    using that by (simp add: lr1121_command_effect_def change_mode_def set_packet_def overwrite_def)
  have same: "cv_freq_word (lr1121_command_effect opcode ps v) = cv_freq_word v" if "opcode \<noteq> LR1121_CMD_SET_RF_FREQUENCY" for opcode ps v
    using that by (simp add: lr1121_command_effect_def change_mode_def set_packet_def overwrite_def emit_def)
  have set: "cv_freq_word (lr1121_command_effect LR1121_CMD_SET_RF_FREQUENCY (be32 w) v) = w" for w v
    using read32_be32 [of w "[]"] by (simp add: lr1121_command_effect_def)
  have rx: "cv_mode (lr1121_command_effect LR1121_CMD_SET_RX ps v) = Listening" for ps v
    by (simp add: lr1121_command_effect_def change_mode_def)
  have event: "drv_log (tell_event Attach_interrupt d) = drv_log d @ [Attach_interrupt]"
    "drv_current_freq (tell_event Attach_interrupt d) = drv_current_freq d" for d
    by (simp_all add: tell_event_def)
  show ?thesis
    using identified
    by (simp add: lr1121_configure_radio_def Let_def case_prod_beta lr1121_write_views lr1121_write_frame(2)
        lr1121_read_frame(2) quiet same set rx event lr1121_clear_errors_def lr1121_calibrate_image_def
        lr1121_set_frequency_register_def lr1121_write_modulation_params_def lr1121_apply_gfsk_workaround_def
        lr1121_write_reg_mem_mask32_def lr1121_set_rx_packet_params_def lr1121_set_packet_params_def
        lr1121_clear_irq_status_def lr1121_set_mode_rx_def lr1121_apply_high_acp_workaround_def drv_delay_def)
qed

end
