(* ===== verification/Spec2Isabelle.thy ===== *)
theory Spec2Isabelle
  imports Soft_Phy Operation_Queue Decisions Sequence_Store Poll_Policy Registry Tuning Telemetry Exchange Pairing
    Oneway Key_Extraction Hub_Support Key_Adoption Hub_Status Hub_Operations Firmware_Update Frame_Log Probe_Arguments Management
    Soft_Phy_Link
begin

text \<open>
  A model of \<open>src/components/home_io_control\<close>, an ESPHome component that makes a microcontroller with a
  sub-gigahertz radio a controller of io-homecontrol devices (roller shutters, awnings, windows,
  locks, lights). All file names below are relative to that directory; \<open>h/cpp\<close> stands for both files of
  a part.

  \<^bold>\<open>The program.\<close> The hub (\<open>hub_core.h/cpp\<close>) owns everything. Two-way devices are paired and hold the hub's
  system key: every command is a frame that the device challenges and the hub answers with an
  authenticator under that key (\<open>exchange_engine.h/cpp\<close>), and every status a device reports on its own
  is challenged by the hub in turn. One-way devices only listen: the hub sends them bursts with a
  rolling sequence that must never repeat, across reboots too (\<open>oneway_transmitter\<close>,
  \<open>oneway_sequence_store\<close>). The hub can also play the device in order to obtain the key of another
  controller (\<open>pairing_responder\<close>, \<open>hub_key_extraction\<close>) and can adopt the key of an overheard remote
  (\<open>hub_oneway_key_adoption\<close>). User requests wait in an operation queue and are carried out one at a time
  by \<open>loop()\<close>, which also receives, polls and hops over the three channels. On boards with an LR1121
  the hub rewrites the firmware of the radio chip (\<open>hub_lr1121_firmware_update\<close>).

  \<^bold>\<open>Theories and sources, from the bottom up.\<close>
  \<^item> \<open>Prelude\<close>: word types, fixed buffers, \<open>std::map\<close> as an ordered association list, and the locale
    \<open>machine\<close> (a start, a step function, an invariant) that the stateful components interpret.
  \<^item> \<open>Constants\<close>: \<open>proto_constants\<close>, \<open>proto_sizes\<close>, \<open>proto_timing\<close>. \<open>Frame\<close>: \<open>proto_frame\<close>; \<open>IoFrame\<close> is the
    record \<open>io_frame\<close>, \<open>serialize\<close> and \<open>parse\<close> with the authenticator that may trail the declared length.
    \<open>Frame_Log\<close>: \<open>log_frame.h\<close>, \<open>redaction.h\<close>.
  \<^item> \<open>Aes\<close>, \<open>Protocol_Crypto\<close>: \<open>proto_crypto\<close>, the cipher from its tables up, checksum, initialization
    vectors, authenticators, key wraps (locale \<open>keystream\<close>).
  \<^item> \<open>Device_Model\<close>: \<open>proto_device_model\<close>; \<open>Codecs\<close>: \<open>proto_codecs\<close>; \<open>Commands\<close>: \<open>proto_commands\<close>, one function per
    frame builder; \<open>Soft_Phy\<close>: \<open>radio_soft_phy\<close>, the bit-level line coding in software.
  \<^item> \<open>Decisions\<close>: \<open>hub_decisions.h\<close>; \<open>Tuning\<close>: \<open>tuning_config\<close>, \<open>tuning_registry\<close>; \<open>Telemetry\<close>: \<open>pairing_telemetry\<close>,
    \<open>pairing_advisor\<close>.
  \<^item> \<open>Radio_Link\<close>: the radio and the three primitives of the engine (hop, transmit, listen); \<open>Exchange\<close>: the
    rest of \<open>exchange_engine\<close>; \<open>Pairing\<close>: \<open>pairing_engine\<close>.
  \<^item> \<open>Radio_Bus\<close>: \<open>radio_interface\<close> and the bus of the chips; \<open>Soft_Phy_Driver\<close>: \<open>radio_soft_phy_driver_base\<close>,
    the flow of the two chips without hardware framing; \<open>Radio_Sx1262\<close>, \<open>Radio_Lr1121\<close>: \<open>radio_sx1262\<close>,
    \<open>radio_lr1121\<close>; \<open>Soft_Phy_Link\<close>: what flow and chips achieve together.
  \<^item> \<open>Operation_Queue\<close>, \<open>Poll_Policy\<close>, \<open>Registry\<close>, \<open>Sequence_Store\<close>, \<open>Oneway\<close>: the classes of the same names.
  \<^item> \<open>Key_Extraction\<close>, \<open>Key_Adoption\<close>, \<open>Hub_Support\<close> (\<open>hub_internal.h\<close>), \<open>Hub_Status\<close> (\<open>hub_status.cpp\<close>, received
    frames), \<open>Hub_Operations\<close> (\<open>hub_operations.cpp\<close> and \<open>loop()\<close>): the hub, whose state is the record \<open>hub\<close>.
  \<^item> \<open>Chip_Updater\<close>, \<open>Firmware_Update\<close>: \<open>radio_lr1121_firmware_updater\<close>, \<open>lr1121_firmware_decisions.h\<close>,
    \<open>hub_lr1121_firmware_update.cpp\<close>.
  \<^item> \<open>Probe_Arguments\<close>, \<open>Management\<close>: \<open>management_actions\<close>.

  \<^bold>\<open>How the code is rendered.\<close> A class is a record and its methods are functions from the record to the
  result and the new record. Machine integers are words, so that the wrap of \<open>millis()\<close> and of the 16-bit
  sequences is the code's; positions, which the code keeps as \<open>float\<close>, are rationals. A C++ \<open>std::map\<close> is
  an association list in key order. What the hardware decides is an argument: a radio carries a script
  of the receptions, of the outcomes of transmissions and of the noise readings to come (a silent air
  lets every wait run into its timeout), a driver carries scripts of what its chip answers, of its BUSY
  line and of its interrupts, and logs what it drives, a chip bus carries the answers and the moments of its BUSY
  line, a flash write its outcome, and random challenges are parameters. Every property therefore
  quantifies over what the environment may do. Log lines are left out unless their text is the result.

  \<^bold>\<open>Interfaces.\<close> \<open>listener\<close> (in \<open>Radio_Link\<close>) is what a caller of the listen loop supplies and what it may then
  conclude; the two waits of an exchange, the roll-call, the discovery and the key waits of pairing
  interpret it. \<open>frame_port\<close> (in \<open>Oneway\<close>) is what the one-way transmitter needs of a radio; the engine
  provides it. \<open>soft_radio\<close> (in \<open>Soft_Phy_Driver\<close>) is the contract of a chip under the shared driver flow: what
  each command tells the chip, and that it uses the bus for a few frames only; the SX1262 and the LR1121
  interpret it, each with its own reading of the frames it was sent. \<open>machine\<close> gives invariants over all histories; queue, poll policy, registry, adoption and
  firmware update interpret it.

  \<^bold>\<open>Termination and bounds.\<close> The listen loop is recursion on (length of the air, remaining window); it
  returns unless the hop dwell is zero in a silent band, which is the value \<open>None\<close>, and the properties that
  claim a return assume a non-zero dwell or an air in which it does not matter. An exchange makes one to
  three tries of at most two frames. The polling loops of the driver are partial functions; they end,
  because each pass uses up a piece of the chip's script or an interrupt to come or brings the timeout
  nearer, for timeouts below 2 to the 31 milliseconds. The image writer recurses on the words left. Everything else is
  structural.

  \<^bold>\<open>What the properties show.\<close> Transport: serializer, parser, software line coding and the wraps of keys are
  inverse to each other, builders leave well-formed frames. Drivers: what was passed to transmissions goes
  on the air as it is, in order, and is recovered by the peer's driver, the receiver is left listening,
  full receptions deliver checked frames only and never the own transmission. Authentication: what an exchange returns was
  heard from the asked device, an authenticated command is executed once, a frame is believed only if it
  answered the hub's challenge, the system key leaves the node only under a challenge of the device being
  paired. State: the queue, the registry and the poll policy keep their invariants over all histories,
  predictions never touch what was reported and are withdrawn by a failure. One-way: no sequence is
  spent twice. Liveness: the loop, an exchange, pairing and a scan return, an armed extraction ends, a
  chip that was put into its bootloader is initialized again or the controller restarts. Firmware: the
  irreversible rewrite is sent only behind all its checks, once, and over exactly the loader image.

  \<^bold>\<open>Not modelled.\<close> The ESPHome entity classes (\<open>platform_*.cpp\<close>, \<open>tuning_entities.cpp\<close>), which forward between
  Home Assistant and the functions modelled here; the assembly of the parts in \<open>setup()\<close> and the
  configuration dump of \<open>hub_core.cpp\<close>, except for the start of the firmware update; the encoding of the
  service list of the native API; the driver of the SX1276 (\<open>radio_sx1276\<close>), whose hardware does the framing
  and whose code is register traffic; the configuration dumps and printed diagnostics of the other two. The
  engines talk to the radio of \<open>Radio_Link\<close>, which is a script of receptions; the drivers are a layer of
  their own below it and the two are not connected by a proof.
\<close>

end
